(* ===== verification/Trench_Prelude.thy ===== *)
theory Trench_Prelude
  imports Main "HOL-Library.Word" "HOL-Library.Char_ord" "HOL-Library.List_Lexorder"
begin

text \<open>
  Shared vocabulary of the development: Rust's fixed-width integers with their saturating
  and checked operations, the fallible result type, the string operations of the Rust
  standard library that the code uses (on ASCII text), and the generic facts about words,
  sums and lists that the component theories share.
  Rust's \<^verbatim>\<open>u64\<close> is a \<^verbatim>\<open>64 word\<close> read by \<^term>\<open>unat\<close>; \<^verbatim>\<open>i64\<close> is the same
  word read by \<^term>\<open>sint\<close>.
\<close>

section \<open>Machine integers\<close>

type_synonym u8 = "8 word"
type_synonym u16 = "16 word"
type_synonym u32 = "32 word"
type_synonym u64 = "64 word"
type_synonym u128 = "128 word"
type_synonym i64 = "64 word"
type_synonym i128 = "128 word"

named_theorems word_norm \<open>facts that move word operations to naturals and integers\<close>

definition max_word :: "'a::len word" where
  "max_word = - 1"

definition sat_add :: "'a::len word \<Rightarrow> 'a word \<Rightarrow> 'a word" where
  "sat_add a b = (if unat a + unat b < 2 ^ LENGTH('a) then a + b else max_word)"

definition sat_sub :: "'a::len word \<Rightarrow> 'a word \<Rightarrow> 'a word" where
  "sat_sub a b = (if b \<le> a then a - b else 0)"

definition sat_mul :: "'a::len word \<Rightarrow> 'a word \<Rightarrow> 'a word" where
  "sat_mul a b = (if unat a * unat b < 2 ^ LENGTH('a) then a * b else max_word)"

definition checked_add :: "'a::len word \<Rightarrow> 'a word \<Rightarrow> 'a word option" where
  "checked_add a b = (if unat a + unat b < 2 ^ LENGTH('a) then Some (a + b) else None)"

definition checked_sub :: "'a::len word \<Rightarrow> 'a word \<Rightarrow> 'a word option" where
  "checked_sub a b = (if b \<le> a then Some (a - b) else None)"

definition checked_mul :: "'a::len word \<Rightarrow> 'a word \<Rightarrow> 'a word option" where
  "checked_mul a b = (if unat a * unat b < 2 ^ LENGTH('a) then Some (a * b) else None)"

text \<open>Signed saturation: the exact integer result, clamped to the type's range.\<close>

definition clamp_i64 :: "int \<Rightarrow> int" where
  "clamp_i64 x = max (- (2 ^ 63)) (min (2 ^ 63 - 1) x)"

definition i64_sat_add :: "i64 \<Rightarrow> i64 \<Rightarrow> i64" where
  "i64_sat_add a b = word_of_int (clamp_i64 (sint a + sint b))"

definition i64_sat_sub :: "i64 \<Rightarrow> i64 \<Rightarrow> i64" where
  "i64_sat_sub a b = word_of_int (clamp_i64 (sint a - sint b))"

text \<open>\<^verbatim>\<open>i64::try_from(x).unwrap_or(i64::MAX)\<close> for an unsigned argument.\<close>

definition i64_of_u64 :: "u64 \<Rightarrow> i64" where
  "i64_of_u64 x = word_of_int (clamp_i64 (int (unat x)))"

text \<open>\<^verbatim>\<open>u64::try_from(x).unwrap_or(u64::MAX)\<close> for a signed 128-bit argument.\<close>

definition u64_of_i128 :: "i128 \<Rightarrow> u64" where
  "u64_of_i128 x =
     (if 0 \<le> sint x \<and> sint x < 2 ^ 64 then word_of_int (sint x) else max_word)"

text \<open>Naturals are the normal form here, so this rule would rewrite in the wrong direction.\<close>

declare of_nat_unat [simp del]

lemma word_of_nat_unat [simp]: "of_nat (unat x) = x" for x :: "'a::len word"
  by (simp add: of_nat_unat)

lemma unat_less_pow [simp]: "unat (x :: 'a::len word) < 2 ^ LENGTH('a)"
  by (rule unsigned_less)

lemma unat_max_word [word_norm]: "unat (max_word :: 'a::len word) = 2 ^ LENGTH('a) - 1"
  by (simp add: max_word_def unsigned_minus_1_eq_mask mask_eq_exp_minus_1)

lemma unat_sat_add [word_norm]:
  "unat (sat_add a b) = min (unat a + unat b) (2 ^ LENGTH('a) - 1)" for a b :: "'a::len word"
  by (auto simp: sat_add_def unat_word_ariths unat_max_word min_def)

lemma unat_sat_sub [word_norm]: "unat (sat_sub a b) = unat a - unat b"
  by (auto simp: sat_sub_def unat_sub word_le_nat_alt)

lemma unat_sat_mul [word_norm]:
  "unat (sat_mul a b) = min (unat a * unat b) (2 ^ LENGTH('a) - 1)" for a b :: "'a::len word"
proof (cases "unat a * unat b < 2 ^ LENGTH('a)")
  case True
  then have "unat a * unat b \<le> 2 ^ LENGTH('a) - 1" by linarith
  with True show ?thesis by (simp add: sat_mul_def unat_word_ariths min_absorb1)
next
  case False
  then have "2 ^ LENGTH('a) - 1 \<le> unat a * unat b" by linarith
  with False show ?thesis by (simp add: sat_mul_def unat_max_word min_absorb2)
qed

lemma unat_min [word_norm]: "unat (min a b) = min (unat a) (unat b)" for a b :: "'a::len word"
  by (auto simp: min_def word_le_nat_alt)

lemma unat_max [word_norm]: "unat (max a b) = max (unat a) (unat b)" for a b :: "'a::len word"
  by (auto simp: max_def word_le_nat_alt)

lemma unat_eq_iff: "a = b \<longleftrightarrow> unat a = unat b" for a b :: "'a::len word"
  by (simp add: word_unat_eq_iff)

lemma unat_less_u64 [simp]: "unat (x :: u64) < 18446744073709551616"
  using unat_less_pow [of x] by simp

lemma unat_le_u64 [simp]: "unat (x :: u64) \<le> 18446744073709551615"
  using unat_less_u64 [of x] by linarith

lemma unat_zero_iff: "unat a = 0 \<longleftrightarrow> a = 0" for a :: "'a::len word"
  by (simp add: unat_eq_iff)

lemma unat_pos_iff: "0 < unat a \<longleftrightarrow> a \<noteq> 0" for a :: "'a::len word"
  using unat_zero_iff [of a] by linarith

lemma unat_of_nat_u64: "n < 2 ^ 64 \<Longrightarrow> unat (of_nat n :: u64) = n"
  by (simp add: unat_of_nat take_bit_nat_eq_self)

lemma unat_ucast_128: "unat (ucast (x :: u64) :: u128) = unat x"
  using less_trans [OF unat_less_u64 [of x], of "340282366920938463463374607431768211456"]
  by (simp add: unsigned_ucast_eq take_bit_nat_eq_self_iff)

lemma unat_ucast_u16: "unat (ucast (x :: u16) :: u128) = unat x"
proof -
  have "unat x < 2 ^ 128"
    using unat_less_pow [of x] by (simp add: less_trans [of _ 65536])
  then show ?thesis by (simp add: unsigned_ucast_eq take_bit_nat_eq_self_iff)
qed

lemma checked_add_Some: "checked_add a b = Some c \<Longrightarrow> unat c = unat a + unat b"
  by (auto simp: checked_add_def unat_word_ariths split: if_splits)

lemma checked_sub_Some:
  "checked_sub a b = Some c \<Longrightarrow> unat c = unat a - unat b \<and> unat b \<le> unat a"
  by (auto simp: checked_sub_def unat_sub word_le_nat_alt split: if_splits)

lemma checked_mul_Some: "checked_mul a b = Some c \<Longrightarrow> unat c = unat a * unat b"
  by (auto simp: checked_mul_def unat_word_ariths split: if_splits)

lemma clamp_i64_bounds: "- (2 ^ 63) \<le> clamp_i64 x" "clamp_i64 x < 2 ^ 63"
  by (auto simp: clamp_i64_def)

lemma sint_of_clamp [word_norm]: "sint (word_of_int (clamp_i64 x) :: i64) = clamp_i64 x"
  using clamp_i64_bounds [of x]
  by (simp only: sint_sbintrunc' len_num0 signed_take_bit_int_eq_self_iff) simp

lemma sint_i64_sat_add [word_norm]: "sint (i64_sat_add a b) = clamp_i64 (sint a + sint b)"
  by (simp add: i64_sat_add_def sint_of_clamp)

lemma sint_i64_sat_sub [word_norm]: "sint (i64_sat_sub a b) = clamp_i64 (sint a - sint b)"
  by (simp add: i64_sat_sub_def sint_of_clamp)

lemma sint_i64_of_u64 [word_norm]: "sint (i64_of_u64 x) = clamp_i64 (int (unat x))"
  by (simp add: i64_of_u64_def sint_of_clamp)

lemma i64_sat_sub_zero [simp]: "i64_sat_sub 0 0 = 0"
  by (simp add: i64_sat_sub_def clamp_i64_def)

lemma clamp_i64_id: "- (2 ^ 63) \<le> x \<Longrightarrow> x < 2 ^ 63 \<Longrightarrow> clamp_i64 x = x"
  by (simp add: clamp_i64_def)

section \<open>Sums of saturating additions\<close>

lemma min_min_add: "min (min a m + s) m = min (a + s) m" for a m s :: nat
  by (auto simp: min_def)

lemma unat_fold_sat_add:
  "unat (foldl sat_add a xs) = min (unat a + sum_list (map unat xs)) (2 ^ LENGTH('a) - 1)"
  for a :: "'a::len word"
proof (induction xs arbitrary: a)
  case Nil
  then show ?case
    using unat_less_pow [of a] by (simp add: min_absorb1 less_imp_le_nat Suc_le_eq [symmetric] le_diff_conv2 del: unat_less_pow)
next
  case (Cons x xs)
  then show ?case
    by (simp add: unat_sat_add min_min_add add.assoc del: One_nat_def)
qed

section \<open>Fallible results\<close>

text \<open>\<^verbatim>\<open>Result<T, E>\<close> is a sum with the error on the left; \<open>rbind\<close> is the \<^verbatim>\<open>?\<close> operator.\<close>

fun rbind :: "'e + 'a \<Rightarrow> ('a \<Rightarrow> 'e + 'b) \<Rightarrow> 'e + 'b" where
  "rbind (Inl e) f = Inl e"
| "rbind (Inr x) f = f x"

definition ok_or :: "'a option \<Rightarrow> 'e \<Rightarrow> 'e + 'a" where
  "ok_or x e = (case x of None \<Rightarrow> Inl e | Some y \<Rightarrow> Inr y)"

lemma rbind_Inr_iff [simp]: "rbind r f = Inr y \<longleftrightarrow> (\<exists>x. r = Inr x \<and> f x = Inr y)"
  by (cases r) auto

lemma rbind_Inl_iff: "rbind r f = Inl e \<longleftrightarrow> r = Inl e \<or> (\<exists>x. r = Inr x \<and> f x = Inl e)"
  by (cases r) auto

lemma ok_or_simps [simp]: "ok_or (Some x) e = Inr x" "ok_or None e = Inl e"
  by (simp_all add: ok_or_def)

lemma case_prod_Inr_iff: "(case p of (x, y) \<Rightarrow> f x y) = Inr z \<longleftrightarrow> (\<exists>x y. p = (x, y) \<and> f x y = Inr z)"
  by (cases p) simp

lemma if_Inl_Inr_iff: "(if c then Inl err else r) = Inr z \<longleftrightarrow> \<not> c \<and> r = Inr z"
  by simp

lemma ok_or_Inr_iff [simp]: "ok_or x e = Inr y \<longleftrightarrow> x = Some y"
  by (cases x) auto

text \<open>\<^verbatim>\<open>Option::unwrap_or\<close>.\<close>

definition unwrap_or :: "'a \<Rightarrow> 'a option \<Rightarrow> 'a" where
  "unwrap_or d x = (case x of None \<Rightarrow> d | Some y \<Rightarrow> y)"

text \<open>\<^verbatim>\<open>Option::or_else\<close>, and \<^verbatim>\<open>join\<close> of a slice of texts.\<close>

definition or_else :: "'a option \<Rightarrow> 'a option \<Rightarrow> 'a option" where
  "or_else x y = (case x of None \<Rightarrow> y | Some _ \<Rightarrow> x)"

fun join_with :: "string \<Rightarrow> string list \<Rightarrow> string" where
  "join_with sep [] = []"
| "join_with sep [x] = x"
| "join_with sep (x # xs) = x @ sep @ join_with sep xs"

section \<open>Text\<close>

text \<open>
  Strings are lists of ASCII characters; \<open>str_trim\<close> strips the ASCII part of Unicode's
  \<^verbatim>\<open>White_Space\<close> (tab, line feed, vertical tab, form feed, carriage return, space).
\<close>

definition is_ws :: "char \<Rightarrow> bool" where
  "is_ws c \<longleftrightarrow> (of_char c :: nat) \<in> {9, 10, 11, 12, 13, 32}"

definition str_trim :: "string \<Rightarrow> string" where
  "str_trim s = rev (dropWhile is_ws (rev (dropWhile is_ws s)))"

definition starts_with :: "string \<Rightarrow> string \<Rightarrow> bool" where
  "starts_with s p \<longleftrightarrow> take (length p) s = p"

definition ends_with :: "string \<Rightarrow> string \<Rightarrow> bool" where
  "ends_with s p \<longleftrightarrow> length p \<le> length s \<and> drop (length s - length p) s = p"

definition strip_prefix :: "string \<Rightarrow> string \<Rightarrow> string option" where
  "strip_prefix p s = (if starts_with s p then Some (drop (length p) s) else None)"

definition strip_suffix :: "string \<Rightarrow> string \<Rightarrow> string option" where
  "strip_suffix p s = (if ends_with s p then Some (take (length s - length p) s) else None)"

text \<open>\<^verbatim>\<open>to_ascii_lowercase\<close>, which on ASCII text is also \<^verbatim>\<open>to_lowercase\<close>.\<close>

definition ascii_lower :: "string \<Rightarrow> string" where
  "ascii_lower s =
     map (\<lambda>c. if 65 \<le> (of_char c :: nat) \<and> (of_char c :: nat) \<le> 90
              then char_of (of_char c + 32 :: nat) else c) s"

definition is_digit :: "char \<Rightarrow> bool" where
  "is_digit c \<longleftrightarrow> 48 \<le> (of_char c :: nat) \<and> (of_char c :: nat) \<le> 57"

definition digit_value :: "char \<Rightarrow> nat" where
  "digit_value c = of_char c - 48"

definition digit_char :: "nat \<Rightarrow> char" where
  "digit_char n = char_of (48 + n)"

definition digits_value :: "string \<Rightarrow> nat" where
  "digits_value s = foldl (\<lambda>a c. 10 * a + digit_value c) 0 s"

text \<open>Decimal text of a number, as \<^verbatim>\<open>to_string\<close> and \<^verbatim>\<open>{n:09}\<close> print it.\<close>

fun show_nat :: "nat \<Rightarrow> string" where
  "show_nat n = (if n < 10 then [digit_char n] else show_nat (n div 10) @ [digit_char (n mod 10)])"

declare show_nat.simps [simp del]

definition pad_left :: "nat \<Rightarrow> string \<Rightarrow> string" where
  "pad_left w s = replicate (w - length s) CHR ''0'' @ s"

text \<open>\<^verbatim>\<open>str::parse::<u64>()\<close>: an optional plus sign, at least one digit, in range.\<close>

definition unsigned_digits :: "string \<Rightarrow> string" where
  "unsigned_digits s = (case s of [] \<Rightarrow> [] | c # cs \<Rightarrow> if c = CHR ''+'' then cs else s)"

definition parse_u64 :: "string \<Rightarrow> u64 option" where
  "parse_u64 s =
     (let ds = unsigned_digits s
      in if ds = [] \<or> \<not> list_all is_digit ds then None
         else if digits_value ds < 2 ^ 64 then Some (of_nat (digits_value ds)) else None)"

lemma str_trim_fixed: "s = [] \<or> \<not> is_ws (hd s) \<and> \<not> is_ws (last s) \<Longrightarrow> str_trim s = s"
proof (cases "s = []")
  case False
  assume "s = [] \<or> \<not> is_ws (hd s) \<and> \<not> is_ws (last s)"
  with False have ends: "\<not> is_ws (hd s)" "\<not> is_ws (last s)" by auto
  have "dropWhile is_ws s = s" using False ends(1) by (cases s) auto
  moreover have "dropWhile is_ws (rev s) = rev s"
    using False ends(2) by (cases s rule: rev_cases) auto
  ultimately show ?thesis by (simp add: str_trim_def)
qed (simp add: str_trim_def)

lemma str_trim_idem [simp]: "str_trim (str_trim s) = str_trim s"
proof (rule str_trim_fixed)
  define t where "t = dropWhile is_ws s"
  have hd: "t = [] \<or> \<not> is_ws (hd t)"
    unfolding t_def by (metis hd_dropWhile)
  show "str_trim s = [] \<or> \<not> is_ws (hd (str_trim s)) \<and> \<not> is_ws (last (str_trim s))"
  proof (cases "str_trim s = []")
    case False
    then have ne: "dropWhile is_ws (rev t) \<noteq> []" by (simp add: str_trim_def t_def)
    from ne have last: "\<not> is_ws (last (str_trim s))"
      by (simp add: str_trim_def t_def [symmetric] last_rev hd_dropWhile)
    obtain us where us: "rev t = us @ dropWhile is_ws (rev t)"
      by (metis takeWhile_dropWhile_id)
    then have "t = rev (dropWhile is_ws (rev t)) @ rev us"
      by (metis rev_append rev_rev_ident)
    with ne have "hd t = hd (str_trim s)"
      by (metis hd_append2 rev_is_Nil_conv str_trim_def t_def)
    with hd ne last show ?thesis by auto
  qed simp
qed

lemma is_digit_digit_char [simp]: "n < 10 \<Longrightarrow> is_digit (digit_char n)"
  by (simp add: is_digit_def digit_char_def)

lemma digit_value_digit_char [simp]: "n < 10 \<Longrightarrow> digit_value (digit_char n) = n"
  by (simp add: digit_value_def digit_char_def)

lemma digits_value_append:
  "digits_value (s @ t) = digits_value s * 10 ^ length t + digits_value t"
proof (induction t rule: rev_induct)
  case Nil
  then show ?case by (simp add: digits_value_def)
next
  case (snoc c t)
  then show ?case
    by (simp add: digits_value_def algebra_simps append_assoc [symmetric] del: append_assoc)
qed

lemma digits_value_Nil [simp]: "digits_value [] = 0"
  by (simp add: digits_value_def)

lemma digits_value_replicate0 [simp]: "digits_value (replicate n CHR ''0'') = 0"
  by (induction n) (simp_all add: digits_value_append [of "[_]", simplified] digits_value_def digit_value_def)

lemma digits_value_show_nat [simp]: "digits_value (show_nat n) = n"
proof (induction n rule: show_nat.induct)
  case (1 n)
  show ?case
    by (subst show_nat.simps) (use 1 in \<open>auto simp: digits_value_append digits_value_def\<close>)
qed

lemma show_nat_digits [simp]: "list_all is_digit (show_nat n)"
proof (induction n rule: show_nat.induct)
  case (1 n)
  show ?case
    by (subst show_nat.simps) (use 1 in auto)
qed

lemma show_nat_nonempty [simp]: "show_nat n \<noteq> []"
  by (subst show_nat.simps) simp

lemma show_nat_length: "0 < k \<Longrightarrow> n < 10 ^ k \<Longrightarrow> length (show_nat n) \<le> k"
proof (induction k arbitrary: n)
  case (Suc k)
  show ?case
  proof (cases "n < 10")
    case True
    then show ?thesis by (subst show_nat.simps) simp
  next
    case False
    then have "0 < k" using Suc.prems(2) by (cases k) auto
    moreover have "n div 10 < 10 ^ k" using Suc.prems(2) by (simp add: less_mult_imp_div_less)
    ultimately have "length (show_nat (n div 10)) \<le> k" by (rule Suc.IH)
    with False show ?thesis by (subst show_nat.simps) simp
  qed
qed simp

lemma digits_value_less: "list_all is_digit s \<Longrightarrow> digits_value s < 10 ^ length s"
proof (induction s rule: rev_induct)
  case (snoc c s)
  then have "digit_value c < 10" by (auto simp: is_digit_def digit_value_def)
  with snoc show ?case
    by (simp add: digits_value_append) (simp add: digits_value_def)
qed simp

lemma unsigned_digits_show_nat [simp]: "unsigned_digits (show_nat n) = show_nat n"
proof (cases "show_nat n")
  case (Cons c cs)
  then have "is_digit c" using show_nat_digits [of n] by simp
  then have "c \<noteq> CHR ''+''" by (auto simp: is_digit_def)
  with Cons show ?thesis by (simp add: unsigned_digits_def)
qed simp

lemma parse_u64_show: "parse_u64 (show_nat (unat (x :: u64))) = Some x"
  by (simp add: parse_u64_def Let_def)

lemma zeros_digits [simp]: "list_all is_digit (replicate k CHR ''0'')"
  by (induction k) (simp_all add: is_digit_def)

lemma pad_left_digits [simp]: "list_all is_digit (pad_left w (show_nat n))"
  unfolding pad_left_def list_all_append by (simp only: zeros_digits show_nat_digits simp_thms)

lemma pad_left_value [simp]: "digits_value (pad_left w (show_nat n)) = n"
  by (simp add: pad_left_def digits_value_append)

lemma pad_left_length: "0 < w \<Longrightarrow> n < 10 ^ w \<Longrightarrow> length (pad_left w (show_nat n)) = w"
  using show_nat_length [of w n] by (simp add: pad_left_def)

lemma pad_left_nonempty [simp]: "pad_left w (show_nat n) \<noteq> []"
  by (simp add: pad_left_def)

end
