(* ===== verification/Trade_Ledger.thy ===== *)
theory Trade_Ledger
  imports Trench_Prelude
begin

text \<open>
  The PnL ledger of the execution engine (\<^verbatim>\<open>execution-engine/src/trade_ledger.rs\<close>):
  the event and entry types, the operations that change one position (buy, sell, reset,
  forced close, transfer, balance adjustments) and the aggregate over wallets.
  A Rust \<^verbatim>\<open>HashMap<String, TradeLedgerEntry>\<close> is a partial map from keys to entries.
  The lemmas show that sales consume lots first-in first-out, that tokens and cost basis
  are conserved, and that every operation keeps the ledger invariant.
\<close>

section \<open>Data\<close>

datatype trade_side = Buy | Sell

datatype trade_settlement_asset = Settle_Sol | Settle_Usd1

datatype stored_entry_preference = Pref_Sol | Pref_Usd1 | Pref_Mixed

datatype platform_tag = Axiom | J7 | X | Unknown

datatype event_provenance = LocalExecution | RpcResync

record explicit_fee_breakdown =
  network_fee_lamports :: u64
  priority_fee_lamports :: u64
  tip_lamports :: u64
  rent_delta_lamports :: i64

definition total_lamports :: "explicit_fee_breakdown \<Rightarrow> i64" where
  "total_lamports f =
     i64_sat_add
       (i64_of_u64 (sat_add (sat_add (network_fee_lamports f) (priority_fee_lamports f))
                            (tip_lamports f)))
       (rent_delta_lamports f)"

record open_lot =
  acquired_at_unix_ms :: u64
  lot_signature :: string
  lot_settlement_asset :: "trade_settlement_asset option"
  acquired_amount_raw :: u64
  remaining_amount_raw :: u64
  lot_cost_basis_lamports :: u64

record confirmed_trade_event =
  ev_schema_version :: u32
  ev_signature :: string
  ev_slot :: "u64 option"
  confirmed_at_unix_ms :: u64
  ev_wallet_key :: string
  ev_wallet_public_key :: string
  ev_mint :: string
  ev_side :: trade_side
  ev_platform_tag :: platform_tag
  ev_provenance :: event_provenance
  ev_settlement_asset :: "trade_settlement_asset option"
  token_delta_raw :: i128
  token_decimals :: "u8 option"
  trade_value_lamports :: u64
  explicit_fees :: explicit_fee_breakdown
  client_request_id :: "string option"
  batch_id :: "string option"

record trade_ledger_entry =
  wallet_key :: string
  mint :: string
  tracked_bought_lamports :: u64
  tracked_sold_lamports :: u64
  buy_count :: u64
  sell_count :: u64
  last_trade_at_unix_ms :: u64
  entry_preference :: "stored_entry_preference option"
  position_open :: bool
  realized_pnl_gross_lamports :: i64
  realized_pnl_net_lamports :: i64
  explicit_fee_total_lamports :: i64
  remaining_cost_basis_lamports :: u64
  unmatched_sell_amount_raw :: u64
  needs_resync :: bool
  reset_baseline_unix_ms :: u64
  reset_baseline_slot :: "u64 option"
  open_lots :: "open_lot list"
  platform_tags :: "platform_tag list"

type_synonym trade_ledger = "string \<rightharpoonup> trade_ledger_entry"

text \<open>\<^verbatim>\<open>TradeLedgerEntry::default()\<close> with the two keys filled in.\<close>

definition new_entry :: "string \<Rightarrow> string \<Rightarrow> trade_ledger_entry" where
  "new_entry w m =
     \<lparr>wallet_key = w, mint = m, tracked_bought_lamports = 0, tracked_sold_lamports = 0,
      buy_count = 0, sell_count = 0, last_trade_at_unix_ms = 0, entry_preference = None,
      position_open = False, realized_pnl_gross_lamports = 0, realized_pnl_net_lamports = 0,
      explicit_fee_total_lamports = 0, remaining_cost_basis_lamports = 0,
      unmatched_sell_amount_raw = 0, needs_resync = False, reset_baseline_unix_ms = 0,
      reset_baseline_slot = None, open_lots = [], platform_tags = []\<rparr>"

definition trade_ledger_key :: "string \<Rightarrow> string \<Rightarrow> string" where
  "trade_ledger_key w m = str_trim w @ ''::'' @ str_trim m"

text \<open>\<^verbatim>\<open>ledger.entry(key).or_insert_with(..)\<close>: the entry the caller then updates.\<close>

definition entry_or_new :: "trade_ledger \<Rightarrow> string \<Rightarrow> string \<Rightarrow> trade_ledger_entry" where
  "entry_or_new l w m =
     (case l (trade_ledger_key w m) of Some e \<Rightarrow> e | None \<Rightarrow> new_entry w m)"

definition event_id :: "confirmed_trade_event \<Rightarrow> string" where
  "event_id ev =
     str_trim (ev_signature ev) @ ''::'' @ str_trim (ev_wallet_key ev) @ ''::''
       @ str_trim (ev_mint ev) @ ''::''
       @ (case ev_side ev of Buy \<Rightarrow> ''buy'' | Sell \<Rightarrow> ''sell'')"

definition stored_entry_preference_from_asset ::
  "trade_settlement_asset \<Rightarrow> stored_entry_preference" where
  "stored_entry_preference_from_asset a =
     (case a of Settle_Sol \<Rightarrow> Pref_Sol | Settle_Usd1 \<Rightarrow> Pref_Usd1)"

definition platform_tag_from_label :: "string option \<Rightarrow> platform_tag" where
  "platform_tag_from_label label =
     (let s = ascii_lower (str_trim (case label of None \<Rightarrow> [] | Some l \<Rightarrow> l))
      in if s = ''axiom'' then Axiom
         else if s = ''j7'' \<or> s = ''j7tracker'' then J7
         else if s = ''x'' \<or> s = ''twitter'' then X
         else Unknown)"

section \<open>Operations\<close>

definition proportional_amount :: "u64 \<Rightarrow> u64 \<Rightarrow> u64 \<Rightarrow> u64" where
  "proportional_amount tot part whole =
     (if tot = 0 \<or> part = 0 \<or> whole = 0 then 0
      else if whole \<le> part then tot
      else ucast (min ((ucast tot * ucast part :: u128) div ucast whole)
                      (ucast (max_word :: u64))))"

definition trade_event_is_after_reset_baseline ::
  "u64 \<Rightarrow> u64 option \<Rightarrow> u64 \<Rightarrow> u64 option \<Rightarrow> bool" where
  "trade_event_is_after_reset_baseline confirmed slot reset_ms reset_slot =
     (case (slot, reset_slot) of
        (Some event_slot, Some rs) \<Rightarrow> rs < event_slot
      | _ \<Rightarrow> reset_ms < confirmed)"

definition any_remaining :: "open_lot list \<Rightarrow> bool" where
  "any_remaining lots = list_ex (\<lambda>l. 0 < remaining_amount_raw l) lots"

definition lots_cost_basis :: "open_lot list \<Rightarrow> u64" where
  "lots_cost_basis lots = foldl (\<lambda>s l. sat_add s (lot_cost_basis_lamports l)) 0 lots"

definition retain_remaining :: "open_lot list \<Rightarrow> open_lot list" where
  "retain_remaining lots = filter (\<lambda>l. 0 < remaining_amount_raw l) lots"

definition bought_amount_raw :: "confirmed_trade_event \<Rightarrow> u64" where
  "bought_amount_raw ev =
     (if 0 < sint (token_delta_raw ev) then u64_of_i128 (token_delta_raw ev) else 0)"

definition sold_amount_raw :: "confirmed_trade_event \<Rightarrow> u64" where
  "sold_amount_raw ev =
     (if sint (token_delta_raw ev) < 0 then u64_of_i128 (- token_delta_raw ev) else 0)"

definition merge_preference ::
  "stored_entry_preference option \<Rightarrow> stored_entry_preference \<Rightarrow> stored_entry_preference" where
  "merge_preference existing p =
     (case existing of
        Some Pref_Mixed \<Rightarrow> Pref_Mixed
      | Some q \<Rightarrow> if q \<noteq> p then Pref_Mixed else p
      | None \<Rightarrow> p)"

definition apply_buy_event ::
  "trade_ledger_entry \<Rightarrow> confirmed_trade_event \<Rightarrow> trade_settlement_asset option
     \<Rightarrow> trade_ledger_entry" where
  "apply_buy_event e ev asset =
     (let e1 = e\<lparr>tracked_bought_lamports :=
                   sat_add (tracked_bought_lamports e) (trade_value_lamports ev),
                 buy_count := sat_add (buy_count e) 1\<rparr>;
          e2 = (case map_option stored_entry_preference_from_asset asset of
                  None \<Rightarrow> e1
                | Some p \<Rightarrow> e1\<lparr>entry_preference :=
                                 Some (merge_preference (entry_preference e1) p)\<rparr>);
          amount = bought_amount_raw ev
      in if 0 < amount
         then e2\<lparr>open_lots := open_lots e2 @
                   [\<lparr>acquired_at_unix_ms = confirmed_at_unix_ms ev,
                     lot_signature = ev_signature ev,
                     lot_settlement_asset = ev_settlement_asset ev,
                     acquired_amount_raw = amount, remaining_amount_raw = amount,
                     lot_cost_basis_lamports = trade_value_lamports ev\<rparr>]\<rparr>
         else e2)"

text \<open>The body shared by the three matching loops: what is left of a lot after \<open>n\<close> tokens.\<close>

definition lot_take_cost :: "open_lot \<Rightarrow> u64 \<Rightarrow> u64" where
  "lot_take_cost l n =
     proportional_amount (lot_cost_basis_lamports l) n (remaining_amount_raw l)"

definition lot_after :: "open_lot \<Rightarrow> u64 \<Rightarrow> open_lot" where
  "lot_after l n =
     l\<lparr>remaining_amount_raw := sat_sub (remaining_amount_raw l) n,
       lot_cost_basis_lamports := sat_sub (lot_cost_basis_lamports l) (lot_take_cost l n)\<rparr>"

text \<open>The loop of \<^verbatim>\<open>apply_sell_event\<close>: lots, tokens still to match, matched cost.\<close>

fun sell_loop :: "open_lot list \<Rightarrow> u64 \<Rightarrow> u64 \<Rightarrow> open_lot list \<times> u64 \<times> u64" where
  "sell_loop [] rem matched = ([], rem, matched)"
| "sell_loop (l # ls) rem matched =
     (if rem = 0 \<or> remaining_amount_raw l = 0
      then let (ls', r, m) = sell_loop ls rem matched in (l # ls', r, m)
      else let n = min rem (remaining_amount_raw l);
               (ls', r, m) = sell_loop ls (sat_sub rem n) (sat_add matched (lot_take_cost l n))
           in (lot_after l n # ls', r, m))"

definition apply_sell_event ::
  "trade_ledger_entry \<Rightarrow> confirmed_trade_event \<Rightarrow> trade_ledger_entry" where
  "apply_sell_event e ev =
     (let e1 = e\<lparr>tracked_sold_lamports :=
                   sat_add (tracked_sold_lamports e) (trade_value_lamports ev),
                 sell_count := sat_add (sell_count e) 1\<rparr>;
          (lots, rem, matched) = sell_loop (open_lots e1) (sold_amount_raw ev) 0;
          e2 = e1\<lparr>open_lots := retain_remaining lots\<rparr>;
          e3 = (if 0 < rem
                then e2\<lparr>unmatched_sell_amount_raw :=
                          sat_add (unmatched_sell_amount_raw e2) rem,
                        needs_resync := True\<rparr>
                else e2)
      in e3\<lparr>realized_pnl_gross_lamports :=
              i64_sat_add (realized_pnl_gross_lamports e3)
                (i64_sat_sub (i64_of_u64 (trade_value_lamports ev)) (i64_of_u64 matched))\<rparr>)"

text \<open>The part of \<^verbatim>\<open>apply_confirmed_trade_event\<close> that records the trade itself.\<close>

definition traded_entry ::
  "trade_ledger_entry \<Rightarrow> confirmed_trade_event \<Rightarrow> trade_settlement_asset option
     \<Rightarrow> trade_ledger_entry" where
  "traded_entry e ev asset =
     (let e1 = e\<lparr>last_trade_at_unix_ms := max (last_trade_at_unix_ms e) (confirmed_at_unix_ms ev),
                 explicit_fee_total_lamports :=
                   i64_sat_add (explicit_fee_total_lamports e) (total_lamports (explicit_fees ev)),
                 platform_tags :=
                   (if ev_platform_tag ev \<in> set (platform_tags e) then platform_tags e
                    else platform_tags e @ [ev_platform_tag ev])\<rparr>
      in case ev_side ev of
           Buy \<Rightarrow> apply_buy_event e1 ev asset
         | Sell \<Rightarrow> apply_sell_event e1 ev)"

definition apply_confirmed_trade_event ::
  "confirmed_trade_event \<Rightarrow> trade_settlement_asset option \<Rightarrow> trade_ledger \<Rightarrow> trade_ledger" where
  "apply_confirmed_trade_event ev asset l =
     (let k = trade_ledger_key (ev_wallet_key ev) (ev_mint ev);
          e = entry_or_new l (ev_wallet_key ev) (ev_mint ev)
      in if \<not> trade_event_is_after_reset_baseline (confirmed_at_unix_ms ev) (ev_slot ev)
               (reset_baseline_unix_ms e) (reset_baseline_slot e)
         then l(k \<mapsto> e)
         else let e3 = traded_entry e ev asset;
                  e4 = e3\<lparr>position_open := any_remaining (open_lots e3),
                          remaining_cost_basis_lamports := lots_cost_basis (open_lots e3),
                          realized_pnl_net_lamports :=
                            i64_sat_sub (realized_pnl_gross_lamports e3)
                              (explicit_fee_total_lamports e3)\<rparr>;
                  e5 = (if position_open e4 then e4
                        else e4\<lparr>entry_preference := None, open_lots := [],
                                remaining_cost_basis_lamports := 0\<rparr>)
              in l(k \<mapsto> e5))"

definition reset_trade_ledger_position ::
  "string \<Rightarrow> string \<Rightarrow> u64 \<Rightarrow> u64 option \<Rightarrow> trade_ledger \<Rightarrow> trade_ledger" where
  "reset_trade_ledger_position w m reset_ms reset_slot l =
     l(trade_ledger_key w m \<mapsto>
        (entry_or_new l w m)
          \<lparr>tracked_bought_lamports := 0, tracked_sold_lamports := 0, buy_count := 0,
           sell_count := 0, last_trade_at_unix_ms := reset_ms, entry_preference := None,
           position_open := False, realized_pnl_gross_lamports := 0,
           realized_pnl_net_lamports := 0, explicit_fee_total_lamports := 0,
           remaining_cost_basis_lamports := 0, unmatched_sell_amount_raw := 0,
           needs_resync := False, reset_baseline_unix_ms := reset_ms,
           reset_baseline_slot := reset_slot, open_lots := [], platform_tags := []\<rparr>)"

definition force_close_trade_ledger_position ::
  "string \<Rightarrow> string \<Rightarrow> u64 \<Rightarrow> trade_ledger \<Rightarrow> trade_ledger" where
  "force_close_trade_ledger_position w m applied_ms l =
     (case l (trade_ledger_key w m) of
        None \<Rightarrow> l
      | Some e \<Rightarrow>
          let realized_loss = lots_cost_basis (open_lots e);
              e1 = e\<lparr>open_lots := [], remaining_cost_basis_lamports := 0,
                     position_open := False, entry_preference := None,
                     unmatched_sell_amount_raw := 0, needs_resync := False\<rparr>;
              gross = i64_sat_sub (realized_pnl_gross_lamports e1) (i64_of_u64 realized_loss);
              e2 = (if open_lots e = [] then e1
                    else e1\<lparr>sell_count := sat_add (sell_count e1) 1,
                            last_trade_at_unix_ms := max (last_trade_at_unix_ms e1) applied_ms,
                            realized_pnl_gross_lamports := gross,
                            realized_pnl_net_lamports :=
                              i64_sat_sub gross (explicit_fee_total_lamports e1)\<rparr>)
          in l(trade_ledger_key w m \<mapsto> e2))"

text \<open>
  The loop of \<^verbatim>\<open>transfer_trade_ledger_position\<close>: lots, tokens still to move, the
  lots created for the destination and the total moved.
\<close>

definition moved_lot :: "string \<Rightarrow> open_lot \<Rightarrow> u64 \<Rightarrow> open_lot" where
  "moved_lot sig l n =
     \<lparr>acquired_at_unix_ms = acquired_at_unix_ms l, lot_signature = sig,
      lot_settlement_asset = lot_settlement_asset l, acquired_amount_raw = n,
      remaining_amount_raw = n, lot_cost_basis_lamports = lot_take_cost l n\<rparr>"

fun transfer_loop ::
  "string \<Rightarrow> open_lot list \<Rightarrow> u64 \<Rightarrow> open_lot list \<Rightarrow> u64
     \<Rightarrow> open_lot list \<times> u64 \<times> open_lot list \<times> u64" where
  "transfer_loop sig [] rem moved tot = ([], rem, moved, tot)"
| "transfer_loop sig (l # ls) rem moved tot =
     (if rem = 0 \<or> remaining_amount_raw l = 0
      then let (ls', r, mv, t) = transfer_loop sig ls rem moved tot in (l # ls', r, mv, t)
      else let n = min rem (remaining_amount_raw l);
               (ls', r, mv, t) =
                 transfer_loop sig ls (sat_sub rem n) (moved @ [moved_lot sig l n])
                   (sat_add tot n)
           in (lot_after l n # ls', r, mv, t))"

fun push_missing_tags :: "platform_tag list \<Rightarrow> platform_tag list \<Rightarrow> platform_tag list" where
  "push_missing_tags [] tags = tags"
| "push_missing_tags (t # ts) tags =
     push_missing_tags ts (if t \<in> set tags then tags else tags @ [t])"

definition transfer_trade_ledger_position ::
  "string \<Rightarrow> string \<Rightarrow> string \<Rightarrow> u64 \<Rightarrow> string \<Rightarrow> u64 \<Rightarrow> trade_ledger \<Rightarrow> trade_ledger \<times> u64" where
  "transfer_trade_ledger_position src dst m amount sig applied_ms l =
     (if amount = 0 \<or> src = dst then (l, 0)
      else case l (trade_ledger_key src m) of
        None \<Rightarrow> (l, 0)
      | Some s \<Rightarrow>
          let (lots, rem, moved, tot) = transfer_loop sig (open_lots s) amount [] 0
          in if moved = [] then (l(trade_ledger_key src m \<mapsto> s\<lparr>open_lots := lots\<rparr>), 0)
             else
               let kept = retain_remaining lots;
                   s1 = s\<lparr>open_lots := kept, position_open := any_remaining kept,
                          remaining_cost_basis_lamports := lots_cost_basis kept,
                          last_trade_at_unix_ms := max (last_trade_at_unix_ms s) applied_ms\<rparr>;
                   s2 = (if position_open s1 then s1 else s1\<lparr>entry_preference := None\<rparr>);
                   l1 = l(trade_ledger_key src m \<mapsto> s2);
                   d = entry_or_new l1 dst m;
                   dlots = open_lots d @ moved;
                   d1 = d\<lparr>open_lots := dlots, position_open := any_remaining dlots,
                          remaining_cost_basis_lamports := lots_cost_basis dlots,
                          last_trade_at_unix_ms := max (last_trade_at_unix_ms d) applied_ms\<rparr>;
                   d2 = (if entry_preference d1 = None
                         then d1\<lparr>entry_preference := entry_preference s2\<rparr>
                         else if entry_preference s2 \<noteq> None
                                 \<and> entry_preference d1 \<noteq> entry_preference s2
                         then d1\<lparr>entry_preference := Some Pref_Mixed\<rparr> else d1);
                   d3 = d2\<lparr>platform_tags :=
                             push_missing_tags (platform_tags s2) (platform_tags d2)\<rparr>
               in (l1(trade_ledger_key dst m \<mapsto> d3), tot))"

definition mark_trade_ledger_received_without_cost_basis ::
  "string \<Rightarrow> string \<Rightarrow> u64 \<Rightarrow> trade_ledger \<Rightarrow> trade_ledger" where
  "mark_trade_ledger_received_without_cost_basis w m applied_ms l =
     (let e = entry_or_new l w m
      in l(trade_ledger_key w m \<mapsto>
             e\<lparr>last_trade_at_unix_ms := max (last_trade_at_unix_ms e) applied_ms,
               needs_resync := True\<rparr>))"

fun sent_loop :: "open_lot list \<Rightarrow> u64 \<Rightarrow> open_lot list \<times> u64" where
  "sent_loop [] rem = ([], rem)"
| "sent_loop (l # ls) rem =
     (if rem = 0 \<or> remaining_amount_raw l = 0
      then let (ls', r) = sent_loop ls rem in (l # ls', r)
      else let n = min rem (remaining_amount_raw l);
               (ls', r) = sent_loop ls (sat_sub rem n)
           in (lot_after l n # ls', r))"

definition mark_trade_ledger_sent_without_proceeds ::
  "string \<Rightarrow> string \<Rightarrow> u64 \<Rightarrow> u64 \<Rightarrow> trade_ledger \<Rightarrow> trade_ledger" where
  "mark_trade_ledger_sent_without_proceeds w m amount applied_ms l =
     (let e = entry_or_new l w m;
          (lots, rem) = sent_loop (open_lots e) amount;
          kept = retain_remaining lots;
          e1 = e\<lparr>last_trade_at_unix_ms := max (last_trade_at_unix_ms e) applied_ms,
                 open_lots := kept, position_open := any_remaining kept,
                 remaining_cost_basis_lamports := lots_cost_basis kept\<rparr>;
          e2 = (if position_open e1 then e1 else e1\<lparr>entry_preference := None\<rparr>);
          e3 = (if 0 < rem then e2\<lparr>needs_resync := True\<rparr> else e2)
      in l(trade_ledger_key w m \<mapsto> e3))"

section \<open>Proportional cost\<close>

lemma proportional_amount_exact:
  assumes "whole \<noteq> 0"
  shows "unat (proportional_amount tot part whole)
           = unat tot * min (unat part) (unat whole) div unat whole"
proof (cases "tot = 0 \<or> part = 0 \<or> whole \<le> part")
  case True
  then show ?thesis
    using assms by (auto simp: proportional_amount_def word_le_nat_alt unat_eq_iff)
next
  case False
  then have lt: "unat part < unat whole" and "0 < unat whole"
    by (auto simp: word_le_nat_alt)
  have "unat tot * unat part < 18446744073709551616 * 18446744073709551616"
    by (intro mult_strict_mono) simp_all
  then have prod: "unat (ucast tot * ucast part :: u128) = unat tot * unat part"
    by (simp add: unat_word_ariths unat_ucast_128)
  have quot: "unat ((ucast tot * ucast part :: u128) div ucast whole)
                = unat tot * unat part div unat whole"
    by (simp add: unat_div prod unat_ucast_128)
  have "unat tot * unat part div unat whole \<le> unat tot"
    using lt \<open>0 < unat whole\<close>
    by (metis div_le_mono less_imp_le_nat mult_le_mono2 nonzero_mult_div_cancel_right not_less0)
  then have small: "unat tot * unat part div unat whole < 18446744073709551616"
    using unat_less_u64 [of tot] by linarith
  have "min ((ucast tot * ucast part :: u128) div ucast whole) (ucast (max_word :: u64))
          = (ucast tot * ucast part :: u128) div ucast whole"
    using small by (simp add: min_def word_le_nat_alt quot unat_ucast_128 unat_max_word)
  then have "proportional_amount tot part whole
      = ucast ((ucast tot * ucast part :: u128) div ucast whole)"
    using False by (simp add: proportional_amount_def)
  then have "unat (proportional_amount tot part whole) = unat tot * unat part div unat whole"
    using small by (simp add: unsigned_ucast_eq quot take_bit_nat_eq_self_iff)
  with lt show ?thesis by simp
qed

lemma proportional_amount_le: "unat (proportional_amount tot part whole) \<le> unat tot"
proof (cases "whole = 0")
  case False
  then have "0 < unat whole" by (simp add: unat_pos_iff)
  have "unat tot * min (unat part) (unat whole) div unat whole \<le> unat tot * unat whole div unat whole"
    by (intro div_le_mono mult_le_mono2) simp
  with False \<open>0 < unat whole\<close> show ?thesis by (simp add: proportional_amount_exact)
qed (simp add: proportional_amount_def)

lemma proportional_amount_full: "w \<noteq> 0 \<Longrightarrow> proportional_amount t w w = t"
  by (simp add: proportional_amount_def)

section \<open>First-in first-out matching\<close>

text \<open>
  The three loops remove tokens from the lots in the same way and differ in what they
  collect; \<open>drain\<close> is the common core, returning the lots after, the (lot, amount) pairs
  taken and the amount that found no lot.
\<close>

fun drain :: "open_lot list \<Rightarrow> u64 \<Rightarrow> open_lot list \<times> (open_lot \<times> u64) list \<times> u64" where
  "drain [] rem = ([], [], rem)"
| "drain (l # ls) rem =
     (if rem = 0 \<or> remaining_amount_raw l = 0
      then let (ls', ts, r) = drain ls rem in (l # ls', ts, r)
      else let n = min rem (remaining_amount_raw l);
               (ls', ts, r) = drain ls (sat_sub rem n)
           in (lot_after l n # ls', (l, n) # ts, r))"

definition drained_lots :: "open_lot list \<Rightarrow> u64 \<Rightarrow> open_lot list" where
  "drained_lots ls rem = fst (drain ls rem)"

definition drained_takings :: "open_lot list \<Rightarrow> u64 \<Rightarrow> (open_lot \<times> u64) list" where
  "drained_takings ls rem = fst (snd (drain ls rem))"

definition drained_rest :: "open_lot list \<Rightarrow> u64 \<Rightarrow> u64" where
  "drained_rest ls rem = snd (snd (drain ls rem))"

lemmas drained_defs = drained_lots_def drained_takings_def drained_rest_def

lemma sell_loop_drain:
  "sell_loop ls rem m =
     (drained_lots ls rem, drained_rest ls rem,
      foldl sat_add m (map (\<lambda>(l, n). lot_take_cost l n) (drained_takings ls rem)))"
  by (induction ls rem m rule: sell_loop.induct)
    (auto simp: drained_defs Let_def split: prod.splits)

lemma transfer_loop_drain:
  "transfer_loop sig ls rem mv t =
     (drained_lots ls rem, drained_rest ls rem,
      mv @ map (\<lambda>(l, n). moved_lot sig l n) (drained_takings ls rem),
      foldl sat_add t (map snd (drained_takings ls rem)))"
  by (induction sig ls rem mv t rule: transfer_loop.induct)
    (auto simp: drained_defs Let_def split: prod.splits)

lemma sent_loop_drain: "sent_loop ls rem = (drained_lots ls rem, drained_rest ls rem)"
  by (induction ls rem rule: sent_loop.induct)
    (auto simp: drained_defs Let_def split: prod.splits)

text \<open>The position as a queue of single tokens, each tagged with the lot it came from.\<close>

definition lot_tokens :: "open_lot list \<Rightarrow> (u64 \<times> string) list" where
  "lot_tokens ls =
     concat (map (\<lambda>l. replicate (unat (remaining_amount_raw l))
                        (acquired_at_unix_ms l, lot_signature l)) ls)"

definition token_total :: "open_lot list \<Rightarrow> nat" where
  "token_total ls = sum_list (map (\<lambda>l. unat (remaining_amount_raw l)) ls)"

definition cost_total :: "open_lot list \<Rightarrow> nat" where
  "cost_total ls = sum_list (map (\<lambda>l. unat (lot_cost_basis_lamports l)) ls)"

lemma lot_totals_simps [simp]:
  "lot_tokens [] = []"
  "lot_tokens (l # ls) =
     replicate (unat (remaining_amount_raw l)) (acquired_at_unix_ms l, lot_signature l)
       @ lot_tokens ls"
  "token_total [] = 0"
  "token_total (l # ls) = unat (remaining_amount_raw l) + token_total ls"
  "cost_total [] = 0"
  "cost_total (l # ls) = unat (lot_cost_basis_lamports l) + cost_total ls"
  "token_total (ls @ ls') = token_total ls + token_total ls'"
  "cost_total (ls @ ls') = cost_total ls + cost_total ls'"
  by (simp_all add: lot_tokens_def token_total_def cost_total_def)

lemma length_lot_tokens [simp]: "length (lot_tokens ls) = token_total ls"
  by (induction ls) auto

lemma lot_after_simps [simp]:
  "acquired_at_unix_ms (lot_after l n) = acquired_at_unix_ms l"
  "lot_signature (lot_after l n) = lot_signature l"
  "acquired_amount_raw (lot_after l n) = acquired_amount_raw l"
  "unat (remaining_amount_raw (lot_after l n)) = unat (remaining_amount_raw l) - unat n"
  "unat (lot_cost_basis_lamports (lot_after l n))
     = unat (lot_cost_basis_lamports l) - unat (lot_take_cost l n)"
  by (simp_all add: lot_after_def unat_sat_sub)

lemma lot_take_cost_le: "unat (lot_take_cost l n) \<le> unat (lot_cost_basis_lamports l)"
  by (simp add: lot_take_cost_def proportional_amount_le)

lemma lot_after_empty_cost:
  "remaining_amount_raw l \<noteq> 0 \<Longrightarrow> remaining_amount_raw (lot_after l (min r (remaining_amount_raw l))) = 0
   \<Longrightarrow> lot_cost_basis_lamports (lot_after l (min r (remaining_amount_raw l))) = 0"
  by (auto simp: unat_eq_iff unat_min lot_take_cost_def proportional_amount_exact
      min_def word_le_nat_alt split: if_splits)

lemma drained_simps [simp]:
  "drained_lots [] rem = []" "drained_takings [] rem = []" "drained_rest [] rem = rem"
  "drained_lots (l # ls) rem =
     (if rem = 0 \<or> remaining_amount_raw l = 0 then l # drained_lots ls rem
      else lot_after l (min rem (remaining_amount_raw l))
             # drained_lots ls (sat_sub rem (min rem (remaining_amount_raw l))))"
  "drained_takings (l # ls) rem =
     (if rem = 0 \<or> remaining_amount_raw l = 0 then drained_takings ls rem
      else (l, min rem (remaining_amount_raw l))
             # drained_takings ls (sat_sub rem (min rem (remaining_amount_raw l))))"
  "drained_rest (l # ls) rem =
     (if rem = 0 \<or> remaining_amount_raw l = 0 then drained_rest ls rem
      else drained_rest ls (sat_sub rem (min rem (remaining_amount_raw l))))"
  by (simp_all add: drained_defs Let_def split: prod.splits)

text \<open>Removing tokens is dropping that many from the front of the queue.\<close>

lemma drained_tokens: "lot_tokens (drained_lots ls rem) = drop (unat rem) (lot_tokens ls)"
  by (induction ls arbitrary: rem)
    (auto simp: unat_sat_sub unat_min min_def unat_eq_iff word_le_nat_alt)

lemma drained_rest: "unat (drained_rest ls rem) = unat rem - token_total ls"
  by (induction ls arbitrary: rem) (auto simp: unat_sat_sub unat_min min_def unat_eq_iff word_le_nat_alt)

lemma drained_token_total:
  "token_total (drained_lots ls rem) + sum_list (map (\<lambda>t. unat (snd t)) (drained_takings ls rem))
     = token_total ls"
  by (induction ls arbitrary: rem) (auto simp: unat_min min_def word_le_nat_alt add.commute add.left_commute)

lemma drained_taken:
  "sum_list (map (\<lambda>t. unat (snd t)) (drained_takings ls rem)) = min (unat rem) (token_total ls)"
proof -
  have "token_total (drained_lots ls rem) = token_total ls - unat rem"
    using arg_cong [OF drained_tokens, of length] by simp
  then show ?thesis
    using drained_token_total [of ls rem] by (auto simp: min_def)
qed

lemma drained_cost_total:
  "cost_total (drained_lots ls rem)
     + sum_list (map (\<lambda>(l, n). unat (lot_take_cost l n)) (drained_takings ls rem))
     = cost_total ls"
proof (induction ls arbitrary: rem)
  case (Cons l ls)
  show ?case
    using Cons [of rem] Cons [of "sat_sub rem (min rem (remaining_amount_raw l))"]
      lot_take_cost_le [of l "min rem (remaining_amount_raw l)"]
    by auto
qed simp

section \<open>The ledger invariant\<close>

definition lot_wf :: "open_lot \<Rightarrow> bool" where
  "lot_wf l \<longleftrightarrow> remaining_amount_raw l \<noteq> 0 \<and> remaining_amount_raw l \<le> acquired_amount_raw l"

definition entry_wf :: "trade_ledger_entry \<Rightarrow> bool" where
  "entry_wf e \<longleftrightarrow>
     list_all lot_wf (open_lots e)
     \<and> position_open e = (open_lots e \<noteq> [])
     \<and> remaining_cost_basis_lamports e = lots_cost_basis (open_lots e)
     \<and> (open_lots e = [] \<longrightarrow> entry_preference e = None)
     \<and> realized_pnl_net_lamports e
         = i64_sat_sub (realized_pnl_gross_lamports e) (explicit_fee_total_lamports e)
     \<and> distinct (platform_tags e)"

definition ledger_wf :: "trade_ledger \<Rightarrow> bool" where
  "ledger_wf l \<longleftrightarrow>
     (\<forall>k e. l k = Some e \<longrightarrow> entry_wf e \<and> k = trade_ledger_key (wallet_key e) (mint e))"

lemma lots_cost_basis_Nil [simp]: "lots_cost_basis [] = 0"
  by (simp add: lots_cost_basis_def)

lemma foldl_cost: "foldl (\<lambda>s l. sat_add s (f l)) a ls = foldl sat_add a (map f ls)"
  by (induction ls arbitrary: a) auto

lemma unat_lots_cost_basis: "unat (lots_cost_basis ls) = min (cost_total ls) (2 ^ 64 - 1)"
  unfolding lots_cost_basis_def foldl_cost [of lot_cost_basis_lamports]
  by (simp add: unat_fold_sat_add cost_total_def o_def)

lemma any_remaining_wf: "list_all lot_wf ls \<Longrightarrow> any_remaining ls = (ls \<noteq> [])"
  by (induction ls) (auto simp: any_remaining_def lot_wf_def word_gt_0)

lemma drained_remaining_le:
  "list_all (\<lambda>l. remaining_amount_raw l \<le> acquired_amount_raw l) ls
   \<Longrightarrow> list_all (\<lambda>l. remaining_amount_raw l \<le> acquired_amount_raw l) (drained_lots ls rem)"
  by (induction ls arbitrary: rem) (auto simp: word_le_nat_alt)

lemma retain_drained_wf:
  assumes "list_all lot_wf ls"
  shows "list_all lot_wf (retain_remaining (drained_lots ls rem))"
proof -
  have "list_all (\<lambda>l. remaining_amount_raw l \<le> acquired_amount_raw l) (drained_lots ls rem)"
    using assms by (intro drained_remaining_le) (auto simp: list_all_iff lot_wf_def)
  then show ?thesis
    by (auto simp: list_all_iff lot_wf_def retain_remaining_def)
qed

lemma retain_remaining_tokens [simp]:
  "lot_tokens (retain_remaining ls) = lot_tokens ls"
  "token_total (retain_remaining ls) = token_total ls"
  by (induction ls) (auto simp: retain_remaining_def word_gt_0 unat_eq_iff)

lemma retain_drained_cost:
  "list_all lot_wf ls
   \<Longrightarrow> cost_total (retain_remaining (drained_lots ls rem)) = cost_total (drained_lots ls rem)"
proof (induction ls arbitrary: rem)
  case (Cons l ls)
  then show ?case
    using lot_after_empty_cost [of l rem]
    by (auto simp: retain_remaining_def lot_wf_def word_gt_0 unat_eq_iff)
qed (simp add: retain_remaining_def)

lemma drained_takings_pos:
  "t \<in> set (drained_takings ls rem) \<Longrightarrow> snd t \<noteq> 0"
  by (induction ls arbitrary: rem) (auto simp: min_def split: if_splits)

lemma moved_lots_wf:
  "list_all lot_wf (map (\<lambda>(l, n). moved_lot sig l n) (drained_takings ls rem))"
  using drained_takings_pos [of _ ls rem]
  by (auto simp: list_all_iff lot_wf_def moved_lot_def)

lemma push_missing_tags_distinct:
  "distinct tags \<Longrightarrow> distinct (push_missing_tags ts tags)"
  by (induction ts tags rule: push_missing_tags.induct) auto

lemma new_entry_wf [simp]: "entry_wf (new_entry w m)"
  by (simp add: entry_wf_def new_entry_def i64_sat_sub_def clamp_i64_def)

lemma new_entry_keys [simp]: "wallet_key (new_entry w m) = w" "mint (new_entry w m) = m"
  by (simp_all add: new_entry_def)

lemma ledger_wf_empty [simp]: "ledger_wf Map.empty"
  by (simp add: ledger_wf_def)

lemma ledger_wf_upd:
  "ledger_wf l \<Longrightarrow> entry_wf e \<Longrightarrow> k = trade_ledger_key (wallet_key e) (mint e)
   \<Longrightarrow> ledger_wf (l(k \<mapsto> e))"
  by (simp add: ledger_wf_def)

lemma ledger_wf_get:
  "ledger_wf l \<Longrightarrow> l k = Some e \<Longrightarrow> entry_wf e \<and> trade_ledger_key (wallet_key e) (mint e) = k"
  by (auto simp: ledger_wf_def)

lemma entry_or_new_wf:
  "ledger_wf l \<Longrightarrow> entry_wf (entry_or_new l w m)"
  by (auto simp: entry_or_new_def dest: ledger_wf_get split: option.splits)

lemma entry_or_new_key:
  "ledger_wf l \<Longrightarrow> trade_ledger_key (wallet_key (entry_or_new l w m)) (mint (entry_or_new l w m))
                 = trade_ledger_key w m"
  by (auto simp: entry_or_new_def dest: ledger_wf_get split: option.splits)

lemma apply_buy_frame [simp]:
  "wallet_key (apply_buy_event e ev a) = wallet_key e" "mint (apply_buy_event e ev a) = mint e"
  "platform_tags (apply_buy_event e ev a) = platform_tags e"
  "explicit_fee_total_lamports (apply_buy_event e ev a) = explicit_fee_total_lamports e"
  by (simp_all add: apply_buy_event_def Let_def split: option.splits)

lemma apply_sell_frame [simp]:
  "wallet_key (apply_sell_event e ev) = wallet_key e" "mint (apply_sell_event e ev) = mint e"
  "platform_tags (apply_sell_event e ev) = platform_tags e"
  "explicit_fee_total_lamports (apply_sell_event e ev) = explicit_fee_total_lamports e"
  by (simp_all add: apply_sell_event_def Let_def split: prod.splits)

lemma apply_buy_lots:
  "open_lots (apply_buy_event e ev a) =
     open_lots e @ (if bought_amount_raw ev = 0 then []
       else [\<lparr>acquired_at_unix_ms = confirmed_at_unix_ms ev, lot_signature = ev_signature ev,
              lot_settlement_asset = ev_settlement_asset ev,
              acquired_amount_raw = bought_amount_raw ev,
              remaining_amount_raw = bought_amount_raw ev,
              lot_cost_basis_lamports = trade_value_lamports ev\<rparr>])"
  by (simp add: apply_buy_event_def Let_def word_gt_0 split: option.splits)

lemma apply_sell_lots:
  "open_lots (apply_sell_event e ev)
     = retain_remaining (drained_lots (open_lots e) (sold_amount_raw ev))"
  by (simp add: apply_sell_event_def Let_def sell_loop_drain)

lemma apply_buy_lots_wf:
  "list_all lot_wf (open_lots e) \<Longrightarrow> list_all lot_wf (open_lots (apply_buy_event e ev a))"
  by (simp add: apply_buy_lots lot_wf_def)

lemma apply_sell_lots_wf:
  "list_all lot_wf (open_lots e) \<Longrightarrow> list_all lot_wf (open_lots (apply_sell_event e ev))"
  by (simp add: apply_sell_lots retain_drained_wf)

lemma traded_entry_lots:
  "open_lots (traded_entry e ev asset) =
     (case ev_side ev of
        Buy \<Rightarrow> open_lots e @ (if bought_amount_raw ev = 0 then []
          else [\<lparr>acquired_at_unix_ms = confirmed_at_unix_ms ev, lot_signature = ev_signature ev,
                 lot_settlement_asset = ev_settlement_asset ev,
                 acquired_amount_raw = bought_amount_raw ev,
                 remaining_amount_raw = bought_amount_raw ev,
                 lot_cost_basis_lamports = trade_value_lamports ev\<rparr>])
      | Sell \<Rightarrow> retain_remaining (drained_lots (open_lots e) (sold_amount_raw ev)))"
  by (cases "ev_side ev") (simp_all add: traded_entry_def Let_def apply_buy_lots apply_sell_lots)

lemma apply_buy_baseline [simp]:
  "reset_baseline_unix_ms (apply_buy_event e ev a) = reset_baseline_unix_ms e"
  "reset_baseline_slot (apply_buy_event e ev a) = reset_baseline_slot e"
  by (simp_all add: apply_buy_event_def Let_def split: option.splits)

lemma traded_entry_lots_wf:
  "list_all lot_wf (open_lots e) \<Longrightarrow> list_all lot_wf (open_lots (traded_entry e ev asset))"
  by (cases "ev_side ev") (auto simp: traded_entry_lots retain_drained_wf lot_wf_def)

lemma traded_entry_frame [simp]:
  "wallet_key (traded_entry e ev a) = wallet_key e" "mint (traded_entry e ev a) = mint e"
  "platform_tags (traded_entry e ev a) =
     (if ev_platform_tag ev \<in> set (platform_tags e) then platform_tags e
      else platform_tags e @ [ev_platform_tag ev])"
  by (cases "ev_side ev"; simp add: traded_entry_def Let_def)+

section \<open>Contract of a ledger operation\<close>

text \<open>
  What the rest of the engine relies on, whichever operation it calls: the operation keeps
  the ledger well formed and changes only the positions it names. Both carry over to any
  sequence of operations.
\<close>

locale ledger_operation =
  fixes step :: "'a \<Rightarrow> trade_ledger \<Rightarrow> trade_ledger"
    and touched :: "'a \<Rightarrow> string set"
  assumes step_wf: "ledger_wf l \<Longrightarrow> ledger_wf (step x l)"
    and step_frame: "k \<notin> touched x \<Longrightarrow> step x l k = l k"
begin

lemma replay_wf: "ledger_wf l \<Longrightarrow> ledger_wf (fold step xs l)"
  by (induction xs arbitrary: l) (auto simp: step_wf)

lemma replay_frame: "k \<notin> (\<Union>x \<in> set xs. touched x) \<Longrightarrow> fold step xs l k = l k"
  by (induction xs arbitrary: l) (auto simp: step_frame)

lemma replay_entry_wf: "fold step xs Map.empty k = Some e \<Longrightarrow> entry_wf e"
  using replay_wf [of Map.empty xs] ledger_wf_get by auto

end

lemma apply_confirmed_trade_event_wf:
  assumes "ledger_wf l"
  shows "ledger_wf (apply_confirmed_trade_event ev asset l)"
proof -
  let ?e = "entry_or_new l (ev_wallet_key ev) (ev_mint ev)"
  have e: "entry_wf ?e"
    and k: "trade_ledger_key (wallet_key ?e) (mint ?e)
              = trade_ledger_key (ev_wallet_key ev) (ev_mint ev)"
    using assms by (simp_all add: entry_or_new_wf entry_or_new_key)
  have lots: "list_all lot_wf (open_lots (traded_entry ?e ev asset))"
    and tags: "distinct (platform_tags ?e)"
    using e by (simp_all add: entry_wf_def traded_entry_lots_wf)
  show ?thesis
    unfolding apply_confirmed_trade_event_def Let_def
    using assms e k lots tags
    by (auto intro!: ledger_wf_upd simp: entry_wf_def any_remaining_wf)
qed

lemma apply_confirmed_trade_event_frame:
  "k \<noteq> trade_ledger_key (ev_wallet_key ev) (ev_mint ev)
   \<Longrightarrow> apply_confirmed_trade_event ev asset l k = l k"
  by (simp add: apply_confirmed_trade_event_def Let_def)

interpretation trade_op: ledger_operation
  "\<lambda>(ev, asset). apply_confirmed_trade_event ev asset"
  "\<lambda>(ev, asset). {trade_ledger_key (ev_wallet_key ev) (ev_mint ev)}"
  by unfold_locales
    (simp_all add: split_beta apply_confirmed_trade_event_wf apply_confirmed_trade_event_frame)

lemma reset_trade_ledger_position_wf:
  assumes "ledger_wf l"
  shows "ledger_wf (reset_trade_ledger_position w m ms slot l)"
  unfolding reset_trade_ledger_position_def
  using assms entry_or_new_key [OF assms, of w m]
  by (auto intro!: ledger_wf_upd simp: entry_wf_def)

lemma reset_frame:
  "k \<noteq> trade_ledger_key w m \<Longrightarrow> reset_trade_ledger_position w m ms slot l k = l k"
  by (simp add: reset_trade_ledger_position_def)

interpretation reset_op: ledger_operation
  "\<lambda>(w, m, ms, slot). reset_trade_ledger_position w m ms slot"
  "\<lambda>(w, m, ms, slot). {trade_ledger_key w m}"
  by unfold_locales
    (simp_all add: split_beta reset_trade_ledger_position_wf reset_frame)

lemma force_close_trade_ledger_position_wf:
  assumes "ledger_wf l"
  shows "ledger_wf (force_close_trade_ledger_position w m ms l)"
proof (cases "l (trade_ledger_key w m)")
  case (Some e)
  with assms show ?thesis
    using ledger_wf_get [OF assms Some]
    by (auto simp: force_close_trade_ledger_position_def Let_def entry_wf_def
        intro!: ledger_wf_upd)
qed (simp add: assms force_close_trade_ledger_position_def)

lemma force_close_frame:
  "k \<noteq> trade_ledger_key w m \<Longrightarrow> force_close_trade_ledger_position w m ms l k = l k"
  by (simp add: force_close_trade_ledger_position_def Let_def split: option.split)

interpretation force_close_op: ledger_operation
  "\<lambda>(w, m, ms). force_close_trade_ledger_position w m ms"
  "\<lambda>(w, m, ms). {trade_ledger_key w m}"
  by unfold_locales
    (simp_all add: split_beta force_close_trade_ledger_position_wf force_close_frame)

lemma mark_received_wf:
  assumes "ledger_wf l"
  shows "ledger_wf (mark_trade_ledger_received_without_cost_basis w m ms l)"
  unfolding mark_trade_ledger_received_without_cost_basis_def Let_def
  using assms entry_or_new_key [OF assms, of w m] entry_or_new_wf [OF assms, of w m]
  by (auto intro!: ledger_wf_upd simp: entry_wf_def)

lemma mark_received_frame:
  "k \<noteq> trade_ledger_key w m
   \<Longrightarrow> mark_trade_ledger_received_without_cost_basis w m ms l k = l k"
  by (simp add: mark_trade_ledger_received_without_cost_basis_def Let_def)

interpretation received_op: ledger_operation
  "\<lambda>(w, m, ms). mark_trade_ledger_received_without_cost_basis w m ms"
  "\<lambda>(w, m, ms). {trade_ledger_key w m}"
  by unfold_locales (simp_all add: split_beta mark_received_wf mark_received_frame)

lemma mark_sent_wf:
  assumes "ledger_wf l"
  shows "ledger_wf (mark_trade_ledger_sent_without_proceeds w m n ms l)"
proof -
  let ?e = "entry_or_new l w m"
  have e: "entry_wf ?e" by (rule entry_or_new_wf [OF assms])
  then have kept: "list_all lot_wf (retain_remaining (drained_lots (open_lots ?e) n))"
    by (simp add: entry_wf_def retain_drained_wf)
  show ?thesis
    unfolding mark_trade_ledger_sent_without_proceeds_def Let_def sent_loop_drain prod.case
    using assms e kept entry_or_new_key [OF assms, of w m]
    by (auto intro!: ledger_wf_upd simp: entry_wf_def any_remaining_wf)
qed

lemma mark_sent_frame:
  "k \<noteq> trade_ledger_key w m
   \<Longrightarrow> mark_trade_ledger_sent_without_proceeds w m n ms l k = l k"
  by (simp add: mark_trade_ledger_sent_without_proceeds_def Let_def sent_loop_drain)

interpretation sent_op: ledger_operation
  "\<lambda>(w, m, n, ms). mark_trade_ledger_sent_without_proceeds w m n ms"
  "\<lambda>(w, m, n, ms). {trade_ledger_key w m}"
  by unfold_locales (simp_all add: split_beta mark_sent_wf mark_sent_frame)

text \<open>
  A transfer that moves something is two updates: what is kept at the source, then what the
  destination gains. Both halves are named so that each is shown well formed on its own.
\<close>

definition transfer_source :: "trade_ledger_entry \<Rightarrow> u64 \<Rightarrow> u64 \<Rightarrow> trade_ledger_entry" where
  "transfer_source s amount ms =
     (let kept = retain_remaining (drained_lots (open_lots s) amount);
          s1 = s\<lparr>open_lots := kept, position_open := any_remaining kept,
                 remaining_cost_basis_lamports := lots_cost_basis kept,
                 last_trade_at_unix_ms := max (last_trade_at_unix_ms s) ms\<rparr>
      in if position_open s1 then s1 else s1\<lparr>entry_preference := None\<rparr>)"

definition transfer_destination ::
  "trade_ledger_entry \<Rightarrow> trade_ledger_entry \<Rightarrow> open_lot list \<Rightarrow> u64 \<Rightarrow> trade_ledger_entry" where
  "transfer_destination s d moved ms =
     (let dlots = open_lots d @ moved;
          d1 = d\<lparr>open_lots := dlots, position_open := any_remaining dlots,
                 remaining_cost_basis_lamports := lots_cost_basis dlots,
                 last_trade_at_unix_ms := max (last_trade_at_unix_ms d) ms\<rparr>;
          d2 = (if entry_preference d1 = None
                then d1\<lparr>entry_preference := entry_preference s\<rparr>
                else if entry_preference s \<noteq> None \<and> entry_preference d1 \<noteq> entry_preference s
                then d1\<lparr>entry_preference := Some Pref_Mixed\<rparr> else d1)
      in d2\<lparr>platform_tags := push_missing_tags (platform_tags s) (platform_tags d2)\<rparr>)"

definition moved_lots :: "string \<Rightarrow> trade_ledger_entry \<Rightarrow> u64 \<Rightarrow> open_lot list" where
  "moved_lots sig s amount =
     map (\<lambda>(l, n). moved_lot sig l n) (drained_takings (open_lots s) amount)"

lemma transfer_loop_same:
  "drained_takings ls n = [] \<Longrightarrow> drained_lots ls n = ls"
  by (induction ls arbitrary: n) (auto split: if_splits)

lemma transfer_unfold:
  assumes "amount \<noteq> 0" "src \<noteq> dst" "l (trade_ledger_key src m) = Some s"
  shows "transfer_trade_ledger_position src dst m amount sig ms l =
    (if moved_lots sig s amount = [] then (l, 0)
     else let s2 = transfer_source s amount ms;
              l1 = l(trade_ledger_key src m \<mapsto> s2)
          in (l1(trade_ledger_key dst m \<mapsto>
                transfer_destination s2 (entry_or_new l1 dst m) (moved_lots sig s amount) ms),
              foldl sat_add 0 (map snd (drained_takings (open_lots s) amount))))"
proof (cases "moved_lots sig s amount = []")
  case True
  then have "drained_takings (open_lots s) amount = []" by (simp add: moved_lots_def)
  then show ?thesis
    using assms True
    by (simp add: transfer_trade_ledger_position_def transfer_loop_drain transfer_loop_same
        fun_upd_idem)
next
  case False
  then have ne: "map (\<lambda>(l, n). moved_lot sig l n) (drained_takings (open_lots s) amount) \<noteq> []"
    by (simp add: moved_lots_def)
  show ?thesis
    using assms
    unfolding transfer_trade_ledger_position_def transfer_loop_drain append_Nil
      transfer_source_def transfer_destination_def moved_lots_def Let_def
    by (simp only: prod.case option.case if_False ne simp_thms)
qed

lemma transfer_source_wf:
  "entry_wf s \<Longrightarrow> entry_wf (transfer_source s n ms)"
  by (auto simp: entry_wf_def transfer_source_def Let_def any_remaining_wf retain_drained_wf)

lemma transfer_source_keys [simp]:
  "wallet_key (transfer_source s n ms) = wallet_key s" "mint (transfer_source s n ms) = mint s"
  "open_lots (transfer_source s n ms) = retain_remaining (drained_lots (open_lots s) n)"
  by (simp_all add: transfer_source_def Let_def)

lemma transfer_destination_wf:
  "entry_wf d \<Longrightarrow> list_all lot_wf mv \<Longrightarrow> mv \<noteq> [] \<Longrightarrow> entry_wf (transfer_destination s d mv ms)"
  by (auto simp: entry_wf_def transfer_destination_def Let_def any_remaining_wf
      push_missing_tags_distinct)

lemma transfer_destination_keys [simp]:
  "wallet_key (transfer_destination s d mv ms) = wallet_key d"
  "mint (transfer_destination s d mv ms) = mint d"
  "open_lots (transfer_destination s d mv ms) = open_lots d @ mv"
  by (simp_all add: transfer_destination_def Let_def)

lemma transfer_wf:
  assumes "ledger_wf l"
  shows "ledger_wf (fst (transfer_trade_ledger_position src dst m amount sig ms l))"
proof (cases "amount = 0 \<or> src = dst \<or> l (trade_ledger_key src m) = None")
  case True
  then show ?thesis
    using assms by (auto simp: transfer_trade_ledger_position_def)
next
  case False
  then obtain s where s: "l (trade_ledger_key src m) = Some s" by auto
  let ?s2 = "transfer_source s amount ms"
  let ?l1 = "l(trade_ledger_key src m \<mapsto> ?s2)"
  have wf1: "ledger_wf ?l1"
    using ledger_wf_get [OF assms s] assms by (intro ledger_wf_upd) (auto intro: transfer_source_wf)
  have mv: "list_all lot_wf (moved_lots sig s amount)"
    unfolding moved_lots_def by (rule moved_lots_wf)
  show ?thesis
    using False s wf1 mv
    by (auto simp: transfer_unfold Let_def entry_or_new_wf entry_or_new_key assms
        intro!: ledger_wf_upd [OF wf1] transfer_destination_wf)
qed

lemma transfer_frame:
  "k \<noteq> trade_ledger_key src m \<Longrightarrow> k \<noteq> trade_ledger_key dst m
   \<Longrightarrow> fst (transfer_trade_ledger_position src dst m n sig ms l) k = l k"
  by (simp add: transfer_trade_ledger_position_def Let_def split: option.split prod.split)

interpretation transfer_op: ledger_operation
  "\<lambda>(src, dst, m, n, sig, ms) l. fst (transfer_trade_ledger_position src dst m n sig ms l)"
  "\<lambda>(src, dst, m, n, sig, ms). {trade_ledger_key src m, trade_ledger_key dst m}"
  by unfold_locales (simp_all add: split_beta transfer_wf transfer_frame)

section \<open>What one trade does to its position\<close>

lemma apply_sell_fields:
  "unmatched_sell_amount_raw (apply_sell_event e ev) =
     (if drained_rest (open_lots e) (sold_amount_raw ev) = 0 then unmatched_sell_amount_raw e
      else sat_add (unmatched_sell_amount_raw e) (drained_rest (open_lots e) (sold_amount_raw ev)))"
  "needs_resync (apply_sell_event e ev) =
     (needs_resync e \<or> drained_rest (open_lots e) (sold_amount_raw ev) \<noteq> 0)"
  "tracked_sold_lamports (apply_sell_event e ev) =
     sat_add (tracked_sold_lamports e) (trade_value_lamports ev)"
  "tracked_bought_lamports (apply_sell_event e ev) = tracked_bought_lamports e"
  "buy_count (apply_sell_event e ev) = buy_count e"
  "sell_count (apply_sell_event e ev) = sat_add (sell_count e) 1"
  "realized_pnl_gross_lamports (apply_sell_event e ev) =
     i64_sat_add (realized_pnl_gross_lamports e)
       (i64_sat_sub (i64_of_u64 (trade_value_lamports ev))
         (i64_of_u64 (foldl sat_add 0
            (map (\<lambda>(l, n). lot_take_cost l n)
              (drained_takings (open_lots e) (sold_amount_raw ev))))))"
  by (simp_all add: apply_sell_event_def Let_def sell_loop_drain word_gt_0)

lemma apply_buy_fields:
  "unmatched_sell_amount_raw (apply_buy_event e ev a) = unmatched_sell_amount_raw e"
  "needs_resync (apply_buy_event e ev a) = needs_resync e"
  "tracked_sold_lamports (apply_buy_event e ev a) = tracked_sold_lamports e"
  "tracked_bought_lamports (apply_buy_event e ev a) =
     sat_add (tracked_bought_lamports e) (trade_value_lamports ev)"
  "buy_count (apply_buy_event e ev a) = sat_add (buy_count e) 1"
  "sell_count (apply_buy_event e ev a) = sell_count e"
  "realized_pnl_gross_lamports (apply_buy_event e ev a) = realized_pnl_gross_lamports e"
  by (simp_all add: apply_buy_event_def Let_def split: option.splits)

text \<open>
  In a well-formed ledger a trade after the baseline leaves the position exactly as
  \<open>traded_entry\<close> computes it, with the derived fields brought up to date.
\<close>

lemma apply_confirmed_after:
  assumes wf: "ledger_wf l"
    and e: "entry_or_new l (ev_wallet_key ev) (ev_mint ev) = e"
    and after: "trade_event_is_after_reset_baseline (confirmed_at_unix_ms ev) (ev_slot ev)
                  (reset_baseline_unix_ms e) (reset_baseline_slot e)"
  shows "apply_confirmed_trade_event ev asset l
           (trade_ledger_key (ev_wallet_key ev) (ev_mint ev)) =
         (let t = traded_entry e ev asset
          in Some (t\<lparr>position_open := open_lots t \<noteq> [],
                     remaining_cost_basis_lamports := lots_cost_basis (open_lots t),
                     realized_pnl_net_lamports :=
                       i64_sat_sub (realized_pnl_gross_lamports t) (explicit_fee_total_lamports t),
                     entry_preference :=
                       (if open_lots t = [] then None else entry_preference t)\<rparr>))"
proof -
  have "entry_wf e" using entry_or_new_wf [OF wf] e by blast
  then have "list_all lot_wf (open_lots (traded_entry e ev asset))"
    by (intro traded_entry_lots_wf) (simp add: entry_wf_def)
  then have rem: "any_remaining (open_lots (traded_entry e ev asset))
                    = (open_lots (traded_entry e ev asset) \<noteq> [])"
    by (rule any_remaining_wf)
  have cleared: "t\<lparr>position_open := False, realized_pnl_net_lamports := x,
                   entry_preference := None, open_lots := [],
                   remaining_cost_basis_lamports := 0\<rparr>
                 = t\<lparr>position_open := False, remaining_cost_basis_lamports := 0,
                     realized_pnl_net_lamports := x, entry_preference := None\<rparr>"
    if "open_lots t = []" for t :: trade_ledger_entry and x
    using that by (cases t) simp
  show ?thesis
    using after rem e
    by (auto simp: apply_confirmed_trade_event_def Let_def cleared any_remaining_def)
qed

text \<open>
  C1: a confirmed sale consumes the open lots first-in first-out: read as a queue of
  tokens, the position loses exactly the sold number of tokens from the front, and the
  part of the sale that no lot covers is counted as unmatched and flags a resync.
\<close>

theorem sell_consumes_lots_fifo:
  assumes "ledger_wf l"
    and "l (trade_ledger_key (ev_wallet_key ev) (ev_mint ev)) = Some e"
    and "ev_side ev = Sell"
    and "trade_event_is_after_reset_baseline (confirmed_at_unix_ms ev) (ev_slot ev)
           (reset_baseline_unix_ms e) (reset_baseline_slot e)"
  shows "\<exists>e'. apply_confirmed_trade_event ev asset l
                (trade_ledger_key (ev_wallet_key ev) (ev_mint ev)) = Some e'
           \<and> lot_tokens (open_lots e')
               = drop (unat (sold_amount_raw ev)) (lot_tokens (open_lots e))
           \<and> unat (unmatched_sell_amount_raw e')
               = min (unat (unmatched_sell_amount_raw e)
                      + (unat (sold_amount_raw ev) - token_total (open_lots e))) (2 ^ 64 - 1)
           \<and> needs_resync e'
               = (needs_resync e \<or> token_total (open_lots e) < unat (sold_amount_raw ev))"
proof -
  have e: "entry_or_new l (ev_wallet_key ev) (ev_mint ev) = e"
    using assms(2) by (simp add: entry_or_new_def)
  show ?thesis
    using apply_confirmed_after [OF assms(1) e assms(4)] assms(3)
    by (simp add: Let_def traded_entry_lots drained_tokens)
      (simp add: traded_entry_def apply_sell_fields Let_def unat_sat_add drained_rest
        unat_eq_iff min_absorb1)
qed

definition sample_fees :: explicit_fee_breakdown where
  "sample_fees = \<lparr>network_fee_lamports = 5000, priority_fee_lamports = 0, tip_lamports = 0,
                  rent_delta_lamports = 0\<rparr>"

definition sample_event :: "trade_side \<Rightarrow> i128 \<Rightarrow> u64 \<Rightarrow> u64 \<Rightarrow> confirmed_trade_event" where
  "sample_event side delta v t =
     \<lparr>ev_schema_version = 1, ev_signature = ''sig'', ev_slot = None, confirmed_at_unix_ms = t,
      ev_wallet_key = ''w'', ev_wallet_public_key = ''pk'', ev_mint = ''m'', ev_side = side,
      ev_platform_tag = Axiom, ev_provenance = LocalExecution,
      ev_settlement_asset = Some Settle_Sol, token_delta_raw = delta, token_decimals = Some 6,
      trade_value_lamports = v, explicit_fees = sample_fees, client_request_id = None,
      batch_id = None\<rparr>"

definition sample_ledger :: trade_ledger where
  "sample_ledger =
     apply_confirmed_trade_event (sample_event Buy 100 1000 2) (Some Settle_Sol) Map.empty"

lemma sample_ledger_wf: "ledger_wf sample_ledger"
  unfolding sample_ledger_def by (intro apply_confirmed_trade_event_wf ledger_wf_empty)

lemma sample_key [simp]:
  "trade_ledger_key (ev_wallet_key (sample_event s d v t)) (ev_mint (sample_event s d v t))
     = ''w::m''"
  by (simp add: sample_event_def) code_simp

lemma sample_event_simps [simp]:
  "ev_side (sample_event s d v t) = s" "token_delta_raw (sample_event s d v t) = d"
  "trade_value_lamports (sample_event s d v t) = v" "confirmed_at_unix_ms (sample_event s d v t) = t"
  "ev_slot (sample_event s d v t) = None" "ev_signature (sample_event s d v t) = ''sig''"
  by (simp_all add: sample_event_def)

lemma sample_entry:
  "\<exists>e. sample_ledger ''w::m'' = Some e \<and> lot_tokens (open_lots e) = replicate 100 (2, ''sig'')
     \<and> token_total (open_lots e) = 100 \<and> cost_total (open_lots e) = 1000
     \<and> reset_baseline_unix_ms e = 0 \<and> reset_baseline_slot e = None
     \<and> unmatched_sell_amount_raw e = 0 \<and> open_lots e \<noteq> []
     \<and> tracked_bought_lamports e = 1000"
proof -
  have new: "entry_or_new Map.empty (ev_wallet_key (sample_event Buy 100 1000 2))
               (ev_mint (sample_event Buy 100 1000 2))
             = new_entry (ev_wallet_key (sample_event Buy 100 1000 2))
                 (ev_mint (sample_event Buy 100 1000 2))"
    by (simp add: entry_or_new_def)
  have amt: "bought_amount_raw (sample_event Buy 100 1000 2) = 100"
    by (simp add: bought_amount_raw_def u64_of_i128_def)
  show ?thesis
    using apply_confirmed_after [OF ledger_wf_empty new]
    by (simp add: sample_ledger_def Let_def new_entry_def trade_event_is_after_reset_baseline_def
        traded_entry_lots amt)
      (simp add: traded_entry_def Let_def apply_buy_fields apply_buy_baseline sat_add_def)
qed

theorem sell_consumes_lots_fifo_witness:
  "\<exists>e'. apply_confirmed_trade_event (sample_event Sell (- 40) 700 3) None sample_ledger ''w::m''
          = Some e'
      \<and> lot_tokens (open_lots e') = replicate 60 (2, ''sig'') \<and> \<not> 100 < unat (40 :: u64)"
proof -
  obtain e where e: "sample_ledger ''w::m'' = Some e"
    "lot_tokens (open_lots e) = replicate 100 (2, ''sig'')" "reset_baseline_unix_ms e = 0"
    "reset_baseline_slot e = None"
    using sample_entry by blast
  have "sold_amount_raw (sample_event Sell (- 40) 700 3) = 40"
    by (simp add: sold_amount_raw_def u64_of_i128_def)
  then show ?thesis
    using sell_consumes_lots_fifo
      [OF sample_ledger_wf, of "sample_event Sell (- 40) 700 3" e None] e
    by (auto simp: trade_event_is_after_reset_baseline_def)
qed

section \<open>Profit and loss\<close>

text \<open>
  The accounting relation of one position: nothing has saturated below the bound \<open>B\<close>, and
  the realised gross result is what was received minus what was spent, plus the cost basis
  still held in open lots.
\<close>

definition pnl_balanced :: "nat \<Rightarrow> trade_ledger_entry \<Rightarrow> bool" where
  "pnl_balanced B e \<longleftrightarrow>
     unat (tracked_bought_lamports e) + unat (tracked_sold_lamports e) \<le> B
     \<and> cost_total (open_lots e) \<le> unat (tracked_bought_lamports e)
     \<and> sint (realized_pnl_gross_lamports e)
         = int (unat (tracked_sold_lamports e)) - int (unat (tracked_bought_lamports e))
           + int (cost_total (open_lots e))"

lemma pnl_balanced_new [simp]: "pnl_balanced B (new_entry w m)"
  by (simp add: pnl_balanced_def new_entry_def)

lemma pnl_balanced_mono: "pnl_balanced B e \<Longrightarrow> B \<le> B' \<Longrightarrow> pnl_balanced B' e"
  by (auto simp: pnl_balanced_def)

lemma bought_amount_pos: "0 < sint (token_delta_raw ev) \<Longrightarrow> bought_amount_raw ev \<noteq> 0"
proof -
  assume pos: "0 < sint (token_delta_raw ev)"
  show ?thesis
  proof (cases "sint (token_delta_raw ev) < 2 ^ 64")
    case True
    with pos have "uint (word_of_int (sint (token_delta_raw ev)) :: u64) = sint (token_delta_raw ev)"
      by (simp only: uint_word_of_int len_num0 len_bit0 len_bit1 mod_pos_pos_trivial) simp
    then have "word_of_int (sint (token_delta_raw ev)) \<noteq> (0 :: u64)"
      using pos by (metis less_irrefl uint_0_eq)
    with pos True show ?thesis
      by (simp add: bought_amount_raw_def u64_of_i128_def)
  qed (use pos in \<open>simp add: bought_amount_raw_def u64_of_i128_def max_word_def\<close>)
qed

lemma pnl_balanced_buy:
  assumes "pnl_balanced B e" "B + unat (trade_value_lamports ev) < 2 ^ 63"
    and "0 < sint (token_delta_raw ev)"
  shows "pnl_balanced (B + unat (trade_value_lamports ev)) (apply_buy_event e ev a)"
  using assms bought_amount_pos [OF assms(3)]
  by (simp add: pnl_balanced_def apply_buy_fields apply_buy_lots unat_sat_add)

lemma pnl_balanced_sell:
  assumes bal: "pnl_balanced B e" and lim: "B + unat (trade_value_lamports ev) < 2 ^ 63"
    and lots: "list_all lot_wf (open_lots e)"
  shows "pnl_balanced (B + unat (trade_value_lamports ev)) (apply_sell_event e ev)"
proof -
  let ?n = "sold_amount_raw ev"
  let ?taken = "sum_list (map (\<lambda>(l, n). unat (lot_take_cost l n)) (drained_takings (open_lots e) ?n))"
  let ?m = "foldl sat_add 0 (map (\<lambda>(l, n). lot_take_cost l n) (drained_takings (open_lots e) ?n))"
  have cost: "cost_total (drained_lots (open_lots e) ?n) + ?taken = cost_total (open_lots e)"
    by (rule drained_cost_total)
  have kept: "cost_total (retain_remaining (drained_lots (open_lots e) ?n))
              = cost_total (drained_lots (open_lots e) ?n)"
    using lots by (rule retain_drained_cost)
  have le: "?taken < 2 ^ 63"
    using cost bal lim by (simp add: pnl_balanced_def)
  have "map unat (map (\<lambda>(l, n). lot_take_cost l n) (drained_takings (open_lots e) ?n))
      = map (\<lambda>(l, n). unat (lot_take_cost l n)) (drained_takings (open_lots e) ?n)"
    by auto
  then have m: "unat ?m = ?taken"
    using le by (simp only: unat_fold_sat_add) simp
  show ?thesis
    using bal lim cost kept m le
    by (simp add: pnl_balanced_def apply_sell_fields apply_sell_lots unat_sat_add
        sint_i64_sat_add sint_i64_sat_sub sint_i64_of_u64 clamp_i64_id)
qed

lemma pnl_balanced_traded:
  assumes "pnl_balanced B e" "B + unat (trade_value_lamports ev) < 2 ^ 63" "list_all lot_wf (open_lots e)"
    and "ev_side ev = Buy \<longrightarrow> 0 < sint (token_delta_raw ev)"
  shows "pnl_balanced (B + unat (trade_value_lamports ev)) (traded_entry e ev a)"
proof -
  have "pnl_balanced B (e\<lparr>last_trade_at_unix_ms := x, explicit_fee_total_lamports := y,
          platform_tags := z\<rparr>)" for x y z
    using assms(1) by (simp add: pnl_balanced_def)
  then show ?thesis
    using assms by (cases "ev_side ev")
      (simp_all add: traded_entry_def Let_def pnl_balanced_buy pnl_balanced_sell)
qed

definition ledger_balanced :: "nat \<Rightarrow> trade_ledger \<Rightarrow> bool" where
  "ledger_balanced B l \<longleftrightarrow> (\<forall>k e. l k = Some e \<longrightarrow> pnl_balanced B e)"

lemma ledger_balanced_get: "ledger_balanced B l \<Longrightarrow> pnl_balanced B (entry_or_new l w m)"
  by (auto simp: ledger_balanced_def entry_or_new_def split: option.split)

lemma ledger_balanced_upd:
  "ledger_balanced B l \<Longrightarrow> pnl_balanced B e \<Longrightarrow> ledger_balanced B (l(k \<mapsto> e))"
  by (simp add: ledger_balanced_def)

lemma ledger_balanced_mono: "ledger_balanced B l \<Longrightarrow> B \<le> B' \<Longrightarrow> ledger_balanced B' l"
  by (auto simp: ledger_balanced_def intro: pnl_balanced_mono)

lemma ledger_balanced_trade:
  assumes "ledger_balanced B l" "ledger_wf l" "B + unat (trade_value_lamports ev) < 2 ^ 63"
    and "ev_side ev = Buy \<longrightarrow> 0 < sint (token_delta_raw ev)"
  shows "ledger_balanced (B + unat (trade_value_lamports ev)) (apply_confirmed_trade_event ev a l)"
proof -
  let ?e = "entry_or_new l (ev_wallet_key ev) (ev_mint ev)"
  let ?B = "B + unat (trade_value_lamports ev)"
  have old: "ledger_balanced ?B l" "pnl_balanced ?B ?e"
    using assms(1) ledger_balanced_mono ledger_balanced_get by (blast intro: pnl_balanced_mono le_add1)+
  have lots: "list_all lot_wf (open_lots ?e)"
    using entry_or_new_wf [OF assms(2)] by (simp add: entry_wf_def)
  then have tlots: "list_all lot_wf (open_lots (traded_entry ?e ev a))"
    by (rule traded_entry_lots_wf)
  have "pnl_balanced ?B (traded_entry ?e ev a)"
    using assms lots ledger_balanced_get by (intro pnl_balanced_traded) auto
  then show ?thesis
    using old tlots
    by (auto simp: apply_confirmed_trade_event_def Let_def any_remaining_wf pnl_balanced_def
        intro!: ledger_balanced_upd)
qed

lemma ledger_balanced_reset:
  "ledger_balanced B l \<Longrightarrow> ledger_balanced B (reset_trade_ledger_position w m ms slot l)"
  unfolding reset_trade_ledger_position_def
  by (rule ledger_balanced_upd) (simp_all add: pnl_balanced_def)

lemma ledger_balanced_force_close:
  assumes "ledger_balanced B l" "B < 2 ^ 63"
  shows "ledger_balanced B (force_close_trade_ledger_position w m ms l)"
proof (cases "l (trade_ledger_key w m)")
  case (Some e)
  then have bal: "pnl_balanced B e" using assms(1) by (auto simp: ledger_balanced_def)
  then have small: "cost_total (open_lots e) < 2 ^ 63"
    using assms(2) by (simp add: pnl_balanced_def)
  show ?thesis
    using Some bal small assms
    by (auto simp: force_close_trade_ledger_position_def Let_def pnl_balanced_def
        sint_i64_sat_sub sint_i64_of_u64 unat_lots_cost_basis clamp_i64_id
        intro!: ledger_balanced_upd)
qed (simp add: force_close_trade_ledger_position_def assms)

lemma ledger_balanced_received:
  "ledger_balanced B l
   \<Longrightarrow> ledger_balanced B (mark_trade_ledger_received_without_cost_basis w m ms l)"
  unfolding mark_trade_ledger_received_without_cost_basis_def Let_def
  using ledger_balanced_get [of B l w m]
  by (intro ledger_balanced_upd) (auto simp: pnl_balanced_def)

section \<open>Transfers between wallets\<close>

definition position_tokens :: "trade_ledger \<Rightarrow> string \<Rightarrow> nat" where
  "position_tokens l k = (case l k of None \<Rightarrow> 0 | Some e \<Rightarrow> token_total (open_lots e))"

definition position_cost :: "trade_ledger \<Rightarrow> string \<Rightarrow> nat" where
  "position_cost l k = (case l k of None \<Rightarrow> 0 | Some e \<Rightarrow> cost_total (open_lots e))"

lemma moved_lots_totals:
  "token_total (moved_lots sig s n) = sum_list (map (\<lambda>t. unat (snd t)) (drained_takings (open_lots s) n))"
  "cost_total (moved_lots sig s n)
     = sum_list (map (\<lambda>(l, m). unat (lot_take_cost l m)) (drained_takings (open_lots s) n))"
  by (simp_all add: moved_lots_def token_total_def cost_total_def o_def case_prod_unfold moved_lot_def)

lemma entry_or_new_totals:
  "token_total (open_lots (entry_or_new l w m)) = position_tokens l (trade_ledger_key w m)"
  "cost_total (open_lots (entry_or_new l w m)) = position_cost l (trade_ledger_key w m)"
  by (simp_all add: entry_or_new_def position_tokens_def position_cost_def new_entry_def
      split: option.split)

text \<open>
  C2: a transfer between two wallets moves exactly the smaller of the requested amount and
  what the source holds, oldest lots first, and neither creates nor destroys tokens or cost
  basis: the sums over the two positions are the same before and after.
\<close>

theorem transfer_conserves_tokens_and_cost:
  assumes "ledger_wf l" and "amount \<noteq> 0" and "src \<noteq> dst"
    and "trade_ledger_key src m \<noteq> trade_ledger_key dst m"
    and "transfer_trade_ledger_position src dst m amount sig ms l = (l', moved)"
  shows "unat moved = min (unat amount) (position_tokens l (trade_ledger_key src m))
    \<and> position_tokens l' (trade_ledger_key src m) + unat moved
        = position_tokens l (trade_ledger_key src m)
    \<and> position_tokens l' (trade_ledger_key dst m)
        = position_tokens l (trade_ledger_key dst m) + unat moved
    \<and> position_cost l' (trade_ledger_key src m) + position_cost l' (trade_ledger_key dst m)
        = position_cost l (trade_ledger_key src m) + position_cost l (trade_ledger_key dst m)"
proof (cases "l (trade_ledger_key src m)")
  case None
  then show ?thesis
    using assms by (auto simp: transfer_trade_ledger_position_def position_tokens_def)
next
  case (Some s)
  let ?ts = "drained_takings (open_lots s) amount"
  have lots: "list_all lot_wf (open_lots s)"
    using ledger_wf_get [OF assms(1) Some] by (simp add: entry_wf_def)
  have sum: "sum_list (map (\<lambda>t. unat (snd t)) ?ts) = min (unat amount) (token_total (open_lots s))"
    by (rule drained_taken)
  have "sum_list (map unat (map snd ?ts)) = min (unat amount) (token_total (open_lots s))"
    using sum by (simp add: o_def)
  then have total: "unat (foldl sat_add 0 (map snd ?ts)) = min (unat amount) (token_total (open_lots s))"
    by (simp only: unat_fold_sat_add) (simp add: min_absorb1 min_le_iff_disj)
  show ?thesis
  proof (cases "moved_lots sig s amount = []")
    case True
    then have "?ts = []" by (simp add: moved_lots_def)
    then show ?thesis
      using assms Some True sum by (auto simp: transfer_unfold position_tokens_def)
  next
    case False
    let ?l1 = "l(trade_ledger_key src m \<mapsto> transfer_source s amount ms)"
    have l': "l' = ?l1(trade_ledger_key dst m \<mapsto>
        transfer_destination (transfer_source s amount ms) (entry_or_new ?l1 dst m)
          (moved_lots sig s amount) ms)"
      and moved: "moved = foldl sat_add 0 (map snd ?ts)"
      using assms(5) transfer_unfold [of amount src dst l m s sig ms] assms(2,3) Some False
      by (auto simp: Let_def)
    have dst: "position_tokens ?l1 (trade_ledger_key dst m) = position_tokens l (trade_ledger_key dst m)"
      "position_cost ?l1 (trade_ledger_key dst m) = position_cost l (trade_ledger_key dst m)"
      using assms(4) by (simp_all add: position_tokens_def position_cost_def)
    show ?thesis
      using drained_token_total [of "open_lots s" amount] drained_cost_total [of "open_lots s" amount]
        retain_drained_cost [OF lots, of amount] total sum assms(4) Some dst
      by (simp add: l' moved position_tokens_def [of "_(_ \<mapsto> _)"] position_cost_def [of "_(_ \<mapsto> _)"]
          moved_lots_totals entry_or_new_totals)
        (simp add: position_tokens_def [of l] position_cost_def [of l])
  qed
qed

theorem transfer_conserves_tokens_and_cost_witness:
  "\<exists>l' moved. transfer_trade_ledger_position ''w'' ''v'' ''m'' 30 ''tx'' 9 sample_ledger = (l', moved)
     \<and> unat moved = 30 \<and> position_tokens l' ''w::m'' = 70 \<and> position_tokens l' ''v::m'' = 30
     \<and> position_cost l' ''w::m'' + position_cost l' ''v::m'' = 1000"
proof -
  obtain l' moved where
    t: "transfer_trade_ledger_position ''w'' ''v'' ''m'' 30 ''tx'' 9 sample_ledger = (l', moved)"
    by (cases "transfer_trade_ledger_position ''w'' ''v'' ''m'' 30 ''tx'' 9 sample_ledger") auto
  have keys: "trade_ledger_key ''w'' ''m'' = ''w::m''" "trade_ledger_key ''v'' ''m'' = ''v::m''"
    by code_simp+
  have "sample_ledger ''v::m'' = None"
    unfolding sample_ledger_def by (subst apply_confirmed_trade_event_frame) simp_all
  then have pos: "position_tokens sample_ledger ''w::m'' = 100" "position_cost sample_ledger ''w::m'' = 1000"
    "position_tokens sample_ledger ''v::m'' = 0" "position_cost sample_ledger ''v::m'' = 0"
    using sample_entry by (auto simp: position_tokens_def position_cost_def)
  show ?thesis
    using transfer_conserves_tokens_and_cost [OF sample_ledger_wf _ _ _ t] t pos
    by (simp add: keys)
qed

section \<open>Forced closes and resets\<close>

lemma force_close_closed:
  assumes "l (trade_ledger_key w m) = Some e" "open_lots e = []"
    and "remaining_cost_basis_lamports e = 0" "\<not> position_open e" "entry_preference e = None"
    and "unmatched_sell_amount_raw e = 0" "\<not> needs_resync e"
  shows "force_close_trade_ledger_position w m ms l = l"
proof -
  have "e\<lparr>open_lots := [], remaining_cost_basis_lamports := 0, position_open := False,
          entry_preference := None, unmatched_sell_amount_raw := 0, needs_resync := False\<rparr> = e"
    using assms(2-) by (cases e) simp
  then show ?thesis
    using assms(1,2) by (simp add: force_close_trade_ledger_position_def Let_def fun_upd_idem)
qed

text \<open>
  Closing a position that the chain no longer holds realises its whole remaining cost
  basis as a loss, counts as one sale without proceeds, clears every open-position field and
  the resync flags, and is idempotent: repeating it changes nothing.
\<close>

theorem force_close_realizes_remaining_basis:
  assumes "ledger_wf l" and "l (trade_ledger_key w m) = Some e" and "open_lots e \<noteq> []"
  shows "\<exists>e'. force_close_trade_ledger_position w m ms l = l(trade_ledger_key w m \<mapsto> e')
     \<and> open_lots e' = [] \<and> \<not> position_open e' \<and> remaining_cost_basis_lamports e' = 0
     \<and> unmatched_sell_amount_raw e' = 0 \<and> \<not> needs_resync e' \<and> entry_preference e' = None
     \<and> tracked_sold_lamports e' = tracked_sold_lamports e
     \<and> sell_count e' = sat_add (sell_count e) 1
     \<and> sint (realized_pnl_gross_lamports e')
         = clamp_i64 (sint (realized_pnl_gross_lamports e)
             - clamp_i64 (int (unat (remaining_cost_basis_lamports e))))
     \<and> force_close_trade_ledger_position w m ms' (force_close_trade_ledger_position w m ms l)
         = force_close_trade_ledger_position w m ms l"
proof -
  have basis: "remaining_cost_basis_lamports e = lots_cost_basis (open_lots e)"
    using ledger_wf_get [OF assms(1,2)] by (simp add: entry_wf_def)
  let ?l' = "force_close_trade_ledger_position w m ms l"
  have "\<exists>e'. ?l' = l(trade_ledger_key w m \<mapsto> e')
     \<and> open_lots e' = [] \<and> \<not> position_open e' \<and> remaining_cost_basis_lamports e' = 0
     \<and> unmatched_sell_amount_raw e' = 0 \<and> \<not> needs_resync e' \<and> entry_preference e' = None
     \<and> tracked_sold_lamports e' = tracked_sold_lamports e
     \<and> sell_count e' = sat_add (sell_count e) 1
     \<and> sint (realized_pnl_gross_lamports e')
         = clamp_i64 (sint (realized_pnl_gross_lamports e)
             - clamp_i64 (int (unat (remaining_cost_basis_lamports e))))"
    using assms(2,3)
    by (intro exI [of _ "the (?l' (trade_ledger_key w m))"])
      (simp add: force_close_trade_ledger_position_def Let_def basis sint_i64_sat_sub
        sint_i64_of_u64)
  then obtain e' where e': "?l' = l(trade_ledger_key w m \<mapsto> e')"
     "open_lots e' = [] \<and> \<not> position_open e' \<and> remaining_cost_basis_lamports e' = 0
     \<and> unmatched_sell_amount_raw e' = 0 \<and> \<not> needs_resync e' \<and> entry_preference e' = None
     \<and> tracked_sold_lamports e' = tracked_sold_lamports e
     \<and> sell_count e' = sat_add (sell_count e) 1
     \<and> sint (realized_pnl_gross_lamports e')
         = clamp_i64 (sint (realized_pnl_gross_lamports e)
             - clamp_i64 (int (unat (remaining_cost_basis_lamports e))))"
    by blast
  have "force_close_trade_ledger_position w m ms' ?l' = ?l'"
    using e' by (intro force_close_closed [of _ w m e']) simp_all
  with e' show ?thesis by blast
qed

theorem force_close_realizes_remaining_basis_witness:
  "\<exists>e'. force_close_trade_ledger_position ''w'' ''m'' 9 sample_ledger = sample_ledger(''w::m'' \<mapsto> e')
     \<and> open_lots e' = [] \<and> remaining_cost_basis_lamports e' = 0"
proof -
  obtain e where e: "sample_ledger ''w::m'' = Some e" "open_lots e \<noteq> []"
    using sample_entry by blast
  have key: "trade_ledger_key ''w'' ''m'' = ''w::m''" by code_simp
  show ?thesis
    using force_close_realizes_remaining_basis [OF sample_ledger_wf, of "''w''" "''m''" e 9] e key
    by auto
qed

lemma stale_after_reset:
  assumes "trade_ledger_key (ev_wallet_key ev) (ev_mint ev) = trade_ledger_key w m"
    and "\<not> trade_event_is_after_reset_baseline (confirmed_at_unix_ms ev) (ev_slot ev) ms slot"
  shows "apply_confirmed_trade_event ev a (reset_trade_ledger_position w m ms slot l)
           = reset_trade_ledger_position w m ms slot l"
  using assms
  by (simp add: apply_confirmed_trade_event_def reset_trade_ledger_position_def entry_or_new_def
      Let_def)

text \<open>
  C3: after "Reset PnL for this coin" the position is blank, and replaying any number of
  trades of that position that are not after the baseline (by slot when both slots are
  known, by time otherwise) leaves the ledger unchanged: wiped trades cannot come back.
\<close>

theorem reset_discards_stale_trades:
  assumes "\<forall>(ev, a) \<in> set evs.
      trade_ledger_key (ev_wallet_key ev) (ev_mint ev) = trade_ledger_key w m
      \<and> \<not> trade_event_is_after_reset_baseline (confirmed_at_unix_ms ev) (ev_slot ev) ms slot"
  shows "fold (\<lambda>(ev, a). apply_confirmed_trade_event ev a) evs
           (reset_trade_ledger_position w m ms slot l)
         = reset_trade_ledger_position w m ms slot l
    \<and> (\<exists>e. reset_trade_ledger_position w m ms slot l (trade_ledger_key w m) = Some e
           \<and> open_lots e = [] \<and> \<not> position_open e \<and> realized_pnl_gross_lamports e = 0
           \<and> realized_pnl_net_lamports e = 0 \<and> remaining_cost_basis_lamports e = 0
           \<and> buy_count e = 0 \<and> sell_count e = 0
           \<and> tracked_bought_lamports e = 0 \<and> tracked_sold_lamports e = 0)"
proof
  show "fold (\<lambda>(ev, a). apply_confirmed_trade_event ev a) evs
           (reset_trade_ledger_position w m ms slot l)
         = reset_trade_ledger_position w m ms slot l"
    using assms by (induction evs) (auto simp: stale_after_reset)
qed (simp add: reset_trade_ledger_position_def)

theorem reset_discards_stale_trades_witness:
  "fold (\<lambda>(ev, a). apply_confirmed_trade_event ev a)
     [(sample_event Buy 5 10 3, None), (sample_event Sell (- 5) 10 4, None)]
     (reset_trade_ledger_position ''w'' ''m'' 4 (Some 7) sample_ledger)
   = reset_trade_ledger_position ''w'' ''m'' 4 (Some 7) sample_ledger"
proof (rule reset_discards_stale_trades [THEN conjunct1])
  have "trade_ledger_key ''w'' ''m'' = ''w::m''" by code_simp
  then show "\<forall>(ev, a) \<in> set [(sample_event Buy 5 10 3, None :: trade_settlement_asset option),
        (sample_event Sell (- 5) 10 4, None)].
      trade_ledger_key (ev_wallet_key ev) (ev_mint ev) = trade_ledger_key ''w'' ''m''
      \<and> \<not> trade_event_is_after_reset_baseline (confirmed_at_unix_ms ev) (ev_slot ev) 4 (Some 7)"
    by (simp add: trade_event_is_after_reset_baseline_def)
qed

section \<open>Aggregates over wallets\<close>

record trade_ledger_aggregate =
  agg_bought_lamports :: u64
  agg_sold_lamports :: u64
  agg_buy_count :: u64
  agg_sell_count :: u64
  agg_last_trade_at_unix_ms :: u64
  agg_realized_pnl_gross_lamports :: i64
  agg_realized_pnl_net_lamports :: i64
  agg_explicit_fee_total_lamports :: i64
  agg_remaining_cost_basis_lamports :: u64
  agg_unmatched_sell_amount_raw :: u64
  agg_needs_resync :: bool

definition empty_aggregate :: trade_ledger_aggregate where
  "empty_aggregate =
     \<lparr>agg_bought_lamports = 0, agg_sold_lamports = 0, agg_buy_count = 0, agg_sell_count = 0,
      agg_last_trade_at_unix_ms = 0, agg_realized_pnl_gross_lamports = 0,
      agg_realized_pnl_net_lamports = 0, agg_explicit_fee_total_lamports = 0,
      agg_remaining_cost_basis_lamports = 0, agg_unmatched_sell_amount_raw = 0,
      agg_needs_resync = False\<rparr>"

definition aggregate_entry ::
  "trade_ledger_aggregate \<Rightarrow> trade_ledger_entry \<Rightarrow> trade_ledger_aggregate" where
  "aggregate_entry a e =
     \<lparr>agg_bought_lamports = sat_add (agg_bought_lamports a) (tracked_bought_lamports e),
      agg_sold_lamports = sat_add (agg_sold_lamports a) (tracked_sold_lamports e),
      agg_buy_count = sat_add (agg_buy_count a) (buy_count e),
      agg_sell_count = sat_add (agg_sell_count a) (sell_count e),
      agg_last_trade_at_unix_ms = max (agg_last_trade_at_unix_ms a) (last_trade_at_unix_ms e),
      agg_realized_pnl_gross_lamports =
        i64_sat_add (agg_realized_pnl_gross_lamports a) (realized_pnl_gross_lamports e),
      agg_realized_pnl_net_lamports =
        i64_sat_add (agg_realized_pnl_net_lamports a) (realized_pnl_net_lamports e),
      agg_explicit_fee_total_lamports =
        i64_sat_add (agg_explicit_fee_total_lamports a) (explicit_fee_total_lamports e),
      agg_remaining_cost_basis_lamports =
        sat_add (agg_remaining_cost_basis_lamports a) (remaining_cost_basis_lamports e),
      agg_unmatched_sell_amount_raw =
        sat_add (agg_unmatched_sell_amount_raw a) (unmatched_sell_amount_raw e),
      agg_needs_resync = (agg_needs_resync a \<or> needs_resync e)\<rparr>"

definition aggregate_trade_ledger ::
  "trade_ledger \<Rightarrow> string list \<Rightarrow> string \<Rightarrow> trade_ledger_aggregate" where
  "aggregate_trade_ledger l wallet_keys m =
     foldl (\<lambda>a w. case l (trade_ledger_key w m) of
                    Some e \<Rightarrow> aggregate_entry a e
                  | None \<Rightarrow> a) empty_aggregate wallet_keys"

text \<open>The positions the aggregate looks at, in the order of the wallet list.\<close>

definition positions :: "trade_ledger \<Rightarrow> string list \<Rightarrow> string \<Rightarrow> trade_ledger_entry list" where
  "positions l ws m = List.map_filter (\<lambda>w. l (trade_ledger_key w m)) ws"

lemma aggregate_positions:
  "aggregate_trade_ledger l ws m = foldl aggregate_entry empty_aggregate (positions l ws m)"
proof -
  have "foldl (\<lambda>a w. case l (trade_ledger_key w m) of Some e \<Rightarrow> aggregate_entry a e | None \<Rightarrow> a) a ws
        = foldl aggregate_entry a (positions l ws m)" for a
    by (induction ws arbitrary: a)
      (auto simp: positions_def List.map_filter_def split: option.splits)
  then show ?thesis by (simp add: aggregate_trade_ledger_def)
qed

lemma aggregate_fields:
  "agg_bought_lamports (foldl aggregate_entry a es)
     = foldl sat_add (agg_bought_lamports a) (map tracked_bought_lamports es)"
  "agg_sold_lamports (foldl aggregate_entry a es)
     = foldl sat_add (agg_sold_lamports a) (map tracked_sold_lamports es)"
  "agg_remaining_cost_basis_lamports (foldl aggregate_entry a es)
     = foldl sat_add (agg_remaining_cost_basis_lamports a) (map remaining_cost_basis_lamports es)"
  "agg_unmatched_sell_amount_raw (foldl aggregate_entry a es)
     = foldl sat_add (agg_unmatched_sell_amount_raw a) (map unmatched_sell_amount_raw es)"
  "agg_needs_resync (foldl aggregate_entry a es) = (agg_needs_resync a \<or> list_ex needs_resync es)"
  by (induction es arbitrary: a) (auto simp: aggregate_entry_def)

lemma aggregate_gross:
  "\<bar>sint (agg_realized_pnl_gross_lamports a)\<bar>
     + sum_list (map (\<lambda>e. \<bar>sint (realized_pnl_gross_lamports e)\<bar>) es) < 2 ^ 63
   \<Longrightarrow> sint (agg_realized_pnl_gross_lamports (foldl aggregate_entry a es))
       = sint (agg_realized_pnl_gross_lamports a)
         + sum_list (map (\<lambda>e. sint (realized_pnl_gross_lamports e)) es)"
proof (induction es arbitrary: a)
  case (Cons e es)
  have nonneg: "0 \<le> sum_list (map (\<lambda>e. \<bar>sint (realized_pnl_gross_lamports e)\<bar>) es)"
    by (rule sum_list_nonneg) auto
  let ?x = "sint (agg_realized_pnl_gross_lamports a)" and ?y = "sint (realized_pnl_gross_lamports e)"
  have "\<bar>?x\<bar> + \<bar>?y\<bar> < 2 ^ 63" using Cons.prems nonneg by simp
  then have step: "sint (agg_realized_pnl_gross_lamports (aggregate_entry a e)) = ?x + ?y"
    by (simp add: aggregate_entry_def sint_i64_sat_add clamp_i64_id)
  have "\<bar>sint (agg_realized_pnl_gross_lamports (aggregate_entry a e))\<bar>
     + sum_list (map (\<lambda>e. \<bar>sint (realized_pnl_gross_lamports e)\<bar>) es) < 2 ^ 63"
    using Cons.prems abs_triangle_ineq [of ?x ?y] by (simp add: step)
  then show ?case by (simp add: Cons.IH step)
qed simp

text \<open>
  The aggregate of a mint over a list of wallets is the (saturating) sum of their
  positions: bought, sold, unmatched and open cost basis add up, a resync flag on any of
  them is reported, and the realised gross result is the exact sum while it fits.
\<close>

theorem aggregate_sums_positions:
  shows "unat (agg_bought_lamports (aggregate_trade_ledger l ws m))
       = min (sum_list (map (\<lambda>e. unat (tracked_bought_lamports e)) (positions l ws m))) (2 ^ 64 - 1)
    \<and> unat (agg_sold_lamports (aggregate_trade_ledger l ws m))
       = min (sum_list (map (\<lambda>e. unat (tracked_sold_lamports e)) (positions l ws m))) (2 ^ 64 - 1)
    \<and> unat (agg_remaining_cost_basis_lamports (aggregate_trade_ledger l ws m))
       = min (sum_list (map (\<lambda>e. unat (remaining_cost_basis_lamports e)) (positions l ws m)))
           (2 ^ 64 - 1)
    \<and> agg_needs_resync (aggregate_trade_ledger l ws m) = list_ex needs_resync (positions l ws m)
    \<and> (sum_list (map (\<lambda>e. \<bar>sint (realized_pnl_gross_lamports e)\<bar>) (positions l ws m)) < 2 ^ 63
        \<longrightarrow> sint (agg_realized_pnl_gross_lamports (aggregate_trade_ledger l ws m))
            = sum_list (map (\<lambda>e. sint (realized_pnl_gross_lamports e)) (positions l ws m)))"
  using aggregate_gross [of empty_aggregate "positions l ws m"]
  by (simp add: aggregate_positions aggregate_fields)
    (simp add: empty_aggregate_def unat_fold_sat_add o_def)

theorem aggregate_sums_positions_witness:
  "unat (agg_bought_lamports (aggregate_trade_ledger sample_ledger [''w''] ''m'')) = 1000
   \<and> sint (agg_realized_pnl_gross_lamports (aggregate_trade_ledger Map.empty [''w''] ''m'')) = 0"
proof -
  have key: "trade_ledger_key ''w'' ''m'' = ''w::m''" by code_simp
  obtain e where e: "sample_ledger ''w::m'' = Some e" "tracked_bought_lamports e = 1000"
    using sample_entry by auto
  show ?thesis
    using aggregate_sums_positions [of sample_ledger "[''w'']" "''m''"]
      aggregate_sums_positions [of Map.empty "[''w'']" "''m''"] e
    by (simp add: positions_def List.map_filter_def key)
qed

end
