(* ===== verification/Ledger_Journal.thy ===== *)
theory Ledger_Journal
  imports Trade_Ledger "HOL-Library.AList" "HOL-Library.Multiset"
begin

text \<open>
  The append-only journal behind the PnL ledger (\<^verbatim>\<open>execution-engine/src/trade_ledger.rs\<close>):
  its marker events, the order entries are replayed in, the rebuild of the ledger from the
  journal, the segment files it is written to, and the snapshot files the ledger is
  persisted to and loaded from. JSON encoding and decoding is third-party code (serde): it
  is the parameter \<open>journal_codec\<close>. A directory is an association list from file names to
  lines; a missing or unparseable snapshot file is \<^term>\<open>None\<close>.
\<close>

section \<open>Journal entries\<close>

record reset_marker_event =
  rm_schema_version :: u32
  rm_event_kind :: string
  rm_wallet_key :: string
  rm_mint :: string
  reset_at_unix_ms :: u64
  reset_at_slot :: "u64 option"

record force_close_marker_event =
  fm_schema_version :: u32
  fm_event_kind :: string
  fm_wallet_key :: string
  fm_mint :: string
  fm_applied_at_unix_ms :: u64
  fm_reason :: string

record token_transfer_marker_event =
  tm_schema_version :: u32
  tm_event_kind :: string
  source_wallet_key :: string
  destination_wallet_key :: string
  tm_mint :: string
  tm_amount_raw :: u64
  tm_signature :: string
  tm_applied_at_unix_ms :: u64
  tm_slot :: "u64 option"

datatype incomplete_balance_adjustment_kind = ReceivedWithoutCostBasis | SentWithoutProceeds

record incomplete_marker_event =
  im_schema_version :: u32
  im_event_kind :: string
  adjustment_kind :: incomplete_balance_adjustment_kind
  im_wallet_key :: string
  im_mint :: string
  im_amount_raw :: u64
  im_signature :: string
  im_applied_at_unix_ms :: u64
  im_slot :: "u64 option"

definition trade_ledger_schema_version :: u32 where
  "trade_ledger_schema_version = 1"

definition new_reset_marker ::
  "string \<Rightarrow> string \<Rightarrow> u64 \<Rightarrow> u64 option \<Rightarrow> reset_marker_event" where
  "new_reset_marker w m ms slot =
     \<lparr>rm_schema_version = trade_ledger_schema_version, rm_event_kind = ''reset_marker'',
      rm_wallet_key = w, rm_mint = m, reset_at_unix_ms = ms, reset_at_slot = slot\<rparr>"

definition new_force_close_marker ::
  "string \<Rightarrow> string \<Rightarrow> u64 \<Rightarrow> string \<Rightarrow> force_close_marker_event" where
  "new_force_close_marker w m ms reason =
     \<lparr>fm_schema_version = trade_ledger_schema_version, fm_event_kind = ''force_close_marker'',
      fm_wallet_key = w, fm_mint = m, fm_applied_at_unix_ms = ms, fm_reason = reason\<rparr>"

definition new_token_transfer_marker ::
  "string \<Rightarrow> string \<Rightarrow> string \<Rightarrow> u64 \<Rightarrow> string \<Rightarrow> u64 \<Rightarrow> token_transfer_marker_event" where
  "new_token_transfer_marker src dst m amount sig ms =
     \<lparr>tm_schema_version = trade_ledger_schema_version, tm_event_kind = ''token_transfer_marker'',
      source_wallet_key = src, destination_wallet_key = dst, tm_mint = m,
      tm_amount_raw = amount, tm_signature = sig, tm_applied_at_unix_ms = ms, tm_slot = None\<rparr>"

definition with_slot ::
  "token_transfer_marker_event \<Rightarrow> u64 option \<Rightarrow> token_transfer_marker_event" where
  "with_slot t slot = t\<lparr>tm_slot := slot\<rparr>"

definition transfer_event_id :: "token_transfer_marker_event \<Rightarrow> string" where
  "transfer_event_id t =
     str_trim (tm_signature t) @ ''::'' @ str_trim (source_wallet_key t) @ ''::''
       @ str_trim (destination_wallet_key t) @ ''::'' @ str_trim (tm_mint t) @ ''::''
       @ show_nat (unat (tm_amount_raw t))"

definition new_incomplete_marker ::
  "incomplete_balance_adjustment_kind \<Rightarrow> string \<Rightarrow> string \<Rightarrow> u64 \<Rightarrow> string \<Rightarrow> u64 \<Rightarrow> u64 option
     \<Rightarrow> incomplete_marker_event" where
  "new_incomplete_marker kind w m amount sig ms slot =
     \<lparr>im_schema_version = trade_ledger_schema_version,
      im_event_kind = ''incomplete_balance_adjustment_marker'', adjustment_kind = kind,
      im_wallet_key = w, im_mint = m, im_amount_raw = amount, im_signature = sig,
      im_applied_at_unix_ms = ms, im_slot = slot\<rparr>"

definition received_without_cost_basis ::
  "string \<Rightarrow> string \<Rightarrow> u64 \<Rightarrow> string \<Rightarrow> u64 \<Rightarrow> u64 option \<Rightarrow> incomplete_marker_event" where
  "received_without_cost_basis = new_incomplete_marker ReceivedWithoutCostBasis"

definition sent_without_proceeds ::
  "string \<Rightarrow> string \<Rightarrow> u64 \<Rightarrow> string \<Rightarrow> u64 \<Rightarrow> u64 option \<Rightarrow> incomplete_marker_event" where
  "sent_without_proceeds = new_incomplete_marker SentWithoutProceeds"

text \<open>The derived \<^verbatim>\<open>Debug\<close> text of the adjustment kind, as \<^verbatim>\<open>{:?}\<close> prints it.\<close>

definition debug_kind :: "incomplete_balance_adjustment_kind \<Rightarrow> string" where
  "debug_kind k = (case k of ReceivedWithoutCostBasis \<Rightarrow> ''ReceivedWithoutCostBasis''
                           | SentWithoutProceeds \<Rightarrow> ''SentWithoutProceeds'')"

definition incomplete_event_id :: "incomplete_marker_event \<Rightarrow> string" where
  "incomplete_event_id i =
     (if starts_with (str_trim (im_signature i)) ''resync-balance-reconcile:''
      then ''resync-balance-reconcile::'' @ debug_kind (adjustment_kind i) @ ''::''
             @ str_trim (im_wallet_key i) @ ''::'' @ str_trim (im_mint i)
      else str_trim (im_signature i) @ ''::'' @ debug_kind (adjustment_kind i) @ ''::''
             @ str_trim (im_wallet_key i) @ ''::'' @ str_trim (im_mint i))"

datatype journal_entry =
    Trade confirmed_trade_event
  | ResetMarker reset_marker_event
  | ForceCloseMarker force_close_marker_event
  | TokenTransferMarker token_transfer_marker_event
  | IncompleteMarker incomplete_marker_event

fun timestamp :: "journal_entry \<Rightarrow> u64" where
  "timestamp (Trade ev) = confirmed_at_unix_ms ev"
| "timestamp (ResetMarker r) = reset_at_unix_ms r"
| "timestamp (ForceCloseMarker f) = fm_applied_at_unix_ms f"
| "timestamp (TokenTransferMarker t) = tm_applied_at_unix_ms t"
| "timestamp (IncompleteMarker i) = im_applied_at_unix_ms i"

fun slot_sort_key :: "journal_entry \<Rightarrow> u64" where
  "slot_sort_key (Trade ev) = unwrap_or max_word (ev_slot ev)"
| "slot_sort_key (ResetMarker r) = unwrap_or max_word (reset_at_slot r)"
| "slot_sort_key (TokenTransferMarker t) = unwrap_or max_word (tm_slot t)"
| "slot_sort_key (IncompleteMarker i) = unwrap_or max_word (im_slot i)"
| "slot_sort_key (ForceCloseMarker f) = max_word"

fun wallet_mint_key :: "journal_entry \<Rightarrow> string" where
  "wallet_mint_key (Trade ev) = trade_ledger_key (ev_wallet_key ev) (ev_mint ev)"
| "wallet_mint_key (ResetMarker r) = trade_ledger_key (rm_wallet_key r) (rm_mint r)"
| "wallet_mint_key (ForceCloseMarker f) = trade_ledger_key (fm_wallet_key f) (fm_mint f)"
| "wallet_mint_key (TokenTransferMarker t) = trade_ledger_key (source_wallet_key t) (tm_mint t)"
| "wallet_mint_key (IncompleteMarker i) = trade_ledger_key (im_wallet_key i) (im_mint i)"

fun replay_rank :: "journal_entry \<Rightarrow> nat" where
  "replay_rank (Trade _) = 0"
| "replay_rank (ResetMarker _) = 1"
| "replay_rank (TokenTransferMarker _) = 2"
| "replay_rank (IncompleteMarker _) = 3"
| "replay_rank (ForceCloseMarker _) = 4"

fun identity_key :: "journal_entry \<Rightarrow> string" where
  "identity_key (Trade ev) = event_id ev"
| "identity_key (ResetMarker r) =
     ''reset::'' @ str_trim (rm_wallet_key r) @ ''::'' @ str_trim (rm_mint r) @ ''::''
       @ show_nat (unat (reset_at_unix_ms r)) @ ''::''
       @ show_nat (unat (unwrap_or max_word (reset_at_slot r)))"
| "identity_key (ForceCloseMarker f) =
     ''force-close::'' @ str_trim (fm_wallet_key f) @ ''::'' @ str_trim (fm_mint f) @ ''::''
       @ show_nat (unat (fm_applied_at_unix_ms f)) @ ''::'' @ str_trim (fm_reason f)"
| "identity_key (TokenTransferMarker t) = transfer_event_id t"
| "identity_key (IncompleteMarker i) = incomplete_event_id i"

definition order_key_le :: "incomplete_marker_event \<Rightarrow> incomplete_marker_event \<Rightarrow> bool" where
  "order_key_le a b =
     (let ka = (unwrap_or 0 (im_slot a), im_applied_at_unix_ms a);
          kb = (unwrap_or 0 (im_slot b), im_applied_at_unix_ms b)
      in fst ka < fst kb \<or> fst ka = fst kb \<and> snd ka \<le> snd kb)"

definition incomplete_marker_clear_scope :: "incomplete_marker_event \<Rightarrow> string" where
  "incomplete_marker_clear_scope i =
     debug_kind (adjustment_kind i) @ ''::'' @ str_trim (im_wallet_key i) @ ''::''
       @ str_trim (im_mint i) @ ''::'' @ str_trim (im_signature i)"

section \<open>Replay order\<close>

text \<open>\<^verbatim>\<open>std::cmp::Ordering\<close> with \<^verbatim>\<open>cmp\<close> and \<^verbatim>\<open>then_with\<close>.\<close>

datatype ordering = Ord_Less | Ord_Equal | Ord_Greater

definition cmp :: "'a::linorder \<Rightarrow> 'a \<Rightarrow> ordering" where
  "cmp a b = (if a < b then Ord_Less else if a = b then Ord_Equal else Ord_Greater)"

definition then_with :: "ordering \<Rightarrow> ordering \<Rightarrow> ordering" where
  "then_with a b = (if a = Ord_Equal then b else a)"

definition compare_journal_entries :: "journal_entry \<Rightarrow> journal_entry \<Rightarrow> ordering" where
  "compare_journal_entries l r =
     then_with (cmp (timestamp l) (timestamp r))
       (then_with (cmp (slot_sort_key l) (slot_sort_key r))
         (then_with (cmp (wallet_mint_key l) (wallet_mint_key r))
           (then_with (cmp (replay_rank l) (replay_rank r))
             (cmp (identity_key l) (identity_key r)))))"

text \<open>\<^verbatim>\<open>slice::sort_by\<close>: stable, so equal elements keep the order they had.\<close>

fun insert_by :: "('a \<Rightarrow> 'a \<Rightarrow> ordering) \<Rightarrow> 'a \<Rightarrow> 'a list \<Rightarrow> 'a list" where
  "insert_by c x [] = [x]"
| "insert_by c x (y # ys) =
     (if c x y = Ord_Greater then y # insert_by c x ys else x # y # ys)"

definition sort_by :: "('a \<Rightarrow> 'a \<Rightarrow> ordering) \<Rightarrow> 'a list \<Rightarrow> 'a list" where
  "sort_by c xs = foldr (insert_by c) xs []"

text \<open>The comparator as the order of a key type, so that the library's sorting lemmas apply.\<close>

datatype journal_key = JKey u64 u64 string nat string

instantiation journal_key :: linorder
begin

fun less_eq_journal_key :: "journal_key \<Rightarrow> journal_key \<Rightarrow> bool" where
  "less_eq_journal_key (JKey a b c d e) (JKey a' b' c' d' e') =
     (a < a' \<or> a = a' \<and> (b < b' \<or> b = b' \<and> (c < c' \<or> c = c' \<and> (d < d' \<or> d = d' \<and> e \<le> e'))))"

definition less_journal_key :: "journal_key \<Rightarrow> journal_key \<Rightarrow> bool" where
  "less_journal_key x y \<longleftrightarrow> x \<le> y \<and> \<not> y \<le> x"

instance
proof
  fix x y z :: journal_key
  show "x < y \<longleftrightarrow> x \<le> y \<and> \<not> y \<le> x"
    by (rule less_journal_key_def)
  show "x \<le> x"
    by (cases x) simp
  show "x \<le> y \<Longrightarrow> y \<le> z \<Longrightarrow> x \<le> z"
    by (cases x; cases y; cases z) auto
  show "x \<le> y \<Longrightarrow> y \<le> x \<Longrightarrow> x = y"
    by (cases x; cases y) auto
  show "x \<le> y \<or> y \<le> x"
    by (cases x; cases y) auto
qed

end

definition journal_key_of :: "journal_entry \<Rightarrow> journal_key" where
  "journal_key_of e =
     JKey (timestamp e) (slot_sort_key e) (wallet_mint_key e) (replay_rank e) (identity_key e)"

lemma compare_journal_entries_key:
  "compare_journal_entries l r = cmp (journal_key_of l) (journal_key_of r)"
proof (cases "timestamp l" "timestamp r" rule: linorder_cases)
  case ts: equal
  show ?thesis
  proof (cases "slot_sort_key l" "slot_sort_key r" rule: linorder_cases)
    case slot: equal
    show ?thesis
    proof (cases "wallet_mint_key l" "wallet_mint_key r" rule: linorder_cases)
      case wm: equal
      show ?thesis
        by (cases "replay_rank l" "replay_rank r" rule: linorder_cases;
            cases "identity_key l" "identity_key r" rule: linorder_cases)
          (simp_all add: compare_journal_entries_def cmp_def then_with_def journal_key_of_def
            less_journal_key_def ts slot wm order_less_not_sym less_imp_not_eq less_imp_not_eq2 not_le)
    qed (simp_all add: compare_journal_entries_def cmp_def then_with_def journal_key_of_def
        less_journal_key_def ts slot order_less_not_sym less_imp_not_eq less_imp_not_eq2)
  qed (simp_all add: compare_journal_entries_def cmp_def then_with_def journal_key_of_def
      less_journal_key_def ts order_less_not_sym less_imp_not_eq less_imp_not_eq2)
qed (simp_all add: compare_journal_entries_def cmp_def then_with_def journal_key_of_def
    less_journal_key_def order_less_not_sym less_imp_not_eq less_imp_not_eq2)

lemma sort_by_key:
  assumes "\<And>x y. c x y = cmp (f x) (f y)"
  shows "sort_by c xs = sort_key f xs"
proof -
  have "insert_by c x ys = insort_key f x ys" for x ys
    by (induction ys) (auto simp: assms cmp_def)
  then have "insert_by c = insort_key f" by blast
  then show ?thesis by (simp add: sort_by_def sort_key_def)
qed

lemma sort_journal: "sort_by compare_journal_entries es = sort_key journal_key_of es"
  by (rule sort_by_key) (rule compare_journal_entries_key)

lemma sorted_filter_eq: "sorted (map f (filter (\<lambda>x. f x = k) xs))"
  by (induction xs) auto

lemma sort_key_three_way:
  "sort_key f xs = sort_key f (filter (\<lambda>x. f x < k) xs) @ filter (\<lambda>x. f x = k) xs
     @ sort_key f (filter (\<lambda>x. k < f x) xs)" (is "_ = ?r")
proof (rule properties_for_sort_key)
  show "mset ?r = mset xs"
    by (induction xs) auto
  show "sorted (map f ?r)"
    by (auto simp: sorted_append less_imp_le sorted_filter_eq)
  fix y
  have *: "filter (\<lambda>x. f y = f x) (sort_key f zs) = filter (\<lambda>x. f y = f x) zs" for zs
    using sort_key_stable [of f "f y" zs] by (simp add: eq_commute)
  have part: "filter (\<lambda>x. f y = f x) (filter (\<lambda>x. P (f x)) xs)
              = (if P (f y) then filter (\<lambda>x. f y = f x) xs else [])" for P
    by (induction xs) auto
  show "filter (\<lambda>x. f y = f x) ?r = filter (\<lambda>x. f y = f x) xs"
    unfolding filter_append * part [of "\<lambda>v. v < k"] part [of "\<lambda>v. v = k"] part [of "\<lambda>v. k < v"]
    by (cases "f y" k rule: linorder_cases) auto
qed

lemma sort_key_repeat:
  assumes "e \<in> set as"
  obtains ys zs where "sort_key f (as @ bs) = ys @ zs" "e \<in> set ys"
    "sort_key f (as @ e # bs) = ys @ e # zs"
proof (rule that)
  let ?lo = "sort_key f (filter (\<lambda>x. f x < f e) (as @ bs))"
  let ?hi = "sort_key f (filter (\<lambda>x. f e < f x) (as @ bs))"
  show "sort_key f (as @ bs) = (?lo @ filter (\<lambda>x. f x = f e) as) @ (filter (\<lambda>x. f x = f e) bs @ ?hi)"
    by (subst sort_key_three_way [of f _ "f e"]) simp
  show "e \<in> set (?lo @ filter (\<lambda>x. f x = f e) as)"
    using assms by simp
  show "sort_key f (as @ e # bs) = (?lo @ filter (\<lambda>x. f x = f e) as) @ e # (filter (\<lambda>x. f x = f e) bs @ ?hi)"
    by (subst sort_key_three_way [of f _ "f e"]) simp
qed

lemma sort_key_last:
  assumes "\<And>y. y \<in> set as \<Longrightarrow> f y \<le> f x" "\<And>y. y \<in> set bs \<Longrightarrow> f y < f x"
  shows "sort_key f (as @ x # bs) = sort_key f (as @ bs) @ [x]"
proof (rule properties_for_sort_key)
  show "mset (sort_key f (as @ bs) @ [x]) = mset (as @ x # bs)" by simp
  show "sorted (map f (sort_key f (as @ bs) @ [x]))"
    using assms by (auto simp: sorted_append less_imp_le)
  fix y
  have "filter (\<lambda>z. f y = f z) bs = []" if "f y = f x"
    using assms(2) that by (fastforce simp: filter_empty_conv)
  then show "filter (\<lambda>z. f y = f z) (sort_key f (as @ bs) @ [x])
             = filter (\<lambda>z. f y = f z) (as @ x # bs)"
    using sort_key_stable [of f "f y" "as @ bs"] by (simp add: eq_commute)
qed

section \<open>Rebuilding the ledger\<close>

text \<open>
  \<open>latest_incomplete_markers\<close> is a \<^verbatim>\<open>HashMap\<close> from event ids to markers: an association
  list here, so that the order it is finally read out in can be a parameter.
\<close>

type_synonym marker_map = "(string \<times> incomplete_marker_event) list"

definition collect_incomplete :: "incomplete_marker_event \<Rightarrow> marker_map \<Rightarrow> marker_map" where
  "collect_incomplete m ms =
     (if im_amount_raw m = 0
      then let clear_scope = incomplete_marker_clear_scope m;
               kept = filter (\<lambda>(_, x). incomplete_marker_clear_scope x \<noteq> clear_scope) ms
           in AList.update (incomplete_event_id m) m kept
      else let should_replace =
                 (case map_of ms (incomplete_event_id m) of
                    None \<Rightarrow> True
                  | Some existing \<Rightarrow> order_key_le existing m)
           in if should_replace then AList.update (incomplete_event_id m) m ms else ms)"

fun collect_entry ::
  "journal_entry \<Rightarrow> journal_entry list \<times> marker_map \<Rightarrow> journal_entry list \<times> marker_map" where
  "collect_entry (IncompleteMarker m) (es, ms) = (es, collect_incomplete m ms)"
| "collect_entry e (es, ms) = (es @ [e], ms)"

definition collect_entries :: "journal_entry list \<Rightarrow> journal_entry list \<times> marker_map" where
  "collect_entries es = fold collect_entry es ([], [])"

record replay_state =
  replayed_ledger :: trade_ledger
  seen_event_ids :: "string set"
  seen_token_transfer_ids :: "string set"

text \<open>What each arm of the replay loop does to the ledger.\<close>

fun journal_op :: "journal_entry \<Rightarrow> trade_ledger \<Rightarrow> trade_ledger" where
  "journal_op (Trade ev) l =
     apply_confirmed_trade_event ev
       (case ev_side ev of Buy \<Rightarrow> ev_settlement_asset ev | Sell \<Rightarrow> None) l"
| "journal_op (ResetMarker r) l =
     reset_trade_ledger_position (rm_wallet_key r) (rm_mint r) (reset_at_unix_ms r)
       (reset_at_slot r) l"
| "journal_op (ForceCloseMarker f) l =
     force_close_trade_ledger_position (fm_wallet_key f) (fm_mint f)
       (fm_applied_at_unix_ms f) l"
| "journal_op (TokenTransferMarker t) l =
     fst (transfer_trade_ledger_position (source_wallet_key t) (destination_wallet_key t)
            (tm_mint t) (tm_amount_raw t) (tm_signature t) (tm_applied_at_unix_ms t) l)"
| "journal_op (IncompleteMarker i) l =
     (if im_amount_raw i = 0 then l
      else case adjustment_kind i of
        ReceivedWithoutCostBasis \<Rightarrow>
          mark_trade_ledger_received_without_cost_basis (im_wallet_key i) (im_mint i)
            (im_applied_at_unix_ms i) l
      | SentWithoutProceeds \<Rightarrow>
          mark_trade_ledger_sent_without_proceeds (im_wallet_key i) (im_mint i)
            (im_amount_raw i) (im_applied_at_unix_ms i) l)"

fun replay_entry :: "journal_entry \<Rightarrow> replay_state \<Rightarrow> replay_state" where
  "replay_entry (Trade ev) st =
     (if event_id ev \<in> seen_event_ids st then st
      else st\<lparr>seen_event_ids := insert (event_id ev) (seen_event_ids st),
              replayed_ledger := journal_op (Trade ev) (replayed_ledger st)\<rparr>)"
| "replay_entry (TokenTransferMarker t) st =
     (if transfer_event_id t \<in> seen_token_transfer_ids st then st
      else st\<lparr>seen_token_transfer_ids :=
                insert (transfer_event_id t) (seen_token_transfer_ids st),
              replayed_ledger := journal_op (TokenTransferMarker t) (replayed_ledger st)\<rparr>)"
| "replay_entry e st = st\<lparr>replayed_ledger := journal_op e (replayed_ledger st)\<rparr>"

definition replay_start :: replay_state where
  "replay_start = \<lparr>replayed_ledger = Map.empty, seen_event_ids = {}, seen_token_transfer_ids = {}\<rparr>"

text \<open>
  \<open>into_values\<close> is the order in which \<^verbatim>\<open>HashMap::into_values\<close> yields the markers: the
  code gets some permutation of them.
\<close>

definition replay_order ::
  "(marker_map \<Rightarrow> incomplete_marker_event list) \<Rightarrow> journal_entry list \<Rightarrow> journal_entry list" where
  "replay_order into_values es =
     (let (entries, latest) = collect_entries es
      in sort_by compare_journal_entries (entries @ map IncompleteMarker (into_values latest)))"

definition rebuild_state ::
  "(marker_map \<Rightarrow> incomplete_marker_event list) \<Rightarrow> journal_entry list \<Rightarrow> replay_state" where
  "rebuild_state into_values es = fold replay_entry (replay_order into_values es) replay_start"

definition rebuild_trade_ledger_from_journal ::
  "(marker_map \<Rightarrow> incomplete_marker_event list) \<Rightarrow> journal_entry list \<Rightarrow> trade_ledger" where
  "rebuild_trade_ledger_from_journal into_values es =
     replayed_ledger (rebuild_state into_values es)"

section \<open>The replay as a sequence of ledger operations\<close>

text \<open>The positions an entry can change, and the entries whose event id is new.\<close>

fun journal_touched :: "journal_entry \<Rightarrow> string set" where
  "journal_touched (TokenTransferMarker t) =
     {trade_ledger_key (source_wallet_key t) (tm_mint t),
      trade_ledger_key (destination_wallet_key t) (tm_mint t)}"
| "journal_touched e = {wallet_mint_key e}"

interpretation journal_steps: ledger_operation journal_op journal_touched
proof
  fix l :: trade_ledger and x k
  show "ledger_wf l \<Longrightarrow> ledger_wf (journal_op x l)"
    by (cases x)
      (auto simp: apply_confirmed_trade_event_wf reset_trade_ledger_position_wf
        force_close_trade_ledger_position_wf mark_received_wf mark_sent_wf transfer_wf
        split: incomplete_balance_adjustment_kind.split)
  show "k \<notin> journal_touched x \<Longrightarrow> journal_op x l k = l k"
    by (cases x)
      (auto simp: apply_confirmed_trade_event_frame reset_frame force_close_frame
        mark_received_frame mark_sent_frame transfer_frame
        split: incomplete_balance_adjustment_kind.split)
qed

fun dedupe :: "string set \<Rightarrow> string set \<Rightarrow> journal_entry list \<Rightarrow> journal_entry list" where
  "dedupe A B [] = []"
| "dedupe A B (Trade ev # es) =
     (if event_id ev \<in> A then dedupe A B es
      else Trade ev # dedupe (insert (event_id ev) A) B es)"
| "dedupe A B (TokenTransferMarker t # es) =
     (if transfer_event_id t \<in> B then dedupe A B es
      else TokenTransferMarker t # dedupe A (insert (transfer_event_id t) B) es)"
| "dedupe A B (e # es) = e # dedupe A B es"

lemma replay_dedupe:
  "replayed_ledger (fold replay_entry es st)
     = fold journal_op (dedupe (seen_event_ids st) (seen_token_transfer_ids st) es)
         (replayed_ledger st)"
proof (induction es arbitrary: st)
  case (Cons e es)
  then show ?case by (cases e) simp_all
qed simp

lemma dedupe_subset: "set (dedupe A B es) \<subseteq> set es"
  by (induction A B es rule: dedupe.induct) auto

lemma rebuild_fold:
  "rebuild_trade_ledger_from_journal into_values es
     = fold journal_op (dedupe {} {} (replay_order into_values es)) Map.empty"
  by (simp add: rebuild_trade_ledger_from_journal_def rebuild_state_def replay_dedupe replay_start_def)

section \<open>The latest incomplete markers\<close>

definition marker_map_ok :: "marker_map \<Rightarrow> bool" where
  "marker_map_ok ms \<longleftrightarrow> distinct (map fst ms) \<and> (\<forall>(k, m) \<in> set ms. k = incomplete_event_id m)"

lemma marker_map_ok_update:
  assumes "marker_map_ok ms"
  shows "marker_map_ok (AList.update (incomplete_event_id m) m ms)"
proof -
  have "set (AList.update k m ms) \<subseteq> insert (k, m) (set ms)" for k
    by (induction ms) auto
  then show ?thesis
    using assms distinct_update [of ms] by (fastforce simp: marker_map_ok_def)
qed

lemma marker_map_ok_filter: "marker_map_ok ms \<Longrightarrow> marker_map_ok (filter p ms)"
  by (auto simp: marker_map_ok_def distinct_map_filter)

lemma collect_incomplete_ok: "marker_map_ok ms \<Longrightarrow> marker_map_ok (collect_incomplete m ms)"
  by (simp add: collect_incomplete_def Let_def marker_map_ok_update marker_map_ok_filter)

fun is_incomplete :: "journal_entry \<Rightarrow> bool" where
  "is_incomplete (IncompleteMarker _) = True"
| "is_incomplete _ = False"

lemma fold_collect:
  "fold collect_entry es (xs, ms)
     = (xs @ filter (Not \<circ> is_incomplete) es, snd (fold collect_entry es ([], ms)))"
proof (induction es arbitrary: xs ms)
  case (Cons e es)
  show ?case
    by (cases e) (simp_all add: Cons [of "xs @ _"] Cons [of "[_]"] Cons [of xs])
qed simp

lemma collect_entries_fst: "fst (collect_entries es) = filter (Not \<circ> is_incomplete) es"
  unfolding collect_entries_def by (subst fold_collect) simp

lemma collect_entries_ok: "marker_map_ok (snd (collect_entries es))"
proof -
  have "marker_map_ok ms \<Longrightarrow> marker_map_ok (snd (fold collect_entry es (xs, ms)))" for xs ms
  proof (induction es arbitrary: xs ms)
    case (Cons e es)
    then show ?case by (cases e) (simp_all add: collect_incomplete_ok)
  qed simp
  from this [of "[]" "[]"] show ?thesis
    unfolding collect_entries_def by (simp add: marker_map_ok_def [of "[]"])
qed

lemma replay_order_sort:
  "replay_order into_values es
     = sort_key journal_key_of (filter (Not \<circ> is_incomplete) es
         @ map IncompleteMarker (into_values (snd (collect_entries es))))"
  unfolding replay_order_def Let_def case_prod_beta sort_journal collect_entries_fst by simp

section \<open>Properties of the rebuild\<close>

text \<open>
  C33: whatever the journal holds, the rebuilt ledger is well formed: every position is filed
  under its own key, its open lots are non-empty, the remaining cost basis is the sum of
  its lots, a closed position has no lots and no preference, the net result is the gross
  result minus fees, and platform tags do not repeat.
\<close>

theorem rebuild_ledger_wf: "ledger_wf (rebuild_trade_ledger_from_journal into_values es)"
  unfolding rebuild_fold by (rule journal_steps.replay_wf) simp

lemma incomplete_key_inj:
  "journal_key_of (IncompleteMarker a) = journal_key_of (IncompleteMarker b)
   \<Longrightarrow> incomplete_event_id a = incomplete_event_id b"
  by (simp add: journal_key_of_def)

lemma incomplete_key_inj_on:
  assumes "inj_on incomplete_event_id A"
  shows "inj_on journal_key_of (IncompleteMarker ` A)"
proof (rule inj_onI)
  fix x y
  assume "x \<in> IncompleteMarker ` A" "y \<in> IncompleteMarker ` A"
    and eq: "journal_key_of x = journal_key_of y"
  then obtain a b where ab: "x = IncompleteMarker a" "y = IncompleteMarker b" "a \<in> A" "b \<in> A"
    by blast
  with eq have "incomplete_event_id a = incomplete_event_id b"
    using incomplete_key_inj by blast
  then have "a = b" using inj_onD [OF assms _ ab(3,4)] by blast
  with ab show "x = y" by blast
qed

lemma marker_map_ok_values:
  assumes "marker_map_ok ms"
  shows "distinct (map snd ms)" "inj_on incomplete_event_id (set (map snd ms))"
proof -
  have ids: "map incomplete_event_id (map snd ms) = map fst ms"
    using assms by (auto simp: marker_map_ok_def)
  have "distinct (map incomplete_event_id (map snd ms))"
    unfolding ids using assms by (simp add: marker_map_ok_def)
  then show "distinct (map snd ms)" "inj_on incomplete_event_id (set (map snd ms))"
    by (simp_all only: distinct_map)
qed

lemma distinct_filter_eq: "distinct zs \<Longrightarrow> a \<in> set zs \<Longrightarrow> filter (\<lambda>x. x = a) zs = [a]"
  by (induction zs) (auto simp: filter_empty_conv)

lemma filter_single:
  assumes "distinct xs" "inj_on f (set xs)" "distinct ys" "set xs = set ys"
  shows "filter (\<lambda>x. k = f x) xs = filter (\<lambda>x. k = f x) ys"
proof (cases "\<exists>a \<in> set xs. k = f a")
  case True
  then obtain a where a: "a \<in> set xs" "k = f a" by blast
  have "filter (\<lambda>x. k = f x) zs = [a]" if zs: "distinct zs" "set zs = set xs" for zs
  proof -
    have "filter (\<lambda>x. k = f x) zs = filter (\<lambda>x. x = a) zs"
      using assms(2) a zs by (intro filter_cong) (auto dest: inj_onD)
    also have "\<dots> = [a]"
      using zs(1) a(1) zs(2) distinct_filter_eq by metis
    finally show ?thesis .
  qed
  from this [of xs] this [of ys] assms show ?thesis by simp
next
  case False
  then have "filter (\<lambda>x. k = f x) xs = []" "filter (\<lambda>x. k = f x) ys = []"
    using assms(4) by (auto simp: filter_empty_conv)
  then show ?thesis by simp
qed

lemma sort_key_perm_tail:
  assumes "mset xs = mset ys" "distinct xs" "inj_on f (set xs)"
  shows "sort_key f (as @ xs) = sort_key f (as @ ys)"
proof (rule properties_for_sort_key)
  show "mset (sort_key f (as @ ys)) = mset (as @ xs)"
    using assms(1) by simp
  fix k
  have "distinct ys" "set xs = set ys"
    using assms(1,2) by (metis mset_eq_imp_distinct_iff mset_eq_setD)+
  then show "filter (\<lambda>x. f k = f x) (sort_key f (as @ ys)) = filter (\<lambda>x. f k = f x) (as @ xs)"
    using filter_single [OF assms(2,3), of ys "f k"] sort_key_stable [of f "f k" "as @ ys"]
    by (simp add: eq_commute)
qed simp

text \<open>
  C21: the rebuild does not depend on the order in which the hash map of incomplete markers
  is read out.
\<close>

theorem rebuild_independent_of_hash_order:
  assumes "\<And>ms. mset (iter1 ms) = mset (map snd ms)" "\<And>ms. mset (iter2 ms) = mset (map snd ms)"
  shows "rebuild_trade_ledger_from_journal iter1 es = rebuild_trade_ledger_from_journal iter2 es"
proof -
  define ms where "ms = snd (collect_entries es)"
  have ok: "marker_map_ok ms" unfolding ms_def by (rule collect_entries_ok)
  have m1: "mset (iter1 ms) = mset (map snd ms)" and m2: "mset (iter2 ms) = mset (map snd ms)"
    by (rule assms)+
  have s: "set (iter1 ms) = set (map snd ms)" by (rule mset_eq_setD [OF m1])
  note d = marker_map_ok_values [OF ok]
  have inj: "inj_on journal_key_of (set (map IncompleteMarker (iter1 ms)))"
    unfolding set_map [of IncompleteMarker] s by (rule incomplete_key_inj_on) (rule d(2))
  have "replay_order iter1 es = replay_order iter2 es"
    unfolding replay_order_sort ms_def [symmetric]
  proof (rule sort_key_perm_tail [OF _ _ inj])
    show "mset (map IncompleteMarker (iter1 ms)) = mset (map IncompleteMarker (iter2 ms))"
      unfolding mset_map m1 m2 by simp
    show "distinct (map IncompleteMarker (iter1 ms))"
      unfolding distinct_map using d(1) mset_eq_imp_distinct_iff [OF m1]
      by (simp add: inj_on_def)
  qed
  then show ?thesis
    by (simp only: rebuild_fold)
qed

lemma seen_event_ids_fold:
  "seen_event_ids (fold replay_entry es st)
     = seen_event_ids st \<union> {event_id ev | ev. Trade ev \<in> set es}"
proof (induction es arbitrary: st)
  case (Cons e es)
  then show ?case by (cases e) auto
qed simp

lemma seen_token_transfer_ids_fold:
  "seen_token_transfer_ids (fold replay_entry es st)
     = seen_token_transfer_ids st \<union> {transfer_event_id t | t. TokenTransferMarker t \<in> set es}"
proof (induction es arbitrary: st)
  case (Cons e es)
  then show ?case by (cases e) auto
qed simp

lemma collect_entries_snoc:
  "\<not> is_incomplete e \<Longrightarrow> collect_entries (es @ [e]) = (fst (collect_entries es) @ [e], snd (collect_entries es))"
  unfolding collect_entries_def fold_append comp_def
  by (cases "fold collect_entry es ([], [])"; cases e) simp_all

lemma replay_order_snoc:
  assumes "\<not> is_incomplete e"
  shows "replay_order into_values (es @ [e])
    = sort_key journal_key_of (filter (Not \<circ> is_incomplete) es
        @ e # map IncompleteMarker (into_values (snd (collect_entries es))))"
  unfolding replay_order_sort collect_entries_snoc [OF assms] using assms by simp

text \<open>
  A trade or transfer line that is already in the journal changes nothing when it is
  written to it a second time, wherever the two copies sort.
\<close>

theorem rebuild_ignores_repeated_line:
  assumes "e \<in> set es" "(\<exists>ev. e = Trade ev) \<or> (\<exists>t. e = TokenTransferMarker t)"
  shows "rebuild_trade_ledger_from_journal into_values (es @ [e])
         = rebuild_trade_ledger_from_journal into_values es"
proof -
  have keep: "\<not> is_incomplete e" using assms(2) by auto
  with assms(1) have "e \<in> set (filter (Not \<circ> is_incomplete) es)" by simp
  then obtain ys zs where
    old: "replay_order into_values es = ys @ zs" and e: "e \<in> set ys"
    and new: "replay_order into_values (es @ [e]) = ys @ e # zs"
    unfolding replay_order_sort [of _ es] replay_order_snoc [OF keep] by (rule sort_key_repeat)
  have "replay_entry e (fold replay_entry ys replay_start) = fold replay_entry ys replay_start"
    using assms(2) e
    by (auto simp: seen_event_ids_fold seen_token_transfer_ids_fold)
  then show ?thesis
    by (simp add: rebuild_trade_ledger_from_journal_def rebuild_state_def old new)
qed

lemma incomplete_key_not_trade:
  "is_incomplete y \<Longrightarrow> journal_key_of y \<noteq> journal_key_of (Trade ev)"
  by (cases y) (simp_all add: journal_key_of_def)

lemma compare_not_greater:
  "compare_journal_entries a b \<noteq> Ord_Greater \<longleftrightarrow> journal_key_of a \<le> journal_key_of b"
  by (auto simp: compare_journal_entries_key cmp_def)

lemma collect_incomplete_subset:
  "set (map snd (collect_incomplete m ms)) \<subseteq> insert m (set (map snd ms))"
proof -
  have upd: "set (map snd (AList.update k m ms)) \<subseteq> insert m (set (map snd ms))" for k and ms :: marker_map
    by (induction ms) auto
  have "set (map snd (filter p ms)) \<subseteq> set (map snd ms)" for p by auto
  then show ?thesis
    unfolding collect_incomplete_def Let_def
    by (simp del: set_map) (meson insert_mono order_trans subset_insertI upd)
qed

lemma collect_markers_subset:
  "set (map snd (snd (collect_entries es))) \<subseteq> {m. IncompleteMarker m \<in> set es}"
proof -
  have "set (map snd (snd (fold collect_entry es (xs, ms))))
        \<subseteq> set (map snd ms) \<union> {m. IncompleteMarker m \<in> set es}" for xs ms
  proof (induction es arbitrary: xs ms)
    case (Cons e es)
    show ?case
    proof (cases e)
      case (IncompleteMarker m)
      then show ?thesis
        using Cons [of xs "collect_incomplete m ms"] collect_incomplete_subset [of m ms]
        by (simp del: set_map) blast
    next
      case (Trade ev)
      then show ?thesis using Cons [of "xs @ [e]" ms] by (simp del: set_map)
    next
      case (ResetMarker r)
      then show ?thesis using Cons [of "xs @ [e]" ms] by (simp del: set_map)
    next
      case (ForceCloseMarker f)
      then show ?thesis using Cons [of "xs @ [e]" ms] by (simp del: set_map)
    next
      case (TokenTransferMarker t)
      then show ?thesis using Cons [of "xs @ [e]" ms] by (simp del: set_map)
    qed
  qed simp
  from this [of "[]" "[]"] show ?thesis by (simp add: collect_entries_def del: set_map)
qed

lemma replay_order_set:
  assumes "\<And>ms. mset (into_values ms) = mset (map snd ms)"
  shows "set (replay_order into_values es) \<subseteq> set es"
  using collect_markers_subset [of es] mset_eq_setD [OF assms]
  by (auto simp: replay_order_sort)

text \<open>
  C20: the ledger kept live and the ledger rebuilt from the journal agree: appending a new
  trade that no journal entry sorts after gives the ledger that applying it directly gives.
\<close>

theorem rebuild_follows_live_ledger:
  assumes perm: "\<And>ms. mset (into_values ms) = mset (map snd ms)"
    and late: "\<And>e. e \<in> set es \<Longrightarrow> compare_journal_entries e (Trade ev) \<noteq> Ord_Greater"
    and fresh: "\<And>ev'. Trade ev' \<in> set es \<Longrightarrow> event_id ev' \<noteq> event_id ev"
  shows "rebuild_trade_ledger_from_journal into_values (es @ [Trade ev])
         = apply_confirmed_trade_event ev
             (case ev_side ev of Buy \<Rightarrow> ev_settlement_asset ev | Sell \<Rightarrow> None)
             (rebuild_trade_ledger_from_journal into_values es)"
proof -
  let ?ms = "into_values (snd (collect_entries es))"
  have le: "journal_key_of e \<le> journal_key_of (Trade ev)" if "e \<in> set es" for e
    using late [OF that] by (simp only: compare_not_greater)
  have "journal_key_of y < journal_key_of (Trade ev)" if "y \<in> set (map IncompleteMarker ?ms)" for y
  proof -
    have "y \<in> set es" "is_incomplete y"
      using that collect_markers_subset [of es] mset_eq_setD [OF perm] by auto
    then have "journal_key_of y \<noteq> journal_key_of (Trade ev)"
      using incomplete_key_not_trade by blast
    with le [OF \<open>y \<in> set es\<close>] show ?thesis by simp
  qed
  then have order: "replay_order into_values (es @ [Trade ev])
                    = replay_order into_values es @ [Trade ev]"
    unfolding replay_order_sort [of _ es]
    using le by (subst replay_order_snoc) (auto intro!: sort_key_last)
  have "event_id ev \<notin> seen_event_ids (rebuild_state into_values es)"
    using fresh subsetD [OF replay_order_set [OF perm, of es]]
    by (auto simp: rebuild_state_def seen_event_ids_fold replay_start_def) metis
  then show ?thesis
    unfolding rebuild_trade_ledger_from_journal_def rebuild_state_def order
    by simp
qed

section \<open>Accounting of a whole journal\<close>

text \<open>
  Entries that account for every lamport of basis they move: trades whose buys really
  received tokens, resets, force closes and receipts without cost basis.
\<close>

fun accounted :: "journal_entry \<Rightarrow> bool" where
  "accounted (Trade ev) = (ev_side ev = Buy \<longrightarrow> 0 < sint (token_delta_raw ev))"
| "accounted (TokenTransferMarker _) = False"
| "accounted (IncompleteMarker i) = (adjustment_kind i = ReceivedWithoutCostBasis)"
| "accounted _ = True"

fun trade_volume :: "journal_entry \<Rightarrow> nat" where
  "trade_volume (Trade ev) = unat (trade_value_lamports ev)"
| "trade_volume _ = 0"

lemma journal_op_balanced:
  assumes "ledger_balanced B l" "ledger_wf l" "accounted e" "B + trade_volume e < 2 ^ 63"
  shows "ledger_balanced (B + trade_volume e) (journal_op e l)"
  using assms
  by (cases e) (simp_all add: ledger_balanced_trade ledger_balanced_reset
      ledger_balanced_force_close ledger_balanced_received)

lemma journal_fold_balanced:
  assumes "ledger_balanced B l" "ledger_wf l" "list_all accounted es"
    and "B + sum_list (map trade_volume es) < 2 ^ 63"
  shows "ledger_balanced (B + sum_list (map trade_volume es)) (fold journal_op es l)"
  using assms
proof (induction es arbitrary: B l)
  case (Cons e es)
  have "ledger_balanced (B + trade_volume e) (journal_op e l)"
    using Cons.prems by (intro journal_op_balanced) auto
  then show ?case
    using Cons.IH [of "B + trade_volume e" "journal_op e l"] Cons.prems
    by (simp add: journal_steps.step_wf add.assoc)
qed simp

lemma dedupe_volume: "sum_list (map trade_volume (dedupe A B es)) \<le> sum_list (map trade_volume es)"
  by (induction A B es rule: dedupe.induct) (auto simp: trans_le_add2)

lemma filter_volume:
  "sum_list (map trade_volume (filter P es)) \<le> sum_list (map trade_volume es)"
  by (induction es) auto

lemma replay_order_volume:
  "sum_list (map trade_volume (replay_order into_values es)) \<le> sum_list (map trade_volume es)"
proof -
  have "sum_list (map trade_volume (sort_key f xs)) = sum_list (map trade_volume xs)"
    for f :: "journal_entry \<Rightarrow> journal_key" and xs
    by (metis mset_map mset_sort sum_mset_sum_list)
  moreover have "map trade_volume (map IncompleteMarker xs) = map (\<lambda>_. 0) xs" for xs
    by simp
  ultimately show ?thesis
    by (simp add: replay_order_sort filter_volume comp_def)
qed

text \<open>
  C19: over a journal of trades, resets, force closes and unpriced receipts whose trade
  values sum to less than 2^63 lamports, the gross realised profit of every rebuilt
  position is exactly what was received, minus what was spent, plus the cost basis the
  position still holds: no lamport of basis is lost or counted twice.
\<close>

theorem rebuilt_pnl_accounts_for_every_lamport:
  assumes "\<And>ms. mset (into_values ms) = mset (map snd ms)"
    and "list_all accounted es"
    and "sum_list (map trade_volume es) < 2 ^ 63"
    and "rebuild_trade_ledger_from_journal into_values es k = Some e"
  shows "sint (realized_pnl_gross_lamports e)
         = int (unat (tracked_sold_lamports e)) - int (unat (tracked_bought_lamports e))
           + int (unat (remaining_cost_basis_lamports e))"
proof -
  let ?d = "dedupe {} {} (replay_order into_values es)"
  have vol: "sum_list (map trade_volume ?d) < 2 ^ 63"
    using dedupe_volume [of "{}" "{}" "replay_order into_values es"]
      replay_order_volume [of into_values es] assms(3)
    by linarith
  have "list_all accounted ?d"
    using assms(2) replay_order_set [OF assms(1), of es] dedupe_subset [of "{}" "{}"]
    by (auto simp: list_all_iff)
  then have bal: "ledger_balanced (sum_list (map trade_volume ?d)) (fold journal_op ?d Map.empty)"
    using journal_fold_balanced [of 0 Map.empty ?d] vol by (simp add: ledger_balanced_def)
  have e: "fold journal_op ?d Map.empty k = Some e"
    using assms(4) by (simp only: rebuild_fold)
  have "pnl_balanced (sum_list (map trade_volume ?d)) e"
    using bal e by (auto simp: ledger_balanced_def)
  moreover have "entry_wf e" by (rule journal_steps.replay_entry_wf [OF e])
  ultimately show ?thesis
    using vol by (auto simp: pnl_balanced_def entry_wf_def unat_lots_cost_basis min_def)
qed

section \<open>A sample journal\<close>

definition sample_marker :: "string \<Rightarrow> incomplete_marker_event" where
  "sample_marker m = received_without_cost_basis ''w'' m 5 ''sig'' 9 None"

definition sample_journal :: "journal_entry list" where
  "sample_journal =
     [Trade (sample_event Buy 100 1000 2), IncompleteMarker (sample_marker ''a''),
      ResetMarker (new_reset_marker ''w'' ''z'' 1 None), IncompleteMarker (sample_marker ''b'')]"

lemma ledger_step_dom: "dom l \<subseteq> dom (journal_op e l)"
  by (cases e)
    (auto simp: apply_confirmed_trade_event_def Let_def reset_trade_ledger_position_def
      force_close_trade_ledger_position_def transfer_trade_ledger_position_def
      mark_trade_ledger_received_without_cost_basis_def
      mark_trade_ledger_sent_without_proceeds_def split_beta
      split: option.splits incomplete_balance_adjustment_kind.splits)

lemma journal_fold_dom: "dom l \<subseteq> dom (fold journal_op es l)"
proof (induction es arbitrary: l)
  case (Cons e es)
  show ?case using subset_trans [OF ledger_step_dom Cons] by simp
qed simp

lemma journal_trade_dom:
  "Trade ev \<in> set es \<Longrightarrow> trade_ledger_key (ev_wallet_key ev) (ev_mint ev) \<in> dom (fold journal_op es l)"
proof (induction es arbitrary: l)
  case (Cons e es)
  show ?case
  proof (cases "e = Trade ev")
    case True
    then have "trade_ledger_key (ev_wallet_key ev) (ev_mint ev) \<in> dom (journal_op e l)"
      by (simp add: apply_confirmed_trade_event_def Let_def)
    then show ?thesis using journal_fold_dom [of "journal_op e l" es] by auto
  qed (use Cons in simp)
qed simp

lemma dedupe_keeps:
  "Trade ev \<in> set es \<Longrightarrow> event_id ev \<notin> A
   \<Longrightarrow> \<exists>ev'. Trade ev' \<in> set (dedupe A B es) \<and> event_id ev' = event_id ev"
  by (induction A B es rule: dedupe.induct) (auto, metis+)

lemma sample_rebuilt:
  "rebuild_trade_ledger_from_journal (map snd) sample_journal ''w::m'' \<noteq> None"
proof -
  let ?ev = "sample_event Buy 100 1000 2"
  let ?r = "replay_order (map snd) sample_journal"
  have "Trade ?ev \<in> set ?r"
    unfolding replay_order_sort set_sort set_append by (simp add: sample_journal_def)
  then obtain ev where ev: "Trade ev \<in> set (dedupe {} {} ?r)"
    using dedupe_keeps by blast
  then have "Trade ev \<in> set sample_journal"
    using dedupe_subset [of "{}" "{}" ?r] replay_order_set [of "map snd" sample_journal] by auto
  then have "ev = ?ev" by (simp add: sample_journal_def)
  with ev show ?thesis
    using journal_trade_dom [OF ev, of Map.empty] by (auto simp: rebuild_fold)
qed

lemma sample_late:
  "e \<in> set sample_journal
   \<Longrightarrow> compare_journal_entries e (Trade (sample_event Sell (- 40) 700 20)) \<noteq> Ord_Greater"
  by (auto simp: sample_journal_def compare_not_greater journal_key_of_def sample_marker_def
      received_without_cost_basis_def new_incomplete_marker_def new_reset_marker_def)

theorem rebuild_independent_of_hash_order_witness:
  "rebuild_trade_ledger_from_journal (map snd) sample_journal
     = rebuild_trade_ledger_from_journal (rev \<circ> map snd) sample_journal
   \<and> map snd (snd (collect_entries sample_journal))
       \<noteq> (rev \<circ> map snd) (snd (collect_entries sample_journal))"
proof
  show "rebuild_trade_ledger_from_journal (map snd) sample_journal
     = rebuild_trade_ledger_from_journal (rev \<circ> map snd) sample_journal"
    by (rule rebuild_independent_of_hash_order) simp_all
qed code_simp

theorem rebuild_ignores_repeated_line_witness:
  "rebuild_trade_ledger_from_journal (map snd) (sample_journal @ [hd sample_journal])
   = rebuild_trade_ledger_from_journal (map snd) sample_journal"
  by (rule rebuild_ignores_repeated_line) (simp_all add: sample_journal_def)

theorem rebuild_follows_live_ledger_witness:
  "rebuild_trade_ledger_from_journal (map snd)
     (sample_journal @ [Trade (sample_event Sell (- 40) 700 20)])
   = apply_confirmed_trade_event (sample_event Sell (- 40) 700 20) None
       (rebuild_trade_ledger_from_journal (map snd) sample_journal)"
proof -
  have "event_id ev' \<noteq> event_id (sample_event Sell (- 40) 700 20)"
    if "Trade ev' \<in> set sample_journal" for ev'
    using that by (simp add: sample_journal_def event_id_def sample_event_def)
  then show ?thesis
    using rebuild_follows_live_ledger
      [of "map snd" sample_journal "sample_event Sell (- 40) 700 20"] sample_late
    by simp
qed

theorem rebuilt_pnl_accounts_for_every_lamport_witness:
  "\<exists>e. rebuild_trade_ledger_from_journal (map snd) sample_journal ''w::m'' = Some e
     \<and> sint (realized_pnl_gross_lamports e)
         = int (unat (tracked_sold_lamports e)) - int (unat (tracked_bought_lamports e))
           + int (unat (remaining_cost_basis_lamports e))"
proof -
  obtain e where e: "rebuild_trade_ledger_from_journal (map snd) sample_journal ''w::m'' = Some e"
    using sample_rebuilt by blast
  have acc: "list_all accounted sample_journal" by code_simp
  have vol: "sum_list (map trade_volume sample_journal) < 2 ^ 63"
    by (simp add: sample_journal_def)
  show ?thesis
    using e rebuilt_pnl_accounts_for_every_lamport [OF refl acc vol e] by blast
qed

end
