(* ===== verification/Journal_Files.thy ===== *)
theory Journal_Files
  imports Ledger_Journal
begin

text \<open>
  Where the journal and the ledger live on disk (\<^verbatim>\<open>execution-engine/src/trade_ledger.rs\<close>):
  the append-only journal segments with their rollover, the three snapshot files, and the
  order they are loaded in. A directory is an association list from file names to contents
  (valid UTF-8, one \<^typ>\<open>char\<close> per byte); I/O calls succeed. JSON is third-party code: its
  encoder and decoder are the fields of \<open>journal_codec\<close> and \<open>snapshot_codec\<close>.
\<close>

section \<open>Journal segments\<close>

type_synonym directory = "(string \<times> string) list"

definition pnl_journal_prefix :: string where
  "pnl_journal_prefix = ''confirmed-trades''"

definition pnl_journal_suffix :: string where
  "pnl_journal_suffix = ''.jsonl''"

definition pnl_journal_segment_max_bytes :: nat where
  "pnl_journal_segment_max_bytes = 4 * 1024 * 1024"

definition journal_segment_paths :: "directory \<Rightarrow> string list" where
  "journal_segment_paths dir =
     sort (filter (\<lambda>name. starts_with name pnl_journal_prefix \<and> ends_with name pnl_journal_suffix)
             (map fst dir))"

definition segment_index :: "string \<Rightarrow> u64 option" where
  "segment_index name =
     Option.bind (strip_prefix pnl_journal_prefix name) (\<lambda>a.
     Option.bind (strip_prefix ''-'' a) (\<lambda>b.
     Option.bind (strip_suffix pnl_journal_suffix b) parse_u64))"

definition next_journal_segment_index :: "string list \<Rightarrow> u64" where
  "next_journal_segment_index segments =
     (case List.map_filter segment_index segments of
        [] \<Rightarrow> 1
      | i # is \<Rightarrow> sat_add (fold max is i) 1)"

definition segment_name :: "u64 \<Rightarrow> string" where
  "segment_name i =
     pnl_journal_prefix @ ''-'' @ pad_left 5 (show_nat (unat i)) @ pnl_journal_suffix"

definition active_journal_segment_path :: "directory \<Rightarrow> string" where
  "active_journal_segment_path dir =
     (let segments = journal_segment_paths dir;
          fresh = segment_name (next_journal_segment_index segments)
      in if segments = [] then fresh
         else case map_of dir (last segments) of
             None \<Rightarrow> fresh
           | Some contents \<Rightarrow>
               if length contents < pnl_journal_segment_max_bytes then last segments else fresh)"

definition newline :: char where
  "newline = CHR 0x0A"

definition append_journal_line :: "string \<Rightarrow> directory \<Rightarrow> directory" where
  "append_journal_line line dir =
     (let path = active_journal_segment_path dir;
          contents = (case map_of dir path of None \<Rightarrow> [] | Some s \<Rightarrow> s)
      in AList.update path (contents @ line @ [newline]) dir)"

text \<open>
  \<^verbatim>\<open>BufRead::lines\<close>: split at line feeds, dropping one carriage return before each; a
  last line without a line feed counts if it is not empty.
\<close>

definition chomp :: "string \<Rightarrow> string" where
  "chomp s = (if s \<noteq> [] \<and> last s = CHR 0x0D then butlast s else s)"

fun file_lines :: "string \<Rightarrow> string \<Rightarrow> string list" where
  "file_lines acc [] = (if acc = [] then [] else [acc])"
| "file_lines acc (c # cs) =
     (if c = newline then chomp acc # file_lines [] cs else file_lines (acc @ [c]) cs)"

section \<open>Reading and writing entries\<close>

record 'v journal_codec =
  json_from_str :: "string \<Rightarrow> 'v option"
  json_event_kind :: "'v \<Rightarrow> string option"
  value_to_reset :: "'v \<Rightarrow> reset_marker_event option"
  value_to_force_close :: "'v \<Rightarrow> force_close_marker_event option"
  value_to_transfer :: "'v \<Rightarrow> token_transfer_marker_event option"
  value_to_incomplete :: "'v \<Rightarrow> incomplete_marker_event option"
  value_to_trade :: "'v \<Rightarrow> confirmed_trade_event option"
  event_to_string :: "journal_entry \<Rightarrow> string option"

definition entry_from_value :: "'v journal_codec \<Rightarrow> 'v \<Rightarrow> journal_entry option" where
  "entry_from_value c v =
     (let kind = json_event_kind c v
      in if kind = Some ''reset_marker'' then map_option ResetMarker (value_to_reset c v)
         else if kind = Some ''force_close_marker''
         then map_option ForceCloseMarker (value_to_force_close c v)
         else if kind = Some ''token_transfer_marker''
         then map_option TokenTransferMarker (value_to_transfer c v)
         else if kind = Some ''incomplete_balance_adjustment_marker''
         then map_option IncompleteMarker (value_to_incomplete c v)
         else map_option Trade (value_to_trade c v))"

definition read_line :: "'v journal_codec \<Rightarrow> string \<Rightarrow> journal_entry option" where
  "read_line c line =
     (let trimmed = str_trim line
      in if trimmed = [] then None
         else case json_from_str c trimmed of
             None \<Rightarrow> None
           | Some v \<Rightarrow> entry_from_value c v)"

definition segment_lines :: "directory \<Rightarrow> string \<Rightarrow> string list" where
  "segment_lines dir path = (case map_of dir path of None \<Rightarrow> [] | Some s \<Rightarrow> file_lines [] s)"

definition read_journal_entries :: "'v journal_codec \<Rightarrow> directory \<Rightarrow> journal_entry list" where
  "read_journal_entries c dir =
     List.map_filter (read_line c) (concat (map (segment_lines dir) (journal_segment_paths dir)))"

fun trade_of :: "journal_entry \<Rightarrow> confirmed_trade_event option" where
  "trade_of (Trade ev) = Some ev"
| "trade_of _ = None"

definition read_confirmed_trade_events ::
  "'v journal_codec \<Rightarrow> directory \<Rightarrow> confirmed_trade_event list" where
  "read_confirmed_trade_events c dir = List.map_filter trade_of (read_journal_entries c dir)"

definition load_trade_ledger_known_event_ids :: "'v journal_codec \<Rightarrow> directory \<Rightarrow> string set" where
  "load_trade_ledger_known_event_ids c dir =
     fold (\<lambda>ev ids. insert (event_id ev) ids) (read_confirmed_trade_events c dir) {}"

datatype ledger_error = Internal_Error

datatype journal_append_status = Appended | Duplicate

text \<open>
  \<^verbatim>\<open>append_confirmed_trade_event\<close>, \<^verbatim>\<open>append_reset_marker\<close> and \<^verbatim>\<open>append_force_close_marker\<close>
  are this function at their entry.
\<close>

definition append_event ::
  "'v journal_codec \<Rightarrow> journal_entry \<Rightarrow> directory \<Rightarrow> ledger_error + directory" where
  "append_event c e dir =
     (case event_to_string c e of
        None \<Rightarrow> Inl Internal_Error
      | Some line \<Rightarrow> Inr (append_journal_line line dir))"

definition append_confirmed_trade_event ::
  "'v journal_codec \<Rightarrow> confirmed_trade_event \<Rightarrow> directory \<Rightarrow> ledger_error + directory" where
  "append_confirmed_trade_event c ev = append_event c (Trade ev)"

definition append_reset_marker ::
  "'v journal_codec \<Rightarrow> reset_marker_event \<Rightarrow> directory \<Rightarrow> ledger_error + directory" where
  "append_reset_marker c r = append_event c (ResetMarker r)"

definition append_force_close_marker ::
  "'v journal_codec \<Rightarrow> force_close_marker_event \<Rightarrow> directory \<Rightarrow> ledger_error + directory" where
  "append_force_close_marker c f = append_event c (ForceCloseMarker f)"

definition append_token_transfer_marker ::
  "'v journal_codec \<Rightarrow> token_transfer_marker_event \<Rightarrow> directory
     \<Rightarrow> ledger_error + (journal_append_status \<times> directory)" where
  "append_token_transfer_marker c t dir =
     (if list_ex (\<lambda>e. case e of TokenTransferMarker t' \<Rightarrow> transfer_event_id t' = transfer_event_id t
                              | _ \<Rightarrow> False) (read_journal_entries c dir)
      then Inr (Duplicate, dir)
      else rbind (append_event c (TokenTransferMarker t) dir) (\<lambda>dir'. Inr (Appended, dir')))"

definition append_incomplete_balance_adjustment_marker ::
  "'v journal_codec \<Rightarrow> incomplete_marker_event \<Rightarrow> directory
     \<Rightarrow> ledger_error + (journal_append_status \<times> directory)" where
  "append_incomplete_balance_adjustment_marker c m dir =
     (if list_ex (\<lambda>e. case e of
                        IncompleteMarker m' \<Rightarrow> incomplete_event_id m' = incomplete_event_id m
                          \<and> im_amount_raw m' = im_amount_raw m \<and> im_slot m' = im_slot m
                      | _ \<Rightarrow> False) (read_journal_entries c dir)
      then Inr (Duplicate, dir)
      else rbind (append_event c (IncompleteMarker m) dir) (\<lambda>dir'. Inr (Appended, dir')))"

section \<open>Snapshot files\<close>

record pnl_snapshot_record =
  sr_wallet_key :: string
  sr_mint :: string
  sr_tracked_bought_lamports :: u64
  sr_tracked_sold_lamports :: u64
  sr_buy_count :: u64
  sr_sell_count :: u64
  sr_last_trade_at_unix_ms :: u64
  sr_entry_preference :: "stored_entry_preference option"
  sr_position_open :: bool
  sr_realized_pnl_gross_lamports :: i64
  sr_realized_pnl_net_lamports :: i64
  sr_explicit_fee_total_lamports :: i64
  sr_remaining_cost_basis_lamports :: u64
  sr_unmatched_sell_amount_raw :: u64
  sr_needs_resync :: bool
  sr_reset_baseline_unix_ms :: u64
  sr_reset_baseline_slot :: "u64 option"
  sr_open_lots :: "open_lot list"
  sr_platform_tags :: "platform_tag list"

definition snapshot_record_from_entry :: "trade_ledger_entry \<Rightarrow> pnl_snapshot_record" where
  "snapshot_record_from_entry e =
     \<lparr>sr_wallet_key = wallet_key e, sr_mint = mint e,
      sr_tracked_bought_lamports = tracked_bought_lamports e,
      sr_tracked_sold_lamports = tracked_sold_lamports e, sr_buy_count = buy_count e,
      sr_sell_count = sell_count e, sr_last_trade_at_unix_ms = last_trade_at_unix_ms e,
      sr_entry_preference = entry_preference e, sr_position_open = position_open e,
      sr_realized_pnl_gross_lamports = realized_pnl_gross_lamports e,
      sr_realized_pnl_net_lamports = realized_pnl_net_lamports e,
      sr_explicit_fee_total_lamports = explicit_fee_total_lamports e,
      sr_remaining_cost_basis_lamports = remaining_cost_basis_lamports e,
      sr_unmatched_sell_amount_raw = unmatched_sell_amount_raw e,
      sr_needs_resync = needs_resync e, sr_reset_baseline_unix_ms = reset_baseline_unix_ms e,
      sr_reset_baseline_slot = reset_baseline_slot e, sr_open_lots = open_lots e,
      sr_platform_tags = platform_tags e\<rparr>"

definition trade_ledger_entry_from_snapshot_record ::
  "pnl_snapshot_record \<Rightarrow> trade_ledger_entry" where
  "trade_ledger_entry_from_snapshot_record r =
     \<lparr>wallet_key = sr_wallet_key r, mint = sr_mint r,
      tracked_bought_lamports = sr_tracked_bought_lamports r,
      tracked_sold_lamports = sr_tracked_sold_lamports r, buy_count = sr_buy_count r,
      sell_count = sr_sell_count r, last_trade_at_unix_ms = sr_last_trade_at_unix_ms r,
      entry_preference = sr_entry_preference r, position_open = sr_position_open r,
      realized_pnl_gross_lamports = sr_realized_pnl_gross_lamports r,
      realized_pnl_net_lamports = sr_realized_pnl_net_lamports r,
      explicit_fee_total_lamports = sr_explicit_fee_total_lamports r,
      remaining_cost_basis_lamports = sr_remaining_cost_basis_lamports r,
      unmatched_sell_amount_raw = sr_unmatched_sell_amount_raw r,
      needs_resync = sr_needs_resync r, reset_baseline_unix_ms = sr_reset_baseline_unix_ms r,
      reset_baseline_slot = sr_reset_baseline_slot r, open_lots = sr_open_lots r,
      platform_tags = sr_platform_tags r\<rparr>"

text \<open>
  The snapshot files after JSON decoding: \<^term>\<open>None\<close> is a file that is missing or does not
  parse. \<^verbatim>\<open>atomic_write_json\<close> replaces one file whole.
\<close>

record snapshot_files =
  snapshots_file :: "pnl_snapshot_record list option"
  open_positions_file :: "trade_ledger_entry list option"
  closed_positions_file :: "trade_ledger_entry list option"
  legacy_file :: "trade_ledger_entry list option"

definition insert_entry :: "trade_ledger_entry \<Rightarrow> trade_ledger \<Rightarrow> trade_ledger" where
  "insert_entry e l = l(trade_ledger_key (wallet_key e) (mint e) \<mapsto> e)"

definition merge_entries_from_file ::
  "trade_ledger_entry list option \<Rightarrow> trade_ledger \<Rightarrow> trade_ledger \<times> bool" where
  "merge_entries_from_file f l =
     (case f of None \<Rightarrow> (l, False) | Some es \<Rightarrow> (fold insert_entry es l, True))"

definition merge_entries_from_snapshot_file ::
  "pnl_snapshot_record list option \<Rightarrow> trade_ledger \<Rightarrow> trade_ledger \<times> bool" where
  "merge_entries_from_snapshot_file f l =
     (case f of None \<Rightarrow> (l, False)
      | Some rs \<Rightarrow>
          (fold (\<lambda>r. insert_entry (trade_ledger_entry_from_snapshot_record r)) rs l, True))"

definition load_legacy_trade_ledger :: "snapshot_files \<Rightarrow> trade_ledger option" where
  "load_legacy_trade_ledger fs =
     map_option (\<lambda>es. fold insert_entry es Map.empty) (legacy_file fs)"

text \<open>\<open>rebuilt\<close> is \<open>rebuild_trade_ledger_from_journal\<close> over the journal of the same root.\<close>

definition load_trade_ledger :: "trade_ledger \<Rightarrow> snapshot_files \<Rightarrow> trade_ledger" where
  "load_trade_ledger rebuilt fs =
     (let (l1, full_ok) = merge_entries_from_snapshot_file (snapshots_file fs) Map.empty;
          (l2, open_ok) = merge_entries_from_file (open_positions_file fs) l1;
          (l3, closed_ok) = merge_entries_from_file (closed_positions_file fs) l2
      in if full_ok \<or> open_ok \<and> closed_ok then l3
         else if open_ok \<or> closed_ok then (if rebuilt \<noteq> Map.empty then rebuilt else l3)
         else case load_legacy_trade_ledger fs of
             Some l \<Rightarrow> l
           | None \<Rightarrow> rebuilt)"

definition compare_persisted :: "trade_ledger_entry \<Rightarrow> trade_ledger_entry \<Rightarrow> ordering" where
  "compare_persisted l r =
     then_with (cmp (last_trade_at_unix_ms r) (last_trade_at_unix_ms l))
       (then_with (cmp (wallet_key l) (wallet_key r)) (cmp (mint l) (mint r)))"

text \<open>
  \<open>values\<close> is what \<^verbatim>\<open>ledger.values()\<close> yields, in its arbitrary order. The result is the
  list of file replacements \<^verbatim>\<open>persist_trade_ledger\<close> performs, in order.
\<close>

definition persist_writes ::
  "trade_ledger_entry list \<Rightarrow> (snapshot_files \<Rightarrow> snapshot_files) list" where
  "persist_writes values =
     (let entries = sort_by compare_persisted values;
          snapshot_records = map snapshot_record_from_entry entries;
          open_positions = filter position_open entries;
          closed_positions = filter (\<lambda>e. \<not> position_open e) entries
      in [(\<lambda>fs. fs\<lparr>snapshots_file := Some snapshot_records\<rparr>),
          (\<lambda>fs. fs\<lparr>open_positions_file := Some open_positions\<rparr>),
          (\<lambda>fs. fs\<lparr>closed_positions_file := Some closed_positions\<rparr>)])"

definition persist_trade_ledger :: "trade_ledger_entry list \<Rightarrow> snapshot_files \<Rightarrow> snapshot_files" where
  "persist_trade_ledger values fs = fold (\<lambda>w fs. w fs) (persist_writes values) fs"

section \<open>Segment names\<close>

lemma less_list_same_prefix [simp]: "(as @ xs < as @ ys) = (xs < (ys :: 'a::linorder list))"
  by (induction as) auto

lemma less_list_append:
  "length xs = length ys \<Longrightarrow> xs < ys \<Longrightarrow> xs @ zs < (ys @ zs :: 'a::linorder list)"
  by (induction xs ys rule: list_induct2) auto

lemma digits_value_Cons: "digits_value (c # s) = digit_value c * 10 ^ length s + digits_value s"
  using digits_value_append [of "[c]" s] by (simp add: digits_value_def)

lemma digits_less:
  assumes "length xs = length ys" "list_all is_digit xs" "list_all is_digit ys"
    and "digits_value xs < digits_value ys"
  shows "xs < ys"
  using assms
proof (induction xs ys rule: list_induct2)
  case (Cons x xs y ys)
  have lx: "digits_value xs < 10 ^ length ys" and ly: "digits_value ys < 10 ^ length ys"
    using digits_value_less [of xs] digits_value_less [of ys] Cons by simp_all
  consider "digit_value x < digit_value y" | "digit_value x = digit_value y" | "digit_value y < digit_value x"
    by linarith
  then show ?case
  proof cases
    case 1
    then have "x < y" by (simp add: digit_value_def less_char_def)
    then show ?thesis by simp
  next
    case 2
    moreover have "48 \<le> (of_char x :: nat)" "48 \<le> (of_char y :: nat)"
      using Cons.prems by (simp_all add: is_digit_def)
    ultimately have "of_char x = (of_char y :: nat)"
      unfolding digit_value_def by linarith
    then have "x = y" by simp
    with 2 Cons show ?thesis by (simp add: digits_value_Cons)
  next
    case 3
    then have "Suc (digit_value y) * 10 ^ length ys \<le> digit_value x * 10 ^ length ys"
      by (intro mult_le_mono1) simp
    then show ?thesis
      using Cons.prems(3) Cons.hyps ly by (simp add: digits_value_Cons)
  qed
qed simp

lemma segment_name_less:
  assumes "i < j" "unat j < 100000"
  shows "segment_name i < segment_name j"
proof -
  have ij: "unat i < unat j" using assms(1) by (simp add: word_less_nat_alt)
  have "pad_left 5 (show_nat (unat i)) < pad_left 5 (show_nat (unat j))"
    by (rule digits_less) (use ij assms(2) in \<open>simp_all add: pad_left_length\<close>)
  then show ?thesis
    using ij assms(2) by (simp add: segment_name_def less_list_append pad_left_length)
qed

lemma unsigned_digits_pad [simp]: "unsigned_digits (pad_left w (show_nat n)) = pad_left w (show_nat n)"
proof (cases "pad_left w (show_nat n)")
  case (Cons c cs)
  then have "is_digit c" using pad_left_digits [of w n] by simp
  then have "c \<noteq> CHR ''+''" by (auto simp: is_digit_def)
  with Cons show ?thesis by (simp add: unsigned_digits_def)
qed (simp add: unsigned_digits_def)

lemma strip_prefix_append [simp]: "strip_prefix p (p @ s) = Some s"
  by (simp add: strip_prefix_def starts_with_def)

lemma strip_prefix_Cons [simp]: "strip_prefix [c] (c # s) = Some s"
  by (simp add: strip_prefix_def starts_with_def)

lemma strip_suffix_append [simp]: "strip_suffix p (s @ p) = Some s"
  by (simp add: strip_suffix_def ends_with_def)

lemma segment_index_name [simp]: "segment_index (segment_name i) = Some i"
  unfolding segment_index_def segment_name_def strip_prefix_append bind.bind_lunit
    strip_suffix_append append_assoc [symmetric]
  by (simp add: parse_u64_def Let_def)

lemma segment_name_matches [simp]:
  "starts_with (segment_name i) pnl_journal_prefix" "ends_with (segment_name i) pnl_journal_suffix"
  by (simp_all add: starts_with_def ends_with_def segment_name_def)

lemma segment_name_inj [simp]: "segment_name i = segment_name j \<longleftrightarrow> i = j"
  using segment_index_name by (metis option.inject)

section \<open>Reading back what was appended\<close>

definition journal_dir_ok :: "nat \<Rightarrow> directory \<Rightarrow> bool" where
  "journal_dir_ok n dir \<longleftrightarrow>
     distinct (map fst dir)
     \<and> (\<forall>(name, s) \<in> set dir. (\<exists>i. unat i \<le> n \<and> name = segment_name i) \<and> (s = [] \<or> last s = newline))"

lemma chomp_trimmed: "str_trim line = line \<Longrightarrow> chomp line = line"
proof -
  assume t: "str_trim line = line"
  have "last line \<noteq> CHR 0x0D" if "line \<noteq> []"
  proof -
    have "dropWhile is_ws (rev (dropWhile is_ws line)) = rev line"
      using t by (metis rev_swap str_trim_def)
    then have "\<not> is_ws (hd (rev line))"
      using that by (metis hd_dropWhile rev_is_Nil_conv)
    then show ?thesis
      using that by (auto simp: hd_rev is_ws_def)
  qed
  then show ?thesis by (auto simp: chomp_def)
qed

lemma file_lines_no_newline:
  "newline \<notin> set line \<Longrightarrow> file_lines acc (line @ newline # s) = chomp (acc @ line) # file_lines [] s"
  by (induction line arbitrary: acc) auto

lemma file_lines_append:
  "s = [] \<and> acc = [] \<or> s \<noteq> [] \<and> last s = newline
   \<Longrightarrow> file_lines acc (s @ t) = file_lines acc s @ file_lines [] t"
proof (induction s arbitrary: acc)
  case (Cons c s)
  show ?case
  proof (cases "s = []")
    case False
    then show ?thesis using Cons by auto
  qed (use Cons.prems in auto)
qed simp

lemma journal_segment_paths_ok:
  assumes "journal_dir_ok n dir"
  shows "journal_segment_paths dir = sort (map fst dir)"
proof -
  have "\<forall>name \<in> set (map fst dir). \<exists>i. name = segment_name i"
    using assms by (fastforce simp: journal_dir_ok_def)
  then have "filter (\<lambda>name. starts_with name pnl_journal_prefix \<and> ends_with name pnl_journal_suffix)
               (map fst dir) = map fst dir"
    by (intro filter_True) auto
  then show ?thesis by (simp add: journal_segment_paths_def)
qed

lemma next_index_ok:
  assumes "\<forall>name \<in> set names. \<exists>i. unat i \<le> n \<and> name = segment_name i" "n < 99999"
  shows "unat (next_journal_segment_index names) \<le> Suc n"
    and "name \<in> set names \<Longrightarrow> name < segment_name (next_journal_segment_index names)"
proof -
  let ?is = "List.map_filter segment_index names"
  have names: "names = map segment_name ?is"
    using assms(1) by (induction names) auto
  have le: "unat i \<le> n" if "i \<in> set ?is" for i
    using assms(1) names that by (metis (no_types, lifting) image_eqI segment_name_inj set_map)
  show "unat (next_journal_segment_index names) \<le> Suc n"
    and "name \<in> set names \<Longrightarrow> name < segment_name (next_journal_segment_index names)"
  proof -
    show "unat (next_journal_segment_index names) \<le> Suc n"
    proof (cases ?is)
      case (Cons i is')
      have "fold max is' i \<in> set ?is"
        using Max.set_eq_fold [of i is'] Max_in [of "set ?is"] Cons by simp
      then have "unat (fold max is' i) \<le> n" by (rule le)
      then show ?thesis
        using assms(2) Cons by (simp add: next_journal_segment_index_def unat_sat_add)
    qed (simp add: next_journal_segment_index_def)
    assume name: "name \<in> set names"
    show "name < segment_name (next_journal_segment_index names)"
    proof (cases ?is)
      case (Cons i is')
      have top: "fold max is' i = Max (set ?is)"
        using Max.set_eq_fold [of i is'] Cons by simp
      have mem: "fold max is' i \<in> set ?is"
        using top Max_in [of "set ?is"] Cons by simp
      then have small: "unat (fold max is' i) \<le> n" by (rule le)
      obtain j where j: "j \<in> set ?is" "name = segment_name j"
        using name names by (metis (no_types, lifting) image_iff set_map)
      have "j \<le> fold max is' i" using j top by simp
      then have "unat j < unat (sat_add (fold max is' i) 1)"
        using small assms(2) by (simp add: unat_sat_add word_le_nat_alt)
      then show ?thesis
        using j Cons small assms(2)
        by (simp add: next_journal_segment_index_def segment_name_less word_less_nat_alt unat_sat_add)
    qed (use names name in auto)
  qed
qed

definition journal_lines :: "directory \<Rightarrow> string list" where
  "journal_lines dir = concat (map (segment_lines dir) (journal_segment_paths dir))"

lemma active_path_split:
  assumes ok: "journal_dir_ok n dir" and n: "n < 99999"
  defines "path \<equiv> active_journal_segment_path dir"
  obtains pre where "path \<notin> set pre" "(\<exists>i. unat i \<le> Suc n \<and> path = segment_name i)"
    "concat (map (segment_lines dir) pre) @ segment_lines dir path = journal_lines dir"
    "sort (map fst (AList.update path v dir)) = pre @ [path]"
proof -
  let ?keys = "sort (map fst dir)"
  let ?fresh = "segment_name (next_journal_segment_index ?keys)"
  have paths: "journal_segment_paths dir = ?keys"
    by (rule journal_segment_paths_ok [OF ok])
  have names: "\<forall>name \<in> set ?keys. \<exists>i. unat i \<le> n \<and> name = segment_name i"
    using ok by (fastforce simp: journal_dir_ok_def)
  have d: "distinct ?keys" using ok by (simp add: journal_dir_ok_def)
  consider (last) "?keys \<noteq> []" "path = last ?keys" | (fresh) "path = ?fresh"
  proof -
    have "?keys \<noteq> [] \<and> path = last ?keys \<or> path = ?fresh"
      unfolding path_def active_journal_segment_path_def paths Let_def
      by (simp split: option.split)
    then show ?thesis using that by blast
  qed
  then show thesis
  proof cases
    case last
    then have keys: "?keys = butlast ?keys @ [path]" by simp
    have mem: "path \<in> set (map fst dir)"
      using last by (metis last_in_set set_sort)
    show thesis
    proof (rule that [of "butlast ?keys"])
      show "path \<notin> set (butlast ?keys)"
        using d keys by (metis distinct_append distinct.simps(2) disjoint_insert(1) list.set(2) not_distinct_conv_prefix)
      show "\<exists>i. unat i \<le> Suc n \<and> path = segment_name i"
        using names mem by (metis le_SucI set_sort)
      show "concat (map (segment_lines dir) (butlast ?keys)) @ segment_lines dir path = journal_lines dir"
        unfolding journal_lines_def paths by (subst (2) keys) simp
      show "sort (map fst (AList.update path v dir)) = butlast ?keys @ [path]"
        using mem keys by (simp add: update_keys)
    qed
  next
    case fresh
    have above: "name < path" if "name \<in> set (map fst dir)" for name
      using next_index_ok(2) [OF names n] that fresh by simp
    then have new: "path \<notin> set (map fst dir)" by blast
    show thesis
    proof (rule that [of ?keys])
      show "path \<notin> set ?keys" using new by simp
      show "\<exists>i. unat i \<le> Suc n \<and> path = segment_name i"
        using next_index_ok(1) [OF names n] fresh by blast
      have "map_of dir path = None" using new by (simp add: map_of_eq_None_iff)
      then show "concat (map (segment_lines dir) ?keys) @ segment_lines dir path = journal_lines dir"
        unfolding journal_lines_def paths segment_lines_def by simp
      show "sort (map fst (AList.update path v dir)) = ?keys @ [path]"
        using new above sort_key_last [of "map fst dir" id path "[]"]
        by (simp add: update_keys less_imp_le id_def)
    qed
  qed
qed

lemma append_journal_line_reads:
  assumes ok: "journal_dir_ok n dir" and n: "n < 99999"
    and line: "newline \<notin> set line" "str_trim line = line"
  shows "journal_dir_ok (Suc n) (append_journal_line line dir)"
    and "journal_lines (append_journal_line line dir) = journal_lines dir @ [line]"
proof -
  define path where "path = active_journal_segment_path dir"
  define s where "s = (case map_of dir path of None \<Rightarrow> [] | Some s \<Rightarrow> s)"
  define dir' where "dir' = AList.update path (s @ line @ [newline]) dir"
  have dir': "append_journal_line line dir = dir'"
    by (simp add: append_journal_line_def dir'_def path_def s_def Let_def)
  obtain pre where pre: "path \<notin> set pre" "\<exists>i. unat i \<le> Suc n \<and> path = segment_name i"
    "concat (map (segment_lines dir) pre) @ segment_lines dir path = journal_lines dir"
    "sort (map fst dir') = pre @ [path]"
    using active_path_split [OF ok n, folded path_def] unfolding dir'_def by blast
  have sub: "set dir' \<subseteq> insert (path, s @ line @ [newline]) (set dir)"
    unfolding dir'_def by (induction dir) auto
  have ok': "journal_dir_ok (Suc n) dir'"
  proof -
    have "distinct (map fst dir')"
      using ok unfolding dir'_def journal_dir_ok_def by (simp add: distinct_update)
    moreover have "(\<exists>i. unat i \<le> Suc n \<and> name = segment_name i) \<and> (t = [] \<or> last t = newline)"
      if "(name, t) \<in> set dir'" for name t
      using subsetD [OF sub that] pre(2) ok by (fastforce simp: journal_dir_ok_def)
    ultimately show ?thesis by (auto simp: journal_dir_ok_def)
  qed
  then show "journal_dir_ok (Suc n) (append_journal_line line dir)"
    by (simp add: dir')
  have look: "map_of dir' k = (if k = path then Some (s @ line @ [newline]) else map_of dir k)" for k
    by (simp add: dir'_def update_conv')
  have complete: "s = [] \<or> last s = newline"
    using ok by (auto simp: s_def journal_dir_ok_def split: option.split dest!: map_of_SomeD)
  have "segment_lines dir' path = segment_lines dir path @ [line]"
    using complete line
    by (auto simp: segment_lines_def look s_def file_lines_append file_lines_no_newline
        chomp_trimmed split: option.split)
  moreover have "map (segment_lines dir') pre = map (segment_lines dir) pre"
    using pre(1) by (intro map_cong) (auto simp: segment_lines_def look)
  ultimately show "journal_lines (append_journal_line line dir) = journal_lines dir @ [line]"
    unfolding dir' journal_lines_def [of dir'] journal_segment_paths_ok [OF ok'] pre(4)
      map_append concat_append pre(3) [symmetric]
    by (simp only: list.map concat.simps append_Nil2 append_assoc)
qed

section \<open>Properties of the journal files\<close>

text \<open>
  What the code relies on from serde for one entry: its text is one line without
  surrounding white space, and decoding that text gives the entry back, the \<open>eventKind\<close>
  field included.
\<close>

fun entry_kind :: "journal_entry \<Rightarrow> string option" where
  "entry_kind (Trade _) = None"
| "entry_kind (ResetMarker r) = Some (rm_event_kind r)"
| "entry_kind (ForceCloseMarker f) = Some (fm_event_kind f)"
| "entry_kind (TokenTransferMarker t) = Some (tm_event_kind t)"
| "entry_kind (IncompleteMarker i) = Some (im_event_kind i)"

fun value_is :: "'v journal_codec \<Rightarrow> 'v \<Rightarrow> journal_entry \<Rightarrow> bool" where
  "value_is c v (Trade ev) = (value_to_trade c v = Some ev)"
| "value_is c v (ResetMarker r) = (value_to_reset c v = Some r)"
| "value_is c v (ForceCloseMarker f) = (value_to_force_close c v = Some f)"
| "value_is c v (TokenTransferMarker t) = (value_to_transfer c v = Some t)"
| "value_is c v (IncompleteMarker i) = (value_to_incomplete c v = Some i)"

definition decodes_to :: "'v journal_codec \<Rightarrow> string \<Rightarrow> journal_entry \<Rightarrow> bool" where
  "decodes_to c line e \<longleftrightarrow>
     line \<noteq> [] \<and> str_trim line = line \<and> newline \<notin> set line
     \<and> (case json_from_str c line of None \<Rightarrow> False
        | Some v \<Rightarrow> json_event_kind c v = entry_kind e \<and> value_is c v e)"

text \<open>The markers as their constructors make them: each carries its own kind.\<close>

fun kind_ok :: "journal_entry \<Rightarrow> bool" where
  "kind_ok (Trade _) = True"
| "kind_ok (ResetMarker r) = (rm_event_kind r = ''reset_marker'')"
| "kind_ok (ForceCloseMarker f) = (fm_event_kind f = ''force_close_marker'')"
| "kind_ok (TokenTransferMarker t) = (tm_event_kind t = ''token_transfer_marker'')"
| "kind_ok (IncompleteMarker i) = (im_event_kind i = ''incomplete_balance_adjustment_marker'')"

lemma read_line_decodes: "decodes_to c line e \<Longrightarrow> kind_ok e \<Longrightarrow> read_line c line = Some e"
  by (cases e) (auto simp: decodes_to_def read_line_def entry_from_value_def Let_def split: option.splits)

lemma append_event_reads:
  assumes "journal_dir_ok n dir" "n < 99999" "event_to_string c e = Some line"
    "decodes_to c line e" "kind_ok e"
  obtains dir' where "append_event c e dir = Inr dir'" "journal_dir_ok (Suc n) dir'"
    "read_journal_entries c dir' = read_journal_entries c dir @ [e]"
proof (rule that)
  have line: "newline \<notin> set line" "str_trim line = line"
    using assms(4) by (simp_all add: decodes_to_def)
  show "append_event c e dir = Inr (append_journal_line line dir)"
    using assms(3) by (simp add: append_event_def)
  show "journal_dir_ok (Suc n) (append_journal_line line dir)"
    by (rule append_journal_line_reads [OF assms(1,2) line])
  show "read_journal_entries c (append_journal_line line dir) = read_journal_entries c dir @ [e]"
    using append_journal_line_reads(2) [OF assms(1,2) line] read_line_decodes [OF assms(4,5)]
    by (simp add: read_journal_entries_def journal_lines_def map_filter_def)
qed

text \<open>Appending a list of entries one after the other.\<close>

fun append_all :: "'v journal_codec \<Rightarrow> journal_entry list \<Rightarrow> directory \<Rightarrow> ledger_error + directory" where
  "append_all c [] dir = Inr dir"
| "append_all c (e # es) dir = rbind (append_event c e dir) (append_all c es)"

lemma append_all_reads:
  assumes "journal_dir_ok n dir" "n + length es < 100000"
    and "\<forall>e \<in> set es. kind_ok e \<and> (\<exists>line. event_to_string c e = Some line \<and> decodes_to c line e)"
  shows "\<exists>dir'. append_all c es dir = Inr dir'
           \<and> read_journal_entries c dir' = read_journal_entries c dir @ es"
  using assms
proof (induction es arbitrary: n dir)
  case (Cons e es)
  obtain line where line: "event_to_string c e = Some line" "decodes_to c line e" "kind_ok e"
    using Cons.prems(3) by auto
  have "n < 99999" using Cons.prems(2) by simp
  then obtain dir1 where d1: "append_event c e dir = Inr dir1" "journal_dir_ok (Suc n) dir1"
    "read_journal_entries c dir1 = read_journal_entries c dir @ [e]"
    by (rule append_event_reads [OF Cons.prems(1) _ line])
  then show ?case
    using Cons.IH [OF d1(2)] Cons.prems(2,3) by auto
qed simp

lemma journal_dir_ok_empty [simp]: "journal_dir_ok n []"
  by (simp add: journal_dir_ok_def)

text \<open>
  C34: reading the journal gives back, in order, everything that was appended to it since it
  was created, however often it rolled over to a new segment, up to the 99999 segments the
  five-digit names can order.
\<close>

theorem journal_append_read_roundtrip:
  assumes "\<forall>e \<in> set es. kind_ok e \<and> (\<exists>line. event_to_string c e = Some line \<and> decodes_to c line e)"
    and "length es < 100000"
  shows "\<exists>dir. append_all c es [] = Inr dir \<and> read_journal_entries c dir = es"
  using append_all_reads [of 0 "[]" es c] assms
  by (simp add: read_journal_entries_def journal_segment_paths_def map_filter_def)

text \<open>
  A transfer marker is journaled once: after it was appended, a marker with the same
  event id is reported as a duplicate and the journal stays as it is.
\<close>

theorem transfer_marker_appended_once:
  assumes "journal_dir_ok n dir" "n < 99999"
    and "event_to_string c (TokenTransferMarker t) = Some line"
    and "decodes_to c line (TokenTransferMarker t)" "kind_ok (TokenTransferMarker t)"
    and "append_token_transfer_marker c t dir = Inr (Appended, dir')"
    and "transfer_event_id t' = transfer_event_id t"
  shows "append_token_transfer_marker c t' dir' = Inr (Duplicate, dir')"
proof -
  obtain d where d: "append_event c (TokenTransferMarker t) dir = Inr d"
    "read_journal_entries c d = read_journal_entries c dir @ [TokenTransferMarker t]"
    by (rule append_event_reads [OF assms(1-5)])
  then have "dir' = d"
    using assms(6) by (auto simp: append_token_transfer_marker_def split: if_splits)
  then show ?thesis
    using d(2) assms(7) by (simp add: append_token_transfer_marker_def)
qed

section \<open>Properties of the snapshot files\<close>

lemma snapshot_record_roundtrip [simp]:
  "trade_ledger_entry_from_snapshot_record (snapshot_record_from_entry e) = e"
  by (cases e) (simp add: trade_ledger_entry_from_snapshot_record_def snapshot_record_from_entry_def)

definition entry_key :: "trade_ledger_entry \<Rightarrow> string" where
  "entry_key e = trade_ledger_key (wallet_key e) (mint e)"

lemma insert_entries:
  assumes "\<forall>e \<in> set es. l (entry_key e) = Some e"
  shows "fold insert_entry es m k = (if k \<in> entry_key ` set es then l k else m k)"
  using assms
  by (induction es arbitrary: m) (auto simp: insert_entry_def entry_key_def)

lemma insert_snapshot_records:
  "fold (\<lambda>r. insert_entry (trade_ledger_entry_from_snapshot_record r))
     (map snapshot_record_from_entry es) m = fold insert_entry es m"
  by (simp add: fold_map comp_def)

text \<open>What \<^verbatim>\<open>HashMap::values\<close> promises: exactly the values, in some order.\<close>

definition values_of :: "trade_ledger \<Rightarrow> trade_ledger_entry list \<Rightarrow> bool" where
  "values_of l values \<longleftrightarrow> set values = ran l"

lemma set_sort_by [simp]: "set (sort_by c xs) = set xs"
proof -
  have "set (insert_by c x ys) = insert x (set ys)" for x ys
    by (induction ys) auto
  then show ?thesis by (induction xs) (simp_all add: sort_by_def)
qed

lemma persisted_lookup:
  assumes "ledger_wf l" "values_of l values"
  defines "es \<equiv> sort_by compare_persisted values"
  shows "fold insert_entry es m k = (if l k \<noteq> None then l k else m k)"
    and "fold insert_entry (filter position_open es) m k
           = (case l k of Some e \<Rightarrow> if position_open e then Some e else m k | None \<Rightarrow> m k)"
    and "fold insert_entry (filter (\<lambda>e. \<not> position_open e) es) m k
           = (case l k of Some e \<Rightarrow> if position_open e then m k else Some e | None \<Rightarrow> m k)"
proof -
  have in_l: "l (entry_key e) = Some e" if "e \<in> set values" for e
    using assms(1,2) that by (auto simp: values_of_def ledger_wf_def entry_key_def ran_def)
  have of_l: "e \<in> set values \<and> k = entry_key e" if "l k = Some e" for e
    using assms(1,2) that by (auto simp: values_of_def ledger_wf_def entry_key_def ran_def)
  have same: "e = e'" if "e \<in> set values" "e' \<in> set values" "entry_key e = entry_key e'" for e e'
    using in_l that by (metis option.inject)
  show "fold insert_entry es m k = (if l k \<noteq> None then l k else m k)"
    using insert_entries [of es l m k] in_l of_l by (auto simp: es_def)
  show "fold insert_entry (filter position_open es) m k
           = (case l k of Some e \<Rightarrow> if position_open e then Some e else m k | None \<Rightarrow> m k)"
    using insert_entries [of "filter position_open es" l m k] in_l of_l
    by (auto simp: es_def dest: same split: option.split)
  show "fold insert_entry (filter (\<lambda>e. \<not> position_open e) es) m k
           = (case l k of Some e \<Rightarrow> if position_open e then m k else Some e | None \<Rightarrow> m k)"
    using insert_entries [of "filter (\<lambda>e. \<not> position_open e) es" l m k] in_l of_l
    by (auto simp: es_def dest: same split: option.split)
qed

lemmas load_simps = load_trade_ledger_def Let_def merge_entries_from_file_def
  merge_entries_from_snapshot_file_def insert_snapshot_records prod.case option.case
  persist_trade_ledger_def persist_writes_def

text \<open>
  Loading what was persisted gives the ledger back, whatever the files held before and
  in whatever order the hash map listed its values.
\<close>

theorem persist_load_roundtrip:
  assumes "ledger_wf l" "values_of l values"
  shows "load_trade_ledger rebuilt (persist_trade_ledger values fs) = l"
proof
  fix k
  show "load_trade_ledger rebuilt (persist_trade_ledger values fs) k = l k"
    unfolding load_simps fold.simps comp_def id_def
    by (simp add: insert_snapshot_records persisted_lookup [OF assms] split: option.split)
qed

definition interrupted_persist ::
  "nat \<Rightarrow> trade_ledger_entry list \<Rightarrow> snapshot_files \<Rightarrow> snapshot_files" where
  "interrupted_persist n values fs = fold (\<lambda>w fs. w fs) (take n (persist_writes values)) fs"

text \<open>
  C35: a crash between the three file replacements of \<^verbatim>\<open>persist_trade_ledger\<close> loses no
  position: what is then loaded is, position by position, the old ledger's or the new one's.
  After the first replacement alone the old positions still win over the new snapshot.
\<close>

theorem interrupted_persist_keeps_every_position:
  assumes "ledger_wf l0" "values_of l0 values0" "ledger_wf l1" "values_of l1 values1"
    and "dom l0 \<subseteq> dom l1"
    and "loaded = (\<lambda>n. load_trade_ledger rebuilt
           (interrupted_persist n values1 (persist_trade_ledger values0 fs)))"
  shows "loaded n k \<in> {l0 k, l1 k} \<and> dom l0 \<subseteq> dom (loaded n)
         \<and> (l0 k \<noteq> None \<longrightarrow> loaded 1 k = l0 k)"
proof -
  note lookups = persisted_lookup [OF assms(1,2)] persisted_lookup [OF assms(3,4)]
  have writes: "length (persist_writes values1) = 3"
    by (simp add: persist_writes_def Let_def)
  have 0: "loaded 0 k = l0 k" for k
    unfolding assms(6) interrupted_persist_def load_simps fold.simps comp_def id_def
    by (simp add: insert_snapshot_records lookups split: option.split)
  have 1: "loaded 1 k = (if l0 k \<noteq> None then l0 k else l1 k)" for k
    unfolding assms(6) interrupted_persist_def load_simps fold.simps comp_def id_def
    by (simp add: insert_snapshot_records lookups split: option.split)
  have 2: "loaded 2 k = (case l0 k of Some e \<Rightarrow> if position_open e then l1 k else Some e | None \<Rightarrow> l1 k)" for k
    unfolding assms(6) interrupted_persist_def load_simps fold.simps comp_def id_def
    by (simp add: numeral_2_eq_2 insert_snapshot_records lookups split: option.split)
  have 3: "loaded n k = l1 k" if "3 \<le> n" for n k
    using that writes
    unfolding assms(6) interrupted_persist_def load_simps fold.simps comp_def id_def
    by (simp add: insert_snapshot_records lookups split: option.split)
  consider "n = 0" | "n = 1" | "n = 2" | "3 \<le> n" by linarith
  then have "\<forall>k. loaded n k \<in> {l0 k, l1 k} \<and> (l0 k \<noteq> None \<longrightarrow> loaded n k \<noteq> None)"
    using assms(5) by cases (auto simp: 0 1 [simplified] 2 3 split: option.split)
  then show ?thesis using 1 by (auto simp: dom_def)
qed

section \<open>Samples\<close>

text \<open>A codec for three sample lines, with the decoded entry itself as the JSON value.\<close>

definition sample_reset :: journal_entry where
  "sample_reset = ResetMarker (new_reset_marker ''w'' ''m'' 7 None)"

definition sample_transfer :: token_transfer_marker_event where
  "sample_transfer = new_token_transfer_marker ''w'' ''v'' ''m'' 40 ''tx'' 9"

definition sample_codec :: "journal_entry journal_codec" where
  "sample_codec =
     \<lparr>json_from_str = (\<lambda>s. if s = ''T'' then Some (Trade (sample_event Buy 100 1000 2))
                         else if s = ''R'' then Some sample_reset
                         else if s = ''X'' then Some (TokenTransferMarker sample_transfer)
                         else None),
      json_event_kind = entry_kind,
      value_to_reset = (\<lambda>v. case v of ResetMarker r \<Rightarrow> Some r | _ \<Rightarrow> None),
      value_to_force_close = (\<lambda>v. case v of ForceCloseMarker f \<Rightarrow> Some f | _ \<Rightarrow> None),
      value_to_transfer = (\<lambda>v. case v of TokenTransferMarker t \<Rightarrow> Some t | _ \<Rightarrow> None),
      value_to_incomplete = (\<lambda>v. case v of IncompleteMarker i \<Rightarrow> Some i | _ \<Rightarrow> None),
      value_to_trade = (\<lambda>v. case v of Trade ev \<Rightarrow> Some ev | _ \<Rightarrow> None),
      event_to_string = (\<lambda>e. case e of Trade _ \<Rightarrow> Some ''T'' | ResetMarker _ \<Rightarrow> Some ''R''
                           | TokenTransferMarker _ \<Rightarrow> Some ''X'' | _ \<Rightarrow> None)\<rparr>"

lemma trim_letters [simp]: "str_trim ''T'' = ''T''" "str_trim ''R'' = ''R''" "str_trim ''X'' = ''X''"
  by code_simp+

lemma sample_decodes [simp]:
  "decodes_to sample_codec ''T'' (Trade (sample_event Buy 100 1000 2))"
  "decodes_to sample_codec ''R'' sample_reset"
  "decodes_to sample_codec ''X'' (TokenTransferMarker sample_transfer)"
  by (simp_all add: decodes_to_def sample_codec_def newline_def sample_reset_def)

lemma sample_kinds [simp]:
  "kind_ok sample_reset" "tm_event_kind sample_transfer = ''token_transfer_marker''"
  by (simp_all add: sample_reset_def sample_transfer_def new_reset_marker_def
      new_token_transfer_marker_def)

lemma sample_prints [simp]:
  "event_to_string sample_codec (Trade ev) = Some ''T''"
  "event_to_string sample_codec sample_reset = Some ''R''"
  "event_to_string sample_codec (TokenTransferMarker t) = Some ''X''"
  by (simp_all add: sample_codec_def sample_reset_def)

theorem journal_append_read_roundtrip_witness:
  "\<exists>dir. append_all sample_codec [Trade (sample_event Buy 100 1000 2), sample_reset] [] = Inr dir
     \<and> read_journal_entries sample_codec dir = [Trade (sample_event Buy 100 1000 2), sample_reset]"
  by (rule journal_append_read_roundtrip) simp_all

theorem transfer_marker_appended_once_witness:
  "append_token_transfer_marker sample_codec (sample_transfer\<lparr>tm_applied_at_unix_ms := 10\<rparr>)
     [(segment_name 1, ''X'' @ [newline])]
   = Inr (Duplicate, [(segment_name 1, ''X'' @ [newline])])"
proof -
  have "journal_segment_paths [] = []"
    by (simp add: journal_segment_paths_def)
  then have "append_token_transfer_marker sample_codec sample_transfer []
        = Inr (Appended, [(segment_name 1, ''X'' @ [newline])])"
    by (simp add: append_token_transfer_marker_def read_journal_entries_def map_filter_def
        append_event_def append_journal_line_def active_journal_segment_path_def Let_def
        next_journal_segment_index_def)
  moreover have "transfer_event_id (sample_transfer\<lparr>tm_applied_at_unix_ms := 10\<rparr>)
                 = transfer_event_id sample_transfer"
    by (simp add: transfer_event_id_def)
  ultimately show ?thesis
    using transfer_marker_appended_once [of 0 "[]" sample_codec sample_transfer "''X''"]
    by simp
qed

definition sample_position :: trade_ledger_entry where
  "sample_position = the (sample_ledger ''w::m'')"

definition sample_resync :: trade_ledger where
  "sample_resync = mark_trade_ledger_received_without_cost_basis ''w'' ''m'' 9 sample_ledger"

lemma sample_ledger_single: "sample_ledger = [''w::m'' \<mapsto> sample_position]"
  by (simp add: sample_ledger_def sample_position_def apply_confirmed_trade_event_def Let_def)

lemma sample_values [simp]: "values_of sample_ledger [sample_position]"
  by (subst sample_ledger_single) (simp add: values_of_def)

lemma sample_resync_simps:
  "ledger_wf sample_resync" "values_of sample_resync [the (sample_resync ''w::m'')]"
  "dom sample_resync = {''w::m''}" "needs_resync (the (sample_resync ''w::m''))"
proof -
  have key: "trade_ledger_key ''w'' ''m'' = ''w::m''" by code_simp
  show "ledger_wf sample_resync"
    unfolding sample_resync_def by (intro mark_received_wf sample_ledger_wf)
  show "values_of sample_resync [the (sample_resync ''w::m'')]"
    "dom sample_resync = {''w::m''}" "needs_resync (the (sample_resync ''w::m''))"
    unfolding sample_resync_def sample_ledger_single
    by (simp_all add: mark_trade_ledger_received_without_cost_basis_def values_of_def key Let_def)
qed

lemma sample_ledger_simps:
  "dom sample_ledger = {''w::m''}" "sample_ledger ''w::m'' = Some sample_position"
  by (subst sample_ledger_single, simp)+

theorem persist_load_roundtrip_witness:
  "load_trade_ledger Map.empty (persist_trade_ledger [sample_position]
     \<lparr>snapshots_file = None, open_positions_file = None, closed_positions_file = None,
      legacy_file = None\<rparr>) = sample_ledger"
  by (rule persist_load_roundtrip) (simp_all add: sample_ledger_wf)

theorem interrupted_persist_keeps_every_position_witness:
  "load_trade_ledger Map.empty
     (interrupted_persist 1 [the (sample_resync ''w::m'')]
       (persist_trade_ledger [sample_position]
         \<lparr>snapshots_file = None, open_positions_file = None, closed_positions_file = None,
          legacy_file = None\<rparr>)) ''w::m'' = Some sample_position
   \<and> needs_resync (the (sample_resync ''w::m''))"
  using interrupted_persist_keeps_every_position
    [OF sample_ledger_wf sample_values sample_resync_simps(1,2) _ refl, where n = 1 and k = "''w::m''"
      and rebuilt = Map.empty and fs = "\<lparr>snapshots_file = None, open_positions_file = None, closed_positions_file = None,
        legacy_file = None\<rparr>"]
    sample_resync_simps(3,4)
  by (simp add: sample_ledger_simps)

end
