(* ===== verification/Trade_Planner.thy ===== *)
theory Trade_Planner
  imports Trade_Ledger
begin

text \<open>
  The planner's view of a market (\<^verbatim>\<open>execution-engine/src/trade_planner.rs\<close>): lifecycle, venue,
  quote asset, wrapper action and runtime bundle, and when two plans are the same route. The
  runtime request (\<^verbatim>\<open>trade_runtime.rs\<close>) carries a dispatch plan of a type that is a parameter.
\<close>

section \<open>Market selectors\<close>

datatype trade_lifecycle = PreMigration | PostMigration

datatype trade_venue_family =
    PumpBondingCurve
  | PumpAmm
  | RaydiumAmmV4
  | RaydiumCpmm
  | RaydiumLaunchLab
  | TrustedStableSwap
  | BonkLaunchpad
  | BonkRaydium
  | MeteoraDbc
  | MeteoraDammV2

datatype planner_quote_asset = Quote_Sol | Quote_Wsol | Quote_Usd1 | Quote_Usdc | Quote_Usdt

datatype planner_verification_source = OnchainDerived | HybridDerived

datatype wrapper_action =
    PumpBondingCurveBuy
  | PumpBondingCurveSell
  | PumpAmmBuy
  | PumpAmmSell
  | PumpAmmWsolBuy
  | PumpAmmWsolSell
  | RaydiumAmmV4WsolBuy
  | RaydiumAmmV4WsolSell
  | RaydiumCpmmWsolBuy
  | RaydiumCpmmWsolSell
  | RaydiumLaunchLabSolBuy
  | RaydiumLaunchLabSolSell
  | TrustedStableSwapBuy
  | TrustedStableSwapSell
  | BonkLaunchpadSolBuy
  | BonkLaunchpadSolSell
  | BonkLaunchpadUsd1Buy
  | BonkLaunchpadUsd1Sell
  | BonkRaydiumSolBuy
  | BonkRaydiumSolSell
  | BonkRaydiumUsd1Buy
  | BonkRaydiumUsd1Sell
  | MeteoraDbcBuy
  | MeteoraDbcSell
  | MeteoraDammV2Buy
  | MeteoraDammV2Sell

record pump_bonding_curve_runtime_bundle =
  pbc_mint :: string
  pbc_bonding_curve :: string
  pbc_bonding_curve_v2 :: string
  pbc_fee_sharing_config :: string
  pbc_creator_vault_authority :: string
  pbc_launch_creator :: string
  pbc_token_program :: string
  pbc_associated_bonding_curve :: string
  pbc_global_volume_accumulator :: string
  pbc_fee_config :: string
  pbc_quote_mint :: string
  pbc_quote_token_program :: string
  pbc_buyback_fee_recipient :: string
  pbc_associated_quote_fee_recipient :: string
  pbc_associated_quote_buyback_fee_recipient :: string
  pbc_associated_quote_bonding_curve :: string
  pbc_associated_quote_user :: string
  pbc_associated_creator_vault :: string
  pbc_associated_user_volume_accumulator :: string
  pbc_is_mayhem_mode :: bool
  pbc_is_cashback_coin :: bool

record pump_amm_runtime_bundle =
  pamm_pool :: string
  pamm_pool_creator :: string
  pamm_base_mint :: string
  pamm_quote_mint :: string
  pamm_pool_base_token_account :: string
  pamm_pool_quote_token_account :: string
  pamm_mint_token_program :: string
  pamm_global_config :: string
  pamm_fee_config :: string
  pamm_protocol_fee_recipient :: string
  pamm_protocol_fee_recipient_token_account :: string
  pamm_coin_creator :: string
  pamm_coin_creator_vault_ata :: string
  pamm_coin_creator_vault_authority :: string
  pamm_global_volume_accumulator :: string
  pamm_is_mayhem_mode :: bool
  pamm_is_cashback_coin :: bool

record raydium_amm_v4_runtime_bundle =
  amm4_pool :: string
  amm4_authority :: string
  amm4_base_mint :: string
  amm4_quote_mint :: string
  amm4_base_vault :: string
  amm4_quote_vault :: string
  amm4_open_orders :: string
  amm4_target_orders :: string
  amm4_market_program :: string
  amm4_market :: string
  amm4_market_bids :: string
  amm4_market_asks :: string
  amm4_market_event_queue :: string
  amm4_market_base_vault :: string
  amm4_market_quote_vault :: string
  amm4_market_vault_signer :: string
  amm4_mint_token_program :: string
  amm4_trade_fee_numerator :: u64
  amm4_trade_fee_denominator :: u64

record raydium_cpmm_runtime_bundle =
  cpmm_pool :: string
  cpmm_config_id :: string
  cpmm_vault_a :: string
  cpmm_vault_b :: string
  cpmm_token_0_mint :: string
  cpmm_token_1_mint :: string
  cpmm_token_0_program :: string
  cpmm_token_1_program :: string
  cpmm_observation_id :: string
  cpmm_mint_decimals_a :: u8
  cpmm_mint_decimals_b :: u8
  cpmm_protocol_fees_mint_a :: u64
  cpmm_protocol_fees_mint_b :: u64
  cpmm_fund_fees_mint_a :: u64
  cpmm_fund_fees_mint_b :: u64
  cpmm_enable_creator_fee :: bool
  cpmm_creator_fees_mint_a :: u64
  cpmm_creator_fees_mint_b :: u64
  cpmm_reserve_a :: u64
  cpmm_reserve_b :: u64
  cpmm_trade_fee_rate :: u64
  cpmm_creator_fee_rate :: u64

record trusted_stable_runtime_bundle =
  stable_pool :: string
  stable_venue :: string
  stable_buy_input_mint :: string
  stable_buy_output_mint :: string
  stable_sell_input_mint :: string
  stable_sell_output_mint :: string

record bags_launch_metadata =
  config_key :: string
  migration_fee_option :: "i64 option"
  expected_migration_family :: string
  expected_damm_config_key :: string
  expected_damm_derivation_mode :: string
  pre_migration_dbc_pool_address :: string
  post_migration_damm_pool_address :: string

record bags_runtime_bundle =
  bags_launch :: bags_launch_metadata

datatype planner_runtime_bundle =
    Bundle_PumpBondingCurve pump_bonding_curve_runtime_bundle
  | Bundle_PumpAmm pump_amm_runtime_bundle
  | Bundle_RaydiumAmmV4 raydium_amm_v4_runtime_bundle
  | Bundle_RaydiumCpmm raydium_cpmm_runtime_bundle
  | Bundle_TrustedStable trusted_stable_runtime_bundle
  | Bundle_Bags bags_runtime_bundle

record lifecycle_and_canonical_market =
  lifecycle :: trade_lifecycle
  family :: trade_venue_family
  canonical_market_key :: string
  quote_asset :: planner_quote_asset
  verification_source :: planner_verification_source
  market_wrapper_action :: wrapper_action
  wrapper_accounts :: "string list"
  market_subtype :: "string option"
  direct_protocol_target :: "string option"
  input_amount_hint :: "string option"
  minimum_output_hint :: "string option"
  runtime_bundle :: "planner_runtime_bundle option"

definition lifecycle_label :: "trade_lifecycle \<Rightarrow> string" where
  "lifecycle_label l = (case l of PreMigration \<Rightarrow> ''pre_migration'' | PostMigration \<Rightarrow> ''post_migration'')"

definition family_label :: "trade_venue_family \<Rightarrow> string" where
  "family_label f =
     (case f of
        PumpBondingCurve \<Rightarrow> ''pump-bonding-curve''
      | PumpAmm \<Rightarrow> ''pump-amm''
      | RaydiumAmmV4 \<Rightarrow> ''raydium-amm-v4''
      | RaydiumCpmm \<Rightarrow> ''raydium-cpmm''
      | RaydiumLaunchLab \<Rightarrow> ''raydium-launchlab''
      | TrustedStableSwap \<Rightarrow> ''trusted-stable-swap''
      | BonkLaunchpad \<Rightarrow> ''bonk-launchpad''
      | BonkRaydium \<Rightarrow> ''bonk-raydium''
      | MeteoraDbc \<Rightarrow> ''meteora-dbc''
      | MeteoraDammV2 \<Rightarrow> ''meteora-damm-v2'')"

definition quote_asset_label :: "planner_quote_asset \<Rightarrow> string" where
  "quote_asset_label q =
     (case q of Quote_Sol \<Rightarrow> ''SOL'' | Quote_Wsol \<Rightarrow> ''WSOL'' | Quote_Usd1 \<Rightarrow> ''USD1''
      | Quote_Usdc \<Rightarrow> ''USDC'' | Quote_Usdt \<Rightarrow> ''USDT'')"

definition normalize_market_subtype :: "string option \<Rightarrow> string" where
  "normalize_market_subtype value =
     (case map_option str_trim value of
        None \<Rightarrow> []
      | Some v \<Rightarrow> if v = [] then [] else v)"

definition same_route_as ::
  "lifecycle_and_canonical_market \<Rightarrow> lifecycle_and_canonical_market \<Rightarrow> bool" where
  "same_route_as a b =
     (if lifecycle a \<noteq> lifecycle b \<or> family a \<noteq> family b
         \<or> canonical_market_key a \<noteq> canonical_market_key b \<or> quote_asset a \<noteq> quote_asset b
         \<or> market_wrapper_action a \<noteq> market_wrapper_action b
      then False
      else case family a of
          PumpBondingCurve \<Rightarrow> True
        | PumpAmm \<Rightarrow> True
        | _ \<Rightarrow> normalize_market_subtype (market_subtype a) = normalize_market_subtype (market_subtype b)
               \<and> wrapper_accounts a = wrapper_accounts b)"

section \<open>Runtime requests\<close>

datatype runtime_sell_intent = Sell_Percent string | Sell_Sol_Output string

datatype mev_mode = Mev_Off | Mev_Reduced | Mev_Secure

datatype buy_funding_policy = SolOnly | PreferUsd1ElseTopUp | Usd1Only

datatype sell_settlement_policy = AlwaysToSol | AlwaysToUsd1 | MatchStoredEntryPreference

record runtime_execution_policy =
  slippage_percent :: string
  policy_mev_mode :: mev_mode
  auto_tip_enabled :: bool
  fee_sol :: string
  tip_sol :: string
  provider :: string
  endpoint_profile :: string
  commitment :: string
  skip_preflight :: bool
  track_send_block_height :: bool
  funding_policy :: buy_funding_policy
  settlement_policy :: sell_settlement_policy
  settlement_asset :: trade_settlement_asset

record 'plan trade_runtime_request =
  request_side :: trade_side
  request_mint :: string
  buy_amount_sol :: "string option"
  sell_intent :: "runtime_sell_intent option"
  policy :: runtime_execution_policy
  platform_label :: "string option"
  planned_route :: "'plan option"
  planned_trade :: "lifecycle_and_canonical_market option"
  pinned_pool :: "string option"
  warm_key :: "string option"
  fallback_mint_hint :: "string option"

section \<open>Properties\<close>

text \<open>What decides the route: for the Pump venues neither subtype nor accounts.\<close>

definition route_key :: "lifecycle_and_canonical_market
    \<Rightarrow> trade_lifecycle \<times> trade_venue_family \<times> string \<times> planner_quote_asset \<times> wrapper_action
      \<times> (string \<times> string list) option" where
  "route_key a =
     (lifecycle a, family a, canonical_market_key a, quote_asset a, market_wrapper_action a,
      if family a = PumpBondingCurve \<or> family a = PumpAmm then None
      else Some (normalize_market_subtype (market_subtype a), wrapper_accounts a))"

text \<open>
  Two plans are the same route exactly when their route keys are equal, so being the same
  route is an equivalence and plans can be cached by key.
\<close>

theorem same_route_as_iff_same_key:
  "same_route_as a b \<longleftrightarrow> route_key a = route_key b"
  by (cases "family b") (auto simp: same_route_as_def route_key_def)

end
