(* ===== verification/Byte_Codec.thy ===== *)
theory Byte_Codec
  imports Trench_Prelude
begin

text \<open>
  Little-endian byte encodings, shared by the account decoders, the instruction builders and
  the wrapper ABI: \<^verbatim>\<open>u64::to_le_bytes\<close>, \<^verbatim>\<open>u64::from_le_bytes\<close> and byte-string literals. The
  locale \<open>byte_codec\<close> is the contract of an encoder that its decoder undoes in front of any
  further bytes; it carries over to lists.
\<close>

type_synonym bytes = "u8 list"

type_synonym pubkey = bytes

fun le_bytes :: "nat \<Rightarrow> nat \<Rightarrow> bytes" where
  "le_bytes 0 n = []"
| "le_bytes (Suc k) n = of_nat (n mod 256) # le_bytes k (n div 256)"

fun le_value :: "bytes \<Rightarrow> nat" where
  "le_value [] = 0"
| "le_value (b # bs) = unat b + 256 * le_value bs"

definition u16_to_le_bytes :: "u16 \<Rightarrow> bytes" where
  "u16_to_le_bytes x = le_bytes 2 (unat x)"

definition u32_to_le_bytes :: "u32 \<Rightarrow> bytes" where
  "u32_to_le_bytes x = le_bytes 4 (unat x)"

definition u64_to_le_bytes :: "u64 \<Rightarrow> bytes" where
  "u64_to_le_bytes x = le_bytes 8 (unat x)"

definition u16_from_le_bytes :: "bytes \<Rightarrow> u16" where
  "u16_from_le_bytes bs = of_nat (le_value bs)"

definition u32_from_le_bytes :: "bytes \<Rightarrow> u32" where
  "u32_from_le_bytes bs = of_nat (le_value bs)"

definition u64_from_le_bytes :: "bytes \<Rightarrow> u64" where
  "u64_from_le_bytes bs = of_nat (le_value bs)"

text \<open>The byte-string literal \<^verbatim>\<open>b"..."\<close>.\<close>

definition byte_string :: "string \<Rightarrow> bytes" where
  "byte_string s = map of_char s"

lemma length_le_bytes [simp]: "length (le_bytes k n) = k"
  by (induction k n rule: le_bytes.induct) simp_all

lemma le_value_le_bytes: "le_value (le_bytes k n) = n mod 256 ^ k"
proof (induction k n rule: le_bytes.induct)
  case (2 k n)
  have "unat (of_nat (n mod 256) :: u8) = n mod 256"
    by (simp add: unat_of_nat)
  then show ?case
    using 2 mod_mult2_eq [of n 256 "256 ^ k"] by simp
qed simp

lemma length_to_le_bytes [simp]:
  "length (u16_to_le_bytes a) = 2" "length (u32_to_le_bytes b) = 4" "length (u64_to_le_bytes c) = 8"
  by (simp_all add: u16_to_le_bytes_def u32_to_le_bytes_def u64_to_le_bytes_def)

lemma unat_bounds: "unat (a :: u16) < 65536" "unat (b :: u32) < 4294967296"
  using unat_less_pow [of a] unat_less_pow [of b] by simp_all

lemma from_to_le_bytes [simp]:
  "u16_from_le_bytes (u16_to_le_bytes a) = a" "u32_from_le_bytes (u32_to_le_bytes b) = b"
  "u64_from_le_bytes (u64_to_le_bytes c) = c"
  using unat_bounds(1) [of a] unat_bounds(2) [of b] unat_less_pow [of c]
  by (simp_all add: u16_to_le_bytes_def u16_from_le_bytes_def u32_to_le_bytes_def
      u32_from_le_bytes_def u64_to_le_bytes_def u64_from_le_bytes_def le_value_le_bytes)

locale byte_codec =
  fixes enc :: "'a \<Rightarrow> bytes" and dec :: "bytes \<Rightarrow> ('a \<times> bytes) option"
  assumes dec_enc: "dec (enc x @ rest) = Some (x, rest)"
begin

lemma enc_inj: "enc x = enc y \<Longrightarrow> x = y"
  using dec_enc [of x "[]"] dec_enc [of y "[]"] by (metis Pair_inject option.inject)

lemma enc_prefix_free: "enc x @ r = enc y @ s \<Longrightarrow> x = y \<and> r = s"
  using dec_enc [of x r] dec_enc [of y s] by (metis Pair_inject option.inject)

fun dec_list :: "nat \<Rightarrow> bytes \<Rightarrow> ('a list \<times> bytes) option" where
  "dec_list 0 bs = Some ([], bs)"
| "dec_list (Suc n) bs =
     Option.bind (dec bs) (\<lambda>(x, r). Option.bind (dec_list n r) (\<lambda>(xs, r'). Some (x # xs, r')))"

lemma dec_list_enc: "dec_list (length xs) (concat (map enc xs) @ rest) = Some (xs, rest)"
  by (induction xs) (simp_all add: dec_enc)

lemma concat_enc_prefix_free:
  "length xs = length ys \<Longrightarrow> concat (map enc xs) @ r = concat (map enc ys) @ s \<Longrightarrow> xs = ys \<and> r = s"
  using dec_list_enc [of xs r] dec_list_enc [of ys s] by (metis Pair_inject option.inject)

end

text \<open>Fixed-width integers are byte codecs.\<close>

definition take_u8 :: "bytes \<Rightarrow> (u8 \<times> bytes) option" where
  "take_u8 bs = (case bs of [] \<Rightarrow> None | b # r \<Rightarrow> Some (b, r))"

definition take_u16 :: "bytes \<Rightarrow> (u16 \<times> bytes) option" where
  "take_u16 bs = (if length bs < 2 then None else Some (u16_from_le_bytes (take 2 bs), drop 2 bs))"

definition take_u32 :: "bytes \<Rightarrow> (u32 \<times> bytes) option" where
  "take_u32 bs = (if length bs < 4 then None else Some (u32_from_le_bytes (take 4 bs), drop 4 bs))"

definition take_u64 :: "bytes \<Rightarrow> (u64 \<times> bytes) option" where
  "take_u64 bs = (if length bs < 8 then None else Some (u64_from_le_bytes (take 8 bs), drop 8 bs))"

interpretation u8_codec: byte_codec "\<lambda>b. [b]" take_u8
  by unfold_locales (simp add: take_u8_def)

interpretation u16_codec: byte_codec u16_to_le_bytes take_u16
  by unfold_locales (simp add: take_u16_def)

interpretation u32_codec: byte_codec u32_to_le_bytes take_u32
  by unfold_locales (simp add: take_u32_def)

interpretation u64_codec: byte_codec u64_to_le_bytes take_u64
  by unfold_locales (simp add: take_u64_def)

section \<open>Solana types\<close>

text \<open>
  Base58 parsing, address derivation and the well-known ids belong to the Solana SDK: they
  are the fields of \<open>solana_sdk\<close>. A public key is its 32 bytes.
\<close>

record solana_sdk =
  pubkey_from_str :: "string \<Rightarrow> pubkey option"
  find_program_address :: "bytes list \<Rightarrow> pubkey \<Rightarrow> pubkey \<times> u8"
  system_program_id :: pubkey
  rent_sysvar_id :: pubkey
  instructions_sysvar_id :: pubkey

record account_meta =
  meta_pubkey :: pubkey
  is_signer :: bool
  is_writable :: bool

record instruction =
  program_id :: pubkey
  ix_accounts :: "account_meta list"
  ix_bytes :: bytes

definition meta_new :: "pubkey \<Rightarrow> bool \<Rightarrow> account_meta" where
  "meta_new k signer = \<lparr>meta_pubkey = k, is_signer = signer, is_writable = True\<rparr>"

definition meta_new_readonly :: "pubkey \<Rightarrow> bool \<Rightarrow> account_meta" where
  "meta_new_readonly k signer = \<lparr>meta_pubkey = k, is_signer = signer, is_writable = False\<rparr>"

end
