(* ===== verification/Wrapper_Abi.thy ===== *)
theory Wrapper_Abi
  imports Byte_Codec
begin

text \<open>
  The client side of the on-chain fee-routing program
  (\<^verbatim>\<open>execution-engine/src/wrapper_abi.rs\<close>): the request types, the account prefix of a call,
  the guards in front of the encoding and the instruction builders. Borsh serialisation is
  third-party code: \<open>borsh\<close> gives the bytes of a request, or \<^term>\<open>None\<close> where it fails.
\<close>

section \<open>Requests\<close>

definition wrapper_program_id :: pubkey where
  "wrapper_program_id =
     [6, 196, 127, 156, 96, 207, 120, 50, 171, 67, 238, 180, 137, 200, 26, 173, 65, 208, 186, 99, 39,
      237, 181, 214, 193, 37, 222, 188, 224, 190, 61, 36]"

definition abi_version :: u8 where
  "abi_version = 3"

definition max_fee_bps :: u16 where
  "max_fee_bps = 20"

definition token_program_id :: pubkey where
  "token_program_id =
     [6, 221, 246, 225, 215, 101, 161, 147, 217, 203, 225, 70, 206, 235, 121, 172, 28, 180, 133, 237,
      95, 91, 55, 145, 58, 140, 245, 133, 126, 255, 0, 169]"

definition wsol_mint_id :: pubkey where
  "wsol_mint_id =
     [6, 155, 136, 87, 254, 171, 129, 132, 251, 104, 127, 99, 70, 24, 192, 53, 218, 196, 57, 220, 26,
      235, 59, 85, 152, 160, 240, 0, 0, 0, 0, 1]"

definition execute_swap_route_discriminator :: u8 where
  "execute_swap_route_discriminator = 8"

definition execute_pump_bonding_v2_discriminator :: u8 where
  "execute_pump_bonding_v2_discriminator = 9"

definition route_wsol_lane_count :: u8 where
  "route_wsol_lane_count = 8"

datatype wrapper_route_kind = Route_Sol_In | Route_Sol_Out | Route_Sol_Through

datatype swap_route_direction = Direction_Buy | Direction_Sell

datatype swap_route_settlement = Settlement_Token | Settlement_Native_Sol | Settlement_Wsol

datatype swap_route_mode = Mode_Sol_In | Mode_Sol_Out | Mode_Token_Only | Mode_Mixed

datatype swap_route_fee_mode = Sol_Pre | Native_Sol_Post | Wsol_Post | Token_Pre | Token_Post

datatype swap_leg_input_source =
    Fixed | Gross_Sol_Net_Of_Fee | Previous_Token_Delta | Gross_Token_Net_Of_Fee

record swap_route_leg =
  program_account_index :: u16
  accounts_start :: u16
  accounts_len :: u16
  input_source :: swap_leg_input_source
  input_amount :: u64
  input_patch_offset :: u16
  output_account_index :: u16
  leg_ix_data :: bytes

record execute_swap_route_request =
  rq_version :: u8
  rq_route_mode :: swap_route_mode
  rq_direction :: swap_route_direction
  rq_settlement :: swap_route_settlement
  rq_fee_mode :: swap_route_fee_mode
  wsol_lane :: u8
  rq_fee_bps :: u16
  rq_gross_sol_in_lamports :: u64
  rq_gross_token_in_amount :: u64
  rq_min_net_output :: u64
  route_accounts_offset :: u16
  intermediate_account_index :: u16
  token_fee_account_index :: u16
  legs :: "swap_route_leg list"

datatype pump_bonding_v2_side = Pump_Buy | Pump_Sell

datatype pump_bonding_v2_quote_fee_mode = Pump_Quote_Wsol | Pump_Quote_Token

record execute_pump_bonding_v2_request =
  pb_version :: u8
  pb_side :: pump_bonding_v2_side
  quote_fee_mode :: pump_bonding_v2_quote_fee_mode
  pb_fee_bps :: u16
  gross_quote_in_amount :: u64
  min_base_out_amount :: u64
  base_amount_in :: u64
  gross_min_quote_out_amount :: u64
  net_min_quote_out_amount :: u64

section \<open>Accounts\<close>

record execute_accounts =
  ea_user :: pubkey
  ea_config_pda :: pubkey
  ea_fee_vault :: pubkey
  ea_fee_vault_wsol_ata :: pubkey
  ea_user_wsol_ata :: pubkey
  ea_instructions_sysvar :: pubkey
  ea_inner_program :: pubkey
  ea_token_program :: pubkey

record execute_swap_route_accounts =
  sa_execute :: execute_accounts
  token_fee_vault_ata :: "pubkey option"

record execute_pump_bonding_v2_accounts =
  pa_user :: pubkey
  pa_config_pda :: pubkey
  pa_fee_vault :: pubkey
  pa_fee_vault_quote_ata :: pubkey
  pa_instructions_sysvar :: pubkey
  pa_pump_program :: pubkey

datatype wrapper_error =
    Lane_Out_Of_Range u8
  | Missing_Token_Fee_Vault
  | Version_Mismatch u8
  | Fee_Exceeds_Cap u16
  | Offset_Overflow
  | Offset_Mismatch u16 u16
  | Serialize_Failed

definition config_pda :: "solana_sdk \<Rightarrow> pubkey \<times> u8" where
  "config_pda sdk = find_program_address sdk [byte_string ''config''] wrapper_program_id"

definition route_wsol_pda :: "solana_sdk \<Rightarrow> pubkey \<Rightarrow> u8 \<Rightarrow> pubkey \<times> u8" where
  "route_wsol_pda sdk user lane =
     find_program_address sdk [byte_string ''route-wsol'', user, [lane]] wrapper_program_id"

definition execute_metas :: "execute_accounts \<Rightarrow> account_meta list" where
  "execute_metas a =
     [meta_new (ea_user a) True,
      meta_new_readonly (ea_config_pda a) False,
      meta_new (ea_fee_vault a) False,
      meta_new (ea_fee_vault_wsol_ata a) False,
      meta_new (ea_user_wsol_ata a) False,
      meta_new_readonly (ea_instructions_sysvar a) False,
      meta_new_readonly (ea_inner_program a) False,
      meta_new_readonly (ea_token_program a) False]"

definition execute_swap_route_fixed_account_count :: u16 where
  "execute_swap_route_fixed_account_count = 8"

definition execute_swap_route_wsol_account_count :: u16 where
  "execute_swap_route_wsol_account_count = 3"

definition execute_swap_route_token_fee_account_count :: u16 where
  "execute_swap_route_token_fee_account_count = 1"

definition execute_pump_bonding_v2_fixed_account_count :: u16 where
  "execute_pump_bonding_v2_fixed_account_count = 6"

definition swap_route_uses_wsol :: "execute_swap_route_request \<Rightarrow> bool" where
  "swap_route_uses_wsol r =
     (case (rq_route_mode r, rq_fee_mode r) of
        (Mode_Sol_Out, Wsol_Post) \<Rightarrow> True
      | (Mode_Mixed, Sol_Pre) \<Rightarrow> True
      | (Mode_Mixed, Wsol_Post) \<Rightarrow> True
      | _ \<Rightarrow> False)"

definition swap_route_uses_token_fee :: "execute_swap_route_request \<Rightarrow> bool" where
  "swap_route_uses_token_fee r =
     (case rq_fee_mode r of Token_Pre \<Rightarrow> True | Token_Post \<Rightarrow> True | _ \<Rightarrow> False)"

definition pump_metas :: "execute_pump_bonding_v2_accounts \<Rightarrow> account_meta list" where
  "pump_metas a =
     [meta_new (pa_user a) True,
      meta_new_readonly (pa_config_pda a) False,
      meta_new (pa_fee_vault a) False,
      meta_new (pa_fee_vault_quote_ata a) False,
      meta_new_readonly (pa_instructions_sysvar a) False,
      meta_new_readonly (pa_pump_program a) False]"

definition swap_route_metas ::
  "solana_sdk \<Rightarrow> execute_swap_route_accounts \<Rightarrow> execute_swap_route_request
     \<Rightarrow> wrapper_error + account_meta list" where
  "swap_route_metas sdk a r =
     (if swap_route_uses_wsol r \<and> route_wsol_lane_count \<le> wsol_lane r
      then Inl (Lane_Out_Of_Range (wsol_lane r))
      else
        let metas = execute_metas (sa_execute a);
            metas = (if swap_route_uses_wsol r
                     then metas @ [meta_new_readonly wsol_mint_id False,
                                   meta_new_readonly (system_program_id sdk) False,
                                   meta_new_readonly (rent_sysvar_id sdk) False]
                     else metas)
        in if swap_route_uses_token_fee r
           then rbind (ok_or (token_fee_vault_ata a) Missing_Token_Fee_Vault) (\<lambda>ata.
                  Inr (metas @ [meta_new ata False]))
           else Inr metas)"

section \<open>Encoding and instructions\<close>

definition encode_execute_swap_route_data ::
  "(execute_swap_route_request \<Rightarrow> bytes option) \<Rightarrow> execute_swap_route_request
     \<Rightarrow> wrapper_error + bytes" where
  "encode_execute_swap_route_data borsh r =
     (if rq_version r \<noteq> abi_version then Inl (Version_Mismatch (rq_version r))
      else if max_fee_bps < rq_fee_bps r then Inl (Fee_Exceeds_Cap (rq_fee_bps r))
      else rbind (ok_or (borsh r) Serialize_Failed) (\<lambda>body.
             Inr (execute_swap_route_discriminator # body)))"

definition expected_route_offset :: "execute_swap_route_request \<Rightarrow> wrapper_error + u16" where
  "expected_route_offset r =
     (let offset = execute_swap_route_fixed_account_count
      in rbind (if swap_route_uses_wsol r
                then ok_or (checked_add offset execute_swap_route_wsol_account_count) Offset_Overflow
                else Inr offset) (\<lambda>offset.
         if swap_route_uses_token_fee r
         then ok_or (checked_add offset execute_swap_route_token_fee_account_count) Offset_Overflow
         else Inr offset))"

definition build_execute_swap_route_instruction ::
  "solana_sdk \<Rightarrow> (execute_swap_route_request \<Rightarrow> bytes option) \<Rightarrow> execute_swap_route_accounts
     \<Rightarrow> execute_swap_route_request \<Rightarrow> account_meta list \<Rightarrow> wrapper_error + instruction" where
  "build_execute_swap_route_instruction sdk borsh a r route_accounts =
     rbind (expected_route_offset r) (\<lambda>expected_offset.
     if route_accounts_offset r \<noteq> expected_offset
     then Inl (Offset_Mismatch expected_offset (route_accounts_offset r))
     else
       rbind (swap_route_metas sdk a r) (\<lambda>metas.
       rbind (encode_execute_swap_route_data borsh r) (\<lambda>data.
       Inr \<lparr>program_id = wrapper_program_id, ix_accounts = metas @ route_accounts,
            ix_bytes = data\<rparr>)))"

definition encode_execute_pump_bonding_v2_data ::
  "(execute_pump_bonding_v2_request \<Rightarrow> bytes option) \<Rightarrow> execute_pump_bonding_v2_request
     \<Rightarrow> wrapper_error + bytes" where
  "encode_execute_pump_bonding_v2_data borsh r =
     (if pb_version r \<noteq> abi_version then Inl (Version_Mismatch (pb_version r))
      else if max_fee_bps < pb_fee_bps r then Inl (Fee_Exceeds_Cap (pb_fee_bps r))
      else rbind (ok_or (borsh r) Serialize_Failed) (\<lambda>body.
             Inr (execute_pump_bonding_v2_discriminator # body)))"

definition build_execute_pump_bonding_v2_instruction ::
  "(execute_pump_bonding_v2_request \<Rightarrow> bytes option) \<Rightarrow> execute_pump_bonding_v2_accounts
     \<Rightarrow> execute_pump_bonding_v2_request \<Rightarrow> account_meta list \<Rightarrow> wrapper_error + instruction" where
  "build_execute_pump_bonding_v2_instruction borsh a r pump_accounts =
     (let metas = pump_metas a @ pump_accounts
      in rbind (encode_execute_pump_bonding_v2_data borsh r) (\<lambda>data.
           Inr \<lparr>program_id = wrapper_program_id, ix_accounts = metas, ix_bytes = data\<rparr>))"

section \<open>Properties\<close>

text \<open>
  C40: the account prefix the client writes and the offset the request announces agree: the
  i-th route account of a built instruction is at index \<open>route_accounts_offset + i\<close>, the
  fee is within the hard cap, and of the prefix only the user signs.
\<close>

theorem swap_route_offset_addresses_route_accounts:
  assumes "build_execute_swap_route_instruction sdk borsh a r route_accounts = Inr ix"
  shows "drop (unat (route_accounts_offset r)) (ix_accounts ix) = route_accounts
    \<and> map meta_pubkey (filter is_signer (take (unat (route_accounts_offset r)) (ix_accounts ix)))
        = [ea_user (sa_execute a)]
    \<and> rq_fee_bps r \<le> 20 \<and> rq_version r = 3 \<and> hd (ix_bytes ix) = 8"
proof -
  obtain metas data where ix: "ix_accounts ix = metas @ route_accounts" "ix_bytes ix = data"
    and metas: "swap_route_metas sdk a r = Inr metas"
    and data: "encode_execute_swap_route_data borsh r = Inr data"
    and off: "expected_route_offset r = Inr (route_accounts_offset r)"
    using assms by (auto simp: build_execute_swap_route_instruction_def split: if_splits)
  have len: "length metas = unat (route_accounts_offset r)"
    and sign: "map meta_pubkey (filter is_signer metas) = [ea_user (sa_execute a)]"
    using metas off
    by (auto simp: swap_route_metas_def expected_route_offset_def Let_def execute_metas_def
        execute_swap_route_fixed_account_count_def execute_swap_route_wsol_account_count_def
        execute_swap_route_token_fee_account_count_def checked_add_def ok_or_Inr_iff
        meta_new_def meta_new_readonly_def split: if_splits)
  show ?thesis
    using data ix len sign
    by (auto simp: encode_execute_swap_route_data_def max_fee_bps_def abi_version_def
        execute_swap_route_discriminator_def not_less dest: sym split: if_splits)
qed

text \<open>
  A Pump bonding call is only built within the fee cap and for the current ABI version;
  its accounts are the six fixed ones, of which only the user signs, then the pump accounts.
\<close>

theorem pump_bonding_v2_instruction_guarded:
  assumes "build_execute_pump_bonding_v2_instruction borsh a r pump_accounts = Inr ix"
  shows "drop (unat execute_pump_bonding_v2_fixed_account_count) (ix_accounts ix) = pump_accounts
    \<and> filter is_signer (take (unat execute_pump_bonding_v2_fixed_account_count) (ix_accounts ix))
        = [meta_new (pa_user a) True]
    \<and> pb_fee_bps r \<le> 20 \<and> pb_version r = 3 \<and> (\<exists>body. borsh r = Some body \<and> ix_bytes ix = 9 # body)"
  using assms
  by (auto simp: build_execute_pump_bonding_v2_instruction_def pump_metas_def Let_def
      encode_execute_pump_bonding_v2_data_def max_fee_bps_def abi_version_def ok_or_Inr_iff
      execute_pump_bonding_v2_discriminator_def execute_pump_bonding_v2_fixed_account_count_def
      meta_new_def meta_new_readonly_def not_less split: if_splits)

section \<open>Samples\<close>

text \<open>
  Borsh as its format is documented: integers little endian, an enum as its one-byte
  discriminant, a vector as its 32-bit length and its elements.
\<close>

definition borsh_vec :: "bytes list \<Rightarrow> bytes" where
  "borsh_vec items = u32_to_le_bytes (of_nat (length items)) @ concat items"

definition mode_byte :: "swap_route_mode \<Rightarrow> u8" where
  "mode_byte m = (case m of Mode_Sol_In \<Rightarrow> 0 | Mode_Sol_Out \<Rightarrow> 1 | Mode_Token_Only \<Rightarrow> 2 | Mode_Mixed \<Rightarrow> 3)"

definition fee_mode_byte :: "swap_route_fee_mode \<Rightarrow> u8" where
  "fee_mode_byte m = (case m of Sol_Pre \<Rightarrow> 0 | Native_Sol_Post \<Rightarrow> 1 | Wsol_Post \<Rightarrow> 2 | Token_Pre \<Rightarrow> 3
                        | Token_Post \<Rightarrow> 4)"

definition borsh_leg :: "swap_route_leg \<Rightarrow> bytes" where
  "borsh_leg l =
     u16_to_le_bytes (program_account_index l) @ u16_to_le_bytes (accounts_start l)
       @ u16_to_le_bytes (accounts_len l)
       @ [case input_source l of Fixed \<Rightarrow> 0 | Gross_Sol_Net_Of_Fee \<Rightarrow> 1 | Previous_Token_Delta \<Rightarrow> 2
          | Gross_Token_Net_Of_Fee \<Rightarrow> 3]
       @ u64_to_le_bytes (input_amount l) @ u16_to_le_bytes (input_patch_offset l)
       @ u16_to_le_bytes (output_account_index l) @ borsh_vec (map (\<lambda>b. [b]) (leg_ix_data l))"

definition borsh_swap_route :: "execute_swap_route_request \<Rightarrow> bytes option" where
  "borsh_swap_route r = Some
     ([rq_version r, mode_byte (rq_route_mode r),
       (case rq_direction r of Direction_Buy \<Rightarrow> 0 | Direction_Sell \<Rightarrow> 1),
       (case rq_settlement r of Settlement_Token \<Rightarrow> 0 | Settlement_Native_Sol \<Rightarrow> 1 | Settlement_Wsol \<Rightarrow> 2),
       fee_mode_byte (rq_fee_mode r), wsol_lane r]
      @ u16_to_le_bytes (rq_fee_bps r) @ u64_to_le_bytes (rq_gross_sol_in_lamports r)
      @ u64_to_le_bytes (rq_gross_token_in_amount r) @ u64_to_le_bytes (rq_min_net_output r)
      @ u16_to_le_bytes (route_accounts_offset r) @ u16_to_le_bytes (intermediate_account_index r)
      @ u16_to_le_bytes (token_fee_account_index r) @ borsh_vec (map borsh_leg (legs r)))"

definition borsh_pump :: "execute_pump_bonding_v2_request \<Rightarrow> bytes option" where
  "borsh_pump r = Some
     ([pb_version r, (case pb_side r of Pump_Buy \<Rightarrow> 0 | Pump_Sell \<Rightarrow> 1),
       (case quote_fee_mode r of Pump_Quote_Wsol \<Rightarrow> 0 | Pump_Quote_Token \<Rightarrow> 1)]
      @ u16_to_le_bytes (pb_fee_bps r) @ u64_to_le_bytes (gross_quote_in_amount r)
      @ u64_to_le_bytes (min_base_out_amount r) @ u64_to_le_bytes (base_amount_in r)
      @ u64_to_le_bytes (gross_min_quote_out_amount r) @ u64_to_le_bytes (net_min_quote_out_amount r))"

definition sample_wrapper_sdk :: solana_sdk where
  "sample_wrapper_sdk =
     \<lparr>pubkey_from_str = (\<lambda>s. Some (byte_string s)),
      find_program_address = (\<lambda>seeds program. (concat seeds, 255)),
      system_program_id = [0], rent_sysvar_id = [1], instructions_sysvar_id = [2]\<rparr>"

definition sample_request :: execute_swap_route_request where
  "sample_request =
     \<lparr>rq_version = 3, rq_route_mode = Mode_Sol_Out, rq_direction = Direction_Sell,
      rq_settlement = Settlement_Wsol, rq_fee_mode = Wsol_Post, wsol_lane = 2, rq_fee_bps = 20,
      rq_gross_sol_in_lamports = 0, rq_gross_token_in_amount = 7, rq_min_net_output = 5,
      route_accounts_offset = 11, intermediate_account_index = 0, token_fee_account_index = 0,
      legs = []\<rparr>"

definition sample_accounts :: execute_swap_route_accounts where
  "sample_accounts =
     \<lparr>sa_execute = \<lparr>ea_user = [10], ea_config_pda = [11], ea_fee_vault = [12],
                    ea_fee_vault_wsol_ata = [13], ea_user_wsol_ata = [14],
                    ea_instructions_sysvar = [2], ea_inner_program = [15],
                    ea_token_program = token_program_id\<rparr>,
      token_fee_vault_ata = None\<rparr>"

theorem swap_route_offset_addresses_route_accounts_witness:
  "\<exists>ix. build_execute_swap_route_instruction sample_wrapper_sdk borsh_swap_route sample_accounts
          sample_request [meta_new [42] False] = Inr ix
     \<and> ix_accounts ix ! 11 = meta_new [42] False"
proof -
  obtain ix where ix: "build_execute_swap_route_instruction sample_wrapper_sdk borsh_swap_route
      sample_accounts sample_request [meta_new [42] False] = Inr ix"
    by (simp add: build_execute_swap_route_instruction_def sample_request_def sample_accounts_def
        expected_route_offset_def swap_route_uses_wsol_def swap_route_uses_token_fee_def
        swap_route_metas_def encode_execute_swap_route_data_def abi_version_def max_fee_bps_def
        execute_swap_route_fixed_account_count_def execute_swap_route_wsol_account_count_def
        checked_add_def ok_or_def route_wsol_lane_count_def borsh_swap_route_def Let_def)
  have "drop 11 (ix_accounts ix) = [meta_new [42] False]"
    using swap_route_offset_addresses_route_accounts [OF ix] by (simp add: sample_request_def)
  then have "ix_accounts ix ! 11 = meta_new [42] False"
    by (metis hd_drop_conv_nth drop_eq_Nil2 leI list.sel(1) list.distinct(1))
  with ix show ?thesis by blast
qed

theorem pump_bonding_v2_instruction_guarded_witness:
  "\<exists>ix. build_execute_pump_bonding_v2_instruction borsh_pump
          \<lparr>pa_user = [10], pa_config_pda = [11], pa_fee_vault = [12], pa_fee_vault_quote_ata = [13],
           pa_instructions_sysvar = [2], pa_pump_program = [15]\<rparr>
          \<lparr>pb_version = 3, pb_side = Pump_Buy, quote_fee_mode = Pump_Quote_Wsol, pb_fee_bps = 20,
           gross_quote_in_amount = 9, min_base_out_amount = 1, base_amount_in = 0,
           gross_min_quote_out_amount = 0, net_min_quote_out_amount = 0\<rparr> [] = Inr ix
     \<and> hd (ix_bytes ix) = 9"
proof -
  obtain ix where ix: "build_execute_pump_bonding_v2_instruction borsh_pump
          \<lparr>pa_user = [10], pa_config_pda = [11], pa_fee_vault = [12], pa_fee_vault_quote_ata = [13],
           pa_instructions_sysvar = [2], pa_pump_program = [15]\<rparr>
          \<lparr>pb_version = 3, pb_side = Pump_Buy, quote_fee_mode = Pump_Quote_Wsol, pb_fee_bps = 20,
           gross_quote_in_amount = 9, min_base_out_amount = 1, base_amount_in = 0,
           gross_min_quote_out_amount = 0, net_min_quote_out_amount = 0\<rparr> [] = Inr ix"
    by (simp add: build_execute_pump_bonding_v2_instruction_def Let_def ok_or_def borsh_pump_def
        encode_execute_pump_bonding_v2_data_def abi_version_def max_fee_bps_def)
  show ?thesis
    using pump_bonding_v2_instruction_guarded [OF ix] ix by auto
qed

end
