(* ===== verification/Sol_Amounts.thy ===== *)
theory Sol_Amounts
  imports Trench_Prelude
begin

text \<open>
  SOL amounts as decimal text (\<^verbatim>\<open>execution-engine/src/wrapper_payload.rs\<close>; the formatter of
  \<^verbatim>\<open>sell_target_sizing.rs\<close> is the same function) and the wrapper fee tiers
  (\<^verbatim>\<open>execution-engine/src/rollout.rs\<close>).
\<close>

section \<open>Parsing and printing\<close>

definition lamports_per_sol :: u64 where
  "lamports_per_sol = 1000000000"

definition lamport_decimals :: nat where
  "lamport_decimals = 9"

fun split_once :: "char \<Rightarrow> string \<Rightarrow> (string \<times> string) option" where
  "split_once d [] = None"
| "split_once d (c # cs) =
     (if c = d then Some ([], cs)
      else map_option (\<lambda>(a, b). (c # a, b)) (split_once d cs))"

definition parse_sol_amount_to_lamports :: "string \<Rightarrow> u64" where
  "parse_sol_amount_to_lamports raw =
     (let trimmed = str_trim raw
      in if trimmed = [] then 0
         else if starts_with trimmed ''-'' then 0
         else
           let (whole, frac) = unwrap_or (trimmed, []) (split_once CHR ''.'' trimmed)
           in if whole = [] \<and> frac = [] then 0
              else case (if whole = [] then Some 0
                         else Option.bind (parse_u64 whole) (\<lambda>whole_sol.
                                checked_mul whole_sol lamports_per_sol)) of
                  None \<Rightarrow> 0
                | Some whole_lamports \<Rightarrow>
                    let frac_digits = take lamport_decimals frac
                    in if \<not> list_all is_digit frac_digits then 0
                       else
                         let frac_digits = frac_digits
                               @ replicate (lamport_decimals - length frac_digits) CHR ''0''
                         in case (if frac_digits = [] then Some 0 else parse_u64 frac_digits) of
                             None \<Rightarrow> 0
                           | Some frac_lamports \<Rightarrow>
                               unwrap_or 0 (checked_add whole_lamports frac_lamports))"

definition trim_trailing_zeros :: "string \<Rightarrow> string" where
  "trim_trailing_zeros s = rev (dropWhile (\<lambda>c. c = CHR ''0'') (rev s))"

definition format_lamports_as_sol :: "u64 \<Rightarrow> string" where
  "format_lamports_as_sol lamports =
     (let whole = lamports div 1000000000;
          frac = lamports mod 1000000000
      in if frac = 0 then show_nat (unat whole)
         else show_nat (unat whole) @ ''.''
                @ trim_trailing_zeros (pad_left 9 (show_nat (unat frac))))"

section \<open>Fee tiers\<close>

text \<open>\<^verbatim>\<open>rollout::clamp_fee_bps\<close>: the tiers 0, 10 and 20 basis points.\<close>

definition clamp_fee_tier :: "u16 \<Rightarrow> u16" where
  "clamp_fee_tier raw = (if raw = 0 then 0 else if raw \<le> 10 then 10 else 20)"

definition default_wrapper_fee_bps :: u16 where
  "default_wrapper_fee_bps = 10"

definition parse_u16 :: "string \<Rightarrow> u16 option" where
  "parse_u16 s =
     (let ds = unsigned_digits s
      in if ds = [] \<or> \<not> list_all is_digit ds then None
         else if digits_value ds < 2 ^ 16 then Some (of_nat (digits_value ds)) else None)"

text \<open>\<open>value\<close> is the environment variable, \<^term>\<open>None\<close> when it is not set.\<close>

definition parse_trench_tool_fee_env :: "string option \<Rightarrow> u16 option" where
  "parse_trench_tool_fee_env value =
     Option.bind value (\<lambda>v.
       let trimmed = str_trim v
       in if trimmed = [] then None
          else if trimmed \<in> {''0'', ''0.0'', ''0.00''} then Some 0
          else if trimmed \<in> {''0.1'', ''0.10''} then Some 10
          else if trimmed \<in> {''0.2'', ''0.20''} then Some 20
          else parse_u16 trimmed)"

definition parse_legacy_wrapper_fee_env :: "string option \<Rightarrow> u16 option" where
  "parse_legacy_wrapper_fee_env value =
     Option.bind value (\<lambda>v.
       let trimmed = str_trim v in if trimmed = [] then None else parse_u16 trimmed)"

text \<open>
  \<open>override\<close> is the runtime policy, \<open>tool_fee\<close> and \<open>legacy\<close> the two environment variables.
\<close>

definition wrapper_default_fee_bps ::
  "u16 option \<Rightarrow> string option \<Rightarrow> string option \<Rightarrow> u16" where
  "wrapper_default_fee_bps override tool_fee legacy =
     (case override of
        Some value \<Rightarrow> clamp_fee_tier value
      | None \<Rightarrow>
          clamp_fee_tier
            (case parse_trench_tool_fee_env tool_fee of
               Some v \<Rightarrow> v
             | None \<Rightarrow> unwrap_or default_wrapper_fee_bps (parse_legacy_wrapper_fee_env legacy)))"

lemma clamp_fee_tier_cases: "clamp_fee_tier raw \<in> {0, 10, 20}"
  by (simp add: clamp_fee_tier_def)

lemma wrapper_default_fee_bps_tier: "wrapper_default_fee_bps ov tool legacy \<in> {0, 10, 20}"
  using clamp_fee_tier_cases
  by (auto simp: wrapper_default_fee_bps_def split: option.split)

section \<open>The round trip\<close>

lemma digit_not: "is_digit c \<Longrightarrow> c \<noteq> CHR ''.'' \<and> c \<noteq> CHR ''-'' \<and> c \<noteq> CHR ''+'' \<and> \<not> is_ws c"
  by (auto simp: is_digit_def is_ws_def)

lemma split_once_none: "d \<notin> set s \<Longrightarrow> split_once d s = None"
  by (induction s) auto

lemma split_once_at: "d \<notin> set a \<Longrightarrow> split_once d (a @ d # b) = Some (a, b)"
  by (induction a) auto

lemma digits_no: "list_all is_digit s \<Longrightarrow> CHR ''.'' \<notin> set s"
  using digit_not by (auto simp: list_all_iff)

lemma trim_zeros_split:
  "\<exists>k. s = trim_trailing_zeros s @ replicate k CHR ''0''"
proof (induction s rule: rev_induct)
  case (snoc c t)
  show ?case
  proof (cases "c = CHR ''0''")
    case True
    obtain k where "t = trim_trailing_zeros t @ replicate k CHR ''0''" using snoc by blast
    then have "t @ [c] = trim_trailing_zeros t @ replicate (Suc k) CHR ''0''"
      using True by (metis append.assoc replicate_append_same replicate_Suc)
    moreover have "trim_trailing_zeros (t @ [c]) = trim_trailing_zeros t"
      using True by (simp add: trim_trailing_zeros_def)
    ultimately show ?thesis by metis
  next
    case False
    then show ?thesis by (intro exI [of _ 0]) (simp add: trim_trailing_zeros_def)
  qed
qed (simp add: trim_trailing_zeros_def)

lemma unat_div_mod_sol:
  "unat (l div 1000000000 :: u64) = unat l div 1000000000"
  "unat (l mod 1000000000 :: u64) = unat l mod 1000000000"
  by (simp_all add: unat_div unat_mod)

lemma trimmed_zeros_digits: "list_all is_digit s \<Longrightarrow> list_all is_digit (trim_trailing_zeros s)"
  using trim_zeros_split [of s] by (metis list_all_append)

lemma trimmed_zeros_pad:
  assumes "length s = 9"
  shows "trim_trailing_zeros s @ replicate (9 - length (trim_trailing_zeros s)) CHR ''0'' = s"
    and "length (trim_trailing_zeros s) \<le> 9"
proof -
  obtain k where k: "s = trim_trailing_zeros s @ replicate k CHR ''0''"
    using trim_zeros_split by blast
  then have "length s = length (trim_trailing_zeros s) + k"
    by (metis length_append length_replicate)
  then have "k = 9 - length (trim_trailing_zeros s)" "length (trim_trailing_zeros s) \<le> 9"
    using assms by auto
  with k show "trim_trailing_zeros s @ replicate (9 - length (trim_trailing_zeros s)) CHR ''0'' = s"
    "length (trim_trailing_zeros s) \<le> 9" by simp_all
qed

lemma digits_trim: "s \<noteq> [] \<Longrightarrow> \<not> is_ws (hd s) \<Longrightarrow> \<not> is_ws (last s) \<Longrightarrow> str_trim s = s"
  by (intro str_trim_fixed) simp

lemma parse_u64_digits:
  "list_all is_digit s \<Longrightarrow> s \<noteq> [] \<Longrightarrow> digits_value s < 2 ^ 64
   \<Longrightarrow> parse_u64 s = Some (of_nat (digits_value s))"
proof -
  assume s: "list_all is_digit s" "s \<noteq> []" "digits_value s < 2 ^ 64"
  then have "unsigned_digits s = s"
    by (cases s) (auto simp: unsigned_digits_def is_digit_def)
  with s show ?thesis by (simp add: parse_u64_def Let_def)
qed

lemma show_nat_ends: "is_digit (hd (show_nat n))" "is_digit (last (show_nat n))"
  using show_nat_digits [of n] show_nat_nonempty [of n] by (auto simp: list_all_iff simp del: show_nat_digits)

lemma whole_lamports:
  assumes "unat w * 1000000000 < 2 ^ 64"
  shows "Option.bind (parse_u64 (show_nat (unat (w :: u64)))) (\<lambda>s. checked_mul s lamports_per_sol)
         = Some (w * lamports_per_sol)"
  using assms by (simp add: parse_u64_show checked_mul_def lamports_per_sol_def)

lemma parse_sol_parts:
  assumes "str_trim s = s" "s \<noteq> []" "\<not> starts_with s ''-''"
    and "unwrap_or (s, []) (split_once CHR ''.'' s) = (W, F)" "W \<noteq> []"
    and "Option.bind (parse_u64 W) (\<lambda>x. checked_mul x lamports_per_sol) = Some wl"
    and "list_all is_digit (take 9 F)"
    and "parse_u64 (take 9 F @ replicate (9 - length (take 9 F)) CHR ''0'') = Some fl"
    and "checked_add wl fl = Some l"
  shows "parse_sol_amount_to_lamports s = l"
proof -
  have "take 9 F @ replicate (9 - length (take 9 F)) CHR ''0'' \<noteq> []"
    by (cases F) simp_all
  then show ?thesis
    unfolding parse_sol_amount_to_lamports_def Let_def assms(1) lamport_decimals_def assms(4) prod.case
    using assms(2,3,5-9) by (simp only: simp_thms if_False if_True option.case unwrap_or_def)
qed

lemma whole_lamports_bound: "unat (l div 1000000000) * 1000000000 < 2 ^ 64" for l :: "64 word"
  using le_less_trans [OF div_times_less_eq_dividend [of "unat l" 1000000000], of "2 ^ 64"]
    unat_less_u64 [of l]
  by (simp add: unat_div_mod_sol)

lemma shown_not_negative: "\<not> starts_with (show_nat n @ r) ''-''"
  using show_nat_ends(1) [of n] digit_not by (cases "show_nat n") (auto simp: starts_with_def)

lemma whole_sol_parsed:
  assumes "l mod 1000000000 = 0"
  shows "parse_sol_amount_to_lamports (show_nat (unat (l div 1000000000))) = l"
proof -
  let ?w = "l div 1000000000"
  let ?W = "show_nat (unat ?w)"
  have trim: "str_trim ?W = ?W"
    using show_nat_ends digit_not by (intro digits_trim) auto
  have split: "split_once CHR ''.'' ?W = None"
    by (intro split_once_none digits_no) simp
  have "l = ?w * lamports_per_sol"
    using assms by (metis add.right_neutral div_mult_mod_eq lamports_per_sol_def)
  then have "checked_add (?w * lamports_per_sol) 0 = Some l"
    by (simp add: checked_add_def)
  moreover have "parse_u64 (replicate 9 CHR ''0'') = Some 0"
    by (subst parse_u64_digits [OF zeros_digits]) (simp_all only: digits_value_replicate0, simp_all)
  ultimately show ?thesis
    using trim split shown_not_negative [of "unat ?w" "[]"] whole_lamports [OF whole_lamports_bound [of l]]
    by (intro parse_sol_parts [where F = "[]"]) (simp_all add: unwrap_or_def)
qed

lemma lamports_split_checked:
  "checked_add (l div 1000000000 * lamports_per_sol) (l mod 1000000000) = Some l"
proof -
  let ?w = "l div 1000000000" and ?f = "l mod 1000000000"
  have "checked_mul ?w lamports_per_sol = Some (?w * lamports_per_sol)"
    using whole_lamports_bound [of l] by (simp add: checked_mul_def lamports_per_sol_def)
  then have "unat (?w * lamports_per_sol) = unat ?w * unat lamports_per_sol"
    by (rule checked_mul_Some)
  then have "unat (?w * lamports_per_sol) + unat ?f
             = unat l div 1000000000 * 1000000000 + unat l mod 1000000000"
    by (simp only: unat_div_mod_sol lamports_per_sol_def) simp
  also have "\<dots> = unat l" by (rule div_mult_mod_eq)
  finally have "unat (?w * lamports_per_sol) + unat ?f = unat l" .
  moreover have "l = ?w * lamports_per_sol + ?f"
    by (simp only: lamports_per_sol_def div_mult_mod_eq)
  ultimately show ?thesis
    using unat_less_u64 [of l] by (simp add: checked_add_def)
qed

lemma trimmed_fraction_nonempty:
  assumes pad: "trim_trailing_zeros P @ replicate (9 - length (trim_trailing_zeros P)) CHR ''0'' = P"
    and P: "P = pad_left 9 (show_nat n)" and "n \<noteq> 0"
  shows "trim_trailing_zeros P \<noteq> []"
proof
  assume "trim_trailing_zeros P = []"
  then have "P = replicate 9 CHR ''0''" using pad by simp
  then have "digits_value (pad_left 9 (show_nat n)) = 0" using P by (metis digits_value_replicate0)
  then show False using \<open>n \<noteq> 0\<close> by (metis pad_left_value)
qed

lemma fractional_sol_parsed:
  assumes "l mod 1000000000 \<noteq> 0"
  shows "parse_sol_amount_to_lamports (show_nat (unat (l div 1000000000)) @ ''.''
           @ trim_trailing_zeros (pad_left 9 (show_nat (unat (l mod 1000000000))))) = l"
proof -
  let ?w = "l div 1000000000" and ?f = "l mod 1000000000"
  let ?W = "show_nat (unat ?w)"
  let ?P = "pad_left 9 (show_nat (unat ?f))"
  let ?T = "trim_trailing_zeros ?P"
  have f: "unat ?f < 10 ^ 9" by (simp add: unat_div_mod_sol)
  have P: "length ?P = 9" using f by (intro pad_left_length) simp_all
  have pad: "?T @ replicate (9 - length ?T) CHR ''0'' = ?P" and len: "length ?T \<le> 9"
    using trimmed_zeros_pad [OF P] by blast+
  have T: "list_all is_digit ?T" by (intro trimmed_zeros_digits pad_left_digits)
  have ne: "?T \<noteq> []"
    using trimmed_fraction_nonempty [OF pad refl] assms by (simp add: unat_zero_iff)
  have lastT: "is_digit (last ?T)" using T ne by (auto simp: list_all_iff)
  have trim: "str_trim (?W @ ''.'' @ ?T) = ?W @ ''.'' @ ?T"
    using show_nat_ends(1) [of "unat ?w"] lastT ne digit_not
    by (intro digits_trim) auto
  have split: "split_once CHR ''.'' (?W @ ''.'' @ ?T) = Some (?W, ?T)"
    using split_once_at [OF digits_no [OF show_nat_digits]] by simp
  have parse: "parse_u64 ?P = Some ?f"
    using f by (subst parse_u64_digits) simp_all
  show ?thesis
  proof (rule parse_sol_parts [OF trim _ shown_not_negative _ _ whole_lamports [OF whole_lamports_bound]
        _ _ lamports_split_checked])
    show "unwrap_or (?W @ ''.'' @ ?T, []) (split_once CHR ''.'' (?W @ ''.'' @ ?T)) = (?W, ?T)"
      unfolding split by (simp add: unwrap_or_def)
    show "list_all is_digit (take 9 ?T)" using T len by simp
    show "parse_u64 (take 9 ?T @ replicate (9 - length (take 9 ?T)) CHR ''0'') = Some ?f"
      unfolding take_all [OF len] pad by (rule parse)
  qed simp_all
qed

text \<open>
  Every lamport amount survives being printed as SOL text and parsed back, with no
  rounding at any number of decimals.
\<close>

theorem sol_amount_roundtrip: "parse_sol_amount_to_lamports (format_lamports_as_sol l) = l"
  by (cases "l mod 1000000000 = 0")
    (simp_all add: format_lamports_as_sol_def whole_sol_parsed fractional_sol_parsed
      del: append.simps append_Cons)

end
