(* ===== verification/Wrapper_Payload.thy ===== *)
theory Wrapper_Payload
  imports Trade_Planner Wrapper_Abi Sol_Amounts
begin

text \<open>
  From a runtime trade request to the wrapper's route and fee metadata
  (\<^verbatim>\<open>execution-engine/src/wrapper_payload.rs\<close>): which trades touch SOL, the gross input and the
  minimum output in lamports, and the fee estimate.
\<close>

datatype wrapper_route_classification = No_Sol | Sol_In | Sol_Out

definition to_abi :: "wrapper_route_classification \<Rightarrow> wrapper_route_kind option" where
  "to_abi c = (case c of No_Sol \<Rightarrow> None | Sol_In \<Rightarrow> Some Route_Sol_In | Sol_Out \<Rightarrow> Some Route_Sol_Out)"

definition classification_label :: "wrapper_route_classification \<Rightarrow> string" where
  "classification_label c =
     (case c of No_Sol \<Rightarrow> ''no-sol'' | Sol_In \<Rightarrow> ''sol-in'' | Sol_Out \<Rightarrow> ''sol-out'')"

definition touches_sol :: "wrapper_route_classification \<Rightarrow> bool" where
  "touches_sol c \<longleftrightarrow> c \<noteq> No_Sol"

definition classify_trade_route ::
  "lifecycle_and_canonical_market \<Rightarrow> 'plan trade_runtime_request \<Rightarrow> wrapper_route_classification" where
  "classify_trade_route selector request =
     (let quote_touches_sol = (quote_asset selector = Quote_Sol \<or> quote_asset selector = Quote_Wsol);
          pump_composed_usdc_route =
            ((family selector = PumpBondingCurve \<or> family selector = PumpAmm)
             \<and> quote_asset selector = Quote_Usdc);
          trusted_stable = (family selector = TrustedStableSwap)
      in case request_side request of
           Buy \<Rightarrow>
             if quote_touches_sol \<or> pump_composed_usdc_route then Sol_In
             else if \<not> trusted_stable
                     \<and> (funding_policy (policy request) = SolOnly
                        \<or> funding_policy (policy request) = PreferUsd1ElseTopUp)
             then Sol_In else No_Sol
         | Sell \<Rightarrow>
             if quote_touches_sol \<or> pump_composed_usdc_route then Sol_Out
             else if \<not> trusted_stable
                     \<and> (settlement_policy (policy request) = AlwaysToSol
                        \<or> settlement_policy (policy request) = MatchStoredEntryPreference)
             then Sol_Out else No_Sol)"

definition trade_touches_sol ::
  "lifecycle_and_canonical_market \<Rightarrow> 'plan trade_runtime_request \<Rightarrow> bool" where
  "trade_touches_sol selector request = touches_sol (classify_trade_route selector request)"

record wrapper_route_metadata =
  md_version :: u8
  md_route_mode :: "swap_route_mode option"
  md_direction :: "swap_route_direction option"
  md_settlement :: "swap_route_settlement option"
  md_fee_mode :: "swap_route_fee_mode option"
  md_fee_bps :: u16
  md_gross_sol_in_lamports :: u64
  md_gross_token_in_amount :: u64
  md_min_net_output :: u64

record wrapper_instruction_payload =
  route_classification :: wrapper_route_classification
  route_metadata :: wrapper_route_metadata
  fee_lamports_estimate :: u64
  payload_gross_sol_in_lamports :: u64

definition buy_input_lamports :: "'plan trade_runtime_request \<Rightarrow> u64" where
  "buy_input_lamports request =
     unwrap_or 0 (map_option parse_sol_amount_to_lamports (buy_amount_sol request))"

definition sell_output_target_lamports :: "'plan trade_runtime_request \<Rightarrow> u64" where
  "sell_output_target_lamports request =
     (case sell_intent request of
        Some (Sell_Sol_Output value) \<Rightarrow> parse_sol_amount_to_lamports value
      | _ \<Rightarrow> 0)"

definition clamp_fee_bps :: "u16 \<Rightarrow> u16" where
  "clamp_fee_bps raw = (if max_fee_bps < raw then max_fee_bps else raw)"

definition floor_fee_lamports :: "u64 \<Rightarrow> u16 \<Rightarrow> u64" where
  "floor_fee_lamports gross fee_bps =
     (if fee_bps = 0 \<or> gross = 0 then 0
      else
        let product = unwrap_or max_word (checked_mul (ucast gross :: u128) (ucast fee_bps))
        in ucast (product div 10000))"

text \<open>\<open>default_fee\<close> is \<^verbatim>\<open>wrapper_default_fee_bps()\<close>.\<close>

definition build_wrapper_instruction_payload ::
  "u16 \<Rightarrow> lifecycle_and_canonical_market \<Rightarrow> 'plan trade_runtime_request
     \<Rightarrow> wrapper_instruction_payload" where
  "build_wrapper_instruction_payload default_fee selector request =
     (let c = classify_trade_route selector request;
          fee_bps = clamp_fee_bps default_fee;
          gross = (case c of Sol_In \<Rightarrow> buy_input_lamports request | _ \<Rightarrow> 0);
          min_net = (case c of Sol_Out \<Rightarrow> sell_output_target_lamports request | _ \<Rightarrow> 0);
          metadata =
            \<lparr>md_version = abi_version,
             md_route_mode = (case c of Sol_In \<Rightarrow> Some Mode_Sol_In | Sol_Out \<Rightarrow> Some Mode_Sol_Out
                              | No_Sol \<Rightarrow> None),
             md_direction = (case c of Sol_In \<Rightarrow> Some Direction_Buy | Sol_Out \<Rightarrow> Some Direction_Sell
                             | No_Sol \<Rightarrow> None),
             md_settlement = (case c of Sol_In \<Rightarrow> Some Settlement_Token
                              | Sol_Out \<Rightarrow> Some Settlement_Native_Sol | No_Sol \<Rightarrow> None),
             md_fee_mode = (case c of Sol_In \<Rightarrow> Some Sol_Pre | Sol_Out \<Rightarrow> Some Native_Sol_Post
                            | No_Sol \<Rightarrow> None),
             md_fee_bps = fee_bps, md_gross_sol_in_lamports = gross,
             md_gross_token_in_amount = 0, md_min_net_output = min_net\<rparr>
      in \<lparr>route_classification = c, route_metadata = metadata,
          fee_lamports_estimate = floor_fee_lamports gross fee_bps,
          payload_gross_sol_in_lamports = gross\<rparr>)"

section \<open>Properties\<close>

lemma floor_fee_value:
  assumes "unat fee_bps \<le> 10000"
  shows "unat (floor_fee_lamports gross fee_bps) = unat gross * unat fee_bps div 10000"
proof (cases "fee_bps = 0 \<or> gross = 0")
  case False
  have p: "unat gross * unat fee_bps < 2 ^ 64 * 2 ^ 16"
    using unat_less_pow [of gross] unat_less_pow [of fee_bps]
    by (intro mult_strict_mono') simp_all
  then have prod: "checked_mul (ucast gross :: u128) (ucast fee_bps)
                   = Some (ucast gross * ucast fee_bps)"
    by (simp add: checked_mul_def unat_ucast_128 unat_ucast_u16)
  then have "unat ((ucast gross :: u128) * ucast fee_bps) = unat gross * unat fee_bps"
    using checked_mul_Some [OF prod] by (simp add: unat_ucast_128 unat_ucast_u16)
  then have q: "unat ((ucast gross :: u128) * ucast fee_bps div 10000) = unat gross * unat fee_bps div 10000"
    by (simp add: unat_div)
  have "unat gross * unat fee_bps div 10000 \<le> unat gross * 10000 div 10000"
    using assms by (intro div_le_mono mult_le_mono2)
  then have small: "unat gross * unat fee_bps div 10000 < 2 ^ 64"
    using le_less_trans [OF _ unat_less_u64 [of gross]] by simp
  show ?thesis
    using False prod small
    by (simp add: floor_fee_lamports_def Let_def unwrap_or_def unsigned_ucast_eq q
        take_bit_nat_eq_self_iff)
qed (auto simp: floor_fee_lamports_def)

text \<open>
  The fee the client announces is never more than 0.2 percent of what the user spends,
  rounded down, whatever fee the environment configures.
\<close>

theorem wrapper_fee_estimate_bounded:
  "unat (fee_lamports_estimate (build_wrapper_instruction_payload default_fee selector request))
     = unat (payload_gross_sol_in_lamports (build_wrapper_instruction_payload default_fee selector request))
       * min (unat default_fee) 20 div 10000"
proof -
  have "unat (clamp_fee_bps default_fee) = min (unat default_fee) 20"
    by (simp add: clamp_fee_bps_def max_fee_bps_def word_less_nat_alt min_def)
  then show ?thesis
    by (simp add: build_wrapper_instruction_payload_def Let_def floor_fee_value)
qed

lemma classify_side:
  "classify_trade_route selector request = Sol_In \<Longrightarrow> request_side request = Buy"
  "classify_trade_route selector request = Sol_Out \<Longrightarrow> request_side request = Sell"
  "classify_trade_route selector request = No_Sol \<Longrightarrow> quote_asset selector \<notin> {Quote_Sol, Quote_Wsol}"
  unfolding classify_trade_route_def Let_def
  by (simp_all split: trade_side.splits if_splits)

text \<open>
  The classification and the metadata agree: a route that spends SOL is a buy with the
  fee taken first, a route that receives SOL is a sell with the fee taken last, and a route
  that does not touch SOL carries no mode, no amounts and no fee.
\<close>

theorem wrapper_payload_consistent:
  "let p = build_wrapper_instruction_payload default_fee selector request; m = route_metadata p
   in case route_classification p of
        Sol_In \<Rightarrow> request_side request = Buy \<and> md_direction m = Some Direction_Buy
                  \<and> md_route_mode m = Some Mode_Sol_In \<and> md_fee_mode m = Some Sol_Pre
                  \<and> md_min_net_output m = 0
                  \<and> md_gross_sol_in_lamports m = buy_input_lamports request
      | Sol_Out \<Rightarrow> request_side request = Sell \<and> md_direction m = Some Direction_Sell
                  \<and> md_route_mode m = Some Mode_Sol_Out \<and> md_fee_mode m = Some Native_Sol_Post
                  \<and> md_gross_sol_in_lamports m = 0 \<and> fee_lamports_estimate p = 0
                  \<and> md_min_net_output m = sell_output_target_lamports request
      | No_Sol \<Rightarrow> quote_asset selector \<notin> {Quote_Sol, Quote_Wsol} \<and> md_route_mode m = None
                  \<and> md_direction m = None \<and> md_fee_mode m = None
                  \<and> md_gross_sol_in_lamports m = 0 \<and> md_min_net_output m = 0
                  \<and> fee_lamports_estimate p = 0"
  using classify_side [of selector request]
  by (cases "classify_trade_route selector request")
    (simp_all add: build_wrapper_instruction_payload_def Let_def floor_fee_lamports_def)

end
