(* ===== verification/Provider_Tips.thy ===== *)
theory Provider_Tips
  imports Trench_Prelude
begin

unbundle bit_operations_syntax

text \<open>
  The submission providers and their tip accounts
  (\<^verbatim>\<open>shared-execution-routing/src/provider_tip.rs\<close> and \<^verbatim>\<open>providers.rs\<close>): which provider
  wants a tip, how much at least, to which account, and what each provider supports.
\<close>

section \<open>Tip accounts\<close>

definition helius_sender_tip_accounts :: "string list" where
  "helius_sender_tip_accounts = [''D1Mc6j9xQWgR1o1Z7yU5nVVXFQiAYx7FG9AW1aVfwrUM'']"

definition helius_sender_alt_rejected_tip_accounts :: "string list" where
  "helius_sender_alt_rejected_tip_accounts =
     [''4ACfpUFoaSD9bfPdeu6DBt89gB6ENTeHBXCAi87NhDEE'',
      ''D2L6yPZ2FmmmTKPgzaMKdhu6EWZcTpLy1Vhx8uvZe7NZ'',
      ''9bnz4RShgq1hAnLnZbP8kbgBg1kEmcJBYQq3gQbmnSta'',
      ''5VY91ws6B2hMmBFRsXkoAAdsPHBJwRfBht4DXox3xkwn'',
      ''2nyhqdwKcJZR2vcqCyrYsaPVdAnFoJjiksCXJ7hfEYgD'',
      ''2q5pghRs6arqVjRvT5gfgWfWcHWmw1ZuCzphgd5KfWGJ'',
      ''wyvPkWjVZz1M8fHQnMMCDTQDbkManefNNhweYk5WkcF'',
      ''3KCKozbAaF75qEU33jtzozcJ29yJuaLJTy2jFdzUY8bT'',
      ''4vieeGHPYPG2MmyPRcYjdiDmmhN3ww7hsFNap8pVN3Ey'',
      ''4TQLFNWK8AovT1gFvda5jfw2oJeRMKEmw7aH6MGBJ3or'']"

definition jito_tip_accounts :: "string list" where
  "jito_tip_accounts =
     [''96gYZGLnJYVFmbjzopPSU6QiEV5fGqZNyN9nmNhvrZU5'',
      ''HFqU5x63VTqvQss8hp11i4wVV8bD44PvwucfZ2bU7gRe'',
      ''Cw8CFyM9FkoMi7K7Crf6HNQqf4uEMzpKw6QNghXLvLkY'',
      ''ADaUMid9yfUytqMBgopwjb2DTLSokTSzL1zt6iGPaS49'',
      ''DfXygSm4jCyNCybVYYK6DwvWqjKee8pbDmJGcLWNDXjh'',
      ''ADuUkR4vqLUMWXxW9gh6D6L8pMSawimctcNZ5pGwDcEt'',
      ''DttWaMuVvTiduZRnguLF7jNxTgiMBZ1hyAumKUiL2KRL'',
      ''3AVi9Tg9Uo68tJfuvoKvqKNWKkC5wPdSSdeBnizKZ6jT'']"

definition hellomoon_tip_accounts :: "string list" where
  "hellomoon_tip_accounts =
     [''moon17L6BgxXRX5uHKudAmqVF96xia9h8ygcmG2sL3F'',
      ''moon26Sek222Md7ZydcAGxoKG832DK36CkLrS3PQY4c'',
      ''moon7fwyajcVstMoBnVy7UBcTx87SBtNoGGAaH2Cb8V'',
      ''moonBtH9HvLHjLqi9ivyrMVKgFUsSfrz9BwQ9khhn1u'',
      ''moonCJg8476LNFLptX1qrK8PdRsA1HD1R6XWyu9MB93'',
      ''moonF2sz7qwAtdETnrgxNbjonnhGGjd6r4W4UC9284s'',
      ''moonKfftMiGSak3cezvhEqvkPSzwrmQxQHXuspC96yj'',
      ''moonQBUKBpkifLcTd78bfxxt4PYLwmJ5admLW6cBBs8'',
      ''moonXwpKwoVkMegt5Bc776cSW793X1irL5hHV1vJ3JA'',
      ''moonZ6u9E2fgk6eWd82621eLPHt9zuJuYECXAYjMY1C'']"

definition provider_tip_accounts :: "string \<Rightarrow> string list" where
  "provider_tip_accounts provider =
     (let p = str_trim provider
      in if p = ''helius-sender'' then helius_sender_tip_accounts
         else if p = ''hellomoon'' then hellomoon_tip_accounts
         else if p = ''jito-bundle'' then jito_tip_accounts
         else [])"

text \<open>
  The account index rotates with a counter and the clock in nanoseconds, both of which are
  arguments; \<open>next_tip_account_index\<close> also returns the counter's next value.
\<close>

definition next_tip_account_index :: "u64 \<Rightarrow> u64 \<Rightarrow> nat \<Rightarrow> nat \<times> u64" where
  "next_tip_account_index counter nanos len =
     (unat (nanos XOR word_rotl 17 counter) mod len, counter + 1)"

text \<open>\<^verbatim>\<open>pick_tip_account_for_provider\<close>; the empty text when the provider has no account.\<close>

definition pick_tip_account_for_provider :: "u64 \<Rightarrow> u64 \<Rightarrow> string \<Rightarrow> string \<times> u64" where
  "pick_tip_account_for_provider counter nanos provider =
     (let accounts = provider_tip_accounts provider
      in if accounts = [] then ([], counter)
         else
           let (index, counter) = next_tip_account_index counter nanos (length accounts)
           in (accounts ! index, counter))"

definition all_known_tip_accounts :: "string list" where
  "all_known_tip_accounts =
     helius_sender_tip_accounts @ helius_sender_alt_rejected_tip_accounts @ jito_tip_accounts
       @ hellomoon_tip_accounts"

definition provider_required_tip_lamports :: "string \<Rightarrow> u64 option" where
  "provider_required_tip_lamports provider =
     (let p = str_trim provider
      in if p = ''helius-sender'' then Some 200000
         else if p = ''jito-bundle'' then Some 1000
         else if p = ''hellomoon'' then Some 1000000
         else None)"

definition provider_min_tip_sol_label :: "string \<Rightarrow> string" where
  "provider_min_tip_sol_label provider =
     (let p = str_trim provider
      in if p = ''hellomoon'' then ''0.001''
         else if p = ''jito-bundle'' then ''0.000001''
         else ''0.0002'')"

section \<open>The provider registry\<close>

record provider_meta =
  pm_id :: string
  pm_label :: string
  pm_verified :: bool
  pm_supports_single :: bool
  pm_supports_sequential :: bool
  pm_supports_bundle :: bool
  pm_supports_endpoint_profiles :: bool

record provider_availability =
  pv_provider :: string
  pv_available :: bool
  pv_verified :: bool
  pv_support_state :: string
  pv_supports_single :: bool
  pv_supports_sequential :: bool
  pv_supports_bundle :: bool
  pv_supports_endpoint_profiles :: bool
  pv_reason :: string

definition helius_meta :: provider_meta where
  "helius_meta =
     \<lparr>pm_id = ''helius-sender'', pm_label = ''Helius Sender'', pm_verified = True,
      pm_supports_single = True, pm_supports_sequential = True, pm_supports_bundle = False,
      pm_supports_endpoint_profiles = True\<rparr>"

definition provider_registry :: "provider_meta list" where
  "provider_registry =
     [helius_meta,
      \<lparr>pm_id = ''hellomoon'', pm_label = ''Hello Moon QUIC'', pm_verified = True,
       pm_supports_single = True, pm_supports_sequential = True, pm_supports_bundle = True,
       pm_supports_endpoint_profiles = True\<rparr>,
      \<lparr>pm_id = ''jito-bundle'', pm_label = ''Jito Bundle'', pm_verified = True,
       pm_supports_single = True, pm_supports_sequential = False, pm_supports_bundle = True,
       pm_supports_endpoint_profiles = True\<rparr>,
      \<lparr>pm_id = ''standard-rpc'', pm_label = ''Standard RPC'', pm_verified = True,
       pm_supports_single = True, pm_supports_sequential = True, pm_supports_bundle = False,
       pm_supports_endpoint_profiles = False\<rparr>]"

text \<open>The \<^verbatim>\<open>BTreeMap\<close> from ids to availabilities.\<close>

definition provider_availability_registry :: "bool \<Rightarrow> bool \<Rightarrow> string \<rightharpoonup> provider_availability" where
  "provider_availability_registry solana_rpc_configured hellomoon_api_key_configured =
     map_of (map (\<lambda>p.
       let (available, reason) =
             (if pm_id p = ''helius-sender'' \<and> \<not> solana_rpc_configured
              then (True, ''Using the default Helius Sender endpoint with the localhost RPC fallback; set SOLANA_RPC_URL for a dedicated confirmation RPC.'')
              else if pm_id p = ''hellomoon'' \<and> \<not> hellomoon_api_key_configured
              then (False, ''Set HELLOMOON_API_KEY to enable Hello Moon QUIC submission.'')
              else if pm_id p = ''hellomoon'' \<and> \<not> solana_rpc_configured
              then (True, ''Hello Moon QUIC is configured, but SOLANA_RPC_URL is still recommended for confirmations; Shyft is a good pairing here.'')
              else (True, []))
       in (pm_id p,
           \<lparr>pv_provider = pm_id p, pv_available = available, pv_verified = pm_verified p,
            pv_support_state =
              (if available then (if pm_verified p then ''verified'' else ''unverified'')
               else ''unavailable''),
            pv_supports_single = pm_supports_single p,
            pv_supports_sequential = pm_supports_sequential p,
            pv_supports_bundle = pm_supports_bundle p,
            pv_supports_endpoint_profiles = pm_supports_endpoint_profiles p,
            pv_reason = reason\<rparr>)) provider_registry)"

definition get_provider_meta :: "string \<Rightarrow> provider_meta" where
  "get_provider_meta provider =
     (let normalized =
            ascii_lower (if str_trim provider = [] then ''helius-sender'' else str_trim provider)
      in case find (\<lambda>entry. pm_id entry = normalized) provider_registry of
           Some entry \<Rightarrow> entry
         | None \<Rightarrow> helius_meta)"

section \<open>Facts\<close>

lemma tip_index_in_range: "accounts \<noteq> [] \<Longrightarrow> fst (next_tip_account_index c n (length accounts)) < length accounts"
  by (simp add: next_tip_account_index_def)

lemma picked_tip_account:
  "fst (pick_tip_account_for_provider c n provider) \<in> insert [] (set (provider_tip_accounts provider))"
  using tip_index_in_range [of "provider_tip_accounts provider" c n]
  by (auto simp: pick_tip_account_for_provider_def Let_def split: prod.split)

lemma tip_accounts_nonempty: "x \<in> set (provider_tip_accounts provider) \<Longrightarrow> x \<noteq> []"
  by (auto simp: provider_tip_accounts_def Let_def helius_sender_tip_accounts_def
      hellomoon_tip_accounts_def jito_tip_accounts_def split: if_splits)

text \<open>A provider demands a tip exactly when it has accounts to receive one.\<close>

lemma required_tip_iff_accounts:
  "provider_required_tip_lamports provider \<noteq> None \<longleftrightarrow> provider_tip_accounts provider \<noteq> []"
  by (simp add: provider_required_tip_lamports_def provider_tip_accounts_def Let_def
      helius_sender_tip_accounts_def hellomoon_tip_accounts_def jito_tip_accounts_def)

lemma provider_ids_distinct: "distinct (map pm_id provider_registry)"
  by (simp add: provider_registry_def helius_meta_def)

text \<open>A provider without tip accounts never loses its tip to an unknown one.\<close>

lemma known_tip_accounts: "set (provider_tip_accounts provider) \<subseteq> set all_known_tip_accounts"
  by (auto simp: provider_tip_accounts_def all_known_tip_accounts_def Let_def)

end
