(* ===== verification/Fee_Resolution.thy ===== *)
theory Fee_Resolution
  imports Complex_Main Sol_Amounts Provider_Tips
begin

text \<open>
  Automatic fees (\<^verbatim>\<open>shared-fee-market/src/lib.rs\<close> and the resolver of \<^verbatim>\<open>runtime.rs\<close>): the
  estimates read from the fee services' JSON, and how a priority fee and a tip are fitted under
  the user's cap and over the provider's minimum. JSON values are a datatype (an object keeps
  each key once); a finite \<^verbatim>\<open>f64\<close> is the rational it denotes, and the two operations of
  floating point that round, parsing and multiplication, are the fields of \<open>f64_ops\<close>.
\<close>

section \<open>Text\<close>

fun split_on :: "char \<Rightarrow> string \<Rightarrow> string list" where
  "split_on d [] = [[]]"
| "split_on d (c # cs) =
     (if c = d then [] # split_on d cs
      else case split_on d cs of [] \<Rightarrow> [[c]] | w # ws \<Rightarrow> (c # w) # ws)"

definition parse_sol_decimal_to_lamports :: "string \<Rightarrow> u64 option" where
  "parse_sol_decimal_to_lamports value =
     (let trimmed = str_trim value
      in if trimmed = [] then Some 0
         else
           let normalized = map (\<lambda>c. if c = CHR '','' then CHR ''.'' else c) trimmed;
               parts = split_on CHR ''.'' normalized;
               whole = hd parts;
               fractional = (case tl parts of [] \<Rightarrow> [] | f # _ \<Rightarrow> f)
           in if 2 < length parts \<or> \<not> list_all is_digit whole \<or> \<not> list_all is_digit fractional
              then None
              else Option.bind (parse_u64 whole) (\<lambda>whole_value.
                let fractional_text = take 9 fractional @ replicate (9 - length fractional) CHR ''0''
                in Option.bind (if fractional_text = [] then Some 0 else parse_u64 fractional_text)
                     (\<lambda>fractional_value.
                   Option.bind (checked_mul whole_value 1000000000) (\<lambda>base.
                     checked_add base fractional_value))))"

text \<open>The same text as \<^const>\<open>format_lamports_as_sol\<close> writes.\<close>

definition format_lamports_to_sol_decimal :: "u64 \<Rightarrow> string" where
  "format_lamports_to_sol_decimal value =
     (let whole = value div 1000000000;
          fractional = value mod 1000000000
      in if fractional = 0 then show_nat (unat whole)
         else show_nat (unat whole) @ ''.''
                @ trim_trailing_zeros (pad_left 9 (show_nat (unat fractional))))"

definition normalize_helius_priority_level :: "string \<Rightarrow> string" where
  "normalize_helius_priority_level value =
     (let t = ascii_lower (str_trim value)
      in if t = ''none'' then ''Default''
         else if t = ''low'' then ''Low''
         else if t = ''medium'' then ''Medium''
         else if t = ''high'' then ''High''
         else if t \<in> {''veryhigh'', ''very_high'', ''very-high''} then ''VeryHigh''
         else if t \<in> {''unsafemax'', ''unsafe_max'', ''unsafe-max''} then ''UnsafeMax''
         else if t = ''recommended'' then ''recommended''
         else ''VeryHigh'')"

definition normalize_jito_tip_percentile :: "string \<Rightarrow> string" where
  "normalize_jito_tip_percentile value =
     (let t = ascii_lower (str_trim value)
      in if t \<in> {''p25'', ''25'', ''25th''} then ''p25''
         else if t \<in> {''p50'', ''50'', ''50th'', ''median''} then ''p50''
         else if t \<in> {''p75'', ''75'', ''75th''} then ''p75''
         else if t \<in> {''p95'', ''95'', ''95th''} then ''p95''
         else ''p99'')"

section \<open>Estimates in JSON\<close>

datatype f64 = F64_Finite rat | F64_Infinite bool | F64_NaN

record f64_ops =
  f64_from_str :: "string \<Rightarrow> f64 option"
  f64_mul :: "rat \<Rightarrow> rat \<Rightarrow> rat"

text \<open>\<^verbatim>\<open>f64::round\<close> (half away from zero) of a positive number, then the saturating \<^verbatim>\<open>as u64\<close>.\<close>

definition f64_round_to_nat :: "rat \<Rightarrow> nat" where
  "f64_round_to_nat x = nat \<lfloor>x + 1 / 2\<rfloor>"

definition nat_to_u64_sat :: "nat \<Rightarrow> u64" where
  "nat_to_u64_sat n = (if n < 2 ^ 64 then of_nat n else max_word)"

datatype json =
    JNull
  | JBool bool
  | JNumber rat
  | JString string
  | JArray "json list"
  | JObject "(string \<times> json) list"

fun json_get :: "json \<Rightarrow> string \<Rightarrow> json option" where
  "json_get (JObject members) k = map_of members k"
| "json_get _ k = None"

definition normalize_estimate_to_lamports :: "f64_ops \<Rightarrow> json option \<Rightarrow> u64 option" where
  "normalize_estimate_to_lamports ops value =
     Option.bind
       (case value of
          Some (JNumber raw) \<Rightarrow> Some (F64_Finite raw)
        | Some (JString raw) \<Rightarrow> f64_from_str ops (str_trim raw)
        | _ \<Rightarrow> None)
       (\<lambda>numeric. case numeric of
          F64_Finite x \<Rightarrow>
            if x \<le> 0 then None
            else
              let lamports =
                    (if x < 1 then f64_round_to_nat (f64_mul ops x 1000000000) else f64_round_to_nat x)
              in if lamports = 0 then None else Some (nat_to_u64_sat lamports)
        | _ \<Rightarrow> None)"

definition first_of :: "json \<Rightarrow> string list \<Rightarrow> json option" where
  "first_of v keys = foldr (\<lambda>k rest. or_else (json_get v k) rest) keys None"

definition jito_tip_percentile_value :: "json \<Rightarrow> string \<Rightarrow> json option" where
  "jito_tip_percentile_value sample percentile =
     (if percentile = ''p25'' then
        first_of sample [''p25'', ''percentile25'', ''tipFloor25'', ''landed_tips_25th_percentile'']
      else if percentile = ''p50'' then
        first_of sample [''p50'', ''percentile50'', ''tipFloor50'', ''landed_tips_50th_percentile'']
      else if percentile = ''p75'' then
        first_of sample [''p75'', ''percentile75'', ''tipFloor75'', ''landed_tips_75th_percentile'']
      else if percentile = ''p95'' then
        first_of sample [''p95'', ''percentile95'', ''tipFloor95'', ''landed_tips_95th_percentile'']
      else
        first_of sample [''p99'', ''percentile99'', ''tipFloor99'', ''landed_tips_99th_percentile''])"

fun find_map :: "('a \<Rightarrow> 'b option) \<Rightarrow> 'a list \<Rightarrow> 'b option" where
  "find_map f [] = None"
| "find_map f (x # xs) = (case f x of None \<Rightarrow> find_map f xs | Some y \<Rightarrow> Some y)"

lemma find_map_cong [fundef_cong]:
  "xs = ys \<Longrightarrow> (\<And>x. x \<in> set ys \<Longrightarrow> f x = g x) \<Longrightarrow> find_map f xs = find_map g ys"
  by (induction ys arbitrary: xs) (auto split: option.split)

lemma or_else_cong [fundef_cong]:
  "x = x' \<Longrightarrow> (x' = None \<Longrightarrow> y = y') \<Longrightarrow> or_else x y = or_else x' y'"
  by (simp add: or_else_def split: option.split)

lemma json_get_size: "json_get v k = Some c \<Longrightarrow> size c < size v"
proof (cases v)
  case (JObject members)
  assume "json_get v k = Some c"
  then have "(k, c) \<in> set members" using JObject by (simp add: map_of_SomeD)
  then have "size (k, c) \<le> size_list size members"
    by (induction members) auto
  have "size c < Suc (size_list (size_prod (\<lambda>_. 0) size) members)"
    using \<open>(k, c) \<in> set members\<close>
    by (induction members) auto
  then show ?thesis using JObject by simp
qed simp_all

function extract_jito_tip_floor_lamports :: "f64_ops \<Rightarrow> json \<Rightarrow> string \<Rightarrow> u64 option" where
  "extract_jito_tip_floor_lamports ops payload percentile =
     or_else (normalize_estimate_to_lamports ops (jito_tip_percentile_value payload percentile))
    (or_else (Option.bind (json_get payload ''params'') (\<lambda>params.
                Option.bind (json_get params ''result'') (\<lambda>result.
                  extract_jito_tip_floor_lamports ops result percentile)))
    (or_else (find_map (\<lambda>k. Option.bind (json_get payload k) (\<lambda>child.
                  extract_jito_tip_floor_lamports ops child percentile))
                [''data'', ''result'', ''value''])
       (case payload of
          JArray entries \<Rightarrow>
            find_map (\<lambda>entry. extract_jito_tip_floor_lamports ops entry percentile) entries
        | _ \<Rightarrow> None)))"
  by pat_completeness auto

termination
proof (relation "measure (\<lambda>(_, payload, _). size payload)", goal_cases)
  case (2 ops payload percentile params result)
  then show ?case by (auto dest!: json_get_size)
next
  case (3 ops payload percentile k child)
  then show ?case by (auto dest!: json_get_size)
next
  case (4 ops payload percentile entries entry)
  then show ?case by (simp add: less_Suc_eq_le size_list_estimation')
qed simp

declare extract_jito_tip_floor_lamports.simps [simp del]

definition helius_priority_level_value :: "json \<Rightarrow> string \<Rightarrow> json option" where
  "helius_priority_level_value result helius_priority_level =
     Option.bind (json_get result ''priorityFeeLevels'') (\<lambda>levels.
       let l = ascii_lower (str_trim helius_priority_level)
       in if l = ''default'' then
            or_else (first_of levels [''medium'', ''Medium''])
              (first_of result [''priorityFeeEstimate'', ''recommended''])
          else if l = ''low'' then first_of levels [''low'', ''Low'']
          else if l = ''medium'' then first_of levels [''medium'', ''Medium'']
          else if l = ''high'' then first_of levels [''high'', ''High'']
          else if l \<in> {''veryhigh'', ''very_high'', ''very-high''} then
            first_of levels [''veryHigh'', ''VeryHigh'', ''veryhigh'']
          else if l \<in> {''unsafemax'', ''unsafe_max'', ''unsafe-max''} then
            first_of levels [''unsafeMax'', ''UnsafeMax'', ''unsafemax'']
          else if l = ''recommended'' then first_of result [''priorityFeeEstimate'', ''recommended'']
          else json_get levels l)"

definition parse_helius_priority_estimate_result :: "f64_ops \<Rightarrow> json \<Rightarrow> string \<Rightarrow> u64 option" where
  "parse_helius_priority_estimate_result ops result helius_priority_level =
     normalize_estimate_to_lamports ops
       (or_else (helius_priority_level_value result helius_priority_level)
       (or_else (Option.bind (json_get result ''priorityFeeLevels'') (\<lambda>levels. json_get levels ''veryHigh''))
       (or_else (first_of result [''priorityFeeEstimate'', ''recommended''])
          (Option.bind (json_get result ''priorityFeeLevels'') (\<lambda>levels. json_get levels ''high'')))))"


definition helius_fee_estimate_options :: "string \<Rightarrow> json" where
  "helius_fee_estimate_options helius_priority_level =
     (if helius_priority_level = ''recommended''
      then JObject [(''priorityLevel'', JString ''Medium''), (''recommended'', JBool True)]
      else JObject [(''priorityLevel'', JString helius_priority_level),
                    (''includeAllPriorityFeeLevels'', JBool True)])"

section \<open>Snapshots\<close>

record fee_market_snapshot =
  helius_priority_lamports :: "u64 option"
  helius_launch_priority_lamports :: "u64 option"
  helius_trade_priority_lamports :: "u64 option"
  jito_tip_p99_lamports :: "u64 option"

record lease_status =
  lease_status_owner :: "string option"
  lease_status_expires :: "u64 option"
  lease_status_active :: bool

record snapshot_status =
  status_snapshot :: fee_market_snapshot
  helius_fresh :: bool
  jito_fresh :: bool
  cache_age_ms :: "u64 option"
  helius_age_ms :: "u64 option"
  jito_age_ms :: "u64 option"
  helius_last_error :: "string option"
  jito_last_error :: "string option"
  helius_lease :: lease_status
  jito_lease :: lease_status

definition launch_priority_lamports :: "fee_market_snapshot \<Rightarrow> u64 option" where
  "launch_priority_lamports s = or_else (helius_launch_priority_lamports s) (helius_priority_lamports s)"

definition trade_priority_lamports :: "fee_market_snapshot \<Rightarrow> u64 option" where
  "trade_priority_lamports s = or_else (helius_trade_priority_lamports s) (helius_priority_lamports s)"

definition action_priority_estimate :: "fee_market_snapshot \<Rightarrow> string \<Rightarrow> u64 option \<times> string" where
  "action_priority_estimate snapshot action =
     (if action = ''creation'' then
        (case launch_priority_lamports snapshot of
           Some v \<Rightarrow> (Some v, ''launch-template'') | None \<Rightarrow> (None, ''missing''))
      else
        (case trade_priority_lamports snapshot of
           Some v \<Rightarrow> (Some v, ''trade-template'') | None \<Rightarrow> (None, ''missing'')))"

definition action_tip_estimate :: "fee_market_snapshot \<Rightarrow> string \<Rightarrow> u64 option \<times> string" where
  "action_tip_estimate snapshot jito_tip_percentile =
     (case jito_tip_p99_lamports snapshot of
        Some v \<Rightarrow> (Some v, ''jito-'' @ jito_tip_percentile)
      | None \<Rightarrow> (None, ''missing''))"

definition provider_uses_auto_fee_priority :: "string \<Rightarrow> string \<Rightarrow> string \<Rightarrow> bool" where
  "provider_uses_auto_fee_priority provider execution_class action =
     (let p = str_trim provider
      in if p \<in> {''standard-rpc'', ''helius-sender'', ''hellomoon''} then True
         else if p = ''jito-bundle'' then action \<noteq> ''creation'' \<or> execution_class \<noteq> ''bundle''
         else True)"

definition provider_uses_auto_fee_tip :: "string \<Rightarrow> string \<Rightarrow> bool" where
  "provider_uses_auto_fee_tip provider action =
     (str_trim provider \<in> {''helius-sender'', ''hellomoon'', ''jito-bundle''})"

section \<open>Fitting the fees under a cap\<close>

datatype fee_error = Cap_Below_Minimum_Tip string string string

definition option_filter :: "('a \<Rightarrow> bool) \<Rightarrow> 'a option \<Rightarrow> 'a option" where
  "option_filter P x = (case x of None \<Rightarrow> None | Some v \<Rightarrow> if P v then Some v else None)"

definition parse_auto_fee_cap_lamports :: "string \<Rightarrow> u64 option" where
  "parse_auto_fee_cap_lamports value = option_filter (\<lambda>l. 0 < l) (parse_sol_decimal_to_lamports value)"

definition cap_auto_fee_lamports :: "u64 \<Rightarrow> u64 option \<Rightarrow> u64" where
  "cap_auto_fee_lamports estimate_lamports cap_lamports =
     (case cap_lamports of
        Some cap \<Rightarrow> if 0 < cap then min estimate_lamports cap else estimate_lamports
      | None \<Rightarrow> estimate_lamports)"

definition clamp_auto_fee_tip_to_provider_minimum ::
  "u64 \<Rightarrow> string \<Rightarrow> u64 option \<Rightarrow> string \<Rightarrow> fee_error + u64" where
  "clamp_auto_fee_tip_to_provider_minimum resolved provider cap_lamports action_label =
     (case provider_required_tip_lamports provider of
        None \<Rightarrow> Inr resolved
      | Some minimum_tip_lamports \<Rightarrow>
          if minimum_tip_lamports \<le> resolved then Inr resolved
          else case cap_lamports of
              Some cap \<Rightarrow>
                if cap < minimum_tip_lamports
                then Inl (Cap_Below_Minimum_Tip action_label provider (provider_min_tip_sol_label provider))
                else Inr minimum_tip_lamports
            | None \<Rightarrow> Inr minimum_tip_lamports)"

text \<open>Both fees under a cap: 70 percent of it is meant for the tip, what one leaves the other gets.\<close>

definition split_under_cap :: "u64 \<Rightarrow> u64 \<Rightarrow> u64 \<Rightarrow> u64 \<Rightarrow> u64 \<times> u64" where
  "split_under_cap minimum_tip_lamports priority tip cap =
     (if (ucast priority :: u128) + ucast tip \<le> ucast cap then (priority, tip)
      else if 0 < minimum_tip_lamports \<and> cap = minimum_tip_lamports
      then (min priority 1, minimum_tip_lamports)
      else
        let ratio_tip_budget = sat_mul cap 7000 div 10000;
            target_tip_budget = min (max ratio_tip_budget minimum_tip_lamports) (sat_sub cap 1);
            target_priority_budget = sat_sub cap target_tip_budget;
            resolved_priority = min priority target_priority_budget;
            resolved_tip = min tip target_tip_budget;
            remaining_budget = sat_sub (sat_sub cap resolved_priority) resolved_tip
        in if 0 < remaining_budget then
             if resolved_tip < target_tip_budget then
               (sat_add resolved_priority (min (sat_sub priority resolved_priority) remaining_budget),
                resolved_tip)
             else if resolved_priority < target_priority_budget then
               (resolved_priority,
                sat_add resolved_tip (min (sat_sub tip resolved_tip) remaining_budget))
             else (resolved_priority, resolved_tip)
           else (resolved_priority, resolved_tip))"

definition resolve_auto_fee_components_with_total_cap ::
  "u64 option \<Rightarrow> u64 option \<Rightarrow> u64 option \<Rightarrow> string \<Rightarrow> string
     \<Rightarrow> fee_error + (u64 option \<times> u64 option)" where
  "resolve_auto_fee_components_with_total_cap priority_estimate tip_estimate cap_lamports provider
       action_label =
     (let priority_estimate = map_option (\<lambda>v. max v 1) priority_estimate;
          has_priority = priority_estimate \<noteq> None;
          has_tip = tip_estimate \<noteq> None;
          minimum_tip_lamports = unwrap_or 0 (provider_required_tip_lamports provider)
      in if has_priority \<and> has_tip \<and> 0 < minimum_tip_lamports
            \<and> (case cap_lamports of Some cap \<Rightarrow> cap < minimum_tip_lamports | None \<Rightarrow> False)
         then Inl (Cap_Below_Minimum_Tip action_label provider (provider_min_tip_sol_label provider))
         else
           let resolved_priority =
                 map_option (\<lambda>estimate. if has_tip then estimate
                                        else cap_auto_fee_lamports estimate cap_lamports)
                   priority_estimate
           in rbind
                (case tip_estimate of
                   Some estimate \<Rightarrow>
                     if has_priority then Inr (Some (max estimate minimum_tip_lamports))
                     else rbind (clamp_auto_fee_tip_to_provider_minimum
                                   (cap_auto_fee_lamports estimate cap_lamports) provider cap_lamports
                                   action_label) (\<lambda>t. Inr (Some t))
                 | None \<Rightarrow> Inr None)
                (\<lambda>resolved_tip.
                  case (resolved_priority, resolved_tip, cap_lamports) of
                    (Some priority, Some tip, Some cap) \<Rightarrow>
                      let (p, t) = split_under_cap minimum_tip_lamports priority tip cap
                      in Inr (Some p, Some t)
                  | _ \<Rightarrow> Inr (resolved_priority, resolved_tip)))"

definition priority_price_micro_lamports_to_sol_equivalent :: "u64 \<Rightarrow> string" where
  "priority_price_micro_lamports_to_sol_equivalent price =
     (let total_lamports = (ucast price * 1000000 :: u128) div 1000000
      in format_lamports_to_sol_decimal (ucast (min total_lamports (ucast (max_word :: u64)))))"

definition format_priority_price_note :: "u64 \<Rightarrow> string" where
  "format_priority_price_note price =
     show_nat (unat price) @ '' micro-lamports/CU (~''
       @ priority_price_micro_lamports_to_sol_equivalent price @ '' SOL at '' @ show_nat 1000000 @ '' CU)''"

section \<open>Resolving the fees of a trade\<close>

text \<open>The first set variable of \<open>names\<close>; \<open>env\<close> is the environment.\<close>

definition env_or_else :: "(string \<Rightarrow> string option) \<Rightarrow> string list \<Rightarrow> string option" where
  "env_or_else env names = foldr (\<lambda>n rest. or_else (env n) rest) names None"

definition configured_auto_fee_buffer_bps :: "f64_ops \<Rightarrow> (string \<Rightarrow> string option) \<Rightarrow> u64" where
  "configured_auto_fee_buffer_bps ops env =
     unwrap_or 1000
       (Option.bind (env_or_else env [''AUTO_FEE_BUFFER_PERCENT'', ''TRENCH_AUTO_FEE_BUFFER_PERCENT''])
         (\<lambda>value. Option.bind (f64_from_str ops (str_trim value))
           (\<lambda>v. case v of
              F64_Finite x \<Rightarrow>
                if 0 \<le> x
                then Some (nat_to_u64_sat (f64_round_to_nat (f64_mul ops (min x 1000) 100)))
                else None
            | _ \<Rightarrow> None)))"

definition apply_auto_fee_estimate_buffer :: "u64 \<Rightarrow> u64 \<Rightarrow> u64" where
  "apply_auto_fee_estimate_buffer buffer_bps value =
     (let denominator = 10000 :: u128;
          multiplier = sat_add denominator (ucast buffer_bps);
          buffered = sat_add (sat_mul (ucast value) multiplier) (sat_sub denominator 1) div denominator
      in ucast (min buffered (ucast (max_word :: u64))))"

record auto_fee_degradation =
  degradation_source :: string
  degradation_message :: string

record auto_fee_resolution_input =
  in_provider :: string
  in_execution_class :: string
  in_action :: string
  in_action_label :: string
  in_max_fee_sol :: string
  in_fallback_priority_fee_sol :: string
  in_fallback_tip_sol :: string
  in_snapshot_status :: "snapshot_status option"
  in_allow_unavailable_fallback :: bool

record auto_fee_resolution_output =
  out_priority_lamports :: "u64 option"
  out_tip_lamports :: "u64 option"
  out_priority_estimate_lamports :: "u64 option"
  out_tip_estimate_lamports :: "u64 option"
  out_priority_source :: string
  out_tip_source :: string
  out_cap_lamports :: "u64 option"
  out_degradations :: "auto_fee_degradation list"

definition default_auto_fee_fallback_lamports :: u64 where
  "default_auto_fee_fallback_lamports = 1000000"

definition positive_sol_fallback_lamports :: "string \<Rightarrow> u64" where
  "positive_sol_fallback_lamports value =
     unwrap_or default_auto_fee_fallback_lamports
       (option_filter (\<lambda>v. 0 < v) (parse_sol_decimal_to_lamports value))"

definition auto_fee_unavailable_message :: "string \<Rightarrow> u64 option \<Rightarrow> string \<Rightarrow> u64 \<Rightarrow> string" where
  "auto_fee_unavailable_message source age_ms fallback_label fallback_lamports =
     ''Auto Fee unavailable: '' @ source @ '' ''
       @ (case age_ms of Some a \<Rightarrow> ''stale '' @ show_nat (unat (a div 1000)) @ ''s'' | None \<Rightarrow> ''missing'')
       @ ''. Defaulted '' @ fallback_label @ '' to ''
       @ format_lamports_to_sol_decimal fallback_lamports @ '' SOL. Fix Auto Fee or switch it off.''"

text \<open>
  One estimate: fresh, buffered and else the fallback when that is allowed. The result is the
  estimate, its source, the degradations and whether it is the fallback; the code does this once
  for the priority fee and once for the tip.
\<close>

definition buffered_estimate ::
  "u64 \<Rightarrow> bool \<Rightarrow> u64 option option \<Rightarrow> u64 \<Rightarrow> bool \<Rightarrow> string \<Rightarrow> string \<Rightarrow> auto_fee_degradation
     \<Rightarrow> u64 option \<times> string \<times> auto_fee_degradation list \<times> bool" where
  "buffered_estimate buffer_bps used fresh fallback allow shared_source user_source degradation =
     (if \<not> used then (None, ''off'', [], False)
      else
        let estimate = Option.bind fresh (map_option (apply_auto_fee_estimate_buffer buffer_bps));
            source = (if fresh = None then ''off''
                      else if estimate \<noteq> None then shared_source else ''missing'')
        in if estimate = None \<and> allow
           then (Some fallback,
                 if fallback = default_auto_fee_fallback_lamports then ''fallback-0.001'' else user_source,
                 [degradation], True)
           else (estimate, source, [], False))"

definition resolve_buffered_auto_fee_components ::
  "u64 \<Rightarrow> auto_fee_resolution_input \<Rightarrow> fee_error + auto_fee_resolution_output" where
  "resolve_buffered_auto_fee_components buffer_bps input =
     (let cap_lamports = parse_auto_fee_cap_lamports (in_max_fee_sol input);
          fallback_priority = positive_sol_fallback_lamports (in_fallback_priority_fee_sol input);
          fallback_tip = positive_sol_fallback_lamports (in_fallback_tip_sol input);
          status = in_snapshot_status input;
          uses_priority = provider_uses_auto_fee_priority (in_provider input)
                            (in_execution_class input) (in_action input);
          uses_tip = provider_uses_auto_fee_tip (in_provider input) (in_action input);
          (priority_estimate, priority_source, priority_degradations, priority_used_fallback) =
            buffered_estimate buffer_bps uses_priority
              (map_option (\<lambda>st. if in_action input = ''creation''
                                 then launch_priority_lamports (status_snapshot st)
                                 else trade_priority_lamports (status_snapshot st))
                 (option_filter helius_fresh status))
              fallback_priority (in_allow_unavailable_fallback input)
              ''shared-helius-buffered'' ''fallback-user-priority''
              \<lparr>degradation_source = ''helius'',
               degradation_message = auto_fee_unavailable_message ''helius''
                 (Option.bind status helius_age_ms) ''priority fee'' fallback_priority\<rparr>;
          (tip_estimate, tip_source, tip_degradations, tip_used_fallback) =
            buffered_estimate buffer_bps uses_tip
              (map_option (\<lambda>st. jito_tip_p99_lamports (status_snapshot st)) (option_filter jito_fresh status))
              fallback_tip (in_allow_unavailable_fallback input)
              ''shared-jito-buffered'' ''fallback-user-tip''
              \<lparr>degradation_source = ''jito'',
               degradation_message = auto_fee_unavailable_message ''jito''
                 (Option.bind status jito_age_ms) ''tip'' fallback_tip\<rparr>;
          required = provider_required_tip_lamports (in_provider input)
      in rbind
           (if priority_used_fallback \<or> tip_used_fallback then
              rbind
                (case tip_estimate of
                   Some estimate \<Rightarrow>
                     let with_floor = max estimate (unwrap_or 0 required)
                     in if tip_used_fallback then Inr (Some with_floor)
                        else
                          rbind (clamp_auto_fee_tip_to_provider_minimum
                                   (case cap_lamports of Some cap \<Rightarrow> min with_floor cap
                                    | None \<Rightarrow> with_floor)
                                   (in_provider input) cap_lamports (in_action_label input))
                            (\<lambda>t. Inr (Some t))
                 | None \<Rightarrow> Inr None)
                (\<lambda>resolved_tip.
                  Inr (map_option (\<lambda>estimate.
                         if priority_used_fallback then estimate
                         else case cap_lamports of Some cap \<Rightarrow> min estimate cap | None \<Rightarrow> estimate)
                         priority_estimate,
                       resolved_tip))
            else
              resolve_auto_fee_components_with_total_cap priority_estimate tip_estimate cap_lamports
                (in_provider input) (in_action_label input))
           (\<lambda>(priority_lamports, tip_lamports).
             let tip_lamports = (if required \<noteq> None then tip_lamports else None);
                 cap_degradations =
                   (if uses_priority \<and> uses_tip
                       \<and> (case required of
                            Some m \<Rightarrow> 0 < m \<and> cap_lamports = Some m \<and> priority_lamports = Some 1
                          | None \<Rightarrow> False)
                    then [\<lparr>degradation_source = ''cap'',
                           degradation_message =
                             ''Auto Fee cap equals the '' @ in_provider input @ '' minimum tip of ''
                               @ format_lamports_to_sol_decimal (the required)
                               @ '' SOL, so priority fee was reduced to 1 lamport. Increase max auto fee to include priority fee.''\<rparr>]
                    else [])
             in Inr \<lparr>out_priority_lamports = priority_lamports, out_tip_lamports = tip_lamports,
                      out_priority_estimate_lamports = priority_estimate,
                      out_tip_estimate_lamports = tip_estimate,
                      out_priority_source = priority_source, out_tip_source = tip_source,
                      out_cap_lamports = cap_lamports,
                      out_degradations = priority_degradations @ tip_degradations @ cap_degradations\<rparr>))"

section \<open>The split\<close>

definition split_nat :: "nat \<Rightarrow> nat \<Rightarrow> nat \<Rightarrow> nat \<Rightarrow> nat \<Rightarrow> nat \<times> nat" where
  "split_nat r m p t c =
     (let tt = min (max r m) (c - 1); tp = c - tt; rp = min p tp; rt = min t tt; rem = c - rp - rt
      in if 0 < rem then
           if rt < tt then (rp + min (p - rp) rem, rt)
           else if rp < tp then (rp, rt + min (t - rt) rem) else (rp, rt)
         else (rp, rt))"


lemma split_nat_cases:
  assumes "c < p + t" "m < c \<or> m = 0" "0 < c"
  obtains (tip_small) tt where "t < tt" "m \<le> tt" "split_nat r m p t c = (c - t, t)" "t \<le> c"
  | (priority_small) tt where "tt \<le> t" "m \<le> tt" "p < c - tt" "split_nat r m p t c = (p, c - p)"
  | (targets) tt where "tt \<le> t" "m \<le> tt" "c - tt \<le> p" "tt \<le> c" "split_nat r m p t c = (c - tt, tt)"
proof -
  define tt where "tt = min (max r m) (c - 1)"
  have tt: "tt < c" "m \<le> tt" using assms by (auto simp: tt_def)
  consider "t < tt" | "tt \<le> t" "p < c - tt" | "tt \<le> t" "c - tt \<le> p" by linarith
  then show thesis
  proof cases
    case 1
    define rp where "rp = min p (c - tt)"
    have "rp \<le> c - tt" by (simp add: rp_def)
    then have rem: "rp + t < c" using 1 tt by linarith
    have "c - rp - t \<le> p - rp" using assms(1) by linarith
    then have "min (p - rp) (c - rp - t) = c - rp - t" by (rule min_absorb2)
    moreover have "min t tt = t" "0 < c - rp - t" using 1 rem by simp_all
    ultimately have "split_nat r m p t c = (rp + (c - rp - t), t)"
      unfolding split_nat_def Let_def tt_def [symmetric] rp_def [symmetric]
      using 1 by (simp only: if_True)
    also have "rp + (c - rp - t) = c - t" using rem by linarith
    finally show thesis using 1 tt by (intro tip_small) auto
  next
    case 2
    have "c - p - tt \<le> t - tt" using assms(1) by linarith
    then have "min (t - tt) (c - p - tt) = c - p - tt" by (rule min_absorb2)
    moreover have "min t tt = tt" "min p (c - tt) = p" "0 < c - p - tt" using 2 tt by linarith+
    ultimately have "split_nat r m p t c = (p, tt + (c - p - tt))"
      unfolding split_nat_def Let_def tt_def [symmetric]
      using 2 by (simp only: if_True less_irrefl if_False)
    also have "tt + (c - p - tt) = c - p" using 2 tt by linarith
    finally show thesis using 2 tt by (intro priority_small) auto
  next
    case 3
    then have "min t tt = tt" "min p (c - tt) = c - tt" by simp_all
    then have "split_nat r m p t c = (c - tt, tt)"
      unfolding split_nat_def Let_def tt_def [symmetric] by (simp only: less_irrefl if_False if_cancel)
    then show thesis using 3 tt by (intro targets [of tt]) simp_all
  qed
qed

lemma split_nat_fits:
  assumes "c < p + t" "m < c \<or> m = 0" "0 < c" "m \<le> t"
  shows "fst (split_nat r m p t c) + snd (split_nat r m p t c) = c"
    and "m \<le> snd (split_nat r m p t c)"
    and "fst (split_nat r m p t c) \<le> p" and "snd (split_nat r m p t c) \<le> t"
  by (cases rule: split_nat_cases [OF assms(1-3), of r]; use assms(1,4) in simp)+

lemma ucast_sum_le: "(ucast (a :: u64) :: u128) + ucast (b :: u64) \<le> ucast (c :: u64) \<longleftrightarrow> unat a + unat b \<le> unat c"
proof -
  have "unat a + unat b < 2 ^ 64 + 2 ^ 64"
    using unat_less_pow [of a] unat_less_pow [of b] by (intro add_strict_mono) simp_all
  then have "unat (ucast a :: u128) + unat (ucast b :: u128) < 2 ^ LENGTH(128)"
    by (simp add: unat_ucast_128)
  then have "unat ((ucast a :: u128) + ucast b) = unat (ucast a :: u128) + unat (ucast b :: u128)"
    using unat_add_lem [of "ucast a :: u128" "ucast b"] by blast
  then show ?thesis by (simp only: word_le_nat_alt unat_ucast_128)
qed

lemma sat_add_within:
  "a \<le> b \<Longrightarrow> unat (sat_add a (min (sat_sub b a) d)) = unat a + min (unat b - unat a) (unat d)"
  for a b d :: u64
proof -
  assume "a \<le> b"
  then have "unat a + min (unat b - unat a) (unat d) \<le> unat b"
    by (simp add: word_le_nat_alt)
  also have "\<dots> \<le> 2 ^ LENGTH(64) - 1" by simp
  finally show ?thesis by (simp only: unat_sat_add unat_min unat_sat_sub min_absorb1)
qed

lemma split_under_cap_nat:
  assumes "unat c < unat p + unat t" "\<not> (0 < m \<and> c = m)"
  shows "map_prod unat unat (split_under_cap m p t c)
         = split_nat (unat (sat_mul c 7000 div 10000)) (unat m) (unat p) (unat t) (unat c)"
proof -
  have no: "\<not> (ucast p :: u128) + ucast t \<le> ucast c" using assms(1) by (simp add: ucast_sum_le)
  show ?thesis
    unfolding split_under_cap_def split_nat_def Let_def if_not_P [OF no] if_not_P [OF assms(2)]
    by (simp only: if_distrib [of "map_prod unat unat"] map_prod_simp sat_add_within min.cobounded1
        word_less_nat_alt unat_min unat_max unat_sat_sub unat_1 unat_0)
qed

lemma split_under_cap_fits:
  assumes "0 < c" "m \<le> c" "m \<le> t"
  shows "let (p', t') = split_under_cap m p t c
         in (unat p' + unat t' \<le> unat c \<or> c = m \<and> p' = min p 1 \<and> t' = m)
            \<and> m \<le> t' \<and> p' \<le> p \<and> t' \<le> t
            \<and> (unat c < unat p + unat t \<and> c \<noteq> m \<longrightarrow> unat p' + unat t' = unat c)
            \<and> (unat p + unat t \<le> unat c \<longrightarrow> p' = p \<and> t' = t)"
proof -
  consider (fits) "unat p + unat t \<le> unat c" | (corner) "unat c < unat p + unat t" "c = m"
    | (over) "unat c < unat p + unat t" "c \<noteq> m" by linarith
  then show ?thesis
  proof cases
    case fits
    then show ?thesis using assms(3) by (simp add: split_under_cap_def ucast_sum_le)
  next
    case corner
    then show ?thesis
      using assms by (simp add: split_under_cap_def ucast_sum_le)
  next
    case over
    obtain p' t' where r: "split_under_cap m p t c = (p', t')" by fastforce
    let ?n = "split_nat (unat (sat_mul c 7000 div 10000)) (unat m) (unat p) (unat t) (unat c)"
    have n: "?n = (unat p', unat t')"
      using split_under_cap_nat [OF over(1)] over(2) r by force
    have m: "unat m < unat c \<or> unat m = 0" "0 < unat c" "unat m \<le> unat t"
      using assms over(2) by (auto simp: word_le_nat_alt word_less_nat_alt unat_eq_iff)
    show ?thesis
      using split_nat_fits [OF over(1) m, of "unat (sat_mul c 7000 div 10000)"] over r
      unfolding n by (simp add: word_le_nat_alt)
  qed
qed

definition total_fee :: "u64 option \<Rightarrow> u64 option \<Rightarrow> nat" where
  "total_fee p t = unat (unwrap_or 0 p) + unat (unwrap_or 0 t)"

definition fees_fit :: "u64 \<Rightarrow> u64 \<Rightarrow> u64 option \<Rightarrow> u64 option \<Rightarrow> bool" where
  "fees_fit m c p t \<longleftrightarrow>
     (total_fee p t \<le> unat c \<or> m = c \<and> p = Some 1 \<and> t = Some c)
     \<and> (\<forall>x. t = Some x \<longrightarrow> m \<le> x)"

lemma clamped_tip_fits:
  assumes "clamp_auto_fee_tip_to_provider_minimum v provider (Some c) l = Inr t" "v \<le> c"
  shows "t \<le> c" "unwrap_or 0 (provider_required_tip_lamports provider) \<le> t"
  using assms
  by (auto simp: clamp_auto_fee_tip_to_provider_minimum_def unwrap_or_def split: option.splits if_splits)

lemma resolved_fees_fit:
  assumes r: "resolve_auto_fee_components_with_total_cap pe te (Some c) provider l = Inr (p, t)"
    and "0 < c"
  shows "fees_fit (unwrap_or 0 (provider_required_tip_lamports provider)) c p t"
proof -
  let ?m = "unwrap_or 0 (provider_required_tip_lamports provider)"
  note defs = resolve_auto_fee_components_with_total_cap_def Let_def cap_auto_fee_lamports_def
  show ?thesis
  proof (cases pe)
    case None
    show ?thesis
    proof (cases te)
      case None
      then show ?thesis using r \<open>pe = None\<close> assms(2)
        by (simp add: defs fees_fit_def total_fee_def unwrap_or_def)
    next
      case (Some e)
      then obtain t' where t': "t = Some t'" "p = None"
        "clamp_auto_fee_tip_to_provider_minimum (min e c) provider (Some c) l = Inr t'"
        using r \<open>pe = None\<close> assms(2) by (auto simp: defs)
      then show ?thesis
        using clamped_tip_fits [OF t'(3) min.cobounded2]
        by (auto simp: fees_fit_def total_fee_def unwrap_or_def word_le_nat_alt)
    qed
  next
    case (Some e)
    show ?thesis
    proof (cases te)
      case None
      then have "p = Some (min (max e 1) c)" "t = None"
        using r \<open>pe = Some e\<close> assms(2) by (simp_all add: defs)
      then show ?thesis by (simp add: fees_fit_def total_fee_def unwrap_or_def unat_min)
    next
      case (Some e')
      have ok: "?m \<le> c"
        using r \<open>pe = Some e\<close> Some by (auto simp: defs word_gt_0 not_less split: if_splits)
      let ?s = "split_under_cap ?m (max e 1) (max e' ?m) c"
      have "Inr (Some (fst ?s), Some (snd ?s)) = (Inr (p, t) :: fee_error + _)"
        using r \<open>pe = Some e\<close> Some by (simp add: defs split: if_splits prod.splits)
      then have pt: "p = Some (fst ?s)" "t = Some (snd ?s)" by auto
      have "min (max e 1) 1 = (1 :: u64)" by (simp add: min_def max_def)
      then show ?thesis
        using split_under_cap_fits [OF assms(2) ok, of "max e' ?m" "max e 1"]
        by (auto simp: pt fees_fit_def total_fee_def unwrap_or_def Let_def split: prod.splits)
    qed
  qed
qed

lemma buffered_estimate_no_fallback:
  "buffered_estimate b used fresh fallback False src usr d = (e, s, ds, u) \<Longrightarrow> \<not> u"
  by (auto simp: buffered_estimate_def Let_def split: if_splits)

lemma parsed_cap_positive: "parse_auto_fee_cap_lamports v = Some c \<Longrightarrow> 0 < c"
  by (auto simp: parse_auto_fee_cap_lamports_def option_filter_def split: option.splits if_splits)

text \<open>
  C8: without the fallback for unavailable services, the fees of a trade stay under the user's
  cap: priority fee and tip together do not exceed it, except that a cap equal to the provider's
  minimum tip is exceeded by the one lamport of priority fee that is kept; and a tip is never
  below the provider's minimum.
\<close>

theorem auto_fees_stay_under_cap:
  assumes "resolve_buffered_auto_fee_components buffer_bps input = Inr out"
    and "\<not> in_allow_unavailable_fallback input" "out_cap_lamports out = Some cap"
  shows "(total_fee (out_priority_lamports out) (out_tip_lamports out) \<le> unat cap
          \<or> provider_required_tip_lamports (in_provider input) = Some cap
             \<and> out_priority_lamports out = Some 1 \<and> out_tip_lamports out = Some cap)
         \<and> (\<forall>tip. out_tip_lamports out = Some tip \<longrightarrow>
              (\<exists>m. provider_required_tip_lamports (in_provider input) = Some m \<and> m \<le> tip))"
proof -
  let ?cap = "parse_auto_fee_cap_lamports (in_max_fee_sol input)"
  let ?req = "provider_required_tip_lamports (in_provider input)"
  obtain pe te p t where r: "resolve_auto_fee_components_with_total_cap pe te ?cap (in_provider input)
        (in_action_label input) = Inr (p, t)"
    and out: "out_priority_lamports out = p" "out_tip_lamports out = (if ?req \<noteq> None then t else None)"
      "out_cap_lamports out = ?cap"
    using assms(1,2)
    by (auto simp: resolve_buffered_auto_fee_components_def Let_def
        dest!: buffered_estimate_no_fallback split: prod.splits)
  have cap: "?cap = Some cap" "0 < cap"
    using assms(3) out(3) parsed_cap_positive by auto
  have fit: "fees_fit (unwrap_or 0 ?req) cap p t"
    using resolved_fees_fit [OF _ cap(2)] r cap(1) by simp
  show ?thesis
  proof (cases ?req)
    case None
    then show ?thesis using fit cap(2)
      by (auto simp: out fees_fit_def total_fee_def unwrap_or_def)
  next
    case (Some m)
    then show ?thesis using fit by (auto simp: out fees_fit_def unwrap_or_def)
  qed
qed

definition sample_fee_status :: snapshot_status where
  "sample_fee_status =
     \<lparr>status_snapshot = \<lparr>helius_priority_lamports = Some 900000, helius_launch_priority_lamports = None,
        helius_trade_priority_lamports = None, jito_tip_p99_lamports = Some 900000\<rparr>,
      helius_fresh = True, jito_fresh = True, cache_age_ms = None, helius_age_ms = None,
      jito_age_ms = None, helius_last_error = None, jito_last_error = None,
      helius_lease = \<lparr>lease_status_owner = None, lease_status_expires = None, lease_status_active = False\<rparr>,
      jito_lease = \<lparr>lease_status_owner = None, lease_status_expires = None, lease_status_active = False\<rparr>\<rparr>"

definition sample_fee_input :: "string \<Rightarrow> bool \<Rightarrow> snapshot_status option \<Rightarrow> auto_fee_resolution_input" where
  "sample_fee_input max_fee allow status =
     \<lparr>in_provider = ''helius-sender'', in_execution_class = ''manual'', in_action = ''buy'',
      in_action_label = ''Buy'', in_max_fee_sol = max_fee, in_fallback_priority_fee_sol = [],
      in_fallback_tip_sol = [], in_snapshot_status = status, in_allow_unavailable_fallback = allow\<rparr>"


lemma replicate_numeral_eq: "replicate (numeral n) x = x # replicate (pred_numeral n) x"
  by (simp add: numeral_eq_Suc)

lemmas decimal_eval = parse_sol_decimal_to_lamports_def str_trim_def is_ws_def is_digit_def parse_u64_def
  unsigned_digits_def digits_value_def digit_value_def checked_mul_def checked_add_def
  option_filter_def replicate_numeral_eq

lemma sample_caps:
  "parse_auto_fee_cap_lamports ''0.001'' = Some 1000000"
  "parse_auto_fee_cap_lamports ''0.0002'' = Some 200000"
  by (simp_all add: parse_auto_fee_cap_lamports_def decimal_eval Let_def)

lemma sample_buffer: "apply_auto_fee_estimate_buffer 1000 900000 = 990000"
  by (simp add: apply_auto_fee_estimate_buffer_def sat_add_def sat_mul_def sat_sub_def min_def
      word_le_nat_alt unat_ucast_128 unat_max_word)

lemma sample_provider:
  "provider_required_tip_lamports ''helius-sender'' = Some 200000"
  "provider_uses_auto_fee_priority ''helius-sender'' c a" "provider_uses_auto_fee_tip ''helius-sender'' a"
  by (simp_all add: provider_required_tip_lamports_def provider_uses_auto_fee_priority_def
      provider_uses_auto_fee_tip_def str_trim_def is_ws_def)

lemma sample_fees:
  "\<exists>out. resolve_buffered_auto_fee_components 1000 (sample_fee_input ''0.001'' False (Some sample_fee_status)) = Inr out
     \<and> out_priority_lamports out = Some 300000 \<and> out_tip_lamports out = Some 700000
     \<and> out_cap_lamports out = Some 1000000"
  "\<exists>out. resolve_buffered_auto_fee_components 1000 (sample_fee_input ''0.0002'' False (Some sample_fee_status)) = Inr out
     \<and> out_priority_lamports out = Some 1 \<and> out_tip_lamports out = Some 200000
     \<and> out_cap_lamports out = Some 200000"
  by (simp_all add: resolve_buffered_auto_fee_components_def sample_fee_input_def sample_fee_status_def
      sample_caps sample_buffer sample_provider buffered_estimate_def trade_priority_lamports_def
      or_else_def option_filter_def resolve_auto_fee_components_with_total_cap_def split_under_cap_def
      unwrap_or_def sat_mul_def sat_sub_def sat_add_def Let_def)

theorem auto_fees_stay_under_cap_witness:
  "\<exists>out. resolve_buffered_auto_fee_components 1000
       (sample_fee_input ''0.001'' False (Some sample_fee_status)) = Inr out
     \<and> out_priority_lamports out = Some 300000
     \<and> total_fee (out_priority_lamports out) (out_tip_lamports out) \<le> 1000000"
proof -
  obtain out where out: "resolve_buffered_auto_fee_components 1000
      (sample_fee_input ''0.001'' False (Some sample_fee_status)) = Inr out"
    "out_priority_lamports out = Some 300000" "out_tip_lamports out = Some 700000"
    "out_cap_lamports out = Some 1000000"
    using sample_fees(1) by blast
  have "\<not> in_allow_unavailable_fallback (sample_fee_input ''0.001'' False (Some sample_fee_status))"
    by (simp add: sample_fee_input_def)
  with auto_fees_stay_under_cap [OF out(1) _ out(4)] out show ?thesis by auto
qed

section \<open>Amounts survive their text\<close>

lemma split_on_none: "d \<notin> set s \<Longrightarrow> split_on d s = [s]"
  by (induction s) auto

lemma split_on_at: "d \<notin> set a \<Longrightarrow> split_on d (a @ d # b) = a # split_on d b"
  by (induction a) auto

lemma commas_to_dots: "CHR '','' \<notin> set s \<Longrightarrow> map (\<lambda>c. if c = CHR '','' then CHR ''.'' else c) s = s"
  by (induction s) auto

lemma digits_no_comma: "list_all is_digit s \<Longrightarrow> CHR '','' \<notin> set s"
  by (auto simp: list_all_iff is_digit_def)

lemma sol_decimal_parts:
  assumes "str_trim s = s" "s \<noteq> []" "CHR '','' \<notin> set s" "split_on CHR ''.'' s = W # ps"
    and "length ps \<le> 1" "F = (case ps of [] \<Rightarrow> [] | f # _ \<Rightarrow> f)"
    and "list_all is_digit W" "list_all is_digit F" "length F \<le> 9"
    and "Option.bind (parse_u64 W) (\<lambda>x. checked_mul x lamports_per_sol) = Some wl"
    and "parse_u64 (F @ replicate (9 - length F) CHR ''0'') = Some fl"
    and "checked_add wl fl = Some l"
  shows "parse_sol_decimal_to_lamports s = Some l"
proof -
  obtain w where w: "parse_u64 W = Some w" "checked_mul w 1000000000 = Some wl"
    using assms(10) by (auto simp: bind_eq_Some_conv lamports_per_sol_def)
  have "take 9 F = F" using assms(9) by simp
  moreover have "F @ replicate (9 - length F) CHR ''0'' \<noteq> []" by (cases F) simp_all
  ultimately show ?thesis
    using assms(2,5,7,8,11,12) w
    unfolding parse_sol_decimal_to_lamports_def Let_def assms(1) commas_to_dots [OF assms(3)] assms(4)
      list.sel assms(6) [symmetric]
    by auto
qed

lemma sol_decimal_roundtrip: "parse_sol_decimal_to_lamports (format_lamports_to_sol_decimal l) = Some l"
proof -
  let ?w = "l div 1000000000" and ?f = "l mod 1000000000"
  let ?W = "show_nat (unat ?w)"
  let ?P = "pad_left 9 (show_nat (unat ?f))"
  let ?T = "trim_trailing_zeros ?P"
  have f: "unat ?f < 10 ^ 9" by (simp add: unat_div_mod_sol)
  have P: "length ?P = 9" using f by (intro pad_left_length) simp_all
  have pad: "?T @ replicate (9 - length ?T) CHR ''0'' = ?P" and len: "length ?T \<le> 9"
    using trimmed_zeros_pad [OF P] by blast+
  have T: "list_all is_digit ?T" by (intro trimmed_zeros_digits pad_left_digits)
  note whole = whole_lamports [OF whole_lamports_bound [of l]]
  show ?thesis
  proof (cases "?f = 0")
    case True
    have zeros: "parse_u64 ([] @ replicate (9 - length []) CHR ''0'') = Some 0"
      by (simp add: parse_u64_digits)
    have trim: "str_trim ?W = ?W"
      using show_nat_ends digit_not by (intro digits_trim) auto
    have "parse_sol_decimal_to_lamports ?W = Some l"
      by (rule sol_decimal_parts [where ps = "[]" and F = "[]", OF trim _ digits_no_comma
            split_on_none _ _ _ _ _ whole zeros])
        (use digits_no lamports_split_checked [of l] True in simp_all)
    with True show ?thesis by (simp add: format_lamports_to_sol_decimal_def)
  next
    case False
    have ne: "?T \<noteq> []"
      using trimmed_fraction_nonempty [OF pad refl] False by (simp add: unat_zero_iff)
    then have lastT: "is_digit (last ?T)" using T by (auto simp: list_all_iff)
    have trim: "str_trim (?W @ ''.'' @ ?T) = ?W @ ''.'' @ ?T"
      using show_nat_ends(1) [of "unat ?w"] lastT ne digit_not by (intro digits_trim) auto
    have parts: "split_on CHR ''.'' (?W @ ''.'' @ ?T) = [?W, ?T]"
      using split_on_at [OF digits_no [OF show_nat_digits [of "unat ?w"]]] split_on_none [OF digits_no [OF T]]
      by simp
    have frac: "parse_u64 (?T @ replicate (9 - length ?T) CHR ''0'') = Some ?f"
      unfolding pad using f by (subst parse_u64_digits) simp_all
    have nocomma: "CHR '','' \<notin> set (?W @ ''.'' @ ?T)"
      using digits_no_comma [OF show_nat_digits [of "unat ?w"]] digits_no_comma [OF T] by simp
    have "parse_sol_decimal_to_lamports (?W @ ''.'' @ ?T) = Some l"
      by (rule sol_decimal_parts [where ps = "[?T]" and F = ?T, OF trim _ nocomma parts _ _ _ T len
            whole frac lamports_split_checked]) simp_all
    with False show ?thesis by (simp add: format_lamports_to_sol_decimal_def)
  qed
qed
end
