(* ===== verification/Fee_Cache.thy ===== *)
theory Fee_Cache
  imports Fee_Resolution
begin

text \<open>
  The fee market shared by the processes of one machine
  (\<^verbatim>\<open>shared-fee-market/src/runtime.rs\<close>): a cache file that every process reads and the owners
  of two leases update, the leases, and the refresh operations. A file is present with its
  parsed contents or absent (an unreadable file counts as absent, as in the code); a write fails
  or replaces the file. The hash in a lease's file name is a parameter, an operation reads the
  clock once and gets that reading as \<open>now\<close>, and what the network answers is an argument.
\<close>

section \<open>Configuration and files\<close>

record cache_file =
  cf_schema_version :: u64
  cf_primary_rpc_url :: string
  cf_helius_priority_rpc_url :: string
  cf_helius_priority_level :: string
  cf_jito_tip_percentile :: string
  cf_updated_at :: u64
  cf_helius_updated_at :: "u64 option"
  cf_jito_updated_at :: "u64 option"
  cf_helius_last_error :: "string option"
  cf_jito_last_error :: "string option"
  cf_snapshot :: fee_market_snapshot

record lease_file =
  lf_owner :: string
  lf_expires_at :: u64

record fee_config =
  fc_cache_path :: string
  fc_primary_rpc_url :: string
  fc_helius_priority_rpc_url :: string
  fc_owner :: string
  fc_helius_priority_level :: string
  fc_jito_tip_percentile :: string
  fc_helius_refresh_interval :: u64
  fc_helius_max_age :: u64
  fc_jito_max_age :: u64
  fc_lease_ttl :: u64
  fc_jito_reconnect_delay :: u64
  fc_jito_tip_stream_endpoint :: string
  fc_launch_account_keys :: "string list"

datatype refresh_outcome = Refreshed | Skipped | Failed

text \<open>The files, and one process's memory of its last snapshot per cache key.\<close>

record fee_files =
  ff_caches :: "string \<rightharpoonup> cache_file"
  ff_leases :: "string \<rightharpoonup> lease_file"

type_synonym memory_cache = "string \<rightharpoonup> fee_market_snapshot \<times> u64"

definition cache_schema_version :: u64 where
  "cache_schema_version = 1"

definition default_lease_ttl :: u64 where
  "default_lease_ttl = 60000"

definition default_jito_tip_stream_endpoint :: string where
  "default_jito_tip_stream_endpoint = ''wss://bundles.jito.wtf/api/v1/bundles/tip_stream''"

definition configured_helius_priority_level :: "(string \<Rightarrow> string option) \<Rightarrow> string" where
  "configured_helius_priority_level env =
     normalize_helius_priority_level (unwrap_or ''high''
       (env_or_else env [''HELIUS_PRIORITY_LEVEL'', ''TRENCH_AUTO_FEE_HELIUS_PRIORITY_LEVEL'',
                         ''LAUNCHDECK_AUTO_FEE_HELIUS_PRIORITY_LEVEL'']))"

definition configured_jito_tip_percentile :: "(string \<Rightarrow> string option) \<Rightarrow> string" where
  "configured_jito_tip_percentile env =
     normalize_jito_tip_percentile (unwrap_or ''p99''
       (env_or_else env [''JITO_TIP_PERCENTILE'', ''TRENCH_AUTO_FEE_JITO_TIP_PERCENTILE'',
                         ''LAUNCHDECK_AUTO_FEE_JITO_TIP_PERCENTILE'']))"

definition configured_duration_ms :: "(string \<Rightarrow> string option) \<Rightarrow> string list \<Rightarrow> u64 \<Rightarrow> u64" where
  "configured_duration_ms env env_names default_ms =
     unwrap_or default_ms
       (option_filter (\<lambda>v. 0 < v)
         (Option.bind (find_map env env_names) (\<lambda>value. parse_u64 (str_trim value))))"

definition configured_helius_priority_refresh_interval :: "(string \<Rightarrow> string option) \<Rightarrow> u64" where
  "configured_helius_priority_refresh_interval env =
     configured_duration_ms env
       [''HELIUS_PRIORITY_REFRESH_INTERVAL_MS'', ''TRENCH_HELIUS_PRIORITY_REFRESH_INTERVAL_MS'',
        ''LAUNCHDECK_HELIUS_PRIORITY_REFRESH_INTERVAL_MS''] 15000"

definition configured_helius_priority_stale_duration :: "(string \<Rightarrow> string option) \<Rightarrow> u64" where
  "configured_helius_priority_stale_duration env =
     configured_duration_ms env [''HELIUS_PRIORITY_STALE_MS'', ''TRENCH_HELIUS_PRIORITY_STALE_MS''] 60000"

definition configured_jito_tip_refresh_interval :: "(string \<Rightarrow> string option) \<Rightarrow> u64" where
  "configured_jito_tip_refresh_interval env =
     configured_duration_ms env
       [''JITO_TIP_REFRESH_INTERVAL_MS'', ''TRENCH_JITO_TIP_REFRESH_INTERVAL_MS''] 2000"

definition configured_jito_tip_stale_duration :: "(string \<Rightarrow> string option) \<Rightarrow> u64" where
  "configured_jito_tip_stale_duration env =
     configured_duration_ms env [''JITO_TIP_STALE_MS'', ''TRENCH_JITO_TIP_STALE_MS''] 45000"

text \<open>\<^verbatim>\<open>SharedFeeMarketConfig::new\<close>.\<close>

definition new_fee_config ::
  "(string \<Rightarrow> string option) \<Rightarrow> string \<Rightarrow> string \<Rightarrow> string \<Rightarrow> string \<Rightarrow> string list \<Rightarrow> fee_config" where
  "new_fee_config env cache_path primary_rpc_url helius_priority_rpc_url owner launch_account_keys =
     \<lparr>fc_cache_path = cache_path, fc_primary_rpc_url = primary_rpc_url,
      fc_helius_priority_rpc_url = helius_priority_rpc_url, fc_owner = owner,
      fc_helius_priority_level = configured_helius_priority_level env,
      fc_jito_tip_percentile = configured_jito_tip_percentile env,
      fc_helius_refresh_interval = configured_helius_priority_refresh_interval env,
      fc_helius_max_age = configured_helius_priority_stale_duration env,
      fc_jito_max_age = configured_jito_tip_stale_duration env,
      fc_lease_ttl = default_lease_ttl,
      fc_jito_reconnect_delay = configured_jito_tip_refresh_interval env,
      fc_jito_tip_stream_endpoint = default_jito_tip_stream_endpoint,
      fc_launch_account_keys = launch_account_keys\<rparr>"

definition cache_key :: "fee_config \<Rightarrow> string" where
  "cache_key c =
     join_with ''|'' [fc_helius_priority_rpc_url c, fc_helius_priority_level c, fc_jito_tip_percentile c]"

text \<open>\<open>hash_hex\<close> is \<^verbatim>\<open>stable_hash_hex\<close>, the standard library's hash in hexadecimal.\<close>

definition lease_key :: "(string \<Rightarrow> string) \<Rightarrow> fee_config \<Rightarrow> string \<Rightarrow> string" where
  "lease_key hash_hex c kind =
     hash_hex
       (if kind = ''helius'' then
          join_with ''|'' [''helius'', fc_helius_priority_rpc_url c, fc_helius_priority_level c,
                           join_with '','' (fc_launch_account_keys c)]
        else if kind = ''jito'' then
          join_with ''|'' [''jito'', fc_jito_tip_stream_endpoint c, fc_jito_tip_percentile c]
        else cache_key c)"

text \<open>The name beside the cache file; \<open>file_stem\<close> is the path without its extension.\<close>

definition file_stem :: "string \<Rightarrow> string" where
  "file_stem path =
     (case split_on CHR ''.'' path of
        [w] \<Rightarrow> w
      | ws \<Rightarrow> join_with ''.'' (butlast ws))"

definition lease_path :: "(string \<Rightarrow> string) \<Rightarrow> fee_config \<Rightarrow> string \<Rightarrow> string" where
  "lease_path hash_hex c kind =
     join_with ''.'' [file_stem (fc_cache_path c), kind, lease_key hash_hex c kind, ''lease'']"

definition matches_cache_file :: "fee_config \<Rightarrow> cache_file \<Rightarrow> bool" where
  "matches_cache_file c f \<longleftrightarrow>
     cf_schema_version f = cache_schema_version
     \<and> cf_helius_priority_rpc_url f = fc_helius_priority_rpc_url c
     \<and> cf_helius_priority_level f = fc_helius_priority_level c
     \<and> cf_jito_tip_percentile f = fc_jito_tip_percentile c"

definition empty_snapshot :: fee_market_snapshot where
  "empty_snapshot =
     \<lparr>helius_priority_lamports = None, helius_launch_priority_lamports = None,
      helius_trade_priority_lamports = None, jito_tip_p99_lamports = None\<rparr>"

definition cache_file_from_snapshot ::
  "fee_config \<Rightarrow> fee_market_snapshot \<Rightarrow> u64 option \<Rightarrow> u64 option \<Rightarrow> u64 \<Rightarrow> cache_file" where
  "cache_file_from_snapshot c snapshot helius_updated_at jito_updated_at now =
     (let has_helius_value = (helius_priority_lamports snapshot \<noteq> None
            \<or> helius_launch_priority_lamports snapshot \<noteq> None
            \<or> helius_trade_priority_lamports snapshot \<noteq> None);
          has_jito_value = (jito_tip_p99_lamports snapshot \<noteq> None)
      in \<lparr>cf_schema_version = cache_schema_version, cf_primary_rpc_url = fc_primary_rpc_url c,
          cf_helius_priority_rpc_url = fc_helius_priority_rpc_url c,
          cf_helius_priority_level = fc_helius_priority_level c,
          cf_jito_tip_percentile = fc_jito_tip_percentile c, cf_updated_at = now,
          cf_helius_updated_at =
            (if has_helius_value then or_else helius_updated_at (Some now) else None),
          cf_jito_updated_at = (if has_jito_value then or_else jito_updated_at (Some now) else None),
          cf_helius_last_error = None, cf_jito_last_error = None, cf_snapshot = snapshot\<rparr>)"

section \<open>Reading\<close>

definition cache_source_fresh :: "u64 \<Rightarrow> u64 option \<Rightarrow> u64 \<Rightarrow> bool" where
  "cache_source_fresh now timestamp_ms max_age =
     (case timestamp_ms of None \<Rightarrow> False | Some t \<Rightarrow> sat_sub now t \<le> max_age)"

definition cache_source_age_ms :: "u64 \<Rightarrow> u64 option \<Rightarrow> u64 option" where
  "cache_source_age_ms now timestamp_ms = map_option (\<lambda>t. sat_sub now t) timestamp_ms"

definition read_lease_status :: "(string \<Rightarrow> string) \<Rightarrow> fee_config \<Rightarrow> string \<Rightarrow> u64 \<Rightarrow> fee_files \<Rightarrow> lease_status" where
  "read_lease_status hash_hex c kind now fs =
     (case ff_leases fs (lease_path hash_hex c kind) of
        None \<Rightarrow> \<lparr>lease_status_owner = None, lease_status_expires = None, lease_status_active = False\<rparr>
      | Some lease \<Rightarrow>
          \<lparr>lease_status_owner = Some (lf_owner lease), lease_status_expires = Some (lf_expires_at lease),
           lease_status_active = (now < lf_expires_at lease)\<rparr>)"

definition read_cache_file :: "fee_config \<Rightarrow> fee_files \<Rightarrow> cache_file option" where
  "read_cache_file c fs = ff_caches fs (fc_cache_path c)"

definition read_shared_fee_market_snapshot ::
  "(string \<Rightarrow> string) \<Rightarrow> fee_config \<Rightarrow> u64 \<Rightarrow> fee_files \<Rightarrow> snapshot_status option" where
  "read_shared_fee_market_snapshot hash_hex c now fs =
     (case option_filter (matches_cache_file c) (read_cache_file c fs) of
        None \<Rightarrow> None
      | Some cache \<Rightarrow>
          Some \<lparr>status_snapshot = cf_snapshot cache,
                helius_fresh = cache_source_fresh now (cf_helius_updated_at cache) (fc_helius_max_age c),
                jito_fresh = cache_source_fresh now (cf_jito_updated_at cache) (fc_jito_max_age c),
                cache_age_ms = Some (sat_sub now (cf_updated_at cache)),
                helius_age_ms = cache_source_age_ms now (cf_helius_updated_at cache),
                jito_age_ms = cache_source_age_ms now (cf_jito_updated_at cache),
                helius_last_error = cf_helius_last_error cache,
                jito_last_error = cf_jito_last_error cache,
                helius_lease = read_lease_status hash_hex c ''helius'' now fs,
                jito_lease = read_lease_status hash_hex c ''jito'' now fs\<rparr>)"

definition get_memory_cache_snapshot :: "fee_config \<Rightarrow> u64 \<Rightarrow> memory_cache \<Rightarrow> fee_market_snapshot option" where
  "get_memory_cache_snapshot c now mem =
     (case mem (cache_key c) of
        None \<Rightarrow> None
      | Some (snapshot, fetched_at) \<Rightarrow>
          if min (fc_helius_max_age c) (fc_jito_max_age c) < sat_sub now fetched_at then None
          else Some snapshot)"

definition put_memory_cache_snapshot ::
  "fee_config \<Rightarrow> fee_market_snapshot \<Rightarrow> u64 \<Rightarrow> memory_cache \<Rightarrow> memory_cache" where
  "put_memory_cache_snapshot c snapshot now mem = mem(cache_key c \<mapsto> (snapshot, now))"

section \<open>Updating\<close>

text \<open>
  The cache file is updated without a lock: \<open>update_base\<close> is the read, \<open>update_write\<close> the write,
  and other processes may run between the two.
\<close>

definition update_base :: "fee_config \<Rightarrow> u64 \<Rightarrow> fee_files \<Rightarrow> cache_file" where
  "update_base c now fs =
     unwrap_or (cache_file_from_snapshot c empty_snapshot None None now)
       (option_filter (matches_cache_file c) (read_cache_file c fs))"

definition update_write :: "fee_config \<Rightarrow> cache_file \<Rightarrow> fee_files \<Rightarrow> fee_files" where
  "update_write c cache fs = fs\<lparr>ff_caches := (ff_caches fs)(fc_cache_path c \<mapsto> cache)\<rparr>"

type_synonym cache_updater = "cache_file \<Rightarrow> u64 \<Rightarrow> cache_file"

definition updated_cache :: "cache_updater \<Rightarrow> cache_file \<Rightarrow> u64 \<Rightarrow> cache_file" where
  "updated_cache updater cache now = (updater cache now)\<lparr>cf_updated_at := now\<rparr>"

text \<open>\<open>io_ok\<close> says whether the write succeeds; a failed one leaves file and memory alone.\<close>

definition update_shared_cache ::
  "fee_config \<Rightarrow> cache_updater \<Rightarrow> u64 \<Rightarrow> bool \<Rightarrow> fee_files \<times> memory_cache
     \<Rightarrow> (string + unit) \<times> fee_files \<times> memory_cache" where
  "update_shared_cache c updater now io_ok state =
     (let (fs, mem) = state;
          cache = updated_cache updater (update_base c now fs) now
      in if io_ok then
           (Inr (), update_write c cache fs, put_memory_cache_snapshot c (cf_snapshot cache) now mem)
         else (Inl ''Failed to replace fee-market cache file'', state))"

definition helius_updater :: "fee_market_snapshot \<Rightarrow> cache_updater" where
  "helius_updater snapshot cache now =
     (let s = cf_snapshot cache;
          s' = s\<lparr>helius_priority_lamports :=
                  or_else (helius_priority_lamports snapshot) (helius_priority_lamports s),
                helius_launch_priority_lamports :=
                  or_else (helius_launch_priority_lamports snapshot) (helius_launch_priority_lamports s),
                helius_trade_priority_lamports :=
                  or_else (helius_trade_priority_lamports snapshot) (helius_trade_priority_lamports s)\<rparr>;
          updated = (helius_priority_lamports snapshot \<noteq> None
            \<or> helius_launch_priority_lamports snapshot \<noteq> None
            \<or> helius_trade_priority_lamports snapshot \<noteq> None)
      in if updated
         then cache\<lparr>cf_snapshot := s', cf_helius_updated_at := Some now, cf_helius_last_error := None\<rparr>
         else cache\<lparr>cf_snapshot := s'\<rparr>)"

definition jito_updater :: "u64 option \<Rightarrow> cache_updater" where
  "jito_updater tip cache now =
     (let cache = cache\<lparr>cf_snapshot := (cf_snapshot cache)\<lparr>jito_tip_p99_lamports := tip\<rparr>\<rparr>
      in if tip \<noteq> None then cache\<lparr>cf_jito_updated_at := Some now, cf_jito_last_error := None\<rparr>
         else cache\<lparr>cf_jito_updated_at := None\<rparr>)"

definition helius_error_updater :: "string \<Rightarrow> cache_updater" where
  "helius_error_updater e cache now = cache\<lparr>cf_helius_last_error := Some e\<rparr>"

definition jito_error_updater :: "string \<Rightarrow> cache_updater" where
  "jito_error_updater e cache now = cache\<lparr>cf_jito_last_error := Some e\<rparr>"

definition update_helius_snapshot where
  "update_helius_snapshot c snapshot = update_shared_cache c (helius_updater snapshot)"

definition update_jito_tip_snapshot where
  "update_jito_tip_snapshot c tip = update_shared_cache c (jito_updater tip)"

definition record_helius_error :: "fee_config \<Rightarrow> string \<Rightarrow> u64 \<Rightarrow> bool \<Rightarrow> fee_files \<times> memory_cache
     \<Rightarrow> fee_files \<times> memory_cache" where
  "record_helius_error c e now io_ok state =
     snd (update_shared_cache c (helius_error_updater e) now io_ok state)"

definition record_jito_error :: "fee_config \<Rightarrow> string \<Rightarrow> u64 \<Rightarrow> bool \<Rightarrow> fee_files \<times> memory_cache
     \<Rightarrow> fee_files \<times> memory_cache" where
  "record_jito_error c e now io_ok state =
     snd (update_shared_cache c (jito_error_updater e) now io_ok state)"

definition cache_full_snapshot :: "fee_config \<Rightarrow> fee_market_snapshot \<Rightarrow> u64 \<Rightarrow> bool
     \<Rightarrow> fee_files \<times> memory_cache \<Rightarrow> (string + unit) \<times> fee_files \<times> memory_cache" where
  "cache_full_snapshot c snapshot now io_ok state =
     (let (fs, mem) = state
      in if io_ok then
           (Inr (), update_write c (cache_file_from_snapshot c snapshot (Some now) (Some now) now) fs,
            put_memory_cache_snapshot c snapshot now mem)
         else (Inl ''Failed to replace fee-market cache file'', state))"

section \<open>Leases\<close>

text \<open>
  How far the writing of a lease file gets: not opened or locked, not truncated, truncated but
  not written (the file no longer parses), written but not synchronised, done.
\<close>

datatype lease_io = Open_Failed | Truncate_Failed | Write_Failed | Sync_Failed | Lease_Written

definition acquire_lease ::
  "(string \<Rightarrow> string) \<Rightarrow> fee_config \<Rightarrow> string \<Rightarrow> bool \<Rightarrow> u64 \<Rightarrow> lease_io \<Rightarrow> fee_files \<Rightarrow> bool \<times> fee_files" where
  "acquire_lease hash_hex c kind replace_other_owner now io fs =
     (let path = lease_path hash_hex c kind;
          lease = \<lparr>lf_owner = fc_owner c, lf_expires_at = sat_add now (fc_lease_ttl c)\<rparr>;
          written = fs\<lparr>ff_leases := (ff_leases fs)(path \<mapsto> lease)\<rparr>
      in if io = Open_Failed then (False, fs)
         else if (case ff_leases fs path of
                    Some existing \<Rightarrow> \<not> replace_other_owner \<and> now < lf_expires_at existing
                      \<and> lf_owner existing \<noteq> fc_owner c
                  | None \<Rightarrow> False)
         then (False, fs)
         else case io of
             Truncate_Failed \<Rightarrow> (False, fs)
           | Write_Failed \<Rightarrow> (False, fs\<lparr>ff_leases := (ff_leases fs)(path := None)\<rparr>)
           | Sync_Failed \<Rightarrow> (False, written)
           | _ \<Rightarrow> (True, written))"

definition try_acquire_lease where
  "try_acquire_lease hash_hex c kind = acquire_lease hash_hex c kind False"

definition force_acquire_lease where
  "force_acquire_lease hash_hex c kind = acquire_lease hash_hex c kind True"

section \<open>Refreshing\<close>

text \<open>
  The two estimate requests combined: the generic one must succeed, a failed launch-specific one
  counts as missing. The answers of the service are arguments.
\<close>

definition fetch_helius_priority_snapshot_live ::
  "fee_config \<Rightarrow> string + u64 option \<Rightarrow> string + u64 option \<Rightarrow> string + fee_market_snapshot" where
  "fetch_helius_priority_snapshot_live c generic launch =
     (let launch_priority = (if fc_launch_account_keys c = [] then Inr None else launch)
      in rbind generic (\<lambda>priority.
           Inr \<lparr>helius_priority_lamports = priority,
                helius_launch_priority_lamports =
                  (case launch_priority of Inl _ \<Rightarrow> None | Inr v \<Rightarrow> v),
                helius_trade_priority_lamports = None, jito_tip_p99_lamports = None\<rparr>))"

text \<open>The payload of the estimate request, decoded.\<close>

definition helius_priority_estimate_of_payload ::
  "f64_ops \<Rightarrow> fee_config \<Rightarrow> (json \<Rightarrow> string) \<Rightarrow> json \<Rightarrow> string + u64 option" where
  "helius_priority_estimate_of_payload ops c show_json payload =
     (case json_get payload ''error'' of
        Some e \<Rightarrow> Inl (''Helius priority estimate failed: '' @ show_json e)
      | None \<Rightarrow>
          Inr (parse_helius_priority_estimate_result ops (unwrap_or payload (json_get payload ''result''))
                 (fc_helius_priority_level c)))"

definition missing_percentile :: "fee_config \<Rightarrow> string" where
  "missing_percentile c = ''Jito tip floor response did not include '' @ fc_jito_tip_percentile c"

definition store_jito_answer ::
  "fee_config \<Rightarrow> string + u64 option \<Rightarrow> u64 \<Rightarrow> bool \<Rightarrow> fee_files \<times> memory_cache
     \<Rightarrow> (string + unit) \<times> fee_files \<times> memory_cache" where
  "store_jito_answer c answer now io_ok state =
     (case answer of
        Inr (Some tip) \<Rightarrow> update_jito_tip_snapshot c (Some tip) now io_ok state
      | Inr None \<Rightarrow> (Inr (), record_jito_error c (missing_percentile c) now io_ok state)
      | Inl e \<Rightarrow> (Inr (), record_jito_error c e now io_ok state))"

definition fetch_fee_market_snapshot_live ::
  "(string \<Rightarrow> string) \<Rightarrow> fee_config \<Rightarrow> string + fee_market_snapshot \<Rightarrow> string + u64 option \<Rightarrow> u64 \<Rightarrow> bool
     \<Rightarrow> fee_files \<times> memory_cache \<Rightarrow> (string + fee_market_snapshot) \<times> fee_files \<times> memory_cache" where
  "fetch_fee_market_snapshot_live hash_hex c helius jito now io_ok state =
     (case helius of
        Inl e \<Rightarrow> (Inl e, record_helius_error c e now io_ok state)
      | Inr snapshot \<Rightarrow>
          (case update_helius_snapshot c snapshot now io_ok state of
             (Inl e, state) \<Rightarrow> (Inl e, state)
           | (Inr _, state) \<Rightarrow>
               (case store_jito_answer c jito now io_ok state of
                  (Inl e, state) \<Rightarrow> (Inl e, state)
                | (Inr _, state) \<Rightarrow>
                    (ok_or (map_option status_snapshot
                              (read_shared_fee_market_snapshot hash_hex c now (fst state)))
                       ''live fee-market refresh did not write a readable snapshot'', state))))"

definition fetch_fee_market_snapshot ::
  "(string \<Rightarrow> string) \<Rightarrow> fee_config \<Rightarrow> string + fee_market_snapshot \<Rightarrow> string + u64 option \<Rightarrow> u64
     \<Rightarrow> lease_io \<Rightarrow> bool \<Rightarrow> fee_files \<times> memory_cache
     \<Rightarrow> (string + fee_market_snapshot) \<times> fee_files \<times> memory_cache" where
  "fetch_fee_market_snapshot hash_hex c helius jito now io io_ok state =
     (let (fs, mem) = state
      in case get_memory_cache_snapshot c now mem of
           Some snapshot \<Rightarrow> (Inr snapshot, state)
         | None \<Rightarrow>
             let status = read_shared_fee_market_snapshot hash_hex c now fs
             in case option_filter (\<lambda>st. helius_fresh st \<and> jito_fresh st) status of
                  Some st \<Rightarrow>
                    (Inr (status_snapshot st),
                     (fs, put_memory_cache_snapshot c (status_snapshot st) now mem))
                | None \<Rightarrow>
                    let (leased, fs) = try_acquire_lease hash_hex c ''live'' now io fs
                    in if leased
                       then fetch_fee_market_snapshot_live hash_hex c helius jito now io_ok (fs, mem)
                       else
                         (case read_shared_fee_market_snapshot hash_hex c now fs of
                            Some st \<Rightarrow> (Inr (status_snapshot st), (fs, mem))
                          | None \<Rightarrow>
                              (Inl ''Fee market snapshot unavailable and another process owns the fetch lease.'',
                               (fs, mem))))"

definition initialize_fee_market_snapshot ::
  "(string \<Rightarrow> string) \<Rightarrow> fee_config \<Rightarrow> string + fee_market_snapshot \<Rightarrow> string + u64 option \<Rightarrow> u64
     \<Rightarrow> (string \<Rightarrow> lease_io) \<Rightarrow> bool \<Rightarrow> fee_files \<times> memory_cache
     \<Rightarrow> (string list + snapshot_status) \<times> fee_files \<times> memory_cache" where
  "initialize_fee_market_snapshot hash_hex c helius jito now io io_ok state =
     (let (fs, mem) = state;
          fs = fold (\<lambda>kind fs. snd (force_acquire_lease hash_hex c kind now (io kind) fs))
                 [''live'', ''helius'', ''jito''] fs;
          (errors, state) =
            (case helius of
               Inr snapshot \<Rightarrow>
                 (case update_helius_snapshot c snapshot now io_ok (fs, mem) of
                    (Inl e, state) \<Rightarrow> ([''helius cache update failed: '' @ e], state)
                  | (Inr _, state) \<Rightarrow> ([], state))
             | Inl e \<Rightarrow> ([''helius refresh failed: '' @ e], record_helius_error c e now io_ok (fs, mem)));
          (errors, state) =
            (case jito of
               Inr (Some tip) \<Rightarrow>
                 (case update_jito_tip_snapshot c (Some tip) now io_ok state of
                    (Inl e, state) \<Rightarrow> (errors @ [''jito cache update failed: '' @ e], state)
                  | (Inr _, state) \<Rightarrow> (errors, state))
             | Inr None \<Rightarrow>
                 (errors @ [''jito refresh failed: '' @ missing_percentile c],
                  record_jito_error c (missing_percentile c) now io_ok state)
             | Inl e \<Rightarrow>
                 (errors @ [''jito refresh failed: '' @ e], record_jito_error c e now io_ok state))
      in case read_shared_fee_market_snapshot hash_hex c now (fst state) of
           None \<Rightarrow> (Inl errors, state)
         | Some st \<Rightarrow> if helius_fresh st \<and> jito_fresh st then (Inr st, state) else (Inl errors, state))"

definition refresh_helius_if_leased ::
  "(string \<Rightarrow> string) \<Rightarrow> fee_config \<Rightarrow> string + fee_market_snapshot \<Rightarrow> u64 \<Rightarrow> lease_io \<Rightarrow> bool
     \<Rightarrow> fee_files \<times> memory_cache \<Rightarrow> refresh_outcome \<times> fee_files \<times> memory_cache" where
  "refresh_helius_if_leased hash_hex c helius now io io_ok state =
     (let (fs, mem) = state;
          (leased, fs) = try_acquire_lease hash_hex c ''helius'' now io fs
      in if \<not> leased then (Skipped, fs, mem)
         else case helius of
             Inr snapshot \<Rightarrow> (Refreshed, snd (update_helius_snapshot c snapshot now io_ok (fs, mem)))
           | Inl e \<Rightarrow> (Failed, record_helius_error c e now io_ok (fs, mem)))"

definition refresh_jito_http_fallback_if_stale ::
  "(string \<Rightarrow> string) \<Rightarrow> fee_config \<Rightarrow> string + u64 option \<Rightarrow> u64 \<Rightarrow> bool
     \<Rightarrow> fee_files \<times> memory_cache \<Rightarrow> fee_files \<times> memory_cache" where
  "refresh_jito_http_fallback_if_stale hash_hex c answer now io_ok state =
     (let needs_fallback =
            (case read_shared_fee_market_snapshot hash_hex c now (fst state) of
               Some st \<Rightarrow> \<not> jito_fresh st | None \<Rightarrow> True)
      in if needs_fallback then snd (store_jito_answer c answer now io_ok state) else state)"

text \<open>
  The tip stream: each message is handled at its time, a text or binary message with a tip
  updates the cache and renews the lease (whatever that returns), a closed stream, a read error
  and a silence as long as the maximal age end it with an error.
\<close>

datatype stream_event =
    Stream_Payload "u64 option"
  | Stream_Ping bool
  | Stream_Ignored
  | Stream_Close
  | Stream_Error string
  | Stream_Tick

fun consume_jito_tip_stream_updates ::
  "(string \<Rightarrow> string) \<Rightarrow> fee_config \<Rightarrow> (u64 \<times> stream_event \<times> lease_io \<times> bool) list \<Rightarrow> u64
     \<Rightarrow> fee_files \<times> memory_cache \<Rightarrow> string option \<times> fee_files \<times> memory_cache" where
  "consume_jito_tip_stream_updates hash_hex c [] last_message_at state = (None, state)"
| "consume_jito_tip_stream_updates hash_hex c ((now, ev, io, io_ok) # rest) last_message_at state =
     (case ev of
        Stream_Tick \<Rightarrow>
          if fc_jito_max_age c \<le> sat_sub now last_message_at
          then (Some ''Timed out waiting for Jito tip stream update.'', state)
          else consume_jito_tip_stream_updates hash_hex c rest last_message_at state
      | Stream_Error e \<Rightarrow> (Some (''Jito tip stream read failed: '' @ e), state)
      | Stream_Close \<Rightarrow> (Some ''Jito tip stream closed.'', state)
      | Stream_Ping pong_ok \<Rightarrow>
          if pong_ok then consume_jito_tip_stream_updates hash_hex c rest now state
          else (Some ''Jito tip stream pong failed'', state)
      | Stream_Ignored \<Rightarrow> consume_jito_tip_stream_updates hash_hex c rest now state
      | Stream_Payload None \<Rightarrow> consume_jito_tip_stream_updates hash_hex c rest now state
      | Stream_Payload (Some tip) \<Rightarrow>
          let (_, fs, mem) = update_jito_tip_snapshot c (Some tip) now io_ok state;
              (_, fs) = try_acquire_lease hash_hex c ''jito'' now io fs
          in consume_jito_tip_stream_updates hash_hex c rest now (fs, mem))"

text \<open>
  \<open>first\<close> and \<open>second\<close> are the answers of the two fallback requests with their times, \<open>stream\<close>
  the events of the tip stream. The stream never ends without an error; events still to come are
  the result \<^term>\<open>None\<close>.
\<close>

definition refresh_jito_if_leased ::
  "(string \<Rightarrow> string) \<Rightarrow> fee_config \<Rightarrow> u64 \<Rightarrow> lease_io \<Rightarrow> (string + u64 option) \<times> bool
     \<Rightarrow> (u64 \<times> stream_event \<times> lease_io \<times> bool) list \<Rightarrow> u64 \<times> (string + u64 option) \<times> bool
     \<Rightarrow> fee_files \<times> memory_cache \<Rightarrow> refresh_outcome option \<times> fee_files \<times> memory_cache" where
  "refresh_jito_if_leased hash_hex c now io first stream second state =
     (let (fs, mem) = state;
          (leased, fs) = try_acquire_lease hash_hex c ''jito'' now io fs
      in if \<not> leased then (Some Skipped, fs, mem)
         else
           let state = refresh_jito_http_fallback_if_stale hash_hex c (fst first) now (snd first) (fs, mem)
           in case consume_jito_tip_stream_updates hash_hex c stream now state of
                (None, state) \<Rightarrow> (None, state)
              | (Some e, state) \<Rightarrow>
                  let (later, answer, io_ok) = second;
                      state = record_jito_error c e later io_ok state
                  in (Some Failed, refresh_jito_http_fallback_if_stale hash_hex c answer later io_ok state))"

section \<open>Leases exclude other owners\<close>

record lease_attempt =
  la_config :: fee_config
  la_kind :: string
  la_now :: u64
  la_io :: lease_io

fun run_attempts :: "(string \<Rightarrow> string) \<Rightarrow> lease_attempt list \<Rightarrow> fee_files \<Rightarrow> fee_files" where
  "run_attempts hash_hex [] fs = fs"
| "run_attempts hash_hex (a # as) fs =
     run_attempts hash_hex as
       (snd (try_acquire_lease hash_hex (la_config a) (la_kind a) (la_now a) (la_io a) fs))"

lemma acquired_lease:
  assumes "acquire_lease hash_hex c kind r now io fs = (True, fs')"
  shows "ff_leases fs' (lease_path hash_hex c kind)
         = Some \<lparr>lf_owner = fc_owner c, lf_expires_at = sat_add now (fc_lease_ttl c)\<rparr>"
  using assms by (auto simp: acquire_lease_def Let_def split: if_splits lease_io.splits)

lemma try_acquire_needs_expiry:
  assumes "try_acquire_lease hash_hex c kind now io fs = (True, fs')"
    and "ff_leases fs (lease_path hash_hex c kind) = Some lease" "lf_owner lease \<noteq> fc_owner c"
  shows "lf_expires_at lease \<le> now"
  using assms by (auto simp: try_acquire_lease_def acquire_lease_def Let_def not_less split: if_splits)

text \<open>
  A lease on \<open>path\<close> that \<open>owner\<close> holds until \<open>until\<close>, or whose time is over at \<open>now\<close>.
\<close>

definition held_until :: "fee_files \<Rightarrow> string \<Rightarrow> string \<Rightarrow> u64 \<Rightarrow> bool" where
  "held_until fs path owner until \<longleftrightarrow>
     (\<exists>lease. ff_leases fs path = Some lease \<and> lf_owner lease = owner \<and> until \<le> lf_expires_at lease)"

lemma sat_add_mono: "a \<le> b \<Longrightarrow> sat_add a k \<le> sat_add b k" for a b k :: "'a::len word"
  by (simp add: word_le_nat_alt unat_sat_add min_le_iff_disj)

lemma attempt_keeps_hold:
  assumes "held_until fs path owner until" "now < until" "io \<noteq> Write_Failed"
    and "fc_owner c = owner \<longrightarrow> until \<le> sat_add now (fc_lease_ttl c)"
  shows "held_until (snd (try_acquire_lease hash_hex c kind now io fs)) path owner until"
proof -
  obtain lease where lease: "ff_leases fs path = Some lease" "lf_owner lease = owner" "until \<le> lf_expires_at lease"
    using assms(1) by (auto simp: held_until_def)
  have live: "now < lf_expires_at lease" using assms(2) lease(3) by simp
  show ?thesis
    using lease live assms(3,4)
    by (cases "lease_path hash_hex c kind = path"; cases io; cases "fc_owner c = owner")
      (auto simp: try_acquire_lease_def acquire_lease_def Let_def held_until_def split: option.splits)
qed

lemma attempts_keep_hold:
  assumes "held_until fs path owner until" "\<forall>a\<in>set as. la_now a < until"
    and "\<forall>a\<in>set as. la_io a \<noteq> Write_Failed"
    and "\<forall>a\<in>set as. fc_owner (la_config a) = owner \<longrightarrow> until \<le> sat_add (la_now a) (fc_lease_ttl (la_config a))"
  shows "held_until (run_attempts hash_hex as fs) path owner until"
  using assms
proof (induction as arbitrary: fs)
  case (Cons a as)
  have "held_until (snd (try_acquire_lease hash_hex (la_config a) (la_kind a) (la_now a) (la_io a) fs)) path owner until"
    by (rule attempt_keeps_hold) (use Cons.prems in auto)
  then show ?case using Cons by simp
qed simp



definition sample_fee_config :: "string \<Rightarrow> fee_config" where
  "sample_fee_config owner =
     \<lparr>fc_cache_path = ''fees.json'', fc_primary_rpc_url = ''rpc'', fc_helius_priority_rpc_url = ''helius'',
      fc_owner = owner, fc_helius_priority_level = ''High'', fc_jito_tip_percentile = ''p99'',
      fc_helius_refresh_interval = 15000, fc_helius_max_age = 60000, fc_jito_max_age = 45000,
      fc_lease_ttl = 60000, fc_jito_reconnect_delay = 2000, fc_jito_tip_stream_endpoint = ''ws'',
      fc_launch_account_keys = [''launch'']\<rparr>"

definition no_files :: fee_files where
  "no_files = \<lparr>ff_caches = Map.empty, ff_leases = Map.empty\<rparr>"

lemma sample_lease_paths:
  "lease_path hash_hex (sample_fee_config a) kind = lease_path hash_hex (sample_fee_config b) kind"
  by (simp add: lease_path_def lease_key_def cache_key_def sample_fee_config_def)


section \<open>What a status says\<close>

definition has_helius_value :: "fee_market_snapshot \<Rightarrow> bool" where
  "has_helius_value s \<longleftrightarrow> helius_priority_lamports s \<noteq> None
     \<or> helius_launch_priority_lamports s \<noteq> None \<or> helius_trade_priority_lamports s \<noteq> None"

text \<open>A cache file whose time stamps stand for values.\<close>

definition cache_wf :: "cache_file \<Rightarrow> bool" where
  "cache_wf f \<longleftrightarrow>
     (cf_helius_updated_at f \<noteq> None \<longrightarrow> has_helius_value (cf_snapshot f))
     \<and> (cf_jito_updated_at f \<noteq> None \<longleftrightarrow> jito_tip_p99_lamports (cf_snapshot f) \<noteq> None)"

definition files_wf :: "fee_files \<Rightarrow> bool" where
  "files_wf fs \<longleftrightarrow> (\<forall>f\<in>ran (ff_caches fs). cache_wf f)"

lemma fresh_cache_wf: "cache_wf (cache_file_from_snapshot c s h j now)"
  by (auto simp: cache_file_from_snapshot_def cache_wf_def has_helius_value_def or_else_def Let_def
      split: option.split)

lemma write_wf: "files_wf fs \<Longrightarrow> cache_wf f \<Longrightarrow> files_wf (update_write c f fs)"
  by (auto simp: files_wf_def update_write_def ran_def)

lemma base_wf: "files_wf fs \<Longrightarrow> cache_wf (update_base c now fs)"
  using fresh_cache_wf
  by (auto simp: update_base_def files_wf_def ran_def read_cache_file_def option_filter_def unwrap_or_def
      split: option.splits)

locale sound_updater =
  fixes upd :: cache_updater
  assumes keeps_wf: "cache_wf f \<Longrightarrow> cache_wf (upd f now)"
begin

lemma update_keeps_wf:
  "files_wf (fst state) \<Longrightarrow> files_wf (fst (snd (update_shared_cache c upd now io_ok state)))"
proof -
  assume fs: "files_wf (fst state)"
  have "cache_wf (updated_cache upd (update_base c now (fst state)) now)"
    using keeps_wf [OF base_wf [OF fs, of c now], of now] by (simp add: updated_cache_def cache_wf_def)
  with fs show ?thesis
    by (auto simp: update_shared_cache_def Let_def write_wf split: prod.split)
qed

end

interpretation helius_update: sound_updater "helius_updater s" for s
  by unfold_locales
    (auto simp: helius_updater_def cache_wf_def has_helius_value_def or_else_def Let_def split: option.splits)

interpretation jito_update: sound_updater "jito_updater t" for t
  by unfold_locales (auto simp: jito_updater_def cache_wf_def has_helius_value_def Let_def)

interpretation helius_error: sound_updater "helius_error_updater e" for e
  by unfold_locales (simp add: helius_error_updater_def cache_wf_def)

interpretation jito_error: sound_updater "jito_error_updater e" for e
  by unfold_locales (simp add: jito_error_updater_def cache_wf_def)

lemma lease_keeps_caches [simp]: "ff_caches (snd (acquire_lease h c kind r now io fs)) = ff_caches fs"
  by (auto simp: acquire_lease_def Let_def split: lease_io.split option.split)

lemma acquire_keeps_wf [simp]: "files_wf (snd (acquire_lease h c kind r now io fs)) \<longleftrightarrow> files_wf fs"
  by (simp add: files_wf_def)

lemma store_jito_keeps_wf:
  "files_wf (fst state) \<Longrightarrow> files_wf (fst (snd (store_jito_answer c answer now io_ok state)))"
  by (auto simp: store_jito_answer_def update_jito_tip_snapshot_def record_jito_error_def
      jito_update.update_keeps_wf jito_error.update_keeps_wf split: sum.split option.split)

lemma refresh_helius_keeps_wf:
  "files_wf (fst state) \<Longrightarrow> files_wf (fst (snd (refresh_helius_if_leased h c helius now io io_ok state)))"
proof -
  assume fs: "files_wf (fst state)"
  obtain fs0 mem where state: "state = (fs0, mem)" by (cases state)
  obtain ok fs1 where l: "try_acquire_lease h c ''helius'' now io fs0 = (ok, fs1)" by fastforce
  have "files_wf fs1"
    using l fs state acquire_keeps_wf [of h c "''helius''" False now io fs0]
    by (simp add: try_acquire_lease_def)
  then show ?thesis
    using helius_update.update_keeps_wf [of "(fs1, mem)"] helius_error.update_keeps_wf [of "(fs1, mem)"]
    by (simp add: refresh_helius_if_leased_def Let_def state l update_helius_snapshot_def
        record_helius_error_def split: sum.split)
qed

lemma jito_fallback_keeps_wf:
  "files_wf (fst state)
   \<Longrightarrow> files_wf (fst (refresh_jito_http_fallback_if_stale h c answer now io_ok state))"
  by (simp add: refresh_jito_http_fallback_if_stale_def Let_def store_jito_keeps_wf)

lemma stream_keeps_wf:
  "files_wf (fst state) \<Longrightarrow> files_wf (fst (snd (consume_jito_tip_stream_updates h c evs t state)))"
proof (induction h c evs t state rule: consume_jito_tip_stream_updates.induct)
  case (2 h c now ev io io_ok rest t state)
  show ?case
  proof (cases "\<exists>tip. ev = Stream_Payload (Some tip)")
    case True
    then obtain tip where ev: "ev = Stream_Payload (Some tip)" by blast
    obtain r fs mem where u: "update_jito_tip_snapshot c (Some tip) now io_ok state = (r, fs, mem)"
      by (metis prod_cases3)
    obtain ok fs' where l: "try_acquire_lease h c ''jito'' now io fs = (ok, fs')" by fastforce
    have "files_wf (fst (snd (update_shared_cache c (jito_updater (Some tip)) now io_ok state)))"
      by (rule jito_update.update_keeps_wf [OF "2.prems"])
    then have "files_wf fs" using u by (simp add: update_jito_tip_snapshot_def)
    then have "files_wf fs'"
      using l acquire_keeps_wf [of h c "''jito''" False now io fs] by (simp add: try_acquire_lease_def)
    then show ?thesis using 2 ev u l by simp
  next
    case False
    then show ?thesis using 2 by (cases ev) auto
  qed
qed simp


lemma try_acquire_wf:
  "try_acquire_lease h c kind now io fs = (ok, fs') \<Longrightarrow> files_wf fs \<Longrightarrow> files_wf fs'"
  using acquire_keeps_wf [of h c kind False now io fs] by (simp add: try_acquire_lease_def)

lemma refresh_jito_keeps_wf:
  assumes "files_wf (fst state)"
  shows "files_wf (fst (snd (refresh_jito_if_leased h c now io first stream second state)))"
proof -
  obtain fs0 mem where state: "state = (fs0, mem)" by (cases state)
  obtain ok fs1 where l: "try_acquire_lease h c ''jito'' now io fs0 = (ok, fs1)" by fastforce
  have fs1: "files_wf fs1" using try_acquire_wf [OF l] assms state by simp
  let ?st = "refresh_jito_http_fallback_if_stale h c (fst first) now (snd first) (fs1, mem)"
  have st: "files_wf (fst ?st)" using jito_fallback_keeps_wf [of "(fs1, mem)"] fs1 by simp
  obtain r st2 where stream: "consume_jito_tip_stream_updates h c stream now ?st = (r, st2)" by (metis surj_pair)
  have st2: "files_wf (fst st2)" using stream_keeps_wf [OF st, of h c stream now] stream by simp
  have "files_wf (fst (record_jito_error c e t io' st2))" for e t io'
    unfolding record_jito_error_def by (rule jito_error.update_keeps_wf [OF st2])
  then show ?thesis
    using fs1 st2
    by (cases r; cases second)
      (simp_all add: refresh_jito_if_leased_def Let_def state l stream jito_fallback_keeps_wf)
qed

lemma live_keeps_wf:
  assumes "files_wf (fst state)"
  shows "files_wf (fst (snd (fetch_fee_market_snapshot_live h c helius jito now io_ok state)))"
proof (cases helius)
  case (Inl e)
  then show ?thesis
    using helius_error.update_keeps_wf [OF assms]
    by (simp add: fetch_fee_market_snapshot_live_def record_helius_error_def)
next
  case (Inr s)
  obtain r st where u: "update_helius_snapshot c s now io_ok state = (r, st)" by (metis surj_pair)
  have st: "files_wf (fst st)"
    using helius_update.update_keeps_wf [OF assms, of c s now io_ok] u
    by (simp add: update_helius_snapshot_def)
  then have "files_wf (fst (snd (store_jito_answer c jito now io_ok st)))"
    by (rule store_jito_keeps_wf)
  with st show ?thesis
    by (auto simp: fetch_fee_market_snapshot_live_def Inr u split: sum.split prod.split)
qed

lemma fetch_keeps_wf:
  assumes "files_wf (fst state)"
  shows "files_wf (fst (snd (fetch_fee_market_snapshot h c helius jito now io io_ok state)))"
proof -
  obtain fs0 mem where state: "state = (fs0, mem)" by (cases state)
  obtain ok fs1 where l: "try_acquire_lease h c ''live'' now io fs0 = (ok, fs1)" by fastforce
  have fs1: "files_wf fs1" using try_acquire_wf [OF l] assms state by simp
  then have "files_wf (fst (snd (fetch_fee_market_snapshot_live h c helius jito now io_ok (fs1, mem))))"
    by (intro live_keeps_wf) simp
  with fs1 show ?thesis
    using assms
    by (auto simp: fetch_fee_market_snapshot_def Let_def state l split: option.split)
qed

lemma forced_keeps_wf [simp]:
  "files_wf (fold (\<lambda>kind fs. snd (force_acquire_lease h c kind now (io kind) fs)) kinds fs) \<longleftrightarrow> files_wf fs"
  by (induction kinds arbitrary: fs) (simp_all add: force_acquire_lease_def)

lemma initialize_keeps_wf:
  assumes "files_wf (fst state)"
  shows "files_wf (fst (snd (initialize_fee_market_snapshot h c helius jito now io io_ok state)))"
proof -
  obtain fs0 mem where state: "state = (fs0, mem)" by (cases state)
  let ?fs = "fold (\<lambda>kind fs. snd (force_acquire_lease h c kind now (io kind) fs)) [''live'', ''helius'', ''jito''] fs0"
  have fs: "files_wf (fst (?fs, mem))" using assms state by (simp only: fst_conv forced_keeps_wf)
  let ?h = "case helius of Inr s \<Rightarrow>
      (case update_helius_snapshot c s now io_ok (?fs, mem) of
         (Inl e, state) \<Rightarrow> ([''helius cache update failed: '' @ e], state) | (Inr _, state) \<Rightarrow> ([], state))
    | Inl e \<Rightarrow> ([''helius refresh failed: '' @ e], record_helius_error c e now io_ok (?fs, mem))"
  have h: "files_wf (fst (snd ?h))"
    using helius_update.update_keeps_wf [OF fs, of c _ now io_ok] helius_error.update_keeps_wf [OF fs, of c _ now io_ok]
    by (auto simp: update_helius_snapshot_def record_helius_error_def split: sum.split prod.split)
      (metis snd_conv fst_conv)+
  obtain es st where hs: "?h = (es, st)" by (cases ?h)
  have st: "files_wf (fst st)" using h hs by simp
  let ?j = "case jito of
      Inr (Some tip) \<Rightarrow>
        (case update_jito_tip_snapshot c (Some tip) now io_ok st of
           (Inl e, state) \<Rightarrow> (es @ [''jito cache update failed: '' @ e], state) | (Inr _, state) \<Rightarrow> (es, state))
    | Inr None \<Rightarrow> (es @ [''jito refresh failed: '' @ missing_percentile c],
                   record_jito_error c (missing_percentile c) now io_ok st)
    | Inl e \<Rightarrow> (es @ [''jito refresh failed: '' @ e], record_jito_error c e now io_ok st)"
  have j: "files_wf (fst (snd ?j))"
    using jito_update.update_keeps_wf [OF st, of c _ now io_ok] jito_error.update_keeps_wf [OF st, of c _ now io_ok]
    by (auto simp: update_jito_tip_snapshot_def record_jito_error_def split: sum.split prod.split option.split)
      (metis snd_conv fst_conv)+
  obtain es' st' where js: "?j = (es', st')" by (cases ?j)
  have "files_wf (fst st')" using j js by simp
  then show ?thesis
    unfolding initialize_fee_market_snapshot_def Let_def state prod.case hs js
    by (auto split: option.split)
qed


text \<open>
  The states that any number of processes reach: the files they share and each one's memory. A
  process is a number; a restart clears its memory.
\<close>

inductive fee_reachable :: "(string \<Rightarrow> string) \<Rightarrow> fee_files \<Rightarrow> (nat \<Rightarrow> memory_cache) \<Rightarrow> bool" for h where
  start: "fee_reachable h no_files (\<lambda>_. Map.empty)"
| restart: "fee_reachable h fs mems \<Longrightarrow> fee_reachable h fs (mems(i := Map.empty))"
| full_snapshot:
    "fee_reachable h fs mems \<Longrightarrow> cache_full_snapshot c s now io_ok (fs, mems i) = (r, fs', m)
     \<Longrightarrow> fee_reachable h fs' (mems(i := m))"
| helius_refresh:
    "fee_reachable h fs mems \<Longrightarrow> refresh_helius_if_leased h c helius now io io_ok (fs, mems i) = (r, fs', m)
     \<Longrightarrow> fee_reachable h fs' (mems(i := m))"
| jito_refresh:
    "fee_reachable h fs mems
     \<Longrightarrow> refresh_jito_if_leased h c now io first stream second (fs, mems i) = (r', fs', m)
     \<Longrightarrow> fee_reachable h fs' (mems(i := m))"
| fetch:
    "fee_reachable h fs mems
     \<Longrightarrow> fetch_fee_market_snapshot h c helius jito now io io_ok (fs, mems i) = (s, fs', m)
     \<Longrightarrow> fee_reachable h fs' (mems(i := m))"
| initialize:
    "fee_reachable h fs mems
     \<Longrightarrow> initialize_fee_market_snapshot h c helius jito now ios io_ok (fs, mems i) = (st, fs', m)
     \<Longrightarrow> fee_reachable h fs' (mems(i := m))"

lemma full_snapshot_keeps_wf:
  "files_wf (fst state) \<Longrightarrow> files_wf (fst (snd (cache_full_snapshot c s now io_ok state)))"
  by (auto simp: cache_full_snapshot_def Let_def write_wf fresh_cache_wf split: prod.split)

lemma fee_reachable_wf: "fee_reachable h fs mems \<Longrightarrow> files_wf fs"
proof (induction rule: fee_reachable.induct)
  case start
  then show ?case by (simp add: files_wf_def no_files_def)
next
  case (full_snapshot fs mems c s now io_ok i r fs' m)
  then show ?case using full_snapshot_keeps_wf [of "(fs, mems i)" c s now io_ok] by simp
next
  case (helius_refresh fs mems c helius now io io_ok i r fs' m)
  then show ?case using refresh_helius_keeps_wf [of "(fs, mems i)" h c helius now io io_ok] by simp
next
  case (jito_refresh fs mems c now io first stream second i r' fs' m)
  then show ?case
    using refresh_jito_keeps_wf [of "(fs, mems i)" h c now io first stream second] by simp
next
  case (fetch fs mems c helius jito now io io_ok i s fs' m)
  then show ?case using fetch_keeps_wf [of "(fs, mems i)" h c helius jito now io io_ok] by simp
next
  case (initialize fs mems c helius jito now ios io_ok i st fs' m)
  then show ?case using initialize_keeps_wf [of "(fs, mems i)" h c helius jito now ios io_ok] by simp
qed



text \<open>
  The two halves of an update are not one step. When two processes both read before either
  writes, the first writer's update is gone although it reported success.
\<close>

lemma interleaved_update_is_lost:
  assumes "fc_cache_path a = fc_cache_path b"
  shows "update_write b (updated_cache ub (update_base b tb fs) tb)
           (update_write a (updated_cache ua (update_base a ta fs) ta) fs)
         = update_write b (updated_cache ub (update_base b tb fs) tb) fs"
  by (simp add: update_write_def assms)

lemma tip_and_priority_not_both_kept:
  "let a = sample_fee_config ''engine''; b = sample_fee_config ''daemon'';
       helius = helius_updater \<lparr>helius_priority_lamports = Some 5, helius_launch_priority_lamports = None,
         helius_trade_priority_lamports = None, jito_tip_p99_lamports = None\<rparr>;
       interleaved = update_write b (updated_cache (jito_updater (Some 7)) (update_base b 2 no_files) 2)
         (update_write a (updated_cache helius (update_base a 1 no_files) 1) no_files);
       sequential = fst (snd (update_shared_cache b (jito_updater (Some 7)) 2 True
         (snd (update_shared_cache a helius 1 True (no_files, Map.empty)))))
   in map_option (\<lambda>f. (helius_priority_lamports (cf_snapshot f), jito_tip_p99_lamports (cf_snapshot f)))
        (read_cache_file a interleaved) = Some (None, Some 7)
      \<and> map_option (\<lambda>f. (helius_priority_lamports (cf_snapshot f), jito_tip_p99_lamports (cf_snapshot f)))
          (read_cache_file a sequential) = Some (Some 5, Some 7)"
  by (simp add: sample_fee_config_def no_files_def update_write_def updated_cache_def update_base_def
      read_cache_file_def helius_updater_def jito_updater_def update_shared_cache_def
      cache_file_from_snapshot_def empty_snapshot_def matches_cache_file_def option_filter_def
      unwrap_or_def or_else_def Let_def)

text \<open>
  The stamp of a source covers all its estimates: a launch estimate stays fresh for as long as
  only the generic one is refreshed.
\<close>

lemma old_launch_estimate_reported_fresh:
  "let c = sample_fee_config ''engine'';
       generic = (\<lambda>v l. \<lparr>helius_priority_lamports = Some v, helius_launch_priority_lamports = l,
         helius_trade_priority_lamports = None, jito_tip_p99_lamports = None\<rparr>);
       s1 = snd (refresh_helius_if_leased id c (Inr (generic 5 (Some 9))) 0 Lease_Written True (no_files, Map.empty));
       s2 = snd (refresh_helius_if_leased id c (Inr (generic 6 None)) 1000000000 Lease_Written True s1)
   in map_option (\<lambda>st. (helius_fresh st, launch_priority_lamports (status_snapshot st)))
        (read_shared_fee_market_snapshot id c 1000000000 (fst s2)) = Some (True, Some 9)"
  by (simp add: sample_fee_config_def no_files_def update_write_def updated_cache_def update_base_def
      read_cache_file_def helius_updater_def update_shared_cache_def refresh_helius_if_leased_def
      update_helius_snapshot_def try_acquire_lease_def acquire_lease_def
      cache_file_from_snapshot_def empty_snapshot_def matches_cache_file_def option_filter_def
      unwrap_or_def or_else_def launch_priority_lamports_def read_shared_fee_market_snapshot_def
      cache_source_fresh_def sat_add_def sat_sub_def Let_def)

end
