(* ===== verification/Launchlab_Curve.thy ===== *)
theory Launchlab_Curve
  imports Complex_Main Trench_Prelude
begin

text \<open>
  The bonding-curve quotes of Raydium LaunchLab (\<^verbatim>\<open>shared-raydium-launchlab/src/lib.rs\<close>): the
  fee arithmetic, the integer square root, the three curve types and the four quote
  functions. \<^verbatim>\<open>BigUint\<close> is \<^typ>\<open>nat\<close>; its subtraction is only reached through
  \<^verbatim>\<open>big_sub\<close>, and a division by zero, which panics, is the error \<open>Panic_Divide_By_Zero\<close>.
\<close>

section \<open>Pool state and errors\<close>

record curve_pool_state =
  total_sell_a :: nat
  virtual_a :: nat
  virtual_b :: nat
  real_a :: nat
  real_b :: nat

record curve_quote_config =
  quote_pool :: curve_pool_state
  curve_type :: u8
  trade_fee_rate :: nat
  platform_fee_rate :: nat
  creator_fee_rate :: nat

datatype quote_error =
    Underflow string
  | Fee_Rate_Too_High
  | Zero_Fee_Denominator
  | Fixed_Price_Zero_Virtual_Quote
  | Fixed_Price_Zero_Virtual_Token
  | Linear_Price_Zero_Coefficient
  | Zero_Buy_Denominator
  | Zero_Sell_Denominator
  | Unknown_Curve
  | Exceeds_Remaining_Tokens
  | Insufficient_Liquidity
  | Insufficient_Token_Liquidity
  | Panic_Divide_By_Zero

type_synonym 'a quote = "quote_error + 'a"

definition fee_rate_denominator :: nat where
  "fee_rate_denominator = 1000000"

section \<open>Arithmetic\<close>

definition q64 :: nat where
  "q64 = 2 ^ 64"

definition big_sub :: "nat \<Rightarrow> nat \<Rightarrow> string \<Rightarrow> nat quote" where
  "big_sub left right label = (if left < right then Inl (Underflow label) else Inr (left - right))"

definition ceil_div :: "nat \<Rightarrow> nat \<Rightarrow> nat" where
  "ceil_div a b = (if a = 0 then 0 else (a + b - 1) div b)"

text \<open>\<^verbatim>\<open>BigUint::bits\<close>: the number of binary digits.\<close>

fun bits :: "nat \<Rightarrow> nat" where
  "bits n = (if n = 0 then 0 else Suc (bits (n div 2)))"

declare bits.simps [simp del]

text \<open>The loop of \<^verbatim>\<open>sqrt_floor\<close>: Newton's iteration, which stops as soon as it no longer falls.\<close>

function sqrt_loop :: "nat \<Rightarrow> nat \<Rightarrow> nat" where
  "sqrt_loop value current =
     (let next = (current + value div current) div 2
      in if current \<le> next then current else sqrt_loop value next)"
  by pat_completeness auto
termination
  by (relation "measure snd") auto

declare sqrt_loop.simps [simp del]

definition sqrt_floor :: "nat \<Rightarrow> nat" where
  "sqrt_floor value =
     (if value \<le> 1 then value else sqrt_loop value (2 ^ ((bits value + 1) div 2)))"

definition sqrt_round :: "nat \<Rightarrow> nat" where
  "sqrt_round value =
     (let floor = sqrt_floor value;
          remainder = value - floor * floor
      in if floor < remainder then floor + 1 else floor)"

definition total_fee_rate :: "curve_quote_config \<Rightarrow> nat quote" where
  "total_fee_rate config =
     (let total_rate = trade_fee_rate config + platform_fee_rate config + creator_fee_rate config
      in if fee_rate_denominator < total_rate then Inl Fee_Rate_Too_High else Inr total_rate)"

definition calculate_fee :: "nat \<Rightarrow> nat \<Rightarrow> nat" where
  "calculate_fee amount fee_rate = ceil_div (amount * fee_rate) fee_rate_denominator"

definition calculate_pre_fee :: "nat \<Rightarrow> nat \<Rightarrow> nat quote" where
  "calculate_pre_fee post_fee_amount fee_rate =
     (if fee_rate = 0 then Inr post_fee_amount
      else rbind (big_sub fee_rate_denominator fee_rate ''fee denominator'') (\<lambda>denominator.
        if denominator = 0 then Inl Zero_Fee_Denominator
        else Inr ((post_fee_amount * fee_rate_denominator + denominator - 1) div denominator)))"

section \<open>The curves\<close>

definition curve_buy_exact_in :: "curve_pool_state \<Rightarrow> u8 \<Rightarrow> nat \<Rightarrow> nat quote" where
  "curve_buy_exact_in pool ct amount =
     (if ct = 0 then
        rbind (big_sub (virtual_a pool) (real_a pool) ''launch output reserve'') (\<lambda>output_reserve.
          let input_reserve = virtual_b pool + real_b pool
          in if input_reserve + amount = 0 then Inl Panic_Divide_By_Zero
             else Inr (amount * output_reserve div (input_reserve + amount)))
      else if ct = 1 then
        (if virtual_b pool = 0 then Inl Fixed_Price_Zero_Virtual_Quote
         else Inr (virtual_a pool * amount div virtual_b pool))
      else if ct = 2 then
        (if virtual_a pool = 0 then Inl Linear_Price_Zero_Coefficient
         else let new_quote = real_b pool + amount;
                  term_inside_sqrt = 2 * new_quote * q64 div virtual_a pool;
                  sqrt_term = sqrt_round term_inside_sqrt
              in big_sub sqrt_term (real_a pool) ''linear-price amount out'')
      else Inl Unknown_Curve)"

definition curve_buy_exact_out :: "curve_pool_state \<Rightarrow> u8 \<Rightarrow> nat \<Rightarrow> nat quote" where
  "curve_buy_exact_out pool ct amount =
     (if ct = 0 then
        rbind (big_sub (virtual_a pool) (real_a pool) ''launch output reserve'') (\<lambda>output_reserve.
        rbind (big_sub output_reserve amount ''launch remaining output reserve'') (\<lambda>denominator.
          let input_reserve = virtual_b pool + real_b pool
          in if denominator = 0 then Inl Zero_Buy_Denominator
             else Inr (ceil_div (input_reserve * amount) denominator)))
      else if ct = 1 then
        (if virtual_a pool = 0 then Inl Fixed_Price_Zero_Virtual_Token
         else Inr (ceil_div (virtual_b pool * amount) (virtual_a pool)))
      else if ct = 2 then
        (let new_base = real_a pool + amount;
             new_quote = ceil_div (virtual_a pool * (new_base * new_base)) (2 * q64)
         in big_sub new_quote (real_b pool) ''linear-price amount in'')
      else Inl Unknown_Curve)"

definition curve_sell_exact_in :: "curve_pool_state \<Rightarrow> u8 \<Rightarrow> nat \<Rightarrow> nat quote" where
  "curve_sell_exact_in pool ct amount =
     (if ct = 0 then
        rbind (big_sub (virtual_a pool) (real_a pool) ''launch input reserve'') (\<lambda>input_reserve.
          let output_reserve = virtual_b pool + real_b pool
          in if input_reserve + amount = 0 then Inl Panic_Divide_By_Zero
             else Inr (amount * output_reserve div (input_reserve + amount)))
      else if ct = 1 then
        (if virtual_a pool = 0 then Inl Fixed_Price_Zero_Virtual_Token
         else Inr (virtual_b pool * amount div virtual_a pool))
      else if ct = 2 then
        rbind (big_sub (real_a pool) amount ''linear-price new base'') (\<lambda>new_base.
          let new_quote = ceil_div (virtual_a pool * (new_base * new_base)) (2 * q64)
          in big_sub (real_b pool) new_quote ''linear-price sell output'')
      else Inl Unknown_Curve)"

definition curve_sell_exact_out :: "curve_pool_state \<Rightarrow> u8 \<Rightarrow> nat \<Rightarrow> nat quote" where
  "curve_sell_exact_out pool ct amount =
     (if ct = 0 then
        rbind (big_sub (virtual_a pool) (real_a pool) ''launch input reserve'') (\<lambda>input_reserve.
        rbind (big_sub (virtual_b pool + real_b pool) amount ''launch remaining output reserve'')
          (\<lambda>denominator.
             if denominator = 0 then Inl Zero_Sell_Denominator
             else Inr (ceil_div (input_reserve * amount) denominator)))
      else if ct = 1 then
        (if virtual_b pool = 0 then Inl Fixed_Price_Zero_Virtual_Quote
         else Inr (ceil_div (virtual_a pool * amount) (virtual_b pool)))
      else if ct = 2 then
        rbind (big_sub (real_b pool) amount ''linear-price new quote'') (\<lambda>new_quote.
          if virtual_a pool = 0 then Inl Linear_Price_Zero_Coefficient
          else let sqrt_term = sqrt_round (2 * new_quote * q64 div virtual_a pool)
               in big_sub (real_a pool) sqrt_term ''linear-price sell input'')
      else Inl Unknown_Curve)"

section \<open>The quotes\<close>

definition quote_buy_exact_in_amount_a :: "curve_quote_config \<Rightarrow> nat \<Rightarrow> nat quote" where
  "quote_buy_exact_in_amount_a config amount_b =
     rbind (total_fee_rate config) (\<lambda>fee_rate.
     rbind (big_sub amount_b (calculate_fee amount_b fee_rate) ''buy input after fee'')
       (\<lambda>amount_less_fee_b.
     rbind (curve_buy_exact_in (quote_pool config) (curve_type config) amount_less_fee_b)
       (\<lambda>quoted_amount_a.
     rbind (big_sub (total_sell_a (quote_pool config)) (real_a (quote_pool config))
              ''remaining sell amount'') (\<lambda>remaining_amount_a.
     Inr (min quoted_amount_a remaining_amount_a)))))"

definition quote_buy_exact_out_amount_b :: "curve_quote_config \<Rightarrow> nat \<Rightarrow> nat quote" where
  "quote_buy_exact_out_amount_b config requested_amount_a =
     rbind (big_sub (total_sell_a (quote_pool config)) (real_a (quote_pool config))
              ''remaining sell amount'') (\<lambda>remaining_amount_a.
     if remaining_amount_a < requested_amount_a then Inl Exceeds_Remaining_Tokens
     else
       rbind (curve_buy_exact_out (quote_pool config) (curve_type config) requested_amount_a)
         (\<lambda>amount_in_less_fee_b.
       rbind (total_fee_rate config) (\<lambda>fee_rate.
       calculate_pre_fee amount_in_less_fee_b fee_rate)))"

definition quote_sell_exact_in_amount_b :: "curve_quote_config \<Rightarrow> nat \<Rightarrow> nat quote" where
  "quote_sell_exact_in_amount_b config amount_a =
     rbind (curve_sell_exact_in (quote_pool config) (curve_type config) amount_a)
       (\<lambda>quoted_amount_b.
     rbind (total_fee_rate config) (\<lambda>fee_rate.
     big_sub quoted_amount_b (calculate_fee quoted_amount_b fee_rate) ''sell output after fee''))"

definition quote_sell_exact_out_amount_a :: "curve_quote_config \<Rightarrow> nat \<Rightarrow> nat quote" where
  "quote_sell_exact_out_amount_a config amount_b =
     rbind (total_fee_rate config) (\<lambda>fee_rate.
     rbind (calculate_pre_fee amount_b fee_rate) (\<lambda>amount_out_with_fee_b.
     if real_b (quote_pool config) < amount_out_with_fee_b then Inl Insufficient_Liquidity
     else
       rbind (curve_sell_exact_out (quote_pool config) (curve_type config) amount_out_with_fee_b)
         (\<lambda>amount_a.
       if real_a (quote_pool config) < amount_a then Inl Insufficient_Token_Liquidity
       else Inr amount_a)))"

definition build_min_amount_from_bps :: "nat \<Rightarrow> u64 \<Rightarrow> nat" where
  "build_min_amount_from_bps amount slippage_bps =
     (let safe_bps = min slippage_bps 10000;
          minimum = amount * unat (10000 - safe_bps) div 10000
      in if 0 < amount \<and> minimum = 0 then 1 else minimum)"

section \<open>The integer square root\<close>

lemma bits_bound: "n < 2 ^ bits n"
proof (induction n rule: bits.induct)
  case (1 n)
  show ?case
  proof (cases "n = 0")
    case False
    then have "n div 2 < 2 ^ bits (n div 2)" using 1 by simp
    then have "n < 2 * 2 ^ bits (n div 2)" by linarith
    then show ?thesis using False by (subst bits.simps) simp
  qed (simp add: bits.simps)
qed

lemma mean_bound: "x + y \<le> 2 * z \<Longrightarrow> x * y \<le> z * (z :: nat)"
proof -
  assume "x + y \<le> 2 * z"
  then have "(int x + int y) * (int x + int y) \<le> (2 * int z) * (2 * int z)"
    by (intro mult_mono) auto
  moreover have "0 \<le> (int x - int y) * (int x - int y)" by simp
  ultimately have "4 * (int x * int y) \<le> 4 * (int z * int z)"
    by (simp add: algebra_simps)
  then have "int x * int y \<le> int z * int z" by simp
  then show ?thesis by (simp only: of_nat_mult [symmetric] of_nat_le_iff)
qed

lemma newton_above:
  fixes c v :: nat
  assumes "0 < c"
  shows "v < ((c + v div c) div 2 + 1) * ((c + v div c) div 2 + 1)"
proof -
  have half: "x \<le> 2 * (x div 2) + 1" for x :: nat by presburger
  have "v < c * (v div c + 1)"
    using dividend_less_times_div [OF assms, of v] by simp
  also have "\<dots> \<le> ((c + v div c) div 2 + 1) * ((c + v div c) div 2 + 1)"
    using half [of "c + v div c"] by (intro mean_bound) simp
  finally show ?thesis .
qed

lemma sqrt_loop_correct:
  assumes "0 < c" "v < (c + 1) * (c + 1)" "0 < v"
  shows "sqrt_loop v c * sqrt_loop v c \<le> v \<and> v < (sqrt_loop v c + 1) * (sqrt_loop v c + 1)"
  using assms
proof (induction v c rule: sqrt_loop.induct)
  case (1 v c)
  let ?n = "(c + v div c) div 2"
  show ?case
  proof (cases "c \<le> ?n")
    case True
    then have "c \<le> v div c" by linarith
    then have "c * c \<le> v" by (meson div_times_less_eq_dividend le_trans mult_le_mono1)
    with True 1 show ?thesis by (subst (1 2 3 4) sqrt_loop.simps) (simp add: Let_def)
  next
    case False
    have "0 < ?n"
    proof (rule ccontr)
      assume "\<not> 0 < ?n"
      then have "v < 1 * 1" using newton_above [OF 1(2), of v] by simp
      then show False using "1.prems"(3) by simp
    qed
    then have "sqrt_loop v ?n * sqrt_loop v ?n \<le> v \<and> v < (sqrt_loop v ?n + 1) * (sqrt_loop v ?n + 1)"
      using False newton_above [OF 1(2), of v] "1.prems"(3)
      by (intro 1(1)) auto
    then show ?thesis
      using False by (subst (1 2 3 4) sqrt_loop.simps) (simp add: Let_def)
  qed
qed

lemma sqrt_floor_spec:
  "sqrt_floor v * sqrt_floor v \<le> v \<and> v < (sqrt_floor v + 1) * (sqrt_floor v + 1)"
proof (cases "v \<le> 1")
  case True
  then have "v = 0 \<or> v = 1" by linarith
  then show ?thesis by (auto simp: sqrt_floor_def)
next
  case False
  let ?h = "(bits v + 1) div 2"
  have "v < 2 ^ bits v" by (rule bits_bound)
  also have "\<dots> \<le> 2 ^ (?h + ?h)" by (intro power_increasing) auto
  also have "\<dots> \<le> (2 ^ ?h + 1) * (2 ^ ?h + 1)" by (simp add: power_add)
  finally have "v < (2 ^ ?h + 1) * (2 ^ ?h + 1)" .
  then have "sqrt_loop v (2 ^ ?h) * sqrt_loop v (2 ^ ?h) \<le> v
             \<and> v < (sqrt_loop v (2 ^ ?h) + 1) * (sqrt_loop v (2 ^ ?h) + 1)"
    using False by (intro sqrt_loop_correct) auto
  then show ?thesis
    using False by (simp only: sqrt_floor_def if_False)
qed

lemma sqrt_floor_ge: "n * n \<le> v \<Longrightarrow> n \<le> sqrt_floor v"
proof (rule ccontr)
  assume "n * n \<le> v" "\<not> n \<le> sqrt_floor v"
  then have "(sqrt_floor v + 1) * (sqrt_floor v + 1) \<le> n * n"
    by (intro mult_le_mono) auto
  with \<open>n * n \<le> v\<close> sqrt_floor_spec [of v] show False by linarith
qed

lemma sqrt_round_ge: "n * n \<le> v \<Longrightarrow> n \<le> sqrt_round v"
  using sqrt_floor_ge [of n v] by (simp add: sqrt_round_def Let_def)

text \<open>
  The square root loop always stops, at the integer part of the square root.
\<close>

theorem sqrt_floor_correct: "sqrt_floor v = nat \<lfloor>sqrt (real v)\<rfloor>"
proof -
  let ?r = "sqrt_floor v"
  have "real (?r * ?r) \<le> real v" "real v < real ((?r + 1) * (?r + 1))"
    using sqrt_floor_spec [of v] by (simp_all only: of_nat_le_iff of_nat_less_iff)
  then have "(real ?r)\<^sup>2 \<le> real v" "real v < (real ?r + 1)\<^sup>2"
    by (simp_all add: power2_eq_square algebra_simps)
  then have "real ?r \<le> sqrt (real v)" "sqrt (real v) < real ?r + 1"
    by (simp_all add: real_le_rsqrt real_less_lsqrt)
  then have "\<lfloor>sqrt (real v)\<rfloor> = int ?r" by linarith
  then show ?thesis by simp
qed

text \<open>
  The rounded square root is the integer nearest to the real square root.
\<close>

theorem sqrt_round_nearest: "\<bar>real (sqrt_round v) - sqrt (real v)\<bar> < 1 / 2"
proof -
  let ?f = "sqrt_floor v" and ?r = "sqrt_round v"
  have f: "?f * ?f \<le> v" "v < (?f + 1) * (?f + 1)" using sqrt_floor_spec [of v] by auto
  have lo: "4 * v < (2 * ?r + 1) * (2 * ?r + 1)"
    using f by (auto simp: sqrt_round_def Let_def algebra_simps)
  have hi: "?r = 0 \<or> (2 * ?r - 1) * (2 * ?r - 1) < 4 * v"
  proof (cases "?f < v - ?f * ?f")
    case True
    then have "?r = ?f + 1" by (simp add: sqrt_round_def Let_def)
    with True show ?thesis by (simp add: algebra_simps)
  next
    case False
    then have r: "?r = ?f" by (simp add: sqrt_round_def Let_def)
    show ?thesis
    proof (cases ?f)
      case (Suc g)
      then show ?thesis using f(1) r by (simp add: algebra_simps)
    qed (simp add: r)
  qed
  have "real (4 * v) < real ((2 * ?r + 1) * (2 * ?r + 1))"
    using lo by (simp only: of_nat_less_iff)
  then have "real v < (real ?r + 1 / 2)\<^sup>2"
    by (simp add: power2_eq_square algebra_simps)
  then have upper: "sqrt (real v) < real ?r + 1 / 2"
    by (intro real_less_lsqrt) auto
  have lower: "real ?r - 1 / 2 < sqrt (real v)"
  proof (cases "?r = 0")
    case True
    then show ?thesis using real_sqrt_ge_zero [of "real v"] by linarith
  next
    case False
    with hi have "real ((2 * ?r - 1) * (2 * ?r - 1)) < real (4 * v)"
      by (simp only: of_nat_less_iff simp_thms)
    then have "real (2 * ?r - 1) * real (2 * ?r - 1) < 4 * real v"
      by (simp only: of_nat_mult of_nat_numeral)
    moreover have "real (2 * ?r - 1) = 2 * real ?r - 1"
      using False by (simp add: of_nat_diff)
    ultimately have "(2 * real ?r - 1) * (2 * real ?r - 1) < 4 * real v" by simp
    then have "(real ?r - 1 / 2)\<^sup>2 < real v"
      by (simp add: power2_eq_square algebra_simps)
    then show ?thesis by (rule real_less_rsqrt)
  qed
  from upper lower show ?thesis by linarith
qed

section \<open>Fees\<close>

lemma ceil_div_le_iff: "0 < b \<Longrightarrow> ceil_div a b \<le> k \<longleftrightarrow> a \<le> k * b"
proof -
  assume b: "0 < b"
  show ?thesis
  proof (cases "a = 0")
    case False
    have "(a + b - 1) div b \<le> k \<longleftrightarrow> (a + b - 1) div b < k + 1" by linarith
    also have "\<dots> \<longleftrightarrow> a + b - 1 < (k + 1) * b"
      by (rule div_less_iff_less_mult [OF b])
    also have "\<dots> \<longleftrightarrow> a \<le> k * b" using b by auto
    finally show ?thesis using False by (simp add: ceil_div_def)
  qed (simp add: ceil_div_def)
qed

lemma ceil_div_mult: "0 < b \<Longrightarrow> a \<le> ceil_div a b * b"
  using ceil_div_le_iff [of b a "ceil_div a b"] by simp

lemma denominator_pos [simp]: "0 < fee_rate_denominator" "fee_rate_denominator \<noteq> 0"
  by (simp_all add: fee_rate_denominator_def)

lemma calculate_fee_le: "f \<le> fee_rate_denominator \<Longrightarrow> calculate_fee y f \<le> y"
  by (simp add: calculate_fee_def ceil_div_le_iff)

lemma net_ge_iff:
  assumes "f \<le> fee_rate_denominator"
  shows "m \<le> y - calculate_fee y f \<longleftrightarrow> m * fee_rate_denominator \<le> y * (fee_rate_denominator - f)"
proof (cases "m \<le> y")
  case True
  then have "m \<le> y - calculate_fee y f \<longleftrightarrow> calculate_fee y f \<le> y - m"
    using calculate_fee_le [OF assms, of y] by linarith
  also have "\<dots> \<longleftrightarrow> y * f \<le> (y - m) * fee_rate_denominator"
    by (simp add: calculate_fee_def ceil_div_le_iff)
  also have "\<dots> \<longleftrightarrow> m * fee_rate_denominator \<le> y * (fee_rate_denominator - f)"
  proof -
    have "m * fee_rate_denominator \<le> y * fee_rate_denominator" "y * f \<le> y * fee_rate_denominator"
      using True assms by simp_all
    then show ?thesis unfolding diff_mult_distrib diff_mult_distrib2 by linarith
  qed
  finally show ?thesis .
next
  case False
  have "y * (fee_rate_denominator - f) \<le> y * fee_rate_denominator" by simp
  also have "\<dots> < m * fee_rate_denominator" using False by simp
  finally show ?thesis using False by simp
qed

lemma net_mono:
  assumes "f \<le> fee_rate_denominator" "x \<le> y"
  shows "x - calculate_fee x f \<le> y - calculate_fee y f"
proof -
  have "(x - calculate_fee x f) * fee_rate_denominator \<le> x * (fee_rate_denominator - f)"
    using net_ge_iff [OF assms(1), of "x - calculate_fee x f" x] by simp
  also have "\<dots> \<le> y * (fee_rate_denominator - f)" using assms(2) by simp
  finally show ?thesis by (simp add: net_ge_iff [OF assms(1)])
qed

lemma total_fee_rate_le: "total_fee_rate config = Inr f \<Longrightarrow> f \<le> fee_rate_denominator"
  by (auto simp: total_fee_rate_def Let_def split: if_splits)

lemma big_sub_Inr [simp]: "big_sub a b l = Inr c \<longleftrightarrow> b \<le> a \<and> c = a - b"
  by (auto simp: big_sub_def)

lemma pre_fee_covers:
  assumes "calculate_pre_fee x f = Inr y" "f \<le> fee_rate_denominator"
  shows "x \<le> y - calculate_fee y f"
proof (cases "f = 0")
  case True
  then show ?thesis using assms(1) by (simp add: calculate_pre_fee_def calculate_fee_def ceil_div_def)
next
  case False
  let ?d = "fee_rate_denominator - f"
  have d: "0 < ?d" and y: "y = (x * fee_rate_denominator + ?d - 1) div ?d"
    using assms(1) False by (auto simp: calculate_pre_fee_def split: if_splits)
  have "x * fee_rate_denominator \<le> y * ?d"
    using ceil_div_mult [OF d, of "x * fee_rate_denominator"] y
    by (cases "x = 0") (simp_all add: ceil_div_def)
  then show ?thesis by (simp add: net_ge_iff [OF assms(2)])
qed

section \<open>A quote for an exact output is enough\<close>

lemma product_step:
  fixes r a y s :: nat
  assumes "r * a \<le> y * (s - a)" "a \<le> s"
  shows "a * (r + y) \<le> y * s"
proof -
  have "y * a \<le> y * s" using assms(2) by (rule mult_le_mono2)
  moreover have "a * r \<le> y * s - y * a"
    using assms(1) by (simp only: diff_mult_distrib2 mult.commute [of a r])
  moreover have "a * (r + y) = a * r + y * a" by (simp add: distrib_left)
  ultimately show ?thesis by linarith
qed

lemma curve_buy_covers:
  assumes out: "curve_buy_exact_out pool ct a = Inr x" and "x \<le> y"
    and pos: "0 < virtual_a pool" "0 < virtual_b pool"
  obtains q where "curve_buy_exact_in pool ct y = Inr q" "a \<le> q"
proof -
  consider (product) "ct = 0" | (fixed) "ct = 1" | (linear) "ct = 2"
    using out by (auto simp: curve_buy_exact_out_def split: if_splits)
  then show thesis
  proof cases
    case product
    let ?r = "virtual_b pool + real_b pool" and ?s = "virtual_a pool - real_a pool"
    have le: "real_a pool \<le> virtual_a pool" "a < ?s" and x: "x = ceil_div (?r * a) (?s - a)"
      using out product by (auto simp: curve_buy_exact_out_def Let_def split: if_splits)
    have "?r * a \<le> x * (?s - a)" unfolding x using le by (intro ceil_div_mult) simp
    also have "\<dots> \<le> y * (?s - a)" using assms(2) by simp
    finally have "a * (?r + y) \<le> y * ?s"
      using le(2) by (intro product_step) auto
    then have "a \<le> y * ?s div (?r + y)"
      using pos by (simp add: less_eq_div_iff_mult_less_eq)
    moreover have "curve_buy_exact_in pool ct y = Inr (y * ?s div (?r + y))"
      using product le pos by (simp add: curve_buy_exact_in_def big_sub_def Let_def)
    ultimately show thesis by (rule that [rotated])
  next
    case fixed
    have x: "x = ceil_div (virtual_b pool * a) (virtual_a pool)"
      using out fixed pos by (simp add: curve_buy_exact_out_def)
    have "virtual_b pool * a \<le> x * virtual_a pool" unfolding x using pos by (intro ceil_div_mult)
    also have "\<dots> \<le> y * virtual_a pool" using assms(2) by simp
    finally have "a \<le> virtual_a pool * y div virtual_b pool"
      using pos by (simp add: less_eq_div_iff_mult_less_eq mult.commute)
    moreover have "curve_buy_exact_in pool ct y = Inr (virtual_a pool * y div virtual_b pool)"
      using fixed pos by (simp add: curve_buy_exact_in_def)
    ultimately show thesis by (rule that [rotated])
  next
    case linear
    let ?n = "real_a pool + a" and ?t = "2 * (real_b pool + y) * q64 div virtual_a pool"
    have le: "real_b pool \<le> ceil_div (virtual_a pool * (?n * ?n)) (2 * q64)"
      and x: "x = ceil_div (virtual_a pool * (?n * ?n)) (2 * q64) - real_b pool"
      using out linear by (auto simp: curve_buy_exact_out_def Let_def)
    have "virtual_a pool * (?n * ?n) \<le> (real_b pool + x) * (2 * q64)"
      using ceil_div_mult [of "2 * q64" "virtual_a pool * (?n * ?n)"] le x by (simp add: q64_def)
    also have "\<dots> \<le> (real_b pool + y) * (2 * q64)" using assms(2) by simp
    finally have "?n * ?n \<le> ?t"
      using pos by (simp add: less_eq_div_iff_mult_less_eq mult.commute mult.left_commute)
    then have "?n \<le> sqrt_round ?t" by (rule sqrt_round_ge)
    moreover have "curve_buy_exact_in pool ct y = big_sub (sqrt_round ?t) (real_a pool) ''linear-price amount out''"
      using linear pos by (simp add: curve_buy_exact_in_def Let_def)
    ultimately show thesis by (intro that [of "sqrt_round ?t - real_a pool"]) auto
  qed
qed

text \<open>
  Paying what the exact-output quote asks for buys at least the requested tokens, on
  all three curves and whatever the fee rates.
\<close>

theorem buy_exact_out_quote_suffices:
  assumes "0 < virtual_a (quote_pool config)" "0 < virtual_b (quote_pool config)"
    and "quote_buy_exact_out_amount_b config tokens = Inr payment"
  shows "\<exists>received. quote_buy_exact_in_amount_a config payment = Inr received \<and> tokens \<le> received"
proof -
  let ?p = "quote_pool config"
  obtain x f where x: "curve_buy_exact_out ?p (curve_type config) tokens = Inr x"
    and f: "total_fee_rate config = Inr f" and pre: "calculate_pre_fee x f = Inr payment"
    and rem: "real_a ?p \<le> total_sell_a ?p" "tokens \<le> total_sell_a ?p - real_a ?p"
    using assms(3) by (auto simp: quote_buy_exact_out_amount_b_def split: if_splits)
  have fd: "f \<le> fee_rate_denominator" using f by (rule total_fee_rate_le)
  obtain q where q: "curve_buy_exact_in ?p (curve_type config) (payment - calculate_fee payment f) = Inr q"
    "tokens \<le> q"
    using curve_buy_covers [OF x pre_fee_covers [OF pre fd] assms(1,2)] by blast
  then have "quote_buy_exact_in_amount_a config payment = Inr (min q (total_sell_a ?p - real_a ?p))"
    using f rem(1) calculate_fee_le [OF fd, of payment]
    by (simp add: quote_buy_exact_in_amount_a_def big_sub_def)
  with q(2) rem(2) show ?thesis by auto
qed

lemma curve_sell_covers:
  assumes out: "curve_sell_exact_out pool ct y = Inr a" and ct: "ct = 0 \<or> ct = 1"
    and pos: "real_a pool < virtual_a pool" "0 < virtual_b pool"
  obtains q where "curve_sell_exact_in pool ct a = Inr q" "y \<le> q"
proof (cases "ct = 0")
  case True
  let ?s = "virtual_b pool + real_b pool" and ?r = "virtual_a pool - real_a pool"
  have le: "y < ?s" and a: "a = ceil_div (?r * y) (?s - y)"
    using out True by (auto simp: curve_sell_exact_out_def Let_def split: if_splits)
  have "?r * y \<le> a * (?s - y)" unfolding a using le by (intro ceil_div_mult) simp
  then have "y * (?r + a) \<le> a * ?s" using le by (intro product_step) auto
  then have "y \<le> a * ?s div (?r + a)"
    using pos by (simp add: less_eq_div_iff_mult_less_eq)
  moreover have "curve_sell_exact_in pool ct a = Inr (a * ?s div (?r + a))"
    using True pos by (simp add: curve_sell_exact_in_def big_sub_def Let_def)
  ultimately show thesis by (rule that [rotated])
next
  case False
  with ct have 1: "ct = 1" by simp
  have a: "a = ceil_div (virtual_a pool * y) (virtual_b pool)"
    using out 1 pos by (simp add: curve_sell_exact_out_def)
  have "virtual_a pool * y \<le> a * virtual_b pool" unfolding a using pos by (intro ceil_div_mult)
  then have "y \<le> virtual_b pool * a div virtual_a pool"
    using pos by (simp add: less_eq_div_iff_mult_less_eq mult.commute)
  moreover have "curve_sell_exact_in pool ct a = Inr (virtual_b pool * a div virtual_a pool)"
    using 1 pos by (simp add: curve_sell_exact_in_def)
  ultimately show thesis by (rule that [rotated])
qed

text \<open>
  Selling what the exact-output quote asks for pays at least the requested amount, on
  the constant-product and the fixed-price curve.
\<close>

theorem sell_exact_out_quote_suffices:
  assumes "curve_type config = 0 \<or> curve_type config = 1"
    and "real_a (quote_pool config) < virtual_a (quote_pool config)"
    and "0 < virtual_b (quote_pool config)"
    and "quote_sell_exact_out_amount_a config wanted = Inr tokens"
  shows "\<exists>received. quote_sell_exact_in_amount_b config tokens = Inr received \<and> wanted \<le> received"
proof -
  let ?p = "quote_pool config"
  obtain f y where f: "total_fee_rate config = Inr f" and pre: "calculate_pre_fee wanted f = Inr y"
    and out: "curve_sell_exact_out ?p (curve_type config) y = Inr tokens"
    using assms(4) by (auto simp: quote_sell_exact_out_amount_a_def split: if_splits)
  have fd: "f \<le> fee_rate_denominator" using f by (rule total_fee_rate_le)
  obtain q where q: "curve_sell_exact_in ?p (curve_type config) tokens = Inr q" "y \<le> q"
    using curve_sell_covers [OF out assms(1-3)] by blast
  have "wanted \<le> q - calculate_fee q f"
    using pre_fee_covers [OF pre fd] net_mono [OF fd q(2)] by linarith
  then show ?thesis
    using q(1) f calculate_fee_le [OF fd, of q]
    by (simp add: quote_sell_exact_in_amount_b_def big_sub_def)
qed

section \<open>Monotonicity, panics and slippage\<close>

lemma div_cross_le:
  fixes a b c d :: nat
  assumes "a * d \<le> c * b" "0 < b" "0 < d"
  shows "a div b \<le> c div d"
proof -
  have "a div b * b \<le> a" by simp
  then have "a div b * b * d \<le> a * d" by simp
  also have "\<dots> \<le> c * b" by (rule assms(1))
  finally have "a div b * d * b \<le> c * b" by (simp add: mult.assoc mult.commute [of b d])
  then have "a div b * d \<le> c" using assms(2) by simp
  then show ?thesis using assms(3) by (simp add: less_eq_div_iff_mult_less_eq)
qed

lemma cross_le: "a \<le> b \<Longrightarrow> a * s * (r + b) \<le> b * s * (r + (a :: nat))"
  by (simp add: distrib_left mult.commute mult.left_commute mult_le_mono)

lemma ceil_div_mono: "a \<le> b \<Longrightarrow> ceil_div a d \<le> ceil_div b d"
  by (auto simp: ceil_div_def intro: div_le_mono)

lemma curve_sell_mono:
  assumes x: "curve_sell_exact_in pool ct a = Inr x" and y: "curve_sell_exact_in pool ct b = Inr y"
    and "a \<le> b"
  shows "x \<le> y"
proof -
  consider (product) "ct = 0" | (fixed) "ct = 1" | (linear) "ct = 2"
    using x by (auto simp: curve_sell_exact_in_def split: if_splits)
  then show ?thesis
  proof cases
    case product
    let ?s = "virtual_b pool + real_b pool" and ?r = "virtual_a pool - real_a pool"
    have xy: "x = a * ?s div (?r + a)" "y = b * ?s div (?r + b)" "0 < ?r + a" "0 < ?r + b"
      using x y product by (auto simp: curve_sell_exact_in_def Let_def split: if_splits)
    have "a * ?s * (?r + b) \<le> b * ?s * (?r + a)" by (rule cross_le) (rule assms(3))
    then show ?thesis unfolding xy(1,2) using xy(3,4) by (rule div_cross_le)
  next
    case fixed
    then show ?thesis
      using x y assms(3) by (auto simp: curve_sell_exact_in_def intro!: div_le_mono split: if_splits)
  next
    case linear
    let ?q = "\<lambda>n. ceil_div (virtual_a pool * ((real_a pool - n) * (real_a pool - n))) (2 * q64)"
    have "?q b \<le> ?q a"
      using assms(3) by (intro ceil_div_mono mult_le_mono) auto
    moreover have "x = real_b pool - ?q a" "y = real_b pool - ?q b"
      using x y linear by (auto simp: curve_sell_exact_in_def Let_def)
    ultimately show ?thesis by (simp only: diff_le_mono2)
  qed
qed

lemma sell_quote_mono:
  assumes "quote_sell_exact_in_amount_b config a = Inr x"
    and "quote_sell_exact_in_amount_b config b = Inr y" and "a \<le> b"
  shows "x \<le> y"
proof -
  obtain q q' f where "curve_sell_exact_in (quote_pool config) (curve_type config) a = Inr q"
    "curve_sell_exact_in (quote_pool config) (curve_type config) b = Inr q'"
    "total_fee_rate config = Inr f" "x = q - calculate_fee q f" "y = q' - calculate_fee q' f"
    using assms(1,2) by (auto simp: quote_sell_exact_in_amount_b_def)
  then show ?thesis
    using curve_sell_mono [OF _ _ assms(3)] net_mono total_fee_rate_le by metis
qed

text \<open>
  Selling more tokens never pays less: the sell quote is monotone in the amount on
  every curve.
\<close>

theorem sell_quote_monotone:
  assumes "quote_sell_exact_in_amount_b config a = Inr x"
    and "quote_sell_exact_in_amount_b config b = Inr y" and "a \<le> b"
  shows "x \<le> y"
  by (rule sell_quote_mono [OF assms])

text \<open>
  C40: a buy quote panics exactly when nothing is left to swap after the fee and both quote
  reserves of a constant-product pool are empty; every other failure is an error value.
\<close>

theorem buy_quote_panics_iff:
  "quote_buy_exact_in_amount_a config amount_b = Inl Panic_Divide_By_Zero
   \<longleftrightarrow> curve_type config = 0 \<and> virtual_b (quote_pool config) = 0 \<and> real_b (quote_pool config) = 0
     \<and> real_a (quote_pool config) \<le> virtual_a (quote_pool config)
     \<and> (\<exists>f. total_fee_rate config = Inr f \<and> amount_b = calculate_fee amount_b f)"
proof (cases "total_fee_rate config")
  case (Inl e)
  then have "e = Fee_Rate_Too_High" by (auto simp: total_fee_rate_def Let_def split: if_splits)
  with Inl show ?thesis by (simp add: quote_buy_exact_in_amount_a_def)
next
  case (Inr f)
  have le: "calculate_fee amount_b f \<le> amount_b"
    using Inr by (intro calculate_fee_le total_fee_rate_le)
  have "curve_buy_exact_in pool ct n = Inl Panic_Divide_By_Zero
        \<longleftrightarrow> ct = 0 \<and> virtual_b pool = 0 \<and> real_b pool = 0 \<and> real_a pool \<le> virtual_a pool \<and> n = 0"
    for pool ct n
    by (auto simp: curve_buy_exact_in_def Let_def big_sub_def rbind_Inl_iff split: if_splits)
  then show ?thesis
    using Inr le by (auto simp: quote_buy_exact_in_amount_a_def rbind_Inl_iff big_sub_def)
qed

text \<open>
  The minimum output derived from a slippage tolerance is at most the quoted amount,
  within one unit of the tolerated fraction of it, and never zero for a positive quote.
\<close>

theorem min_amount_from_bps_bounds:
  assumes "0 < amount" and m_def: "m = build_min_amount_from_bps amount bps"
  shows "0 < m \<and> m \<le> amount \<and> amount * (10000 - min (unat bps) 10000) < (m + 1) * 10000
         \<and> (m = 1 \<or> m * 10000 \<le> amount * (10000 - min (unat bps) 10000))"
proof -
  let ?k = "10000 - min (unat bps) 10000"
  have k: "unat (10000 - min bps 10000) = ?k"
    by (simp add: unat_sub unat_min word_le_nat_alt)
  have "amount * ?k div 10000 \<le> amount * 10000 div 10000"
    by (intro div_le_mono mult_le_mono2) simp
  then have le: "amount * ?k div 10000 \<le> amount" by simp
  have "amount * ?k < (amount * ?k div 10000 + 1) * 10000" by simp
  with le assms(1) k show ?thesis
    by (auto simp: m_def build_min_amount_from_bps_def Let_def)
qed

section \<open>Samples\<close>

definition sample_config :: "u8 \<Rightarrow> nat \<Rightarrow> nat \<Rightarrow> nat \<Rightarrow> nat \<Rightarrow> curve_quote_config" where
  "sample_config ct va vb ra rb =
     \<lparr>quote_pool = \<lparr>total_sell_a = 900000, virtual_a = va, virtual_b = vb, real_a = ra,
                    real_b = rb\<rparr>,
      curve_type = ct, trade_fee_rate = 2500, platform_fee_rate = 1000, creator_fee_rate = 500\<rparr>"

text \<open>
  On the linear-price curve the exact-output quote of a sale can ask for too little: it
  rounds the square root to nearest, so here it asks for no token at all for one lamport,
  and selling no token pays nothing.
\<close>

theorem linear_sell_exact_out_can_underdeliver:
  "\<exists>config. quote_sell_exact_out_amount_a config 1 = Inr 0
          \<and> quote_sell_exact_in_amount_b config 0 = Inr 0"
proof -
  let ?c = "(sample_config 2 (2 ^ 63) 1 6 9)\<lparr>trade_fee_rate := 0, platform_fee_rate := 0, creator_fee_rate := 0\<rparr>"
  have sq: "sqrt_round 32 = 6" by code_simp
  have "quote_sell_exact_out_amount_a ?c 1 = Inr 0"
    by (simp add: quote_sell_exact_out_amount_a_def sample_config_def total_fee_rate_def
        calculate_pre_fee_def curve_sell_exact_out_def big_sub_def q64_def sq Let_def
        fee_rate_denominator_def)
  moreover have "quote_sell_exact_in_amount_b ?c 0 = Inr 0"
    by (simp add: quote_sell_exact_in_amount_b_def sample_config_def total_fee_rate_def
        curve_sell_exact_in_def big_sub_def q64_def ceil_div_def Let_def calculate_fee_def
        fee_rate_denominator_def)
  ultimately show ?thesis by blast
qed

theorem buy_exact_out_quote_suffices_witness:
  "\<exists>payment received. quote_buy_exact_out_amount_b (sample_config 0 1000000 100000 0 0) 1000 = Inr payment
     \<and> quote_buy_exact_in_amount_a (sample_config 0 1000000 100000 0 0) payment = Inr received
     \<and> 1000 \<le> received"
proof -
  have q: "quote_buy_exact_out_amount_b (sample_config 0 1000000 100000 0 0) 1000 = Inr 102"
    by (simp add: quote_buy_exact_out_amount_b_def sample_config_def total_fee_rate_def
        calculate_pre_fee_def curve_buy_exact_out_def big_sub_def ceil_div_def Let_def
        fee_rate_denominator_def)
  show ?thesis
    using buy_exact_out_quote_suffices [OF _ _ q] q by (simp add: sample_config_def)
qed

theorem sell_exact_out_quote_suffices_witness:
  "\<exists>tokens received. quote_sell_exact_out_amount_a (sample_config 0 1000000 100000 10000 1000) 500 = Inr tokens
     \<and> quote_sell_exact_in_amount_b (sample_config 0 1000000 100000 10000 1000) tokens = Inr received
     \<and> 500 \<le> received"
proof -
  have q: "quote_sell_exact_out_amount_a (sample_config 0 1000000 100000 10000 1000) 500 = Inr 4956"
    by (simp add: quote_sell_exact_out_amount_a_def sample_config_def total_fee_rate_def
        calculate_pre_fee_def curve_sell_exact_out_def big_sub_def ceil_div_def Let_def
        fee_rate_denominator_def)
  show ?thesis
    using sell_exact_out_quote_suffices [OF _ _ _ q] q by (simp add: sample_config_def)
qed

theorem sell_quote_monotone_witness:
  "quote_sell_exact_in_amount_b (sample_config 1 3 7 10 100) 3 = Inr 6
   \<and> quote_sell_exact_in_amount_b (sample_config 1 3 7 10 100) 6 = Inr 13 \<and> 6 \<le> (13 :: nat)"
proof -
  have q: "quote_sell_exact_in_amount_b (sample_config 1 3 7 10 100) 3 = Inr 6"
    "quote_sell_exact_in_amount_b (sample_config 1 3 7 10 100) 6 = Inr 13"
    by (simp_all add: quote_sell_exact_in_amount_b_def sample_config_def total_fee_rate_def
        curve_sell_exact_in_def big_sub_def ceil_div_def Let_def calculate_fee_def
        fee_rate_denominator_def)
  then show ?thesis using sell_quote_monotone [OF q] by simp
qed

theorem min_amount_from_bps_bounds_witness:
  "0 < build_min_amount_from_bps 3 10000 \<and> build_min_amount_from_bps 3 10000 \<le> 3"
  using min_amount_from_bps_bounds [of 3 _ 10000, OF _ refl] by simp

end
