(* ===== verification/Sell_Sizing.thy ===== *)
theory Sell_Sizing
  imports Launchlab_Curve Sol_Amounts
begin

text \<open>
  Choosing how many tokens to sell for a wanted SOL output
  (\<^verbatim>\<open>execution-engine/src/sell_target_sizing.rs\<close>): an estimate, then a binary search over a
  quote function. The quote is a parameter; the contract \<open>monotone_quote\<close> is what a venue's
  quote must promise for the search to be exact, and the LaunchLab sell quote
  (\<^verbatim>\<open>raydium_launchlab_native.rs\<close>, the closure at lines 509--513) is shown to keep it.
\<close>

section \<open>The search\<close>

datatype 'q sizing_error =
    Zero_Target
  | No_Tokens
  | Zero_Quote
  | Unreachable_Target u64 u64
  | Quote_Failed 'q
  | Quote_Exceeds_U64
  | Fee_Exceeds_Quote

type_synonym 'q quote_fn = "u64 \<Rightarrow> 'q sizing_error + u64"

definition target_quote_distance :: "u64 \<Rightarrow> u64 \<Rightarrow> u64" where
  "target_quote_distance quoted target = (if quoted < target then target - quoted else quoted - target)"

definition prefer_better_target_amount ::
  "(u64 \<times> u64) option \<Rightarrow> u64 \<Rightarrow> u64 \<Rightarrow> u64 \<Rightarrow> u64 \<times> u64" where
  "prefer_better_target_amount current amount quoted target =
     (case current of
        None \<Rightarrow> (amount, quoted)
      | Some (best_amount, best_quote) \<Rightarrow>
          if quoted < target \<and> target \<le> best_quote then (best_amount, best_quote)
          else if target \<le> quoted \<and> best_quote < target then (amount, quoted)
          else if target_quote_distance best_quote target < target_quote_distance quoted target
          then (best_amount, best_quote)
          else if target_quote_distance quoted target = target_quote_distance best_quote target
                  \<and> best_amount \<le> amount
          then (best_amount, best_quote)
          else (amount, quoted))"

definition target_amount_estimate :: "u64 \<Rightarrow> u64 \<Rightarrow> u64 \<Rightarrow> u64" where
  "target_amount_estimate available target full_quote =
     (if available \<le> 1 \<or> full_quote = 0 then max available 1
      else
        let numerator = sat_mul (ucast available :: u128) (ucast target);
            estimate = sat_add numerator (sat_sub (ucast full_quote) 1) div ucast full_quote
        in ucast (max 1 (min estimate (ucast available))))"

text \<open>
  The loop may diverge on a full 64-bit range, so a run that does not return is \<^term>\<open>None\<close>.
\<close>

partial_function (option) sizing_loop ::
  "'q quote_fn \<Rightarrow> u64 \<Rightarrow> u64 \<Rightarrow> u64 \<Rightarrow> (u64 \<times> u64) option
     \<Rightarrow> ('q sizing_error + (u64 \<times> u64) option) option" where
  "sizing_loop quote target low high best =
     (if high < low then Some (Inr best)
      else
        let amount = low + (high - low) div 2
        in case quote amount of
             Inl e \<Rightarrow> Some (Inl e)
           | Inr quoted \<Rightarrow>
               if quoted = 0 then sizing_loop quote target (sat_add amount 1) high best
               else
                 let best' = Some (prefer_better_target_amount best amount quoted target)
                 in if quoted < target
                    then sizing_loop quote target (sat_add amount 1) high best'
                    else if amount = 0 then Some (Inr best')
                    else sizing_loop quote target low (amount - 1) best')"

definition choose_target_sized_token_amount ::
  "u64 \<Rightarrow> u64 \<Rightarrow> 'q quote_fn \<Rightarrow> ('q sizing_error + u64) option" where
  "choose_target_sized_token_amount available target quote =
     (if target = 0 then Some (Inl Zero_Target)
      else if available = 0 then Some (Inl No_Tokens)
      else case quote available of
          Inl e \<Rightarrow> Some (Inl e)
        | Inr full_quote \<Rightarrow>
            if full_quote = 0 then Some (Inl Zero_Quote)
            else if full_quote < target then Some (Inl (Unreachable_Target target full_quote))
            else
              let best = Some (available, full_quote);
                  low = 1;
                  high = sat_sub available 1;
                  estimate = target_amount_estimate available target full_quote;
                  probed =
                    (if estimate < available
                     then rbind (quote estimate) (\<lambda>quoted.
                       if quoted = 0 then Inr (sat_add estimate 1, high, best)
                       else
                         let best = Some (prefer_better_target_amount best estimate quoted target)
                         in if quoted < target then Inr (sat_add estimate 1, high, best)
                            else Inr (low, sat_sub estimate 1, best))
                     else Inr (low, high, best))
              in case probed of
                   Inl e \<Rightarrow> Some (Inl e)
                 | Inr (low, high, best) \<Rightarrow>
                     map_option (\<lambda>r. rbind r (\<lambda>best. rbind (ok_or best Zero_Quote)
                                                        (\<lambda>(amount, _). Inr amount)))
                       (sizing_loop quote target low high best))"

definition net_sol_after_wrapper_fee :: "u16 \<Rightarrow> u64 \<Rightarrow> 'q sizing_error + u64" where
  "net_sol_after_wrapper_fee fee_bps gross_lamports =
     (let fee = (ucast (min (ucast gross_lamports * ucast fee_bps div (10000 :: u128))
                            (ucast (max_word :: u64))) :: u64)
      in if gross_lamports < fee then Inl Fee_Exceeds_Quote else Inr (gross_lamports - fee))"

text \<open>The LaunchLab quote: the curve, narrowed to 64 bits, minus the wrapper fee.\<close>

definition map_error :: "('e \<Rightarrow> 'f) \<Rightarrow> 'e + 'a \<Rightarrow> 'f + 'a" where
  "map_error f r = (case r of Inl e \<Rightarrow> Inl (f e) | Inr x \<Rightarrow> Inr x)"

definition biguint_to_u64 :: "nat \<Rightarrow> quote_error sizing_error + u64" where
  "biguint_to_u64 n = (if n < 2 ^ 64 then Inr (of_nat n) else Inl Quote_Exceeds_U64)"

definition launchlab_sell_quote :: "curve_quote_config \<Rightarrow> u16 \<Rightarrow> quote_error quote_fn" where
  "launchlab_sell_quote config fee_bps amount =
     rbind (map_error Quote_Failed (quote_sell_exact_in_amount_b config (unat amount))) (\<lambda>q.
     rbind (biguint_to_u64 q) (\<lambda>gross. net_sol_after_wrapper_fee fee_bps gross))"

section \<open>Steps of the search\<close>

lemma prefer_below:
  "quoted < target \<Longrightarrow> target \<le> q \<Longrightarrow> prefer_better_target_amount (Some (a, q)) amount quoted target = (a, q)"
  by (simp add: prefer_better_target_amount_def)

lemma prefer_reaching:
  assumes "target \<le> quoted" "quoted \<le> q" "amount < a"
  shows "prefer_better_target_amount (Some (a, q)) amount quoted target = (amount, quoted)"
proof -
  have "\<not> q < target" using assms(1,2) by auto
  moreover have "quoted - target \<le> q - target"
    using assms(1,2) by (simp add: word_le_nat_alt unat_sub)
  ultimately show ?thesis
    using assms by (auto simp: prefer_better_target_amount_def target_quote_distance_def)
qed

lemma midpoint:
  fixes low high :: u64
  assumes "low \<le> high"
  shows "low \<le> low + (high - low) div 2" "low + (high - low) div 2 \<le> high"
    "unat (low + (high - low) div 2) = unat low + (unat high - unat low) div 2"
proof -
  have le: "unat low \<le> unat high" using assms by (simp add: word_le_nat_alt)
  have d: "unat ((high - low) div 2) = (unat high - unat low) div 2"
    using assms by (simp add: unat_div unat_sub)
  have "unat low + (unat high - unat low) div 2 \<le> unat high" using le by linarith
  then have small: "unat low + unat ((high - low) div 2) < 2 ^ 64"
    unfolding d by (rule le_less_trans) simp
  then show m: "unat (low + (high - low) div 2) = unat low + (unat high - unat low) div 2"
    using d by (simp add: unat_word_ariths)
  show "low \<le> low + (high - low) div 2" "low + (high - low) div 2 \<le> high"
    using m le by (simp_all add: word_le_nat_alt)
qed

lemma estimate_pos: "0 < target_amount_estimate available target full_quote"
proof (cases "available \<le> 1 \<or> full_quote = 0")
  case True
  have "0 < max available (1 :: u64)" by (auto simp: max_def word_gt_0)
  with True show ?thesis by (simp add: target_amount_estimate_def)
next
  case False
  let ?e = "sat_add (sat_mul (ucast available :: u128) (ucast target)) (sat_sub (ucast full_quote) 1)
              div ucast full_quote"
  let ?v = "max 1 (min ?e (ucast available))"
  have a: "1 < unat available" using False by (simp add: word_le_nat_alt)
  have "unat ?v = max 1 (min (unat ?e) (unat available))"
    by (simp add: unat_max unat_min unat_ucast_128)
  moreover have "min k (unat available) < 2 ^ 64" for k
    by (rule le_less_trans [OF min.cobounded2]) simp
  ultimately have v: "1 \<le> unat ?v" "unat ?v < 2 ^ 64" by simp_all
  have "unat (ucast ?v :: u64) = unat ?v mod 2 ^ 64"
    by (simp add: unsigned_ucast_eq take_bit_eq_mod)
  then have "0 < unat (ucast ?v :: u64)" using v by simp
  then have "0 < (ucast ?v :: u64)" by (simp add: word_less_nat_alt)
  with False show ?thesis
    by (simp add: target_amount_estimate_def Let_def)
qed

section \<open>The search over any quote\<close>

text \<open>
  Whatever the quote does, the search ends, and an amount it returns was quoted, reaches the
  target and does not exceed the balance; only that it is the smallest needs a monotone quote.
\<close>

definition reaching :: "'q quote_fn \<Rightarrow> u64 \<Rightarrow> u64 \<Rightarrow> u64 \<times> u64 \<Rightarrow> bool" where
  "reaching quote available target best \<longleftrightarrow>
     quote (fst best) = Inr (snd best) \<and> target \<le> snd best
     \<and> 0 < fst best \<and> fst best \<le> available"

lemma prefer_reaching_best:
  assumes "reaching quote available target best" "quote amount = Inr quoted"
    and "0 < amount" "amount \<le> available"
  shows "reaching quote available target
           (prefer_better_target_amount (Some best) amount quoted target)"
  using assms by (cases best) (auto simp: reaching_def prefer_better_target_amount_def)

lemma sizing_loop_reaches:
  assumes "reaching quote available target best" "0 < low" "high < available"
  shows "\<exists>r. sizing_loop quote target low high (Some best) = Some r
           \<and> (\<forall>b. r = Inr b \<longrightarrow> (\<exists>x. b = Some x \<and> reaching quote available target x))"
  using assms
proof (induction "unat high + 1 - unat low" arbitrary: low high best rule: less_induct)
  case less
  show ?case
  proof (cases "high < low")
    case True
    then show ?thesis using less.prems(1) by (cases best) (subst sizing_loop.simps, auto)
  next
    case False
    then have le: "low \<le> high" by simp
    let ?m = "low + (high - low) div 2"
    note mid = midpoint [OF le]
    have pos: "0 < ?m" using mid(1) less.prems(2) by (rule less_le_trans [rotated])
    have av: "?m \<le> available" using mid(2) less.prems(3) by (meson le_less_trans less_imp_le)
    have "unat ?m + 1 \<le> unat available"
      using mid(2) less.prems(3) by (simp add: word_le_nat_alt word_less_nat_alt)
    also have "\<dots> \<le> 2 ^ 64 - 1" by simp
    finally have "unat ?m + 1 \<le> 2 ^ 64 - 1" .
    then have nxt: "unat (sat_add ?m 1) = unat ?m + 1"
      by (simp only: unat_sat_add unat_1 min_absorb1 len_num0 len_bit0) simp
    then have up: "0 < sat_add ?m 1" "unat high + 1 - unat (sat_add ?m 1) < unat high + 1 - unat low"
      using mid(1,2) by (simp_all add: word_le_nat_alt word_less_nat_alt)
    have pred: "unat (?m - 1) + 1 = unat ?m"
      using pos by (simp add: unat_minus_one unat_gt_0 word_less_nat_alt)
    then have down: "?m - 1 < available" "unat (?m - 1) + 1 - unat low < unat high + 1 - unat low"
      using mid(1,2) less.prems(3) by (simp_all add: word_le_nat_alt word_less_nat_alt)
    show ?thesis
    proof (cases "quote ?m")
      case (Inl e)
      with False show ?thesis by (subst sizing_loop.simps) (simp add: Let_def)
    next
      case (Inr quoted)
      let ?best = "prefer_better_target_amount (Some best) ?m quoted target"
      have best: "reaching quote available target ?best"
        by (rule prefer_reaching_best [OF less.prems(1) Inr pos av])
      have "sizing_loop quote target low high (Some best) =
          (if quoted = 0 then sizing_loop quote target (sat_add ?m 1) high (Some best)
           else if quoted < target
           then sizing_loop quote target (sat_add ?m 1) high (Some ?best)
           else sizing_loop quote target low (?m - 1) (Some ?best))"
        using pos by (subst sizing_loop.simps) (simp only: Let_def False Inr less_imp_neq [symmetric] if_False sum.case)
      then show ?thesis
        using less.hyps [OF up(2) less.prems(1) up(1) less.prems(3)]
          less.hyps [OF up(2) best up(1) less.prems(3)]
          less.hyps [OF down(2) best less.prems(2) down(1)]
        by presburger
    qed
  qed
qed

lemma choose_reaches:
  "\<exists>r. choose_target_sized_token_amount available target quote = Some r
     \<and> (\<forall>amount. r = Inr amount \<longrightarrow>
          0 < amount \<and> amount \<le> available \<and> (\<exists>q. quote amount = Inr q \<and> target \<le> q))"
proof (cases "target = 0 \<or> available = 0 \<or> (\<exists>e. quote available = Inl e)")
  case True
  then show ?thesis by (auto simp: choose_target_sized_token_amount_def)
next
  case False
  then obtain full where full: "quote available = Inr full" by (cases "quote available") auto
  show ?thesis
  proof (cases "full = 0 \<or> full < target")
    case True
    then show ?thesis using full False by (auto simp: choose_target_sized_token_amount_def)
  next
    case reach: False
    let ?est = "target_amount_estimate available target full"
    let ?best = "(available, full)"
    have a: "0 < available" using False by (simp add: word_gt_0)
    have high: "sat_sub available 1 < available"
      using a by (simp add: word_less_nat_alt unat_sat_sub)
    have start: "reaching quote available target ?best"
      using full reach a by (auto simp: reaching_def)
    have fin: "\<exists>r. map_option (\<lambda>r. rbind r (\<lambda>best. rbind (ok_or best Zero_Quote) (\<lambda>(amount, _). Inr amount)))
          (sizing_loop quote target low high (Some best)) = Some r
        \<and> (\<forall>amount. r = Inr amount \<longrightarrow>
          0 < amount \<and> amount \<le> available \<and> (\<exists>q. quote amount = Inr q \<and> target \<le> q))"
      if "reaching quote available target best" "0 < low" "high < available" for low high best
      using sizing_loop_reaches [OF that] by (auto simp: reaching_def)
    note unfold = choose_target_sized_token_amount_def Let_def
    show ?thesis
    proof (cases "?est < available")
      case est: True
      note pos = estimate_pos [of available target full]
      have up: "0 < sat_add ?est 1" using pos by (simp add: word_less_nat_alt unat_sat_add)
      have down: "sat_sub ?est 1 < available"
        using est pos by (simp add: word_less_nat_alt unat_sat_sub)
      show ?thesis
      proof (cases "quote ?est")
        case (Inl e)
        then show ?thesis using full False reach est by (simp add: unfold)
      next
        case (Inr quoted)
        have best: "reaching quote available target
            (prefer_better_target_amount (Some ?best) ?est quoted target)"
          by (rule prefer_reaching_best [OF start Inr pos less_imp_le [OF est]])
        show ?thesis
          using fin [OF start up high] fin [OF best up high] fin [OF best _ down] full False reach est Inr
          by (simp add: unfold)
      qed
    next
      case False2: False
      then show ?thesis using fin [OF start _ high] full False reach by (simp add: unfold)
    qed
  qed
qed

section \<open>The search over a monotone quote\<close>

locale monotone_quote =
  fixes quote :: "'q quote_fn"
  assumes quote_mono: "quote a = Inr x \<Longrightarrow> quote b = Inr y \<Longrightarrow> a \<le> b \<Longrightarrow> x \<le> y"
begin

text \<open>
  What the loop keeps: the best amount reaches the target and is the next one above the
  interval still searched, and no amount below the interval reaches it.
\<close>

definition search_ok :: "u64 \<Rightarrow> u64 \<Rightarrow> u64 \<Rightarrow> u64 \<times> u64 \<Rightarrow> bool" where
  "search_ok target low high best \<longleftrightarrow>
     quote (fst best) = Inr (snd best) \<and> target \<le> snd best
     \<and> unat (fst best) = unat high + 1 \<and> 0 < low \<and> unat low \<le> unat high + 1
     \<and> (\<forall>b q. 0 < b \<longrightarrow> b < low \<longrightarrow> quote b = Inr q \<longrightarrow> q < target)"

definition smallest_reaching :: "u64 \<Rightarrow> u64 \<Rightarrow> bool" where
  "smallest_reaching target a \<longleftrightarrow>
     (\<exists>q. quote a = Inr q \<and> target \<le> q) \<and> (\<forall>b q. 0 < b \<longrightarrow> b < a \<longrightarrow> quote b = Inr q \<longrightarrow> q < target)"

lemma search_ok_raise:
  assumes "search_ok target low high best" "quote amount = Inr quoted" "quoted < target"
    and "low \<le> amount" "amount \<le> high"
  shows "search_ok target (sat_add amount 1) high best"
proof -
  have nxt: "unat (sat_add amount 1) = unat amount + 1"
    using assms(1,5) unat_less_u64 [of "fst best"]
    by (simp add: search_ok_def unat_sat_add word_le_nat_alt)
  have "q < target" if "quote b = Inr q" "b < sat_add amount 1" for b q
  proof -
    have "b \<le> amount" using that(2) nxt by (simp add: word_le_nat_alt word_less_nat_alt)
    then have "q \<le> quoted" using quote_mono that(1) assms(2) by blast
    then show ?thesis using assms(3) by simp
  qed
  then show ?thesis
    using assms(1,5) nxt by (auto simp: search_ok_def word_le_nat_alt word_less_nat_alt)
qed

lemma search_ok_lower:
  assumes "search_ok target low high (a, q)" "quote amount = Inr quoted" "target \<le> quoted"
    and "low \<le> amount" "amount \<le> high"
  shows "search_ok target low (amount - 1) (amount, quoted)"
    and "prefer_better_target_amount (Some (a, q)) amount quoted target = (amount, quoted)"
proof -
  have pos: "0 < amount" using assms(1,4) by (auto simp: search_ok_def)
  then have "unat (amount - 1) + 1 = unat amount"
    by (simp add: word_gt_0_no unat_minus_one unat_gt_0 word_less_nat_alt)
  then show "search_ok target low (amount - 1) (amount, quoted)"
    using assms pos by (auto simp: search_ok_def word_le_nat_alt)
  have lt: "amount < a"
    using assms(1,5) by (simp add: search_ok_def word_le_nat_alt word_less_nat_alt)
  have "quoted \<le> q"
    using assms(1,2) lt quote_mono by (auto simp: search_ok_def)
  then show "prefer_better_target_amount (Some (a, q)) amount quoted target = (amount, quoted)"
    using assms(3) lt by (intro prefer_reaching)
qed

lemma sizing_loop_finds:
  assumes "search_ok target low high best" "0 < target"
  shows "\<exists>r. sizing_loop quote target low high (Some best) = Some r
           \<and> (\<forall>b. r = Inr b \<longrightarrow> (\<exists>a q. b = Some (a, q) \<and> smallest_reaching target a))"
  using assms
proof (induction "unat high + 1 - unat low" arbitrary: low high best rule: less_induct)
  case less
  obtain a q where best: "best = (a, q)" by (cases best)
  show ?case
  proof (cases "high < low")
    case True
    then have "unat low = unat high + 1"
      using less.prems(1) by (simp add: search_ok_def word_less_nat_alt)
    then have "a = low"
      using less.prems(1) best by (simp add: search_ok_def unat_eq_iff)
    then have "smallest_reaching target a"
      using less.prems(1) best by (auto simp: search_ok_def smallest_reaching_def)
    with True best show ?thesis by (subst sizing_loop.simps) auto
  next
    case False
    then have le: "low \<le> high" by simp
    let ?m = "low + (high - low) div 2"
    note mid = midpoint [OF le]
    show ?thesis
    proof (cases "quote ?m")
      case (Inl e)
      with False show ?thesis by (subst sizing_loop.simps) (simp add: Let_def)
    next
      case (Inr quoted)
      have pos: "?m \<noteq> 0"
        using mid(1) less.prems(1) by (auto simp: search_ok_def)
      have unfold: "sizing_loop quote target low high (Some (a, q)) =
          (if quoted = 0 then sizing_loop quote target (sat_add ?m 1) high (Some (a, q))
           else if quoted < target
           then sizing_loop quote target (sat_add ?m 1) high
                  (Some (prefer_better_target_amount (Some (a, q)) ?m quoted target))
           else sizing_loop quote target low (?m - 1)
                  (Some (prefer_better_target_amount (Some (a, q)) ?m quoted target)))"
        by (subst sizing_loop.simps) (simp only: Let_def False Inr pos if_False sum.case)
      show ?thesis
      proof (cases "quoted < target")
        case True
        have ok: "search_ok target (sat_add ?m 1) high (a, q)"
          using search_ok_raise [OF _ Inr True mid(1,2)] less.prems(1) best by simp
        have nxt: "unat (sat_add ?m 1) = unat ?m + 1"
          using less.prems(1) best mid(2) unat_less_u64 [of a]
          by (simp add: search_ok_def unat_sat_add word_le_nat_alt)
        have step: "sizing_loop quote target low high (Some best)
                    = sizing_loop quote target (sat_add ?m 1) high (Some (a, q))"
          using True less.prems(1) best unfold by (auto simp: search_ok_def prefer_below)
        show ?thesis
          unfolding step
        proof (rule less.hyps)
          show "unat high + 1 - unat (sat_add ?m 1) < unat high + 1 - unat low"
            using nxt mid(1,2) by (simp add: word_le_nat_alt) 
        qed (use ok less.prems(2) in auto)
      next
        case False2: False
        then have reach: "target \<le> quoted" by simp
        have "quoted \<noteq> 0" using reach less.prems(2) by auto
        note low = search_ok_lower [OF less.prems(1) [unfolded best] Inr reach mid(1,2)]
        have step: "sizing_loop quote target low high (Some best)
                    = sizing_loop quote target low (?m - 1) (Some (?m, quoted))"
          using False2 \<open>quoted \<noteq> 0\<close> unfold best low(2) by simp
        show ?thesis
          unfolding step
        proof (rule less.hyps)
          have "unat (?m - 1) + 1 = unat ?m" using low(1) by (simp add: search_ok_def)
          then show "unat (?m - 1) + 1 - unat low < unat high + 1 - unat low"
            using mid(1,2) by (simp add: word_le_nat_alt)
        qed (use low(1) less.prems(2) in auto)
      qed
    qed
  qed
qed

lemma choose_smallest:
  "\<exists>r. choose_target_sized_token_amount available target quote = Some r
     \<and> (\<forall>amount. r = Inr amount \<longrightarrow> smallest_reaching target amount)"
proof (cases "target = 0 \<or> available = 0 \<or> (\<exists>e. quote available = Inl e)")
  case True
  then show ?thesis by (auto simp: choose_target_sized_token_amount_def)
next
  case False
  then obtain full where full: "quote available = Inr full" by (cases "quote available") auto
  have t: "0 < target" and a: "0 < available" using False by (simp_all add: word_gt_0)
  show ?thesis
  proof (cases "full < target")
    case True
    then show ?thesis
      using full False by (auto simp: choose_target_sized_token_amount_def)
  next
    case reach: False
    let ?est = "target_amount_estimate available target full"
    let ?fin = "map_option (\<lambda>r. rbind r (\<lambda>best. rbind (ok_or best Zero_Quote) (\<lambda>(amount, _). Inr amount)))"
    have fin: "\<exists>r. ?fin (sizing_loop quote target low high (Some best)) = Some r
                 \<and> (\<forall>amount. r = Inr amount \<longrightarrow> smallest_reaching target amount)"
      if "search_ok target low high best" for low high best
      using sizing_loop_finds [OF that t] by (auto simp: ok_or_Inr_iff)
    have high: "unat (sat_sub available 1) + 1 = unat available"
      using a by (simp add: unat_sat_sub word_less_nat_alt)
    have tf: "target \<le> full" using reach by simp
    have start: "search_ok target 1 (sat_sub available 1) (available, full)"
      using full high tf by (auto simp: search_ok_def word_less_nat_alt word_gt_0)
    have nonzero: "full \<noteq> 0" using reach t by auto
    show ?thesis
    proof (cases "?est < available")
      case est: True
      have le: "1 \<le> ?est" "?est \<le> sat_sub available 1"
        using est high estimate_pos [of available target full]
        by (simp_all add: word_le_nat_alt word_less_nat_alt)
      show ?thesis
      proof (cases "quote ?est")
        case (Inl e)
        then show ?thesis
          using full False reach nonzero est
          by (simp add: choose_target_sized_token_amount_def Let_def)
      next
        case (Inr quoted)
        show ?thesis
        proof (cases "quoted < target")
          case True
          have "search_ok target (sat_add ?est 1) (sat_sub available 1) (available, full)"
            by (rule search_ok_raise [OF start Inr True le])
          from fin [OF this] show ?thesis
            using full False reach nonzero est Inr True
            by (simp add: choose_target_sized_token_amount_def Let_def prefer_below)
        next
          case quoted: False
          note lower = search_ok_lower [OF start Inr _ le]
          have "sat_sub ?est 1 = ?est - 1"
            using le(1) by (simp add: sat_sub_def)
          then show ?thesis
            using fin [OF lower(1)] lower(2) full False reach nonzero est Inr quoted t
            by (auto simp: choose_target_sized_token_amount_def Let_def)
        qed
      qed
    next
      case False2: False
      from fin [OF start] show ?thesis
        using full False reach nonzero False2
        by (simp add: choose_target_sized_token_amount_def Let_def)
    qed
  qed
qed

end

section \<open>The LaunchLab quote keeps the contract\<close>

lemma word_diff_of_nat: "b \<le> a \<Longrightarrow> a - b = of_nat (unat a - unat (b :: u64))"
  by (metis unat_sub word_of_nat_unat)

lemma wrapper_fee_value:
  "net_sol_after_wrapper_fee fee_bps g =
     (let fee = min (unat g * unat fee_bps div 10000) (2 ^ 64 - 1)
      in if unat g < fee then Inl Fee_Exceeds_Quote else Inr (of_nat (unat g - fee)))"
proof -
  let ?fee = "ucast (min (ucast g * ucast fee_bps div (10000 :: u128)) (ucast (max_word :: u64))) :: u64"
  have "unat g * unat fee_bps < 2 ^ 64 * 2 ^ 16"
    using unat_less_pow [of g] unat_less_pow [of fee_bps]
    by (intro mult_strict_mono') simp_all
  then have "unat (ucast g * ucast fee_bps :: u128) = unat g * unat fee_bps"
    by (simp add: unat_word_ariths unat_ucast_128 unat_ucast_u16)
  then have v: "unat (min (ucast g * ucast fee_bps div (10000 :: u128)) (ucast (max_word :: u64)))
             = min (unat g * unat fee_bps div 10000) (2 ^ 64 - 1)"
    by (simp add: unat_min unat_div unat_ucast_128 unat_max_word)
  have fee: "unat ?fee = min (unat g * unat fee_bps div 10000) (2 ^ 64 - 1)"
    unfolding unsigned_ucast_eq v by (simp add: take_bit_eq_mod)
  show ?thesis
  proof (cases "g < ?fee")
    case True
    then show ?thesis
      using fee by (simp add: net_sol_after_wrapper_fee_def Let_def word_less_nat_alt)
  next
    case False
    then have "g - ?fee = of_nat (unat g - unat ?fee)"
      by (intro word_diff_of_nat) simp
    with False show ?thesis
      using fee by (simp add: net_sol_after_wrapper_fee_def Let_def word_less_nat_alt)
  qed
qed

lemma net_floor_mono:
  fixes g g' f d :: nat
  assumes "g \<le> g'" "f \<le> d" "0 < d"
  shows "g - g * f div d \<le> g' - g' * f div d"
proof -
  obtain k where k: "g' = g + k" using assms(1) le_Suc_ex by blast
  have "g' * f \<le> g * f + k * d" using assms(2) by (simp add: k distrib_right)
  then have "g' * f div d \<le> (g * f + k * d) div d" by (rule div_le_mono)
  also have "\<dots> = g * f div d + k" using assms(3) by simp
  finally show ?thesis using k by linarith
qed

lemma net_sol_mono:
  assumes "net_sol_after_wrapper_fee f g = Inr x" "net_sol_after_wrapper_fee f g' = Inr y" "g \<le> g'"
  shows "x \<le> y"
proof -
  let ?fee = "\<lambda>g. min (unat g * unat f div 10000) (2 ^ 64 - 1)"
  have x: "?fee g \<le> unat g" "x = of_nat (unat g - ?fee g)"
    and y: "?fee g' \<le> unat g'" "y = of_nat (unat g' - ?fee g')"
    using assms(1,2) by (auto simp: wrapper_fee_value Let_def split: if_splits)
  have bound: "unat g - n < 2 ^ 64" for g :: u64 and n
    by (rule le_less_trans [OF diff_le_self]) simp
  have ux: "unat x = unat g - ?fee g" and uy: "unat y = unat g' - ?fee g'"
    unfolding x(2) y(2) using bound by (simp_all add: unat_of_nat_u64)
  have le: "unat g \<le> unat g'" using assms(3) by (simp add: word_le_nat_alt)
  have fee: "?fee h = unat h * unat f div 10000" if "unat f \<le> 10000" for h :: u64
  proof -
    have "unat h * unat f div 10000 \<le> unat h * 10000 div 10000"
      using that by (intro div_le_mono mult_le_mono2)
    then have "unat h * unat f div 10000 \<le> 2 ^ 64 - 1"
      using le_trans [OF _ unat_le_u64 [of h]] by simp
    then show ?thesis by simp
  qed
  have "unat g - ?fee g \<le> unat g' - ?fee g'"
  proof (cases "unat f \<le> 10000")
    case True
    show ?thesis
      unfolding fee [OF True] by (rule net_floor_mono [OF le True]) simp
  next
    case False
    then have "unat g * 10000 div 10000 \<le> unat g * unat f div 10000"
      by (intro div_le_mono mult_le_mono2) simp
    then have "unat g \<le> ?fee g" using unat_le_u64 [of g] by simp
    then show ?thesis by simp
  qed
  then show ?thesis using ux uy by (simp add: word_le_nat_alt)
qed

lemma launchlab_sell_quote_mono:
  assumes "launchlab_sell_quote config f a = Inr x" "launchlab_sell_quote config f b = Inr y" "a \<le> b"
  shows "x \<le> y"
proof -
  obtain q q' where q: "quote_sell_exact_in_amount_b config (unat a) = Inr q" "q < 2 ^ 64"
    "(net_sol_after_wrapper_fee f (of_nat q) :: quote_error sizing_error + u64) = Inr x"
    and q': "quote_sell_exact_in_amount_b config (unat b) = Inr q'" "q' < 2 ^ 64"
    "(net_sol_after_wrapper_fee f (of_nat q') :: quote_error sizing_error + u64) = Inr y"
    using assms(1,2)
    by (auto simp: launchlab_sell_quote_def map_error_def biguint_to_u64_def
        split: sum.splits if_splits)
  have "q \<le> q'"
    using sell_quote_mono [OF q(1) q'(1)] assms(3) by (simp add: word_le_nat_alt)
  then have "(of_nat q :: u64) \<le> of_nat q'"
    using q(2) q'(2) by (simp add: word_le_nat_alt unat_of_nat_u64)
  then show ?thesis by (rule net_sol_mono [OF q(3) q'(3)])
qed

interpretation launchlab: monotone_quote "launchlab_sell_quote config fee_bps" for config fee_bps
  by unfold_locales (rule launchlab_sell_quote_mono)

section \<open>Properties\<close>

text \<open>
  C39: sizing a LaunchLab sale always returns, and when it returns an amount, that amount's
  quote after all fees reaches the target and no smaller amount's does: the user sells no
  more tokens than the wanted SOL needs.
\<close>

theorem launchlab_sizing_sells_the_least:
  "\<exists>r. choose_target_sized_token_amount available target (launchlab_sell_quote config fee_bps) = Some r
     \<and> (\<forall>amount. r = Inr amount \<longrightarrow>
          (\<exists>q. launchlab_sell_quote config fee_bps amount = Inr q \<and> target \<le> q)
          \<and> (\<forall>b q. 0 < b \<longrightarrow> b < amount \<longrightarrow> launchlab_sell_quote config fee_bps b = Inr q \<longrightarrow> q < target))"
  using launchlab.choose_smallest [of available target config fee_bps]
  by (simp only: launchlab.smallest_reaching_def)

definition sample_one_to_one :: curve_quote_config where
  "sample_one_to_one =
     (sample_config 1 1 1 0 100)\<lparr>trade_fee_rate := 0, platform_fee_rate := 0, creator_fee_rate := 0\<rparr>"

lemma sample_one_to_one_quote:
  "launchlab_sell_quote sample_one_to_one 0 amount = Inr amount"
  by (simp add: launchlab_sell_quote_def sample_one_to_one_def sample_config_def
      quote_sell_exact_in_amount_b_def curve_sell_exact_in_def total_fee_rate_def
      calculate_fee_def ceil_div_def big_sub_def Let_def map_error_def biguint_to_u64_def
      net_sol_after_wrapper_fee_def fee_rate_denominator_def)

theorem launchlab_sizing_sells_the_least_witness:
  "choose_target_sized_token_amount 3 2 (launchlab_sell_quote sample_one_to_one 0) = Some (Inr 2)
   \<and> launchlab_sell_quote sample_one_to_one 0 2 = Inr 2 \<and> (1 :: u64) < 2"
proof -
  let ?q = "launchlab_sell_quote sample_one_to_one 0"
  have est: "target_amount_estimate 3 2 3 = 2"
    by (simp add: target_amount_estimate_def Let_def sat_mul_def sat_add_def sat_sub_def word_le_nat_alt)
  have loop: "sizing_loop ?q 2 1 1 (Some (2, 2)) = Some (Inr (Some (2, 2)))"
    by (subst sizing_loop.simps, subst sizing_loop.simps)
      (simp add: sample_one_to_one_quote prefer_below sat_add_def)
  have r: "choose_target_sized_token_amount 3 2 ?q = Some (Inr 2)"
    using loop
    by (simp add: choose_target_sized_token_amount_def sample_one_to_one_quote est Let_def
        prefer_reaching sat_sub_def ok_or_def)
  have "\<forall>b q. 0 < b \<longrightarrow> b < 2 \<longrightarrow> ?q b = Inr q \<longrightarrow> q < 2"
    and "\<exists>q. ?q 2 = Inr q \<and> 2 \<le> q"
    using launchlab_sizing_sells_the_least [of 3 2 sample_one_to_one 0] r by auto
  then have "(1 :: u64) < 2" by (auto simp: sample_one_to_one_quote)
  with r show ?thesis by (simp add: sample_one_to_one_quote)
qed

end
