(* ===== verification/Launchlab_Accounts.thy ===== *)
theory Launchlab_Accounts
  imports Byte_Codec Launchlab_Curve
begin

text \<open>
  The LaunchLab accounts and instructions (\<^verbatim>\<open>shared-raydium-launchlab/src/lib.rs\<close>): byte
  readers, the three account decoders, program-derived addresses and the swap instruction
  builders.
\<close>

section \<open>Pool, configuration and context\<close>

datatype launchlab_pool_status = Trading | Migrating | Migrated | Unknown_Status u8

definition status_from_raw :: "u8 \<Rightarrow> launchlab_pool_status" where
  "status_from_raw v =
     (if v = 0 then Trading else if v = 1 then Migrating else if v = 2 then Migrated
      else Unknown_Status v)"

record decoded_launchlab_pool =
  pool_creator :: pubkey
  pool_status :: u8
  pool_migrate_type :: u8
  pool_supply :: u64
  pool_config_id :: pubkey
  pool_total_sell_a :: u64
  pool_virtual_a :: u64
  pool_virtual_b :: u64
  pool_real_a :: u64
  pool_real_b :: u64
  pool_platform_id :: pubkey
  pool_mint_a :: pubkey
  pool_mint_b :: pubkey

definition lifecycle_status :: "decoded_launchlab_pool \<Rightarrow> launchlab_pool_status" where
  "lifecycle_status p = status_from_raw (pool_status p)"

definition curve_state :: "decoded_launchlab_pool \<Rightarrow> curve_pool_state" where
  "curve_state p =
     \<lparr>total_sell_a = unat (pool_total_sell_a p), virtual_a = unat (pool_virtual_a p),
      virtual_b = unat (pool_virtual_b p), real_a = unat (pool_real_a p),
      real_b = unat (pool_real_b p)\<rparr>"

record decoded_launchlab_config =
  config_curve_type :: u8
  config_migrate_fee :: u64
  config_trade_fee_rate :: u64

record decoded_platform_config =
  platform_rate :: u64
  platform_creator_rate :: u64

record launchlab_pool_context =
  ctx_pool_id :: pubkey
  ctx_pool :: decoded_launchlab_pool
  ctx_config :: decoded_launchlab_config
  ctx_platform :: decoded_platform_config
  ctx_quote_mint :: pubkey
  ctx_token_program :: pubkey
  ctx_quote_token_program :: pubkey

section \<open>Reading account data\<close>

datatype account_error = Short_Data | Invalid_Pubkey string

type_synonym 'a reader = "bytes \<Rightarrow> nat \<Rightarrow> account_error + ('a \<times> nat)"

definition read_u8 :: "u8 reader" where
  "read_u8 data off = (if off < length data then Inr (data ! off, off + 1) else Inl Short_Data)"

text \<open>\<^verbatim>\<open>data.get(a..b)\<close>: offsets stay far below \<^verbatim>\<open>usize::MAX\<close>, so nothing saturates.\<close>

definition slice :: "bytes \<Rightarrow> nat \<Rightarrow> nat \<Rightarrow> bytes option" where
  "slice data a n = (if a + n \<le> length data then Some (take n (drop a data)) else None)"

definition read_u64 :: "u64 reader" where
  "read_u64 data off =
     (case slice data off 8 of None \<Rightarrow> Inl Short_Data
      | Some bs \<Rightarrow> Inr (u64_from_le_bytes bs, off + 8))"

definition read_pubkey :: "pubkey reader" where
  "read_pubkey data off =
     (case slice data off 32 of None \<Rightarrow> Inl Short_Data | Some bs \<Rightarrow> Inr (bs, off + 32))"

definition skip :: "bytes \<Rightarrow> nat \<Rightarrow> nat \<Rightarrow> account_error + nat" where
  "skip data off n = (case slice data off n of None \<Rightarrow> Inl Short_Data | Some _ \<Rightarrow> Inr (off + n))"

fun read_u64_times :: "nat \<Rightarrow> bytes \<Rightarrow> nat \<Rightarrow> account_error + nat" where
  "read_u64_times 0 data off = Inr off"
| "read_u64_times (Suc n) data off = rbind (read_u64 data off) (\<lambda>(_, off). read_u64_times n data off)"

definition decode_launchlab_config :: "bytes \<Rightarrow> account_error + decoded_launchlab_config" where
  "decode_launchlab_config data =
     rbind (read_u64 data 0) (\<lambda>(discriminator, off).
     rbind (read_u64 data off) (\<lambda>(epoch, off).
     rbind (read_u8 data off) (\<lambda>(ct, off).
     rbind (skip data off 2) (\<lambda>off.
     rbind (read_u64 data off) (\<lambda>(migrate_fee, off).
     rbind (read_u64 data off) (\<lambda>(trade_rate, off).
     Inr \<lparr>config_curve_type = ct, config_migrate_fee = migrate_fee,
          config_trade_fee_rate = trade_rate\<rparr>))))))"

definition decode_platform_config :: "bytes \<Rightarrow> account_error + decoded_platform_config" where
  "decode_platform_config data =
     rbind (read_u64 data 0) (\<lambda>(discriminator, off).
     rbind (read_u64 data off) (\<lambda>(epoch, off).
     rbind (read_pubkey data off) (\<lambda>(platform_claim_fee_wallet, off).
     rbind (read_pubkey data off) (\<lambda>(platform_lock_nft_wallet, off).
     rbind (read_u64 data off) (\<lambda>(platform_scale, off).
     rbind (read_u64 data off) (\<lambda>(creator_scale, off).
     rbind (read_u64 data off) (\<lambda>(burn_scale, off).
     rbind (read_u64 data off) (\<lambda>(rate, off).
     rbind (skip data off (64 + 256 + 256)) (\<lambda>off.
     rbind (read_pubkey data off) (\<lambda>(cp_config_id, off).
     rbind (read_u64 data off) (\<lambda>(creator_rate, off).
     Inr \<lparr>platform_rate = rate, platform_creator_rate = creator_rate\<rparr>)))))))))))"

definition decode_launchlab_pool :: "bytes \<Rightarrow> account_error + decoded_launchlab_pool" where
  "decode_launchlab_pool data =
     rbind (read_u64 data 0) (\<lambda>(discriminator, off).
     rbind (read_u64 data off) (\<lambda>(epoch, off).
     rbind (read_u8 data off) (\<lambda>(bump, off).
     rbind (read_u8 data off) (\<lambda>(status, off).
     rbind (read_u8 data off) (\<lambda>(mint_decimals_a, off).
     rbind (read_u8 data off) (\<lambda>(mint_decimals_b, off).
     rbind (read_u8 data off) (\<lambda>(migrate_type, off).
     rbind (read_u64 data off) (\<lambda>(supply, off).
     rbind (read_u64 data off) (\<lambda>(tsa, off).
     rbind (read_u64 data off) (\<lambda>(va, off).
     rbind (read_u64 data off) (\<lambda>(vb, off).
     rbind (read_u64 data off) (\<lambda>(ra, off).
     rbind (read_u64 data off) (\<lambda>(rb, off).
     rbind (read_u64 data off) (\<lambda>(total_fund_raising_b, off).
     rbind (read_u64 data off) (\<lambda>(protocol_fee, off).
     rbind (read_u64 data off) (\<lambda>(platform_fee, off).
     rbind (read_u64 data off) (\<lambda>(migrate_fee, off).
     rbind (read_u64_times 5 data off) (\<lambda>off.
     rbind (read_pubkey data off) (\<lambda>(config_id, off).
     rbind (read_pubkey data off) (\<lambda>(platform_id, off).
     rbind (read_pubkey data off) (\<lambda>(mint_a, off).
     rbind (read_pubkey data off) (\<lambda>(mint_b, off).
     rbind (read_pubkey data off) (\<lambda>(vault_a, off).
     rbind (read_pubkey data off) (\<lambda>(vault_b, off).
     rbind (read_pubkey data off) (\<lambda>(creator, off).
     Inr \<lparr>pool_creator = creator, pool_status = status, pool_migrate_type = migrate_type,
          pool_supply = supply, pool_config_id = config_id, pool_total_sell_a = tsa,
          pool_virtual_a = va, pool_virtual_b = vb, pool_real_a = ra, pool_real_b = rb,
          pool_platform_id = platform_id, pool_mint_a = mint_a, pool_mint_b = mint_b\<rparr>
     )))))))))))))))))))))))))"

section \<open>Program ids and derived addresses\<close>

definition parse_pubkey :: "solana_sdk \<Rightarrow> string \<Rightarrow> string \<Rightarrow> account_error + pubkey" where
  "parse_pubkey sdk value label = ok_or (pubkey_from_str sdk value) (Invalid_Pubkey label)"

definition launchlab_program_id :: "solana_sdk \<Rightarrow> account_error + pubkey" where
  "launchlab_program_id sdk =
     parse_pubkey sdk ''LanMV9sAd7wArD4vJFi2qDdfnVhFxYSUg6eADduJ3uj'' ''LaunchLab program id''"

definition raydium_cpmm_program_id :: "solana_sdk \<Rightarrow> account_error + pubkey" where
  "raydium_cpmm_program_id sdk =
     parse_pubkey sdk ''CPMMoo8L3F4NbTegBCKVNunggL7H1ZpdTHKxQB5qKP1C'' ''Raydium CPMM program id''"

definition raydium_amm_v4_program_id :: "solana_sdk \<Rightarrow> account_error + pubkey" where
  "raydium_amm_v4_program_id sdk =
     parse_pubkey sdk ''675kPX9MHTjS2zt1qfr1NYHuzeLXfQM9H24wFSUt1Mp8'' ''Raydium AMM v4 program id''"

definition wsol_mint :: "solana_sdk \<Rightarrow> account_error + pubkey" where
  "wsol_mint sdk = parse_pubkey sdk ''So11111111111111111111111111111111111111112'' ''WSOL mint''"

definition token_2022_program_id :: "solana_sdk \<Rightarrow> account_error + pubkey" where
  "token_2022_program_id sdk =
     parse_pubkey sdk ''TokenzQdBNbLqP5VEhdkAS6EPFLC1PHnBqCXEpPxuEb'' ''Token-2022 program id''"

definition derived :: "solana_sdk \<Rightarrow> bytes list \<Rightarrow> account_error + pubkey" where
  "derived sdk seeds =
     rbind (launchlab_program_id sdk) (\<lambda>program. Inr (fst (find_program_address sdk seeds program)))"

definition canonical_pool_id :: "solana_sdk \<Rightarrow> pubkey \<Rightarrow> pubkey \<Rightarrow> account_error + pubkey" where
  "canonical_pool_id sdk mint_a quote_mint = derived sdk [byte_string ''pool'', mint_a, quote_mint]"

definition launchpad_auth_pda :: "solana_sdk \<Rightarrow> account_error + pubkey" where
  "launchpad_auth_pda sdk = derived sdk [byte_string ''vault_auth_seed'']"

definition launchpad_cpi_event_pda :: "solana_sdk \<Rightarrow> account_error + pubkey" where
  "launchpad_cpi_event_pda sdk = derived sdk [byte_string ''__event_authority'']"

definition launchpad_pool_vault_pda ::
  "solana_sdk \<Rightarrow> pubkey \<Rightarrow> pubkey \<Rightarrow> account_error + pubkey" where
  "launchpad_pool_vault_pda sdk pool_id mint = derived sdk [byte_string ''pool_vault'', pool_id, mint]"

definition platform_fee_vault_pda ::
  "solana_sdk \<Rightarrow> pubkey \<Rightarrow> pubkey \<Rightarrow> account_error + pubkey" where
  "platform_fee_vault_pda sdk platform_id mint = derived sdk [platform_id, mint]"

definition creator_fee_vault_pda ::
  "solana_sdk \<Rightarrow> pubkey \<Rightarrow> pubkey \<Rightarrow> account_error + pubkey" where
  "creator_fee_vault_pda sdk creator mint = derived sdk [creator, mint]"

section \<open>Instructions\<close>

definition buy_exact_in_discriminator :: bytes where
  "buy_exact_in_discriminator = [250, 234, 13, 123, 213, 156, 19, 236]"

definition sell_exact_in_discriminator :: bytes where
  "sell_exact_in_discriminator = [149, 39, 222, 155, 211, 124, 152, 26]"

definition cpmm_swap_base_output_discriminator :: bytes where
  "cpmm_swap_base_output_discriminator = [55, 217, 98, 86, 163, 74, 180, 173]"

text \<open>The two builders differ in their discriminator only.\<close>

definition build_exact_in ::
  "bytes \<Rightarrow> solana_sdk \<Rightarrow> pubkey \<Rightarrow> launchlab_pool_context \<Rightarrow> pubkey \<Rightarrow> pubkey \<Rightarrow> u64 \<Rightarrow> u64
     \<Rightarrow> account_error + instruction" where
  "build_exact_in discriminator sdk owner context user_a user_b amount min_amount =
     rbind (launchlab_program_id sdk) (\<lambda>launchpad_program.
     rbind (launchpad_auth_pda sdk) (\<lambda>auth.
     rbind (launchpad_pool_vault_pda sdk (ctx_pool_id context) (pool_mint_a (ctx_pool context)))
       (\<lambda>vault_a.
     rbind (launchpad_pool_vault_pda sdk (ctx_pool_id context) (ctx_quote_mint context))
       (\<lambda>vault_b.
     rbind (platform_fee_vault_pda sdk (pool_platform_id (ctx_pool context)) (ctx_quote_mint context))
       (\<lambda>platform_claim_fee_vault.
     rbind (creator_fee_vault_pda sdk (pool_creator (ctx_pool context)) (ctx_quote_mint context))
       (\<lambda>creator_claim_fee_vault.
     rbind (launchpad_cpi_event_pda sdk) (\<lambda>cpi_event.
     Inr \<lparr>program_id = launchpad_program,
          ix_accounts =
            [meta_new owner True,
             meta_new_readonly auth False,
             meta_new_readonly (pool_config_id (ctx_pool context)) False,
             meta_new_readonly (pool_platform_id (ctx_pool context)) False,
             meta_new (ctx_pool_id context) False,
             meta_new user_a False,
             meta_new user_b False,
             meta_new vault_a False,
             meta_new vault_b False,
             meta_new_readonly (pool_mint_a (ctx_pool context)) False,
             meta_new_readonly (ctx_quote_mint context) False,
             meta_new_readonly (ctx_token_program context) False,
             meta_new_readonly (ctx_quote_token_program context) False,
             meta_new_readonly cpi_event False,
             meta_new_readonly launchpad_program False,
             meta_new_readonly (system_program_id sdk) False,
             meta_new platform_claim_fee_vault False,
             meta_new creator_claim_fee_vault False],
          ix_bytes = discriminator @ u64_to_le_bytes amount @ u64_to_le_bytes min_amount
                      @ u64_to_le_bytes 0\<rparr>)))))))"

definition build_buy_exact_in_instruction ::
  "solana_sdk \<Rightarrow> pubkey \<Rightarrow> launchlab_pool_context \<Rightarrow> pubkey \<Rightarrow> pubkey \<Rightarrow> u64 \<Rightarrow> u64
     \<Rightarrow> account_error + instruction" where
  "build_buy_exact_in_instruction = build_exact_in buy_exact_in_discriminator"

definition build_sell_exact_in_instruction ::
  "solana_sdk \<Rightarrow> pubkey \<Rightarrow> launchlab_pool_context \<Rightarrow> pubkey \<Rightarrow> pubkey \<Rightarrow> u64 \<Rightarrow> u64
     \<Rightarrow> account_error + instruction" where
  "build_sell_exact_in_instruction = build_exact_in sell_exact_in_discriminator"

definition build_cpmm_base_output_data :: "u64 \<Rightarrow> u64 \<Rightarrow> bytes" where
  "build_cpmm_base_output_data max_amount_in amount_out =
     cpmm_swap_base_output_discriminator @ u64_to_le_bytes max_amount_in
       @ u64_to_le_bytes amount_out"

section \<open>The readers on data of known length\<close>

lemma slice_at:
  "slice (pre @ bs @ rest) off n = Some bs" if "off = length pre" "length bs = n"
  using that by (simp add: slice_def)

lemma read_u64_at:
  "off = length pre \<Longrightarrow> read_u64 (pre @ u64_to_le_bytes x @ rest) off = Inr (x, off + 8)"
  by (simp add: read_u64_def slice_at)

lemma read_u64_eq:
  "read_u64 data off = (if off + 8 \<le> length data
     then Inr (u64_from_le_bytes (take 8 (drop off data)), off + 8) else Inl Short_Data)"
  by (simp add: read_u64_def slice_def)

lemma read_pubkey_eq:
  "read_pubkey data off = (if off + 32 \<le> length data
     then Inr (take 32 (drop off data), off + 32) else Inl Short_Data)"
  by (simp add: read_pubkey_def slice_def)

lemma skip_eq: "skip data off n = (if off + n \<le> length data then Inr (off + n) else Inl Short_Data)"
  by (simp add: skip_def slice_def)

lemmas reader_eqs = read_u8_def read_u64_eq read_pubkey_eq skip_eq

lemma read_u64_times_eq:
  "read_u64_times n data off =
     (if n = 0 \<or> off + 8 * n \<le> length data then Inr (off + 8 * n) else Inl Short_Data)"
  by (induction n arbitrary: off) (auto simp: read_u64_eq)

lemma rbind_short:
  "(\<And>x. r = Inr x \<Longrightarrow> f x = Inl e) \<Longrightarrow> (\<And>x. r = Inl x \<Longrightarrow> x = e) \<Longrightarrow> rbind r f = Inl e"
  by (cases r) auto

definition u64_at :: "bytes \<Rightarrow> nat \<Rightarrow> u64" where
  "u64_at data off = u64_from_le_bytes (take 8 (drop off data))"

definition pubkey_at :: "bytes \<Rightarrow> nat \<Rightarrow> pubkey" where
  "pubkey_at data off = take 32 (drop off data)"

lemma decode_pool_long:
  "365 \<le> length data \<Longrightarrow> decode_launchlab_pool data =
     Inr \<lparr>pool_creator = pubkey_at data 333, pool_status = data ! 17,
          pool_migrate_type = data ! 20, pool_supply = u64_at data 21,
          pool_config_id = pubkey_at data 141, pool_total_sell_a = u64_at data 29,
          pool_virtual_a = u64_at data 37, pool_virtual_b = u64_at data 45,
          pool_real_a = u64_at data 53, pool_real_b = u64_at data 61,
          pool_platform_id = pubkey_at data 173, pool_mint_a = pubkey_at data 205,
          pool_mint_b = pubkey_at data 237\<rparr>"
  by (simp add: decode_launchlab_pool_def reader_eqs read_u64_times_eq u64_at_def pubkey_at_def)

lemma decode_pool_short: "length data < 365 \<Longrightarrow> decode_launchlab_pool data = Inl Short_Data"
  unfolding decode_launchlab_pool_def
  by (intro rbind_short; (clarsimp simp: reader_eqs read_u64_times_eq split: if_splits)?)

lemma decode_config_short: "length data < 35 \<Longrightarrow> decode_launchlab_config data = Inl Short_Data"
  unfolding decode_launchlab_config_def
  by (intro rbind_short; (clarsimp simp: reader_eqs split: if_splits)?)

lemma decode_platform_short: "length data < 728 \<Longrightarrow> decode_platform_config data = Inl Short_Data"
  unfolding decode_platform_config_def
  by (intro rbind_short; (clarsimp simp: reader_eqs split: if_splits)?)

section \<open>Properties\<close>

text \<open>
  Decoding a pool account reads every field at its fixed offset, whatever follows the
  365 bytes the layout needs, and reports an error, never a partial pool, on shorter data.
\<close>

theorem decode_pool_reads_fixed_offsets:
  "decode_launchlab_pool data =
     (if length data < 365 then Inl Short_Data
      else Inr \<lparr>pool_creator = pubkey_at data 333, pool_status = data ! 17,
          pool_migrate_type = data ! 20, pool_supply = u64_at data 21,
          pool_config_id = pubkey_at data 141, pool_total_sell_a = u64_at data 29,
          pool_virtual_a = u64_at data 37, pool_virtual_b = u64_at data 45,
          pool_real_a = u64_at data 53, pool_real_b = u64_at data 61,
          pool_platform_id = pubkey_at data 173, pool_mint_a = pubkey_at data 205,
          pool_mint_b = pubkey_at data 237\<rparr>)"
  by (simp add: decode_pool_short decode_pool_long)

text \<open>
  The curve configuration and the platform configuration are decoded at their fixed
  offsets from at least 35 and 728 bytes, and shorter data is an error.
\<close>

theorem decode_configs_read_fixed_offsets:
  "decode_launchlab_config data =
     (if length data < 35 then Inl Short_Data
      else Inr \<lparr>config_curve_type = data ! 16, config_migrate_fee = u64_at data 19,
                config_trade_fee_rate = u64_at data 27\<rparr>)
   \<and> decode_platform_config data =
     (if length data < 728 then Inl Short_Data
      else Inr \<lparr>platform_rate = u64_at data 104, platform_creator_rate = u64_at data 720\<rparr>)"
proof
  show "decode_launchlab_config data =
     (if length data < 35 then Inl Short_Data
      else Inr \<lparr>config_curve_type = data ! 16, config_migrate_fee = u64_at data 19,
                config_trade_fee_rate = u64_at data 27\<rparr>)"
    by (cases "length data < 35")
      (simp_all add: decode_config_short decode_launchlab_config_def reader_eqs u64_at_def)
  show "decode_platform_config data =
     (if length data < 728 then Inl Short_Data
      else Inr \<lparr>platform_rate = u64_at data 104, platform_creator_rate = u64_at data 720\<rparr>)"
    by (cases "length data < 728")
      (simp_all add: decode_platform_short decode_platform_config_def reader_eqs u64_at_def)
qed

lemma exact_in_bytes:
  assumes "length d = 8"
  shows "read_u64 (d @ u64_to_le_bytes x @ u64_to_le_bytes y @ u64_to_le_bytes z) 8 = Inr (x, 16)"
    and "read_u64 (d @ u64_to_le_bytes x @ u64_to_le_bytes y @ u64_to_le_bytes z) 16 = Inr (y, 24)"
  using read_u64_at [of 8 d x "u64_to_le_bytes y @ u64_to_le_bytes z"]
    read_u64_at [of 16 "d @ u64_to_le_bytes x" y "u64_to_le_bytes z"] assms
  by simp_all

text \<open>
  A swap instruction carries its discriminator followed by the amount and the minimum,
  both readable back from the bytes; it has 18 accounts, only the owner signs, and the only
  accounts it lets the program write are the owner's, the pool's and the four vaults.
\<close>

theorem exact_in_instruction_shape:
  assumes "build = build_buy_exact_in_instruction \<and> disc = buy_exact_in_discriminator
           \<or> build = build_sell_exact_in_instruction \<and> disc = sell_exact_in_discriminator"
    and "build sdk owner context user_a user_b amount min_amount = Inr ix"
    and "launchpad_pool_vault_pda sdk (ctx_pool_id context) (pool_mint_a (ctx_pool context)) = Inr va"
    and "launchpad_pool_vault_pda sdk (ctx_pool_id context) (ctx_quote_mint context) = Inr vb"
    and "platform_fee_vault_pda sdk (pool_platform_id (ctx_pool context)) (ctx_quote_mint context) = Inr pf"
    and "creator_fee_vault_pda sdk (pool_creator (ctx_pool context)) (ctx_quote_mint context) = Inr cf"
  shows "take 8 (ix_bytes ix) = disc \<and> length (ix_bytes ix) = 32
    \<and> read_u64 (ix_bytes ix) 8 = Inr (amount, 16) \<and> read_u64 (ix_bytes ix) 16 = Inr (min_amount, 24)
    \<and> length (ix_accounts ix) = 18
    \<and> map meta_pubkey (filter is_signer (ix_accounts ix)) = [owner]
    \<and> map meta_pubkey (filter is_writable (ix_accounts ix))
        = [owner, ctx_pool_id context, user_a, user_b, va, vb, pf, cf]"
proof -
  have build: "build_exact_in disc sdk owner context user_a user_b amount min_amount = Inr ix"
    and len: "length disc = 8"
    using assms(1,2)
    by (auto simp: build_buy_exact_in_instruction_def build_sell_exact_in_instruction_def
        buy_exact_in_discriminator_def sell_exact_in_discriminator_def)
  show ?thesis
    using build assms(3-6) len
    by (auto simp: build_exact_in_def meta_new_def meta_new_readonly_def exact_in_bytes)
qed

definition sample_sdk :: solana_sdk where
  "sample_sdk = \<lparr>pubkey_from_str = (\<lambda>s. Some (byte_string s)),
                find_program_address = (\<lambda>seeds program. (concat seeds, 255)),
                system_program_id = replicate 32 0, rent_sysvar_id = replicate 32 1,
                instructions_sysvar_id = replicate 32 2\<rparr>"

definition sample_context :: launchlab_pool_context where
  "sample_context =
     \<lparr>ctx_pool_id = [1],
      ctx_pool = \<lparr>pool_creator = [2], pool_status = 0, pool_migrate_type = 0, pool_supply = 9,
                  pool_config_id = [3], pool_total_sell_a = 9, pool_virtual_a = 9,
                  pool_virtual_b = 9, pool_real_a = 0, pool_real_b = 0, pool_platform_id = [4],
                  pool_mint_a = [5], pool_mint_b = [6]\<rparr>,
      ctx_config = \<lparr>config_curve_type = 0, config_migrate_fee = 0, config_trade_fee_rate = 0\<rparr>,
      ctx_platform = \<lparr>platform_rate = 0, platform_creator_rate = 0\<rparr>,
      ctx_quote_mint = [6], ctx_token_program = [7], ctx_quote_token_program = [8]\<rparr>"

theorem exact_in_instruction_shape_witness:
  "\<exists>ix. build_buy_exact_in_instruction sample_sdk [10] sample_context [11] [12] 123 45 = Inr ix
     \<and> length (ix_accounts ix) = 18 \<and> read_u64 (ix_bytes ix) 8 = Inr (123, 16)"
proof -
  obtain ix where ix: "build_buy_exact_in_instruction sample_sdk [10] sample_context [11] [12] 123 45 = Inr ix"
    by (simp add: build_buy_exact_in_instruction_def build_exact_in_def launchlab_program_id_def
        parse_pubkey_def sample_sdk_def launchpad_auth_pda_def launchpad_pool_vault_pda_def
        platform_fee_vault_pda_def creator_fee_vault_pda_def launchpad_cpi_event_pda_def
        derived_def ok_or_def)
  have pdas: "derived sample_sdk seeds = Inr (concat seeds)" for seeds
    by (simp add: derived_def launchlab_program_id_def parse_pubkey_def sample_sdk_def ok_or_def)
  show ?thesis
    using exact_in_instruction_shape [of build_buy_exact_in_instruction
        buy_exact_in_discriminator sample_sdk "[10]" sample_context "[11]" "[12]" 123 45 ix] ix
    by (simp add: launchpad_pool_vault_pda_def platform_fee_vault_pda_def
        creator_fee_vault_pda_def pdas)
qed

end
