(* ===== verification/Constant_Product.thy ===== *)
theory Constant_Product
  imports Main
begin

text \<open>
  The arithmetic of a constant-product pool over natural numbers, which the Raydium and Pump
  venues share: what a swap of \<open>x\<close> into a pool with reserves \<open>ri\<close> and \<open>ro\<close> pays.
\<close>

definition cp_out :: "nat \<Rightarrow> nat \<Rightarrow> nat \<Rightarrow> nat" where
  "cp_out ri ro x = x * ro div (ri + x)"

lemma cp_out_zero [simp]: "cp_out ri ro 0 = 0"
  by (simp add: cp_out_def)

lemma cp_out_le: "cp_out ri ro x \<le> ro"
proof (cases "ri + x = 0")
  case False
  have "x * ro \<le> (ri + x) * ro" by simp
  then have "cp_out ri ro x \<le> (ri + x) * ro div (ri + x)"
    unfolding cp_out_def by (rule div_le_mono)
  with False show ?thesis by simp
qed (simp add: cp_out_def)

lemma cp_out_less: "0 < ri \<Longrightarrow> 0 < ro \<Longrightarrow> cp_out ri ro x < ro"
  unfolding cp_out_def by (rule less_mult_imp_div_less) (simp add: algebra_simps)

text \<open>The product of the reserves does not fall.\<close>

lemma cp_out_keeps_product:
  "ri * ro \<le> (ri + x) * (ro - cp_out ri ro x)"
proof -
  let ?q = "cp_out ri ro x"
  have "?q * (ri + x) \<le> x * ro" by (simp add: cp_out_def)
  then have "(ri + x) * ro - (ri + x) * ?q \<ge> (ri + x) * ro - x * ro"
    by (intro diff_le_mono2) (simp add: mult.commute)
  then show ?thesis by (simp add: diff_mult_distrib2 algebra_simps)
qed

lemma cp_out_mono:
  assumes "x \<le> y"
  shows "cp_out ri ro x \<le> cp_out ri ro y"
proof (cases "ri + y = 0")
  case True
  then show ?thesis using assms by simp
next
  case False
  let ?q = "cp_out ri ro x"
  have le: "?q \<le> ro" by (rule cp_out_le)
  have "?q * (ri + x) \<le> x * ro" by (simp add: cp_out_def)
  then have "?q * ri \<le> x * ro - ?q * x" by (simp add: algebra_simps)
  also have "\<dots> = x * (ro - ?q)" by (simp add: diff_mult_distrib2 mult.commute)
  also have "\<dots> \<le> y * (ro - ?q)" using assms by (rule mult_right_mono) simp
  also have "\<dots> = y * ro - y * ?q" by (simp add: diff_mult_distrib2)
  finally have "?q * ri \<le> y * ro - y * ?q" .
  moreover have "y * ?q \<le> y * ro" using le by simp
  ultimately have "?q * ri + y * ?q \<le> y * ro" by linarith
  then have "?q * (ri + y) \<le> y * ro" by (simp add: algebra_simps)
  then have "?q * (ri + y) div (ri + y) \<le> y * ro div (ri + y)" by (rule div_le_mono)
  with False show ?thesis by (simp add: cp_out_def)
qed

text \<open>The same with a divisor that saturates at \<open>m\<close>.\<close>

definition cp_out_capped :: "nat \<Rightarrow> nat \<Rightarrow> nat \<Rightarrow> nat \<Rightarrow> nat" where
  "cp_out_capped m ri ro x = x * ro div min (ri + x) m"

lemma cp_out_capped_eq: "ri + x \<le> m \<Longrightarrow> cp_out_capped m ri ro x = cp_out ri ro x"
  by (simp add: cp_out_capped_def cp_out_def)

lemma cp_out_capped_le:
  assumes "x \<le> m"
  shows "cp_out_capped m ri ro x \<le> ro"
proof (cases "ri + x \<le> m")
  case True
  then show ?thesis by (simp add: cp_out_capped_eq cp_out_le)
next
  case False
  have "x * ro div m \<le> m * ro div m" using assms by (intro div_le_mono) simp
  with False show ?thesis by (cases "m = 0") (simp_all add: cp_out_capped_def min_def)
qed

lemma cp_out_capped_mono:
  assumes "x \<le> y" "0 < m"
  shows "cp_out_capped m ri ro x \<le> cp_out_capped m ri ro y"
proof (cases "ri + x \<le> m")
  case True
  have "cp_out ri ro x \<le> cp_out ri ro y" by (rule cp_out_mono [OF assms(1)])
  also have "\<dots> \<le> cp_out_capped m ri ro y"
  proof (cases "ri + y = 0")
    case False
    then show ?thesis
      unfolding cp_out_def cp_out_capped_def using assms(2) by (intro div_le_mono2) simp_all
  qed (simp add: cp_out_def)
  finally show ?thesis using True by (simp add: cp_out_capped_eq)
next
  case False
  then show ?thesis
    using assms(1) by (simp add: cp_out_capped_def min_def div_le_mono)
qed

text \<open>Rounding a fee up never makes a larger amount smaller after the fee.\<close>

lemma after_ceil_fee_mono:
  fixes x y r d :: nat
  assumes "x \<le> y" "r \<le> d" "0 < d"
  shows "x - (x * r + (d - 1)) div d \<le> y - (y * r + (d - 1)) div d"
proof -
  have after: "z - (z * r + (d - 1)) div d = z * (d - r) div d" for z
  proof -
    define m where "m = z * (d - r)"
    have split: "z * d = z * r + m"
      unfolding m_def using assms(2) by (metis add_mult_distrib2 le_add_diff_inverse)
    have q: "m div d * d \<le> m" "m < m div d * d + d"
      using mod_less_divisor [OF assms(3), of m] div_mult_mod_eq [of m d] by linarith+
    have le: "m div d \<le> z"
    proof -
      have "m \<le> z * d" using split by simp
      then have "m div d \<le> z * d div d" by (rule div_le_mono)
      then show ?thesis using assms(3) by simp
    qed
    have "(z * r + (d - 1)) div d = z - m div d"
    proof (rule div_nat_eqI)
      show "d * (z - m div d) \<le> z * r + (d - 1)"
        using split q(2) assms(3) by (simp add: diff_mult_distrib2 mult.commute [of d])
      have "d * Suc (z - m div d) = d + (z * d - m div d * d)"
        by (simp add: diff_mult_distrib2 mult.commute [of d])
      then show "z * r + (d - 1) < d * Suc (z - m div d)"
        using split q(1) assms(3) by linarith
    qed
    with le show ?thesis by (simp add: m_def)
  qed
  show ?thesis unfolding after using assms(1) by (intro div_le_mono mult_right_mono) simp_all
qed

end
