(* ===== verification/Venue_Runtime.thy ===== *)
theory Venue_Runtime
  imports Fee_Resolution Trade_Planner Sell_Sizing Launchlab_Accounts Wrapper_Abi Constant_Product "HOL-Library.AList"
    "HOL-Library.Sublist"
begin

text \<open>
  What the venue compilers of the execution engine share (the same helper functions stand in
  \<^verbatim>\<open>raydium_amm_v4_native.rs\<close>, \<^verbatim>\<open>raydium_cpmm_native.rs\<close> and \<^verbatim>\<open>pump_native.rs\<close>): decimal
  text, slippage, fees, the compute budget, tip and front-running instructions, and the cache of
  quote snapshots. The instruction builders of the Solana and SPL libraries, the RPC node, the
  wallets, the clock and the environment are the fields of \<open>venue_env\<close>; a node answers the same
  query the same way for as long as one call runs.
\<close>

section \<open>Errors and the environment\<close>

datatype quote_failure =
    Reserves_Empty
  | Fee_Config_Invalid
  | Quote_Mint_Mismatch
  | Output_Exceeds_U64
  | Sell_Zero_Tokens

text \<open>One constructor per kind of message; the strings are the labels the messages carry.\<close>

datatype venue_error =
    Invalid_Key string
  | Number_Required string
  | Not_A_Number string
  | Too_Many_Decimals string
  | Number_Too_Large string
  | Number_Out_Of_Range string
  | Bytes_Missing string
  | Data_Too_Short string
  | Invalid_Bool u8
  | Account_Not_Found string
  | Unexpected_Account_Count nat nat
  | Rpc_Failed string
  | Wallet_Failed string
  | Library_Failed string
  | Unsupported_Status u64
  | Unsupported_Market string
  | Ambiguous_Pools
  | Missing_Request_Field string
  | Zero_Amount string
  | Balance_Too_Small u64 u64
  | Overflow string
  | Quote_Error quote_failure
  | Sizing_Error "quote_failure sizing_error"
  | Sizing_Did_Not_Return

record token_library =
  ix_create_account :: "pubkey \<Rightarrow> pubkey \<Rightarrow> u64 \<Rightarrow> u64 \<Rightarrow> pubkey \<Rightarrow> instruction"
  ix_initialize_account3 :: "pubkey \<Rightarrow> pubkey \<Rightarrow> pubkey \<Rightarrow> pubkey \<Rightarrow> instruction option"
  ix_sync_native :: "pubkey \<Rightarrow> pubkey \<Rightarrow> instruction option"
  ix_close_account :: "pubkey \<Rightarrow> pubkey \<Rightarrow> pubkey \<Rightarrow> pubkey \<Rightarrow> instruction option"
  ix_transfer :: "pubkey \<Rightarrow> pubkey \<Rightarrow> u64 \<Rightarrow> instruction"
  ix_create_ata_idempotent :: "pubkey \<Rightarrow> pubkey \<Rightarrow> pubkey \<Rightarrow> pubkey \<Rightarrow> instruction"
  associated_token_address :: "pubkey \<Rightarrow> pubkey \<Rightarrow> pubkey \<Rightarrow> pubkey"

text \<open>A message compiled, signed and serialised: its base64 text, signature and lookup tables.\<close>

record signed_message =
  sm_base64 :: string
  sm_signature :: "string option"
  sm_lookup_tables :: "string list"

record venue_env =
  env_sdk :: solana_sdk
  env_pubkey_text :: "pubkey \<Rightarrow> string"
  env_create_program_address :: "bytes list \<Rightarrow> pubkey \<Rightarrow> pubkey option"
  env_tokens :: token_library
  env_account :: "string \<Rightarrow> string \<Rightarrow> venue_error + (pubkey \<times> bytes) option"
  env_account_data :: "string \<Rightarrow> string \<Rightarrow> venue_error + bytes"
  env_accounts :: "string list \<Rightarrow> string \<Rightarrow> venue_error + bytes option list"
  env_wallet :: "string \<Rightarrow> venue_error + pubkey"
  env_program_accounts :: "string \<Rightarrow> nat option \<Rightarrow> (nat \<times> string) list \<Rightarrow> string \<Rightarrow> venue_error + json"
  env_base64_decode :: "string \<Rightarrow> bytes option"
  env_token_balance :: "string \<Rightarrow> string \<Rightarrow> string \<Rightarrow> u8 \<Rightarrow> venue_error + u64"
  env_rent_lamports :: "venue_error + u64"
  env_spl_token_id :: pubkey
  env_new_key :: pubkey
  env_now_ms :: u64
  env_nanos :: u64
  env_tip_counter :: u64
  env_var :: "string \<Rightarrow> string option"
  env_f64 :: f64_ops
  env_wrapper_fee_bps :: u16
  env_sign :: "pubkey \<Rightarrow> instruction list \<Rightarrow> pubkey list \<Rightarrow> venue_error + signed_message"

record engine_transaction =
  ct_label :: string
  ct_format :: string
  ct_base64 :: string
  ct_signature :: "string option"
  ct_lookup_tables_used :: "string list"
  ct_compute_unit_limit :: "u64 option"
  ct_compute_unit_price_micro_lamports :: "u64 option"
  ct_inline_tip_lamports :: "u64 option"
  ct_inline_tip_account :: "string option"

datatype transaction_dependency_mode = Independent | Dependent

record compiled_adapter_trade =
  cat_transactions :: "engine_transaction list"
  cat_primary_tx_index :: nat
  cat_dependency_mode :: transaction_dependency_mode
  cat_entry_preference_asset :: "trade_settlement_asset option"

definition venue_key :: "venue_env \<Rightarrow> string \<Rightarrow> string \<Rightarrow> venue_error + pubkey" where
  "venue_key env value label = ok_or (pubkey_from_str (env_sdk env) value) (Invalid_Key label)"

text \<open>The variant that trims the text first.\<close>

definition venue_key_trimmed :: "venue_env \<Rightarrow> string \<Rightarrow> string \<Rightarrow> venue_error + pubkey" where
  "venue_key_trimmed env value label = venue_key env (str_trim value) label"

definition default_pubkey :: pubkey where
  "default_pubkey = replicate 32 0"

section \<open>Decimal text\<close>

definition parse_u128 :: "string \<Rightarrow> u128 option" where
  "parse_u128 s =
     (let ds = unsigned_digits s
      in if ds = [] \<or> \<not> list_all is_digit ds then None
         else if digits_value ds < 2 ^ 128 then Some (of_nat (digits_value ds)) else None)"

text \<open>\<^verbatim>\<open>parse_decimal_scaled\<close>: text with at most \<open>decimals\<close> decimals, times the power of ten.\<close>

definition parse_decimal_scaled :: "string \<Rightarrow> nat \<Rightarrow> string \<Rightarrow> venue_error + u128" where
  "parse_decimal_scaled value decimals label =
     (let trimmed = str_trim value
      in if trimmed = [] then Inr 0
         else
           let parts = split_on CHR ''.'' trimmed;
               whole = hd parts;
               fractional = (case tl parts of [] \<Rightarrow> [] | f # _ \<Rightarrow> f)
           in if 2 < length parts then Inl (Not_A_Number label)
              else if \<not> list_all is_digit whole \<or> \<not> list_all is_digit fractional
              then Inl (Not_A_Number label)
              else if decimals < length fractional then Inl (Too_Many_Decimals label)
              else if 10 ^ decimals \<ge> (2 ^ 128 :: nat) then Inl (Overflow label)
              else
                let scale = of_nat (10 ^ decimals)
                in rbind (if whole = [] then Inr 0 else ok_or (parse_u128 whole) (Not_A_Number label))
                     (\<lambda>whole_value.
                   rbind (if fractional = [] then Inr 0
                          else ok_or (parse_u128 (fractional @ replicate (decimals - length fractional) CHR ''0''))
                                 (Not_A_Number label))
                     (\<lambda>fractional_value.
                   ok_or (Option.bind (checked_mul whole_value scale) (\<lambda>v. checked_add v fractional_value))
                     (Number_Too_Large label))))"

definition parse_decimal_units :: "string \<Rightarrow> nat \<Rightarrow> string \<Rightarrow> venue_error + u64" where
  "parse_decimal_units value decimals label =
     rbind (parse_decimal_scaled value decimals label) (\<lambda>scaled.
       if unat scaled < 2 ^ 64 then Inr (ucast scaled) else Inl (Number_Too_Large label))"

definition u16_of_u128 :: "u128 \<Rightarrow> string \<Rightarrow> venue_error + u16" where
  "u16_of_u128 x label = (if unat x < 2 ^ 16 then Inr (ucast x) else Inl (Number_Out_Of_Range label))"

definition parse_slippage_bps :: "string option \<Rightarrow> venue_error + u16" where
  "parse_slippage_bps value =
     (let raw = str_trim (unwrap_or ''20'' value)
      in if raw = [] then Inr 2000
         else
           rbind (parse_decimal_scaled raw 2 ''slippagePercent'') (\<lambda>hundredths.
             if 1000000 < hundredths then Inl (Number_Out_Of_Range ''slippagePercent'')
             else rbind (u16_of_u128 hundredths ''slippagePercent'')
                    (\<lambda>bps. Inr (if bps = 0 then 1 else bps))))"

definition parse_percent_to_bps :: "string \<Rightarrow> venue_error + u16" where
  "parse_percent_to_bps value =
     rbind (parse_decimal_scaled value 2 ''sellPercent'') (\<lambda>hundredths.
       if 10000 < hundredths then Inl (Number_Out_Of_Range ''sellPercent'')
       else u16_of_u128 hundredths ''sellPercent'')"

definition priority_fee_price_base_compute_unit_limit :: u64 where
  "priority_fee_price_base_compute_unit_limit = 1000000"

definition priority_fee_sol_to_micro_lamports :: "string \<Rightarrow> venue_error + u64" where
  "priority_fee_sol_to_micro_lamports priority_fee_sol =
     rbind (parse_decimal_units priority_fee_sol 9 ''feeSol'') (\<lambda>lamports.
       if lamports = 0 then Inr 0
       else Inr (sat_mul lamports 1000000 div priority_fee_price_base_compute_unit_limit))"

definition apply_sell_side_slippage :: "u64 \<Rightarrow> u16 \<Rightarrow> u64" where
  "apply_sell_side_slippage v slippage_bps =
     (let minimum = ucast (min ((ucast v :: u128) * ucast (sat_sub (10000 :: u64) (ucast slippage_bps)) div 10000)
                             (ucast (max_word :: u64)))
      in if 0 < v \<and> minimum = 0 then 1 else minimum)"

text \<open>The share of a balance that a percentage in basis points names.\<close>

definition percent_of_balance :: "u64 \<Rightarrow> u16 \<Rightarrow> u64" where
  "percent_of_balance balance percent_bps =
     ucast (min ((ucast balance :: u128) * ucast percent_bps div 10000) (ucast (max_word :: u64)))"

section \<open>Account data\<close>

definition token_account_amount :: "bytes \<Rightarrow> venue_error + u64" where
  "token_account_amount data =
     (if length data < 72 then Inl (Data_Too_Short ''Token account'')
      else Inr (u64_from_le_bytes (take 8 (drop 64 data))))"

definition mint_decimals :: "bytes \<Rightarrow> venue_error + u8" where
  "mint_decimals data = (if length data < 45 then Inl (Data_Too_Short ''Mint'') else Inr (data ! 44))"

definition mint_supply :: "bytes \<Rightarrow> venue_error + u64" where
  "mint_supply data =
     (if length data < 44 then Inl (Data_Too_Short ''Mint'')
      else Inr (u64_from_le_bytes (take 8 (drop 36 data))))"

definition venue_pubkey_at :: "bytes \<Rightarrow> nat \<Rightarrow> string \<Rightarrow> venue_error + pubkey" where
  "venue_pubkey_at data off label = ok_or (slice data off 32) (Bytes_Missing label)"

definition word_at :: "bytes \<Rightarrow> nat \<Rightarrow> string \<Rightarrow> venue_error + u64" where
  "word_at data off label =
     rbind (ok_or (slice data off 8) (Bytes_Missing label)) (\<lambda>bs. Inr (u64_from_le_bytes bs))"

section \<open>Instructions every trade has\<close>

definition compute_budget_program :: "venue_env \<Rightarrow> venue_error + pubkey" where
  "compute_budget_program env =
     venue_key env ''ComputeBudget111111111111111111111111111111'' ''compute budget program''"

definition compute_unit_limit_instruction :: "venue_env \<Rightarrow> u32 \<Rightarrow> venue_error + instruction" where
  "compute_unit_limit_instruction env limit =
     rbind (compute_budget_program env) (\<lambda>program.
       Inr \<lparr>program_id = program, ix_accounts = [], ix_bytes = 2 # u32_to_le_bytes limit\<rparr>)"

definition compute_unit_price_instruction :: "venue_env \<Rightarrow> u64 \<Rightarrow> venue_error + instruction" where
  "compute_unit_price_instruction env micro_lamports =
     rbind (compute_budget_program env) (\<lambda>program.
       Inr \<lparr>program_id = program, ix_accounts = [], ix_bytes = 3 # u64_to_le_bytes micro_lamports\<rparr>)"

definition uniqueness_memo_instruction :: "venue_env \<Rightarrow> string \<Rightarrow> venue_error + instruction" where
  "uniqueness_memo_instruction env label =
     rbind (venue_key env ''MemoSq4gqABAXKb96qnH8TysNcWxMyWCqXgDLGmfcHr'' ''memo program'') (\<lambda>program.
       Inr \<lparr>program_id = program, ix_accounts = [],
            ix_bytes = byte_string (''tt:'' @ label @ '':'' @ show_nat (unat (env_now_ms env)))\<rparr>)"

definition spl_token_account_len :: u64 where
  "spl_token_account_len = 165"

definition venue_wsol_mint :: "venue_env \<Rightarrow> venue_error + pubkey" where
  "venue_wsol_mint env = venue_key env ''So11111111111111111111111111111111111111112'' ''WSOL mint''"

definition venue_token_program :: "venue_env \<Rightarrow> venue_error + pubkey" where
  "venue_token_program env =
     venue_key env ''TokenkegQfeZyiNwAJbNbGKPFXCWuBvf9Ss623VQ5DA'' ''token program''"

text \<open>
  A temporary wrapped SOL account of the owner; it is synchronised after its initialisation where
  the caller asks for it.
\<close>

definition wrapped_sol_open_instructions ::
  "venue_env \<Rightarrow> pubkey \<Rightarrow> pubkey \<Rightarrow> u64 \<Rightarrow> pubkey \<Rightarrow> pubkey \<Rightarrow> bool \<Rightarrow> venue_error + instruction list" where
  "wrapped_sol_open_instructions env owner wrapped_account lamports wsol token_program sync =
     rbind (ok_or (ix_initialize_account3 (env_tokens env) token_program wrapped_account wsol owner)
              (Library_Failed ''initialize'')) (\<lambda>init.
     rbind (if sync
            then rbind (ok_or (ix_sync_native (env_tokens env) token_program wrapped_account)
                          (Library_Failed ''syncNative'')) (\<lambda>s. Inr [s])
            else Inr []) (\<lambda>synced.
     Inr ([ix_create_account (env_tokens env) owner wrapped_account lamports spl_token_account_len
             token_program, init] @ synced)))"

definition wrapped_sol_close_instruction ::
  "venue_env \<Rightarrow> pubkey \<Rightarrow> pubkey \<Rightarrow> pubkey \<Rightarrow> venue_error + instruction" where
  "wrapped_sol_close_instruction env token_program owner wrapped_account =
     ok_or (ix_close_account (env_tokens env) token_program wrapped_account owner owner)
       (Library_Failed ''close'')"

section \<open>Tips and front-running protection\<close>

definition provider_min_tip_lamports :: "string \<Rightarrow> u64" where
  "provider_min_tip_lamports provider_id = unwrap_or 0 (provider_required_tip_lamports provider_id)"

text \<open>The tip account of the environment, under the given variables.\<close>

type_synonym key_parser = "string \<Rightarrow> string \<Rightarrow> venue_error + pubkey"

definition configured_tip_account ::
  "venue_env \<Rightarrow> key_parser \<Rightarrow> string list \<Rightarrow> venue_error + pubkey option" where
  "configured_tip_account env key names =
     (let trimmed = str_trim (unwrap_or [] (env_or_else (env_var env) names))
      in if trimmed = [] then Inr None
         else rbind (key trimmed ''tip account'') (\<lambda>k. Inr (Some k)))"

text \<open>
  The tip instruction, its lamports and its account: the provider's own account with at least the
  provider's minimum, or the configured account with what was asked for. A tip that does not
  parse counts as zero. \<open>parse_tip\<close> is the venue's decimal parser, \<open>key\<close> its key parser.
\<close>

definition resolve_inline_tip ::
  "venue_env \<Rightarrow> key_parser \<Rightarrow> string list \<Rightarrow> (string \<Rightarrow> venue_error + u64) \<Rightarrow> pubkey \<Rightarrow> string
     \<Rightarrow> string \<Rightarrow> venue_error + (instruction \<times> u64 \<times> string) option" where
  "resolve_inline_tip env key names parse_tip payer provider_id tip =
     (let picked = fst (pick_tip_account_for_provider (env_tip_counter env) (env_nanos env) provider_id);
          requested = (case parse_tip tip of Inl _ \<Rightarrow> 0 | Inr l \<Rightarrow> l)
      in rbind (if picked = [] then
                  rbind (configured_tip_account env key names) (\<lambda>account.
                    Inr (map_option (\<lambda>k. (env_pubkey_text env k, requested)) account))
                else Inr (Some (picked, max requested (provider_min_tip_lamports provider_id))))
           (\<lambda>resolved.
              case resolved of
                None \<Rightarrow> Inr None
              | Some (account, lamports) \<Rightarrow>
                  if lamports = 0 then Inr None
                  else rbind (key account ''tip account'') (\<lambda>tip_key.
                    Inr (Some (ix_transfer (env_tokens env) payer tip_key lamports, lamports, account)))))"

definition jitodontfront_enabled_for_provider :: "string \<Rightarrow> mev_mode \<Rightarrow> bool" where
  "jitodontfront_enabled_for_provider provider_id mode \<longleftrightarrow>
     ascii_lower (str_trim provider_id) \<in> {''hellomoon'', ''jito-bundle''} \<and> mode \<in> {Mev_Reduced, Mev_Secure}"

definition jitodontfront_account :: string where
  "jitodontfront_account = ''jitodontfront111111111111111111111111111111''"

definition insert_at :: "nat \<Rightarrow> 'a \<Rightarrow> 'a list \<Rightarrow> 'a list" where
  "insert_at i x xs = take i xs @ x # drop i xs"

definition apply_jitodontfront ::
  "venue_env \<Rightarrow> instruction list \<Rightarrow> pubkey \<Rightarrow> venue_error + instruction list" where
  "apply_jitodontfront env instructions payer =
     (if list_ex (\<lambda>ix. list_ex (\<lambda>a. env_pubkey_text env (meta_pubkey a) = jitodontfront_account)
                         (ix_accounts ix)) instructions
      then Inr instructions
      else
        rbind (venue_key env jitodontfront_account ''jitodontfront'') (\<lambda>dontfront.
        rbind (compute_budget_program env) (\<lambda>compute_budget.
          let transfer = ix_transfer (env_tokens env) payer payer 0;
              guard = transfer\<lparr>ix_accounts := ix_accounts transfer @ [meta_new_readonly dontfront False]\<rparr>
          in Inr (insert_at (length (takeWhile (\<lambda>ix. program_id ix = compute_budget) instructions))
                    guard instructions))))"

text \<open>The common end of the compilers: tip, protection, memo, signing.\<close>

definition finish_transaction ::
  "venue_env \<Rightarrow> venue_error + (instruction \<times> u64 \<times> string) option
     \<Rightarrow> runtime_execution_policy \<Rightarrow> pubkey \<Rightarrow> pubkey list \<Rightarrow> instruction list \<Rightarrow> string \<Rightarrow> u32 \<Rightarrow> u64
     \<Rightarrow> venue_error + engine_transaction" where
  "finish_transaction env resolved_tip pol owner extra_signers instructions label limit price =
     rbind resolved_tip (\<lambda>tip.
     let tipped = instructions @ (case tip of None \<Rightarrow> [] | Some (ix, _, _) \<Rightarrow> [ix])
     in rbind (if jitodontfront_enabled_for_provider (provider pol) (policy_mev_mode pol)
               then apply_jitodontfront env tipped owner else Inr tipped) (\<lambda>guarded.
     rbind (uniqueness_memo_instruction env label) (\<lambda>memo.
     rbind (env_sign env owner (guarded @ [memo]) (owner # extra_signers)) (\<lambda>signed.
     rbind (ok_or (sm_signature signed) (Library_Failed ''signature'')) (\<lambda>signature.
     Inr \<lparr>ct_label = label, ct_format = ''v0-alt'', ct_base64 = sm_base64 signed,
          ct_signature = Some signature, ct_lookup_tables_used = sm_lookup_tables signed,
          ct_compute_unit_limit = Some (ucast limit),
          ct_compute_unit_price_micro_lamports = (if 0 < price then Some price else None),
          ct_inline_tip_lamports = map_option (\<lambda>(_, l, _). l) tip,
          ct_inline_tip_account = map_option (\<lambda>(_, _, a). a) tip\<rparr>)))))"

section \<open>Sell amounts\<close>

text \<open>The sizing of \<^verbatim>\<open>sell_target_sizing.rs\<close>; a search that did not return is an error here.\<close>

definition sized_sell_amount :: "u64 \<Rightarrow> u64 \<Rightarrow> quote_failure quote_fn \<Rightarrow> venue_error + u64" where
  "sized_sell_amount balance target quote =
     (case choose_target_sized_token_amount balance target quote of
        None \<Rightarrow> Inl Sizing_Did_Not_Return
      | Some (Inl e) \<Rightarrow> Inl (Sizing_Error e)
      | Some (Inr amount) \<Rightarrow> Inr amount)"

text \<open>A venue's quote as the search sees it: what is left after the wrapper fee.\<close>

definition net_quote :: "u16 \<Rightarrow> (u64 \<Rightarrow> quote_failure + u64) \<Rightarrow> quote_failure quote_fn" where
  "net_quote fee_bps quote amount =
     rbind (map_error Quote_Failed (quote amount)) (\<lambda>gross. net_sol_after_wrapper_fee fee_bps gross)"

section \<open>Pools of a pair\<close>

definition as_str :: "json \<Rightarrow> string option" where
  "as_str v = (case v of JString s \<Rightarrow> Some s | _ \<Rightarrow> None)"

definition as_array :: "json \<Rightarrow> json list option" where
  "as_array v = (case v of JArray items \<Rightarrow> Some items | _ \<Rightarrow> None)"

definition encoded_account_data :: "json \<Rightarrow> string option" where
  "encoded_account_data v =
     or_else (as_str v) (Option.bind (as_array v) (\<lambda>items.
        case items of [] \<Rightarrow> None | item # _ \<Rightarrow> as_str item))"

text \<open>
  The pools in the answer to \<^verbatim>\<open>getProgramAccounts\<close>: accounts whose key, data or pool state cannot
  be read are passed over.
\<close>

definition pool_of_account ::
  "venue_env \<Rightarrow> (pubkey \<Rightarrow> bytes \<Rightarrow> venue_error + 'p) \<Rightarrow> json \<Rightarrow> pubkey option" where
  "pool_of_account env decode account =
     Option.bind (Option.bind (json_get account ''pubkey'') as_str) (\<lambda>key_text.
     Option.bind (pubkey_from_str (env_sdk env) key_text) (\<lambda>pool_id.
     Option.bind (Option.bind (Option.bind (json_get account ''account'') (\<lambda>v. json_get v ''data''))
                    encoded_account_data) (\<lambda>encoded.
     Option.bind (env_base64_decode env (str_trim encoded)) (\<lambda>data.
       case decode pool_id data of Inl _ \<Rightarrow> None | Inr _ \<Rightarrow> Some pool_id))))"

definition pools_of_response ::
  "venue_env \<Rightarrow> (pubkey \<Rightarrow> bytes \<Rightarrow> venue_error + 'p) \<Rightarrow> json \<Rightarrow> venue_error + pubkey list" where
  "pools_of_response env decode response =
     (case json_get response ''error'' of
        Some _ \<Rightarrow> Inl (Rpc_Failed ''getProgramAccounts'')
      | None \<Rightarrow>
          rbind (ok_or (Option.bind (json_get response ''result'') as_array)
                   (Rpc_Failed ''result accounts'')) (\<lambda>accounts.
            Inr (List.map_filter (pool_of_account env decode) accounts)))"

fun dedup :: "'a list \<Rightarrow> 'a list" where
  "dedup (x # y # xs) = (if x = y then dedup (y # xs) else x # dedup (y # xs))"
| "dedup xs = xs"

text \<open>The only pool of a pair, over the pools found in both orders.\<close>

definition unique_pool :: "venue_env \<Rightarrow> pubkey list \<Rightarrow> venue_error + pubkey option" where
  "unique_pool env candidates =
     (case dedup (sort_key (env_pubkey_text env) candidates) of
        [] \<Rightarrow> Inr None
      | [pool_id] \<Rightarrow> Inr (Some pool_id)
      | _ \<Rightarrow> Inl Ambiguous_Pools)"

section \<open>The cache of quote snapshots\<close>

text \<open>
  Each venue keeps the last pool snapshot per query for a moment. \<^verbatim>\<open>Instant\<close>s are milliseconds
  of a clock that does not go back; the list keeps each key once.
\<close>

record 'p quote_snapshot =
  snapshot_fetched_at :: nat
  snapshot_pool :: 'p

type_synonym 'p quote_cache = "(string \<times> 'p quote_snapshot) list"

definition quote_snapshot_ttl :: "lifecycle_and_canonical_market \<Rightarrow> nat" where
  "quote_snapshot_ttl selector =
     (case lifecycle selector of PreMigration \<Rightarrow> 1500 | PostMigration \<Rightarrow> 3000)"

definition quote_snapshot_key ::
  "string \<Rightarrow> lifecycle_and_canonical_market \<Rightarrow> string \<Rightarrow> string \<Rightarrow> string" where
  "quote_snapshot_key rpc_url selector mint_text commitment_level =
     ''rpc='' @ rpc_url @ ''|cmt='' @ commitment_level @ ''|family='' @ family_label (family selector)
     @ ''|market='' @ canonical_market_key selector @ ''|quote=''
     @ quote_asset_label (quote_asset selector) @ ''|mint='' @ mint_text"

definition fresh_snapshot :: "nat \<Rightarrow> nat \<Rightarrow> string \<Rightarrow> 'p quote_cache \<Rightarrow> 'p quote_snapshot option" where
  "fresh_snapshot now ttl key cache =
     (case map_of cache key of
        None \<Rightarrow> None
      | Some snapshot \<Rightarrow> if now - snapshot_fetched_at snapshot \<le> ttl then Some snapshot else None)"

definition store_snapshot :: "nat \<Rightarrow> string \<Rightarrow> 'p quote_snapshot \<Rightarrow> 'p quote_cache \<Rightarrow> 'p quote_cache" where
  "store_snapshot now key snapshot cache =
     (let stored = AList.update key snapshot cache
      in if 256 < length stored
         then filter (\<lambda>(_, entry). now - snapshot_fetched_at entry \<le> 30000) stored
         else stored)"

text \<open>
  One query: the cached snapshot while it is fresh, else what is fetched (at \<open>fetched_at\<close>, stored
  at \<open>stored_at\<close>). \<open>answer\<close> reads the quote off a snapshot.
\<close>

definition quote_with_cache ::
  "bool \<Rightarrow> nat \<Rightarrow> nat \<Rightarrow> nat \<Rightarrow> nat \<Rightarrow> string \<Rightarrow> (unit \<Rightarrow> venue_error + 'p)
     \<Rightarrow> ('p \<Rightarrow> venue_error + 'r) \<Rightarrow> 'p quote_cache \<Rightarrow> (venue_error + 'r) \<times> 'p quote_cache" where
  "quote_with_cache use_cache now fetched_at stored_at ttl key fetch answer cache =
     (case (if use_cache then fresh_snapshot now ttl key cache else None) of
        Some snapshot \<Rightarrow> (answer (snapshot_pool snapshot), cache)
      | None \<Rightarrow>
          case fetch () of
            Inl e \<Rightarrow> (Inl e, cache)
          | Inr pool \<Rightarrow>
              (answer pool,
               if use_cache
               then store_snapshot stored_at key \<lparr>snapshot_fetched_at = fetched_at, snapshot_pool = pool\<rparr> cache
               else cache))"

section \<open>Amounts\<close>

lemma slippage_value:
  "unat (apply_sell_side_slippage v s) =
     (let m = unat v * (10000 - unat s) div 10000 in if 0 < unat v \<and> m = 0 then 1 else m)"
proof -
  let ?m = "unat v * (10000 - unat s) div 10000"
  have s: "unat (sat_sub (10000 :: u64) (ucast s)) = 10000 - unat s"
    by (simp add: unat_sat_sub unsigned_ucast_eq take_bit_nat_eq_self
        order.strict_trans [OF unat_less_pow [of s]])
  have le: "?m \<le> unat v"
  proof -
    have "?m \<le> unat v * 10000 div 10000" by (intro div_le_mono mult_le_mono2) simp
    then show ?thesis by simp
  qed
  have "unat v * (10000 - unat s) < 2 ^ 64 * 10001"
    using unat_less_pow [of v] by (intro mult_strict_mono) simp_all
  then have p: "unat ((ucast v :: u128) * ucast (sat_sub (10000 :: u64) (ucast s))) = unat v * (10000 - unat s)"
    by (simp add: unat_word_ariths unat_ucast_128 s)
  then have m: "unat ((ucast v :: u128) * ucast (sat_sub (10000 :: u64) (ucast s)) div 10000) = ?m"
    by (simp add: unat_div)
  have "?m < 2 ^ 64" by (rule le_less_trans [OF le]) simp
  then have "unat (ucast (min ((ucast v :: u128) * ucast (sat_sub (10000 :: u64) (ucast s)) div 10000)
                (ucast (max_word :: u64))) :: u64) = ?m"
    using le unat_le_u64 [of v]
    by (simp add: unsigned_ucast_eq take_bit_nat_eq_self unat_min m unat_ucast_128 unat_max_word min_absorb1
        del: unat_le_u64)
  then show ?thesis
    by (simp add: apply_sell_side_slippage_def Let_def word_less_nat_alt unat_eq_iff)
qed

lemma slippage_bounds:
  "apply_sell_side_slippage v s \<le> v" "apply_sell_side_slippage v s = 0 \<longleftrightarrow> v = 0"
proof -
  have "unat v * (10000 - unat s) div 10000 \<le> unat v * 10000 div 10000"
    by (intro div_le_mono mult_le_mono2) simp
  then show "apply_sell_side_slippage v s \<le> v"
    by (auto simp: word_le_nat_alt slippage_value Let_def)
  show "apply_sell_side_slippage v s = 0 \<longleftrightarrow> v = 0"
    unfolding unat_zero_iff [symmetric] slippage_value by (cases "unat v = 0") (simp_all add: Let_def)
qed

lemma percent_value:
  assumes "bps \<le> 10000"
  shows "unat (percent_of_balance b bps) = unat b * unat bps div 10000"
    and "percent_of_balance b bps \<le> b"
proof -
  have bps: "unat bps \<le> 10000" using assms by (simp add: word_le_nat_alt)
  have le: "unat b * unat bps div 10000 \<le> unat b"
  proof -
    have "unat b * unat bps div 10000 \<le> unat b * 10000 div 10000"
      using bps by (intro div_le_mono mult_le_mono2)
    then show ?thesis by simp
  qed
  have "unat b * unat bps < 2 ^ 64 * 10001"
    using unat_less_pow [of b] bps by (intro mult_strict_mono) simp_all
  then have "unat ((ucast b :: u128) * ucast bps div 10000) = unat b * unat bps div 10000"
    by (simp add: unat_div unat_word_ariths unat_ucast_128 unat_ucast_u16)
  moreover have "unat b * unat bps div 10000 < 2 ^ 64" by (rule le_less_trans [OF le]) simp
  ultimately show v: "unat (percent_of_balance b bps) = unat b * unat bps div 10000"
    using le unat_le_u64 [of b]
    by (simp add: percent_of_balance_def unsigned_ucast_eq take_bit_nat_eq_self unat_min unat_ucast_128
        unat_max_word min_absorb1 del: unat_le_u64)
  show "percent_of_balance b bps \<le> b" using le by (simp add: word_le_nat_alt v)
qed

lemma percent_at_most_all: "parse_percent_to_bps value = Inr bps \<Longrightarrow> bps \<le> 10000"
proof -
  assume "parse_percent_to_bps value = Inr bps"
  then obtain h :: u128 where h: "\<not> 10000 < h" "bps = ucast h"
    by (auto simp: parse_percent_to_bps_def u16_of_u128_def split: if_splits)
  have "unat h < 2 ^ 16" using h(1) by (simp add: word_less_nat_alt)
  then have "unat bps = unat h" by (simp add: h(2) unsigned_ucast_eq take_bit_nat_eq_self)
  with h(1) show ?thesis by (simp add: word_less_nat_alt word_le_nat_alt)
qed

section \<open>Sizing over a venue's quote\<close>

lemma map_error_Inr_iff [simp]: "map_error f r = Inr x \<longleftrightarrow> r = Inr x"
  by (simp add: map_error_def split: sum.split)

lemma sized_sell_returns: "sized_sell_amount balance target quote \<noteq> Inl Sizing_Did_Not_Return"
  using choose_reaches [of balance target quote]
  by (auto simp: sized_sell_amount_def split: sum.splits)

lemma sized_sell_reaches:
  assumes "sized_sell_amount balance target quote = Inr amount"
  shows "0 < amount" "amount \<le> balance" "\<exists>q. quote amount = Inr q \<and> target \<le> q"
  using assms choose_reaches [of balance target quote]
  by (auto simp: sized_sell_amount_def split: option.splits sum.splits)

text \<open>
  What the compilers rely on in a pool's quote: more in is never less out, nothing in is nothing
  out, and a pool never pays more than it holds.
\<close>

locale pool_quote =
  fixes quote :: "u64 \<Rightarrow> quote_failure + u64" and reserve :: u64
  assumes quote_mono: "quote a = Inr x \<Longrightarrow> quote b = Inr y \<Longrightarrow> a \<le> b \<Longrightarrow> x \<le> y"
    and quote_zero: "quote 0 = Inr 0"
    and quote_below: "quote a = Inr x \<Longrightarrow> x \<le> reserve"
begin

lemma net_quote_gross:
  "net_quote fee_bps quote a = Inr x \<Longrightarrow>
     \<exists>g. quote a = Inr g \<and> (net_sol_after_wrapper_fee fee_bps g :: quote_failure sizing_error + u64) = Inr x"
  by (auto simp: net_quote_def map_error_def split: sum.splits)

lemma net_quote_mono:
  assumes "net_quote fee_bps quote a = Inr x" "net_quote fee_bps quote b = Inr y" "a \<le> b"
  shows "x \<le> y"
proof -
  obtain g h where g: "quote a = Inr g"
      "(net_sol_after_wrapper_fee fee_bps g :: quote_failure sizing_error + u64) = Inr x"
    and h: "quote b = Inr h"
      "(net_sol_after_wrapper_fee fee_bps h :: quote_failure sizing_error + u64) = Inr y"
    using net_quote_gross [OF assms(1)] net_quote_gross [OF assms(2)] by auto
  have "g \<le> h" using quote_mono [OF g(1) h(1) assms(3)] .
  then show ?thesis by (rule net_sol_mono [OF g(2) h(2)])
qed

end

sublocale pool_quote \<subseteq> net: monotone_quote "net_quote fee_bps quote" for fee_bps
  by unfold_locales (rule net_quote_mono)

context pool_quote begin

lemma sized_sell_least:
  assumes "sized_sell_amount balance target (net_quote fee_bps quote) = Inr amount"
  shows "0 < amount \<and> amount \<le> balance
     \<and> (\<exists>q. net_quote fee_bps quote amount = Inr q \<and> target \<le> q)
     \<and> (\<forall>b q. 0 < b \<longrightarrow> b < amount \<longrightarrow> net_quote fee_bps quote b = Inr q \<longrightarrow> q < target)"
proof -
  have "choose_target_sized_token_amount balance target (net_quote fee_bps quote) = Some (Inr amount)"
    using assms by (auto simp: sized_sell_amount_def split: option.splits sum.splits)
  then have "net.smallest_reaching fee_bps target amount"
    using net.choose_smallest [of balance target fee_bps] by auto
  then show ?thesis
    using sized_sell_reaches [OF assms] by (simp add: net.smallest_reaching_def)
qed

end

section \<open>Front-running protection\<close>

text \<open>
  The guard is one more instruction, put right after the compute budget: the others keep their
  order, and it names the protecting account.
\<close>

lemma insert_at_takeWhile:
  "insert_at (length (takeWhile P xs)) x xs = takeWhile P xs @ x # dropWhile P xs"
  by (simp add: insert_at_def takeWhile_eq_take [symmetric] dropWhile_eq_drop [symmetric])

lemma jitodontfront_shape:
  assumes "apply_jitodontfront env ixs payer = Inr guarded"
  shows "guarded = ixs
     \<or> (\<exists>program guard. guarded = takeWhile (\<lambda>ix. program_id ix = program) ixs @ guard
                          # dropWhile (\<lambda>ix. program_id ix = program) ixs)"
  using assms
  by (auto simp: apply_jitodontfront_def Let_def insert_at_takeWhile split: if_splits)

lemma jitodontfront_keeps:
  assumes "apply_jitodontfront env ixs payer = Inr guarded"
  shows "subseq ixs guarded"
proof -
  have "subseq (takeWhile P ixs @ dropWhile P ixs) (takeWhile P ixs @ guard # dropWhile P ixs)"
    for P and guard :: instruction
    by (intro list_emb_append_mono) auto
  then show ?thesis using jitodontfront_shape [OF assms] by auto
qed

text \<open>
  What the common end of the compilers keeps: every instruction it was given, in order, in the one
  transaction that the owner and the extra signers sign.
\<close>

lemma finish_keeps:
  assumes "finish_transaction env resolved_tip pol owner extra ixs label limit price = Inr t"
  shows "\<exists>all signed. subseq ixs all \<and> env_sign env owner all (owner # extra) = Inr signed
     \<and> ct_base64 t = sm_base64 signed \<and> ct_signature t = sm_signature signed \<and> ct_label t = label"
proof -
  obtain tip guarded memo signed signature where
    g: "(if jitodontfront_enabled_for_provider (provider pol) (policy_mev_mode pol)
         then apply_jitodontfront env
                (ixs @ (case tip of None \<Rightarrow> [] | Some (ix, _, _) \<Rightarrow> [ix])) owner
         else Inr (ixs @ (case tip of None \<Rightarrow> [] | Some (ix, _, _) \<Rightarrow> [ix]))) = Inr guarded"
    and s: "env_sign env owner (guarded @ [memo]) (owner # extra) = Inr signed"
    and sig: "sm_signature signed = Some signature"
    and rest: "Inr \<lparr>ct_label = label, ct_format = ''v0-alt'', ct_base64 = sm_base64 signed,
          ct_signature = Some signature, ct_lookup_tables_used = sm_lookup_tables signed,
          ct_compute_unit_limit = Some (ucast limit),
          ct_compute_unit_price_micro_lamports = (if 0 < price then Some price else None),
          ct_inline_tip_lamports = map_option (\<lambda>(_, l, _). l) tip,
          ct_inline_tip_account = map_option (\<lambda>(_, _, a). a) tip\<rparr> = (Inr t :: venue_error + engine_transaction)"
    using assms unfolding finish_transaction_def Let_def rbind_Inr_iff ok_or_Inr_iff by blast
  have t: "ct_base64 t = sm_base64 signed" "ct_signature t = Some signature" "ct_label t = label"
    using rest by auto
  have "subseq (ixs @ (case tip of None \<Rightarrow> [] | Some (ix, _, _) \<Rightarrow> [ix])) guarded"
    using g by (auto dest: jitodontfront_keeps split: if_splits)
  then have "subseq ixs guarded"
    by (rule subseq_order.order_trans [rotated]) (simp add: prefix_imp_subseq)
  then have "subseq ixs (guarded @ [memo])"
    by (rule subseq_order.order_trans) (simp add: prefix_imp_subseq)
  moreover have "ct_signature t = sm_signature signed" using sig t(2) by simp
  ultimately show ?thesis using s t(1,3) by blast
qed

section \<open>The quote cache\<close>

text \<open>
  The contract of a cache: every entry was fetched at some time under its key. A query keeps it
  and answers from a pool fetched within the time to live, or just now.
\<close>

definition cache_from :: "(string \<Rightarrow> nat \<Rightarrow> 'p \<Rightarrow> bool) \<Rightarrow> 'p quote_cache \<Rightarrow> bool" where
  "cache_from fetched cache \<longleftrightarrow>
     distinct (map fst cache)
     \<and> (\<forall>(key, snapshot) \<in> set cache. fetched key (snapshot_fetched_at snapshot) (snapshot_pool snapshot))"

lemma store_snapshot_from:
  assumes "cache_from fetched cache" "fetched key (snapshot_fetched_at s) (snapshot_pool s)"
  shows "cache_from fetched (store_snapshot now key s cache)"
proof -
  have d: "distinct (map fst (AList.update key s cache))"
    using assms(1) by (simp add: cache_from_def distinct_update)
  have "set (AList.update key s cache) \<subseteq> insert (key, s) (set cache)"
    by (induction cache) auto
  then have "cache_from fetched (AList.update key s cache)"
    using assms d by (fastforce simp: cache_from_def)
  moreover have "cache_from fetched (filter P c)" if "cache_from fetched c" for c P
    using that by (auto simp: cache_from_def distinct_map_filter)
  ultimately show ?thesis by (simp add: store_snapshot_def Let_def)
qed

lemma quote_with_cache_cases:
  assumes "quote_with_cache use_cache now fetched_at stored_at ttl key fetch answer cache = (result, cache')"
  obtains (hit) s where "use_cache" "map_of cache key = Some s" "now - snapshot_fetched_at s \<le> ttl"
      "result = answer (snapshot_pool s)" "cache' = cache"
  | (failed) e where "fetch () = Inl e" "result = Inl e" "cache' = cache"
  | (read) pool where "fetch () = Inr pool" "result = answer pool"
      "cache' = (if use_cache
                 then store_snapshot stored_at key \<lparr>snapshot_fetched_at = fetched_at, snapshot_pool = pool\<rparr> cache
                 else cache)"
proof (cases "if use_cache then fresh_snapshot now ttl key cache else None")
  case (Some s)
  then have "use_cache" "map_of cache key = Some s" "now - snapshot_fetched_at s \<le> ttl"
    by (auto simp: fresh_snapshot_def split: if_splits option.splits)
  moreover have "result = answer (snapshot_pool s)" "cache' = cache"
    using assms Some by (simp_all add: quote_with_cache_def)
  ultimately show ?thesis by (rule hit)
next
  case None
  show ?thesis
  proof (cases "fetch ()")
    case (Inl e)
    then show ?thesis using assms None by (intro failed) (auto simp: quote_with_cache_def)
  next
    case (Inr pool)
    then show ?thesis using assms None by (intro read) (auto simp: quote_with_cache_def)
  qed
qed

lemma quote_with_cache_keeps:
  assumes "cache_from fetched cache"
    and "\<And>pool. fetch () = Inr pool \<Longrightarrow> fetched key fetched_at pool"
    and "quote_with_cache use_cache now fetched_at stored_at ttl key fetch answer cache = (result, cache')"
  shows "cache_from fetched cache'"
  using assms(3)
proof (cases rule: quote_with_cache_cases)
  case (read pool)
  have "cache_from fetched
      (store_snapshot stored_at key \<lparr>snapshot_fetched_at = fetched_at, snapshot_pool = pool\<rparr> cache)"
    by (rule store_snapshot_from [OF assms(1)]) (simp add: assms(2) [OF read(1)])
  with read(3) assms(1) show ?thesis by simp
qed (use assms(1) in simp_all)

lemma quote_with_cache_recent:
  assumes "cache_from fetched cache"
    and "quote_with_cache use_cache now fetched_at stored_at ttl key fetch answer cache = (Inr value, cache')"
  shows "\<exists>pool. answer pool = Inr value
           \<and> (fetch () = Inr pool \<or> use_cache \<and> (\<exists>t. fetched key t pool \<and> now \<le> t + ttl))"
  using assms(2)
proof (cases rule: quote_with_cache_cases)
  case (hit s)
  have "fetched key (snapshot_fetched_at s) (snapshot_pool s)"
    using assms(1) hit(2) by (auto simp: cache_from_def dest: map_of_SomeD)
  moreover have "now \<le> snapshot_fetched_at s + ttl" using hit(3) by linarith
  ultimately show ?thesis using hit(1,4) by metis
qed auto

end
