(* ===== verification/Venue_Samples.thy ===== *)
theory Venue_Samples
  imports Venue_Runtime
begin

text \<open>
  The environment the examples of the venues use: keys written as letters after a \<^verbatim>\<open>k\<close>, a fixed
  key for every address the code names, a node with one pool of every venue, and libraries whose
  instructions carry their arguments.
\<close>

section \<open>Keys as text\<close>

definition nibble_char :: "nat \<Rightarrow> char" where
  "nibble_char n = char_of (97 + n)"

fun key_letters :: "bytes \<Rightarrow> string" where
  "key_letters [] = []"
| "key_letters (b # bs) = nibble_char (unat b div 16) # nibble_char (unat b mod 16) # key_letters bs"

fun letters_key :: "string \<Rightarrow> bytes option" where
  "letters_key [] = Some []"
| "letters_key [c] = None"
| "letters_key (c # d # s) =
     map_option (\<lambda>bs. of_nat ((of_char c - 97) * 16 + (of_char d - 97)) # bs) (letters_key s)"

definition sample_key_text :: "pubkey \<Rightarrow> string" where
  "sample_key_text k = CHR ''k'' # key_letters k"

definition sample_key :: "u8 \<Rightarrow> pubkey" where
  "sample_key n = replicate 32 n"

definition known_keys :: "(string \<times> pubkey) list" where
  "known_keys =
     [(''675kPX9MHTjS2zt1qfr1NYHuzeLXfQM9H24wFSUt1Mp8'', sample_key 1),
      (''5Q544fKrFoe6tsEbD7S8EmxGTJYAKtTVhAW5Q5pge4j1'', sample_key 2),
      (''srmqPvymJeFKQ4zGQed1GFppgkRHL9kaELCbyksJtPX'', sample_key 3),
      (''TokenkegQfeZyiNwAJbNbGKPFXCWuBvf9Ss623VQ5DA'', sample_key 4),
      (''So11111111111111111111111111111111111111112'', wsol_mint_id),
      (''ComputeBudget111111111111111111111111111111'', sample_key 6),
      (''MemoSq4gqABAXKb96qnH8TysNcWxMyWCqXgDLGmfcHr'', sample_key 7),
      (''jitodontfront111111111111111111111111111111'', sample_key 8),
      (''CPMMoo8L3F4NbTegBCKVNunggL7H1ZpdTHKxQB5qKP1C'', sample_key 9)]"

definition sample_key_of :: "string \<Rightarrow> pubkey option" where
  "sample_key_of s =
     (case map_of known_keys s of
        Some k \<Rightarrow> Some k
      | None \<Rightarrow> (case s of c # t \<Rightarrow> if c = CHR ''k'' then letters_key t else None | [] \<Rightarrow> None))"

lemma nibble_value: "n < 16 \<Longrightarrow> (of_char (nibble_char n) :: nat) - 97 = n"
  by (simp add: nibble_char_def)

lemma nibble_not_ws: "n < 16 \<Longrightarrow> \<not> is_ws (nibble_char n)"
proof -
  assume n: "n < 16"
  have "(of_char (nibble_char n) :: nat) = 97 + n" using n by (simp add: nibble_char_def)
  then show ?thesis by (auto simp: is_ws_def)
qed

lemma letters_key_letters [simp]: "letters_key (key_letters k) = Some k"
proof (induction k)
  case (Cons b bs)
  have b: "unat b < 256" using unat_less_pow [of b] by simp
  then have "unat b div 16 < 16" "unat b mod 16 < 16" by simp_all
  then have "((of_char (nibble_char (unat b div 16)) :: nat) - 97) * 16
              + ((of_char (nibble_char (unat b mod 16)) :: nat) - 97) = unat b"
    by (simp add: nibble_value)
  then show ?case using Cons by simp
qed simp

lemma key_letters_not_ws: "c \<in> set (key_letters k) \<Longrightarrow> \<not> is_ws c"
proof (induction k)
  case (Cons b bs)
  have "unat b div 16 < 16" using unat_less_pow [of b] by simp
  moreover have "unat b mod 16 < 16" by simp
  ultimately show ?case using Cons nibble_not_ws by auto
qed simp

text \<open>A key is read back from its text.\<close>

lemma trim_key_text: "str_trim (sample_key_text k) = sample_key_text k"
proof (rule str_trim_fixed, intro disjI2 conjI)
  show "\<not> is_ws (hd (sample_key_text k))" by (simp add: sample_key_text_def is_ws_def)
  have "\<not> is_ws (last (key_letters k))" if "key_letters k \<noteq> []"
    by (rule key_letters_not_ws) (rule last_in_set [OF that])
  then show "\<not> is_ws (last (sample_key_text k))"
    by (cases "key_letters k = []") (simp_all add: sample_key_text_def is_ws_def)
qed

lemma known_keys_other: "map_of known_keys (CHR ''k'' # s) = None"
  by (simp add: known_keys_def)

lemma sample_key_text_read: "sample_key_of (sample_key_text k) = Some k"
  unfolding sample_key_of_def sample_key_text_def known_keys_other by simp

lemma sample_key_roundtrip: "sample_key_of (str_trim (sample_key_text k)) = Some k"
  unfolding trim_key_text by (rule sample_key_text_read)

section \<open>The environment\<close>

definition sample_tokens :: token_library where
  "sample_tokens =
     \<lparr>ix_create_account = \<lambda>payer account lamports space program.
        \<lparr>program_id = sample_key 0, ix_accounts = [meta_new payer True, meta_new account True],
         ix_bytes = 0 # u64_to_le_bytes lamports @ u64_to_le_bytes space @ program\<rparr>,
      ix_initialize_account3 = \<lambda>program account mint_key owner.
        Some \<lparr>program_id = program, ix_accounts = [meta_new account False, meta_new_readonly mint_key False],
              ix_bytes = 18 # owner\<rparr>,
      ix_sync_native = \<lambda>program account.
        Some \<lparr>program_id = program, ix_accounts = [meta_new account False], ix_bytes = [17]\<rparr>,
      ix_close_account = \<lambda>program account destination owner.
        Some \<lparr>program_id = program,
              ix_accounts = [meta_new account False, meta_new destination False, meta_new_readonly owner True],
              ix_bytes = [9]\<rparr>,
      ix_transfer = \<lambda>payer account lamports.
        \<lparr>program_id = sample_key 0, ix_accounts = [meta_new payer True, meta_new account False],
         ix_bytes = 2 # u64_to_le_bytes lamports\<rparr>,
      ix_create_ata_idempotent = \<lambda>payer owner mint_key program.
        \<lparr>program_id = sample_key 10, ix_accounts = [meta_new payer True, meta_new_readonly owner False,
           meta_new_readonly mint_key False, meta_new_readonly program False], ix_bytes = [1]\<rparr>,
      associated_token_address = \<lambda>owner mint_key program. sample_key 11\<rparr>"

text \<open>A token account that holds an amount; a mint with six decimals.\<close>

definition sample_token_account :: "u64 \<Rightarrow> bytes" where
  "sample_token_account amount = replicate 64 0 @ u64_to_le_bytes amount @ replicate 93 0"

definition sample_mint_account :: bytes where
  "sample_mint_account = replicate 44 0 @ [6] @ replicate 37 0"

definition sample_venue_env :: venue_env where
  "sample_venue_env =
     \<lparr>env_sdk = \<lparr>pubkey_from_str = sample_key_of, find_program_address = \<lambda>_ _. (sample_key 12, 255),
        system_program_id = sample_key 0, rent_sysvar_id = sample_key 13,
        instructions_sysvar_id = sample_key 14\<rparr>,
      env_pubkey_text = sample_key_text,
      env_create_program_address = \<lambda>_ _. Some (sample_key 15),
      env_tokens = sample_tokens,
      env_account = \<lambda>_ _. Inr None,
      env_account_data = \<lambda>_ _. Inr (sample_token_account 1000000),
      env_accounts = \<lambda>_ _. Inr [Some (sample_token_account 1000000), Some (sample_token_account 1000000)],
      env_wallet = \<lambda>_. Inr (sample_key 20),
      env_program_accounts = \<lambda>_ _ _ _. Inl (Rpc_Failed []),
      env_base64_decode = \<lambda>_. None,
      env_token_balance = \<lambda>_ _ _ _. Inr 5000,
      env_rent_lamports = Inr 2039280,
      env_spl_token_id = sample_key 4,
      env_new_key = sample_key 21,
      env_now_ms = 1700000000000,
      env_nanos = 0,
      env_tip_counter = 0,
      env_var = \<lambda>_. None,
      env_f64 = \<lparr>f64_from_str = \<lambda>s. if s = ''50'' then Some (F64_Finite 50)
                    else if s = ''20'' then Some (F64_Finite 20) else None,
                  f64_mul = \<lambda>x y. x * y\<rparr>,
      env_wrapper_fee_bps = 10,
      env_sign = \<lambda>_ _ _. Inr \<lparr>sm_base64 = ''AQ'', sm_signature = Some ''sig'', sm_lookup_tables = []\<rparr>\<rparr>"

definition sample_policy :: runtime_execution_policy where
  "sample_policy =
     \<lparr>slippage_percent = ''20'', policy_mev_mode = Mev_Off, auto_tip_enabled = False,
      fee_sol = [], tip_sol = [], provider = ''standard-rpc'', endpoint_profile = [],
      commitment = ''confirmed'', skip_preflight = True, track_send_block_height = False,
      funding_policy = SolOnly, settlement_policy = AlwaysToSol, settlement_asset = Settle_Sol\<rparr>"

definition sample_trade_request :: "trade_side \<Rightarrow> pubkey \<Rightarrow> unit trade_runtime_request" where
  "sample_trade_request side mint_key =
     \<lparr>request_side = side, request_mint = sample_key_text mint_key, buy_amount_sol = Some ''0.5'',
      sell_intent = Some (Sell_Percent ''50''), policy = sample_policy, platform_label = None,
      planned_route = None, planned_trade = None, pinned_pool = None, warm_key = None,
      fallback_mint_hint = None\<rparr>"

section \<open>Evaluating the sample environment\<close>

lemma sample_key_text_inj [simp]: "sample_key_text a = sample_key_text b \<longleftrightarrow> a = b"
  using sample_key_text_read [of a] sample_key_text_read [of b] by (metis option.inject)

lemma sample_key_inj [simp]: "sample_key a = sample_key b \<longleftrightarrow> a = b"
  by (auto simp: sample_key_def replicate_eq_replicate)

lemma sample_key_wsol [simp]: "sample_key a \<noteq> wsol_mint_id" "wsol_mint_id \<noteq> sample_key a"
proof -
  have "wsol_mint_id ! 0 \<noteq> wsol_mint_id ! 1" by (simp add: wsol_mint_id_def)
  moreover have "sample_key a ! 0 = sample_key a ! 1" by (simp add: sample_key_def)
  ultimately show "sample_key a \<noteq> wsol_mint_id" "wsol_mint_id \<noteq> sample_key a" by metis+
qed

lemma length_sample_key [simp]: "length (sample_key n) = 32" "length wsol_mint_id = 32"
  by (simp_all add: sample_key_def wsol_mint_id_def)

lemma sample_key_default [simp]: "sample_key n = default_pubkey \<longleftrightarrow> n = 0"
  using sample_key_inj [of n 0] by (simp add: sample_key_def default_pubkey_def)

lemma sample_parse [simp]: "pubkey_from_str (env_sdk sample_venue_env) = sample_key_of"
  "env_pubkey_text sample_venue_env = sample_key_text"
  by (simp_all add: sample_venue_env_def)

lemma sample_text_parse [simp]: "sample_key_of (str_trim (sample_key_text k)) = Some k"
  "sample_key_of (sample_key_text k) = Some k"
  by (rule sample_key_roundtrip, rule sample_key_text_read)

text \<open>What the fixed addresses of the code are read as.\<close>

lemma sample_known:
  "venue_key sample_venue_env ''675kPX9MHTjS2zt1qfr1NYHuzeLXfQM9H24wFSUt1Mp8'' l = Inr (sample_key 1)"
  "venue_key sample_venue_env ''5Q544fKrFoe6tsEbD7S8EmxGTJYAKtTVhAW5Q5pge4j1'' l = Inr (sample_key 2)"
  "venue_key sample_venue_env ''srmqPvymJeFKQ4zGQed1GFppgkRHL9kaELCbyksJtPX'' l = Inr (sample_key 3)"
  "venue_key sample_venue_env ''TokenkegQfeZyiNwAJbNbGKPFXCWuBvf9Ss623VQ5DA'' l = Inr (sample_key 4)"
  "venue_key sample_venue_env ''So11111111111111111111111111111111111111112'' l = Inr wsol_mint_id"
  "venue_key sample_venue_env ''ComputeBudget111111111111111111111111111111'' l = Inr (sample_key 6)"
  "venue_key sample_venue_env ''MemoSq4gqABAXKb96qnH8TysNcWxMyWCqXgDLGmfcHr'' l = Inr (sample_key 7)"
  "venue_key sample_venue_env ''jitodontfront111111111111111111111111111111'' l = Inr (sample_key 8)"
  "venue_key sample_venue_env ''CPMMoo8L3F4NbTegBCKVNunggL7H1ZpdTHKxQB5qKP1C'' l = Inr (sample_key 9)"
  by (simp_all add: venue_key_def sample_key_of_def known_keys_def)

lemma known_trim:
  "str_trim ''675kPX9MHTjS2zt1qfr1NYHuzeLXfQM9H24wFSUt1Mp8'' = ''675kPX9MHTjS2zt1qfr1NYHuzeLXfQM9H24wFSUt1Mp8''"
  "str_trim ''5Q544fKrFoe6tsEbD7S8EmxGTJYAKtTVhAW5Q5pge4j1'' = ''5Q544fKrFoe6tsEbD7S8EmxGTJYAKtTVhAW5Q5pge4j1''"
  "str_trim ''srmqPvymJeFKQ4zGQed1GFppgkRHL9kaELCbyksJtPX'' = ''srmqPvymJeFKQ4zGQed1GFppgkRHL9kaELCbyksJtPX''"
  "str_trim ''TokenkegQfeZyiNwAJbNbGKPFXCWuBvf9Ss623VQ5DA'' = ''TokenkegQfeZyiNwAJbNbGKPFXCWuBvf9Ss623VQ5DA''"
  "str_trim ''So11111111111111111111111111111111111111112'' = ''So11111111111111111111111111111111111111112''"
  by (simp_all add: str_trim_fixed is_ws_def)

lemmas sample_known_trimmed = venue_key_trimmed_def known_trim sample_known

text \<open>Reading a slice out of account data put together from parts.\<close>

lemmas slice_eval = venue_pubkey_at_def word_at_def slice_def take_append drop_append take_replicate
  drop_replicate

lemma token_account_sample [simp]: "token_account_amount (sample_token_account a) = Inr a"
  by (simp add: token_account_amount_def sample_token_account_def)

lemma mint_sample [simp]: "mint_decimals sample_mint_account = Inr 6"
  by (simp add: mint_decimals_def sample_mint_account_def nth_append)

text \<open>Texts and tips of the sample request.\<close>

lemma sample_parses:
  "parse_slippage_bps (Some ''20'') = Inr 2000"
  "priority_fee_sol_to_micro_lamports [] = Inr 0"
  "parse_decimal_units ''0.5'' 9 l = Inr 500000000"
  "parse_percent_to_bps ''50'' = Inr 5000"
  by (simp_all add: parse_slippage_bps_def priority_fee_sol_to_micro_lamports_def parse_decimal_units_def
      parse_percent_to_bps_def parse_decimal_scaled_def u16_of_u128_def parse_u128_def unwrap_or_def
      decimal_eval Let_def word_less_nat_alt)

lemma sample_half: "percent_of_balance 5000 5000 = 2500"
  by (simp add: unat_eq_iff percent_value)

lemma sample_no_tip:
  assumes "env_var env = (\<lambda>_. None)"
  shows "resolve_inline_tip env key names parse_tip owner ''standard-rpc'' tip = Inr None"
proof -
  have "provider_tip_accounts ''standard-rpc'' = []"
    by (simp add: provider_tip_accounts_def str_trim_def is_ws_def)
  then have "fst (pick_tip_account_for_provider c n ''standard-rpc'') = []" for c n
    by (simp add: pick_tip_account_for_provider_def)
  moreover have "env_or_else (env_var env) ns = None" for ns
    by (induction ns) (simp_all add: env_or_else_def or_else_def assms)
  ultimately show ?thesis
    by (simp add: resolve_inline_tip_def configured_tip_account_def unwrap_or_def str_trim_def)
qed

text \<open>The end of a sample compilation.\<close>

lemma sample_finish:
  assumes "env_sdk env = env_sdk sample_venue_env" "env_sign env = env_sign sample_venue_env"
    and "provider pol = ''standard-rpc''"
  shows "\<exists>t. finish_transaction env (Inr None) pol owner extra ixs label limit price = Inr t"
proof -
  have "\<not> jitodontfront_enabled_for_provider ''standard-rpc'' mode" for mode
    by (simp add: jitodontfront_enabled_for_provider_def str_trim_def is_ws_def ascii_lower_def)
  moreover have "\<exists>memo. uniqueness_memo_instruction env label = Inr memo"
    using sample_known(7)
    by (simp add: uniqueness_memo_instruction_def venue_key_def assms(1) del: sample_parse)
  moreover have "env_sign sample_venue_env signer ixs ss = Inr \<lparr>sm_base64 = ''AQ'', sm_signature = Some ''sig'', sm_lookup_tables = []\<rparr>"
    for signer ixs ss by (simp add: sample_venue_env_def)
  ultimately show ?thesis
    using assms by (auto simp: finish_transaction_def Let_def)
qed

end
