(* ===== verification/Raydium_Amm_V4.thy ===== *)
theory Raydium_Amm_V4
  imports Venue_Samples
begin

text \<open>
  The Raydium AMM v4 venue (\<^verbatim>\<open>execution-engine/src/raydium_amm_v4_native.rs\<close>): reading a pool
  and its market, the checks a pool must pass, the planner's selector, quotes, and the
  compilation of a buy or sell into instructions.
\<close>

section \<open>Pools\<close>

record amm_v4_pool =
  ap_pubkey :: pubkey
  ap_authority :: pubkey
  ap_base_mint :: pubkey
  ap_quote_mint :: pubkey
  ap_base_vault :: pubkey
  ap_quote_vault :: pubkey
  ap_open_orders :: pubkey
  ap_target_orders :: pubkey
  ap_market_program :: pubkey
  ap_market :: pubkey
  ap_market_bids :: pubkey
  ap_market_asks :: pubkey
  ap_market_event_queue :: pubkey
  ap_market_base_vault :: pubkey
  ap_market_quote_vault :: pubkey
  ap_market_vault_signer :: pubkey
  ap_mint_token_program :: pubkey
  ap_trade_fee_numerator :: u64
  ap_trade_fee_denominator :: u64

definition amm_v4_program_text :: string where
  "amm_v4_program_text = ''675kPX9MHTjS2zt1qfr1NYHuzeLXfQM9H24wFSUt1Mp8''"

definition amm_v4_program_id :: "venue_env \<Rightarrow> venue_error + pubkey" where
  "amm_v4_program_id env = venue_key_trimmed env amm_v4_program_text ''Raydium AMM v4 program''"

definition decode_raydium_amm_v4_pool_state ::
  "venue_env \<Rightarrow> pubkey \<Rightarrow> bytes \<Rightarrow> venue_error + amm_v4_pool" where
  "decode_raydium_amm_v4_pool_state env pool_key data =
     (if length data < 752 then Inl (Data_Too_Short ''Raydium AMM v4 pool account'')
      else
        rbind (word_at data 0 ''raydium status'') (\<lambda>status.
        if status \<noteq> 6 then Inl (Unsupported_Status status)
        else
          rbind (venue_key_trimmed env ''5Q544fKrFoe6tsEbD7S8EmxGTJYAKtTVhAW5Q5pge4j1''
                   ''Raydium AMM v4 authority'') (\<lambda>authority.
          rbind (venue_pubkey_at data 400 ''raydium base mint'') (\<lambda>base_mint.
          rbind (venue_pubkey_at data 432 ''raydium quote mint'') (\<lambda>quote_mint.
          rbind (venue_pubkey_at data 336 ''raydium base vault'') (\<lambda>base_vault.
          rbind (venue_pubkey_at data 368 ''raydium quote vault'') (\<lambda>quote_vault.
          rbind (venue_pubkey_at data 496 ''raydium open orders'') (\<lambda>open_orders.
          rbind (venue_pubkey_at data 592 ''raydium target orders'') (\<lambda>target_orders.
          rbind (venue_pubkey_at data 560 ''raydium market program'') (\<lambda>market_program.
          rbind (venue_pubkey_at data 528 ''raydium market'') (\<lambda>market.
          rbind (word_at data (18 * 8) ''raydium trade fee numerator'') (\<lambda>fee_numerator.
          rbind (word_at data (19 * 8) ''raydium trade fee denominator'') (\<lambda>fee_denominator.
          Inr \<lparr>ap_pubkey = pool_key, ap_authority = authority, ap_base_mint = base_mint,
               ap_quote_mint = quote_mint, ap_base_vault = base_vault, ap_quote_vault = quote_vault,
               ap_open_orders = open_orders, ap_target_orders = target_orders,
               ap_market_program = market_program, ap_market = market,
               ap_market_bids = default_pubkey, ap_market_asks = default_pubkey,
               ap_market_event_queue = default_pubkey, ap_market_base_vault = default_pubkey,
               ap_market_quote_vault = default_pubkey, ap_market_vault_signer = default_pubkey,
               ap_mint_token_program = default_pubkey, ap_trade_fee_numerator = fee_numerator,
               ap_trade_fee_denominator = fee_denominator\<rparr>)))))))))))))"

definition amm_v4_wsol :: "venue_env \<Rightarrow> venue_error + pubkey" where
  "amm_v4_wsol env =
     venue_key_trimmed env ''So11111111111111111111111111111111111111112'' ''WSOL mint''"

definition amm_v4_token_program :: "venue_env \<Rightarrow> venue_error + pubkey" where
  "amm_v4_token_program env =
     venue_key_trimmed env ''TokenkegQfeZyiNwAJbNbGKPFXCWuBvf9Ss623VQ5DA'' ''token program''"

definition raydium_amm_v4_pool_token_mint :: "venue_env \<Rightarrow> amm_v4_pool \<Rightarrow> venue_error + pubkey" where
  "raydium_amm_v4_pool_token_mint env pool =
     rbind (amm_v4_wsol env) (\<lambda>wsol.
       if ap_base_mint pool \<noteq> wsol \<and> ap_quote_mint pool = wsol then Inr (ap_base_mint pool)
       else if ap_base_mint pool = wsol \<and> ap_quote_mint pool \<noteq> wsol then Inr (ap_quote_mint pool)
       else Inl (Unsupported_Market ''not an exact WSOL pair''))"

definition validate_raydium_amm_v4_pool_for_mint ::
  "venue_env \<Rightarrow> amm_v4_pool \<Rightarrow> pubkey \<Rightarrow> venue_error + unit" where
  "validate_raydium_amm_v4_pool_for_mint env pool mint_key =
     rbind (raydium_amm_v4_pool_token_mint env pool) (\<lambda>resolved_mint.
       if resolved_mint \<noteq> mint_key then Inl (Unsupported_Market ''another mint'')
       else if ap_base_vault pool = default_pubkey \<or> ap_quote_vault pool = default_pubkey
       then Inl (Unsupported_Market ''invalid vault address'')
       else Inr ())"

definition validate_raydium_amm_v4_market_program :: "venue_env \<Rightarrow> amm_v4_pool \<Rightarrow> venue_error + unit" where
  "validate_raydium_amm_v4_market_program env pool =
     rbind (venue_key_trimmed env ''srmqPvymJeFKQ4zGQed1GFppgkRHL9kaELCbyksJtPX''
              ''Raydium AMM v4 OpenBook market program'') (\<lambda>openbook_program.
       if ap_market_program pool \<noteq> openbook_program
       then Inl (Unsupported_Market ''unsupported market program'') else Inr ())"

definition validate_raydium_amm_v4_market_mints :: "amm_v4_pool \<Rightarrow> bytes \<Rightarrow> venue_error + unit" where
  "validate_raydium_amm_v4_market_mints pool market_data =
     rbind (venue_pubkey_at market_data 53 ''raydium market base mint'') (\<lambda>market_base_mint.
     rbind (venue_pubkey_at market_data 85 ''raydium market quote mint'') (\<lambda>market_quote_mint.
       if market_base_mint \<noteq> ap_base_mint pool \<or> market_quote_mint \<noteq> ap_quote_mint pool
       then Inl (Unsupported_Market ''market mints do not match pool'') else Inr ()))"

definition amm_v4_market_accounts :: "amm_v4_pool \<Rightarrow> (string \<times> pubkey) list" where
  "amm_v4_market_accounts pool =
     [(''open_orders'', ap_open_orders pool), (''target_orders'', ap_target_orders pool),
      (''market'', ap_market pool), (''market_bids'', ap_market_bids pool),
      (''market_asks'', ap_market_asks pool), (''market_event_queue'', ap_market_event_queue pool),
      (''market_base_vault'', ap_market_base_vault pool),
      (''market_quote_vault'', ap_market_quote_vault pool),
      (''market_vault_signer'', ap_market_vault_signer pool)]"

definition validate_raydium_amm_v4_market_accounts :: "amm_v4_pool \<Rightarrow> venue_error + unit" where
  "validate_raydium_amm_v4_market_accounts pool =
     (case find (\<lambda>(_, account). account = default_pubkey) (amm_v4_market_accounts pool) of
        Some (label, _) \<Rightarrow> Inl (Unsupported_Market label)
      | None \<Rightarrow> Inr ())"

definition validate_raydium_amm_v4_token_program :: "venue_env \<Rightarrow> amm_v4_pool \<Rightarrow> venue_error + unit" where
  "validate_raydium_amm_v4_token_program env pool =
     rbind (amm_v4_token_program env) (\<lambda>token_program.
       if ap_mint_token_program pool \<noteq> token_program
       then Inl (Unsupported_Market ''unsupported mint token program'') else Inr ())"

definition fetch_mint_token_program :: "venue_env \<Rightarrow> pubkey \<Rightarrow> string \<Rightarrow> venue_error + pubkey" where
  "fetch_mint_token_program env mint_key commitment_level =
     rbind (env_account env (env_pubkey_text env mint_key) commitment_level) (\<lambda>found.
     rbind (ok_or (map_option fst found) (Account_Not_Found ''mint'')) (\<lambda>owner.
     rbind (amm_v4_token_program env) (\<lambda>token_program.
       if owner \<noteq> token_program then Inl (Unsupported_Market ''unsupported token program'')
       else Inr owner)))"

text \<open>
  What the market account adds to a pool. The two queries run at the same time; the failure of
  the second is looked at after the market has been read.
\<close>

definition enrich_raydium_amm_v4_pool_state ::
  "venue_env \<Rightarrow> amm_v4_pool \<Rightarrow> pubkey \<Rightarrow> string \<Rightarrow> venue_error + amm_v4_pool" where
  "enrich_raydium_amm_v4_pool_state env pool mint_key commitment_level =
     rbind (validate_raydium_amm_v4_pool_for_mint env pool mint_key) (\<lambda>_.
     rbind (validate_raydium_amm_v4_market_program env pool) (\<lambda>_.
     rbind (env_account env (env_pubkey_text env (ap_market pool)) commitment_level) (\<lambda>found.
     rbind (ok_or found (Account_Not_Found ''market'')) (\<lambda>(market_owner, market_data).
     if market_owner \<noteq> ap_market_program pool then Inl (Unsupported_Market ''market owner'')
     else
       rbind (validate_raydium_amm_v4_market_mints pool market_data) (\<lambda>_.
       rbind (venue_pubkey_at market_data 285 ''raydium market bids'') (\<lambda>bids.
       rbind (venue_pubkey_at market_data 317 ''raydium market asks'') (\<lambda>asks.
       rbind (venue_pubkey_at market_data 253 ''raydium market event queue'') (\<lambda>event_queue.
       rbind (venue_pubkey_at market_data 117 ''raydium market base vault'') (\<lambda>base_vault.
       rbind (venue_pubkey_at market_data 165 ''raydium market quote vault'') (\<lambda>quote_vault.
       rbind (word_at market_data 45 ''raydium market vault signer nonce'') (\<lambda>vault_nonce.
       rbind (ok_or (env_create_program_address env
                       [ap_market pool, u64_to_le_bytes vault_nonce] (ap_market_program pool))
                (Library_Failed ''vault signer'')) (\<lambda>vault_signer.
       rbind (fetch_mint_token_program env mint_key commitment_level) (\<lambda>mint_token_program.
       let enriched = pool\<lparr>ap_market_bids := bids, ap_market_asks := asks,
                           ap_market_event_queue := event_queue,
                           ap_market_base_vault := base_vault,
                           ap_market_quote_vault := quote_vault,
                           ap_market_vault_signer := vault_signer,
                           ap_mint_token_program := mint_token_program\<rparr>
       in rbind (validate_raydium_amm_v4_token_program env enriched) (\<lambda>_.
          rbind (validate_raydium_amm_v4_market_accounts enriched) (\<lambda>_.
          Inr enriched)))))))))))))))"

definition classify_raydium_amm_v4_pool_address ::
  "venue_env \<Rightarrow> string \<Rightarrow> bytes \<Rightarrow> string \<Rightarrow> venue_error + (string \<times> string) option" where
  "classify_raydium_amm_v4_pool_address env address data commitment_level =
     rbind (venue_key_trimmed env address ''Raydium AMM v4 pool id'') (\<lambda>pool_id.
       case decode_raydium_amm_v4_pool_state env pool_id data of
         Inl (Data_Too_Short _) \<Rightarrow> Inr None
       | Inl e \<Rightarrow> Inl e
       | Inr pool \<Rightarrow>
           rbind (raydium_amm_v4_pool_token_mint env pool) (\<lambda>mint_key.
           rbind (enrich_raydium_amm_v4_pool_state env pool mint_key commitment_level) (\<lambda>_.
           Inr (Some (env_pubkey_text env mint_key, env_pubkey_text env pool_id)))))"

section \<open>The selector\<close>

definition amm_v4_bundle :: "venue_env \<Rightarrow> amm_v4_pool \<Rightarrow> raydium_amm_v4_runtime_bundle" where
  "amm_v4_bundle env pool =
     \<lparr>amm4_pool = env_pubkey_text env (ap_pubkey pool),
      amm4_authority = env_pubkey_text env (ap_authority pool),
      amm4_base_mint = env_pubkey_text env (ap_base_mint pool),
      amm4_quote_mint = env_pubkey_text env (ap_quote_mint pool),
      amm4_base_vault = env_pubkey_text env (ap_base_vault pool),
      amm4_quote_vault = env_pubkey_text env (ap_quote_vault pool),
      amm4_open_orders = env_pubkey_text env (ap_open_orders pool),
      amm4_target_orders = env_pubkey_text env (ap_target_orders pool),
      amm4_market_program = env_pubkey_text env (ap_market_program pool),
      amm4_market = env_pubkey_text env (ap_market pool),
      amm4_market_bids = env_pubkey_text env (ap_market_bids pool),
      amm4_market_asks = env_pubkey_text env (ap_market_asks pool),
      amm4_market_event_queue = env_pubkey_text env (ap_market_event_queue pool),
      amm4_market_base_vault = env_pubkey_text env (ap_market_base_vault pool),
      amm4_market_quote_vault = env_pubkey_text env (ap_market_quote_vault pool),
      amm4_market_vault_signer = env_pubkey_text env (ap_market_vault_signer pool),
      amm4_mint_token_program = env_pubkey_text env (ap_mint_token_program pool),
      amm4_trade_fee_numerator = ap_trade_fee_numerator pool,
      amm4_trade_fee_denominator = ap_trade_fee_denominator pool\<rparr>"

definition build_raydium_amm_v4_selector ::
  "venue_env \<Rightarrow> 'plan trade_runtime_request \<Rightarrow> amm_v4_pool \<Rightarrow> lifecycle_and_canonical_market" where
  "build_raydium_amm_v4_selector env request pool =
     \<lparr>lifecycle = PostMigration, family = RaydiumAmmV4,
      canonical_market_key = env_pubkey_text env (ap_pubkey pool),
      quote_asset = Quote_Wsol, verification_source = OnchainDerived,
      market_wrapper_action =
        (case request_side request of Buy \<Rightarrow> RaydiumAmmV4WsolBuy | Sell \<Rightarrow> RaydiumAmmV4WsolSell),
      wrapper_accounts = map (env_pubkey_text env)
        [ap_pubkey pool, ap_base_vault pool, ap_quote_vault pool, ap_open_orders pool, ap_market pool],
      market_subtype = Some ''amm-v4'', direct_protocol_target = Some ''raydium-amm-v4'',
      input_amount_hint = None, minimum_output_hint = None,
      runtime_bundle = Some (Bundle_RaydiumAmmV4 (amm_v4_bundle env pool))\<rparr>"

definition pool_of_amm_v4_bundle ::
  "venue_env \<Rightarrow> raydium_amm_v4_runtime_bundle \<Rightarrow> venue_error + amm_v4_pool" where
  "pool_of_amm_v4_bundle env bundle =
     rbind (venue_key_trimmed env (amm4_pool bundle) ''pool'') (\<lambda>pool_key.
     rbind (venue_key_trimmed env (amm4_authority bundle) ''authority'') (\<lambda>authority.
     rbind (venue_key_trimmed env (amm4_base_mint bundle) ''base mint'') (\<lambda>base_mint.
     rbind (venue_key_trimmed env (amm4_quote_mint bundle) ''quote mint'') (\<lambda>quote_mint.
     rbind (venue_key_trimmed env (amm4_base_vault bundle) ''base vault'') (\<lambda>base_vault.
     rbind (venue_key_trimmed env (amm4_quote_vault bundle) ''quote vault'') (\<lambda>quote_vault.
     rbind (venue_key_trimmed env (amm4_open_orders bundle) ''open orders'') (\<lambda>open_orders.
     rbind (venue_key_trimmed env (amm4_target_orders bundle) ''target orders'') (\<lambda>target_orders.
     rbind (venue_key_trimmed env (amm4_market_program bundle) ''market program'') (\<lambda>market_program.
     rbind (venue_key_trimmed env (amm4_market bundle) ''market'') (\<lambda>market.
     rbind (venue_key_trimmed env (amm4_market_bids bundle) ''market bids'') (\<lambda>bids.
     rbind (venue_key_trimmed env (amm4_market_asks bundle) ''market asks'') (\<lambda>asks.
     rbind (venue_key_trimmed env (amm4_market_event_queue bundle) ''market event queue'') (\<lambda>event_queue.
     rbind (venue_key_trimmed env (amm4_market_base_vault bundle) ''market base vault'') (\<lambda>m_base_vault.
     rbind (venue_key_trimmed env (amm4_market_quote_vault bundle) ''market quote vault'') (\<lambda>m_quote_vault.
     rbind (venue_key_trimmed env (amm4_market_vault_signer bundle) ''market vault signer'') (\<lambda>vault_signer.
     rbind (venue_key_trimmed env (amm4_mint_token_program bundle) ''mint token program'') (\<lambda>mint_program.
     Inr \<lparr>ap_pubkey = pool_key, ap_authority = authority, ap_base_mint = base_mint,
          ap_quote_mint = quote_mint, ap_base_vault = base_vault, ap_quote_vault = quote_vault,
          ap_open_orders = open_orders, ap_target_orders = target_orders,
          ap_market_program = market_program, ap_market = market, ap_market_bids = bids,
          ap_market_asks = asks, ap_market_event_queue = event_queue,
          ap_market_base_vault = m_base_vault, ap_market_quote_vault = m_quote_vault,
          ap_market_vault_signer = vault_signer, ap_mint_token_program = mint_program,
          ap_trade_fee_numerator = amm4_trade_fee_numerator bundle,
          ap_trade_fee_denominator = amm4_trade_fee_denominator bundle\<rparr>)))))))))))))))))"

definition pool_from_runtime_bundle ::
  "venue_env \<Rightarrow> lifecycle_and_canonical_market \<Rightarrow> venue_error + amm_v4_pool" where
  "pool_from_runtime_bundle env selector =
     (case runtime_bundle selector of
        Some (Bundle_RaydiumAmmV4 bundle) \<Rightarrow> pool_of_amm_v4_bundle env bundle
      | _ \<Rightarrow> Inl (Missing_Request_Field ''runtime bundle''))"

definition plan_raydium_amm_v4_trade_for_pool_id ::
  "venue_env \<Rightarrow> 'plan trade_runtime_request \<Rightarrow> pubkey
     \<Rightarrow> venue_error + lifecycle_and_canonical_market option" where
  "plan_raydium_amm_v4_trade_for_pool_id env request pool_id =
     rbind (env_account env (env_pubkey_text env pool_id) (commitment (policy request))) (\<lambda>found.
     rbind (ok_or found (Account_Not_Found ''pool'')) (\<lambda>(owner, data).
     rbind (amm_v4_program_id env) (\<lambda>program.
       if owner \<noteq> program then Inr None
       else
         rbind (venue_key_trimmed env (request_mint request) ''Raydium AMM v4 mint'') (\<lambda>mint_key.
         rbind (decode_raydium_amm_v4_pool_state env pool_id data) (\<lambda>pool.
         rbind (enrich_raydium_amm_v4_pool_state env pool mint_key (commitment (policy request)))
           (\<lambda>pool. Inr (Some (build_raydium_amm_v4_selector env request pool))))))))"

text \<open>A pinned pool is looked up by the text of the request.\<close>

definition plan_raydium_amm_v4_trade ::
  "venue_env \<Rightarrow> 'plan trade_runtime_request \<Rightarrow> venue_error + lifecycle_and_canonical_market option" where
  "plan_raydium_amm_v4_trade env request =
     (case map_option str_trim (pinned_pool request) of
        None \<Rightarrow> Inl (Missing_Request_Field ''pool'')
      | Some pinned \<Rightarrow>
          if pinned = [] then Inl (Missing_Request_Field ''pool'')
          else
            rbind (venue_key_trimmed env pinned ''Raydium AMM v4 pool'') (\<lambda>pool_id.
            rbind (env_account env pinned (commitment (policy request))) (\<lambda>found.
            rbind (ok_or found (Account_Not_Found ''pool'')) (\<lambda>(owner, data).
            rbind (amm_v4_program_id env) (\<lambda>program.
              if owner \<noteq> program then Inr None
              else
                rbind (decode_raydium_amm_v4_pool_state env pool_id data) (\<lambda>pool.
                rbind (venue_key_trimmed env (request_mint request) ''Raydium AMM v4 mint'') (\<lambda>mint_key.
                rbind (enrich_raydium_amm_v4_pool_state env pool mint_key (commitment (policy request)))
                  (\<lambda>pool. Inr (Some (build_raydium_amm_v4_selector env request pool))))))))))"

definition fetch_raydium_amm_v4_pools_for_ordered_pair ::
  "venue_env \<Rightarrow> pubkey \<Rightarrow> pubkey \<Rightarrow> string \<Rightarrow> venue_error + pubkey list" where
  "fetch_raydium_amm_v4_pools_for_ordered_pair env left_mint right_mint commitment_level =
     rbind (env_program_accounts env amm_v4_program_text (Some 752)
              [(400, env_pubkey_text env left_mint), (432, env_pubkey_text env right_mint)]
              commitment_level)
       (pools_of_response env (decode_raydium_amm_v4_pool_state env))"

definition find_raydium_amm_v4_pool_for_pair ::
  "venue_env \<Rightarrow> pubkey \<Rightarrow> pubkey \<Rightarrow> string \<Rightarrow> venue_error + pubkey option" where
  "find_raydium_amm_v4_pool_for_pair env mint_key quote_key commitment_level =
     rbind (fetch_raydium_amm_v4_pools_for_ordered_pair env mint_key quote_key commitment_level)
       (\<lambda>forward.
     rbind (fetch_raydium_amm_v4_pools_for_ordered_pair env quote_key mint_key commitment_level)
       (\<lambda>backward. unique_pool env (forward @ backward)))"

section \<open>Quotes\<close>

definition raydium_amm_v4_swap_sides ::
  "amm_v4_pool \<Rightarrow> pubkey \<Rightarrow> pubkey \<Rightarrow> u64 \<Rightarrow> u64 \<Rightarrow> venue_error + (pubkey \<times> pubkey \<times> u64 \<times> u64)" where
  "raydium_amm_v4_swap_sides pool input_mint output_mint base_reserve quote_reserve =
     (if input_mint = ap_base_mint pool \<and> output_mint = ap_quote_mint pool
      then Inr (ap_base_vault pool, ap_quote_vault pool, base_reserve, quote_reserve)
      else if input_mint = ap_quote_mint pool \<and> output_mint = ap_base_mint pool
      then Inr (ap_quote_vault pool, ap_base_vault pool, quote_reserve, base_reserve)
      else Inl (Unsupported_Market ''swap mints do not match the selected pool''))"

text \<open>The product and the quotient are over 128 bits, where neither can overflow.\<close>

definition raydium_amm_v4_quote_exact_in ::
  "u64 \<Rightarrow> u64 \<Rightarrow> u64 \<Rightarrow> u64 \<Rightarrow> u64 \<Rightarrow> quote_failure + u64" where
  "raydium_amm_v4_quote_exact_in amount_in input_reserve output_reserve fee_numerator fee_denominator =
     (if amount_in = 0 then Inr 0
      else if input_reserve = 0 \<or> output_reserve = 0 then Inl Reserves_Empty
      else if fee_denominator = 0 \<or> fee_numerator \<ge> fee_denominator then Inl Fee_Config_Invalid
      else
        let amount_after_fee = (ucast amount_in :: u128) * ucast (sat_sub fee_denominator fee_numerator)
                                 div ucast fee_denominator;
            numerator = sat_mul amount_after_fee (ucast output_reserve);
            denominator = sat_add (ucast input_reserve) amount_after_fee
        in if denominator = 0 then Inr 0
           else Inr (ucast (min (numerator div denominator) (ucast (max_word :: u64)))))"

text \<open>The pool and its two reserves, as the quote cache keeps them.\<close>

type_synonym amm_v4_snapshot = "amm_v4_pool \<times> u64 \<times> u64"

definition quote_raydium_amm_v4_snapshot ::
  "venue_env \<Rightarrow> amm_v4_snapshot \<Rightarrow> pubkey \<Rightarrow> u64 \<Rightarrow> venue_error + u64" where
  "quote_raydium_amm_v4_snapshot env snapshot mint_key token_amount =
     (case snapshot of (pool, base_reserve, quote_reserve) \<Rightarrow>
        rbind (validate_raydium_amm_v4_pool_for_mint env pool mint_key) (\<lambda>_.
        rbind (amm_v4_wsol env) (\<lambda>wsol.
        rbind (if mint_key = ap_base_mint pool \<and> wsol = ap_quote_mint pool
               then Inr (base_reserve, quote_reserve)
               else if mint_key = ap_quote_mint pool \<and> wsol = ap_base_mint pool
               then Inr (quote_reserve, base_reserve)
               else Inl (Unsupported_Market ''not a WSOL pair'')) (\<lambda>(input_reserve, output_reserve).
          map_error Quote_Error
            (raydium_amm_v4_quote_exact_in token_amount input_reserve output_reserve
               (ap_trade_fee_numerator pool) (ap_trade_fee_denominator pool))))))"

definition fetch_amm_v4_snapshot ::
  "venue_env \<Rightarrow> lifecycle_and_canonical_market \<Rightarrow> pubkey \<Rightarrow> string \<Rightarrow> venue_error + amm_v4_snapshot" where
  "fetch_amm_v4_snapshot env selector mint_key commitment_level =
     rbind (case runtime_bundle selector of
              Some _ \<Rightarrow> pool_from_runtime_bundle env selector
            | None \<Rightarrow>
                rbind (venue_key_trimmed env (canonical_market_key selector)
                         ''Raydium AMM v4 canonical market'') (\<lambda>pool_id.
                rbind (env_account_data env (env_pubkey_text env pool_id) commitment_level) (\<lambda>data.
                rbind (decode_raydium_amm_v4_pool_state env pool_id data) (\<lambda>decoded.
                enrich_raydium_amm_v4_pool_state env decoded mint_key commitment_level)))) (\<lambda>pool.
     rbind (validate_raydium_amm_v4_pool_for_mint env pool mint_key) (\<lambda>_.
     rbind (env_accounts env (map (env_pubkey_text env) [ap_base_vault pool, ap_quote_vault pool])
              commitment_level) (\<lambda>datas.
       case datas of
         [base_data, quote_data] \<Rightarrow>
           rbind (ok_or base_data (Account_Not_Found ''base reserve'')) (\<lambda>base_data.
           rbind (token_account_amount base_data) (\<lambda>base_reserve.
           rbind (ok_or quote_data (Account_Not_Found ''quote reserve'')) (\<lambda>quote_data.
           rbind (token_account_amount quote_data) (\<lambda>quote_reserve.
           Inr (pool, base_reserve, quote_reserve)))))
       | _ \<Rightarrow> Inl (Unexpected_Account_Count (length datas) 2))))"

definition quote_raydium_amm_v4_holding_value_sol_with_cache ::
  "venue_env \<Rightarrow> string \<Rightarrow> nat \<Rightarrow> nat \<Rightarrow> nat \<Rightarrow> lifecycle_and_canonical_market \<Rightarrow> string \<Rightarrow> u64 \<Rightarrow> string
     \<Rightarrow> bool \<Rightarrow> amm_v4_snapshot quote_cache \<Rightarrow> (venue_error + u64) \<times> amm_v4_snapshot quote_cache" where
  "quote_raydium_amm_v4_holding_value_sol_with_cache env rpc_url now fetched_at stored_at selector
       mint_text token_amount commitment_level use_cache cache =
     (if token_amount = 0 then (Inr 0, cache)
      else
        case venue_key_trimmed env mint_text ''Raydium AMM v4 quote mint'' of
          Inl e \<Rightarrow> (Inl e, cache)
        | Inr mint_key \<Rightarrow>
            quote_with_cache use_cache now fetched_at stored_at (quote_snapshot_ttl selector)
              (quote_snapshot_key rpc_url selector mint_text commitment_level)
              (\<lambda>_. fetch_amm_v4_snapshot env selector mint_key commitment_level)
              (\<lambda>snapshot. quote_raydium_amm_v4_snapshot env snapshot mint_key token_amount) cache)"

section \<open>Compilation\<close>

definition build_raydium_amm_v4_swap_base_in_instruction ::
  "venue_env \<Rightarrow> amm_v4_pool \<Rightarrow> pubkey \<Rightarrow> pubkey \<Rightarrow> pubkey \<Rightarrow> u64 \<Rightarrow> u64 \<Rightarrow> venue_error + instruction" where
  "build_raydium_amm_v4_swap_base_in_instruction env pool user_source user_destination user_owner
       amount_in min_out =
     rbind (amm_v4_program_id env) (\<lambda>program.
     rbind (amm_v4_token_program env) (\<lambda>token_program.
     Inr \<lparr>program_id = program,
          ix_accounts =
            [meta_new_readonly token_program False,
             meta_new (ap_pubkey pool) False,
             meta_new_readonly (ap_authority pool) False,
             meta_new (ap_open_orders pool) False,
             meta_new (ap_target_orders pool) False,
             meta_new (ap_base_vault pool) False,
             meta_new (ap_quote_vault pool) False,
             meta_new_readonly (ap_market_program pool) False,
             meta_new (ap_market pool) False,
             meta_new (ap_market_bids pool) False,
             meta_new (ap_market_asks pool) False,
             meta_new (ap_market_event_queue pool) False,
             meta_new (ap_market_base_vault pool) False,
             meta_new (ap_market_quote_vault pool) False,
             meta_new_readonly (ap_market_vault_signer pool) False,
             meta_new user_source False,
             meta_new user_destination False,
             meta_new_readonly user_owner True],
          ix_bytes = 9 # u64_to_le_bytes amount_in @ u64_to_le_bytes min_out\<rparr>))"

text \<open>The quote of the pool as the sizing search sees it.\<close>

definition amm_v4_net_quote :: "venue_env \<Rightarrow> u64 \<Rightarrow> u64 \<Rightarrow> u64 \<Rightarrow> u64 \<Rightarrow> quote_failure quote_fn" where
  "amm_v4_net_quote env input_reserve output_reserve fee_numerator fee_denominator =
     net_quote (env_wrapper_fee_bps env)
       (\<lambda>amount. raydium_amm_v4_quote_exact_in amount input_reserve output_reserve fee_numerator
                   fee_denominator)"

definition resolve_raydium_amm_v4_sell_input_amount ::
  "venue_env \<Rightarrow> runtime_sell_intent \<Rightarrow> string \<Rightarrow> string \<Rightarrow> string \<Rightarrow> u8 \<Rightarrow> u64 \<Rightarrow> u64 \<Rightarrow> u64 \<Rightarrow> u64
     \<Rightarrow> venue_error + u64" where
  "resolve_raydium_amm_v4_sell_input_amount env intent wallet_id owner mint_text decimals
       input_reserve output_reserve fee_numerator fee_denominator =
     rbind (env_token_balance env wallet_id owner mint_text decimals) (\<lambda>balance.
     if balance = 0 then Inl (Zero_Amount ''balance'')
     else
       rbind (case intent of
                Sell_Percent value \<Rightarrow>
                  rbind (parse_percent_to_bps value) (\<lambda>bps. Inr (percent_of_balance balance bps))
              | Sell_Sol_Output value \<Rightarrow>
                  rbind (parse_decimal_units value 9 ''sellOutputSol'') (\<lambda>desired_output.
                  sized_sell_amount balance desired_output
                    (amm_v4_net_quote env input_reserve output_reserve fee_numerator fee_denominator)))
         (\<lambda>amount.
          if amount = 0 then Inl (Zero_Amount ''sell amount'')
          else if balance < amount then Inl (Balance_Too_Small amount balance)
          else Inr amount))"

definition compute_budget_prefix :: "venue_env \<Rightarrow> u32 \<Rightarrow> u64 \<Rightarrow> venue_error + instruction list" where
  "compute_budget_prefix env limit price =
     rbind (compute_unit_limit_instruction env limit) (\<lambda>limit_ix.
     if 0 < price
     then rbind (compute_unit_price_instruction env price) (\<lambda>price_ix. Inr [limit_ix, price_ix])
     else Inr [limit_ix])"

definition amm_v4_compute_unit_limit :: u32 where
  "amm_v4_compute_unit_limit = 340000"

text \<open>The buy branch of the compiler: token account, funded WSOL account, swap.\<close>

definition amm_v4_buy_instructions ::
  "venue_env \<Rightarrow> 'plan trade_runtime_request \<Rightarrow> amm_v4_pool \<Rightarrow> pubkey \<Rightarrow> pubkey \<Rightarrow> pubkey \<Rightarrow> u64 \<Rightarrow> u64
     \<Rightarrow> u64 \<Rightarrow> u16 \<Rightarrow> venue_error + instruction list" where
  "amm_v4_buy_instructions env request pool owner mint_key wsol base_reserve quote_reserve rent
       slippage_bps =
     (let user_token_account =
            associated_token_address (env_tokens env) owner mint_key (ap_mint_token_program pool);
          temp_wsol = env_new_key env
      in
     rbind (ok_or (buy_amount_sol request) (Missing_Request_Field ''buyAmountSol'')) (\<lambda>amount_text.
     rbind (parse_decimal_units amount_text 9 ''buyAmountSol'') (\<lambda>amount_in.
     if amount_in = 0 then Inl (Zero_Amount ''buy amount'')
     else
       rbind (raydium_amm_v4_swap_sides pool wsol mint_key base_reserve quote_reserve)
         (\<lambda>(input_vault, output_vault, input_reserve, output_reserve).
       rbind (map_error Quote_Error
                (raydium_amm_v4_quote_exact_in amount_in input_reserve output_reserve
                   (ap_trade_fee_numerator pool) (ap_trade_fee_denominator pool))) (\<lambda>quoted_out.
       if quoted_out = 0 then Inl (Zero_Amount ''buy quote'')
       else
         rbind (ok_or (checked_add rent amount_in) (Overflow ''wrapped SOL funding'')) (\<lambda>funding.
         rbind (amm_v4_token_program env) (\<lambda>token_program.
         rbind (wrapped_sol_open_instructions env owner temp_wsol funding wsol token_program True)
           (\<lambda>open_ixs.
         rbind (build_raydium_amm_v4_swap_base_in_instruction env pool temp_wsol user_token_account
                  owner amount_in (apply_sell_side_slippage quoted_out slippage_bps)) (\<lambda>swap.
         Inr (ix_create_ata_idempotent (env_tokens env) owner owner mint_key (ap_mint_token_program pool)
                # open_ixs @ [swap]))))))))))"

text \<open>The sell branch: WSOL account, swap of the sized amount.\<close>

definition amm_v4_sell_instructions ::
  "venue_env \<Rightarrow> 'plan trade_runtime_request \<Rightarrow> string \<Rightarrow> amm_v4_pool \<Rightarrow> pubkey \<Rightarrow> pubkey \<Rightarrow> pubkey \<Rightarrow> u64
     \<Rightarrow> u64 \<Rightarrow> u64 \<Rightarrow> u16 \<Rightarrow> venue_error + instruction list" where
  "amm_v4_sell_instructions env request wallet_id pool owner mint_key wsol base_reserve quote_reserve
       rent slippage_bps =
     (let user_token_account =
            associated_token_address (env_tokens env) owner mint_key (ap_mint_token_program pool);
          temp_wsol = env_new_key env
      in
     rbind (ok_or (sell_intent request) (Missing_Request_Field ''sell intent'')) (\<lambda>intent.
     rbind (amm_v4_token_program env) (\<lambda>token_program.
     rbind (wrapped_sol_open_instructions env owner temp_wsol rent wsol token_program False) (\<lambda>open_ixs.
     rbind (raydium_amm_v4_swap_sides pool mint_key wsol base_reserve quote_reserve)
       (\<lambda>(input_vault, output_vault, input_reserve, output_reserve).
     rbind (env_account_data env (env_pubkey_text env mint_key) (commitment (policy request)))
       (\<lambda>mint_data.
     rbind (mint_decimals mint_data) (\<lambda>decimals.
     rbind (resolve_raydium_amm_v4_sell_input_amount env intent wallet_id (env_pubkey_text env owner)
              (request_mint request) decimals input_reserve output_reserve
              (ap_trade_fee_numerator pool) (ap_trade_fee_denominator pool)) (\<lambda>amount_in.
     rbind (map_error Quote_Error
              (raydium_amm_v4_quote_exact_in amount_in input_reserve output_reserve
                 (ap_trade_fee_numerator pool) (ap_trade_fee_denominator pool))) (\<lambda>quoted_out.
     rbind (build_raydium_amm_v4_swap_base_in_instruction env pool user_token_account temp_wsol
              owner amount_in (apply_sell_side_slippage quoted_out slippage_bps)) (\<lambda>swap.
     Inr (open_ixs @ [swap])))))))))))"

definition amm_v4_inline_tip ::
  "venue_env \<Rightarrow> runtime_execution_policy \<Rightarrow> pubkey \<Rightarrow> venue_error + (instruction \<times> u64 \<times> string) option" where
  "amm_v4_inline_tip env pol owner =
     resolve_inline_tip env (venue_key_trimmed env)
       [''EXECUTION_ENGINE_JITO_TIP_ACCOUNT'', ''JITO_TIP_ACCOUNT'']
       (\<lambda>tip. parse_decimal_units tip 9 ''tipSol'') owner (provider pol) (tip_sol pol)"

definition compile_raydium_amm_v4_trade ::
  "venue_env \<Rightarrow> lifecycle_and_canonical_market \<Rightarrow> 'plan trade_runtime_request \<Rightarrow> string
     \<Rightarrow> venue_error + compiled_adapter_trade" where
  "compile_raydium_amm_v4_trade env selector request wallet_id =
     (let pol = policy request in
     rbind (env_wallet env wallet_id) (\<lambda>owner.
     rbind (venue_key_trimmed env (request_mint request) ''Raydium AMM v4 mint'') (\<lambda>mint_key.
     rbind (pool_from_runtime_bundle env selector) (\<lambda>pool.
     rbind (validate_raydium_amm_v4_pool_for_mint env pool mint_key) (\<lambda>_.
     rbind (validate_raydium_amm_v4_token_program env pool) (\<lambda>_.
     if ap_trade_fee_denominator pool = 0
        \<or> ap_trade_fee_numerator pool \<ge> ap_trade_fee_denominator pool
     then Inl (Quote_Error Fee_Config_Invalid)
     else
       rbind (env_account_data env (env_pubkey_text env (ap_base_vault pool)) (commitment pol))
         (\<lambda>base_data.
       rbind (token_account_amount base_data) (\<lambda>base_reserve.
       rbind (env_account_data env (env_pubkey_text env (ap_quote_vault pool)) (commitment pol))
         (\<lambda>quote_data.
       rbind (token_account_amount quote_data) (\<lambda>quote_reserve.
       if base_reserve = 0 \<or> quote_reserve = 0 then Inl (Quote_Error Reserves_Empty)
       else
         rbind (parse_slippage_bps (Some (slippage_percent pol))) (\<lambda>slippage_bps.
         rbind (priority_fee_sol_to_micro_lamports (fee_sol pol)) (\<lambda>price.
         rbind (env_rent_lamports env) (\<lambda>rent.
         rbind (compute_budget_prefix env amm_v4_compute_unit_limit price) (\<lambda>budget.
         rbind (amm_v4_wsol env) (\<lambda>wsol.
         rbind (case request_side request of
                  Buy \<Rightarrow> amm_v4_buy_instructions env request pool owner mint_key wsol base_reserve
                           quote_reserve rent slippage_bps
                | Sell \<Rightarrow> amm_v4_sell_instructions env request wallet_id pool owner mint_key wsol
                            base_reserve quote_reserve rent slippage_bps) (\<lambda>trade.
         rbind (amm_v4_token_program env) (\<lambda>token_program.
         rbind (wrapped_sol_close_instruction env token_program owner (env_new_key env)) (\<lambda>close.
         rbind (finish_transaction env (amm_v4_inline_tip env pol owner) pol owner [env_new_key env]
                  (budget @ trade @ [close])
                  (case request_side request of Buy \<Rightarrow> ''raydium-amm-v4-buy''
                   | Sell \<Rightarrow> ''raydium-amm-v4-sell'')
                  amm_v4_compute_unit_limit price) (\<lambda>transaction.
         Inr \<lparr>cat_transactions = [transaction], cat_primary_tx_index = 0,
              cat_dependency_mode = Independent, cat_entry_preference_asset = None\<rparr>)))))))))))))))))))"

section \<open>What a quote is\<close>

definition amm_v4_after_fee :: "u64 \<Rightarrow> u64 \<Rightarrow> u64 \<Rightarrow> nat" where
  "amm_v4_after_fee amount_in fee_numerator fee_denominator =
     unat amount_in * (unat fee_denominator - unat fee_numerator) div unat fee_denominator"

lemma after_fee_le: "amm_v4_after_fee a n d \<le> unat a"
proof (cases "unat d = 0")
  case False
  have "unat a * (unat d - unat n) div unat d \<le> unat a * unat d div unat d"
    by (intro div_le_mono mult_le_mono2) simp
  with False show ?thesis by (simp add: amm_v4_after_fee_def)
qed (simp add: amm_v4_after_fee_def)

lemma amm_v4_quote_value:
  assumes "raydium_amm_v4_quote_exact_in a ri ro n d = Inr x" "a \<noteq> 0"
  shows "ri \<noteq> 0 \<and> ro \<noteq> 0 \<and> n < d \<and> unat x = cp_out (unat ri) (unat ro) (amm_v4_after_fee a n d)"
proof -
  let ?af = "(ucast a :: u128) * ucast (sat_sub d n) div ucast d"
  have ok: "ri \<noteq> 0" "ro \<noteq> 0" "n < d"
    using assms by (auto simp: raydium_amm_v4_quote_exact_in_def split: if_splits)
  have nofee: "d \<noteq> 0" "\<not> d \<le> n" using ok(3) by auto
  have "unat d - unat n < 2 ^ 64" by (rule le_less_trans [OF diff_le_self]) simp
  then have "unat a * (unat d - unat n) < 2 ^ 64 * 2 ^ 64"
    using unat_less_pow [of a] by (intro mult_strict_mono') auto
  then have af: "unat ?af = amm_v4_after_fee a n d"
    by (simp add: unat_div unat_word_ariths unat_ucast_128 unat_sat_sub amm_v4_after_fee_def)
  have af_less: "amm_v4_after_fee a n d < 2 ^ 64"
    by (rule le_less_trans [OF after_fee_le]) simp
  then have "amm_v4_after_fee a n d * unat ro < 2 ^ 64 * 2 ^ 64"
    using unat_less_pow [of ro] by (intro mult_strict_mono') auto
  then have num: "unat (sat_mul ?af (ucast ro)) = amm_v4_after_fee a n d * unat ro"
    by (simp add: unat_sat_mul af unat_ucast_128)
  have sum: "unat ri + amm_v4_after_fee a n d < 2 ^ 64 + 2 ^ 64"
    using af_less unat_less_pow [of ri] by (intro add_strict_mono) auto
  then have den: "unat (sat_add (ucast ri) ?af) = unat ri + amm_v4_after_fee a n d"
    by (simp add: unat_sat_add af unat_ucast_128)
  have den0: "sat_add (ucast ri) ?af \<noteq> 0"
    using den ok(1) by (simp add: unat_eq_iff)
  have le: "cp_out (unat ri) (unat ro) (amm_v4_after_fee a n d) \<le> 2 ^ 64 - 1"
    by (rule le_trans [OF cp_out_le]) simp
  have "unat (min (sat_mul ?af (ucast ro) div sat_add (ucast ri) ?af) (ucast (max_word :: u64)))
      = cp_out (unat ri) (unat ro) (amm_v4_after_fee a n d)"
    using le unfolding unat_min unat_div num den by (simp add: cp_out_def unat_ucast_128 unat_max_word)
  moreover have "x = ucast (min (sat_mul ?af (ucast ro) div sat_add (ucast ri) ?af) (ucast (max_word :: u64)))"
    using assms ok den0 nofee
    by (simp add: raydium_amm_v4_quote_exact_in_def Let_def)
  ultimately have "unat x = cp_out (unat ri) (unat ro) (amm_v4_after_fee a n d)"
    using le by (simp add: unsigned_ucast_eq take_bit_nat_eq_self)
  with ok show ?thesis by blast
qed

lemma amm_v4_quote_eval:
  assumes "0 < unat a" "0 < unat ri" "0 < unat ro" "unat n < unat d"
  shows "raydium_amm_v4_quote_exact_in a ri ro n d
           = Inr (of_nat (cp_out (unat ri) (unat ro) (amm_v4_after_fee a n d)))"
proof -
  have nz: "a \<noteq> 0" "ri \<noteq> 0" "ro \<noteq> 0" "d \<noteq> 0" "\<not> d \<le> n"
    using assms by (auto simp: word_le_nat_alt)
  then have "raydium_amm_v4_quote_exact_in a ri ro n d \<noteq> Inl e" for e
    by (auto simp: raydium_amm_v4_quote_exact_in_def Let_def split: if_splits)
  then obtain x where x: "raydium_amm_v4_quote_exact_in a ri ro n d = Inr x"
    by (meson sum.exhaust)
  have "unat x = cp_out (unat ri) (unat ro) (amm_v4_after_fee a n d)"
    using amm_v4_quote_value [OF x nz(1)] by simp
  then show ?thesis using x by (metis word_of_nat_unat)
qed

lemma amm_v4_quote_nothing [simp]: "raydium_amm_v4_quote_exact_in 0 ri ro n d = Inr 0"
  by (simp add: raydium_amm_v4_quote_exact_in_def)

interpretation amm4: pool_quote "\<lambda>a. raydium_amm_v4_quote_exact_in a ri ro n d" ro for ri ro n d
proof unfold_locales
  fix a b x y
  assume q: "raydium_amm_v4_quote_exact_in a ri ro n d = Inr x"
    "raydium_amm_v4_quote_exact_in b ri ro n d = Inr y" "a \<le> b"
  show "x \<le> y"
  proof (cases "a = 0")
    case True
    then show ?thesis using q(1) by simp
  next
    case False
    then have "b \<noteq> 0" using q(3) by auto
    have "amm_v4_after_fee a n d \<le> amm_v4_after_fee b n d"
      using q(3) by (auto simp: amm_v4_after_fee_def word_le_nat_alt intro!: div_le_mono)
    then show ?thesis
      using amm_v4_quote_value [OF q(1) False] amm_v4_quote_value [OF q(2) \<open>b \<noteq> 0\<close>]
      by (simp add: word_le_nat_alt cp_out_mono)
  qed
next
  show "raydium_amm_v4_quote_exact_in 0 ri ro n d = Inr 0" by simp
next
  fix a x
  assume q: "raydium_amm_v4_quote_exact_in a ri ro n d = Inr x"
  show "x \<le> ro"
  proof (cases "a = 0")
    case False
    with amm_v4_quote_value [OF q False] show ?thesis
      by (simp add: word_le_nat_alt cp_out_le)
  qed (use q in simp)
qed

text \<open>
  A swap quoted by the Raydium AMM v4 formula never takes the whole reserve it buys from,
  and after the whole amount has been paid in the product of the reserves is at least what it
  was, whatever the pool's fee.
\<close>

theorem amm_v4_quote_keeps_product:
  assumes "raydium_amm_v4_quote_exact_in a ri ro n d = Inr x" "0 < ro"
  shows "x < ro \<and> unat ri * unat ro \<le> (unat ri + unat a) * (unat ro - unat x)"
proof (cases "a = 0")
  case True
  then show ?thesis using assms by simp
next
  case False
  note v = amm_v4_quote_value [OF assms(1) False]
  have "unat ri * unat ro \<le> (unat ri + amm_v4_after_fee a n d) * (unat ro - unat x)"
    using v cp_out_keeps_product by simp
  also have "\<dots> \<le> (unat ri + unat a) * (unat ro - unat x)"
    by (intro mult_right_mono add_left_mono after_fee_le) simp
  finally have "unat ri * unat ro \<le> (unat ri + unat a) * (unat ro - unat x)" .
  moreover have "x < ro"
    using v by (simp add: word_less_nat_alt cp_out_less unat_pos_iff)
  ultimately show ?thesis by simp
qed

theorem amm_v4_quote_keeps_product_witness:
  "raydium_amm_v4_quote_exact_in 1000 50000 40000 25 10000 = Inr 782 \<and> 782 < (40000 :: u64)"
proof -
  have q: "raydium_amm_v4_quote_exact_in 1000 50000 40000 25 10000 = Inr 782"
    by (subst amm_v4_quote_eval) (simp_all add: cp_out_def amm_v4_after_fee_def)
  from amm_v4_quote_keeps_product [OF q] q show ?thesis by simp
qed

text \<open>
  The amount a sell of an AMM v4 pool is resolved to is positive and within the wallet's
  balance; a percentage gives its share of the balance, rounded down, and a wanted SOL output the
  smallest amount whose quote, after the wrapper fee, reaches it.
\<close>

theorem amm_v4_sell_amount:
  assumes "resolve_raydium_amm_v4_sell_input_amount env intent wallet_id owner m decimals ri ro n d = Inr amount"
  shows "\<exists>balance. env_token_balance env wallet_id owner m decimals = Inr balance
     \<and> 0 < amount \<and> amount \<le> balance
     \<and> (case intent of
          Sell_Percent v \<Rightarrow> \<exists>bps. parse_percent_to_bps v = Inr bps
            \<and> unat amount = unat balance * unat bps div 10000
        | Sell_Sol_Output v \<Rightarrow> \<exists>target. parse_decimal_units v 9 ''sellOutputSol'' = Inr target
            \<and> (\<exists>q. amm_v4_net_quote env ri ro n d amount = Inr q \<and> target \<le> q)
            \<and> (\<forall>b q. 0 < b \<longrightarrow> b < amount \<longrightarrow> amm_v4_net_quote env ri ro n d b = Inr q \<longrightarrow> q < target))"
proof -
  obtain balance where b: "env_token_balance env wallet_id owner m decimals = Inr balance"
    and pos: "0 < amount" "amount \<le> balance"
    and intent: "(case intent of
        Sell_Percent value \<Rightarrow>
          rbind (parse_percent_to_bps value) (\<lambda>bps. Inr (percent_of_balance balance bps))
      | Sell_Sol_Output value \<Rightarrow>
          rbind (parse_decimal_units value 9 ''sellOutputSol'') (\<lambda>desired_output.
          sized_sell_amount balance desired_output (amm_v4_net_quote env ri ro n d))) = Inr amount"
    using assms
    by (auto simp: resolve_raydium_amm_v4_sell_input_amount_def word_gt_0 split: if_splits)
  show ?thesis
  proof (cases intent)
    case (Sell_Percent v)
    then obtain bps where "parse_percent_to_bps v = Inr bps" "amount = percent_of_balance balance bps"
      using intent by auto
    then show ?thesis
      using b pos Sell_Percent percent_value(1) [OF percent_at_most_all] by auto
  next
    case (Sell_Sol_Output v)
    then obtain target where t: "parse_decimal_units v 9 ''sellOutputSol'' = Inr target"
      "sized_sell_amount balance target (amm_v4_net_quote env ri ro n d) = Inr amount"
      using intent by auto
    show ?thesis
      using amm4.sized_sell_least [OF t(2) [unfolded amm_v4_net_quote_def]] b pos t(1) Sell_Sol_Output
      by (simp add: amm_v4_net_quote_def)
  qed
qed

theorem amm_v4_sell_amount_witness:
  "resolve_raydium_amm_v4_sell_input_amount sample_venue_env (Sell_Percent ''50'') [] [] [] 6 0 0 0 0 = Inr 2500
   \<and> (2500 :: u64) \<le> 5000"
proof -
  have r: "resolve_raydium_amm_v4_sell_input_amount sample_venue_env (Sell_Percent ''50'') [] [] [] 6 0 0 0 0 = Inr 2500"
    by (simp add: resolve_raydium_amm_v4_sell_input_amount_def sample_venue_env_def sample_parses sample_half)
  from amm_v4_sell_amount [OF r] r show ?thesis by (auto simp: sample_venue_env_def)
qed

section \<open>Planned pools\<close>

definition amm_v4_pool_ok :: "venue_env \<Rightarrow> amm_v4_pool \<Rightarrow> pubkey \<Rightarrow> bool" where
  "amm_v4_pool_ok env pool mint_key \<longleftrightarrow>
     (\<exists>wsol openbook token_program.
        amm_v4_wsol env = Inr wsol \<and> mint_key \<noteq> wsol
        \<and> {ap_base_mint pool, ap_quote_mint pool} = {mint_key, wsol}
        \<and> venue_key_trimmed env ''srmqPvymJeFKQ4zGQed1GFppgkRHL9kaELCbyksJtPX''
            ''Raydium AMM v4 OpenBook market program'' = Inr openbook
        \<and> ap_market_program pool = openbook
        \<and> amm_v4_token_program env = Inr token_program \<and> ap_mint_token_program pool = token_program
        \<and> default_pubkey \<notin> {ap_base_vault pool, ap_quote_vault pool}
        \<and> default_pubkey \<notin> snd ` set (amm_v4_market_accounts pool))"

lemma market_accounts_valid:
  "validate_raydium_amm_v4_market_accounts pool = Inr () \<longleftrightarrow>
     default_pubkey \<notin> snd ` set (amm_v4_market_accounts pool)"
proof (cases "find (\<lambda>(_, account). account = default_pubkey) (amm_v4_market_accounts pool)")
  case None
  then have "\<forall>p \<in> set (amm_v4_market_accounts pool). snd p \<noteq> default_pubkey"
    by (auto simp: find_None_iff)
  with None show ?thesis
    by (auto simp: validate_raydium_amm_v4_market_accounts_def)
next
  case (Some p)
  then have "p \<in> set (amm_v4_market_accounts pool)" "snd p = default_pubkey"
    by (auto simp: find_Some_iff) (metis nth_mem)
  then have "default_pubkey \<in> snd ` set (amm_v4_market_accounts pool)" by force
  with Some show ?thesis
    by (simp add: validate_raydium_amm_v4_market_accounts_def split: prod.split)
qed

lemma pool_for_mint_valid:
  "validate_raydium_amm_v4_pool_for_mint env pool mint_key = Inr () \<longleftrightarrow>
     (\<exists>wsol. amm_v4_wsol env = Inr wsol \<and> mint_key \<noteq> wsol
        \<and> {ap_base_mint pool, ap_quote_mint pool} = {mint_key, wsol})
     \<and> default_pubkey \<notin> {ap_base_vault pool, ap_quote_vault pool}"
  by (cases "amm_v4_wsol env")
    (auto simp: validate_raydium_amm_v4_pool_for_mint_def raydium_amm_v4_pool_token_mint_def
      doubleton_eq_iff)

lemma enriched_pool_ok:
  assumes "enrich_raydium_amm_v4_pool_state env pool mint_key c = Inr pool'"
  shows "amm_v4_pool_ok env pool' mint_key"
proof -
  have v: "validate_raydium_amm_v4_pool_for_mint env pool mint_key = Inr ()"
    "validate_raydium_amm_v4_market_program env pool = Inr ()"
    "validate_raydium_amm_v4_token_program env pool' = Inr ()"
    "validate_raydium_amm_v4_market_accounts pool' = Inr ()"
    and same: "ap_base_mint pool' = ap_base_mint pool" "ap_quote_mint pool' = ap_quote_mint pool"
    "ap_base_vault pool' = ap_base_vault pool" "ap_quote_vault pool' = ap_quote_vault pool"
    "ap_market_program pool' = ap_market_program pool"
    using assms
    by (auto simp: enrich_raydium_amm_v4_pool_state_def Let_def split: if_splits)
  have "\<exists>wsol. amm_v4_wsol env = Inr wsol \<and> mint_key \<noteq> wsol
        \<and> {ap_base_mint pool', ap_quote_mint pool'} = {mint_key, wsol}"
    and "default_pubkey \<notin> {ap_base_vault pool', ap_quote_vault pool'}"
    using v(1) unfolding pool_for_mint_valid same by blast+
  moreover have "\<exists>openbook. venue_key_trimmed env ''srmqPvymJeFKQ4zGQed1GFppgkRHL9kaELCbyksJtPX''
            ''Raydium AMM v4 OpenBook market program'' = Inr openbook \<and> ap_market_program pool' = openbook"
    using v(2) same(5)
    by (auto simp: validate_raydium_amm_v4_market_program_def split: if_splits)
  moreover have "\<exists>tp. amm_v4_token_program env = Inr tp \<and> ap_mint_token_program pool' = tp"
    using v(3) by (auto simp: validate_raydium_amm_v4_token_program_def split: if_splits)
  ultimately show ?thesis
    using v(4) unfolding market_accounts_valid amm_v4_pool_ok_def by blast
qed

lemma bundle_roundtrip:
  assumes "\<And>k. pubkey_from_str (env_sdk env) (str_trim (env_pubkey_text env k)) = Some k"
  shows "pool_of_amm_v4_bundle env (amm_v4_bundle env pool) = Inr pool"
  by (simp add: pool_of_amm_v4_bundle_def amm_v4_bundle_def venue_key_trimmed_def venue_key_def assms)


text \<open>A pool, its market and its mint as a node would return them.\<close>

definition sample_amm_v4_pool_data :: bytes where
  "sample_amm_v4_pool_data =
     u64_to_le_bytes 6 @ replicate 136 0 @ u64_to_le_bytes 25 @ u64_to_le_bytes 10000
     @ replicate 176 0 @ sample_key 30 @ sample_key 31 @ sample_key 32 @ wsol_mint_id
     @ replicate 32 0 @ sample_key 33 @ sample_key 34 @ sample_key 3 @ sample_key 35
     @ replicate 128 0"

definition sample_amm_v4_market_data :: bytes where
  "sample_amm_v4_market_data =
     replicate 45 0 @ u64_to_le_bytes 1 @ sample_key 32 @ wsol_mint_id @ sample_key 36
     @ replicate 16 0 @ sample_key 37 @ replicate 56 0 @ sample_key 38 @ sample_key 39
     @ sample_key 40 @ replicate 39 0"

definition sample_amm_v4_env :: venue_env where
  "sample_amm_v4_env =
     sample_venue_env\<lparr>env_account := \<lambda>address _. Inr
       (if address = sample_key_text (sample_key 41) then Some (sample_key 1, sample_amm_v4_pool_data)
        else if address = sample_key_text (sample_key 34) then Some (sample_key 3, sample_amm_v4_market_data)
        else if address = sample_key_text (sample_key 32) then Some (sample_key 4, sample_mint_account)
        else None),
      env_account_data := \<lambda>address _.
        if address = sample_key_text (sample_key 30) then Inr (sample_token_account 40000000000)
        else if address = sample_key_text (sample_key 31) then Inr (sample_token_account 30000000000)
        else Inr sample_mint_account\<rparr>"

definition sample_amm_v4_pool :: amm_v4_pool where
  "sample_amm_v4_pool =
     \<lparr>ap_pubkey = sample_key 41, ap_authority = sample_key 2, ap_base_mint = sample_key 32,
      ap_quote_mint = wsol_mint_id, ap_base_vault = sample_key 30, ap_quote_vault = sample_key 31,
      ap_open_orders = sample_key 33, ap_target_orders = sample_key 35,
      ap_market_program = sample_key 3, ap_market = sample_key 34, ap_market_bids = sample_key 39,
      ap_market_asks = sample_key 40, ap_market_event_queue = sample_key 38,
      ap_market_base_vault = sample_key 36, ap_market_quote_vault = sample_key 37,
      ap_market_vault_signer = sample_key 15, ap_mint_token_program = sample_key 4,
      ap_trade_fee_numerator = 25, ap_trade_fee_denominator = 10000\<rparr>"

lemma sample_amm_v4_env_fields [simp]:
  "env_sdk sample_amm_v4_env = env_sdk sample_venue_env"
  "env_pubkey_text sample_amm_v4_env = env_pubkey_text sample_venue_env"
  "venue_key sample_amm_v4_env = venue_key sample_venue_env"
  "venue_key_trimmed sample_amm_v4_env = venue_key_trimmed sample_venue_env"
  by (simp_all add: sample_amm_v4_env_def venue_key_def venue_key_trimmed_def fun_eq_iff)

lemma sample_amm_v4_constants [simp]:
  "amm_v4_wsol sample_amm_v4_env = Inr wsol_mint_id"
  "amm_v4_token_program sample_amm_v4_env = Inr (sample_key 4)"
  "amm_v4_program_id sample_amm_v4_env = Inr (sample_key 1)"
  by (simp_all add: amm_v4_wsol_def amm_v4_token_program_def amm_v4_program_id_def
      amm_v4_program_text_def sample_known_trimmed)

lemma sample_amm_v4_decoded:
  "decode_raydium_amm_v4_pool_state sample_amm_v4_env (sample_key 41) sample_amm_v4_pool_data
     = Inr (sample_amm_v4_pool\<lparr>ap_market_bids := default_pubkey, ap_market_asks := default_pubkey,
              ap_market_event_queue := default_pubkey, ap_market_base_vault := default_pubkey,
              ap_market_quote_vault := default_pubkey, ap_market_vault_signer := default_pubkey,
              ap_mint_token_program := default_pubkey\<rparr>)"
  by (simp add: decode_raydium_amm_v4_pool_state_def sample_amm_v4_pool_data_def slice_eval
      sample_known_trimmed sample_amm_v4_pool_def)

lemma sample_amm_v4_enriched:
  "enrich_raydium_amm_v4_pool_state sample_amm_v4_env
     (sample_amm_v4_pool\<lparr>ap_market_bids := default_pubkey, ap_market_asks := default_pubkey,
        ap_market_event_queue := default_pubkey, ap_market_base_vault := default_pubkey,
        ap_market_quote_vault := default_pubkey, ap_market_vault_signer := default_pubkey,
        ap_mint_token_program := default_pubkey\<rparr>) (sample_key 32) c = Inr sample_amm_v4_pool"
proof -
  let ?pool = "sample_amm_v4_pool\<lparr>ap_market_bids := default_pubkey, ap_market_asks := default_pubkey,
        ap_market_event_queue := default_pubkey, ap_market_base_vault := default_pubkey,
        ap_market_quote_vault := default_pubkey, ap_market_vault_signer := default_pubkey,
        ap_mint_token_program := default_pubkey\<rparr>"
  have "validate_raydium_amm_v4_pool_for_mint sample_amm_v4_env ?pool (sample_key 32) = Inr ()"
    by (simp add: validate_raydium_amm_v4_pool_for_mint_def raydium_amm_v4_pool_token_mint_def
        sample_amm_v4_pool_def)
  moreover have "validate_raydium_amm_v4_market_program sample_amm_v4_env ?pool = Inr ()"
    by (simp add: validate_raydium_amm_v4_market_program_def sample_known_trimmed sample_amm_v4_pool_def)
  moreover have "validate_raydium_amm_v4_market_mints ?pool sample_amm_v4_market_data = Inr ()"
    by (simp add: validate_raydium_amm_v4_market_mints_def sample_amm_v4_market_data_def slice_eval
        sample_amm_v4_pool_def)
  moreover have
    "venue_pubkey_at sample_amm_v4_market_data 285 l = Inr (sample_key 39)"
    "venue_pubkey_at sample_amm_v4_market_data 317 l = Inr (sample_key 40)"
    "venue_pubkey_at sample_amm_v4_market_data 253 l = Inr (sample_key 38)"
    "venue_pubkey_at sample_amm_v4_market_data 117 l = Inr (sample_key 36)"
    "venue_pubkey_at sample_amm_v4_market_data 165 l = Inr (sample_key 37)"
    "word_at sample_amm_v4_market_data 45 l = Inr 1" for l
    by (simp_all add: sample_amm_v4_market_data_def slice_eval)
  moreover have "env_account sample_amm_v4_env (sample_key_text (sample_key 34)) c
      = Inr (Some (sample_key 3, sample_amm_v4_market_data))"
    "fetch_mint_token_program sample_amm_v4_env (sample_key 32) c = Inr (sample_key 4)"
    "env_create_program_address sample_amm_v4_env bs k = Some (sample_key 15)" for bs k
    by (simp_all add: fetch_mint_token_program_def sample_amm_v4_env_def [THEN arg_cong [of _ _ env_account]]
        sample_amm_v4_env_def [THEN arg_cong [of _ _ env_create_program_address]]
        sample_venue_env_def [THEN arg_cong [of _ _ env_create_program_address]])
  moreover have "validate_raydium_amm_v4_token_program sample_amm_v4_env sample_amm_v4_pool = Inr ()"
    by (simp add: validate_raydium_amm_v4_token_program_def sample_amm_v4_pool_def)
  moreover have "validate_raydium_amm_v4_market_accounts sample_amm_v4_pool = Inr ()"
    by (simp add: validate_raydium_amm_v4_market_accounts_def amm_v4_market_accounts_def
        sample_amm_v4_pool_def)
  ultimately show ?thesis
    unfolding enrich_raydium_amm_v4_pool_state_def
    by (simp add: Let_def sample_amm_v4_pool_def)
qed


section \<open>Compiled trades\<close>

definition vault_holds :: "venue_env \<Rightarrow> string \<Rightarrow> pubkey \<Rightarrow> u64 \<Rightarrow> bool" where
  "vault_holds env commitment_level vault amount \<longleftrightarrow>
     (\<exists>data. env_account_data env (env_pubkey_text env vault) commitment_level = Inr data
        \<and> token_account_amount data = Inr amount)"



lemma sample_amm_v4_selector_pool:
  "pool_from_runtime_bundle sample_amm_v4_env
     (build_raydium_amm_v4_selector sample_amm_v4_env request sample_amm_v4_pool) = Inr sample_amm_v4_pool"
proof -
  have "pubkey_from_str (env_sdk sample_amm_v4_env)
      (str_trim (env_pubkey_text sample_amm_v4_env k)) = Some k" for k
    by simp
  then show ?thesis
    by (simp add: pool_from_runtime_bundle_def build_raydium_amm_v4_selector_def bundle_roundtrip)
qed

lemma sample_amm_v4_environment [simp]:
  "env_wallet sample_amm_v4_env w = Inr (sample_key 20)"
  "env_rent_lamports sample_amm_v4_env = Inr 2039280"
  "env_var sample_amm_v4_env = (\<lambda>_. None)"
  "env_sign sample_amm_v4_env = env_sign sample_venue_env"
  "env_tokens sample_amm_v4_env = sample_tokens"
  "env_new_key sample_amm_v4_env = sample_key 21"
  "env_account_data sample_amm_v4_env (sample_key_text (sample_key 30)) c
     = Inr (sample_token_account 40000000000)"
  "env_account_data sample_amm_v4_env (sample_key_text (sample_key 31)) c
     = Inr (sample_token_account 30000000000)"
  by (simp_all add: sample_amm_v4_env_def sample_venue_env_def)

lemma sample_amm_v4_pool_fields:
  "ap_base_mint sample_amm_v4_pool = sample_key 32" "ap_quote_mint sample_amm_v4_pool = wsol_mint_id"
  "ap_base_vault sample_amm_v4_pool = sample_key 30" "ap_quote_vault sample_amm_v4_pool = sample_key 31"
  "ap_mint_token_program sample_amm_v4_pool = sample_key 4"
  "ap_trade_fee_numerator sample_amm_v4_pool = 25" "ap_trade_fee_denominator sample_amm_v4_pool = 10000"
  by (simp_all add: sample_amm_v4_pool_def)

lemma sample_amm_v4_buy_quote:
  "raydium_amm_v4_quote_exact_in 500000000 30000000000 40000000000 25 10000 = Inr 654125169"
  by (subst amm_v4_quote_eval) (simp_all add: cp_out_def amm_v4_after_fee_def)

lemma sample_amm_v4_buys:
  "\<exists>trade. compile_raydium_amm_v4_trade sample_amm_v4_env
     (build_raydium_amm_v4_selector sample_amm_v4_env request sample_amm_v4_pool)
     (sample_trade_request Buy (sample_key 32)) w = Inr trade"
proof -
  let ?env = "sample_amm_v4_env"
  let ?request = "sample_trade_request Buy (sample_key 32)"
  have pol: "provider sample_policy = ''standard-rpc''" "slippage_percent sample_policy = ''20''"
    "fee_sol sample_policy = []"
    by (simp_all add: sample_policy_def)
  have mint: "venue_key_trimmed ?env (request_mint ?request) l = Inr (sample_key 32)" for l
    by (simp add: sample_trade_request_def venue_key_trimmed_def venue_key_def)
  have valid: "validate_raydium_amm_v4_pool_for_mint ?env sample_amm_v4_pool (sample_key 32) = Inr ()"
    "validate_raydium_amm_v4_token_program ?env sample_amm_v4_pool = Inr ()"
    by (simp_all add: validate_raydium_amm_v4_pool_for_mint_def raydium_amm_v4_pool_token_mint_def
        validate_raydium_amm_v4_token_program_def sample_amm_v4_pool_fields)
  have budget: "\<exists>b. compute_budget_prefix ?env l 0 = Inr b" for l
    by (simp add: compute_budget_prefix_def compute_unit_limit_instruction_def compute_budget_program_def
        sample_known)
  have side: "raydium_amm_v4_swap_sides sample_amm_v4_pool wsol_mint_id (sample_key 32) b q
      = Inr (sample_key 31, sample_key 30, q, b)" for b q
    by (simp add: raydium_amm_v4_swap_sides_def sample_amm_v4_pool_fields)
  have "\<exists>ixs. amm_v4_buy_instructions ?env ?request sample_amm_v4_pool (sample_key 20) (sample_key 32)
      wsol_mint_id 40000000000 30000000000 2039280 s = Inr ixs" for s
    by (simp add: amm_v4_buy_instructions_def Let_def side sample_parses sample_trade_request_def
        sample_amm_v4_pool_fields sample_amm_v4_buy_quote checked_add_def wrapped_sol_open_instructions_def
        build_raydium_amm_v4_swap_base_in_instruction_def sample_tokens_def map_error_def)
  moreover have "\<exists>c. wrapped_sol_close_instruction ?env tp o' k = Inr c" for tp o' k
    by (simp add: wrapped_sol_close_instruction_def sample_tokens_def)
  moreover have "\<exists>t. finish_transaction ?env (Inr None) sample_policy owner extra ixs label limit price
      = Inr t" for owner extra ixs label limit price
    by (rule sample_finish) (simp_all add: pol)
  moreover have "amm_v4_inline_tip ?env sample_policy owner = Inr None" for owner
    by (simp add: amm_v4_inline_tip_def pol sample_no_tip)
  moreover have "policy ?request = sample_policy" "request_side ?request = Buy"
    by (simp_all add: sample_trade_request_def)
  ultimately show ?thesis
    using budget valid mint pol
    unfolding compile_raydium_amm_v4_trade_def
    by (simp add: Let_def sample_amm_v4_selector_pool sample_parses sample_amm_v4_pool_fields) metis
qed


text \<open>
  A sale of next to nothing is compiled: the buy refuses a quote of zero tokens, the sell does
  not, and the swap then asks for no SOL at all.
\<close>

lemma amm_v4_dust_sale_asks_for_nothing:
  "\<exists>open_ixs swap. amm_v4_sell_instructions sample_amm_v4_env (sample_trade_request Sell (sample_key 32)) w
       sample_amm_v4_pool owner (sample_key 32) wsol_mint_id 40000000000 3000000 rent slippage
     = Inr (open_ixs @ [swap]) \<and> ix_bytes swap = 9 # u64_to_le_bytes 2500 @ u64_to_le_bytes 0"
proof -
  have q: "raydium_amm_v4_quote_exact_in 2500 40000000000 3000000 25 10000 = Inr 0"
    by (subst amm_v4_quote_eval) (simp_all add: cp_out_def amm_v4_after_fee_def)
  have z: "apply_sell_side_slippage 0 slippage = 0" using slippage_bounds(2) by blast
  have r: "resolve_raydium_amm_v4_sell_input_amount sample_amm_v4_env (Sell_Percent ''50'') w o' m 6
      a b c d = Inr 2500" for o' m a b c d
    by (simp add: resolve_raydium_amm_v4_sell_input_amount_def sample_parses sample_half
        sample_amm_v4_env_def sample_venue_env_def)
  have "env_account_data sample_amm_v4_env (sample_key_text (sample_key 32)) c = Inr sample_mint_account" for c
    by (simp add: sample_amm_v4_env_def)
  then show ?thesis
    by (simp add: amm_v4_sell_instructions_def Let_def sample_trade_request_def raydium_amm_v4_swap_sides_def
        sample_amm_v4_pool_fields r q z wrapped_sol_open_instructions_def sample_tokens_def
        build_raydium_amm_v4_swap_base_in_instruction_def)
qed

section \<open>Cached quotes\<close>

text \<open>
  The cache a run of queries leaves, with the snapshots its queries fetched: key, time and pool.
  The chain may have changed between two queries, so each has its own environment.
\<close>

inductive amm_v4_cache_reached ::
  "(string \<times> nat \<times> amm_v4_snapshot) set \<Rightarrow> amm_v4_snapshot quote_cache \<Rightarrow> bool" where
  start: "amm_v4_cache_reached {} []"
| query: "amm_v4_cache_reached H cache \<Longrightarrow>
     quote_raydium_amm_v4_holding_value_sol_with_cache env rpc_url now fetched_at stored_at selector
       mint_text amount c use_cache cache = (result, cache') \<Longrightarrow>
     amm_v4_cache_reached
       (H \<union> {(quote_snapshot_key rpc_url selector mint_text c, fetched_at, s) | s mint_key.
               venue_key_trimmed env mint_text ''Raydium AMM v4 quote mint'' = Inr mint_key
               \<and> fetch_amm_v4_snapshot env selector mint_key c = Inr s}) cache'"

lemma amm_v4_query_step:
  assumes "cache_from (\<lambda>k t s. (k, t, s) \<in> H) cache"
    and "quote_raydium_amm_v4_holding_value_sol_with_cache env rpc_url now fetched_at stored_at selector
       mint_text amount c use_cache cache = (result, cache')"
  defines "H' \<equiv> H \<union> {(quote_snapshot_key rpc_url selector mint_text c, fetched_at, s) | s mint_key.
               venue_key_trimmed env mint_text ''Raydium AMM v4 quote mint'' = Inr mint_key
               \<and> fetch_amm_v4_snapshot env selector mint_key c = Inr s}"
  shows "cache_from (\<lambda>k t s. (k, t, s) \<in> H') cache'"
proof -
  have more: "cache_from (\<lambda>k t s. (k, t, s) \<in> H') cache"
    using assms(1) by (auto simp: cache_from_def H'_def)
  show ?thesis
  proof (cases "amount = 0 \<or> (\<exists>e. venue_key_trimmed env mint_text ''Raydium AMM v4 quote mint'' = Inl e)")
    case True
    then have "cache' = cache"
      using assms(2)
      by (auto simp: quote_raydium_amm_v4_holding_value_sol_with_cache_def split: if_splits)
    with more show ?thesis by simp
  next
    case False
    then obtain mint_key where m: "venue_key_trimmed env mint_text ''Raydium AMM v4 quote mint'' = Inr mint_key"
      by (cases "venue_key_trimmed env mint_text ''Raydium AMM v4 quote mint''") auto
    have q: "quote_with_cache use_cache now fetched_at stored_at (quote_snapshot_ttl selector)
              (quote_snapshot_key rpc_url selector mint_text c)
              (\<lambda>_. fetch_amm_v4_snapshot env selector mint_key c)
              (\<lambda>snapshot. quote_raydium_amm_v4_snapshot env snapshot mint_key amount) cache = (result, cache')"
      using assms(2) False m by (simp add: quote_raydium_amm_v4_holding_value_sol_with_cache_def)
    show ?thesis
      by (rule quote_with_cache_keeps [OF more _ q]) (use m in \<open>auto simp: H'_def\<close>)
  qed
qed

lemma amm_v4_cache_invariant:
  "amm_v4_cache_reached H cache \<Longrightarrow> cache_from (\<lambda>k t s. (k, t, s) \<in> H) cache"
proof (induction rule: amm_v4_cache_reached.induct)
  case start
  show ?case by (simp add: cache_from_def)
next
  case (query H cache)
  then show ?case by (intro amm_v4_query_step)
qed


lemma sample_amm_v4_pool_valid:
  "validate_raydium_amm_v4_pool_for_mint sample_amm_v4_env sample_amm_v4_pool (sample_key 32) = Inr ()"
  by (simp add: validate_raydium_amm_v4_pool_for_mint_def raydium_amm_v4_pool_token_mint_def
      sample_amm_v4_pool_fields)


end
