(* ===== verification/Raydium_Cpmm.thy ===== *)
theory Raydium_Cpmm
  imports Venue_Samples
begin

text \<open>
  The Raydium CPMM venue (\<^verbatim>\<open>execution-engine/src/raydium_cpmm_native.rs\<close>): pools, their
  configuration and live reserves, quotes, selectors and the compilation of a buy or sell. The
  venue has its own readers of numbers and percentages, the latter over floating point.
\<close>

section \<open>Pools\<close>

record cpmm_pool_state =
  cp_pool_id :: pubkey
  cp_config_id :: pubkey
  cp_vault_a :: pubkey
  cp_vault_b :: pubkey
  cp_token_0_mint :: pubkey
  cp_token_1_mint :: pubkey
  cp_token_0_program :: pubkey
  cp_token_1_program :: pubkey
  cp_observation_id :: pubkey
  cp_mint_decimals_a :: u8
  cp_mint_decimals_b :: u8
  cp_protocol_fees_mint_a :: u64
  cp_protocol_fees_mint_b :: u64
  cp_fund_fees_mint_a :: u64
  cp_fund_fees_mint_b :: u64
  cp_enable_creator_fee :: bool
  cp_creator_fees_mint_a :: u64
  cp_creator_fees_mint_b :: u64

record cpmm_config =
  cc_trade_fee_rate :: u64
  cc_creator_fee_rate :: u64

record cpmm_context =
  cx_pool :: cpmm_pool_state
  cx_config :: cpmm_config
  cx_reserve_a :: u64
  cx_reserve_b :: u64
  cx_quote_mint :: pubkey

record cpmm_classification =
  cl_mint :: string
  cl_pool_id :: string
  cl_quote_asset :: planner_quote_asset

definition cpmm_program_text :: string where
  "cpmm_program_text = ''CPMMoo8L3F4NbTegBCKVNunggL7H1ZpdTHKxQB5qKP1C''"

definition cpmm_program_id :: "venue_env \<Rightarrow> venue_error + pubkey" where
  "cpmm_program_id env = venue_key env cpmm_program_text ''Raydium CPMM program id''"

definition raydium_cpmm_pool_authority :: "venue_env \<Rightarrow> venue_error + pubkey" where
  "raydium_cpmm_pool_authority env =
     rbind (cpmm_program_id env) (\<lambda>program.
       Inr (fst (find_program_address (env_sdk env) [byte_string ''vault_and_lp_mint_auth_seed''] program)))"

section \<open>Reading accounts\<close>

definition cpmm_short :: venue_error where
  "cpmm_short = Data_Too_Short ''Raydium CPMM account''"

definition cpmm_read :: "'a reader \<Rightarrow> bytes \<Rightarrow> nat \<Rightarrow> venue_error + ('a \<times> nat)" where
  "cpmm_read r data off = map_error (\<lambda>_. cpmm_short) (r data off)"

definition cpmm_read_u16 :: "bytes \<Rightarrow> nat \<Rightarrow> venue_error + (u16 \<times> nat)" where
  "cpmm_read_u16 data off =
     (case slice data off 2 of None \<Rightarrow> Inl cpmm_short | Some bs \<Rightarrow> Inr (u16_from_le_bytes bs, off + 2))"

definition cpmm_read_bool :: "bytes \<Rightarrow> nat \<Rightarrow> venue_error + (bool \<times> nat)" where
  "cpmm_read_bool data off =
     rbind (cpmm_read read_u8 data off) (\<lambda>(v, off).
       if v = 0 then Inr (False, off) else if v = 1 then Inr (True, off) else Inl (Invalid_Bool v))"

definition decode_raydium_cpmm_pool :: "pubkey \<Rightarrow> bytes \<Rightarrow> venue_error + cpmm_pool_state" where
  "decode_raydium_cpmm_pool pool_id data =
     rbind (cpmm_read read_pubkey data 8) (\<lambda>(config_id, off).
     rbind (cpmm_read read_pubkey data off) (\<lambda>(pool_creator, off).
     rbind (cpmm_read read_pubkey data off) (\<lambda>(vault_a, off).
     rbind (cpmm_read read_pubkey data off) (\<lambda>(vault_b, off).
     rbind (cpmm_read read_pubkey data off) (\<lambda>(lp_mint, off).
     rbind (cpmm_read read_pubkey data off) (\<lambda>(token_0_mint, off).
     rbind (cpmm_read read_pubkey data off) (\<lambda>(token_1_mint, off).
     rbind (cpmm_read read_pubkey data off) (\<lambda>(token_0_program, off).
     rbind (cpmm_read read_pubkey data off) (\<lambda>(token_1_program, off).
     rbind (cpmm_read read_pubkey data off) (\<lambda>(observation_id, off).
     rbind (cpmm_read read_u8 data off) (\<lambda>(bump, off).
     rbind (cpmm_read read_u8 data off) (\<lambda>(status, off).
     rbind (cpmm_read read_u8 data off) (\<lambda>(lp_decimals, off).
     rbind (cpmm_read read_u8 data off) (\<lambda>(decimals_a, off).
     rbind (cpmm_read read_u8 data off) (\<lambda>(decimals_b, off).
     rbind (cpmm_read read_u64 data off) (\<lambda>(lp_amount, off).
     rbind (cpmm_read read_u64 data off) (\<lambda>(protocol_a, off).
     rbind (cpmm_read read_u64 data off) (\<lambda>(protocol_b, off).
     rbind (cpmm_read read_u64 data off) (\<lambda>(fund_a, off).
     rbind (cpmm_read read_u64 data off) (\<lambda>(fund_b, off).
     rbind (cpmm_read read_u64 data off) (\<lambda>(open_time, off).
     rbind (cpmm_read read_u64 data off) (\<lambda>(epoch, off).
     rbind (cpmm_read read_u8 data off) (\<lambda>(fee_on, off).
     rbind (cpmm_read_bool data off) (\<lambda>(creator_fee_on, off).
     rbind (cpmm_read read_u64 data (off + 6)) (\<lambda>(creator_a, off).
     rbind (cpmm_read read_u64 data off) (\<lambda>(creator_b, off).
     Inr \<lparr>cp_pool_id = pool_id, cp_config_id = config_id, cp_vault_a = vault_a, cp_vault_b = vault_b,
          cp_token_0_mint = token_0_mint, cp_token_1_mint = token_1_mint,
          cp_token_0_program = token_0_program, cp_token_1_program = token_1_program,
          cp_observation_id = observation_id, cp_mint_decimals_a = decimals_a,
          cp_mint_decimals_b = decimals_b, cp_protocol_fees_mint_a = protocol_a,
          cp_protocol_fees_mint_b = protocol_b, cp_fund_fees_mint_a = fund_a,
          cp_fund_fees_mint_b = fund_b, cp_enable_creator_fee = creator_fee_on,
          cp_creator_fees_mint_a = creator_a, cp_creator_fees_mint_b = creator_b\<rparr>))))))))))))))))))))))))))"

definition decode_raydium_cpmm_config :: "bytes \<Rightarrow> venue_error + cpmm_config" where
  "decode_raydium_cpmm_config data =
     rbind (cpmm_read read_u8 data 8) (\<lambda>(bump, off).
     rbind (cpmm_read_bool data off) (\<lambda>(disable_create_pool, off).
     rbind (cpmm_read_u16 data off) (\<lambda>(idx, off).
     rbind (cpmm_read read_u64 data off) (\<lambda>(trade_rate, off).
     rbind (cpmm_read read_u64 data off) (\<lambda>(protocol_rate, off).
     rbind (cpmm_read read_u64 data off) (\<lambda>(fund_rate, off).
     rbind (cpmm_read read_u64 data off) (\<lambda>(create_pool_fee, off).
     rbind (cpmm_read read_pubkey data off) (\<lambda>(protocol_owner, off).
     rbind (cpmm_read read_pubkey data off) (\<lambda>(fund_owner, off).
     rbind (cpmm_read read_u64 data off) (\<lambda>(creator_rate, off).
     Inr \<lparr>cc_trade_fee_rate = trade_rate, cc_creator_fee_rate = creator_rate\<rparr>))))))))))"

section \<open>Quotes\<close>

definition raydium_cpmm_fee_amount :: "u64 \<Rightarrow> u64 \<Rightarrow> u64" where
  "raydium_cpmm_fee_amount amount fee_rate =
     (if fee_rate = 0 \<or> amount = 0 then 0
      else ucast ((sat_mul (ucast amount :: u128) (ucast fee_rate) + 999999) div 1000000))"

definition net_cpmm_reserve :: "u64 \<Rightarrow> u64 \<Rightarrow> u64 \<Rightarrow> u64 \<Rightarrow> u64" where
  "net_cpmm_reserve vault_amount protocol_fees fund_fees creator_fees =
     sat_sub (sat_sub (sat_sub vault_amount protocol_fees) fund_fees) creator_fees"

definition cpmm_apply_slippage_bps :: "u64 \<Rightarrow> u64 \<Rightarrow> u64" where
  "cpmm_apply_slippage_bps amount slippage_bps =
     (let keep_bps = sat_sub 10000 (min slippage_bps 10000);
          minimum = ucast (min ((ucast amount :: u128) * ucast keep_bps div 10000)
                             (ucast (max_word :: u64)))
      in if 0 < amount \<and> minimum = 0 then 1 else minimum)"

definition u64_of_u128 :: "u128 \<Rightarrow> quote_failure + u64" where
  "u64_of_u128 x = (if unat x < 2 ^ 64 then Inr (ucast x) else Inl Output_Exceeds_U64)"

definition raydium_cpmm_quote_exact_input_parts ::
  "pubkey \<Rightarrow> pubkey \<Rightarrow> pubkey \<Rightarrow> u64 \<Rightarrow> u64 \<Rightarrow> u64 \<Rightarrow> bool \<Rightarrow> u64 \<Rightarrow> u64 \<Rightarrow> u64
     \<Rightarrow> quote_failure + (u64 \<times> u64)" where
  "raydium_cpmm_quote_exact_input_parts input_mint token_0_mint token_1_mint reserve_a reserve_b
       trade_rate creator_fee_on creator_rate amount_in slippage_bps =
     (if amount_in = 0 then Inr (0, 0)
      else
        rbind (if input_mint = token_0_mint then Inr (reserve_a, reserve_b)
               else if input_mint = token_1_mint then Inr (reserve_b, reserve_a)
               else Inl Quote_Mint_Mismatch) (\<lambda>(input_reserve, output_reserve).
        if input_reserve = 0 \<or> output_reserve = 0 then Inl Reserves_Empty
        else
          let trade_fee = raydium_cpmm_fee_amount amount_in trade_rate;
              input_after_trade_fee = sat_sub amount_in trade_fee;
              output_swapped = (ucast input_after_trade_fee :: u128) * ucast output_reserve
                                 div ucast (sat_add input_reserve input_after_trade_fee)
          in rbind (if creator_fee_on
                    then rbind (u64_of_u128 output_swapped) (\<lambda>out. Inr (raydium_cpmm_fee_amount out creator_rate))
                    else Inr 0) (\<lambda>creator_fee.
             rbind (u64_of_u128 output_swapped) (\<lambda>out.
             let expected_out = sat_sub out creator_fee
             in Inr (expected_out, cpmm_apply_slippage_bps expected_out slippage_bps)))))"

definition raydium_cpmm_quote_exact_input ::
  "cpmm_context \<Rightarrow> pubkey \<Rightarrow> u64 \<Rightarrow> u64 \<Rightarrow> quote_failure + (u64 \<times> u64)" where
  "raydium_cpmm_quote_exact_input ctx input_mint amount_in slippage_bps =
     raydium_cpmm_quote_exact_input_parts input_mint (cp_token_0_mint (cx_pool ctx))
       (cp_token_1_mint (cx_pool ctx)) (cx_reserve_a ctx) (cx_reserve_b ctx)
       (cc_trade_fee_rate (cx_config ctx)) (cp_enable_creator_fee (cx_pool ctx))
       (cc_creator_fee_rate (cx_config ctx)) amount_in slippage_bps"

section \<open>Numbers in requests\<close>

definition cpmm_parse_decimal_units :: "string \<Rightarrow> nat \<Rightarrow> string \<Rightarrow> venue_error + u64" where
  "cpmm_parse_decimal_units value decimals label =
     (let trimmed = str_trim value
      in if trimmed = [] then Inl (Number_Required label)
         else
           let (whole, fraction) = unwrap_or (trimmed, []) (split_once CHR ''.'' trimmed)
           in rbind (ok_or (parse_u64 whole) (Not_A_Number label)) (\<lambda>whole_value.
              if decimals < length fraction then Inl (Too_Many_Decimals label)
              else
                let fractional = fraction @ replicate (decimals - length fraction) CHR ''0''
                in rbind (if fractional = [] then Inr 0
                          else ok_or (parse_u64 fractional) (Not_A_Number label)) (\<lambda>fractional_value.
                   if 10 ^ decimals \<ge> (2 ^ 64 :: nat) then Inl (Overflow label)
                   else ok_or (Option.bind (checked_mul whole_value (of_nat (10 ^ decimals)))
                                 (\<lambda>v. checked_add v fractional_value))
                          (Number_Too_Large label))))"

definition cpmm_priority_fee_sol_to_micro_lamports :: "string \<Rightarrow> venue_error + u64" where
  "cpmm_priority_fee_sol_to_micro_lamports value =
     rbind (cpmm_parse_decimal_units value 9 ''priority fee'') (\<lambda>lamports.
       ok_or (map_option (\<lambda>v. v div priority_fee_price_base_compute_unit_limit)
                (checked_mul lamports 1000000)) (Overflow ''priority fee''))"

text \<open>
  \<^verbatim>\<open>(parsed * 100.0).round().clamp(lo, 10_000.0) as u64\<close> for a finite number that is not
  negative: a product that overflows floating point is above the clamp, like its rational.
\<close>

definition f64_hundredths :: "f64_ops \<Rightarrow> nat \<Rightarrow> rat \<Rightarrow> u64" where
  "f64_hundredths ops lo x = of_nat (max lo (min 10000 (f64_round_to_nat (f64_mul ops x 100))))"

definition cpmm_parse_slippage_bps :: "f64_ops \<Rightarrow> string option \<Rightarrow> venue_error + u64" where
  "cpmm_parse_slippage_bps ops value =
     (let raw = str_trim (unwrap_or ''5'' value)
      in if raw = [] then Inr 500
         else
           case f64_from_str ops raw of
             None \<Rightarrow> Inl (Not_A_Number ''slippage percent'')
           | Some (F64_Finite x) \<Rightarrow>
               if x < 0 then Inl (Number_Out_Of_Range ''slippage percent'')
               else Inr (f64_hundredths ops 0 x)
           | Some _ \<Rightarrow> Inl (Number_Out_Of_Range ''slippage percent''))"

definition cpmm_parse_percent_to_bps :: "f64_ops \<Rightarrow> string \<Rightarrow> venue_error + u64" where
  "cpmm_parse_percent_to_bps ops value =
     (case f64_from_str ops (str_trim value) of
        None \<Rightarrow> Inl (Not_A_Number ''sell percent'')
      | Some (F64_Finite x) \<Rightarrow>
          if x \<le> 0 \<or> 100 < x then Inl (Number_Out_Of_Range ''sell percent'')
          else Inr (f64_hundredths ops 1 x)
      | Some _ \<Rightarrow> Inl (Number_Out_Of_Range ''sell percent''))"

section \<open>Contexts\<close>

definition validate_cpmm_token_programs ::
  "venue_env \<Rightarrow> cpmm_pool_state \<Rightarrow> pubkey \<Rightarrow> venue_error + unit" where
  "validate_cpmm_token_programs env pool mint_key =
     rbind (if cp_token_0_mint pool = wsol_mint_id then Inr (cp_token_0_program pool)
            else if cp_token_1_mint pool = wsol_mint_id then Inr (cp_token_1_program pool)
            else Inl (Unsupported_Market ''not WSOL quoted'')) (\<lambda>quote_program.
     if quote_program \<noteq> env_spl_token_id env then Inl (Unsupported_Market ''WSOL token program'')
     else
       rbind (if cp_token_0_mint pool = mint_key then Inr (cp_token_0_program pool)
              else if cp_token_1_mint pool = mint_key then Inr (cp_token_1_program pool)
              else Inl (Unsupported_Market ''mint not in pool'')) (\<lambda>mint_program.
       if mint_program \<noteq> env_spl_token_id env then Inl (Unsupported_Market ''mint token program'')
       else Inr ()))"

definition validate_cpmm_context_for_mint :: "venue_env \<Rightarrow> cpmm_context \<Rightarrow> pubkey \<Rightarrow> venue_error + unit" where
  "validate_cpmm_context_for_mint env ctx mint_key =
     (let pool = cx_pool ctx
      in if cx_quote_mint ctx \<noteq> wsol_mint_id then Inl (Unsupported_Market ''WSOL quote only'')
         else if cp_token_0_mint pool \<noteq> mint_key \<and> cp_token_1_mint pool \<noteq> mint_key
         then Inl (Unsupported_Market ''mint not in pool'')
         else if cp_token_0_mint pool \<noteq> cx_quote_mint ctx \<and> cp_token_1_mint pool \<noteq> cx_quote_mint ctx
         then Inl (Unsupported_Market ''not WSOL quoted'')
         else validate_cpmm_token_programs env pool mint_key)"

definition build_raydium_cpmm_pool_context_from_parts ::
  "venue_env \<Rightarrow> cpmm_pool_state \<Rightarrow> cpmm_config \<Rightarrow> pubkey \<Rightarrow> string \<Rightarrow> venue_error + cpmm_context" where
  "build_raydium_cpmm_pool_context_from_parts env pool config quote_key commitment_level =
     (if cp_token_0_mint pool \<noteq> quote_key \<and> cp_token_1_mint pool \<noteq> quote_key
      then Inl (Unsupported_Market ''quote mint not in pool'')
      else
        rbind (env_accounts env (map (env_pubkey_text env) [cp_vault_a pool, cp_vault_b pool])
                 commitment_level) (\<lambda>datas.
        case datas of
          [a, b] \<Rightarrow>
            rbind (ok_or a (Account_Not_Found ''vault A'')) (\<lambda>vault_a_data.
            rbind (ok_or b (Account_Not_Found ''vault B'')) (\<lambda>vault_b_data.
            let creator_a = (if cp_enable_creator_fee pool then cp_creator_fees_mint_a pool else 0);
                creator_b = (if cp_enable_creator_fee pool then cp_creator_fees_mint_b pool else 0)
            in rbind (token_account_amount vault_a_data) (\<lambda>amount_a.
               rbind (token_account_amount vault_b_data) (\<lambda>amount_b.
               Inr \<lparr>cx_pool = pool, cx_config = config,
                    cx_reserve_a = net_cpmm_reserve amount_a (cp_protocol_fees_mint_a pool)
                                     (cp_fund_fees_mint_a pool) creator_a,
                    cx_reserve_b = net_cpmm_reserve amount_b (cp_protocol_fees_mint_b pool)
                                     (cp_fund_fees_mint_b pool) creator_b,
                    cx_quote_mint = quote_key\<rparr>))))
        | _ \<Rightarrow> Inl (Unexpected_Account_Count (length datas) 2)))"

definition build_raydium_cpmm_pool_context_from_data ::
  "venue_env \<Rightarrow> pubkey \<Rightarrow> pubkey \<Rightarrow> string \<Rightarrow> bytes \<Rightarrow> venue_error + cpmm_context" where
  "build_raydium_cpmm_pool_context_from_data env pool_id quote_key commitment_level pool_data =
     rbind (decode_raydium_cpmm_pool pool_id pool_data) (\<lambda>pool.
     if cp_token_0_mint pool \<noteq> quote_key \<and> cp_token_1_mint pool \<noteq> quote_key
     then Inl (Unsupported_Market ''quote mint not in pool'')
     else
       rbind (env_account_data env (env_pubkey_text env (cp_config_id pool)) commitment_level) (\<lambda>config_data.
       rbind (decode_raydium_cpmm_config config_data) (\<lambda>config.
       build_raydium_cpmm_pool_context_from_parts env pool config quote_key commitment_level)))"

definition load_raydium_cpmm_pool_context_by_pool_id ::
  "venue_env \<Rightarrow> pubkey \<Rightarrow> pubkey \<Rightarrow> string \<Rightarrow> venue_error + cpmm_context" where
  "load_raydium_cpmm_pool_context_by_pool_id env pool_id quote_key commitment_level =
     rbind (env_account_data env (env_pubkey_text env pool_id) commitment_level) (\<lambda>pool_data.
     build_raydium_cpmm_pool_context_from_data env pool_id quote_key commitment_level pool_data)"

definition cpmm_pool_from_runtime_bundle ::
  "venue_env \<Rightarrow> raydium_cpmm_runtime_bundle \<Rightarrow> venue_error + cpmm_pool_state" where
  "cpmm_pool_from_runtime_bundle env bundle =
     rbind (venue_key env (cpmm_pool bundle) ''pool'') (\<lambda>pool_id.
     rbind (venue_key env (cpmm_config_id bundle) ''config'') (\<lambda>config_id.
     rbind (venue_key env (cpmm_vault_a bundle) ''vault A'') (\<lambda>vault_a.
     rbind (venue_key env (cpmm_vault_b bundle) ''vault B'') (\<lambda>vault_b.
     rbind (venue_key env (cpmm_token_0_mint bundle) ''token 0 mint'') (\<lambda>token_0_mint.
     rbind (venue_key env (cpmm_token_1_mint bundle) ''token 1 mint'') (\<lambda>token_1_mint.
     rbind (venue_key env (cpmm_token_0_program bundle) ''token 0 program'') (\<lambda>token_0_program.
     rbind (venue_key env (cpmm_token_1_program bundle) ''token 1 program'') (\<lambda>token_1_program.
     rbind (venue_key env (cpmm_observation_id bundle) ''observation'') (\<lambda>observation_id.
     Inr \<lparr>cp_pool_id = pool_id, cp_config_id = config_id, cp_vault_a = vault_a, cp_vault_b = vault_b,
          cp_token_0_mint = token_0_mint, cp_token_1_mint = token_1_mint,
          cp_token_0_program = token_0_program, cp_token_1_program = token_1_program,
          cp_observation_id = observation_id, cp_mint_decimals_a = cpmm_mint_decimals_a bundle,
          cp_mint_decimals_b = cpmm_mint_decimals_b bundle,
          cp_protocol_fees_mint_a = cpmm_protocol_fees_mint_a bundle,
          cp_protocol_fees_mint_b = cpmm_protocol_fees_mint_b bundle,
          cp_fund_fees_mint_a = cpmm_fund_fees_mint_a bundle,
          cp_fund_fees_mint_b = cpmm_fund_fees_mint_b bundle,
          cp_enable_creator_fee = cpmm_enable_creator_fee bundle,
          cp_creator_fees_mint_a = cpmm_creator_fees_mint_a bundle,
          cp_creator_fees_mint_b = cpmm_creator_fees_mint_b bundle\<rparr>)))))))))"

text \<open>What may not change between planning and compiling.\<close>

definition same_cpmm_metadata :: "cpmm_pool_state \<Rightarrow> cpmm_pool_state \<Rightarrow> bool" where
  "same_cpmm_metadata fresh pool \<longleftrightarrow>
     cp_token_0_mint fresh = cp_token_0_mint pool \<and> cp_token_1_mint fresh = cp_token_1_mint pool
     \<and> cp_vault_a fresh = cp_vault_a pool \<and> cp_vault_b fresh = cp_vault_b pool
     \<and> cp_config_id fresh = cp_config_id pool
     \<and> cp_token_0_program fresh = cp_token_0_program pool
     \<and> cp_token_1_program fresh = cp_token_1_program pool
     \<and> cp_observation_id fresh = cp_observation_id pool"

definition load_raydium_cpmm_pool_context_for_selector ::
  "venue_env \<Rightarrow> lifecycle_and_canonical_market \<Rightarrow> pubkey \<Rightarrow> string \<Rightarrow> venue_error + cpmm_context" where
  "load_raydium_cpmm_pool_context_for_selector env selector quote_key commitment_level =
     (case runtime_bundle selector of
        Some (Bundle_RaydiumCpmm bundle) \<Rightarrow>
          rbind (venue_key env (cpmm_pool bundle) ''pool'') (\<lambda>pool_id.
          rbind (env_account_data env (cpmm_pool bundle) commitment_level) (\<lambda>pool_data.
          rbind (decode_raydium_cpmm_pool pool_id pool_data) (\<lambda>fresh.
          rbind (cpmm_pool_from_runtime_bundle env bundle) (\<lambda>pool.
          if \<not> same_cpmm_metadata fresh pool then Inl (Unsupported_Market ''bundle no longer matches'')
          else
            build_raydium_cpmm_pool_context_from_parts env
              (pool\<lparr>cp_protocol_fees_mint_a := cp_protocol_fees_mint_a fresh,
                    cp_protocol_fees_mint_b := cp_protocol_fees_mint_b fresh,
                    cp_fund_fees_mint_a := cp_fund_fees_mint_a fresh,
                    cp_fund_fees_mint_b := cp_fund_fees_mint_b fresh,
                    cp_enable_creator_fee := cp_enable_creator_fee fresh,
                    cp_creator_fees_mint_a := cp_creator_fees_mint_a fresh,
                    cp_creator_fees_mint_b := cp_creator_fees_mint_b fresh\<rparr>)
              \<lparr>cc_trade_fee_rate = cpmm_trade_fee_rate bundle,
               cc_creator_fee_rate = cpmm_creator_fee_rate bundle\<rparr>
              quote_key commitment_level))))
      | _ \<Rightarrow>
          rbind (venue_key env (canonical_market_key selector) ''selector pool'') (\<lambda>pool_id.
          load_raydium_cpmm_pool_context_by_pool_id env pool_id quote_key commitment_level))"

section \<open>Planning\<close>

definition classify_raydium_cpmm_pool_address ::
  "venue_env \<Rightarrow> string \<Rightarrow> pubkey \<Rightarrow> bytes \<Rightarrow> venue_error + cpmm_classification option" where
  "classify_raydium_cpmm_pool_address env address owner data =
     rbind (cpmm_program_id env) (\<lambda>program.
     if owner \<noteq> program then Inr None
     else
       rbind (venue_key env (str_trim address) ''pool id'') (\<lambda>pool_id.
       case decode_raydium_cpmm_pool pool_id data of
         Inl _ \<Rightarrow> Inr None
       | Inr pool \<Rightarrow>
           let found = (\<lambda>mint_key.
                 rbind (validate_cpmm_token_programs env pool mint_key) (\<lambda>_.
                 Inr (Some \<lparr>cl_mint = env_pubkey_text env mint_key,
                            cl_pool_id = env_pubkey_text env pool_id, cl_quote_asset = Quote_Wsol\<rparr>)))
           in if cp_token_0_mint pool = wsol_mint_id then found (cp_token_1_mint pool)
              else if cp_token_1_mint pool = wsol_mint_id then found (cp_token_0_mint pool)
              else Inr None))"

definition cpmm_bundle :: "venue_env \<Rightarrow> cpmm_context \<Rightarrow> raydium_cpmm_runtime_bundle" where
  "cpmm_bundle env ctx =
     (let pool = cx_pool ctx; text_of = env_pubkey_text env in
     \<lparr>cpmm_pool = text_of (cp_pool_id pool), cpmm_config_id = text_of (cp_config_id pool),
      cpmm_vault_a = text_of (cp_vault_a pool), cpmm_vault_b = text_of (cp_vault_b pool),
      cpmm_token_0_mint = text_of (cp_token_0_mint pool),
      cpmm_token_1_mint = text_of (cp_token_1_mint pool),
      cpmm_token_0_program = text_of (cp_token_0_program pool),
      cpmm_token_1_program = text_of (cp_token_1_program pool),
      cpmm_observation_id = text_of (cp_observation_id pool),
      cpmm_mint_decimals_a = cp_mint_decimals_a pool, cpmm_mint_decimals_b = cp_mint_decimals_b pool,
      cpmm_protocol_fees_mint_a = cp_protocol_fees_mint_a pool,
      cpmm_protocol_fees_mint_b = cp_protocol_fees_mint_b pool,
      cpmm_fund_fees_mint_a = cp_fund_fees_mint_a pool, cpmm_fund_fees_mint_b = cp_fund_fees_mint_b pool,
      cpmm_enable_creator_fee = cp_enable_creator_fee pool,
      cpmm_creator_fees_mint_a = cp_creator_fees_mint_a pool,
      cpmm_creator_fees_mint_b = cp_creator_fees_mint_b pool,
      cpmm_reserve_a = cx_reserve_a ctx, cpmm_reserve_b = cx_reserve_b ctx,
      cpmm_trade_fee_rate = cc_trade_fee_rate (cx_config ctx),
      cpmm_creator_fee_rate = cc_creator_fee_rate (cx_config ctx)\<rparr>)"

definition build_raydium_cpmm_selector ::
  "venue_env \<Rightarrow> 'plan trade_runtime_request \<Rightarrow> cpmm_context \<Rightarrow> lifecycle_and_canonical_market" where
  "build_raydium_cpmm_selector env request ctx =
     \<lparr>lifecycle = PostMigration, family = RaydiumCpmm,
      canonical_market_key = env_pubkey_text env (cp_pool_id (cx_pool ctx)),
      quote_asset = Quote_Wsol, verification_source = OnchainDerived,
      market_wrapper_action =
        (case request_side request of Buy \<Rightarrow> RaydiumCpmmWsolBuy | Sell \<Rightarrow> RaydiumCpmmWsolSell),
      wrapper_accounts = map (env_pubkey_text env)
        [cp_pool_id (cx_pool ctx), cp_vault_a (cx_pool ctx), cp_vault_b (cx_pool ctx),
         cp_observation_id (cx_pool ctx)],
      market_subtype = Some ''cpmm'', direct_protocol_target = Some ''raydium-cpmm'',
      input_amount_hint = buy_amount_sol request, minimum_output_hint = None,
      runtime_bundle = Some (Bundle_RaydiumCpmm (cpmm_bundle env ctx))\<rparr>"

definition plan_raydium_cpmm_trade_for_pool_id ::
  "venue_env \<Rightarrow> 'plan trade_runtime_request \<Rightarrow> pubkey
     \<Rightarrow> venue_error + lifecycle_and_canonical_market option" where
  "plan_raydium_cpmm_trade_for_pool_id env request pool_id =
     rbind (env_account env (env_pubkey_text env pool_id) (commitment (policy request))) (\<lambda>found.
     rbind (ok_or found (Account_Not_Found ''pool'')) (\<lambda>(owner, pool_data).
     rbind (cpmm_program_id env) (\<lambda>program.
     if owner \<noteq> program then Inr None
     else
       rbind (build_raydium_cpmm_pool_context_from_data env pool_id wsol_mint_id
                (commitment (policy request)) pool_data) (\<lambda>ctx.
       rbind (venue_key env (request_mint request) ''mint'') (\<lambda>mint_key.
       rbind (validate_cpmm_context_for_mint env ctx mint_key) (\<lambda>_.
       Inr (Some (build_raydium_cpmm_selector env request ctx))))))))"

definition plan_raydium_cpmm_trade ::
  "venue_env \<Rightarrow> 'plan trade_runtime_request \<Rightarrow> venue_error + lifecycle_and_canonical_market option" where
  "plan_raydium_cpmm_trade env request =
     (case option_filter (\<lambda>v. v \<noteq> []) (map_option str_trim (pinned_pool request)) of
        None \<Rightarrow> Inr None
      | Some pinned \<Rightarrow>
          rbind (venue_key env pinned ''pool id'') (\<lambda>pool_id.
          plan_raydium_cpmm_trade_for_pool_id env request pool_id))"

definition fetch_raydium_cpmm_pools_for_ordered_pair ::
  "venue_env \<Rightarrow> pubkey \<Rightarrow> pubkey \<Rightarrow> string \<Rightarrow> venue_error + pubkey list" where
  "fetch_raydium_cpmm_pools_for_ordered_pair env left_mint right_mint commitment_level =
     rbind (env_program_accounts env cpmm_program_text None
              [(168, env_pubkey_text env left_mint), (200, env_pubkey_text env right_mint)]
              commitment_level)
       (pools_of_response env decode_raydium_cpmm_pool)"

definition find_raydium_cpmm_pool_for_pair ::
  "venue_env \<Rightarrow> pubkey \<Rightarrow> pubkey \<Rightarrow> string \<Rightarrow> venue_error + pubkey option" where
  "find_raydium_cpmm_pool_for_pair env mint_key quote_key commitment_level =
     rbind (fetch_raydium_cpmm_pools_for_ordered_pair env mint_key quote_key commitment_level) (\<lambda>forward.
     rbind (fetch_raydium_cpmm_pools_for_ordered_pair env quote_key mint_key commitment_level) (\<lambda>backward.
     unique_pool env (forward @ backward)))"

definition quote_raydium_cpmm_holding_value_sol ::
  "venue_env \<Rightarrow> lifecycle_and_canonical_market \<Rightarrow> string \<Rightarrow> u64 \<Rightarrow> string \<Rightarrow> venue_error + u64" where
  "quote_raydium_cpmm_holding_value_sol env selector mint_text token_amount commitment_level =
     rbind (venue_key env (canonical_market_key selector) ''selector pool'') (\<lambda>pool_id.
     rbind (load_raydium_cpmm_pool_context_by_pool_id env pool_id wsol_mint_id commitment_level) (\<lambda>ctx.
     rbind (venue_key env mint_text ''mint'') (\<lambda>mint_key.
     rbind (validate_cpmm_context_for_mint env ctx mint_key) (\<lambda>_.
     rbind (map_error Quote_Error (raydium_cpmm_quote_exact_input ctx mint_key token_amount 0))
       (\<lambda>(expected_out, _). Inr expected_out)))))"

section \<open>Compilation\<close>

definition build_raydium_cpmm_swap_exact_in_instruction ::
  "venue_env \<Rightarrow> pubkey \<Rightarrow> cpmm_context \<Rightarrow> pubkey \<Rightarrow> pubkey \<Rightarrow> u64 \<Rightarrow> u64 \<Rightarrow> pubkey \<Rightarrow> pubkey
     \<Rightarrow> venue_error + instruction" where
  "build_raydium_cpmm_swap_exact_in_instruction env owner ctx user_input user_output amount_in
       min_out input_mint output_mint =
     (let pool = cx_pool ctx;
          input_is_a = (input_mint = cp_token_0_mint pool \<and> output_mint = cp_token_1_mint pool);
          input_is_b = (input_mint = cp_token_1_mint pool \<and> output_mint = cp_token_0_mint pool)
      in
     rbind (raydium_cpmm_pool_authority env) (\<lambda>authority.
     if \<not> input_is_a \<and> \<not> input_is_b then Inl (Unsupported_Market ''swap mints do not match'')
     else
       let (input_vault, output_vault, input_program, output_program) =
             (if input_is_a
              then (cp_vault_a pool, cp_vault_b pool, cp_token_0_program pool, cp_token_1_program pool)
              else (cp_vault_b pool, cp_vault_a pool, cp_token_1_program pool, cp_token_0_program pool))
       in rbind (cpmm_program_id env) (\<lambda>program.
          Inr \<lparr>program_id = program,
               ix_accounts =
                 [meta_new_readonly owner True,
                  meta_new_readonly authority False,
                  meta_new_readonly (cp_config_id pool) False,
                  meta_new (cp_pool_id pool) False,
                  meta_new user_input False,
                  meta_new user_output False,
                  meta_new input_vault False,
                  meta_new output_vault False,
                  meta_new_readonly input_program False,
                  meta_new_readonly output_program False,
                  meta_new_readonly input_mint False,
                  meta_new_readonly output_mint False,
                  meta_new (cp_observation_id pool) False],
               ix_bytes = [143, 190, 90, 218, 196, 30, 51, 222]
                            @ u64_to_le_bytes amount_in @ u64_to_le_bytes min_out\<rparr>)))"

definition cpmm_token_and_quote_programs :: "cpmm_context \<Rightarrow> venue_error + (pubkey \<times> pubkey \<times> pubkey)" where
  "cpmm_token_and_quote_programs ctx =
     (let pool = cx_pool ctx
      in if cp_token_0_mint pool = cx_quote_mint ctx
         then Inr (cp_token_1_mint pool, cp_token_1_program pool, cp_token_0_program pool)
         else if cp_token_1_mint pool = cx_quote_mint ctx
         then Inr (cp_token_0_mint pool, cp_token_0_program pool, cp_token_1_program pool)
         else Inl (Unsupported_Market ''quote mint not in pool''))"

definition cpmm_token_decimals :: "cpmm_context \<Rightarrow> pubkey \<Rightarrow> u8" where
  "cpmm_token_decimals ctx mint_key =
     (if mint_key = cp_token_0_mint (cx_pool ctx) then cp_mint_decimals_a (cx_pool ctx)
      else cp_mint_decimals_b (cx_pool ctx))"

definition cpmm_percent_of_balance :: "u64 \<Rightarrow> u64 \<Rightarrow> u64" where
  "cpmm_percent_of_balance balance percent_bps =
     ucast (min ((ucast balance :: u128) * ucast percent_bps div 10000) (ucast (max_word :: u64)))"

text \<open>What the sizing search asks: the expected output of a sale without slippage, net.\<close>

definition cpmm_expected_out :: "cpmm_context \<Rightarrow> pubkey \<Rightarrow> u64 \<Rightarrow> quote_failure + u64" where
  "cpmm_expected_out ctx token_mint amount =
     rbind (raydium_cpmm_quote_exact_input ctx token_mint amount 0) (\<lambda>(expected, _). Inr expected)"

definition raydium_cpmm_compute_unit_limit :: u32 where
  "raydium_cpmm_compute_unit_limit = 340000"

definition raydium_cpmm_prefix_instructions ::
  "venue_env \<Rightarrow> runtime_execution_policy \<Rightarrow> u32 \<Rightarrow> venue_error + instruction list" where
  "raydium_cpmm_prefix_instructions env pol limit =
     rbind (compute_unit_limit_instruction env limit) (\<lambda>limit_ix.
     rbind (cpmm_priority_fee_sol_to_micro_lamports (fee_sol pol)) (\<lambda>price.
     if 0 < price
     then rbind (compute_unit_price_instruction env price) (\<lambda>price_ix. Inr [limit_ix, price_ix])
     else Inr [limit_ix]))"

text \<open>The tip; the account is reported as the text of its key.\<close>

definition cpmm_inline_tip ::
  "venue_env \<Rightarrow> runtime_execution_policy \<Rightarrow> pubkey \<Rightarrow> venue_error + (instruction \<times> u64 \<times> string) option" where
  "cpmm_inline_tip env pol owner =
     rbind (resolve_inline_tip env (venue_key env) [''PLATFORM_TIP_ACCOUNT'']
              (\<lambda>tip. cpmm_parse_decimal_units tip 9 ''tipSol'') owner (provider pol) (tip_sol pol)) (\<lambda>tip.
       case tip of
         None \<Rightarrow> Inr None
       | Some (ix, lamports, account) \<Rightarrow>
           rbind (venue_key env account ''tip account'') (\<lambda>key.
             Inr (Some (ix, lamports, env_pubkey_text env key))))"

definition finalize_raydium_cpmm_transaction ::
  "venue_env \<Rightarrow> runtime_execution_policy \<Rightarrow> pubkey \<Rightarrow> pubkey list \<Rightarrow> instruction list \<Rightarrow> string \<Rightarrow> u32
     \<Rightarrow> venue_error + engine_transaction" where
  "finalize_raydium_cpmm_transaction env pol owner extra_signers ixs label limit =
     rbind (cpmm_priority_fee_sol_to_micro_lamports (fee_sol pol)) (\<lambda>price.
     finish_transaction env (cpmm_inline_tip env pol owner) pol owner extra_signers ixs label limit price)"

definition cpmm_buy_instructions ::
  "venue_env \<Rightarrow> 'plan trade_runtime_request \<Rightarrow> pubkey \<Rightarrow> cpmm_context \<Rightarrow> venue_error + instruction list" where
  "cpmm_buy_instructions env request owner ctx =
     (let pol = policy request; quote_key = cx_quote_mint ctx; temp_wsol = env_new_key env in
     rbind (cpmm_token_and_quote_programs ctx) (\<lambda>(token_mint, token_program, quote_program).
     rbind (ok_or (buy_amount_sol request) (Missing_Request_Field ''buyAmountSol'')) (\<lambda>amount_text.
     rbind (cpmm_parse_decimal_units amount_text 9 ''buyAmountSol'') (\<lambda>amount_in.
     if amount_in = 0 then Inl (Zero_Amount ''buy amount'')
     else
       rbind (cpmm_parse_slippage_bps (env_f64 env) (Some (slippage_percent pol))) (\<lambda>slippage_bps.
       rbind (map_error Quote_Error (raydium_cpmm_quote_exact_input ctx quote_key amount_in slippage_bps))
         (\<lambda>(_, min_out).
       if min_out = 0 then Inl (Zero_Amount ''buy quote'')
       else
         rbind (env_rent_lamports env) (\<lambda>rent.
         rbind (raydium_cpmm_prefix_instructions env pol raydium_cpmm_compute_unit_limit) (\<lambda>prefix.
         rbind (ok_or (checked_add rent amount_in) (Overflow ''wrapped SOL funding'')) (\<lambda>funding.
         rbind (wrapped_sol_open_instructions env owner temp_wsol funding wsol_mint_id quote_program True)
           (\<lambda>open_ixs.
         rbind (build_raydium_cpmm_swap_exact_in_instruction env owner ctx temp_wsol
                  (associated_token_address (env_tokens env) owner token_mint token_program)
                  amount_in min_out quote_key token_mint) (\<lambda>swap.
         rbind (wrapped_sol_close_instruction env quote_program owner temp_wsol) (\<lambda>close.
         Inr (prefix @ ix_create_ata_idempotent (env_tokens env) owner owner token_mint token_program
                # open_ixs @ [swap, close])))))))))))))"

definition compile_cpmm_buy_transaction ::
  "venue_env \<Rightarrow> 'plan trade_runtime_request \<Rightarrow> pubkey \<Rightarrow> cpmm_context \<Rightarrow> venue_error + engine_transaction" where
  "compile_cpmm_buy_transaction env request owner ctx =
     rbind (cpmm_buy_instructions env request owner ctx) (\<lambda>ixs.
     finalize_raydium_cpmm_transaction env (policy request) owner [env_new_key env] ixs
       ''raydium-cpmm-buy'' raydium_cpmm_compute_unit_limit)"

definition cpmm_sell_amount ::
  "venue_env \<Rightarrow> cpmm_context \<Rightarrow> pubkey \<Rightarrow> u64 \<Rightarrow> runtime_sell_intent \<Rightarrow> venue_error + u64" where
  "cpmm_sell_amount env ctx token_mint balance intent =
     (case intent of
        Sell_Percent value \<Rightarrow>
          rbind (cpmm_parse_percent_to_bps (env_f64 env) value) (\<lambda>bps.
            Inr (cpmm_percent_of_balance balance bps))
      | Sell_Sol_Output value \<Rightarrow>
          rbind (cpmm_parse_decimal_units value 9 ''sellOutputSol'') (\<lambda>target.
            sized_sell_amount balance target
              (net_quote (env_wrapper_fee_bps env) (cpmm_expected_out ctx token_mint))))"

definition cpmm_sell_instructions ::
  "venue_env \<Rightarrow> 'plan trade_runtime_request \<Rightarrow> string \<Rightarrow> pubkey \<Rightarrow> cpmm_context
     \<Rightarrow> venue_error + instruction list" where
  "cpmm_sell_instructions env request wallet_id owner ctx =
     (let pol = policy request; quote_key = cx_quote_mint ctx; temp_wsol = env_new_key env in
     rbind (cpmm_token_and_quote_programs ctx) (\<lambda>(token_mint, token_program, quote_program).
     rbind (ok_or (sell_intent request) (Missing_Request_Field ''sell intent'')) (\<lambda>intent.
     rbind (env_token_balance env wallet_id (env_pubkey_text env owner) (env_pubkey_text env token_mint)
              (cpmm_token_decimals ctx token_mint)) (\<lambda>balance.
     rbind (cpmm_sell_amount env ctx token_mint balance intent) (\<lambda>amount_in.
     if amount_in = 0 then Inl (Zero_Amount ''sell amount'')
     else
       rbind (cpmm_parse_slippage_bps (env_f64 env) (Some (slippage_percent pol))) (\<lambda>slippage_bps.
       rbind (map_error Quote_Error (raydium_cpmm_quote_exact_input ctx token_mint amount_in slippage_bps))
         (\<lambda>(_, min_out).
       if min_out = 0 then Inl (Zero_Amount ''sell quote'')
       else
         rbind (env_rent_lamports env) (\<lambda>rent.
         rbind (raydium_cpmm_prefix_instructions env pol raydium_cpmm_compute_unit_limit) (\<lambda>prefix.
         rbind (wrapped_sol_open_instructions env owner temp_wsol rent wsol_mint_id quote_program True)
           (\<lambda>open_ixs.
         rbind (build_raydium_cpmm_swap_exact_in_instruction env owner ctx
                  (associated_token_address (env_tokens env) owner token_mint token_program) temp_wsol
                  amount_in min_out token_mint quote_key) (\<lambda>swap.
         rbind (wrapped_sol_close_instruction env quote_program owner temp_wsol) (\<lambda>close.
         Inr (prefix @ open_ixs @ [swap, close])))))))))))))"

definition compile_cpmm_sell_transaction ::
  "venue_env \<Rightarrow> 'plan trade_runtime_request \<Rightarrow> string \<Rightarrow> pubkey \<Rightarrow> cpmm_context
     \<Rightarrow> venue_error + engine_transaction" where
  "compile_cpmm_sell_transaction env request wallet_id owner ctx =
     rbind (cpmm_sell_instructions env request wallet_id owner ctx) (\<lambda>ixs.
     finalize_raydium_cpmm_transaction env (policy request) owner [env_new_key env] ixs
       ''raydium-cpmm-sell'' raydium_cpmm_compute_unit_limit)"

definition compile_raydium_cpmm_trade ::
  "venue_env \<Rightarrow> lifecycle_and_canonical_market \<Rightarrow> 'plan trade_runtime_request \<Rightarrow> string
     \<Rightarrow> venue_error + compiled_adapter_trade" where
  "compile_raydium_cpmm_trade env selector request wallet_id =
     (if family selector \<noteq> RaydiumCpmm then Inl (Unsupported_Market (family_label (family selector)))
      else
        rbind (env_wallet env wallet_id) (\<lambda>owner.
        rbind (load_raydium_cpmm_pool_context_for_selector env selector wsol_mint_id
                 (commitment (policy request))) (\<lambda>ctx.
        rbind (venue_key env (request_mint request) ''mint'') (\<lambda>mint_key.
        rbind (validate_cpmm_context_for_mint env ctx mint_key) (\<lambda>_.
        rbind (case request_side request of
                 Buy \<Rightarrow> compile_cpmm_buy_transaction env request owner ctx
               | Sell \<Rightarrow> compile_cpmm_sell_transaction env request wallet_id owner ctx) (\<lambda>transaction.
        Inr \<lparr>cat_transactions = [transaction], cat_primary_tx_index = 0,
             cat_dependency_mode = Independent,
             cat_entry_preference_asset =
               (case request_side request of Buy \<Rightarrow> Some Settle_Sol | Sell \<Rightarrow> None)\<rparr>))))))"

section \<open>What a quote is\<close>

definition cpmm_fee :: "u64 \<Rightarrow> u64 \<Rightarrow> nat" where
  "cpmm_fee amount rate = (unat amount * unat rate + 999999) div 1000000"

lemma cpmm_fee_value:
  assumes "unat rate \<le> 1000000"
  shows "unat (raydium_cpmm_fee_amount amount rate) = cpmm_fee amount rate"
    and "cpmm_fee amount rate \<le> unat amount"
proof -
  show le: "cpmm_fee amount rate \<le> unat amount"
  proof -
    have "unat amount * unat rate + 999999 \<le> unat amount * 1000000 + 999999"
      using assms by simp
    then have "cpmm_fee amount rate \<le> (unat amount * 1000000 + 999999) div 1000000"
      unfolding cpmm_fee_def by (rule div_le_mono)
    then show ?thesis by simp
  qed
  show "unat (raydium_cpmm_fee_amount amount rate) = cpmm_fee amount rate"
  proof (cases "rate = 0 \<or> amount = 0")
    case True
    then show ?thesis by (auto simp: raydium_cpmm_fee_amount_def cpmm_fee_def)
  next
    case False
    have p: "unat amount * unat rate < 2 ^ 64 * 2 ^ 21"
      using assms unat_less_pow [of amount] by (intro mult_strict_mono') auto
    then have m: "unat (sat_mul (ucast amount :: u128) (ucast rate)) = unat amount * unat rate"
      by (simp add: unat_sat_mul unat_ucast_128)
    have "unat (sat_mul (ucast amount :: u128) (ucast rate) + 999999) = unat amount * unat rate + 999999"
      using p by (simp add: unat_word_ariths m)
    then have d: "unat ((sat_mul (ucast amount :: u128) (ucast rate) + 999999) div 1000000) = cpmm_fee amount rate"
      by (simp add: unat_div cpmm_fee_def)
    have "cpmm_fee amount rate < 2 ^ 64" by (rule le_less_trans [OF le]) simp
    with False show ?thesis
      by (simp add: raydium_cpmm_fee_amount_def unsigned_ucast_eq take_bit_nat_eq_self d)
  qed
qed

text \<open>The reserves of the two sides, in the order of a swap that pays in \<open>mint\<close>.\<close>

definition cpmm_sides :: "cpmm_context \<Rightarrow> pubkey \<Rightarrow> u64 \<times> u64" where
  "cpmm_sides ctx input_mint =
     (if input_mint = cp_token_0_mint (cx_pool ctx)
      then (cx_reserve_a ctx, cx_reserve_b ctx)
      else (cx_reserve_b ctx, cx_reserve_a ctx))"

definition cpmm_after_fee :: "cpmm_context \<Rightarrow> u64 \<Rightarrow> u64" where
  "cpmm_after_fee ctx amount =
     sat_sub amount (raydium_cpmm_fee_amount amount (cc_trade_fee_rate (cx_config ctx)))"

definition cpmm_creator_fee :: "cpmm_context \<Rightarrow> u64 \<Rightarrow> u64" where
  "cpmm_creator_fee ctx out =
     (if cp_enable_creator_fee (cx_pool ctx)
      then raydium_cpmm_fee_amount out (cc_creator_fee_rate (cx_config ctx)) else 0)"

lemma cpmm_quote_value:
  assumes "raydium_cpmm_quote_exact_input ctx m a s = Inr (x, min_out)" "a \<noteq> 0"
    and "cpmm_sides ctx m = (ri, ro)"
  shows "ri \<noteq> 0 \<and> ro \<noteq> 0 \<and> min_out = cpmm_apply_slippage_bps x s
     \<and> (\<exists>out. unat out = cp_out_capped (2 ^ 64 - 1) (unat ri) (unat ro) (unat (cpmm_after_fee ctx a))
          \<and> x = sat_sub out (cpmm_creator_fee ctx out))"
proof -
  let ?af = "cpmm_after_fee ctx a"
  let ?q = "(ucast ?af :: u128) * ucast ro div ucast (sat_add ri ?af)"
  have sides: "(if m = cp_token_0_mint (cx_pool ctx)
      then Inr (cx_reserve_a ctx, cx_reserve_b ctx)
      else if m = cp_token_1_mint (cx_pool ctx)
      then Inr (cx_reserve_b ctx, cx_reserve_a ctx) else Inl Quote_Mint_Mismatch)
     = (Inr (ri, ro) :: quote_failure + u64 \<times> u64)" and nz: "ri \<noteq> 0" "ro \<noteq> 0"
    using assms
    by (auto simp: raydium_cpmm_quote_exact_input_def raydium_cpmm_quote_exact_input_parts_def
        cpmm_sides_def Let_def split: if_splits)
  obtain out where out: "u64_of_u128 ?q = Inr out"
    and x: "x = sat_sub out (cpmm_creator_fee ctx out)" "min_out = cpmm_apply_slippage_bps x s"
    using assms(1,2) sides nz
    by (auto simp: raydium_cpmm_quote_exact_input_def raydium_cpmm_quote_exact_input_parts_def
        Let_def cpmm_after_fee_def cpmm_creator_fee_def split: if_splits)
  have "unat ?af * unat ro < 2 ^ 64 * 2 ^ 64"
    using unat_less_pow [of ?af] unat_less_pow [of ro] by (intro mult_strict_mono') auto
  then have "unat ?q = cp_out_capped (2 ^ 64 - 1) (unat ri) (unat ro) (unat ?af)"
    by (simp add: unat_div unat_word_ariths unat_ucast_128 unat_sat_add cp_out_capped_def)
  moreover have "unat out = unat ?q"
    using out by (auto simp: u64_of_u128_def unsigned_ucast_eq take_bit_nat_eq_self split: if_splits)
  ultimately have "unat out = cp_out_capped (2 ^ 64 - 1) (unat ri) (unat ro) (unat ?af)" by simp
  with nz x show ?thesis by blast
qed

lemma cpmm_quote_nothing [simp]: "raydium_cpmm_quote_exact_input ctx m 0 s = Inr (0, 0)"
  by (simp add: raydium_cpmm_quote_exact_input_def raydium_cpmm_quote_exact_input_parts_def)

lemma cpmm_after_fee_mono:
  assumes "unat (cc_trade_fee_rate (cx_config ctx)) \<le> 1000000" "a \<le> b"
  shows "unat (cpmm_after_fee ctx a) \<le> unat (cpmm_after_fee ctx b)"
proof -
  have "unat a \<le> unat b" using assms(2) by (simp add: word_le_nat_alt)
  from after_ceil_fee_mono [OF this assms(1)] show ?thesis
    by (simp add: cpmm_after_fee_def unat_sat_sub cpmm_fee_value(1) [OF assms(1)] cpmm_fee_def)
qed

lemma cpmm_net_out_mono:
  assumes "unat (cc_creator_fee_rate (cx_config ctx)) \<le> 1000000" "unat out \<le> unat out'"
  shows "unat (sat_sub out (cpmm_creator_fee ctx out))
       \<le> unat (sat_sub out' (cpmm_creator_fee ctx out'))"
proof (cases "cp_enable_creator_fee (cx_pool ctx)")
  case True
  from after_ceil_fee_mono [OF assms(2,1)] True show ?thesis
    by (simp add: cpmm_creator_fee_def unat_sat_sub cpmm_fee_value(1) [OF assms(1)] cpmm_fee_def)
qed (use assms(2) in \<open>simp add: cpmm_creator_fee_def unat_sat_sub\<close>)

text \<open>A CPMM pool keeps the contract when its fees are at most the whole.\<close>

definition cpmm_rates_ok :: "cpmm_context \<Rightarrow> bool" where
  "cpmm_rates_ok ctx \<longleftrightarrow>
     cc_trade_fee_rate (cx_config ctx) \<le> 1000000 \<and> cc_creator_fee_rate (cx_config ctx) \<le> 1000000"

lemma cpmm_expected_out_quote:
  "cpmm_expected_out ctx m a = Inr x \<longleftrightarrow>
     (\<exists>min_out. raydium_cpmm_quote_exact_input ctx m a 0 = Inr (x, min_out))"
  by (auto simp: cpmm_expected_out_def)

lemma cpmm_pool_quote:
  assumes "cpmm_rates_ok ctx"
  shows "pool_quote (cpmm_expected_out ctx m) (snd (cpmm_sides ctx m))"
proof unfold_locales
  have rates: "unat (cc_trade_fee_rate (cx_config ctx)) \<le> 1000000"
    "unat (cc_creator_fee_rate (cx_config ctx)) \<le> 1000000"
    using assms by (simp_all add: cpmm_rates_ok_def word_le_nat_alt)
  obtain ri ro where sides: "cpmm_sides ctx m = (ri, ro)" by (meson surj_pair)
  have net_out: "\<exists>out. unat out = cp_out_capped (2 ^ 64 - 1) (unat ri) (unat ro) (unat (cpmm_after_fee ctx a))
        \<and> x = sat_sub out (cpmm_creator_fee ctx out)"
    if "cpmm_expected_out ctx m a = Inr x" "a \<noteq> 0" for a x
    using that cpmm_quote_value [OF _ that(2) sides] by (auto simp: cpmm_expected_out_quote)
  show "x \<le> y" if q: "cpmm_expected_out ctx m a = Inr x" "cpmm_expected_out ctx m b = Inr y"
    "a \<le> b" for a b x y
  proof (cases "a = 0")
    case True
    then show ?thesis using q(1) by (simp add: cpmm_expected_out_def)
  next
    case False
    then have "b \<noteq> 0" using q(3) by auto
    obtain out out' where
      o: "unat out = cp_out_capped (2 ^ 64 - 1) (unat ri) (unat ro) (unat (cpmm_after_fee ctx a))"
        "x = sat_sub out (cpmm_creator_fee ctx out)"
      and o': "unat out' = cp_out_capped (2 ^ 64 - 1) (unat ri) (unat ro) (unat (cpmm_after_fee ctx b))"
        "y = sat_sub out' (cpmm_creator_fee ctx out')"
      using net_out [OF q(1) False] net_out [OF q(2) \<open>b \<noteq> 0\<close>] by blast
    have "unat out \<le> unat out'"
      unfolding o(1) o'(1) by (rule cp_out_capped_mono [OF cpmm_after_fee_mono [OF rates(1) q(3)]]) simp
    then show ?thesis
      unfolding o(2) o'(2) word_le_nat_alt by (rule cpmm_net_out_mono [OF rates(2)])
  qed
  show "cpmm_expected_out ctx m 0 = Inr 0" by (simp add: cpmm_expected_out_def)
  show "x \<le> snd (cpmm_sides ctx m)" if q: "cpmm_expected_out ctx m a = Inr x" for a x
  proof (cases "a = 0")
    case False
    obtain out where o: "unat out = cp_out_capped (2 ^ 64 - 1) (unat ri) (unat ro) (unat (cpmm_after_fee ctx a))"
        "x = sat_sub out (cpmm_creator_fee ctx out)"
      using net_out [OF q False] by blast
    have "unat out \<le> unat ro" unfolding o(1) by (rule cp_out_capped_le) simp
    then have "unat x \<le> unat ro" by (simp add: o(2) unat_sat_sub)
    then show ?thesis by (simp add: sides word_le_nat_alt)
  qed (use q in \<open>simp add: cpmm_expected_out_def\<close>)
qed

text \<open>
  The amount a CPMM sale is resolved to never exceeds the balance; for a wanted SOL output it
  is the smallest amount whose expected output, after the pool's fees and the wrapper's, reaches
  it, provided the pool's fee rates are at most the whole amount.
\<close>

theorem cpmm_sell_amount_least:
  assumes "cpmm_sell_amount env ctx token_mint balance intent = Inr amount"
    and "cpmm_rates_ok ctx"
  shows "amount \<le> balance \<and>
     (case intent of
        Sell_Percent v \<Rightarrow> \<exists>bps. cpmm_parse_percent_to_bps (env_f64 env) v = Inr bps
          \<and> 1 \<le> bps \<and> bps \<le> 10000 \<and> unat amount = unat balance * unat bps div 10000
      | Sell_Sol_Output v \<Rightarrow> \<exists>target. cpmm_parse_decimal_units v 9 ''sellOutputSol'' = Inr target
          \<and> (\<exists>q. net_quote (env_wrapper_fee_bps env) (cpmm_expected_out ctx token_mint) amount = Inr q
               \<and> target \<le> q)
          \<and> (\<forall>b q. 0 < b \<longrightarrow> b < amount \<longrightarrow>
               net_quote (env_wrapper_fee_bps env) (cpmm_expected_out ctx token_mint) b = Inr q \<longrightarrow> q < target))"
proof (cases intent)
  case (Sell_Percent v)
  obtain bps where p: "cpmm_parse_percent_to_bps (env_f64 env) v = Inr bps"
    and a: "amount = cpmm_percent_of_balance balance bps"
    using assms(1) Sell_Percent by (auto simp: cpmm_sell_amount_def)
  obtain x where hx: "bps = f64_hundredths (env_f64 env) 1 x"
    using p by (auto simp: cpmm_parse_percent_to_bps_def split: option.splits f64.splits if_splits)
  define h where "h = max 1 (min 10000 (f64_round_to_nat (f64_mul (env_f64 env) x 100)))"
  have h1: "1 \<le> h" "h \<le> 10000" by (simp_all add: h_def)
  have ub: "unat bps = h"
  proof -
    have "bps = of_nat h" by (simp only: hx f64_hundredths_def h_def)
    then show ?thesis using h1(2) by (simp add: unat_of_nat_u64)
  qed
  have bps: "1 \<le> bps" "bps \<le> 10000" using h1 by (simp_all add: word_le_nat_alt ub)
  have le: "unat balance * h div 10000 \<le> unat balance"
  proof -
    have "unat balance * h div 10000 \<le> unat balance * 10000 div 10000"
      using h1(2) by (intro div_le_mono mult_le_mono2)
    then show ?thesis by simp
  qed
  have "unat balance * h < 2 ^ 64 * 10001"
    using unat_less_pow [of balance] h1(2) by (intro mult_strict_mono) auto
  then have "unat ((ucast balance :: u128) * ucast bps div 10000) = unat balance * h div 10000"
    by (simp add: unat_div unat_word_ariths unat_ucast_128 ub)
  moreover have "unat balance * h div 10000 < 2 ^ 64" by (rule le_less_trans [OF le]) simp
  ultimately have v: "unat amount = unat balance * h div 10000"
    using le unat_le_u64 [of balance]
    by (simp add: a cpmm_percent_of_balance_def unsigned_ucast_eq take_bit_nat_eq_self unat_min
        unat_ucast_128 unat_max_word min_absorb1 del: unat_le_u64)
  show ?thesis using Sell_Percent p bps v le by (simp add: word_le_nat_alt ub)
next
  case (Sell_Sol_Output v)
  obtain target where t: "cpmm_parse_decimal_units v 9 ''sellOutputSol'' = Inr target"
    and s: "sized_sell_amount balance target
              (net_quote (env_wrapper_fee_bps env) (cpmm_expected_out ctx token_mint)) = Inr amount"
    using assms(1) Sell_Sol_Output by (auto simp: cpmm_sell_amount_def)
  show ?thesis
    using pool_quote.sized_sell_least [OF cpmm_pool_quote [OF assms(2)] s] t Sell_Sol_Output by simp
qed

text \<open>
  A swap quoted by the CPMM formula leaves the product of the reserves at least as large,
  whatever the fee rates, as long as the deposit fits the 64 bits of a reserve.
\<close>

theorem cpmm_quote_keeps_product:
  assumes "raydium_cpmm_quote_exact_input ctx m a s = Inr (x, min_out)"
    and "cpmm_sides ctx m = (ri, ro)" "unat ri + unat a < 2 ^ 64" "0 < ro"
  shows "x < ro \<and> unat ri * unat ro \<le> (unat ri + unat a) * (unat ro - unat x) \<and> min_out \<le> x"
proof (cases "a = 0")
  case True
  then show ?thesis using assms by auto
next
  case False
  obtain out where nz: "ri \<noteq> 0" and m: "min_out = cpmm_apply_slippage_bps x s"
    and o: "unat out = cp_out_capped (2 ^ 64 - 1) (unat ri) (unat ro) (unat (cpmm_after_fee ctx a))"
      "x = sat_sub out (cpmm_creator_fee ctx out)"
    using cpmm_quote_value [OF assms(1) False assms(2)] by blast
  let ?af = "unat (cpmm_after_fee ctx a)"
  have af: "?af \<le> unat a" by (simp add: cpmm_after_fee_def unat_sat_sub)
  have out: "unat out = cp_out (unat ri) (unat ro) ?af"
    unfolding o(1) by (rule cp_out_capped_eq) (use af assms(3) in simp)
  have xo: "unat x \<le> unat out" by (simp add: o(2) unat_sat_sub)
  have less: "unat out < unat ro"
    unfolding out by (rule cp_out_less) (use nz assms(4) in \<open>simp_all add: unat_pos_iff word_gt_0\<close>)
  have "unat ri * unat ro \<le> (unat ri + ?af) * (unat ro - unat out)"
    unfolding out by (rule cp_out_keeps_product)
  also have "\<dots> \<le> (unat ri + unat a) * (unat ro - unat x)"
    using af xo by (intro mult_le_mono) auto
  finally have "unat ri * unat ro \<le> (unat ri + unat a) * (unat ro - unat x)" .
  moreover have "min_out \<le> x"
  proof -
    have k: "unat (sat_sub 10000 (min s 10000)) \<le> 10000" by (simp add: unat_sat_sub)
    have le: "unat x * unat (sat_sub 10000 (min s 10000)) div 10000 \<le> unat x"
    proof -
      have "unat x * unat (sat_sub 10000 (min s 10000)) div 10000 \<le> unat x * 10000 div 10000"
        using k by (intro div_le_mono mult_le_mono2)
      then show ?thesis by simp
    qed
    have "unat x * unat (sat_sub 10000 (min s 10000)) < 2 ^ 64 * 10001"
      using unat_less_pow [of x] k by (intro mult_strict_mono) auto
    then have d: "unat ((ucast x :: u128) * ucast (sat_sub 10000 (min s 10000)) div 10000)
        = unat x * unat (sat_sub 10000 (min s 10000)) div 10000"
      by (simp add: unat_div unat_word_ariths unat_ucast_128)
    have "unat (min ((ucast x :: u128) * ucast (sat_sub 10000 (min s 10000)) div 10000) (ucast (max_word :: u64)))
        \<le> unat x" using le by (simp add: unat_min d)
    then have "unat (ucast (min ((ucast x :: u128) * ucast (sat_sub 10000 (min s 10000)) div 10000)
        (ucast (max_word :: u64))) :: u64) \<le> unat x"
      by (rule order_trans [rotated]) (simp add: unsigned_ucast_eq take_bit_eq_mod)
    then show ?thesis
      unfolding m cpmm_apply_slippage_bps_def Let_def
      by (auto simp: word_le_nat_alt unat_pos_iff word_less_nat_alt Suc_le_eq)
  qed
  ultimately show ?thesis using xo less by (simp add: word_less_nat_alt)
qed

section \<open>Compiled trades\<close>

text \<open>
  The part of a compiled trade that moves money: a wrapped SOL account is opened with \<open>funding\<close>,
  one swap pays \<open>amount\<close> in for at least \<open>min_out\<close>, which is not nothing, and the account is
  closed to the owner afterwards.
\<close>

definition cpmm_swaps ::
  "venue_env \<Rightarrow> cpmm_context \<Rightarrow> pubkey \<Rightarrow> pubkey \<Rightarrow> pubkey \<Rightarrow> pubkey \<Rightarrow> pubkey \<Rightarrow> u64 \<Rightarrow> u64 \<Rightarrow> u64
     \<Rightarrow> instruction list \<Rightarrow> bool" where
  "cpmm_swaps env ctx owner input_mint output_mint user_in user_out funding slippage amount ixs \<longleftrightarrow>
     (\<exists>expected min_out swap close token_program.
        raydium_cpmm_quote_exact_input ctx input_mint amount slippage = Inr (expected, min_out)
        \<and> 0 < min_out \<and> 0 < amount
        \<and> build_raydium_cpmm_swap_exact_in_instruction env owner ctx user_in user_out amount min_out
             input_mint output_mint = Inr swap
        \<and> ix_close_account (env_tokens env) token_program (env_new_key env) owner owner = Some close
        \<and> subseq [ix_create_account (env_tokens env) owner (env_new_key env) funding
                    spl_token_account_len token_program, swap, close] ixs)"

lemma open_shape:
  assumes "wrapped_sol_open_instructions env owner temp lamports wsol program sync = Inr ixs"
  shows "\<exists>rest. ixs = ix_create_account (env_tokens env) owner temp lamports spl_token_account_len program # rest"
  using assms by (auto simp: wrapped_sol_open_instructions_def)

lemma cpmm_buy_shape:
  assumes "cpmm_buy_instructions env request owner ctx = Inr ixs"
  shows "\<exists>token_mint token_program quote_program raw amount slippage rent funding.
     cpmm_token_and_quote_programs ctx = Inr (token_mint, token_program, quote_program)
     \<and> buy_amount_sol request = Some raw \<and> cpmm_parse_decimal_units raw 9 ''buyAmountSol'' = Inr amount
     \<and> cpmm_parse_slippage_bps (env_f64 env) (Some (slippage_percent (policy request))) = Inr slippage
     \<and> env_rent_lamports env = Inr rent \<and> unat funding = unat rent + unat amount
     \<and> cpmm_swaps env ctx owner (cx_quote_mint ctx) token_mint (env_new_key env)
         (associated_token_address (env_tokens env) owner token_mint token_program) funding slippage amount ixs"
proof -
  obtain token_mint token_program quote_program raw amount slippage expected min_out rent prefix funding
      open_ixs swap close where
    a: "cpmm_token_and_quote_programs ctx = Inr (token_mint, token_program, quote_program)"
      "buy_amount_sol request = Some raw" "cpmm_parse_decimal_units raw 9 ''buyAmountSol'' = Inr amount"
      "cpmm_parse_slippage_bps (env_f64 env) (Some (slippage_percent (policy request))) = Inr slippage"
      "env_rent_lamports env = Inr rent"
    and q: "raydium_cpmm_quote_exact_input ctx (cx_quote_mint ctx) amount slippage = Inr (expected, min_out)"
    and nz: "min_out \<noteq> 0" "amount \<noteq> 0"
    and f: "checked_add rent amount = Some funding"
    and o: "wrapped_sol_open_instructions env owner (env_new_key env) funding wsol_mint_id quote_program True
              = Inr open_ixs"
    and sw: "build_raydium_cpmm_swap_exact_in_instruction env owner ctx (env_new_key env)
               (associated_token_address (env_tokens env) owner token_mint token_program) amount min_out
               (cx_quote_mint ctx) token_mint = Inr swap"
    and c: "wrapped_sol_close_instruction env quote_program owner (env_new_key env) = Inr close"
    and ixs: "ixs = prefix @ ix_create_ata_idempotent (env_tokens env) owner owner token_mint token_program
                 # open_ixs @ [swap, close]"
    using assms by (auto simp: cpmm_buy_instructions_def Let_def split: if_splits)
  obtain rest where r: "open_ixs = ix_create_account (env_tokens env) owner (env_new_key env) funding
      spl_token_account_len quote_program # rest"
    using open_shape [OF o] by blast
  have "subseq [ix_create_account (env_tokens env) owner (env_new_key env) funding
      spl_token_account_len quote_program, swap, close] ixs"
    by (simp add: ixs r list_emb_append2)
  moreover have "ix_close_account (env_tokens env) quote_program (env_new_key env) owner owner = Some close"
    using c by (simp add: wrapped_sol_close_instruction_def)
  ultimately have "cpmm_swaps env ctx owner (cx_quote_mint ctx) token_mint (env_new_key env)
         (associated_token_address (env_tokens env) owner token_mint token_program) funding slippage amount ixs"
    using q sw nz unfolding cpmm_swaps_def word_gt_0 by blast
  then show ?thesis using a checked_add_Some [OF f] by blast
qed

lemma cpmm_sell_shape:
  assumes "cpmm_sell_instructions env request wallet_id owner ctx = Inr ixs"
  shows "\<exists>token_mint token_program quote_program intent balance amount slippage rent.
     cpmm_token_and_quote_programs ctx = Inr (token_mint, token_program, quote_program)
     \<and> sell_intent request = Some intent
     \<and> env_token_balance env wallet_id (env_pubkey_text env owner) (env_pubkey_text env token_mint)
         (cpmm_token_decimals ctx token_mint) = Inr balance
     \<and> cpmm_sell_amount env ctx token_mint balance intent = Inr amount
     \<and> cpmm_parse_slippage_bps (env_f64 env) (Some (slippage_percent (policy request))) = Inr slippage
     \<and> env_rent_lamports env = Inr rent
     \<and> cpmm_swaps env ctx owner token_mint (cx_quote_mint ctx)
         (associated_token_address (env_tokens env) owner token_mint token_program) (env_new_key env)
         rent slippage amount ixs"
proof -
  obtain token_mint token_program quote_program intent balance amount slippage expected min_out rent prefix
      open_ixs swap close where
    a: "cpmm_token_and_quote_programs ctx = Inr (token_mint, token_program, quote_program)"
      "sell_intent request = Some intent"
      "env_token_balance env wallet_id (env_pubkey_text env owner) (env_pubkey_text env token_mint)
         (cpmm_token_decimals ctx token_mint) = Inr balance"
      "cpmm_sell_amount env ctx token_mint balance intent = Inr amount"
      "cpmm_parse_slippage_bps (env_f64 env) (Some (slippage_percent (policy request))) = Inr slippage"
      "env_rent_lamports env = Inr rent"
    and q: "raydium_cpmm_quote_exact_input ctx token_mint amount slippage = Inr (expected, min_out)"
    and nz: "min_out \<noteq> 0" "amount \<noteq> 0"
    and o: "wrapped_sol_open_instructions env owner (env_new_key env) rent wsol_mint_id quote_program True
              = Inr open_ixs"
    and sw: "build_raydium_cpmm_swap_exact_in_instruction env owner ctx
               (associated_token_address (env_tokens env) owner token_mint token_program) (env_new_key env)
               amount min_out token_mint (cx_quote_mint ctx) = Inr swap"
    and c: "wrapped_sol_close_instruction env quote_program owner (env_new_key env) = Inr close"
    and ixs: "ixs = prefix @ open_ixs @ [swap, close]"
    using assms by (auto simp: cpmm_sell_instructions_def Let_def split: if_splits)
  obtain rest where r: "open_ixs = ix_create_account (env_tokens env) owner (env_new_key env) rent
      spl_token_account_len quote_program # rest"
    using open_shape [OF o] by blast
  have "subseq [ix_create_account (env_tokens env) owner (env_new_key env) rent
      spl_token_account_len quote_program, swap, close] ixs"
    by (simp add: ixs r list_emb_append2)
  moreover have "ix_close_account (env_tokens env) quote_program (env_new_key env) owner owner = Some close"
    using c by (simp add: wrapped_sol_close_instruction_def)
  ultimately have "cpmm_swaps env ctx owner token_mint (cx_quote_mint ctx)
         (associated_token_address (env_tokens env) owner token_mint token_program) (env_new_key env)
         rent slippage amount ixs"
    using q sw nz unfolding cpmm_swaps_def word_gt_0 by blast
  then show ?thesis using a by blast
qed

lemma cpmm_swaps_more:
  assumes "cpmm_swaps env ctx owner i o' ui uo funding slippage amount ixs" "subseq ixs all"
  shows "cpmm_swaps env ctx owner i o' ui uo funding slippage amount all"
  using assms unfolding cpmm_swaps_def by (meson subseq_order.order_trans)


lemma two_of_list:
  "(case xs of [a, b] \<Rightarrow> f a b | _ \<Rightarrow> Inl e) = Inr y \<longleftrightarrow> (\<exists>a b. xs = [a, b] \<and> f a b = Inr y)"
  by (auto split: list.splits)

lemma cpmm_context_parts:
  assumes "build_raydium_cpmm_pool_context_from_parts env pool config quote_key c = Inr ctx"
  shows "\<exists>vault_a vault_b amount_a amount_b.
     env_accounts env [env_pubkey_text env (cp_vault_a pool), env_pubkey_text env (cp_vault_b pool)] c
         = Inr [Some vault_a, Some vault_b]
     \<and> token_account_amount vault_a = Inr amount_a \<and> token_account_amount vault_b = Inr amount_b
     \<and> ctx = \<lparr>cx_pool = pool, cx_config = config,
          cx_reserve_a = net_cpmm_reserve amount_a (cp_protocol_fees_mint_a pool) (cp_fund_fees_mint_a pool)
            (if cp_enable_creator_fee pool then cp_creator_fees_mint_a pool else 0),
          cx_reserve_b = net_cpmm_reserve amount_b (cp_protocol_fees_mint_b pool) (cp_fund_fees_mint_b pool)
            (if cp_enable_creator_fee pool then cp_creator_fees_mint_b pool else 0),
          cx_quote_mint = quote_key\<rparr>"
  using assms
  by (simp add: build_raydium_cpmm_pool_context_from_parts_def two_of_list Let_def split: if_splits) blast+


section \<open>Examples\<close>

definition sample_cpmm_pool :: cpmm_pool_state where
  "sample_cpmm_pool =
     \<lparr>cp_pool_id = sample_key 53, cp_config_id = sample_key 52, cp_vault_a = sample_key 50,
      cp_vault_b = sample_key 51, cp_token_0_mint = sample_key 32, cp_token_1_mint = wsol_mint_id,
      cp_token_0_program = sample_key 4, cp_token_1_program = sample_key 4,
      cp_observation_id = sample_key 54, cp_mint_decimals_a = 6, cp_mint_decimals_b = 9,
      cp_protocol_fees_mint_a = 100, cp_protocol_fees_mint_b = 200, cp_fund_fees_mint_a = 10,
      cp_fund_fees_mint_b = 20, cp_enable_creator_fee = True, cp_creator_fees_mint_a = 5,
      cp_creator_fees_mint_b = 7\<rparr>"

definition sample_cpmm_pool_data :: bytes where
  "sample_cpmm_pool_data =
     replicate 8 0 @ sample_key 52 @ sample_key 0 @ sample_key 50 @ sample_key 51 @ sample_key 0
     @ sample_key 32 @ wsol_mint_id @ sample_key 4 @ sample_key 4 @ sample_key 54
     @ [1, 0, 9, 6, 9] @ u64_to_le_bytes 0 @ u64_to_le_bytes 100 @ u64_to_le_bytes 200
     @ u64_to_le_bytes 10 @ u64_to_le_bytes 20 @ u64_to_le_bytes 0 @ u64_to_le_bytes 0 @ [0, 1]
     @ replicate 6 0 @ u64_to_le_bytes 5 @ u64_to_le_bytes 7"

definition sample_cpmm_context :: cpmm_context where
  "sample_cpmm_context =
     \<lparr>cx_pool = sample_cpmm_pool, cx_config = \<lparr>cc_trade_fee_rate = 2500, cc_creator_fee_rate = 1000\<rparr>,
      cx_reserve_a = 39999999885, cx_reserve_b = 29999999773, cx_quote_mint = wsol_mint_id\<rparr>"

definition sample_cpmm_env :: venue_env where
  "sample_cpmm_env =
     sample_venue_env\<lparr>env_account_data := \<lambda>_ _. Inr sample_cpmm_pool_data,
      env_accounts := \<lambda>_ _. Inr [Some (sample_token_account 40000000000), Some (sample_token_account 30000000000)]\<rparr>"

definition sample_cpmm_request :: "trade_side \<Rightarrow> unit trade_runtime_request" where
  "sample_cpmm_request side =
     (sample_trade_request side (sample_key 32))\<lparr>policy := sample_policy\<lparr>fee_sol := ''0''\<rparr>\<rparr>"

lemma sample_cpmm_env_fields [simp]:
  "env_sdk sample_cpmm_env = env_sdk sample_venue_env"
  "env_pubkey_text sample_cpmm_env = env_pubkey_text sample_venue_env"
  "venue_key sample_cpmm_env = venue_key sample_venue_env"
  "env_wallet sample_cpmm_env w = Inr (sample_key 20)"
  "env_rent_lamports sample_cpmm_env = Inr 2039280"
  "env_var sample_cpmm_env = (\<lambda>_. None)"
  "env_sign sample_cpmm_env = env_sign sample_venue_env"
  "env_tokens sample_cpmm_env = sample_tokens"
  "env_new_key sample_cpmm_env = sample_key 21"
  "env_spl_token_id sample_cpmm_env = sample_key 4"
  "env_f64 sample_cpmm_env = env_f64 sample_venue_env"
  "env_token_balance sample_cpmm_env w o' m d = Inr 5000"
  "env_account_data sample_cpmm_env a c = Inr sample_cpmm_pool_data"
  "env_accounts sample_cpmm_env as c
     = Inr [Some (sample_token_account 40000000000), Some (sample_token_account 30000000000)]"
  by (simp_all add: sample_cpmm_env_def sample_venue_env_def venue_key_def fun_eq_iff)

lemmas cpmm_eval = cpmm_read_def map_error_def read_pubkey_def read_u64_def read_u8_def cpmm_read_bool_def
  slice_eval nth_append

lemma sample_cpmm_decoded:
  "decode_raydium_cpmm_pool (sample_key 53) sample_cpmm_pool_data = Inr sample_cpmm_pool"
  by (simp add: decode_raydium_cpmm_pool_def sample_cpmm_pool_data_def cpmm_eval sample_cpmm_pool_def)

text \<open>What a quote comes to, for the examples.\<close>

definition cpmm_net_out :: "cpmm_context \<Rightarrow> u64 \<Rightarrow> u64 \<Rightarrow> u64 \<Rightarrow> nat" where
  "cpmm_net_out ctx ri ro a =
     (let out = cp_out_capped (2 ^ 64 - 1) (unat ri) (unat ro)
                  (unat a - cpmm_fee a (cc_trade_fee_rate (cx_config ctx)))
      in out - (if cp_enable_creator_fee (cx_pool ctx)
                then (out * unat (cc_creator_fee_rate (cx_config ctx)) + 999999) div 1000000 else 0))"

lemma cpmm_quote_eval:
  assumes "m = cp_token_0_mint (cx_pool ctx) \<or> m = cp_token_1_mint (cx_pool ctx)"
    and "cpmm_sides ctx m = (ri, ro)" "ri \<noteq> 0" "ro \<noteq> 0" "a \<noteq> 0" "cpmm_rates_ok ctx"
  shows "raydium_cpmm_quote_exact_input ctx m a s
     = Inr (of_nat (cpmm_net_out ctx ri ro a), cpmm_apply_slippage_bps (of_nat (cpmm_net_out ctx ri ro a)) s)"
proof -
  let ?af = "cpmm_after_fee ctx a"
  let ?q = "(ucast ?af :: u128) * ucast ro div ucast (sat_add ri ?af)"
  have "unat ?af * unat ro < 2 ^ 64 * 2 ^ 64"
    using unat_less_pow [of ?af] unat_less_pow [of ro] by (intro mult_strict_mono') auto
  then have q: "unat ?q = cp_out_capped (2 ^ 64 - 1) (unat ri) (unat ro) (unat ?af)"
    by (simp add: unat_div unat_word_ariths unat_ucast_128 unat_sat_add cp_out_capped_def)
  have "unat ?q \<le> unat ro" unfolding q by (rule cp_out_capped_le) simp
  then have "unat ?q < 2 ^ 64" by (rule le_less_trans) simp
  then have "u64_of_u128 ?q = Inr (ucast ?q)" by (simp add: u64_of_u128_def)
  then have "raydium_cpmm_quote_exact_input ctx m a s \<noteq> Inl e" for e
    using assms(1-5)
    by (auto simp: raydium_cpmm_quote_exact_input_def raydium_cpmm_quote_exact_input_parts_def
        Let_def cpmm_after_fee_def cpmm_sides_def rbind_Inl_iff split: if_splits)
  then obtain x k where x: "raydium_cpmm_quote_exact_input ctx m a s = Inr (x, k)"
    by (metis sum.exhaust surj_pair)
  have rates: "unat (cc_trade_fee_rate (cx_config ctx)) \<le> 1000000"
    "unat (cc_creator_fee_rate (cx_config ctx)) \<le> 1000000"
    using assms(6) by (simp_all add: cpmm_rates_ok_def word_le_nat_alt)
  have af: "unat ?af = unat a - cpmm_fee a (cc_trade_fee_rate (cx_config ctx))"
    by (simp add: cpmm_after_fee_def unat_sat_sub cpmm_fee_value(1) [OF rates(1)])
  obtain out where o: "unat out = cp_out_capped (2 ^ 64 - 1) (unat ri) (unat ro) (unat ?af)"
    and xo: "x = sat_sub out (cpmm_creator_fee ctx out)" and k: "k = cpmm_apply_slippage_bps x s"
    using cpmm_quote_value [OF x assms(5,2)] by blast
  have "unat x = cpmm_net_out ctx ri ro a"
    using o by (simp add: xo unat_sat_sub cpmm_creator_fee_def cpmm_net_out_def Let_def
        cpmm_fee_value(1) [OF rates(2)] cpmm_fee_def af)
  then have "x = of_nat (cpmm_net_out ctx ri ro a)" by (metis word_of_nat_unat)
  with x k show ?thesis by simp
qed

lemma cpmm_slippage_zero: "cpmm_apply_slippage_bps x s = 0 \<longleftrightarrow> x = 0"
  by (auto simp: cpmm_apply_slippage_bps_def Let_def word_gt_0)

lemma sample_cpmm_fields:
  "cx_pool sample_cpmm_context = sample_cpmm_pool" "cx_quote_mint sample_cpmm_context = wsol_mint_id"
  "cx_reserve_a sample_cpmm_context = 39999999885" "cx_reserve_b sample_cpmm_context = 29999999773"
  "cc_trade_fee_rate (cx_config sample_cpmm_context) = 2500"
  "cc_creator_fee_rate (cx_config sample_cpmm_context) = 1000"
  "cp_token_0_mint sample_cpmm_pool = sample_key 32" "cp_token_1_mint sample_cpmm_pool = wsol_mint_id"
  "cp_token_0_program sample_cpmm_pool = sample_key 4" "cp_token_1_program sample_cpmm_pool = sample_key 4"
  "cp_enable_creator_fee sample_cpmm_pool"
  by (simp_all add: sample_cpmm_context_def sample_cpmm_pool_def)

lemma sample_cpmm_rates: "cpmm_rates_ok sample_cpmm_context"
  by (simp add: cpmm_rates_ok_def sample_cpmm_fields)

lemma sample_cpmm_sell_quote:
  "raydium_cpmm_quote_exact_input sample_cpmm_context (sample_key 32) 2500 s
     = Inr (1867, cpmm_apply_slippage_bps 1867 s)"
  by (subst cpmm_quote_eval [where ri = 39999999885 and ro = 29999999773])
    (simp_all add: sample_cpmm_fields sample_cpmm_rates cpmm_sides_def cpmm_net_out_def cpmm_fee_def
      cp_out_capped_def Let_def)

theorem cpmm_quote_keeps_product_witness:
  "raydium_cpmm_quote_exact_input sample_cpmm_context (sample_key 32) 2500 0
     = Inr (1867, cpmm_apply_slippage_bps 1867 0) \<and> (1867 :: u64) < 29999999773
   \<and> cpmm_apply_slippage_bps 1867 0 \<le> 1867"
proof -
  have "cpmm_sides sample_cpmm_context (sample_key 32) = (39999999885, 29999999773)"
    by (simp add: cpmm_sides_def sample_cpmm_fields)
  from cpmm_quote_keeps_product [OF sample_cpmm_sell_quote this] sample_cpmm_sell_quote show ?thesis
    by simp
qed

lemma f64_round_numeral: "f64_round_to_nat (numeral k) = numeral k"
proof -
  have "\<lfloor>of_int (numeral k) + 1 / 2 :: rat\<rfloor> = numeral k" unfolding floor_eq_iff by linarith
  then show ?thesis by (simp add: f64_round_to_nat_def)
qed

lemma sample_f64:
  "cpmm_parse_percent_to_bps (env_f64 sample_venue_env) ''50'' = Inr 5000"
  "cpmm_parse_slippage_bps (env_f64 sample_venue_env) (Some ''20'') = Inr 2000"
  by (simp_all add: cpmm_parse_percent_to_bps_def cpmm_parse_slippage_bps_def sample_venue_env_def
      f64_hundredths_def f64_round_numeral str_trim_def is_ws_def unwrap_or_def)

lemma sample_cpmm_half: "cpmm_sell_amount sample_cpmm_env sample_cpmm_context (sample_key 32) 5000 (Sell_Percent ''50'') = Inr 2500"
proof -
  have "unat (ucast (5000 :: u64) * ucast (5000 :: u64) div 10000 :: u128) = 2500"
    by (simp add: unat_div)
  then have "unat (cpmm_percent_of_balance 5000 5000) = 2500"
    unfolding cpmm_percent_of_balance_def
    by (simp add: unsigned_ucast_eq unat_min unat_ucast_128 unat_max_word)
  then show ?thesis
    by (simp add: cpmm_sell_amount_def sample_f64 unat_eq_iff)
qed

theorem cpmm_sell_amount_least_witness:
  "cpmm_sell_amount sample_cpmm_env sample_cpmm_context (sample_key 32) 5000 (Sell_Percent ''50'') = Inr 2500
   \<and> (2500 :: u64) \<le> 5000"
  using cpmm_sell_amount_least [OF sample_cpmm_half sample_cpmm_rates] sample_cpmm_half by simp

lemma sample_cpmm_bundle_pool:
  "cpmm_pool_from_runtime_bundle sample_cpmm_env (cpmm_bundle sample_cpmm_env sample_cpmm_context)
     = Inr sample_cpmm_pool"
  by (simp add: cpmm_pool_from_runtime_bundle_def cpmm_bundle_def Let_def sample_cpmm_fields
      venue_key_def)

lemma sample_cpmm_loads:
  "load_raydium_cpmm_pool_context_for_selector sample_cpmm_env
     (build_raydium_cpmm_selector sample_cpmm_env request sample_cpmm_context) wsol_mint_id c
     = Inr sample_cpmm_context"
proof -
  have b: "runtime_bundle (build_raydium_cpmm_selector sample_cpmm_env request sample_cpmm_context)
     = Some (Bundle_RaydiumCpmm (cpmm_bundle sample_cpmm_env sample_cpmm_context))"
    by (simp add: build_raydium_cpmm_selector_def)
  have p: "cpmm_pool (cpmm_bundle sample_cpmm_env sample_cpmm_context) = sample_key_text (sample_key 53)"
    "cpmm_trade_fee_rate (cpmm_bundle sample_cpmm_env sample_cpmm_context) = 2500"
    "cpmm_creator_fee_rate (cpmm_bundle sample_cpmm_env sample_cpmm_context) = 1000"
    by (simp_all add: cpmm_bundle_def Let_def sample_cpmm_context_def sample_cpmm_pool_def)
  have "sample_cpmm_pool\<lparr>cp_protocol_fees_mint_a := cp_protocol_fees_mint_a sample_cpmm_pool,
                    cp_protocol_fees_mint_b := cp_protocol_fees_mint_b sample_cpmm_pool,
                    cp_fund_fees_mint_a := cp_fund_fees_mint_a sample_cpmm_pool,
                    cp_fund_fees_mint_b := cp_fund_fees_mint_b sample_cpmm_pool,
                    cp_enable_creator_fee := cp_enable_creator_fee sample_cpmm_pool,
                    cp_creator_fees_mint_a := cp_creator_fees_mint_a sample_cpmm_pool,
                    cp_creator_fees_mint_b := cp_creator_fees_mint_b sample_cpmm_pool\<rparr> = sample_cpmm_pool"
    by simp
  moreover have "build_raydium_cpmm_pool_context_from_parts sample_cpmm_env sample_cpmm_pool
      \<lparr>cc_trade_fee_rate = 2500, cc_creator_fee_rate = 1000\<rparr> wsol_mint_id c = Inr sample_cpmm_context"
    by (simp add: build_raydium_cpmm_pool_context_from_parts_def sample_cpmm_fields Let_def
        sample_cpmm_context_def)
      (simp add: sample_cpmm_pool_def net_cpmm_reserve_def sat_sub_def)
  moreover have "same_cpmm_metadata sample_cpmm_pool sample_cpmm_pool"
    by (simp add: same_cpmm_metadata_def)
  ultimately show ?thesis
    by (simp add: load_raydium_cpmm_pool_context_for_selector_def b p venue_key_def sample_cpmm_decoded
        sample_cpmm_bundle_pool)
qed


lemma sample_cpmm_fee_zero: "cpmm_priority_fee_sol_to_micro_lamports ''0'' = Inr 0"
  by (simp add: cpmm_priority_fee_sol_to_micro_lamports_def cpmm_parse_decimal_units_def decimal_eval
      Let_def unwrap_or_def replicate_numeral_eq checked_mul_def checked_add_def)

lemma sample_cpmm_sells:
  "\<exists>trade. compile_raydium_cpmm_trade sample_cpmm_env
     (build_raydium_cpmm_selector sample_cpmm_env request sample_cpmm_context)
     (sample_cpmm_request Sell) w = Inr trade"
proof -
  let ?env = "sample_cpmm_env"
  let ?request = "sample_cpmm_request Sell"
  have pol: "provider (policy ?request) = ''standard-rpc''" "slippage_percent (policy ?request) = ''20''"
    "fee_sol (policy ?request) = ''0''"
    by (simp_all add: sample_cpmm_request_def sample_policy_def)
  have req: "request_side ?request = Sell" "sell_intent ?request = Some (Sell_Percent ''50'')"
    "request_mint ?request = sample_key_text (sample_key 32)"
    by (simp_all add: sample_cpmm_request_def sample_trade_request_def)
  have mint: "venue_key ?env (request_mint ?request) l = Inr (sample_key 32)" for l
    by (simp add: req venue_key_def)
  have valid: "validate_cpmm_context_for_mint ?env sample_cpmm_context (sample_key 32) = Inr ()"
    by (simp add: validate_cpmm_context_for_mint_def validate_cpmm_token_programs_def Let_def
        sample_cpmm_fields)
  have programs: "cpmm_token_and_quote_programs sample_cpmm_context
      = Inr (sample_key 32, sample_key 4, sample_key 4)"
    by (simp add: cpmm_token_and_quote_programs_def Let_def sample_cpmm_fields)
  have prefix: "\<exists>b. raydium_cpmm_prefix_instructions ?env (policy ?request) l = Inr b" for l
    by (simp add: raydium_cpmm_prefix_instructions_def compute_unit_limit_instruction_def
        compute_budget_program_def sample_known pol sample_cpmm_fee_zero)
  have auth: "\<exists>a. raydium_cpmm_pool_authority ?env = Inr a" "cpmm_program_id ?env = Inr (sample_key 9)"
    by (simp_all add: raydium_cpmm_pool_authority_def cpmm_program_id_def cpmm_program_text_def sample_known)
  have swap: "\<exists>s. build_raydium_cpmm_swap_exact_in_instruction ?env o' sample_cpmm_context ui uo a m
      (sample_key 32) wsol_mint_id = Inr s" for o' ui uo a m
    using auth by (auto simp: build_raydium_cpmm_swap_exact_in_instruction_def Let_def sample_cpmm_fields)
  have nz: "cpmm_apply_slippage_bps 1867 2000 \<noteq> 0" by (simp add: cpmm_slippage_zero)
  have "\<exists>ixs. cpmm_sell_instructions ?env ?request w (sample_key 20) sample_cpmm_context = Inr ixs"
    using prefix [of raydium_cpmm_compute_unit_limit]
      swap [of "sample_key 20" "associated_token_address sample_tokens (sample_key 20) (sample_key 32) (sample_key 4)"
         "sample_key 21" 2500 "cpmm_apply_slippage_bps 1867 2000"] nz
    by (auto simp: cpmm_sell_instructions_def Let_def programs req pol sample_cpmm_half sample_f64
        sample_cpmm_sell_quote sample_cpmm_fields map_error_def wrapped_sol_open_instructions_def
        wrapped_sol_close_instruction_def sample_tokens_def)
  moreover have "cpmm_inline_tip ?env (policy ?request) owner = Inr None" for owner
    by (simp add: cpmm_inline_tip_def pol sample_no_tip)
  moreover have "\<exists>t. finish_transaction ?env (Inr None) (policy ?request) owner extra ixs label limit price
      = Inr t" for owner extra ixs label limit price
    by (rule sample_finish) (simp_all add: pol)
  moreover have "family (build_raydium_cpmm_selector ?env request sample_cpmm_context) = RaydiumCpmm"
    by (simp add: build_raydium_cpmm_selector_def)
  ultimately show ?thesis
    using valid mint
    unfolding compile_raydium_cpmm_trade_def compile_cpmm_sell_transaction_def
      finalize_raydium_cpmm_transaction_def
    by (simp add: sample_cpmm_loads req(1) pol sample_cpmm_fee_zero) metis
qed


end
