(* ===== verification/Venue_Texts.thy ===== *)
theory Venue_Texts
  imports Raydium_Cpmm
begin

text \<open>
  How the venues read amounts of SOL: the two readers agree on every amount the automatic fees
  print, and differ on texts nothing in the program prints.
\<close>

section \<open>Digit strings\<close>

lemma unsigned_digits_id: "list_all is_digit s \<Longrightarrow> s \<noteq> [] \<Longrightarrow> unsigned_digits s = s"
  by (cases s) (auto simp: unsigned_digits_def is_digit_def)

lemma parse_u128_digits:
  "list_all is_digit s \<Longrightarrow> s \<noteq> [] \<Longrightarrow> digits_value s < 2 ^ 128
   \<Longrightarrow> parse_u128 s = Some (of_nat (digits_value s))"
  by (simp add: parse_u128_def Let_def unsigned_digits_id)

text \<open>The two readers on a whole part and a fraction of at most nine digits.\<close>

lemma decimal_units_parts:
  assumes s: "str_trim s = s" "s \<noteq> []" "split_on CHR ''.'' s = W # ps" "length ps \<le> 1"
    and F: "F = (case ps of [] \<Rightarrow> [] | f # _ \<Rightarrow> f)" "list_all is_digit F" "length F \<le> 9"
    and W: "W \<noteq> []" "list_all is_digit W"
    and l: "digits_value W * 10 ^ 9 + digits_value (F @ replicate (9 - length F) CHR ''0'') = unat l"
  shows "parse_decimal_units s 9 label = Inr l"
proof -
  let ?P = "F @ replicate (9 - length F) CHR ''0''"
  have P: "list_all is_digit ?P" using F(2) by simp
  have l64: "unat l < 2 ^ 64" by simp
  have w1: "digits_value W * 10 ^ 9 < 2 ^ 64" using l l64 by linarith
  then have w: "digits_value W * 10 ^ 9 < 2 ^ 64" "digits_value W < 2 ^ 64"
    by (simp_all add: le_less_trans [OF _ w1])
  have p: "digits_value ?P < 2 ^ 64" using l l64 by linarith
  have pw: "parse_u128 W = Some (of_nat (digits_value W))"
    by (rule parse_u128_digits [OF W(2,1)]) (use w(2) in simp)
  have pp: "?P \<noteq> [] \<Longrightarrow> parse_u128 ?P = Some (of_nat (digits_value ?P))"
    by (rule parse_u128_digits [OF P]) (use p in simp_all)
  have frac: "(if F = [] then Inr 0 else ok_or (parse_u128 ?P) e) = (Inr (of_nat (digits_value ?P)) :: venue_error + u128)"
    for e using pp by simp
  have uw: "unat (of_nat (digits_value W) :: u128) = digits_value W"
    and up: "unat (of_nat (digits_value ?P) :: u128) = digits_value ?P"
    using w(2) p by (simp_all add: unat_of_nat)
  have mul: "checked_mul (of_nat (digits_value W) :: u128) 1000000000 = Some (of_nat (digits_value W) * 1000000000)"
    using w(1) by (simp add: checked_mul_def uw)
  have um: "unat (of_nat (digits_value W) * 1000000000 :: u128) = digits_value W * 1000000000"
    using w(1) by (simp add: unat_word_ariths uw)
  have add: "checked_add (of_nat (digits_value W) * 1000000000) (of_nat (digits_value ?P) :: u128)
      = Some (ucast l)"
  proof -
    have "digits_value W * 1000000000 + digits_value ?P < 2 ^ 64" using l l64 by simp
    then have "digits_value W * 1000000000 + digits_value ?P < 2 ^ 128"
      by (rule less_trans) simp
    moreover from this have "of_nat (digits_value W) * 1000000000 + of_nat (digits_value ?P) = (ucast l :: u128)"
      unfolding unat_eq_iff using l w(1) by (simp add: unat_word_ariths uw up unat_ucast_128)
    ultimately show ?thesis by (simp add: checked_add_def um up)
  qed
  have scaled: "parse_decimal_scaled s 9 label = Inr (ucast l)"
    using s F W frac pw mul add
    by (auto simp: parse_decimal_scaled_def Let_def)
  have "(ucast (ucast l :: u128) :: u64) = l"
    by (simp add: unat_eq_iff unsigned_ucast_eq take_bit_word_eq_self)
  then show ?thesis by (simp add: parse_decimal_units_def scaled unat_ucast_128)
qed

lemma cpmm_decimal_units_parts:
  assumes s: "str_trim s = s" "s \<noteq> []" "unwrap_or (s, []) (split_once CHR ''.'' s) = (W, F)"
    and F: "list_all is_digit F" "length F \<le> 9" and W: "W \<noteq> []" "list_all is_digit W"
    and l: "digits_value W * 10 ^ 9 + digits_value (F @ replicate (9 - length F) CHR ''0'') = unat l"
  shows "cpmm_parse_decimal_units s 9 label = Inr l"
proof -
  let ?P = "F @ replicate (9 - length F) CHR ''0''"
  have P: "list_all is_digit ?P" "?P \<noteq> []" using F by (auto simp: Cons_nth_drop_Suc)
  have l64: "unat l < 2 ^ 64" by simp
  have w1: "digits_value W * 10 ^ 9 < 2 ^ 64" using l l64 by linarith
  then have w: "digits_value W * 10 ^ 9 < 2 ^ 64" "digits_value W < 2 ^ 64"
    by (simp_all add: le_less_trans [OF _ w1])
  have p: "digits_value ?P < 2 ^ 64" using l l64 by linarith
  have pw: "parse_u64 W = Some (of_nat (digits_value W))"
    by (rule parse_u64_digits [OF W(2,1)]) (use w(2) in simp)
  have pp: "parse_u64 ?P = Some (of_nat (digits_value ?P))"
    by (rule parse_u64_digits [OF P]) (use p in simp)
  have uw: "unat (of_nat (digits_value W) :: u64) = digits_value W"
    and up: "unat (of_nat (digits_value ?P) :: u64) = digits_value ?P"
    using w(2) p by (simp_all add: unat_of_nat_u64)
  have mul: "checked_mul (of_nat (digits_value W) :: u64) 1000000000 = Some (of_nat (digits_value W) * 1000000000)"
    using w(1) by (simp add: checked_mul_def uw)
  have um: "unat (of_nat (digits_value W) * 1000000000 :: u64) = digits_value W * 1000000000"
    using w(1) by (simp add: unat_word_ariths uw)
  have add: "checked_add (of_nat (digits_value W) * 1000000000) (of_nat (digits_value ?P) :: u64) = Some l"
  proof -
    have "digits_value W * 1000000000 + digits_value ?P < 2 ^ 64" using l l64 by simp
    moreover have "of_nat (digits_value W) * 1000000000 + of_nat (digits_value ?P) = l"
    proof -
      have "of_nat (unat l) = (of_nat (digits_value W * 1000000000 + digits_value ?P) :: u64)"
        using l by simp
      then show ?thesis by simp
    qed
    ultimately show ?thesis by (simp add: checked_add_def um up)
  qed
  show ?thesis
    using s F P pw pp mul add by (auto simp: cpmm_parse_decimal_units_def Let_def)
qed

section \<open>Printed fees\<close>

text \<open>
  Every amount an automatic fee is printed as in a request is read back exactly by the venue
  that gets the request: by the reader of AMM v4 (and Pump) and by the reader of CPMM.
\<close>

theorem printed_fee_reads_back:
  "parse_decimal_units (format_lamports_to_sol_decimal l) 9 label = Inr l
   \<and> cpmm_parse_decimal_units (format_lamports_to_sol_decimal l) 9 label = Inr l"
proof -
  let ?w = "l div 1000000000" and ?f = "l mod 1000000000"
  let ?W = "show_nat (unat ?w)"
  let ?P = "pad_left 9 (show_nat (unat ?f))"
  let ?T = "trim_trailing_zeros ?P"
  have f: "unat ?f < 10 ^ 9" by (simp add: unat_div_mod_sol)
  have P: "length ?P = 9" using f by (intro pad_left_length) simp_all
  have pad: "?T @ replicate (9 - length ?T) CHR ''0'' = ?P" and len: "length ?T \<le> 9"
    using trimmed_zeros_pad [OF P] by blast+
  have T: "list_all is_digit ?T" by (intro trimmed_zeros_digits pad_left_digits)
  have W: "?W \<noteq> []" "list_all is_digit ?W" by simp_all
  have total: "digits_value ?W * 10 ^ 9 + digits_value (?T @ replicate (9 - length ?T) CHR ''0'') = unat l"
    unfolding pad by (simp add: unat_div_mod_sol)
  show ?thesis
  proof (cases "?f = 0")
    case True
    have fmt: "format_lamports_to_sol_decimal l = ?W"
      using True by (simp add: format_lamports_to_sol_decimal_def)
    have trim: "str_trim ?W = ?W"
      using show_nat_ends digit_not by (intro digits_trim) auto
    have t0: "digits_value ?W * 10 ^ 9 + digits_value ([] @ replicate (9 - length []) CHR ''0'') = unat l"
      using total [unfolded pad] True by simp
    have once: "unwrap_or (?W, []) (split_once CHR ''.'' ?W) = (?W, [])"
      by (simp add: split_once_none digits_no unwrap_or_def)
    show ?thesis
      unfolding fmt
      using decimal_units_parts [OF trim W(1) split_on_none [OF digits_no [OF W(2)]] _ _ _ _ W t0]
        cpmm_decimal_units_parts [OF trim W(1) once _ _ W t0]
      by simp
  next
    case False
    have fmt: "format_lamports_to_sol_decimal l = ?W @ ''.'' @ ?T"
      using False by (simp add: format_lamports_to_sol_decimal_def)
    have ne: "?T \<noteq> []"
      using trimmed_fraction_nonempty [OF pad refl] False by (simp add: unat_zero_iff)
    then have lastT: "is_digit (last ?T)" using T by (auto simp: list_all_iff)
    have trim: "str_trim (?W @ ''.'' @ ?T) = ?W @ ''.'' @ ?T"
      using show_nat_ends(1) [of "unat ?w"] lastT ne digit_not by (intro digits_trim) auto
    have parts: "split_on CHR ''.'' (?W @ ''.'' @ ?T) = [?W, ?T]"
      using split_on_at [OF digits_no [OF W(2)]] split_on_none [OF digits_no [OF T]] by simp
    have once: "unwrap_or (?W @ ''.'' @ ?T, []) (split_once CHR ''.'' (?W @ ''.'' @ ?T)) = (?W, ?T)"
      using split_once_at [OF digits_no [OF W(2)]] by (simp add: unwrap_or_def)
    show ?thesis
      unfolding fmt
      using decimal_units_parts [OF trim _ parts _ _ T len W total]
        cpmm_decimal_units_parts [OF trim _ once T len W total]
      by simp
  qed
qed

text \<open>Where the readers differ: a sign in the fraction, no whole part, and no text at all.\<close>

lemma readers_differ:
  "cpmm_parse_decimal_units ''1.+5'' 9 l = Inr 1050000000"
  "parse_decimal_units ''1.+5'' 9 l = Inl (Not_A_Number l)"
  "cpmm_parse_decimal_units ''.5'' 9 l = Inl (Not_A_Number l)"
  "parse_decimal_units ''.5'' 9 l = Inr 500000000"
  "cpmm_parse_decimal_units [] 9 l = Inl (Number_Required l)"
  "parse_decimal_units [] 9 l = Inr 0"
  by (simp_all add: cpmm_parse_decimal_units_def parse_decimal_units_def parse_decimal_scaled_def
      parse_u128_def unwrap_or_def decimal_eval Let_def word_less_nat_alt)

end
