(* ===== verification/Pump_Curve.thy ===== *)
theory Pump_Curve
  imports Venue_Samples
begin

text \<open>
  The bonding curve of the Pump venue (\<^verbatim>\<open>execution-engine/src/pump_native.rs\<close>): the accounts it
  reads, the quotes of the curve, the sizing of a sale and the instructions of a trade. The rest of
  the file, pools after the migration and the planner, is in \<open>Pump_Amm\<close>.
\<close>

section \<open>The environment of the Pump venue\<close>

text \<open>
  Beside what every venue uses: the accounts the warming service keeps, the answers about token
  accounts, a fresh UUID, the shared lookup table and signing against lookup tables.
\<close>

record pump_env =
  pe_venue :: venue_env
  pe_cached_data :: "string \<Rightarrow> venue_error + bytes"
  pe_account_exists :: "string \<Rightarrow> string \<Rightarrow> venue_error + bool"
  pe_owned_mints :: "string \<Rightarrow> string \<Rightarrow> string \<Rightarrow> venue_error + string list"
  pe_ata_program :: pubkey
  pe_uuid :: string
  pe_lookup_tables :: "venue_error + string list"
  pe_sign :: "pubkey \<Rightarrow> instruction list \<Rightarrow> pubkey list \<Rightarrow> string list \<Rightarrow> venue_error + signed_message"

record pump_global_state =
  pg_fee_recipient :: pubkey
  pg_fee_basis_points :: u64
  pg_creator_fee_basis_points :: u64
  pg_fee_recipients :: "pubkey list"
  pg_reserved_fee_recipient :: pubkey
  pg_reserved_fee_recipients :: "pubkey list"
  pg_buyback_fee_recipients :: "pubkey list"
  pg_buyback_basis_points :: u64
  pg_initial_virtual_quote_reserves :: u64
  pg_whitelisted_quote_mints :: "pubkey list"

record pump_curve_state =
  pc_virtual_token_reserves :: u64
  pc_virtual_quote_reserves :: u64
  pc_real_token_reserves :: u64
  pc_real_quote_reserves :: u64
  pc_complete :: bool
  pc_creator :: pubkey
  pc_is_mayhem_mode :: bool
  pc_cashback_enabled :: bool
  pc_quote_mint :: pubkey

datatype pump_quote_asset_kind = Pump_Sol | Pump_Usdc

record pump_quote_asset_meta =
  pq_kind :: pump_quote_asset_kind
  pq_mint :: pubkey
  pq_token_program :: pubkey
  pq_decimals :: u8
  pq_planner_asset :: planner_quote_asset

record pump_curve_classification =
  pk_mint :: string
  pk_bonding_curve :: string
  pk_complete :: bool
  pk_quote_asset :: planner_quote_asset

section \<open>Programs, mints and derived addresses\<close>

definition pump_program_id :: "pump_env \<Rightarrow> venue_error + pubkey" where
  "pump_program_id e = venue_key (pe_venue e) ''6EF8rrecthR5Dkzon8Nwu78hRvfCKubJ14M5uBEwF6P'' ''Pump program id''"

definition pump_fee_program_id :: "pump_env \<Rightarrow> venue_error + pubkey" where
  "pump_fee_program_id e =
     venue_key (pe_venue e) ''pfeeUxB6jkeY1Hxd7CsFCAjcbHA9rWtchMGdZ6VojVZ'' ''Pump fee program id''"

definition pump_token_2022_program_id :: "pump_env \<Rightarrow> venue_error + pubkey" where
  "pump_token_2022_program_id e =
     venue_key (pe_venue e) ''TokenzQdBNbLqP5VEhdkAS6EPFLC1PHnBqCXEpPxuEb'' ''Token 2022 program id''"

definition usdc_mint :: "pump_env \<Rightarrow> venue_error + pubkey" where
  "usdc_mint e = venue_key (pe_venue e) ''EPjFWdd5AufqSSqeM2qN1xzybapC8G4wEGGkZwyTDt1v'' ''USDC mint''"

definition pda :: "pump_env \<Rightarrow> bytes list \<Rightarrow> pubkey \<Rightarrow> pubkey" where
  "pda e seeds program = fst (find_program_address (env_sdk (pe_venue e)) seeds program)"

definition pump_pda :: "pump_env \<Rightarrow> bytes list \<Rightarrow> venue_error + pubkey" where
  "pump_pda e seeds = rbind (pump_program_id e) (\<lambda>program. Inr (pda e seeds program))"

definition event_authority_pda :: "pump_env \<Rightarrow> pubkey \<Rightarrow> pubkey" where
  "event_authority_pda e program = pda e [byte_string ''__event_authority''] program"

definition bonding_curve_pda :: "pump_env \<Rightarrow> pubkey \<Rightarrow> venue_error + pubkey" where
  "bonding_curve_pda e mint_key = pump_pda e [byte_string ''bonding-curve'', mint_key]"

definition global_pda :: "pump_env \<Rightarrow> venue_error + pubkey" where
  "global_pda e = pump_pda e [byte_string ''global'']"

definition global_volume_accumulator_pda :: "pump_env \<Rightarrow> venue_error + pubkey" where
  "global_volume_accumulator_pda e = pump_pda e [byte_string ''global_volume_accumulator'']"

definition user_volume_accumulator_pda :: "pump_env \<Rightarrow> pubkey \<Rightarrow> venue_error + pubkey" where
  "user_volume_accumulator_pda e user = pump_pda e [byte_string ''user_volume_accumulator'', user]"

definition creator_vault_pda :: "pump_env \<Rightarrow> pubkey \<Rightarrow> venue_error + pubkey" where
  "creator_vault_pda e creator = pump_pda e [byte_string ''creator-vault'', creator]"

definition bonding_curve_v2_pda :: "pump_env \<Rightarrow> pubkey \<Rightarrow> venue_error + pubkey" where
  "bonding_curve_v2_pda e mint_key = pump_pda e [byte_string ''bonding-curve-v2'', mint_key]"

definition fee_config_pda :: "pump_env \<Rightarrow> venue_error + pubkey" where
  "fee_config_pda e =
     rbind (pump_program_id e) (\<lambda>pump_program.
     rbind (pump_fee_program_id e) (\<lambda>fee_program.
     Inr (pda e [byte_string ''fee_config'', pump_program] fee_program)))"

definition fee_sharing_config_pda :: "pump_env \<Rightarrow> pubkey \<Rightarrow> venue_error + pubkey" where
  "fee_sharing_config_pda e mint_key =
     rbind (pump_fee_program_id e) (\<lambda>fee_program.
       Inr (pda e [byte_string ''sharing-config'', mint_key] fee_program))"

text \<open>The default key of older curve accounts stands for wrapped SOL.\<close>

definition pump_quote_asset_meta :: "pump_env \<Rightarrow> pubkey \<Rightarrow> venue_error + pump_quote_asset_meta" where
  "pump_quote_asset_meta e raw_quote_mint =
     rbind (venue_wsol_mint (pe_venue e)) (\<lambda>wsol.
     rbind (usdc_mint e) (\<lambda>usdc.
     let resolved_mint = (if raw_quote_mint = default_pubkey then wsol else raw_quote_mint)
     in if resolved_mint = wsol then
          rbind (venue_token_program (pe_venue e)) (\<lambda>program.
          Inr \<lparr>pq_kind = Pump_Sol, pq_mint = resolved_mint, pq_token_program = program,
               pq_decimals = 9, pq_planner_asset = Quote_Sol\<rparr>)
        else if resolved_mint = usdc then
          rbind (venue_token_program (pe_venue e)) (\<lambda>program.
          Inr \<lparr>pq_kind = Pump_Usdc, pq_mint = resolved_mint, pq_token_program = program,
               pq_decimals = 6, pq_planner_asset = Quote_Usdc\<rparr>)
        else Inl (Unsupported_Market ''quote mint'')))"

section \<open>Reading accounts\<close>

definition pump_read :: "'a reader \<Rightarrow> bytes \<Rightarrow> nat \<Rightarrow> venue_error + ('a \<times> nat)" where
  "pump_read r data off = map_error (\<lambda>_. Bytes_Missing ''Pump account'') (r data off)"

definition pump_read_bool :: "bytes \<Rightarrow> nat \<Rightarrow> venue_error + (bool \<times> nat)" where
  "pump_read_bool data off = rbind (pump_read read_u8 data off) (\<lambda>(v, off). Inr (v \<noteq> 0, off))"

fun pump_read_keys :: "nat \<Rightarrow> bytes \<Rightarrow> nat \<Rightarrow> venue_error + (pubkey list \<times> nat)" where
  "pump_read_keys 0 data off = Inr ([], off)"
| "pump_read_keys (Suc n) data off =
     rbind (pump_read read_pubkey data off) (\<lambda>(k, off).
     rbind (pump_read_keys n data off) (\<lambda>(ks, off). Inr (k # ks, off)))"

text \<open>A field that older accounts end before.\<close>

definition if_more :: "'a \<Rightarrow> (bytes \<Rightarrow> nat \<Rightarrow> venue_error + ('a \<times> nat)) \<Rightarrow> bytes \<Rightarrow> nat
    \<Rightarrow> venue_error + ('a \<times> nat)" where
  "if_more d r data off = (if off < length data then r data off else Inr (d, off))"

definition decode_global_state :: "bytes \<Rightarrow> venue_error + pump_global_state" where
  "decode_global_state data =
     (if length data < 8 then Inl (Data_Too_Short ''Pump global'')
      else
     rbind (pump_read_bool data 8) (\<lambda>(initialized, off).
     rbind (pump_read read_pubkey data off) (\<lambda>(authority, off).
     rbind (pump_read read_pubkey data off) (\<lambda>(recipient, off).
     rbind (pump_read read_u64 data off) (\<lambda>(initial_virtual_token, off).
     rbind (pump_read read_u64 data off) (\<lambda>(initial_virtual_sol, off).
     rbind (pump_read read_u64 data off) (\<lambda>(initial_real_token, off).
     rbind (pump_read read_u64 data off) (\<lambda>(token_total_supply, off).
     rbind (pump_read read_u64 data off) (\<lambda>(fee_bps, off).
     rbind (pump_read read_pubkey data off) (\<lambda>(withdraw_authority, off).
     rbind (pump_read_bool data off) (\<lambda>(enable_migrate, off).
     rbind (pump_read read_u64 data off) (\<lambda>(pool_migration_fee, off).
     rbind (pump_read read_u64 data off) (\<lambda>(creator_fee_bps, off).
     rbind (pump_read_keys 7 data off) (\<lambda>(recipients, off).
     rbind (pump_read read_pubkey data off) (\<lambda>(set_creator_authority, off).
     rbind (pump_read read_pubkey data off) (\<lambda>(admin_set_creator_authority, off).
     rbind (pump_read_bool data off) (\<lambda>(create_v2_enabled, off).
     rbind (pump_read read_pubkey data off) (\<lambda>(whitelist, off).
     rbind (pump_read read_pubkey data off) (\<lambda>(reserved, off).
     rbind (pump_read_bool data off) (\<lambda>(mayhem_mode_enabled, off).
     rbind (pump_read_keys 7 data off) (\<lambda>(reserved_recipients, off).
     rbind (if_more False pump_read_bool data off) (\<lambda>(is_cashback_enabled, off).
     rbind (if_more (replicate 8 default_pubkey) (pump_read_keys 8) data off) (\<lambda>(buyback, off).
     rbind (if_more 0 (pump_read read_u64) data off) (\<lambda>(buyback_bps, off).
     rbind (if_more 0 (pump_read read_u64) data off) (\<lambda>(initial_virtual_quote, off).
     rbind (if_more (replicate 1 default_pubkey) (pump_read_keys 1) data off) (\<lambda>(whitelisted, off).
     Inr \<lparr>pg_fee_recipient = recipient, pg_fee_basis_points = fee_bps,
          pg_creator_fee_basis_points = creator_fee_bps, pg_fee_recipients = recipients,
          pg_reserved_fee_recipient = reserved, pg_reserved_fee_recipients = reserved_recipients,
          pg_buyback_fee_recipients = buyback, pg_buyback_basis_points = buyback_bps,
          pg_initial_virtual_quote_reserves = initial_virtual_quote,
          pg_whitelisted_quote_mints = whitelisted\<rparr>))))))))))))))))))))))))))"

definition decode_bonding_curve_state :: "bytes \<Rightarrow> venue_error + pump_curve_state" where
  "decode_bonding_curve_state data =
     (if length data < 81 then Inl (Data_Too_Short ''Pump bonding curve'')
      else
     rbind (pump_read read_u64 data 8) (\<lambda>(virtual_token, off).
     rbind (pump_read read_u64 data off) (\<lambda>(virtual_quote, off).
     rbind (pump_read read_u64 data off) (\<lambda>(real_token, off).
     rbind (pump_read read_u64 data off) (\<lambda>(real_quote, off).
     rbind (pump_read read_u64 data off) (\<lambda>(token_total_supply, off).
     rbind (pump_read_bool data off) (\<lambda>(complete, off).
     rbind (pump_read read_pubkey data off) (\<lambda>(creator, off).
     rbind (if_more False pump_read_bool data off) (\<lambda>(mayhem, off).
     rbind (if_more False pump_read_bool data off) (\<lambda>(cashback, off).
     rbind (if_more default_pubkey (pump_read read_pubkey) data off) (\<lambda>(quote_key, off).
     Inr \<lparr>pc_virtual_token_reserves = virtual_token, pc_virtual_quote_reserves = virtual_quote,
          pc_real_token_reserves = real_token, pc_real_quote_reserves = real_quote,
          pc_complete = complete, pc_creator = creator, pc_is_mayhem_mode = mayhem,
          pc_cashback_enabled = cashback, pc_quote_mint = quote_key\<rparr>)))))))))))"

section \<open>Quotes of the curve\<close>

definition div_ceil_u128 :: "u128 \<Rightarrow> u128 \<Rightarrow> u128" where
  "div_ceil_u128 numerator denominator =
     numerator div denominator + (if numerator mod denominator = 0 then 0 else 1)"

definition compute_total_fee_basis_points :: "pump_global_state \<Rightarrow> u128" where
  "compute_total_fee_basis_points global =
     ucast (pg_fee_basis_points global) + ucast (pg_creator_fee_basis_points global)"

definition quote_buy_tokens_from_curve :: "pump_curve_state \<Rightarrow> pump_global_state \<Rightarrow> u64 \<Rightarrow> u64" where
  "quote_buy_tokens_from_curve curve global spendable_quote =
     (if spendable_quote = 0 then 0
      else
        let input_amount = sat_sub (ucast spendable_quote :: u128) 1 * 10000
                             div (10000 + compute_total_fee_basis_points global)
        in if input_amount = 0 then 0
           else
             let tokens = input_amount * ucast (pc_virtual_token_reserves curve)
                            div (ucast (pc_virtual_quote_reserves curve) + input_amount)
             in ucast (min tokens (ucast (pc_real_token_reserves curve))))"

definition quote_sell_quote_from_curve :: "pump_curve_state \<Rightarrow> pump_global_state \<Rightarrow> u64 \<Rightarrow> u64" where
  "quote_sell_quote_from_curve curve global token_amount =
     (if token_amount = 0 then 0
      else
        let gross_output = (ucast token_amount :: u128) * ucast (pc_virtual_quote_reserves curve)
                             div (ucast (pc_virtual_token_reserves curve) + ucast token_amount);
            protocol_fee = div_ceil_u128 (gross_output * ucast (pg_fee_basis_points global)) 10000;
            creator_fee = div_ceil_u128 (gross_output * ucast (pg_creator_fee_basis_points global)) 10000
        in ucast (min (sat_sub (sat_sub gross_output protocol_fee) creator_fee)
                    (ucast (pc_real_quote_reserves curve))))"

definition apply_buy_token_slippage :: "u64 \<Rightarrow> u64 \<Rightarrow> u64" where
  "apply_buy_token_slippage token_amount slippage_bps =
     (let minimum = ucast (min ((ucast token_amount :: u128)
                                  * ucast (sat_sub (10000 :: u64) (min slippage_bps 10000)) div 10000)
                             (ucast (max_word :: u64)))
      in if 0 < token_amount \<and> minimum = 0 then 1 else minimum)"

section \<open>Fee recipients\<close>

definition first_set :: "pubkey list \<Rightarrow> pubkey option" where
  "first_set keys = List.find (\<lambda>k. k \<noteq> default_pubkey) keys"

definition reserved_recipient :: "pubkey \<Rightarrow> pubkey list \<Rightarrow> pubkey option" where
  "reserved_recipient reserved recipients =
     (if reserved \<noteq> default_pubkey then Some reserved else first_set recipients)"

definition select_buy_fee_recipient :: "pump_global_state \<Rightarrow> bool \<Rightarrow> pubkey" where
  "select_buy_fee_recipient global mayhem_mode =
     (case (if mayhem_mode
            then reserved_recipient (pg_reserved_fee_recipient global) (pg_reserved_fee_recipients global)
            else None) of
        Some k \<Rightarrow> k
      | None \<Rightarrow>
          if pg_fee_recipient global \<noteq> default_pubkey then pg_fee_recipient global
          else unwrap_or default_pubkey (first_set (pg_fee_recipients global)))"

definition select_pump_buyback_fee_recipient :: "pump_global_state \<Rightarrow> pubkey" where
  "select_pump_buyback_fee_recipient global =
     unwrap_or default_pubkey (first_set (pg_buyback_fee_recipients global))"

section \<open>Instructions of a curve trade\<close>

definition build_create_token_ata_instruction ::
  "pump_env \<Rightarrow> pubkey \<Rightarrow> pubkey \<Rightarrow> pubkey \<Rightarrow> instruction" where
  "build_create_token_ata_instruction e owner mint_key token_program =
     ix_create_ata_idempotent (env_tokens (pe_venue e)) owner owner mint_key token_program"

definition pump_ata :: "pump_env \<Rightarrow> pubkey \<Rightarrow> pubkey \<Rightarrow> pubkey \<Rightarrow> pubkey" where
  "pump_ata e owner mint_key token_program =
     associated_token_address (env_tokens (pe_venue e)) owner mint_key token_program"

text \<open>The accounts that a buy and a sell both begin with.\<close>

definition v2_leading_accounts ::
  "pump_env \<Rightarrow> pump_global_state \<Rightarrow> pubkey \<Rightarrow> pubkey \<Rightarrow> pubkey \<Rightarrow> pubkey \<Rightarrow> pump_quote_asset_meta
     \<Rightarrow> bool \<Rightarrow> venue_error + account_meta list" where
  "v2_leading_accounts e global mint_key creator_vault_authority user base_token_program meta mayhem_mode =
     rbind (bonding_curve_pda e mint_key) (\<lambda>curve_key.
     rbind (creator_vault_pda e creator_vault_authority) (\<lambda>creator_vault.
     rbind (global_pda e) (\<lambda>global_key.
     rbind (fee_sharing_config_pda e mint_key) (\<lambda>sharing_config.
     let recipient = select_buy_fee_recipient global mayhem_mode;
         buyback = select_pump_buyback_fee_recipient global;
         quote_ata = (\<lambda>k. pump_ata e k (pq_mint meta) (pq_token_program meta));
         base_ata = (\<lambda>k. pump_ata e k mint_key base_token_program)
     in Inr [meta_new_readonly global_key False,
             meta_new_readonly mint_key False,
             meta_new_readonly (pq_mint meta) False,
             meta_new_readonly base_token_program False,
             meta_new_readonly (pq_token_program meta) False,
             meta_new_readonly (pe_ata_program e) False,
             meta_new recipient False,
             meta_new (quote_ata recipient) False,
             meta_new buyback False,
             meta_new (quote_ata buyback) False,
             meta_new curve_key False,
             meta_new (base_ata curve_key) False,
             meta_new (quote_ata curve_key) False,
             meta_new user True,
             meta_new (base_ata user) False,
             meta_new (quote_ata user) False,
             meta_new creator_vault False,
             meta_new (quote_ata creator_vault) False,
             meta_new sharing_config False]))))"

text \<open>The accounts both end with.\<close>

definition v2_trailing_accounts ::
  "pump_env \<Rightarrow> pubkey \<Rightarrow> pump_quote_asset_meta \<Rightarrow> venue_error + account_meta list" where
  "v2_trailing_accounts e user meta =
     rbind (user_volume_accumulator_pda e user) (\<lambda>accumulator.
     rbind (fee_config_pda e) (\<lambda>fee_config.
     rbind (pump_fee_program_id e) (\<lambda>fee_program.
     rbind (pump_program_id e) (\<lambda>pump_program.
     Inr [meta_new accumulator False,
          meta_new (pump_ata e accumulator (pq_mint meta) (pq_token_program meta)) False,
          meta_new_readonly fee_config False,
          meta_new_readonly fee_program False,
          meta_new_readonly (system_program_id (env_sdk (pe_venue e))) False,
          meta_new_readonly (event_authority_pda e pump_program) False,
          meta_new_readonly pump_program False]))))"

definition build_buy_exact_quote_in_v2_instruction ::
  "pump_env \<Rightarrow> pump_global_state \<Rightarrow> pubkey \<Rightarrow> pubkey \<Rightarrow> pubkey \<Rightarrow> u64 \<Rightarrow> u64 \<Rightarrow> pubkey
     \<Rightarrow> pump_quote_asset_meta \<Rightarrow> bool \<Rightarrow> venue_error + instruction" where
  "build_buy_exact_quote_in_v2_instruction e global mint_key creator_vault_authority user
       spendable_quote_in min_tokens_out base_token_program meta mayhem_mode =
     rbind (pump_program_id e) (\<lambda>pump_program.
     rbind (v2_leading_accounts e global mint_key creator_vault_authority user base_token_program meta
              mayhem_mode) (\<lambda>leading.
     rbind (global_volume_accumulator_pda e) (\<lambda>global_accumulator.
     rbind (v2_trailing_accounts e user meta) (\<lambda>trailing.
     Inr \<lparr>program_id = pump_program,
          ix_accounts = leading @ meta_new_readonly global_accumulator False # trailing,
          ix_bytes = [194, 171, 28, 70, 104, 77, 91, 47]
                       @ u64_to_le_bytes spendable_quote_in @ u64_to_le_bytes min_tokens_out\<rparr>))))"

definition build_sell_v2_instruction ::
  "pump_env \<Rightarrow> pump_global_state \<Rightarrow> pubkey \<Rightarrow> pubkey \<Rightarrow> pubkey \<Rightarrow> u64 \<Rightarrow> u64 \<Rightarrow> pubkey
     \<Rightarrow> pump_quote_asset_meta \<Rightarrow> bool \<Rightarrow> venue_error + instruction" where
  "build_sell_v2_instruction e global mint_key creator_vault_authority user token_amount
       min_quote_output base_token_program meta mayhem_mode =
     rbind (pump_program_id e) (\<lambda>pump_program.
     rbind (v2_leading_accounts e global mint_key creator_vault_authority user base_token_program meta
              mayhem_mode) (\<lambda>leading.
     rbind (v2_trailing_accounts e user meta) (\<lambda>trailing.
     Inr \<lparr>program_id = pump_program, ix_accounts = leading @ trailing,
          ix_bytes = [93, 246, 130, 60, 231, 233, 64, 178]
                       @ u64_to_le_bytes token_amount @ u64_to_le_bytes min_quote_output\<rparr>)))"

section \<open>The amount of a sale\<close>

definition pump_net_quote :: "u16 \<Rightarrow> pump_curve_state \<Rightarrow> pump_global_state \<Rightarrow> quote_failure quote_fn" where
  "pump_net_quote fee_bps curve global amount =
     net_sol_after_wrapper_fee fee_bps (quote_sell_quote_from_curve curve global amount)"

text \<open>The tail both sizings of the venue end with.\<close>

definition within_balance :: "u64 \<Rightarrow> u64 \<Rightarrow> venue_error + u64" where
  "within_balance balance amount =
     (if amount = 0 then Inl (Zero_Amount ''sell amount'')
      else if balance < amount then Inl (Balance_Too_Small amount balance)
      else Inr amount)"

definition resolve_sell_token_amount ::
  "pump_env \<Rightarrow> runtime_sell_intent \<Rightarrow> string \<Rightarrow> string \<Rightarrow> string \<Rightarrow> pump_curve_state \<Rightarrow> pump_global_state
     \<Rightarrow> venue_error + u64" where
  "resolve_sell_token_amount e intent wallet_id owner_text mint_text curve global =
     rbind (env_token_balance (pe_venue e) wallet_id owner_text mint_text 6) (\<lambda>balance.
     if balance = 0 then Inl (Zero_Amount ''balance'')
     else
       rbind (case intent of
                Sell_Percent value \<Rightarrow>
                  rbind (parse_percent_to_bps value) (\<lambda>bps. Inr (percent_of_balance balance bps))
              | Sell_Sol_Output value \<Rightarrow>
                  rbind (pump_quote_asset_meta e (pc_quote_mint curve)) (\<lambda>meta.
                  if pq_kind meta \<noteq> Pump_Sol then Inl (Unsupported_Market ''sellOutputSol'')
                  else
                    rbind (parse_decimal_units value (unat (pq_decimals meta)) ''sellOutputSol'') (\<lambda>desired.
                    if desired = 0 then Inl (Zero_Amount ''sellOutputSol'')
                    else sized_sell_amount balance desired
                           (pump_net_quote (env_wrapper_fee_bps (pe_venue e)) curve global))))
         (within_balance balance))"

section \<open>The end of a compilation\<close>

definition pump_inline_tip ::
  "pump_env \<Rightarrow> runtime_execution_policy \<Rightarrow> pubkey \<Rightarrow> venue_error + (instruction \<times> u64 \<times> string) option" where
  "pump_inline_tip e pol owner =
     resolve_inline_tip (pe_venue e) (venue_key (pe_venue e))
       [''EXECUTION_ENGINE_JITO_TIP_ACCOUNT'', ''JITO_TIP_ACCOUNT'']
       (\<lambda>tip. parse_decimal_units tip 9 ''tipSol'') owner (provider pol) (tip_sol pol)"

definition append_inline_tip ::
  "pump_env \<Rightarrow> instruction list \<Rightarrow> runtime_execution_policy \<Rightarrow> pubkey
     \<Rightarrow> venue_error + (instruction list \<times> (u64 \<times> string) option)" where
  "append_inline_tip e instructions pol owner =
     rbind (pump_inline_tip e pol owner) (\<lambda>tip.
       case tip of
         Some (ix, lamports, account) \<Rightarrow> Inr (instructions @ [ix], Some (lamports, account))
       | None \<Rightarrow> Inr (instructions, None))"

definition pump_memo_instruction :: "pump_env \<Rightarrow> string \<Rightarrow> venue_error + instruction" where
  "pump_memo_instruction e label =
     rbind (venue_key (pe_venue e) ''MemoSq4gqABAXKb96qnH8TysNcWxMyWCqXgDLGmfcHr'' ''memo program'') (\<lambda>program.
       Inr \<lparr>program_id = program, ix_accounts = [],
            ix_bytes = byte_string (''tt:'' @ label @ '':'' @ pe_uuid e)\<rparr>)"

definition selected_pump_apr28_fee_recipient :: "pump_env \<Rightarrow> venue_error + pubkey" where
  "selected_pump_apr28_fee_recipient e =
     venue_key (pe_venue e) ''5YxQFdt3Tr9zJLvkFccqXVUwhdTWJQc1fFg2YPbxvxeD'' ''Pump April 28 fee recipient''"

definition pump_apr28_fee_recipient_ata_for_quote_mint ::
  "pump_env \<Rightarrow> pubkey \<Rightarrow> pubkey \<Rightarrow> venue_error + pubkey" where
  "pump_apr28_fee_recipient_ata_for_quote_mint e quote_key token_program =
     rbind (selected_pump_apr28_fee_recipient e) (\<lambda>recipient.
       Inr (pump_ata e recipient quote_key token_program))"

definition pump_apr28_dynamic_alt_manifest_entries :: "pump_env \<Rightarrow> venue_error + pubkey" where
  "pump_apr28_dynamic_alt_manifest_entries e =
     rbind (venue_wsol_mint (pe_venue e)) (\<lambda>wsol.
     rbind (venue_token_program (pe_venue e)) (\<lambda>token_program.
     pump_apr28_fee_recipient_ata_for_quote_mint e wsol token_program))"

definition shared_super_lookup_table :: string where
  "shared_super_lookup_table = ''7CaMLcAuSskoeN7HoRwZjsSthU8sMwKqxtXkyMiMjuc''"

text \<open>The entries of the manifest only go into diagnostics; a bad constant would be an error.\<close>

definition compile_pump_transaction_candidate ::
  "pump_env \<Rightarrow> string \<Rightarrow> pubkey \<Rightarrow> pubkey list \<Rightarrow> instruction list \<Rightarrow> string list \<Rightarrow> u32 \<Rightarrow> u64
     \<Rightarrow> (u64 \<times> string) option \<Rightarrow> venue_error + engine_transaction" where
  "compile_pump_transaction_candidate e label owner extra_signers instructions tables limit price tip =
     (if tables = [] then Inl (Library_Failed ''shared lookup table'')
      else
        rbind (pe_sign e owner instructions (owner # extra_signers) tables) (\<lambda>signed.
        if sm_lookup_tables signed \<noteq> [shared_super_lookup_table]
        then Inl (Library_Failed ''lookup tables used'')
        else
          rbind (ok_or (sm_signature signed) (Library_Failed ''signature'')) (\<lambda>signature.
          rbind (pump_apr28_dynamic_alt_manifest_entries e) (\<lambda>_.
          Inr \<lparr>ct_label = label, ct_format = ''v0-alt'', ct_base64 = sm_base64 signed,
               ct_signature = Some signature, ct_lookup_tables_used = sm_lookup_tables signed,
               ct_compute_unit_limit = Some (ucast limit),
               ct_compute_unit_price_micro_lamports = (if 0 < price then Some price else None),
               ct_inline_tip_lamports = map_option fst tip,
               ct_inline_tip_account = map_option snd tip\<rparr>))))"

definition build_pump_transaction_with_lookup_preference ::
  "pump_env \<Rightarrow> string \<Rightarrow> pubkey \<Rightarrow> pubkey list \<Rightarrow> instruction list \<Rightarrow> u32 \<Rightarrow> u64
     \<Rightarrow> (u64 \<times> string) option \<Rightarrow> venue_error + engine_transaction" where
  "build_pump_transaction_with_lookup_preference e label owner extra_signers instructions limit price tip =
     rbind (pe_lookup_tables e) (\<lambda>tables.
     compile_pump_transaction_candidate e label owner extra_signers instructions tables limit price tip)"

definition pump_compute_budget :: "pump_env \<Rightarrow> u32 \<Rightarrow> u64 \<Rightarrow> venue_error + instruction list" where
  "pump_compute_budget e limit price =
     rbind (compute_unit_limit_instruction (pe_venue e) limit) (\<lambda>limit_ix.
     if 0 < price
     then rbind (compute_unit_price_instruction (pe_venue e) price) (\<lambda>price_ix. Inr [limit_ix, price_ix])
     else Inr [limit_ix])"

section \<open>Trades on the curve\<close>

definition pump_compute_unit_limit :: u32 where
  "pump_compute_unit_limit = 280000"

definition pump_curve_buy_instructions ::
  "pump_env \<Rightarrow> pubkey \<Rightarrow> pubkey \<Rightarrow> pubkey \<Rightarrow> pump_quote_asset_meta \<Rightarrow> pump_curve_state
     \<Rightarrow> pump_global_state \<Rightarrow> pubkey \<Rightarrow> u64 \<Rightarrow> u16 \<Rightarrow> venue_error + instruction list" where
  "pump_curve_buy_instructions e owner mint_key token_program meta curve global creator_vault_authority
       spend_lamports slippage_bps =
     (let token_amount = quote_buy_tokens_from_curve curve global spend_lamports
      in if token_amount = 0 then Inl (Zero_Amount ''buy quote'')
         else
           rbind (build_buy_exact_quote_in_v2_instruction e global mint_key creator_vault_authority owner
                    spend_lamports (apply_buy_token_slippage token_amount (ucast slippage_bps))
                    token_program meta (pc_is_mayhem_mode curve)) (\<lambda>swap.
           Inr [build_create_token_ata_instruction e owner mint_key token_program, swap]))"

definition pump_curve_sell_instructions ::
  "pump_env \<Rightarrow> 'plan trade_runtime_request \<Rightarrow> string \<Rightarrow> pubkey \<Rightarrow> pubkey \<Rightarrow> pubkey
     \<Rightarrow> pump_quote_asset_meta \<Rightarrow> pump_curve_state \<Rightarrow> pump_global_state \<Rightarrow> pubkey \<Rightarrow> u16
     \<Rightarrow> venue_error + instruction list" where
  "pump_curve_sell_instructions e request wallet_id owner mint_key token_program meta curve global
       creator_vault_authority slippage_bps =
     rbind (ok_or (sell_intent request) (Missing_Request_Field ''sell intent'')) (\<lambda>intent.
     rbind (resolve_sell_token_amount e intent wallet_id (env_pubkey_text (pe_venue e) owner)
              (request_mint request) curve global) (\<lambda>token_amount.
     rbind (build_sell_v2_instruction e global mint_key creator_vault_authority owner token_amount
              (apply_sell_side_slippage (quote_sell_quote_from_curve curve global token_amount) slippage_bps)
              token_program meta (pc_is_mayhem_mode curve)) (\<lambda>swap.
     Inr [swap])))"

text \<open>Protection, compute budget, tip, memo and signature of a curve trade.\<close>

definition finish_pump_curve_trade ::
  "pump_env \<Rightarrow> runtime_execution_policy \<Rightarrow> pubkey \<Rightarrow> string \<Rightarrow> instruction list \<Rightarrow> u64
     \<Rightarrow> venue_error + compiled_adapter_trade" where
  "finish_pump_curve_trade e pol owner label core price =
     rbind (if jitodontfront_enabled_for_provider (provider pol) (policy_mev_mode pol)
            then apply_jitodontfront (pe_venue e) core owner else Inr core) (\<lambda>guarded.
     rbind (pump_compute_budget e pump_compute_unit_limit price) (\<lambda>budget.
     rbind (append_inline_tip e (budget @ guarded) pol owner) (\<lambda>(instructions, tip).
     rbind (pump_memo_instruction e label) (\<lambda>memo.
     rbind (build_pump_transaction_with_lookup_preference e label owner [] (instructions @ [memo])
              pump_compute_unit_limit price tip) (\<lambda>compiled.
     Inr \<lparr>cat_transactions = [compiled], cat_primary_tx_index = 0,
          cat_dependency_mode = Independent, cat_entry_preference_asset = None\<rparr>)))))"

section \<open>Recognising a curve\<close>

definition is_pump_bonding_base_mint_candidate :: "pump_env \<Rightarrow> string \<Rightarrow> pubkey \<Rightarrow> bool" where
  "is_pump_bonding_base_mint_candidate e mint_text quote_key \<longleftrightarrow>
     (case venue_key (pe_venue e) mint_text ''mint'' of Inl _ \<Rightarrow> False | Inr k \<Rightarrow> k \<noteq> quote_key)"

definition fetch_owned_pump_bonding_curve_token_mints ::
  "pump_env \<Rightarrow> string \<Rightarrow> string \<Rightarrow> venue_error + string list" where
  "fetch_owned_pump_bonding_curve_token_mints e curve_text commitment_level =
     rbind (pump_token_2022_program_id e) (\<lambda>token_2022.
     rbind (venue_token_program (pe_venue e)) (\<lambda>token.
     rbind (pe_owned_mints e curve_text commitment_level (env_pubkey_text (pe_venue e) token_2022)) (\<lambda>first.
     rbind (pe_owned_mints e curve_text commitment_level (env_pubkey_text (pe_venue e) token)) (\<lambda>second.
     Inr (rev (fold List.insert (first @ second) []))))))"

definition classify_pump_bonding_curve_address ::
  "pump_env \<Rightarrow> string \<Rightarrow> pubkey \<Rightarrow> bytes \<Rightarrow> string \<Rightarrow> venue_error + pump_curve_classification option" where
  "classify_pump_bonding_curve_address e input owner data commitment_level =
     rbind (pump_program_id e) (\<lambda>program.
     if owner \<noteq> program then Inr None
     else
       case decode_bonding_curve_state data of
         Inl _ \<Rightarrow> Inr None
       | Inr curve \<Rightarrow>
           rbind (venue_key (pe_venue e) input ''Pump bonding curve address'') (\<lambda>submitted.
           rbind (fetch_owned_pump_bonding_curve_token_mints e input commitment_level) (\<lambda>mints.
           rbind (pump_quote_asset_meta e (pc_quote_mint curve)) (\<lambda>meta.
           case filter (\<lambda>m. is_pump_bonding_base_mint_candidate e m (pq_mint meta)) mints of
             [mint_text] \<Rightarrow>
               rbind (venue_key (pe_venue e) mint_text ''Pump bonding curve token mint'') (\<lambda>mint_key.
               rbind (bonding_curve_pda e mint_key) (\<lambda>expected.
               if expected \<noteq> submitted then Inl (Unsupported_Market ''does not derive back'')
               else Inr (Some \<lparr>pk_mint = env_pubkey_text (pe_venue e) mint_key,
                               pk_bonding_curve = env_pubkey_text (pe_venue e) submitted,
                               pk_complete = pc_complete curve,
                               pk_quote_asset = pq_planner_asset meta\<rparr>)))
           | _ \<Rightarrow> Inl (Unsupported_Market ''base token mints'')))))"

section \<open>What the quotes are\<close>

lemma unat_div_ceil:
  assumes "d \<noteq> 0"
  shows "unat (div_ceil_u128 n d) = (unat n + unat d - 1) div unat d"
proof -
  have d: "0 < unat d" using assms by (simp add: unat_pos_iff word_gt_0)
  have z: "n mod d = 0 \<longleftrightarrow> unat n mod unat d = 0" by (simp add: unat_eq_iff unat_mod)
  have c: "(a + b - 1) div b = a div b + (if a mod b = 0 then 0 else 1)" if "0 < b" for a b :: nat
  proof (cases "a mod b = 0")
    case True
    then obtain k where "a = b * k" by (metis dvdE dvd_eq_mod_eq_0)
    moreover have "(b * k + b - 1) div b = k"
      using that by (intro div_nat_eqI) (simp_all add: algebra_simps)
    ultimately show ?thesis using that by simp
  next
    case False
    have "(b * q + r + b - 1) div b = q + 1" if "r < b" "r \<noteq> 0" for q r
      by (rule div_nat_eqI) (use that in \<open>simp_all add: algebra_simps\<close>)
    from this [of "a mod b" "a div b"] False that show ?thesis by simp
  qed
  define q where "q = n div d"
  have q: "unat q = unat n div unat d" by (simp add: q_def unat_div)
  show ?thesis
  proof (cases "unat n mod unat d = 0")
    case True
    then show ?thesis using c [OF d, of "unat n"] z q by (simp add: div_ceil_u128_def q_def)
  next
    case False
    then have "2 \<le> unat d" using d by (cases "unat d = 1") simp_all
    then have "unat q \<le> unat n div 2" unfolding q by (rule div_le_mono2 [rotated]) simp
    moreover have "unat n div 2 < 2 ^ 127"
      using unat_less_pow [of n] by (intro less_mult_imp_div_less) simp
    ultimately have "unat (q + 1) = unat q + 1" by (simp add: unat_word_ariths)
    then show ?thesis using c [OF d, of "unat n"] z q False by (simp add: div_ceil_u128_def q_def)
  qed
qed

definition ceil_bps :: "nat \<Rightarrow> nat \<Rightarrow> nat" where
  "ceil_bps amount bps = (amount * bps + 9999) div 10000"

lemma total_fee_value:
  "unat (compute_total_fee_basis_points global)
     = unat (pg_fee_basis_points global) + unat (pg_creator_fee_basis_points global)"
proof -
  have "unat (pg_fee_basis_points global) + unat (pg_creator_fee_basis_points global) < 2 ^ 64 + 2 ^ 64"
    using unat_less_pow [of "pg_fee_basis_points global"]
      unat_less_pow [of "pg_creator_fee_basis_points global"] by (intro add_strict_mono) simp_all
  then show ?thesis by (simp add: compute_total_fee_basis_points_def unat_word_ariths unat_ucast_128)
qed

text \<open>The part of a spend that reaches the curve, and the tokens it buys.\<close>

definition curve_input :: "pump_global_state \<Rightarrow> u64 \<Rightarrow> nat" where
  "curve_input global spend =
     (unat spend - 1) * 10000
       div (10000 + unat (pg_fee_basis_points global) + unat (pg_creator_fee_basis_points global))"

lemma curve_input_le: "curve_input global spend \<le> unat spend - 1"
proof -
  let ?d = "10000 + unat (pg_fee_basis_points global) + unat (pg_creator_fee_basis_points global)"
  have "curve_input global spend \<le> (unat spend - 1) * ?d div ?d"
    unfolding curve_input_def by (intro div_le_mono mult_le_mono2) simp
  then show ?thesis by simp
qed

lemma pump_buy_value:
  "unat (quote_buy_tokens_from_curve curve global spend)
     = (let input = curve_input global spend
        in if input = 0 then 0
           else min (cp_out (unat (pc_virtual_quote_reserves curve)) (unat (pc_virtual_token_reserves curve)) input)
                  (unat (pc_real_token_reserves curve)))"
proof (cases "spend = 0")
  case True
  then show ?thesis by (simp add: quote_buy_tokens_from_curve_def curve_input_def)
next
  case False
  let ?i = "sat_sub (ucast spend :: u128) 1 * 10000 div (10000 + compute_total_fee_basis_points global)"
  let ?vt = "pc_virtual_token_reserves curve" and ?vq = "pc_virtual_quote_reserves curve"
  have "(unat spend - 1) * 10000 < 2 ^ 64 * 2 ^ 14"
    by (intro mult_strict_mono less_imp_diff_less) simp_all
  then have num: "unat (sat_sub (ucast spend :: u128) 1 * 10000) = (unat spend - 1) * 10000"
    by (simp add: unat_word_ariths unat_sat_sub unat_ucast_128)
  have "unat (pg_fee_basis_points global) + unat (pg_creator_fee_basis_points global) < 2 ^ 64 + 2 ^ 64"
    by (intro add_strict_mono) simp_all
  then have den: "unat (10000 + compute_total_fee_basis_points global)
      = 10000 + unat (pg_fee_basis_points global) + unat (pg_creator_fee_basis_points global)"
    by (simp add: unat_word_ariths total_fee_value)
  have i: "unat ?i = curve_input global spend" by (simp add: unat_div num den curve_input_def)
  have il: "unat ?i < 2 ^ 64"
    unfolding i by (rule le_less_trans [OF curve_input_le])
      (rule less_imp_diff_less, simp)
  have "unat ?i * unat ?vt < 2 ^ 64 * 2 ^ 64"
    using il unat_less_pow [of ?vt] by (intro mult_strict_mono) auto
  moreover have "unat ?vq + unat ?i < 2 ^ 64 + 2 ^ 64"
    using il unat_less_pow [of ?vq] by (intro add_strict_mono) auto
  ultimately have t: "unat (?i * ucast ?vt div (ucast ?vq + ?i)) = cp_out (unat ?vq) (unat ?vt) (unat ?i)"
    by (simp add: unat_div unat_word_ariths unat_ucast_128 cp_out_def)
  have "unat (min (?i * ucast ?vt div (ucast ?vq + ?i)) (ucast (pc_real_token_reserves curve)))
      = min (cp_out (unat ?vq) (unat ?vt) (unat ?i)) (unat (pc_real_token_reserves curve))"
    by (simp add: unat_min t unat_ucast_128)
  moreover have "\<dots> < 2 ^ 64"
    by (rule le_less_trans [OF min.cobounded2]) (use unat_less_pow [of "pc_real_token_reserves curve"] in simp)
  ultimately have u: "unat (ucast (min (?i * ucast ?vt div (ucast ?vq + ?i)) (ucast (pc_real_token_reserves curve))) :: u64)
      = min (cp_out (unat ?vq) (unat ?vt) (curve_input global spend)) (unat (pc_real_token_reserves curve))"
    by (simp add: unsigned_ucast_eq take_bit_nat_eq_self i)
  have z: "?i = 0 \<longleftrightarrow> curve_input global spend = 0" by (simp add: unat_eq_iff i)
  show ?thesis using False u z by (auto simp: quote_buy_tokens_from_curve_def Let_def)
qed

text \<open>What the curve pays before fees, and after the two of them.\<close>

definition curve_gross :: "pump_curve_state \<Rightarrow> u64 \<Rightarrow> nat" where
  "curve_gross curve amount =
     cp_out (unat (pc_virtual_token_reserves curve)) (unat (pc_virtual_quote_reserves curve)) (unat amount)"

definition after_curve_fees :: "pump_global_state \<Rightarrow> nat \<Rightarrow> nat" where
  "after_curve_fees global gross =
     gross - ceil_bps gross (unat (pg_fee_basis_points global))
           - ceil_bps gross (unat (pg_creator_fee_basis_points global))"

lemma fee_ceil_value:
  assumes "unat (g :: u128) < 2 ^ 64"
  shows "unat (div_ceil_u128 (g * ucast (b :: u64)) 10000) = ceil_bps (unat g) (unat b)"
proof -
  have "unat g * unat b < 2 ^ 64 * 2 ^ 64"
    using assms unat_less_pow [of b] by (intro mult_strict_mono) auto
  then show ?thesis
    by (simp add: unat_div_ceil unat_word_ariths unat_ucast_128 ceil_bps_def)
qed

lemma curve_gross_le: "curve_gross curve amount \<le> unat (pc_virtual_quote_reserves curve)"
  by (simp add: curve_gross_def cp_out_le)

lemma pump_sell_value:
  "unat (quote_sell_quote_from_curve curve global amount)
     = min (after_curve_fees global (curve_gross curve amount)) (unat (pc_real_quote_reserves curve))"
proof (cases "amount = 0")
  case True
  then show ?thesis
    by (simp add: quote_sell_quote_from_curve_def curve_gross_def cp_out_def after_curve_fees_def)
next
  case False
  let ?vt = "pc_virtual_token_reserves curve" and ?vq = "pc_virtual_quote_reserves curve"
  let ?g = "(ucast amount :: u128) * ucast ?vq div (ucast ?vt + ucast amount)"
  have "unat amount * unat ?vq < 2 ^ 64 * 2 ^ 64"
    using unat_less_pow [of amount] unat_less_pow [of ?vq] by (intro mult_strict_mono) auto
  moreover have "unat ?vt + unat amount < 2 ^ 64 + 2 ^ 64"
    using unat_less_pow [of amount] unat_less_pow [of ?vt] by (intro add_strict_mono) auto
  ultimately have g: "unat ?g = curve_gross curve amount"
    by (simp add: unat_div unat_word_ariths unat_ucast_128 cp_out_def curve_gross_def)
  have gl: "unat ?g < 2 ^ 64"
    unfolding g by (rule le_less_trans [OF curve_gross_le]) (use unat_less_pow [of ?vq] in simp)
  have "unat (min (sat_sub (sat_sub ?g (div_ceil_u128 (?g * ucast (pg_fee_basis_points global)) 10000))
                 (div_ceil_u128 (?g * ucast (pg_creator_fee_basis_points global)) 10000))
               (ucast (pc_real_quote_reserves curve)))
      = min (after_curve_fees global (curve_gross curve amount)) (unat (pc_real_quote_reserves curve))"
    by (simp add: unat_min unat_sat_sub fee_ceil_value [OF gl] g after_curve_fees_def unat_ucast_128)
  moreover have "\<dots> < 2 ^ 64"
    by (rule le_less_trans [OF min.cobounded2]) (use unat_less_pow [of "pc_real_quote_reserves curve"] in simp)
  ultimately show ?thesis
    using False
    by (simp add: quote_sell_quote_from_curve_def Let_def unsigned_ucast_eq take_bit_nat_eq_self)
qed
section \<open>What a trade on the curve costs and brings\<close>

text \<open>
  The pool after a buy: the curve takes the part of the spend that is no fee and gives the tokens.
\<close>

definition curve_after_buy :: "pump_curve_state \<Rightarrow> nat \<Rightarrow> u64 \<Rightarrow> pump_curve_state" where
  "curve_after_buy curve input tokens =
     curve\<lparr>pc_virtual_token_reserves := pc_virtual_token_reserves curve - tokens,
           pc_virtual_quote_reserves := pc_virtual_quote_reserves curve + of_nat input,
           pc_real_token_reserves := pc_real_token_reserves curve - tokens,
           pc_real_quote_reserves := pc_real_quote_reserves curve + of_nat input\<rparr>"

lemma curve_input_affordable:
  assumes "0 < spend"
  shows "curve_input global spend + ceil_bps (curve_input global spend) (unat (pg_fee_basis_points global))
     + ceil_bps (curve_input global spend) (unat (pg_creator_fee_basis_points global)) \<le> unat spend"
proof -
  let ?f = "unat (pg_fee_basis_points global)" and ?c = "unat (pg_creator_fee_basis_points global)"
  let ?i = "curve_input global spend"
  obtain s where s: "unat spend = Suc s" 
    using assms by (cases "unat spend") (auto simp: word_gt_0 unat_eq_iff)
  have i: "?i * (10000 + ?f + ?c) \<le> s * 10000"
    unfolding curve_input_def s diff_Suc_1 by (rule div_times_less_eq_dividend)
  have c: "ceil_bps ?i b * 10000 \<le> ?i * b + 9999" for b
    unfolding ceil_bps_def by (rule div_times_less_eq_dividend)
  have "(?i + ceil_bps ?i ?f + ceil_bps ?i ?c) * 10000 \<le> ?i * (10000 + ?f + ?c) + 19998"
    using c [of ?f] c [of ?c] by (simp add: algebra_simps)
  also have "\<dots> < (unat spend + 1) * 10000" using i by (simp add: s)
  finally show ?thesis by (simp add: mult_less_cancel2)
qed


text \<open>
  Tokens bought on the curve and sold again at once, with nothing in between, bring back no
  more than the part of the spend that reached the curve, even before the fees of the sale.
\<close>

theorem pump_round_trip_never_gains:
  assumes "quote_buy_tokens_from_curve curve global spend = tokens"
    and "unat (pc_virtual_quote_reserves curve) + unat spend < 2 ^ 64"
    and "tokens \<le> pc_virtual_token_reserves curve"
  shows "unat (quote_sell_quote_from_curve (curve_after_buy curve (curve_input global spend) tokens) global' tokens)
           \<le> curve_input global spend
       \<and> (0 < spend \<longrightarrow> curve_input global spend < unat spend)"
proof -
  let ?vq = "unat (pc_virtual_quote_reserves curve)" and ?vt = "unat (pc_virtual_token_reserves curve)"
  let ?i = "curve_input global spend"
  let ?after = "curve_after_buy curve ?i tokens"
  have i: "?i \<le> unat spend - 1" by (rule curve_input_le)
  have t: "unat tokens = (if ?i = 0 then 0 else min (cp_out ?vq ?vt ?i) (unat (pc_real_token_reserves curve)))"
    using pump_buy_value [of curve global spend] assms(1) by (simp add: Let_def)
  have "?vq + ?i < 2 ^ 64" using i assms(2) by linarith
  then have q: "unat (pc_virtual_quote_reserves ?after) = ?vq + ?i"
    by (simp add: curve_after_buy_def unat_word_ariths unat_of_nat)
  have v: "unat (pc_virtual_token_reserves ?after) = ?vt - unat tokens"
    using assms(3) by (simp add: curve_after_buy_def unat_sub)
  have "curve_gross ?after tokens \<le> ?i"
  proof (cases "tokens = 0")
    case True
    then show ?thesis by (simp add: curve_gross_def)
  next
    case False
    have tv: "unat tokens \<le> ?vt" using assms(3) by (simp add: word_le_nat_alt)
    have "unat tokens \<le> cp_out ?vq ?vt ?i" using t by (auto split: if_splits)
    then have "unat tokens * (?vq + ?i) \<le> cp_out ?vq ?vt ?i * (?vq + ?i)" by (rule mult_le_mono1)
    also have "\<dots> \<le> ?i * ?vt" by (simp add: cp_out_def)
    finally have "unat tokens * (?vq + ?i) div ?vt \<le> ?i * ?vt div ?vt" by (rule div_le_mono)
    then have "unat tokens * (?vq + ?i) div ?vt \<le> ?i" by (cases "?vt = 0") simp_all
    then show ?thesis using tv by (simp add: curve_gross_def cp_out_def q v)
  qed
  then have "unat (quote_sell_quote_from_curve ?after global' tokens) \<le> ?i"
    by (simp add: pump_sell_value after_curve_fees_def)
  moreover have "0 < spend \<longrightarrow> ?i < unat spend"
    using i by (auto simp: word_gt_0 unat_eq_iff)
  ultimately show ?thesis by blast
qed

text \<open>
  The two fees are rounded up one by one, so that a larger sale can be quoted one lamport less
  than a smaller one, but never more than one.
\<close>

lemma after_fees_nearly_monotone:
  assumes "f + c \<le> 10000" "g \<le> h"
  shows "g - ceil_bps g f - ceil_bps g c \<le> Suc (h - ceil_bps h f - ceil_bps h c)"
proof -
  let ?d = "h - g"
  have u: "ceil_bps h b * 10000 \<le> h * b + 9999" "g * b \<le> ceil_bps g b * 10000" for b
  proof -
    show "ceil_bps h b * 10000 \<le> h * b + 9999" unfolding ceil_bps_def by (rule div_times_less_eq_dividend)
    have "x \<le> (x + 9999) div 10000 * 10000" for x :: nat
      using div_mult_mod_eq [of "x + 9999" 10000] mod_less_divisor [of 10000 "x + 9999"] by linarith
    then show "g * b \<le> ceil_bps g b * 10000" unfolding ceil_bps_def .
  qed
  obtain k where h: "h = g + k" using assms(2) le_Suc_ex by blast
  have "k * (f + c) \<le> k * 10000" using assms(1) by (rule mult_le_mono2)
  then have "(ceil_bps h f + ceil_bps h c) * 10000 \<le> (ceil_bps g f + ceil_bps g c) * 10000 + k * 10000 + 19998"
    using u [of f] u [of c] by (simp add: h algebra_simps)
  moreover have "x \<le> y + z + 1" if "x * 10000 \<le> y * 10000 + z * 10000 + 19998" for x y z :: nat
  proof -
    have "x * 10000 < (y + z + 2) * 10000" using that by simp
    then show ?thesis by (simp add: mult_less_cancel2)
  qed
  ultimately have "ceil_bps h f + ceil_bps h c \<le> ceil_bps g f + ceil_bps g c + k + 1" by blast
  then show ?thesis using h by linarith
qed

lemma pump_sell_quote_nearly_monotone:
  assumes "unat (pg_fee_basis_points global) + unat (pg_creator_fee_basis_points global) \<le> 10000" "a \<le> b"
  shows "unat (quote_sell_quote_from_curve curve global a) \<le> unat (quote_sell_quote_from_curve curve global b) + 1"
proof -
  have "curve_gross curve a \<le> curve_gross curve b"
    unfolding curve_gross_def using assms(2) by (intro cp_out_mono) (simp add: word_le_nat_alt)
  from after_fees_nearly_monotone [OF assms(1) this]
  have "after_curve_fees global (curve_gross curve a) \<le> Suc (after_curve_fees global (curve_gross curve b))"
    by (simp only: after_curve_fees_def)
  then show ?thesis by (simp add: pump_sell_value min_le_iff_disj) linarith
qed

lemma pump_sell_quote_not_monotone:
  "\<exists>curve global. quote_sell_quote_from_curve curve global 92 < quote_sell_quote_from_curve curve global 91"
proof -
  define global where "global = \<lparr>pg_fee_recipient = default_pubkey, pg_fee_basis_points = 100,
      pg_creator_fee_basis_points = 100, pg_fee_recipients = [], pg_reserved_fee_recipient = default_pubkey,
      pg_reserved_fee_recipients = [], pg_buyback_fee_recipients = [], pg_buyback_basis_points = 0,
      pg_initial_virtual_quote_reserves = 0, pg_whitelisted_quote_mints = []\<rparr>"
  define curve where "curve = \<lparr>pc_virtual_token_reserves = 1000000, pc_virtual_quote_reserves = 1100000,
      pc_real_token_reserves = 1000000, pc_real_quote_reserves = 1000000, pc_complete = False,
      pc_creator = default_pubkey, pc_is_mayhem_mode = False, pc_cashback_enabled = False,
      pc_quote_mint = default_pubkey\<rparr>"
  have "unat (quote_sell_quote_from_curve curve global 91) = 98"
    "unat (quote_sell_quote_from_curve curve global 92) = 97"
    by (simp_all add: pump_sell_value curve_gross_def cp_out_def after_curve_fees_def ceil_bps_def
        curve_def global_def)
  then have "quote_sell_quote_from_curve curve global 92 < quote_sell_quote_from_curve curve global 91"
    by (simp add: word_less_nat_alt)
  then show ?thesis by blast
qed

section \<open>Accounts\<close>

text \<open>A curve account of the newest layout.\<close>

definition curve_account :: "bytes \<Rightarrow> u64 \<Rightarrow> pump_curve_state \<Rightarrow> bytes" where
  "curve_account discriminator supply curve =
     discriminator @ u64_to_le_bytes (pc_virtual_token_reserves curve)
     @ u64_to_le_bytes (pc_virtual_quote_reserves curve) @ u64_to_le_bytes (pc_real_token_reserves curve)
     @ u64_to_le_bytes (pc_real_quote_reserves curve) @ u64_to_le_bytes supply
     @ [of_bool (pc_complete curve)] @ pc_creator curve
     @ [of_bool (pc_is_mayhem_mode curve), of_bool (pc_cashback_enabled curve)] @ pc_quote_mint curve"

lemmas pump_eval = pump_read_def map_error_def read_pubkey_def read_u64_def read_u8_def pump_read_bool_def
  if_more_def slice_eval nth_append

text \<open>
  A curve account reads back whatever layout it has: the newest, with anything after it, or
  one of the older ones that end before the quote mint, the cashback flag or the mayhem flag, for
  which the missing fields are the defaults (wrapped SOL, off).
\<close>

theorem pump_curve_layouts:
  assumes "length discriminator = 8" "length (pc_creator curve) = 32" "length (pc_quote_mint curve) = 32"
  shows "decode_bonding_curve_state (curve_account discriminator supply curve @ rest) = Inr curve
   \<and> decode_bonding_curve_state (take 83 (curve_account discriminator supply curve))
       = Inr (curve\<lparr>pc_quote_mint := default_pubkey\<rparr>)
   \<and> decode_bonding_curve_state (take 82 (curve_account discriminator supply curve))
       = Inr (curve\<lparr>pc_quote_mint := default_pubkey, pc_cashback_enabled := False\<rparr>)
   \<and> decode_bonding_curve_state (take 81 (curve_account discriminator supply curve))
       = Inr (curve\<lparr>pc_quote_mint := default_pubkey, pc_cashback_enabled := False,
                    pc_is_mayhem_mode := False\<rparr>)"
proof (intro conjI)
  show "decode_bonding_curve_state (curve_account discriminator supply curve @ rest) = Inr curve"
    using assms by (simp add: decode_bonding_curve_state_def curve_account_def pump_eval)
  show "decode_bonding_curve_state (take 83 (curve_account discriminator supply curve))
       = Inr (curve\<lparr>pc_quote_mint := default_pubkey\<rparr>)"
    using assms by (simp add: decode_bonding_curve_state_def curve_account_def pump_eval)
  show "decode_bonding_curve_state (take 82 (curve_account discriminator supply curve))
       = Inr (curve\<lparr>pc_quote_mint := default_pubkey, pc_cashback_enabled := False\<rparr>)"
    using assms by (simp add: decode_bonding_curve_state_def curve_account_def pump_eval)
  show "decode_bonding_curve_state (take 81 (curve_account discriminator supply curve))
       = Inr (curve\<lparr>pc_quote_mint := default_pubkey, pc_cashback_enabled := False,
                    pc_is_mayhem_mode := False\<rparr>)"
    using assms by (simp add: decode_bonding_curve_state_def curve_account_def pump_eval)
qed

section \<open>What a sale is sized to\<close>

lemma pump_sell_token_amount:
  assumes "resolve_sell_token_amount e intent wallet_id owner_text mint_text curve global = Inr amount"
  shows "\<exists>balance. env_token_balance (pe_venue e) wallet_id owner_text mint_text 6 = Inr balance
     \<and> 0 < amount \<and> amount \<le> balance
     \<and> (case intent of
          Sell_Percent v \<Rightarrow> \<exists>bps. parse_percent_to_bps v = Inr bps
            \<and> unat amount = unat balance * unat bps div 10000
        | Sell_Sol_Output v \<Rightarrow> \<exists>target q. parse_decimal_units v 9 ''sellOutputSol'' = Inr target \<and> 0 < target
            \<and> pump_net_quote (env_wrapper_fee_bps (pe_venue e)) curve global amount = Inr q \<and> target \<le> q)"
proof -
  obtain balance where b: "env_token_balance (pe_venue e) wallet_id owner_text mint_text 6 = Inr balance"
    and pos: "amount \<noteq> 0" "amount \<le> balance"
    and intent: "(case intent of
                Sell_Percent value \<Rightarrow>
                  rbind (parse_percent_to_bps value) (\<lambda>bps. Inr (percent_of_balance balance bps))
              | Sell_Sol_Output value \<Rightarrow>
                  rbind (pump_quote_asset_meta e (pc_quote_mint curve)) (\<lambda>meta.
                  if pq_kind meta \<noteq> Pump_Sol then Inl (Unsupported_Market ''sellOutputSol'')
                  else
                    rbind (parse_decimal_units value (unat (pq_decimals meta)) ''sellOutputSol'') (\<lambda>desired.
                    if desired = 0 then Inl (Zero_Amount ''sellOutputSol'')
                    else sized_sell_amount balance desired
                           (pump_net_quote (env_wrapper_fee_bps (pe_venue e)) curve global)))) = Inr amount"
    using assms
    unfolding resolve_sell_token_amount_def rbind_Inr_iff
    by (auto simp: within_balance_def not_less split: if_splits)
  have "(case intent of
          Sell_Percent v \<Rightarrow> \<exists>bps. parse_percent_to_bps v = Inr bps
            \<and> unat amount = unat balance * unat bps div 10000
        | Sell_Sol_Output v \<Rightarrow> \<exists>target q. parse_decimal_units v 9 ''sellOutputSol'' = Inr target \<and> 0 < target
            \<and> pump_net_quote (env_wrapper_fee_bps (pe_venue e)) curve global amount = Inr q \<and> target \<le> q)"
  proof (cases intent)
    case (Sell_Percent v)
    then show ?thesis using intent by (auto simp: percent_value(1) [OF percent_at_most_all])
  next
    case (Sell_Sol_Output v)
    obtain meta target where m: "pump_quote_asset_meta e (pc_quote_mint curve) = Inr meta" "pq_kind meta = Pump_Sol"
      and t: "parse_decimal_units v (unat (pq_decimals meta)) ''sellOutputSol'' = Inr target" "target \<noteq> 0"
      and s: "sized_sell_amount balance target
                (pump_net_quote (env_wrapper_fee_bps (pe_venue e)) curve global) = Inr amount"
      using intent Sell_Sol_Output by (auto split: if_splits)
    have "pq_decimals meta = 9"
      using m by (auto simp: pump_quote_asset_meta_def Let_def split: if_splits)
    with t sized_sell_reaches(3) [OF s] Sell_Sol_Output show ?thesis by (auto simp: word_gt_0)
  qed
  with b pos show ?thesis by (auto simp: word_gt_0)
qed

section \<open>What a curve trade does\<close>

lemma buy_token_slippage_value:
  "apply_buy_token_slippage t (ucast (s :: u16)) = apply_sell_side_slippage t s"
proof -
  have "unat (sat_sub (10000 :: u64) (min (ucast s) 10000)) = 10000 - unat s"
    "unat (sat_sub (10000 :: u64) (ucast s)) = 10000 - unat s"
    by (simp_all add: unat_sat_sub unat_min unsigned_ucast_eq take_bit_nat_eq_self
        order.strict_trans [OF unat_less_pow [of s]])
  then have "sat_sub (10000 :: u64) (min (ucast s) 10000) = sat_sub 10000 (ucast s)"
    by (simp add: unat_eq_iff)
  then show ?thesis by (simp only: apply_buy_token_slippage_def apply_sell_side_slippage_def)
qed

lemma finish_pump_keeps:
  assumes "finish_pump_curve_trade e pol owner label core price = Inr trade"
  shows "\<exists>all tables signed. subseq core all \<and> pe_sign e owner all [owner] tables = Inr signed
     \<and> sm_lookup_tables signed = [shared_super_lookup_table]
     \<and> map ct_base64 (cat_transactions trade) = [sm_base64 signed]"
proof -
  obtain guarded budget ixs tip memo tables compiled where
    g: "(if jitodontfront_enabled_for_provider (provider pol) (policy_mev_mode pol)
            then apply_jitodontfront (pe_venue e) core owner else Inr core) = Inr guarded"
    and ixs: "append_inline_tip e (budget @ guarded) pol owner = Inr (ixs, tip)"
    and c: "compile_pump_transaction_candidate e label owner [] (ixs @ [memo]) tables pump_compute_unit_limit
              price tip = Inr compiled" and t: "cat_transactions trade = [compiled]"
    using assms
    unfolding finish_pump_curve_trade_def build_pump_transaction_with_lookup_preference_def rbind_Inr_iff
    by (auto simp: case_prod_beta rbind_Inr_iff)
  have "subseq core guarded" using g by (auto dest: jitodontfront_keeps split: if_splits)
  moreover have "prefix (budget @ guarded) ixs"
    using ixs by (auto simp: append_inline_tip_def split: option.splits)
  ultimately have "subseq core (ixs @ [memo])"
    by (meson list_emb_append2 prefix_imp_subseq subseq_order.order_trans prefix_order.trans prefixI)
  moreover obtain signed where "pe_sign e owner (ixs @ [memo]) [owner] tables = Inr signed"
    "sm_lookup_tables signed = [shared_super_lookup_table]" "ct_base64 compiled = sm_base64 signed"
    using c by (auto simp: compile_pump_transaction_candidate_def split: if_splits)
  ultimately show ?thesis using t by auto
qed

section \<open>Examples\<close>

definition sample_pump_global :: pump_global_state where
  "sample_pump_global =
     \<lparr>pg_fee_recipient = sample_key 60, pg_fee_basis_points = 95, pg_creator_fee_basis_points = 30,
      pg_fee_recipients = [], pg_reserved_fee_recipient = default_pubkey, pg_reserved_fee_recipients = [],
      pg_buyback_fee_recipients = [sample_key 61], pg_buyback_basis_points = 0,
      pg_initial_virtual_quote_reserves = 0, pg_whitelisted_quote_mints = []\<rparr>"

definition sample_curve :: pump_curve_state where
  "sample_curve =
     \<lparr>pc_virtual_token_reserves = 1073000000000000, pc_virtual_quote_reserves = 30000000000,
      pc_real_token_reserves = 793100000000000, pc_real_quote_reserves = 0, pc_complete = False,
      pc_creator = sample_key 62, pc_is_mayhem_mode = False, pc_cashback_enabled = False,
      pc_quote_mint = wsol_mint_id\<rparr>"

lemma sample_curve_buy:
  "curve_input sample_pump_global 1000000000 = 987654320"
  "quote_buy_tokens_from_curve sample_curve sample_pump_global 1000000000 = 34199203154141"
proof -
  show i: "curve_input sample_pump_global 1000000000 = 987654320"
    by (simp add: curve_input_def sample_pump_global_def)
  have "unat (quote_buy_tokens_from_curve sample_curve sample_pump_global 1000000000) = 34199203154141"
    by (simp add: pump_buy_value i Let_def cp_out_def sample_curve_def)
  then show "quote_buy_tokens_from_curve sample_curve sample_pump_global 1000000000 = 34199203154141"
    by (simp add: unat_eq_iff)
qed


theorem pump_round_trip_never_gains_witness:
  "unat (quote_sell_quote_from_curve (curve_after_buy sample_curve 987654320 34199203154141)
      sample_pump_global 34199203154141) \<le> 987654320"
  using pump_round_trip_never_gains [OF sample_curve_buy(2), of sample_pump_global]
  by (simp add: sample_curve_buy(1)) (simp add: sample_curve_def)

theorem pump_curve_layouts_witness:
  "decode_bonding_curve_state (curve_account (replicate 8 1) 1000 sample_curve) = Inr sample_curve
   \<and> decode_bonding_curve_state (take 83 (curve_account (replicate 8 1) 1000 sample_curve))
       = Inr (sample_curve\<lparr>pc_quote_mint := default_pubkey\<rparr>)"
  using pump_curve_layouts [of "replicate 8 1" sample_curve 1000 "[]"]
  by (simp add: sample_curve_def)

end
