(* ===== verification/Pump_Amm.thy ===== *)
theory Pump_Amm
  imports Pump_Curve
begin

text \<open>
  The Pump venue after the migration, and its planner (\<^verbatim>\<open>execution-engine/src/pump_native.rs\<close>):
  the AMM's accounts, fee tiers and quotes, the choice of the pool, the plan of a trade on either
  venue, and the compilation of a planned trade. Routes of tokens quoted in USDC go through a
  stable pool first; their compilation is an argument (\<open>pump_usdc_routes\<close>).
\<close>

section \<open>Accounts\<close>

record pump_amm_global_config =
  pa_lp_fee_basis_points :: u64
  pa_protocol_fee_basis_points :: u64
  pa_protocol_fee_recipients :: "pubkey list"
  pa_coin_creator_fee_basis_points :: u64
  pa_reserved_fee_recipient :: pubkey
  pa_reserved_fee_recipients :: "pubkey list"

record pump_amm_pool =
  pp_pubkey :: pubkey
  pp_creator :: pubkey
  pp_base_mint :: pubkey
  pp_quote_mint :: pubkey
  pp_base_account :: pubkey
  pp_quote_account :: pubkey
  pp_coin_creator :: pubkey
  pp_is_mayhem_mode :: bool
  pp_is_cashback_coin :: bool

record pump_amm_fees =
  lp_fee_bps :: u64
  protocol_fee_bps :: u64
  creator_fee_bps :: u64

record pump_amm_fee_tier =
  tier_threshold :: u128
  tier_fees :: pump_amm_fees

record pump_amm_fee_config =
  flat_fees :: pump_amm_fees
  fee_tiers :: "pump_amm_fee_tier list"

definition pump_amm_program_id :: "pump_env \<Rightarrow> venue_error + pubkey" where
  "pump_amm_program_id e =
     venue_key (pe_venue e) ''pAMMBay6oceH9fJKBRHGP5D4bD4sWpmSwMn52FMfXEA'' ''Pump AMM program id''"

definition pump_amm_pda :: "pump_env \<Rightarrow> bytes list \<Rightarrow> venue_error + pubkey" where
  "pump_amm_pda e seeds = rbind (pump_amm_program_id e) (\<lambda>program. Inr (pda e seeds program))"

definition pump_amm_global_config_pda :: "pump_env \<Rightarrow> venue_error + pubkey" where
  "pump_amm_global_config_pda e = pump_amm_pda e [byte_string ''global_config'']"

definition pump_amm_pool_authority_pda :: "pump_env \<Rightarrow> pubkey \<Rightarrow> venue_error + pubkey" where
  "pump_amm_pool_authority_pda e base = pump_pda e [byte_string ''pool-authority'', base]"

definition derive_pump_amm_pool_address ::
  "pump_env \<Rightarrow> pubkey \<Rightarrow> pubkey \<Rightarrow> pubkey \<Rightarrow> u16 \<Rightarrow> venue_error + pubkey" where
  "derive_pump_amm_pool_address e creator base quote_key idx =
     pump_amm_pda e [byte_string ''pool'', u16_to_le_bytes idx, creator, base, quote_key]"

definition canonical_pump_amm_pool_for_quote :: "pump_env \<Rightarrow> pubkey \<Rightarrow> pubkey \<Rightarrow> venue_error + pubkey" where
  "canonical_pump_amm_pool_for_quote e base quote_key =
     rbind (pump_quote_asset_meta e quote_key) (\<lambda>_.
     rbind (pump_amm_pool_authority_pda e base) (\<lambda>creator.
     derive_pump_amm_pool_address e creator base quote_key 0))"

definition pump_amm_coin_creator_vault_authority_pda :: "pump_env \<Rightarrow> pubkey \<Rightarrow> venue_error + pubkey" where
  "pump_amm_coin_creator_vault_authority_pda e creator =
     pump_amm_pda e [byte_string ''creator_vault'', creator]"

definition pump_amm_pool_v2_pda :: "pump_env \<Rightarrow> pubkey \<Rightarrow> venue_error + pubkey" where
  "pump_amm_pool_v2_pda e base = pump_amm_pda e [byte_string ''pool-v2'', base]"

definition pump_amm_global_volume_accumulator_pda :: "pump_env \<Rightarrow> venue_error + pubkey" where
  "pump_amm_global_volume_accumulator_pda e = pump_amm_pda e [byte_string ''global_volume_accumulator'']"

definition pump_amm_user_volume_accumulator_pda :: "pump_env \<Rightarrow> pubkey \<Rightarrow> venue_error + pubkey" where
  "pump_amm_user_volume_accumulator_pda e user =
     pump_amm_pda e [byte_string ''user_volume_accumulator'', user]"

definition pump_amm_user_volume_accumulator_quote_ata ::
  "pump_env \<Rightarrow> pubkey \<Rightarrow> pubkey \<Rightarrow> venue_error + pubkey" where
  "pump_amm_user_volume_accumulator_quote_ata e user quote_key =
     rbind (pump_amm_user_volume_accumulator_pda e user) (\<lambda>accumulator.
     rbind (venue_token_program (pe_venue e)) (\<lambda>program.
     Inr (pump_ata e accumulator quote_key program)))"

definition fee_config_seed_owner :: pubkey where
  "fee_config_seed_owner =
     [12, 20, 222, 252, 130, 94, 198, 118, 148, 37, 8, 24, 187, 101, 64, 101, 244, 41, 141, 49,
      86, 213, 113, 180, 212, 248, 9, 12, 24, 233, 168, 99]"

definition pump_amm_fee_config_pda :: "pump_env \<Rightarrow> venue_error + pubkey" where
  "pump_amm_fee_config_pda e =
     rbind (pump_fee_program_id e) (\<lambda>fee_program.
       Inr (pda e [byte_string ''fee_config'', fee_config_seed_owner] fee_program))"

definition decode_pump_amm_global_config :: "bytes \<Rightarrow> venue_error + pump_amm_global_config" where
  "decode_pump_amm_global_config data =
     (if length data < 8 + 32 + 8 + 8 + 1 + 8 * 32 + 8 + 32 + 32 + 32 + 1 + 7 * 32 + 1
      then Inl (Data_Too_Short ''Pump AMM global config'')
      else
     rbind (pump_read read_pubkey data 8) (\<lambda>(admin, off).
     rbind (pump_read read_u64 data off) (\<lambda>(lp_fee, off).
     rbind (pump_read read_u64 data off) (\<lambda>(protocol_fee, off).
     rbind (pump_read_keys 8 data (off + 1)) (\<lambda>(recipients, off).
     rbind (pump_read read_u64 data off) (\<lambda>(creator_fee, off).
     rbind (pump_read read_pubkey data off) (\<lambda>(admin_set_coin_creator_authority, off).
     rbind (pump_read read_pubkey data off) (\<lambda>(whitelist, off).
     rbind (pump_read read_pubkey data off) (\<lambda>(reserved, off).
     rbind (pump_read_bool data off) (\<lambda>(mayhem_mode_enabled, off).
     rbind (pump_read_keys 7 data off) (\<lambda>(reserved_recipients, off).
     rbind (pump_read_bool data off) (\<lambda>(is_cashback_enabled, off).
     Inr \<lparr>pa_lp_fee_basis_points = lp_fee, pa_protocol_fee_basis_points = protocol_fee,
          pa_protocol_fee_recipients = recipients, pa_coin_creator_fee_basis_points = creator_fee,
          pa_reserved_fee_recipient = reserved,
          pa_reserved_fee_recipients = reserved_recipients\<rparr>))))))))))))"

definition decode_pump_amm_pool_state :: "pubkey \<Rightarrow> bytes \<Rightarrow> venue_error + pump_amm_pool" where
  "decode_pump_amm_pool_state pool_key data =
     (if length data < 243 then Inl (Data_Too_Short ''Pump AMM pool'')
      else
     rbind (pump_read read_pubkey data 11) (\<lambda>(creator, off).
     rbind (pump_read read_pubkey data off) (\<lambda>(base, off).
     rbind (pump_read read_pubkey data off) (\<lambda>(quote_key, off).
     rbind (pump_read read_pubkey data off) (\<lambda>(lp_mint, off).
     rbind (pump_read read_pubkey data off) (\<lambda>(base_account, off).
     rbind (pump_read read_pubkey data off) (\<lambda>(quote_account, off).
     rbind (pump_read read_u64 data off) (\<lambda>(lp_supply, off).
     rbind (if off + 32 \<le> length data then pump_read read_pubkey data off
            else Inr (default_pubkey, off)) (\<lambda>(coin_creator, off).
     rbind (if_more False pump_read_bool data off) (\<lambda>(mayhem, off).
     rbind (if_more False pump_read_bool data off) (\<lambda>(cashback, off).
     Inr \<lparr>pp_pubkey = pool_key, pp_creator = creator, pp_base_mint = base, pp_quote_mint = quote_key,
          pp_base_account = base_account, pp_quote_account = quote_account,
          pp_coin_creator = coin_creator, pp_is_mayhem_mode = mayhem,
          pp_is_cashback_coin = cashback\<rparr>)))))))))))"

definition read_pump_amm_fees :: "bytes \<Rightarrow> nat \<Rightarrow> venue_error + (pump_amm_fees \<times> nat)" where
  "read_pump_amm_fees data off =
     rbind (pump_read read_u64 data off) (\<lambda>(lp, off).
     rbind (pump_read read_u64 data off) (\<lambda>(protocol, off).
     rbind (pump_read read_u64 data off) (\<lambda>(creator, off).
     Inr (\<lparr>lp_fee_bps = lp, protocol_fee_bps = protocol, creator_fee_bps = creator\<rparr>, off))))"

definition pump_read_u32 :: "bytes \<Rightarrow> nat \<Rightarrow> venue_error + (u32 \<times> nat)" where
  "pump_read_u32 data off =
     (case slice data off 4 of
        None \<Rightarrow> Inl (Bytes_Missing ''u32'')
      | Some bs \<Rightarrow> Inr (u32_from_le_bytes bs, off + 4))"

definition pump_read_u128 :: "bytes \<Rightarrow> nat \<Rightarrow> venue_error + (u128 \<times> nat)" where
  "pump_read_u128 data off =
     (case slice data off 16 of
        None \<Rightarrow> Inl (Bytes_Missing ''u128'')
      | Some bs \<Rightarrow> Inr (of_nat (le_value bs), off + 16))"

fun read_fee_tiers :: "nat \<Rightarrow> bytes \<Rightarrow> nat \<Rightarrow> venue_error + pump_amm_fee_tier list" where
  "read_fee_tiers 0 data off = Inr []"
| "read_fee_tiers (Suc n) data off =
     rbind (pump_read_u128 data off) (\<lambda>(threshold, off).
     rbind (read_pump_amm_fees data off) (\<lambda>(fees, off).
     rbind (read_fee_tiers n data off) (\<lambda>tiers.
     Inr (\<lparr>tier_threshold = threshold, tier_fees = fees\<rparr> # tiers))))"

definition decode_pump_amm_fee_config :: "bytes \<Rightarrow> venue_error + pump_amm_fee_config" where
  "decode_pump_amm_fee_config data =
     (if length data < 8 + 1 + 32 + 24 + 4 then Inl (Data_Too_Short ''Pump AMM fee config'')
      else
     rbind (pump_read read_pubkey data 9) (\<lambda>(admin, off).
     rbind (read_pump_amm_fees data off) (\<lambda>(flat, off).
     rbind (pump_read_u32 data off) (\<lambda>(n, off).
     rbind (read_fee_tiers (unat n) data off) (\<lambda>tiers.
     Inr \<lparr>flat_fees = flat, fee_tiers = tiers\<rparr>)))))"

section \<open>Fees and quotes\<close>

definition is_pump_amm_canonical_pool :: "pump_env \<Rightarrow> pump_amm_pool \<Rightarrow> venue_error + bool" where
  "is_pump_amm_canonical_pool e pool =
     rbind (pump_amm_pool_authority_pda e (pp_base_mint pool)) (\<lambda>authority.
       Inr (pp_creator pool = authority))"

definition pool_market_cap_quote_units :: "u64 \<Rightarrow> u64 \<Rightarrow> u64 \<Rightarrow> venue_error + u128" where
  "pool_market_cap_quote_units base_mint_supply base_reserve quote_reserve =
     (if base_reserve = 0 then Inl (Quote_Error Reserves_Empty)
      else Inr (ucast quote_reserve * ucast base_mint_supply div ucast base_reserve))"

definition fees_of_tiers :: "u128 \<Rightarrow> pump_amm_fee_tier list \<Rightarrow> venue_error + pump_amm_fees" where
  "fees_of_tiers market_cap tiers =
     (case tiers of
        [] \<Rightarrow> Inl (Quote_Error Fee_Config_Invalid)
      | first # _ \<Rightarrow>
          if market_cap < tier_threshold first then Inr (tier_fees first)
          else
            case List.find (\<lambda>tier. tier_threshold tier \<le> market_cap) (rev tiers) of
              Some tier \<Rightarrow> Inr (tier_fees tier)
            | None \<Rightarrow> Inr (tier_fees first))"

definition compute_pump_amm_fees ::
  "pump_env \<Rightarrow> pump_amm_global_config \<Rightarrow> pump_amm_fee_config option \<Rightarrow> pump_amm_pool \<Rightarrow> u64 \<Rightarrow> u64
     \<Rightarrow> u64 \<Rightarrow> venue_error + pump_amm_fees" where
  "compute_pump_amm_fees e global_config fee_config pool base_mint_supply base_reserve quote_reserve =
     (case fee_config of
        None \<Rightarrow> Inr \<lparr>lp_fee_bps = pa_lp_fee_basis_points global_config,
                     protocol_fee_bps = pa_protocol_fee_basis_points global_config,
                     creator_fee_bps = pa_coin_creator_fee_basis_points global_config\<rparr>
      | Some config \<Rightarrow>
          rbind (is_pump_amm_canonical_pool e pool) (\<lambda>canonical.
          if \<not> canonical then Inr (flat_fees config)
          else
            rbind (pool_market_cap_quote_units base_mint_supply base_reserve quote_reserve) (\<lambda>market_cap.
            fees_of_tiers market_cap (fee_tiers config))))"

definition select_pump_amm_fee_recipient :: "pump_amm_global_config \<Rightarrow> bool \<Rightarrow> pubkey" where
  "select_pump_amm_fee_recipient global_config is_mayhem_mode =
     (case (if is_mayhem_mode
            then reserved_recipient (pa_reserved_fee_recipient global_config)
                   (pa_reserved_fee_recipients global_config)
            else None) of
        Some k \<Rightarrow> k
      | None \<Rightarrow> unwrap_or default_pubkey (first_set (pa_protocol_fee_recipients global_config)))"

definition pump_amm_buy_quote_input ::
  "u64 \<Rightarrow> u64 \<Rightarrow> u64 \<Rightarrow> pump_amm_fees \<Rightarrow> bool \<Rightarrow> u64" where
  "pump_amm_buy_quote_input quote_in base_reserve quote_reserve fees has_coin_creator =
     (let total_fee_bps = (ucast (lp_fee_bps fees) :: u128) + ucast (protocol_fee_bps fees)
                            + (if has_coin_creator then ucast (creator_fee_bps fees) else 0);
          effective_quote = ucast quote_in * 10000 div (sat_add 10000 total_fee_bps);
          numerator = sat_mul (ucast base_reserve) effective_quote;
          denominator = sat_add (ucast quote_reserve) effective_quote
      in if denominator = 0 then 0
         else ucast (min (numerator div denominator) (ucast (max_word :: u64))))"

definition fee_amount :: "u128 \<Rightarrow> u64 \<Rightarrow> u128" where
  "fee_amount v fee_bps = v * ucast fee_bps div 10000"

definition pump_amm_sell_base_input ::
  "u64 \<Rightarrow> u64 \<Rightarrow> u64 \<Rightarrow> pump_amm_fees \<Rightarrow> bool \<Rightarrow> quote_failure + u64" where
  "pump_amm_sell_base_input base base_reserve quote_reserve fees has_coin_creator =
     (if base = 0 then Inl Sell_Zero_Tokens
      else
        let raw = (ucast quote_reserve :: u128) * ucast base div ucast (sat_add base_reserve base);
            lp_fee = fee_amount raw (lp_fee_bps fees);
            protocol_fee = fee_amount raw (protocol_fee_bps fees);
            creator_fee = (if has_coin_creator then fee_amount raw (creator_fee_bps fees) else 0)
        in Inr (ucast (min (sat_sub (sat_sub (sat_sub raw lp_fee) protocol_fee) creator_fee)
                         (ucast (max_word :: u64)))))"

definition pump_amm_net_quote ::
  "u16 \<Rightarrow> u64 \<Rightarrow> u64 \<Rightarrow> pump_amm_fees \<Rightarrow> bool \<Rightarrow> quote_failure quote_fn" where
  "pump_amm_net_quote fee_bps base_reserve quote_reserve fees has_coin_creator =
     net_quote fee_bps (\<lambda>amount. pump_amm_sell_base_input amount base_reserve quote_reserve fees
                                   has_coin_creator)"

definition resolve_pump_amm_sell_input_amount ::
  "pump_env \<Rightarrow> runtime_sell_intent \<Rightarrow> string \<Rightarrow> string \<Rightarrow> string \<Rightarrow> u8 \<Rightarrow> u64 \<Rightarrow> u64
     \<Rightarrow> pump_amm_fees \<Rightarrow> bool \<Rightarrow> u8 \<Rightarrow> venue_error + u64" where
  "resolve_pump_amm_sell_input_amount e intent wallet_id owner_text mint_text base_mint_decimals
       base_reserve quote_reserve fees has_coin_creator quote_decimals =
     rbind (env_token_balance (pe_venue e) wallet_id owner_text mint_text base_mint_decimals) (\<lambda>balance.
     if balance = 0 then Inl (Zero_Amount ''balance'')
     else
       rbind (case intent of
                Sell_Percent value \<Rightarrow>
                  rbind (parse_percent_to_bps value) (\<lambda>bps. Inr (percent_of_balance balance bps))
              | Sell_Sol_Output value \<Rightarrow>
                  if quote_decimals \<noteq> 9 then Inl (Unsupported_Market ''sellOutputSol'')
                  else
                    rbind (parse_decimal_units value (unat quote_decimals) ''sellOutputSol'') (\<lambda>desired.
                    if desired = 0 then Inl (Zero_Amount ''sellOutputSol'')
                    else sized_sell_amount balance desired
                           (pump_amm_net_quote (env_wrapper_fee_bps (pe_venue e)) base_reserve
                              quote_reserve fees has_coin_creator)))
         (within_balance balance))"

section \<open>Loading\<close>

text \<open>\<^verbatim>\<open>error.contains("was not found")\<close>, the message of a missing account.\<close>

definition was_not_found :: "venue_error \<Rightarrow> bool" where
  "was_not_found err \<longleftrightarrow>
     (case err of Account_Not_Found _ \<Rightarrow> True | Rpc_Failed text_of \<Rightarrow> sublist ''was not found'' text_of
      | _ \<Rightarrow> False)"

definition unless_missing :: "venue_error + 'a \<Rightarrow> venue_error + 'a option" where
  "unless_missing r =
     (case r of
        Inr x \<Rightarrow> Inr (Some x)
      | Inl err \<Rightarrow> if was_not_found err then Inr None else Inl err)"

definition fetch_global_state :: "pump_env \<Rightarrow> venue_error + pump_global_state" where
  "fetch_global_state e =
     rbind (global_pda e) (\<lambda>address.
     rbind (pe_cached_data e (env_pubkey_text (pe_venue e) address)) decode_global_state)"

definition fetch_bonding_curve_state :: "pump_env \<Rightarrow> pubkey \<Rightarrow> string \<Rightarrow> venue_error + pump_curve_state" where
  "fetch_bonding_curve_state e mint_key commitment_level =
     rbind (bonding_curve_pda e mint_key) (\<lambda>address.
     rbind (env_account_data (pe_venue e) (env_pubkey_text (pe_venue e) address) commitment_level)
       decode_bonding_curve_state)"

definition cached_pump_bonding_route_is_active ::
  "pump_env \<Rightarrow> string \<Rightarrow> string \<Rightarrow> string \<Rightarrow> venue_error + bool" where
  "cached_pump_bonding_route_is_active e mint_text market_key commitment_level =
     rbind (venue_key (pe_venue e) mint_text ''Pump bonding route mint'') (\<lambda>mint_key.
     rbind (bonding_curve_pda e mint_key) (\<lambda>curve_key.
     if str_trim market_key \<noteq> [] \<and> str_trim market_key \<noteq> env_pubkey_text (pe_venue e) curve_key
     then Inr False
     else
       rbind (unless_missing (fetch_bonding_curve_state e mint_key commitment_level)) (\<lambda>curve.
       Inr (case curve of Some c \<Rightarrow> \<not> pc_complete c | None \<Rightarrow> False))))"

definition ensure_supported_pump_bonding_token_program :: "pump_env \<Rightarrow> pubkey \<Rightarrow> venue_error + unit" where
  "ensure_supported_pump_bonding_token_program e token_program =
     rbind (pump_token_2022_program_id e) (\<lambda>token_2022.
     rbind (venue_token_program (pe_venue e)) (\<lambda>token.
     if token_program = token_2022 \<or> token_program = token then Inr ()
     else Inl (Unsupported_Market ''token program'')))"

definition resolve_pump_bonding_mint_token_program ::
  "pump_env \<Rightarrow> pubkey \<Rightarrow> string \<Rightarrow> venue_error + pubkey" where
  "resolve_pump_bonding_mint_token_program e mint_key commitment_level =
     rbind (env_account (pe_venue e) (env_pubkey_text (pe_venue e) mint_key) commitment_level) (\<lambda>found.
     rbind (ok_or found (Account_Not_Found ''mint'')) (\<lambda>(owner, _).
     rbind (ensure_supported_pump_bonding_token_program e owner) (\<lambda>_. Inr owner)))"

definition parse_pump_bonding_token_program :: "pump_env \<Rightarrow> string \<Rightarrow> string \<Rightarrow> venue_error + pubkey" where
  "parse_pump_bonding_token_program e value label =
     rbind (venue_key (pe_venue e) value label) (\<lambda>token_program.
     rbind (ensure_supported_pump_bonding_token_program e token_program) (\<lambda>_. Inr token_program))"

definition resolve_follow_creator_vault_authority ::
  "pump_env \<Rightarrow> pubkey \<Rightarrow> pubkey \<Rightarrow> venue_error + pubkey" where
  "resolve_follow_creator_vault_authority e mint_key launch_creator =
     rbind (fee_sharing_config_pda e mint_key) (\<lambda>sharing_config.
     rbind (pe_account_exists e (env_pubkey_text (pe_venue e) sharing_config) ''confirmed'') (\<lambda>exists.
     Inr (if exists then sharing_config else launch_creator)))"

definition fetch_pump_amm_global_config :: "pump_env \<Rightarrow> venue_error + pump_amm_global_config" where
  "fetch_pump_amm_global_config e =
     rbind (pump_amm_global_config_pda e) (\<lambda>address.
     rbind (pe_cached_data e (env_pubkey_text (pe_venue e) address)) decode_pump_amm_global_config)"

definition fetch_pump_amm_fee_config :: "pump_env \<Rightarrow> venue_error + pump_amm_fee_config option" where
  "fetch_pump_amm_fee_config e =
     rbind (pump_amm_fee_config_pda e) (\<lambda>address.
     rbind (unless_missing (pe_cached_data e (env_pubkey_text (pe_venue e) address))) (\<lambda>found.
     case found of
       None \<Rightarrow> Inr None
     | Some data \<Rightarrow> rbind (decode_pump_amm_fee_config data) (\<lambda>config. Inr (Some config))))"

section \<open>Choosing the pool\<close>

text \<open>A pool that the user named: the canonical pool of its mint and quote, or an error.\<close>

definition checked_pinned_pool ::
  "pump_env \<Rightarrow> pubkey \<Rightarrow> pubkey \<Rightarrow> pump_amm_pool \<Rightarrow> venue_error + pump_amm_pool option" where
  "checked_pinned_pool e mint_key pinned pool =
     rbind (canonical_pump_amm_pool_for_quote e mint_key (pp_quote_mint pool)) (\<lambda>canonical.
     if pinned \<noteq> canonical then Inl (Unsupported_Market ''not the canonical pool'')
     else if pp_base_mint pool \<noteq> mint_key then Inl (Unsupported_Market ''other base mint'')
     else rbind (pump_quote_asset_meta e (pp_quote_mint pool)) (\<lambda>_. Inr (Some pool)))"

text \<open>The first of the canonical pools that exists and is what its address says.\<close>

fun first_canonical_pool ::
  "pubkey \<Rightarrow> (pubkey \<times> pubkey \<times> bytes option) list \<Rightarrow> venue_error + pump_amm_pool option" where
  "first_canonical_pool mint_key [] = Inr None"
| "first_canonical_pool mint_key ((quote_key, canonical, None) # rest) = first_canonical_pool mint_key rest"
| "first_canonical_pool mint_key ((quote_key, canonical, Some data) # rest) =
     rbind (decode_pump_amm_pool_state canonical data) (\<lambda>pool.
     if pp_base_mint pool = mint_key \<and> pp_quote_mint pool = quote_key then Inr (Some pool)
     else first_canonical_pool mint_key rest)"

definition find_pump_amm_pool_state ::
  "pump_env \<Rightarrow> pubkey \<Rightarrow> pubkey option \<Rightarrow> string \<Rightarrow> venue_error + pump_amm_pool option" where
  "find_pump_amm_pool_state e mint_key pin commitment_level =
     (case pin of
        Some pinned \<Rightarrow>
          rbind (unless_missing (env_account_data (pe_venue e) (env_pubkey_text (pe_venue e) pinned)
                   commitment_level)) (\<lambda>found.
          case found of
            None \<Rightarrow> Inr None
          | Some data \<Rightarrow>
              rbind (decode_pump_amm_pool_state pinned data) (checked_pinned_pool e mint_key pinned))
      | None \<Rightarrow>
          rbind (venue_wsol_mint (pe_venue e)) (\<lambda>wsol.
          rbind (usdc_mint e) (\<lambda>usdc.
          rbind (canonical_pump_amm_pool_for_quote e mint_key wsol) (\<lambda>wsol_pool.
          rbind (canonical_pump_amm_pool_for_quote e mint_key usdc) (\<lambda>usdc_pool.
          rbind (env_accounts (pe_venue e) (map (env_pubkey_text (pe_venue e)) [wsol_pool, usdc_pool])
                   commitment_level) (\<lambda>datas.
          case datas of
            [a, b] \<Rightarrow> first_canonical_pool mint_key [(wsol, wsol_pool, a), (usdc, usdc_pool, b)]
          | _ \<Rightarrow> Inl (Unexpected_Account_Count (length datas) 2)))))))"

text \<open>What a trade without a bundle loads: configuration, pool, fees, and the mint with its owner.\<close>

definition fetch_pump_amm_runtime ::
  "pump_env \<Rightarrow> pubkey \<Rightarrow> pubkey option
     \<Rightarrow> venue_error + (pump_amm_global_config \<times> pump_amm_pool \<times> pump_amm_fee_config option \<times> pubkey \<times> bytes)" where
  "fetch_pump_amm_runtime e mint_key pin =
     rbind (fetch_pump_amm_global_config e) (\<lambda>global_config.
     rbind (find_pump_amm_pool_state e mint_key pin ''confirmed'') (\<lambda>found.
     rbind (ok_or found (Account_Not_Found ''pool'')) (\<lambda>pool.
     rbind (fetch_pump_amm_fee_config e) (\<lambda>fee_config.
     rbind (env_account (pe_venue e) (env_pubkey_text (pe_venue e) mint_key) ''confirmed'') (\<lambda>account.
     rbind (ok_or account (Account_Not_Found ''mint'')) (\<lambda>(owner, data).
     Inr (global_config, pool, fee_config, owner, data)))))))"

section \<open>Bundles and plans\<close>

definition build_pump_bonding_runtime_bundle ::
  "pump_env \<Rightarrow> pubkey \<Rightarrow> pump_curve_state \<Rightarrow> string \<Rightarrow> venue_error + pump_bonding_curve_runtime_bundle" where
  "build_pump_bonding_runtime_bundle e mint_key curve commitment_level =
     (let text_of = env_pubkey_text (pe_venue e) in
     rbind (bonding_curve_pda e mint_key) (\<lambda>curve_key.
     rbind (resolve_pump_bonding_mint_token_program e mint_key commitment_level) (\<lambda>token_program.
     rbind (fetch_global_state e) (\<lambda>global.
     rbind (resolve_follow_creator_vault_authority e mint_key (pc_creator curve)) (\<lambda>authority.
     rbind (pump_quote_asset_meta e (pc_quote_mint curve)) (\<lambda>meta.
     rbind (creator_vault_pda e authority) (\<lambda>creator_vault.
     rbind (bonding_curve_v2_pda e mint_key) (\<lambda>curve_v2.
     rbind (fee_sharing_config_pda e mint_key) (\<lambda>sharing_config.
     rbind (global_volume_accumulator_pda e) (\<lambda>accumulator.
     rbind (fee_config_pda e) (\<lambda>fee_config.
     let recipient = select_buy_fee_recipient global (pc_is_mayhem_mode curve);
         buyback = select_pump_buyback_fee_recipient global;
         quote_ata = (\<lambda>k. text_of (pump_ata e k (pq_mint meta) (pq_token_program meta)))
     in Inr \<lparr>pbc_mint = text_of mint_key, pbc_bonding_curve = text_of curve_key,
             pbc_bonding_curve_v2 = text_of curve_v2, pbc_fee_sharing_config = text_of sharing_config,
             pbc_creator_vault_authority = text_of authority,
             pbc_launch_creator = text_of (pc_creator curve), pbc_token_program = text_of token_program,
             pbc_associated_bonding_curve = text_of (pump_ata e curve_key mint_key token_program),
             pbc_global_volume_accumulator = text_of accumulator, pbc_fee_config = text_of fee_config,
             pbc_quote_mint = text_of (pq_mint meta),
             pbc_quote_token_program = text_of (pq_token_program meta),
             pbc_buyback_fee_recipient = text_of buyback,
             pbc_associated_quote_fee_recipient = quote_ata recipient,
             pbc_associated_quote_buyback_fee_recipient = quote_ata buyback,
             pbc_associated_quote_bonding_curve = quote_ata curve_key,
             pbc_associated_quote_user = [], pbc_associated_creator_vault = quote_ata creator_vault,
             pbc_associated_user_volume_accumulator = [],
             pbc_is_mayhem_mode = pc_is_mayhem_mode curve,
             pbc_is_cashback_coin = pc_cashback_enabled curve\<rparr>)))))))))))"

definition build_pump_amm_runtime_bundle ::
  "pump_env \<Rightarrow> pubkey \<Rightarrow> pump_amm_pool \<Rightarrow> string \<Rightarrow> venue_error + pump_amm_runtime_bundle" where
  "build_pump_amm_runtime_bundle e mint_key pool commitment_level =
     (let text_of = env_pubkey_text (pe_venue e) in
     rbind (fetch_pump_amm_global_config e) (\<lambda>global_config.
     rbind (pump_quote_asset_meta e (pp_quote_mint pool)) (\<lambda>meta.
     rbind (pump_amm_coin_creator_vault_authority_pda e (pp_coin_creator pool)) (\<lambda>vault_authority.
     rbind (env_account (pe_venue e) (text_of mint_key) commitment_level) (\<lambda>account.
     rbind (ok_or account (Account_Not_Found ''mint'')) (\<lambda>(mint_token_program, _).
     rbind (pump_amm_global_config_pda e) (\<lambda>config_key.
     rbind (pump_amm_fee_config_pda e) (\<lambda>fee_config_key.
     rbind (pump_amm_global_volume_accumulator_pda e) (\<lambda>accumulator.
     let recipient = select_pump_amm_fee_recipient global_config (pp_is_mayhem_mode pool)
     in Inr \<lparr>pamm_pool = text_of (pp_pubkey pool), pamm_pool_creator = text_of (pp_creator pool),
             pamm_base_mint = text_of (pp_base_mint pool), pamm_quote_mint = text_of (pp_quote_mint pool),
             pamm_pool_base_token_account = text_of (pp_base_account pool),
             pamm_pool_quote_token_account = text_of (pp_quote_account pool),
             pamm_mint_token_program = text_of mint_token_program,
             pamm_global_config = text_of config_key, pamm_fee_config = text_of fee_config_key,
             pamm_protocol_fee_recipient = text_of recipient,
             pamm_protocol_fee_recipient_token_account =
               text_of (pump_ata e recipient (pq_mint meta) (pq_token_program meta)),
             pamm_coin_creator = text_of (pp_coin_creator pool),
             pamm_coin_creator_vault_ata =
               text_of (pump_ata e vault_authority (pq_mint meta) (pq_token_program meta)),
             pamm_coin_creator_vault_authority = text_of vault_authority,
             pamm_global_volume_accumulator = text_of accumulator,
             pamm_is_mayhem_mode = pp_is_mayhem_mode pool,
             pamm_is_cashback_coin = pp_is_cashback_coin pool\<rparr>)))))))))"

text \<open>
  The pool the request pins. A pinned key that is the curve of the mint itself counts as no pin;
  another one must be the canonical pool of the mint. \<open>None\<close> as the whole answer is a key that
  belongs to another program, with which the planner gives up.
\<close>

definition pinned_amm_pool ::
  "pump_env \<Rightarrow> 'plan trade_runtime_request \<Rightarrow> pubkey \<Rightarrow> string \<Rightarrow> venue_error + pubkey option option" where
  "pinned_amm_pool e request mint_key commitment_level =
     (case option_filter (\<lambda>v. v \<noteq> []) (map_option str_trim (pinned_pool request)) of
        None \<Rightarrow> Inr (Some None)
      | Some value \<Rightarrow>
          rbind (venue_key (pe_venue e) value ''pinned pool'') (\<lambda>pinned.
          if (case bonding_curve_pda e mint_key of Inr k \<Rightarrow> k = pinned | Inl _ \<Rightarrow> False)
          then Inr (Some None)
          else
            rbind (env_account (pe_venue e) (env_pubkey_text (pe_venue e) pinned) commitment_level) (\<lambda>found.
            rbind (ok_or found (Account_Not_Found ''pinned pool'')) (\<lambda>(owner, data).
            rbind (pump_amm_program_id e) (\<lambda>program.
            if owner \<noteq> program then Inr None
            else
              rbind (decode_pump_amm_pool_state pinned data) (\<lambda>pool.
              if pp_base_mint pool \<noteq> mint_key then Inl (Unsupported_Market ''other base mint'')
              else
                rbind (pump_quote_asset_meta e (pp_quote_mint pool)) (\<lambda>_.
                rbind (canonical_pump_amm_pool_for_quote e mint_key (pp_quote_mint pool)) (\<lambda>canonical.
                if pinned \<noteq> canonical then Inl (Unsupported_Market ''not the canonical pool'')
                else Inr (Some (Some pinned))))))))))"

definition pump_amm_selector ::
  "pump_env \<Rightarrow> trade_side \<Rightarrow> pump_amm_pool \<Rightarrow> pump_quote_asset_meta \<Rightarrow> pump_amm_runtime_bundle
     \<Rightarrow> lifecycle_and_canonical_market" where
  "pump_amm_selector e side pool meta bundle =
     \<lparr>lifecycle = PostMigration, family = PumpAmm,
      canonical_market_key = env_pubkey_text (pe_venue e) (pp_pubkey pool),
      quote_asset = (case pq_kind meta of Pump_Sol \<Rightarrow> Quote_Wsol | Pump_Usdc \<Rightarrow> Quote_Usdc),
      verification_source = OnchainDerived,
      market_wrapper_action = (case side of Buy \<Rightarrow> PumpAmmBuy | Sell \<Rightarrow> PumpAmmSell),
      wrapper_accounts = map (env_pubkey_text (pe_venue e))
        [pp_pubkey pool, pp_base_account pool, pp_quote_account pool],
      market_subtype = Some (case pq_kind meta of Pump_Sol \<Rightarrow> ''wsol'' | Pump_Usdc \<Rightarrow> ''usdc''),
      direct_protocol_target = Some ''pump-amm'', input_amount_hint = None,
      minimum_output_hint = None, runtime_bundle = Some (Bundle_PumpAmm bundle)\<rparr>"

definition pump_curve_selector ::
  "pump_env \<Rightarrow> trade_side \<Rightarrow> pubkey \<Rightarrow> pubkey \<Rightarrow> pump_curve_state \<Rightarrow> pump_quote_asset_meta
     \<Rightarrow> pump_bonding_curve_runtime_bundle \<Rightarrow> lifecycle_and_canonical_market" where
  "pump_curve_selector e side mint_key curve_key curve meta bundle =
     \<lparr>lifecycle = PreMigration, family = PumpBondingCurve,
      canonical_market_key = env_pubkey_text (pe_venue e) curve_key,
      quote_asset = pq_planner_asset meta, verification_source = OnchainDerived,
      market_wrapper_action = (case side of Buy \<Rightarrow> PumpBondingCurveBuy | Sell \<Rightarrow> PumpBondingCurveSell),
      wrapper_accounts = map (env_pubkey_text (pe_venue e)) [mint_key, curve_key, pc_creator curve],
      market_subtype =
        Some (case pq_kind meta of Pump_Sol \<Rightarrow> ''bonding-curve-sol'' | Pump_Usdc \<Rightarrow> ''bonding-curve-usdc''),
      direct_protocol_target = Some ''pump-bonding-curve'', input_amount_hint = None,
      minimum_output_hint = None, runtime_bundle = Some (Bundle_PumpBondingCurve bundle)\<rparr>"

definition plan_pump_trade ::
  "pump_env \<Rightarrow> 'plan trade_runtime_request \<Rightarrow> venue_error + lifecycle_and_canonical_market option" where
  "plan_pump_trade e request =
     rbind (venue_key (pe_venue e) (request_mint request) ''mint'') (\<lambda>mint_key.
     let trimmed = str_trim (commitment (policy request));
         commitment_level = (if trimmed = [] then ''confirmed'' else trimmed)
     in
     rbind (unless_missing (fetch_bonding_curve_state e mint_key commitment_level)) (\<lambda>found.
     case (case found of Some c \<Rightarrow> if pc_complete c then None else Some c | None \<Rightarrow> None) of
       None \<Rightarrow>
         rbind (pinned_amm_pool e request mint_key commitment_level) (\<lambda>pin.
         case pin of
           None \<Rightarrow> Inr None
         | Some pinned \<Rightarrow>
             rbind (find_pump_amm_pool_state e mint_key pinned commitment_level) (\<lambda>pool_found.
             case pool_found of
               None \<Rightarrow> if pinned \<noteq> None then Inl (Account_Not_Found ''pinned pool'') else Inr None
             | Some pool \<Rightarrow>
                 rbind (build_pump_amm_runtime_bundle e mint_key pool commitment_level) (\<lambda>bundle.
                 rbind (pump_quote_asset_meta e (pp_quote_mint pool)) (\<lambda>meta.
                 Inr (Some (pump_amm_selector e (request_side request) pool meta bundle))))))
     | Some curve \<Rightarrow>
         rbind (pump_quote_asset_meta e (pc_quote_mint curve)) (\<lambda>meta.
         rbind (build_pump_bonding_runtime_bundle e mint_key curve commitment_level) (\<lambda>bundle.
         rbind (bonding_curve_pda e mint_key) (\<lambda>curve_key.
         Inr (Some (pump_curve_selector e (request_side request) mint_key curve_key curve meta bundle)))))))"

section \<open>Instructions of an AMM trade\<close>

definition build_pump_amm_extend_account_instruction ::
  "pump_env \<Rightarrow> pubkey \<Rightarrow> pubkey \<Rightarrow> venue_error + instruction" where
  "build_pump_amm_extend_account_instruction e pool user =
     rbind (pump_amm_program_id e) (\<lambda>program.
     Inr \<lparr>program_id = program,
          ix_accounts =
            [meta_new pool False, meta_new_readonly user True,
             meta_new_readonly (system_program_id (env_sdk (pe_venue e))) False,
             meta_new_readonly (event_authority_pda e program) False, meta_new_readonly program False],
          ix_bytes = [234, 102, 194, 203, 150, 72, 62, 229]\<rparr>)"

text \<open>Who takes the fees of a trade, and where.\<close>

record pump_amm_recipients =
  pr_protocol_fee_recipient :: pubkey
  pr_protocol_fee_account :: pubkey
  pr_vault_authority :: pubkey
  pr_vault_ata :: pubkey

definition pump_amm_leading_accounts ::
  "pump_env \<Rightarrow> pump_amm_pool \<Rightarrow> pubkey \<Rightarrow> pubkey \<Rightarrow> pubkey \<Rightarrow> pump_amm_recipients \<Rightarrow> pubkey
     \<Rightarrow> venue_error + account_meta list" where
  "pump_amm_leading_accounts e pool user user_base_account user_quote_account recipients base_token_program =
     rbind (pump_amm_global_config_pda e) (\<lambda>config_key.
     rbind (venue_token_program (pe_venue e)) (\<lambda>token_program.
     rbind (pump_amm_program_id e) (\<lambda>program.
     Inr [meta_new (pp_pubkey pool) False,
          meta_new user True,
          meta_new_readonly config_key False,
          meta_new_readonly (pp_base_mint pool) False,
          meta_new_readonly (pp_quote_mint pool) False,
          meta_new user_base_account False,
          meta_new user_quote_account False,
          meta_new (pp_base_account pool) False,
          meta_new (pp_quote_account pool) False,
          meta_new_readonly (pr_protocol_fee_recipient recipients) False,
          meta_new (pr_protocol_fee_account recipients) False,
          meta_new_readonly base_token_program False,
          meta_new_readonly token_program False,
          meta_new_readonly (system_program_id (env_sdk (pe_venue e))) False,
          meta_new_readonly (pe_ata_program e) False,
          meta_new_readonly (event_authority_pda e program) False,
          meta_new_readonly program False,
          meta_new (pr_vault_ata recipients) False,
          meta_new_readonly (pr_vault_authority recipients) False])))"

definition pump_amm_fee_accounts :: "pump_env \<Rightarrow> venue_error + account_meta list" where
  "pump_amm_fee_accounts e =
     rbind (pump_amm_fee_config_pda e) (\<lambda>fee_config.
     rbind (pump_fee_program_id e) (\<lambda>fee_program.
     Inr [meta_new_readonly fee_config False, meta_new_readonly fee_program False]))"

definition pump_amm_trailing_accounts :: "pump_env \<Rightarrow> pump_amm_pool \<Rightarrow> venue_error + account_meta list" where
  "pump_amm_trailing_accounts e pool =
     rbind (pump_amm_pool_v2_pda e (pp_base_mint pool)) (\<lambda>pool_v2.
     rbind (selected_pump_apr28_fee_recipient e) (\<lambda>recipient.
     rbind (venue_token_program (pe_venue e)) (\<lambda>token_program.
     rbind (pump_apr28_fee_recipient_ata_for_quote_mint e (pp_quote_mint pool) token_program) (\<lambda>recipient_ata.
     Inr [meta_new_readonly pool_v2 False, meta_new_readonly recipient False,
          meta_new recipient_ata False]))))"

definition build_pump_amm_buy_exact_quote_in_instruction ::
  "pump_env \<Rightarrow> pump_amm_pool \<Rightarrow> pubkey \<Rightarrow> pubkey \<Rightarrow> pubkey \<Rightarrow> pump_amm_recipients \<Rightarrow> pubkey \<Rightarrow> u64
     \<Rightarrow> u64 \<Rightarrow> bool \<Rightarrow> venue_error + instruction" where
  "build_pump_amm_buy_exact_quote_in_instruction e pool user user_base_account user_quote_account
       recipients base_token_program spendable_quote_in min_base_amount_out cashback =
     rbind (pump_amm_leading_accounts e pool user user_base_account user_quote_account recipients
              base_token_program) (\<lambda>leading.
     rbind (pump_amm_global_volume_accumulator_pda e) (\<lambda>global_accumulator.
     rbind (pump_amm_user_volume_accumulator_pda e user) (\<lambda>user_accumulator.
     rbind (pump_amm_fee_accounts e) (\<lambda>fee_accounts.
     rbind (if cashback
            then rbind (pump_amm_user_volume_accumulator_quote_ata e user (pp_quote_mint pool)) (\<lambda>ata.
                   Inr [meta_new ata False])
            else Inr []) (\<lambda>cashback_accounts.
     rbind (pump_amm_trailing_accounts e pool) (\<lambda>trailing.
     rbind (pump_amm_program_id e) (\<lambda>program.
     Inr \<lparr>program_id = program,
          ix_accounts = leading
            @ [meta_new_readonly global_accumulator False, meta_new user_accumulator False]
            @ fee_accounts @ cashback_accounts @ trailing,
          ix_bytes = [198, 46, 21, 82, 180, 217, 232, 112] @ u64_to_le_bytes spendable_quote_in
            @ u64_to_le_bytes min_base_amount_out @ [1]\<rparr>)))))))"

definition build_pump_amm_sell_instruction ::
  "pump_env \<Rightarrow> pump_amm_pool \<Rightarrow> pubkey \<Rightarrow> pubkey \<Rightarrow> pubkey \<Rightarrow> pump_amm_recipients \<Rightarrow> pubkey \<Rightarrow> u64
     \<Rightarrow> u64 \<Rightarrow> bool \<Rightarrow> venue_error + instruction" where
  "build_pump_amm_sell_instruction e pool user user_base_account user_quote_account recipients
       base_token_program base_in min_out cashback =
     rbind (pump_amm_leading_accounts e pool user user_base_account user_quote_account recipients
              base_token_program) (\<lambda>leading.
     rbind (pump_amm_fee_accounts e) (\<lambda>fee_accounts.
     rbind (if cashback
            then rbind (pump_amm_user_volume_accumulator_quote_ata e user (pp_quote_mint pool)) (\<lambda>ata.
                 rbind (pump_amm_user_volume_accumulator_pda e user) (\<lambda>accumulator.
                 Inr [meta_new ata False, meta_new accumulator False]))
            else Inr []) (\<lambda>cashback_accounts.
     rbind (pump_amm_trailing_accounts e pool) (\<lambda>trailing.
     rbind (pump_amm_program_id e) (\<lambda>program.
     Inr \<lparr>program_id = program,
          ix_accounts = leading @ fee_accounts @ cashback_accounts @ trailing,
          ix_bytes = [51, 230, 133, 164, 1, 127, 131, 173] @ u64_to_le_bytes base_in
            @ u64_to_le_bytes min_out\<rparr>)))))"

definition append_pump_amm_setup_instructions ::
  "pump_env \<Rightarrow> instruction list \<Rightarrow> pump_amm_pool \<Rightarrow> pubkey \<Rightarrow> bool \<Rightarrow> venue_error + instruction list" where
  "append_pump_amm_setup_instructions e instructions pool owner include_cashback_account =
     rbind (env_account_data (pe_venue e) (env_pubkey_text (pe_venue e) (pp_pubkey pool)) ''confirmed'')
       (\<lambda>pool_data.
     rbind (if length pool_data < 300
            then rbind (build_pump_amm_extend_account_instruction e (pp_pubkey pool) owner) (\<lambda>ix. Inr [ix])
            else Inr []) (\<lambda>extend.
     rbind (if include_cashback_account
            then rbind (pump_amm_user_volume_accumulator_pda e owner) (\<lambda>accumulator.
                 rbind (venue_token_program (pe_venue e)) (\<lambda>token_program.
                 Inr [ix_create_ata_idempotent (env_tokens (pe_venue e)) owner accumulator
                        (pp_quote_mint pool) token_program]))
            else Inr []) (\<lambda>cashback.
     Inr (instructions @ extend @ cashback))))"

section \<open>Compiling\<close>

text \<open>The pool of a bundle, with everything else a trade needs.\<close>

record pump_amm_runtime =
  rt_global_config :: pump_amm_global_config
  rt_pool :: pump_amm_pool
  rt_fee_config :: "pump_amm_fee_config option"
  rt_supply :: u64
  rt_decimals :: u8
  rt_mint_token_program :: pubkey

definition pool_of_pump_bundle :: "pump_env \<Rightarrow> pump_amm_runtime_bundle \<Rightarrow> venue_error + pump_amm_pool" where
  "pool_of_pump_bundle e bundle =
     (let key = venue_key (pe_venue e) in
     rbind (key (pamm_pool bundle) ''pump amm pool'') (\<lambda>pool_key.
     rbind (key (pamm_pool_creator bundle) ''pump amm pool creator'') (\<lambda>creator.
     rbind (key (pamm_base_mint bundle) ''pump amm base mint'') (\<lambda>base.
     rbind (key (pamm_quote_mint bundle) ''pump amm quote mint'') (\<lambda>quote_key.
     rbind (key (pamm_pool_base_token_account bundle) ''pump amm pool base token account'') (\<lambda>base_account.
     rbind (key (pamm_pool_quote_token_account bundle) ''pump amm pool quote token account'') (\<lambda>quote_account.
     rbind (key (pamm_coin_creator bundle) ''pump amm coin creator'') (\<lambda>coin_creator.
     Inr \<lparr>pp_pubkey = pool_key, pp_creator = creator, pp_base_mint = base, pp_quote_mint = quote_key,
          pp_base_account = base_account, pp_quote_account = quote_account,
          pp_coin_creator = coin_creator, pp_is_mayhem_mode = pamm_is_mayhem_mode bundle,
          pp_is_cashback_coin = pamm_is_cashback_coin bundle\<rparr>))))))))"

definition pump_amm_bundle_of :: "lifecycle_and_canonical_market \<Rightarrow> pump_amm_runtime_bundle option" where
  "pump_amm_bundle_of selector =
     (case runtime_bundle selector of Some (Bundle_PumpAmm bundle) \<Rightarrow> Some bundle | _ \<Rightarrow> None)"

definition load_pump_amm_runtime ::
  "pump_env \<Rightarrow> lifecycle_and_canonical_market \<Rightarrow> pubkey \<Rightarrow> pubkey option \<Rightarrow> venue_error + pump_amm_runtime" where
  "load_pump_amm_runtime e selector mint_key pin =
     (case pump_amm_bundle_of selector of
        Some bundle \<Rightarrow>
          rbind (env_account_data (pe_venue e) (env_pubkey_text (pe_venue e) mint_key) ''confirmed'') (\<lambda>mint_data.
          rbind (fetch_pump_amm_global_config e) (\<lambda>global_config.
          rbind (fetch_pump_amm_fee_config e) (\<lambda>fee_config.
          rbind (pool_of_pump_bundle e bundle) (\<lambda>pool.
          rbind (mint_supply mint_data) (\<lambda>supply.
          rbind (mint_decimals mint_data) (\<lambda>decimals.
          rbind (venue_key (pe_venue e) (pamm_mint_token_program bundle) ''pump amm mint token program'') (\<lambda>program.
          Inr \<lparr>rt_global_config = global_config, rt_pool = pool, rt_fee_config = fee_config,
               rt_supply = supply, rt_decimals = decimals, rt_mint_token_program = program\<rparr>)))))))
      | None \<Rightarrow>
          rbind (fetch_pump_amm_runtime e mint_key pin) (\<lambda>(global_config, pool, fee_config, owner, mint_data).
          rbind (mint_supply mint_data) (\<lambda>supply.
          rbind (mint_decimals mint_data) (\<lambda>decimals.
          Inr \<lparr>rt_global_config = global_config, rt_pool = pool, rt_fee_config = fee_config,
               rt_supply = supply, rt_decimals = decimals, rt_mint_token_program = owner\<rparr>))))"

definition pump_amm_reserves :: "pump_env \<Rightarrow> pump_amm_pool \<Rightarrow> string \<Rightarrow> venue_error + (u64 \<times> u64)" where
  "pump_amm_reserves e pool commitment_level =
     rbind (env_accounts (pe_venue e)
              (map (env_pubkey_text (pe_venue e)) [pp_base_account pool, pp_quote_account pool])
              commitment_level) (\<lambda>datas.
     case datas of
       [a, b] \<Rightarrow>
         rbind (ok_or a (Account_Not_Found ''base reserve'')) (\<lambda>base_data.
         rbind (ok_or b (Account_Not_Found ''quote reserve'')) (\<lambda>quote_data.
         rbind (token_account_amount base_data) (\<lambda>base_reserve.
         rbind (token_account_amount quote_data) (\<lambda>quote_reserve.
         Inr (base_reserve, quote_reserve)))))
     | _ \<Rightarrow> Inl (Unexpected_Account_Count (length datas) 2))"

definition pump_amm_recipients_of ::
  "pump_env \<Rightarrow> lifecycle_and_canonical_market \<Rightarrow> pump_amm_runtime \<Rightarrow> pump_quote_asset_meta
     \<Rightarrow> venue_error + pump_amm_recipients" where
  "pump_amm_recipients_of e selector rt meta =
     (case pump_amm_bundle_of selector of
        Some bundle \<Rightarrow>
          rbind (venue_key (pe_venue e) (pamm_protocol_fee_recipient bundle) ''protocol fee recipient'') (\<lambda>recipient.
          rbind (venue_key (pe_venue e) (pamm_protocol_fee_recipient_token_account bundle) ''protocol fee account'') (\<lambda>account.
          rbind (venue_key (pe_venue e) (pamm_coin_creator_vault_authority bundle) ''vault authority'') (\<lambda>authority.
          rbind (venue_key (pe_venue e) (pamm_coin_creator_vault_ata bundle) ''vault ata'') (\<lambda>ata.
          Inr \<lparr>pr_protocol_fee_recipient = recipient, pr_protocol_fee_account = account,
               pr_vault_authority = authority, pr_vault_ata = ata\<rparr>))))
      | None \<Rightarrow>
          let recipient = select_pump_amm_fee_recipient (rt_global_config rt) (pp_is_mayhem_mode (rt_pool rt))
          in rbind (pump_amm_coin_creator_vault_authority_pda e (pp_coin_creator (rt_pool rt))) (\<lambda>authority.
             Inr \<lparr>pr_protocol_fee_recipient = recipient,
                  pr_protocol_fee_account = pump_ata e recipient (pq_mint meta) (pq_token_program meta),
                  pr_vault_authority = authority,
                  pr_vault_ata = pump_ata e authority (pq_mint meta) (pq_token_program meta)\<rparr>))"

text \<open>
  The routes of tokens quoted in USDC, not modelled: a buy or sell on the curve or on the AMM
  becomes a swap through a trusted stable pool around it.
\<close>

record 'plan pump_usdc_routes =
  usdc_curve_buy :: "'plan trade_runtime_request \<Rightarrow> pubkey \<Rightarrow> pubkey \<Rightarrow> pubkey \<Rightarrow> pump_global_state
     \<Rightarrow> pubkey \<Rightarrow> u64 \<Rightarrow> u64 \<Rightarrow> venue_error + compiled_adapter_trade"
  usdc_curve_sell :: "'plan trade_runtime_request \<Rightarrow> pubkey \<Rightarrow> pubkey \<Rightarrow> pubkey \<Rightarrow> pump_curve_state
     \<Rightarrow> pump_global_state \<Rightarrow> pubkey \<Rightarrow> string \<Rightarrow> u64 \<Rightarrow> venue_error + compiled_adapter_trade"
  usdc_amm_buy :: "'plan trade_runtime_request \<Rightarrow> pubkey \<Rightarrow> pubkey \<Rightarrow> pump_amm_runtime \<Rightarrow> u64 \<Rightarrow> u64
     \<Rightarrow> pump_amm_fees \<Rightarrow> u64 \<Rightarrow> pump_amm_recipients \<Rightarrow> venue_error + compiled_adapter_trade"
  usdc_amm_sell :: "'plan trade_runtime_request \<Rightarrow> pubkey \<Rightarrow> pubkey \<Rightarrow> pump_amm_runtime \<Rightarrow> u64 \<Rightarrow> u64
     \<Rightarrow> pump_amm_fees \<Rightarrow> u64 \<Rightarrow> pump_amm_recipients \<Rightarrow> string \<Rightarrow> venue_error + compiled_adapter_trade"

definition pump_amm_buy_instructions ::
  "pump_env \<Rightarrow> 'plan trade_runtime_request \<Rightarrow> pubkey \<Rightarrow> pubkey \<Rightarrow> pump_amm_runtime \<Rightarrow> u64 \<Rightarrow> u64
     \<Rightarrow> pump_amm_fees \<Rightarrow> pump_amm_recipients \<Rightarrow> u64 \<Rightarrow> u16 \<Rightarrow> venue_error + instruction list" where
  "pump_amm_buy_instructions e request owner mint_key rt base_reserve quote_reserve fees recipients rent
       slippage_bps =
     (let pool = rt_pool rt; v = pe_venue e; temp_quote = env_new_key v;
          user_base = pump_ata e owner mint_key (rt_mint_token_program rt) in
     rbind (ok_or (buy_amount_sol request) (Missing_Request_Field ''buyAmountSol'')) (\<lambda>amount_text.
     rbind (parse_decimal_units amount_text 9 ''buyAmountSol'') (\<lambda>spend.
     if spend = 0 then Inl (Zero_Amount ''buy amount'')
     else
       let base_out = pump_amm_buy_quote_input spend base_reserve quote_reserve fees
                        (pp_coin_creator pool \<noteq> default_pubkey)
       in if base_out = 0 then Inl (Zero_Amount ''buy quote'')
          else
            rbind (ok_or (checked_add rent spend) (Overflow ''wrapped SOL funding'')) (\<lambda>funding.
            rbind (venue_token_program v) (\<lambda>token_program.
            rbind (venue_wsol_mint v) (\<lambda>wsol.
            rbind (wrapped_sol_open_instructions v owner temp_quote funding wsol token_program True) (\<lambda>open_ixs.
            rbind (build_pump_amm_buy_exact_quote_in_instruction e pool owner user_base temp_quote recipients
                     (rt_mint_token_program rt) spend (apply_sell_side_slippage base_out slippage_bps)
                     (pp_is_cashback_coin pool)) (\<lambda>swap.
            Inr (build_create_token_ata_instruction e owner mint_key (rt_mint_token_program rt)
                   # open_ixs @ [swap])))))))))"

definition pump_amm_sell_instructions ::
  "pump_env \<Rightarrow> 'plan trade_runtime_request \<Rightarrow> string \<Rightarrow> pubkey \<Rightarrow> pubkey \<Rightarrow> pump_amm_runtime
     \<Rightarrow> pump_quote_asset_meta \<Rightarrow> u64 \<Rightarrow> u64 \<Rightarrow> pump_amm_fees \<Rightarrow> pump_amm_recipients \<Rightarrow> u64 \<Rightarrow> u16
     \<Rightarrow> venue_error + instruction list" where
  "pump_amm_sell_instructions e request wallet_id owner mint_key rt meta base_reserve quote_reserve fees
       recipients rent slippage_bps =
     (let pool = rt_pool rt; v = pe_venue e; temp_quote = env_new_key v;
          user_base = pump_ata e owner mint_key (rt_mint_token_program rt);
          has_creator = (pp_coin_creator pool \<noteq> default_pubkey) in
     rbind (ok_or (sell_intent request) (Missing_Request_Field ''sell intent'')) (\<lambda>intent.
     rbind (venue_token_program v) (\<lambda>token_program.
     rbind (venue_wsol_mint v) (\<lambda>wsol.
     rbind (wrapped_sol_open_instructions v owner temp_quote rent wsol token_program False) (\<lambda>open_ixs.
     rbind (resolve_pump_amm_sell_input_amount e intent wallet_id (env_pubkey_text v owner)
              (request_mint request) (rt_decimals rt) base_reserve quote_reserve fees has_creator
              (pq_decimals meta)) (\<lambda>amount.
     rbind (map_error Quote_Error
              (pump_amm_sell_base_input amount base_reserve quote_reserve fees has_creator)) (\<lambda>quote_out.
     rbind (build_pump_amm_sell_instruction e pool owner user_base temp_quote recipients
              (rt_mint_token_program rt) amount (apply_sell_side_slippage quote_out slippage_bps)
              (pp_is_cashback_coin pool)) (\<lambda>swap.
     Inr (open_ixs @ [swap])))))))))"

text \<open>The end of an AMM trade: the temporary account is closed, then tip, protection, memo, signature.\<close>

definition finish_pump_amm_trade ::
  "pump_env \<Rightarrow> runtime_execution_policy \<Rightarrow> pubkey \<Rightarrow> string \<Rightarrow> instruction list \<Rightarrow> u64
     \<Rightarrow> venue_error + compiled_adapter_trade" where
  "finish_pump_amm_trade e pol owner label instructions price =
     (let v = pe_venue e; temp_quote = env_new_key v in
     rbind (venue_token_program v) (\<lambda>token_program.
     rbind (wrapped_sol_close_instruction v token_program owner temp_quote) (\<lambda>close.
     rbind (append_inline_tip e (instructions @ [close]) pol owner) (\<lambda>(tipped, tip).
     rbind (if jitodontfront_enabled_for_provider (provider pol) (policy_mev_mode pol)
            then apply_jitodontfront v tipped owner else Inr tipped) (\<lambda>guarded.
     rbind (pump_memo_instruction e label) (\<lambda>memo.
     rbind (build_pump_transaction_with_lookup_preference e label owner [temp_quote] (guarded @ [memo])
              pump_compute_unit_limit price tip) (\<lambda>compiled.
     Inr \<lparr>cat_transactions = [compiled], cat_primary_tx_index = 0,
          cat_dependency_mode = Independent, cat_entry_preference_asset = None\<rparr>)))))))"

definition compile_pump_amm_trade ::
  "'plan pump_usdc_routes \<Rightarrow> pump_env \<Rightarrow> lifecycle_and_canonical_market \<Rightarrow> 'plan trade_runtime_request
     \<Rightarrow> pubkey \<Rightarrow> pubkey \<Rightarrow> string \<Rightarrow> venue_error + compiled_adapter_trade" where
  "compile_pump_amm_trade routes e selector request owner mint_key wallet_id =
     (let v = pe_venue e; pol = policy request in
     rbind (case option_filter (\<lambda>s. s \<noteq> []) (map_option str_trim (pinned_pool request)) of
              None \<Rightarrow> Inr None
            | Some s \<Rightarrow> rbind (venue_key v s ''pinned pool'') (\<lambda>k. Inr (Some k))) (\<lambda>pin.
     rbind (load_pump_amm_runtime e selector mint_key pin) (\<lambda>rt.
     rbind (pump_quote_asset_meta e (pp_quote_mint (rt_pool rt))) (\<lambda>meta.
     rbind (pump_amm_reserves e (rt_pool rt) ''confirmed'') (\<lambda>(base_reserve, quote_reserve).
     if base_reserve = 0 \<or> quote_reserve = 0 then Inl (Quote_Error Reserves_Empty)
     else
       rbind (compute_pump_amm_fees e (rt_global_config rt) (rt_fee_config rt) (rt_pool rt) (rt_supply rt)
                base_reserve quote_reserve) (\<lambda>fees.
       rbind (parse_slippage_bps (Some (slippage_percent pol))) (\<lambda>slippage_bps.
       rbind (priority_fee_sol_to_micro_lamports (fee_sol pol)) (\<lambda>price.
       rbind (pump_amm_recipients_of e selector rt meta) (\<lambda>recipients.
       if pq_kind meta = Pump_Usdc then
         (case request_side request of
            Buy \<Rightarrow> usdc_amm_buy routes request owner mint_key rt base_reserve quote_reserve fees price
                     recipients
          | Sell \<Rightarrow> usdc_amm_sell routes request owner mint_key rt base_reserve quote_reserve fees price
                     recipients wallet_id)
       else
         rbind (env_rent_lamports v) (\<lambda>rent.
         rbind (pump_compute_budget e pump_compute_unit_limit price) (\<lambda>budget.
         rbind (append_pump_amm_setup_instructions e budget (rt_pool rt) owner
                  (request_side request = Buy \<and> pp_is_cashback_coin (rt_pool rt))) (\<lambda>setup.
         rbind (case request_side request of
                  Buy \<Rightarrow> pump_amm_buy_instructions e request owner mint_key rt base_reserve quote_reserve
                           fees recipients rent slippage_bps
                | Sell \<Rightarrow> pump_amm_sell_instructions e request wallet_id owner mint_key rt meta
                           base_reserve quote_reserve fees recipients rent slippage_bps) (\<lambda>trade_ixs.
         finish_pump_amm_trade e pol owner
           (case request_side request of Buy \<Rightarrow> ''pump-amm-buy'' | Sell \<Rightarrow> ''pump-amm-sell'')
           (setup @ trade_ixs) price)))))))))))))"

definition compile_pump_curve_trade ::
  "'plan pump_usdc_routes \<Rightarrow> pump_env \<Rightarrow> lifecycle_and_canonical_market \<Rightarrow> 'plan trade_runtime_request
     \<Rightarrow> pubkey \<Rightarrow> pubkey \<Rightarrow> pump_curve_state \<Rightarrow> string \<Rightarrow> venue_error + compiled_adapter_trade" where
  "compile_pump_curve_trade routes e selector request owner mint_key curve wallet_id =
     (let pol = policy request in
     rbind (case runtime_bundle selector of
              Some (Bundle_PumpBondingCurve bundle) \<Rightarrow>
                parse_pump_bonding_token_program e (pbc_token_program bundle) ''runtime token program''
            | _ \<Rightarrow> resolve_pump_bonding_mint_token_program e mint_key (commitment pol)) (\<lambda>token_program.
     rbind (pump_quote_asset_meta e (pc_quote_mint curve)) (\<lambda>meta.
     rbind (fetch_global_state e) (\<lambda>global.
     rbind (resolve_follow_creator_vault_authority e mint_key (pc_creator curve)) (\<lambda>authority.
     rbind (parse_slippage_bps (Some (slippage_percent pol))) (\<lambda>slippage_bps.
     rbind (priority_fee_sol_to_micro_lamports (fee_sol pol)) (\<lambda>price.
     case request_side request of
       Buy \<Rightarrow>
         rbind (ok_or (buy_amount_sol request) (Missing_Request_Field ''buyAmountSol'')) (\<lambda>amount_text.
         rbind (parse_decimal_units amount_text 9 ''buyAmountSol'') (\<lambda>spend.
         if spend = 0 then Inl (Zero_Amount ''buy amount'')
         else if pq_kind meta = Pump_Usdc
         then usdc_curve_buy routes request owner mint_key token_program global authority spend price
         else
           rbind (pump_curve_buy_instructions e owner mint_key token_program meta curve global authority
                    spend slippage_bps) (\<lambda>core.
           finish_pump_curve_trade e pol owner ''pump-native-buy'' core price)))
     | Sell \<Rightarrow>
         if pq_kind meta = Pump_Usdc
         then usdc_curve_sell routes request owner mint_key token_program curve global authority wallet_id
                price
         else
           rbind (pump_curve_sell_instructions e request wallet_id owner mint_key token_program meta curve
                    global authority slippage_bps) (\<lambda>core.
           finish_pump_curve_trade e pol owner ''pump-native-sell'' core price))))))))"

definition compile_pump_trade ::
  "'plan pump_usdc_routes \<Rightarrow> pump_env \<Rightarrow> lifecycle_and_canonical_market \<Rightarrow> 'plan trade_runtime_request
     \<Rightarrow> string \<Rightarrow> venue_error + compiled_adapter_trade" where
  "compile_pump_trade routes e selector request wallet_id =
     rbind (env_wallet (pe_venue e) wallet_id) (\<lambda>owner.
     rbind (venue_key (pe_venue e) (request_mint request) ''mint'') (\<lambda>mint_key.
     rbind (if lifecycle selector = PostMigration then Inr None
            else unless_missing (fetch_bonding_curve_state e mint_key (commitment (policy request)))) (\<lambda>found.
     case found of
       Some curve \<Rightarrow>
         if pc_complete curve then
           rbind (case pump_amm_bundle_of selector of
                    Some bundle \<Rightarrow> venue_key (pe_venue e) (pamm_coin_creator bundle) ''coin creator''
                  | None \<Rightarrow> Inr (pc_creator curve)) (\<lambda>_.
           compile_pump_amm_trade routes e selector request owner mint_key wallet_id)
         else compile_pump_curve_trade routes e selector request owner mint_key curve wallet_id
     | None \<Rightarrow>
         rbind (case pump_amm_bundle_of selector of
                  Some bundle \<Rightarrow> venue_key (pe_venue e) (pamm_coin_creator bundle) ''coin creator''
                | None \<Rightarrow> Inr default_pubkey) (\<lambda>_.
         compile_pump_amm_trade routes e selector request owner mint_key wallet_id))))"

section \<open>Quoting a holding\<close>

datatype pump_quote_snapshot =
    Curve_Snapshot pump_curve_state pump_global_state
  | Amm_Snapshot pump_amm_global_config pump_amm_pool "pump_amm_fee_config option" u64 u64 u64

definition quote_pump_snapshot ::
  "pump_env \<Rightarrow> pump_quote_snapshot \<Rightarrow> u64 \<Rightarrow> venue_error + (u64 \<times> pump_quote_asset_kind)" where
  "quote_pump_snapshot e snapshot amount =
     (case snapshot of
        Curve_Snapshot curve global \<Rightarrow>
          rbind (pump_quote_asset_meta e (pc_quote_mint curve)) (\<lambda>meta.
          Inr (quote_sell_quote_from_curve curve global amount, pq_kind meta))
      | Amm_Snapshot global_config pool fee_config supply base_reserve quote_reserve \<Rightarrow>
          rbind (compute_pump_amm_fees e global_config fee_config pool supply base_reserve quote_reserve) (\<lambda>fees.
          rbind (map_error Quote_Error
                   (pump_amm_sell_base_input amount base_reserve quote_reserve fees
                      (pp_coin_creator pool \<noteq> default_pubkey))) (\<lambda>out.
          rbind (pump_quote_asset_meta e (pp_quote_mint pool)) (\<lambda>meta.
          Inr (out, pq_kind meta)))))"

text \<open>What an amount of the quote asset is worth in SOL; \<open>usdc_to_sol\<close> quotes the stable pool.\<close>

definition pump_quote_value_to_sol_lamports ::
  "(u64 \<Rightarrow> string \<Rightarrow> venue_error + u64) \<Rightarrow> u64 \<Rightarrow> pump_quote_asset_kind \<Rightarrow> string \<Rightarrow> venue_error + u64" where
  "pump_quote_value_to_sol_lamports usdc_to_sol amount kind commitment_level =
     (case kind of
        Pump_Sol \<Rightarrow> Inr amount
      | Pump_Usdc \<Rightarrow> if amount = 0 then Inr 0 else usdc_to_sol amount commitment_level)"

definition fetch_pump_snapshot ::
  "pump_env \<Rightarrow> lifecycle_and_canonical_market \<Rightarrow> pubkey \<Rightarrow> string \<Rightarrow> venue_error + pump_quote_snapshot" where
  "fetch_pump_snapshot e selector mint_key commitment_level =
     (case family selector of
        PumpBondingCurve \<Rightarrow>
          rbind (fetch_bonding_curve_state e mint_key commitment_level) (\<lambda>curve.
          rbind (fetch_global_state e) (\<lambda>global. Inr (Curve_Snapshot curve global)))
      | PumpAmm \<Rightarrow>
          rbind (case pump_amm_bundle_of selector of
                   Some bundle \<Rightarrow>
                     rbind (env_account_data (pe_venue e) (env_pubkey_text (pe_venue e) mint_key)
                              commitment_level) (\<lambda>mint_data.
                     rbind (fetch_pump_amm_global_config e) (\<lambda>global_config.
                     rbind (fetch_pump_amm_fee_config e) (\<lambda>fee_config.
                     rbind (pool_of_pump_bundle e bundle) (\<lambda>pool.
                     rbind (mint_supply mint_data) (\<lambda>supply.
                     Inr (global_config, pool, fee_config, supply))))))
                 | None \<Rightarrow>
                     rbind (fetch_pump_amm_runtime e mint_key None)
                       (\<lambda>(global_config, pool, fee_config, owner, mint_data).
                     rbind (mint_supply mint_data) (\<lambda>supply.
                     Inr (global_config, pool, fee_config, supply))))
            (\<lambda>(global_config, pool, fee_config, supply).
          rbind (pump_quote_asset_meta e (pp_quote_mint pool)) (\<lambda>_.
          rbind (pump_amm_reserves e pool commitment_level) (\<lambda>(base_reserve, quote_reserve).
          Inr (Amm_Snapshot global_config pool fee_config supply base_reserve quote_reserve))))
      | _ \<Rightarrow> Inl (Unsupported_Market (family_label (family selector))))"

definition quote_pump_holding_value_sol_with_cache ::
  "(u64 \<Rightarrow> string \<Rightarrow> venue_error + u64) \<Rightarrow> pump_env \<Rightarrow> string \<Rightarrow> nat \<Rightarrow> nat \<Rightarrow> nat
     \<Rightarrow> lifecycle_and_canonical_market \<Rightarrow> string \<Rightarrow> u64 \<Rightarrow> string \<Rightarrow> bool \<Rightarrow> pump_quote_snapshot quote_cache
     \<Rightarrow> (venue_error + u64) \<times> pump_quote_snapshot quote_cache" where
  "quote_pump_holding_value_sol_with_cache usdc_to_sol e rpc_url now fetched_at stored_at selector mint_text
       amount commitment_level use_cache cache =
     (if amount = 0 then (Inr 0, cache)
      else
        quote_with_cache use_cache now fetched_at stored_at (quote_snapshot_ttl selector)
          (quote_snapshot_key rpc_url selector mint_text commitment_level)
          (\<lambda>_. rbind (venue_key (pe_venue e) mint_text ''Pump quote mint'') (\<lambda>mint_key.
                 fetch_pump_snapshot e selector mint_key commitment_level))
          (\<lambda>snapshot. rbind (quote_pump_snapshot e snapshot amount) (\<lambda>(out, kind).
                        pump_quote_value_to_sol_lamports usdc_to_sol out kind commitment_level))
          cache)"

section \<open>What the AMM quotes are\<close>

lemma capped_value:
  assumes "unat (x :: u128) < 2 ^ 64"
  shows "unat (ucast (min x (ucast (max_word :: u64))) :: u64) = unat x"
proof -
  have "x \<le> ucast (max_word :: u64)"
    using assms by (simp add: word_le_nat_alt unat_ucast_128 unat_max_word)
  then show ?thesis using assms by (simp add: min_absorb1 unsigned_ucast_eq take_bit_nat_eq_self)
qed

definition pump_amm_total_bps :: "pump_amm_fees \<Rightarrow> bool \<Rightarrow> nat" where
  "pump_amm_total_bps fees creator =
     unat (lp_fee_bps fees) + unat (protocol_fee_bps fees) + (if creator then unat (creator_fee_bps fees) else 0)"

text \<open>The part of a spend that the pool swaps.\<close>

definition pump_amm_effective :: "u64 \<Rightarrow> pump_amm_fees \<Rightarrow> bool \<Rightarrow> nat" where
  "pump_amm_effective spend fees creator = unat spend * 10000 div (10000 + pump_amm_total_bps fees creator)"

lemma pump_amm_effective_le: "pump_amm_effective spend fees creator \<le> unat spend"
proof -
  let ?d = "10000 + pump_amm_total_bps fees creator"
  have "pump_amm_effective spend fees creator \<le> unat spend * ?d div ?d"
    unfolding pump_amm_effective_def by (intro div_le_mono mult_le_mono2) simp
  then show ?thesis by simp
qed

lemma pump_amm_buy_value:
  "unat (pump_amm_buy_quote_input spend base_reserve quote_reserve fees creator)
     = cp_out (unat quote_reserve) (unat base_reserve) (pump_amm_effective spend fees creator)"
proof -
  let ?t = "(ucast (lp_fee_bps fees) :: u128) + ucast (protocol_fee_bps fees)
              + (if creator then ucast (creator_fee_bps fees) else 0)"
  let ?e = "(ucast spend :: u128) * 10000 div sat_add 10000 ?t"
  let ?i = "pump_amm_effective spend fees creator"
  have "unat (lp_fee_bps fees) + unat (protocol_fee_bps fees) < 2 ^ 64 + 2 ^ 64"
    "unat (lp_fee_bps fees) + unat (protocol_fee_bps fees) + unat (creator_fee_bps fees)
      < 2 ^ 64 + 2 ^ 64 + 2 ^ 64"
    by (intro add_strict_mono; simp)+
  then have t: "unat ?t = pump_amm_total_bps fees creator"
    and small: "10000 + pump_amm_total_bps fees creator < 2 ^ 128"
    by (auto simp: pump_amm_total_bps_def unat_word_ariths unat_ucast_128 add.assoc)
  have d: "unat (sat_add 10000 ?t) = 10000 + pump_amm_total_bps fees creator"
    using small by (simp add: unat_sat_add t)
  have "unat spend * 10000 < 2 ^ 64 * 2 ^ 14"
    by (intro mult_strict_mono) simp_all
  then have e: "unat ?e = ?i"
    by (simp add: unat_div d unat_word_ariths unat_ucast_128 pump_amm_effective_def)
  have il: "?i < 2 ^ 64" by (rule le_less_trans [OF pump_amm_effective_le]) simp
  have "unat base_reserve * ?i < 2 ^ 64 * 2 ^ 64"
    using il by (intro mult_strict_mono) simp_all
  then have n: "unat (sat_mul (ucast base_reserve) ?e) = unat base_reserve * ?i"
    by (simp add: unat_sat_mul e unat_ucast_128)
  have "unat quote_reserve + ?i < 2 ^ 64 + 2 ^ 64"
    using il by (intro add_strict_mono) simp_all
  then have q: "unat (sat_add (ucast quote_reserve) ?e) = unat quote_reserve + ?i"
    by (simp add: unat_sat_add e unat_ucast_128)
  have v: "unat (sat_mul (ucast base_reserve) ?e div sat_add (ucast quote_reserve) ?e)
      = cp_out (unat quote_reserve) (unat base_reserve) ?i"
    by (simp add: unat_div n q cp_out_def mult.commute)
  have "cp_out (unat quote_reserve) (unat base_reserve) ?i < 2 ^ 64"
    by (rule le_less_trans [OF cp_out_le]) simp
  then have "unat (ucast (min (sat_mul (ucast base_reserve) ?e div sat_add (ucast quote_reserve) ?e)
       (ucast (max_word :: u64))) :: u64) = cp_out (unat quote_reserve) (unat base_reserve) ?i"
    by (subst capped_value) (simp_all only: v)
  moreover have "cp_out (unat quote_reserve) (unat base_reserve) ?i = 0"
    if "sat_add (ucast quote_reserve) ?e = 0"
    using q that by (simp add: cp_out_def)
  ultimately show ?thesis unfolding pump_amm_buy_quote_input_def Let_def by simp
qed

text \<open>What the pool pays for tokens before fees, and after them.\<close>

definition pump_amm_raw :: "u64 \<Rightarrow> u64 \<Rightarrow> u64 \<Rightarrow> nat" where
  "pump_amm_raw base base_reserve quote_reserve =
     unat quote_reserve * unat base div unat (sat_add base_reserve base)"

definition after_pump_amm_fees :: "pump_amm_fees \<Rightarrow> bool \<Rightarrow> nat \<Rightarrow> nat" where
  "after_pump_amm_fees fees creator raw =
     raw - raw * unat (lp_fee_bps fees) div 10000 - raw * unat (protocol_fee_bps fees) div 10000
         - (if creator then raw * unat (creator_fee_bps fees) div 10000 else 0)"

lemma after_pump_amm_fees_le: "after_pump_amm_fees fees creator raw \<le> raw"
  by (simp add: after_pump_amm_fees_def)

lemma pump_amm_raw_le: "pump_amm_raw base base_reserve quote_reserve \<le> unat quote_reserve"
proof -
  have "unat base \<le> unat (sat_add base_reserve base)" by (auto simp: unat_sat_add intro: order.strict_implies_order)
  then have "unat quote_reserve * unat base \<le> unat quote_reserve * unat (sat_add base_reserve base)"
    by (rule mult_le_mono2)
  then have "pump_amm_raw base base_reserve quote_reserve
      \<le> unat quote_reserve * unat (sat_add base_reserve base) div unat (sat_add base_reserve base)"
    unfolding pump_amm_raw_def by (rule div_le_mono)
  also have "\<dots> \<le> unat quote_reserve" by simp
  finally show ?thesis .
qed

lemma fee_amount_value:
  assumes "unat raw < 2 ^ 64"
  shows "unat (fee_amount raw bps) = unat raw * unat bps div 10000"
proof -
  have "unat raw * unat bps < 2 ^ 64 * 2 ^ 64" using assms by (intro mult_strict_mono) simp_all
  then show ?thesis by (simp add: fee_amount_def unat_div unat_word_ariths unat_ucast_128)
qed

lemma pump_amm_sell_value:
  assumes "pump_amm_sell_base_input base base_reserve quote_reserve fees creator = Inr out"
  shows "0 < base" "unat out = after_pump_amm_fees fees creator (pump_amm_raw base base_reserve quote_reserve)"
proof -
  let ?raw = "(ucast quote_reserve :: u128) * ucast base div ucast (sat_add base_reserve base)"
  show "0 < base" using assms by (auto simp: pump_amm_sell_base_input_def word_gt_0)
  have "unat quote_reserve * unat base < 2 ^ 64 * 2 ^ 64" by (intro mult_strict_mono) simp_all
  then have r: "unat ?raw = pump_amm_raw base base_reserve quote_reserve"
    by (simp add: unat_div unat_word_ariths unat_ucast_128 pump_amm_raw_def)
  have rl: "unat ?raw < 2 ^ 64" unfolding r by (rule le_less_trans [OF pump_amm_raw_le]) simp
  let ?net = "sat_sub (sat_sub (sat_sub ?raw (fee_amount ?raw (lp_fee_bps fees)))
      (fee_amount ?raw (protocol_fee_bps fees)))
      (if creator then fee_amount ?raw (creator_fee_bps fees) else 0)"
  have n: "unat ?net = after_pump_amm_fees fees creator (pump_amm_raw base base_reserve quote_reserve)"
    by (simp add: unat_sat_sub fee_amount_value [OF rl] r after_pump_amm_fees_def)
  have nl: "after_pump_amm_fees fees creator (pump_amm_raw base base_reserve quote_reserve) < 2 ^ 64"
    by (rule le_less_trans [OF _ rl]) (simp add: r after_pump_amm_fees_def)
  have "out = ucast (min ?net (ucast (max_word :: u64)))"
    using assms by (auto simp: pump_amm_sell_base_input_def Let_def split: if_splits)
  then show "unat out = after_pump_amm_fees fees creator (pump_amm_raw base base_reserve quote_reserve)"
    using nl by (simp only: n [symmetric] capped_value)
qed


section \<open>What a trade on the AMM costs and brings\<close>

lemma amm_fees_fit:
  assumes "i * (10000 + l + p + c) \<le> s * (10000 :: nat)"
  shows "i + i * l div 10000 + i * p div 10000 + i * c div 10000 \<le> s"
proof -
  have d: "i * b div 10000 * 10000 \<le> i * b" for b by (rule div_times_less_eq_dividend)
  have "(i + i * l div 10000 + i * p div 10000 + i * c div 10000) * 10000
      = i * 10000 + i * l div 10000 * 10000 + i * p div 10000 * 10000 + i * c div 10000 * 10000"
    by (simp only: distrib_right)
  also have "\<dots> \<le> i * 10000 + i * l + i * p + i * c" by (intro add_mono d order_refl)
  also have "\<dots> = i * (10000 + l + p + c)" by (simp only: distrib_left)
  also have "\<dots> \<le> s * 10000" by (rule assms)
  finally show ?thesis by simp
qed

text \<open>
  C28: an AMM buy spends no more than it is told to and gains nothing by selling again: the part of
  the spend that is swapped leaves room for every fee, the tokens quoted keep the product of the
  reserves and never empty the pool, and selling them back at once, whatever part of the spend the
  pool has kept and whatever the fees are by then, brings at most the larger of the part swapped and
  the part kept.
\<close>

theorem pump_amm_round_trip_never_gains:
  assumes buy: "pump_amm_buy_quote_input spend base_reserve quote_reserve fees creator = out"
    and sell: "pump_amm_sell_base_input out (base_reserve - out) (quote_reserve + kept) fees' creator' = Inr proceeds"
    and kept: "kept \<le> spend" "unat quote_reserve + unat kept < 2 ^ 64"
  shows "\<exists>swapped. swapped + swapped * unat (lp_fee_bps fees) div 10000
           + swapped * unat (protocol_fee_bps fees) div 10000
           + (if creator then swapped * unat (creator_fee_bps fees) div 10000 else 0) \<le> unat spend
       \<and> unat quote_reserve * unat base_reserve
           \<le> (unat quote_reserve + swapped) * (unat base_reserve - unat out)
       \<and> (0 < quote_reserve \<longrightarrow> out < base_reserve)
       \<and> unat proceeds \<le> max swapped (unat kept) \<and> proceeds \<le> spend"
proof -
  let ?i = "pump_amm_effective spend fees creator" and ?t = "pump_amm_total_bps fees creator"
  let ?q = "unat quote_reserve" and ?b = "unat base_reserve"
  have out: "unat out = cp_out ?q ?b ?i" using pump_amm_buy_value buy by metis
  have pos: "0 < out" using pump_amm_sell_value(1) [OF sell] .
  have "?i * (10000 + unat (lp_fee_bps fees) + unat (protocol_fee_bps fees)
      + (if creator then unat (creator_fee_bps fees) else 0)) \<le> unat spend * 10000"
    unfolding pump_amm_effective_def pump_amm_total_bps_def add.assoc [symmetric]
    by (rule div_times_less_eq_dividend)
  from amm_fees_fit [OF this]
  have fees: "?i + ?i * unat (lp_fee_bps fees) div 10000 + ?i * unat (protocol_fee_bps fees) div 10000
      + (if creator then ?i * unat (creator_fee_bps fees) div 10000 else 0) \<le> unat spend"
    by (cases creator) simp_all
  have le: "out \<le> base_reserve" using out cp_out_le [of ?q ?b ?i] by (simp add: word_le_nat_alt)
  have less: "out < base_reserve" if "0 < quote_reserve"
  proof -
    have "0 < ?b" using pos le by (simp add: word_le_nat_alt unat_pos_iff word_gt_0) (metis le_zero_eq unat_eq_zero neq0_conv)
    then show ?thesis
      using out that cp_out_less [of ?q ?b ?i] by (simp add: word_less_nat_alt unat_pos_iff)
  qed
  have "pump_amm_raw out (base_reserve - out) (quote_reserve + kept) \<le> max ?i (unat kept)"
  proof -
    have "unat (sat_add (base_reserve - out) out) = ?b"
      using le unat_less_pow [of base_reserve] by (simp add: unat_sat_add unat_sub word_le_nat_alt)
    then have raw: "pump_amm_raw out (base_reserve - out) (quote_reserve + kept)
        = (?q + unat kept) * unat out div ?b"
      using kept(2) by (simp add: pump_amm_raw_def unat_word_ariths)
    have o: "unat out * (?q + ?i) \<le> ?i * ?b" unfolding out cp_out_def by (rule div_times_less_eq_dividend)
    let ?m = "max ?i (unat kept)"
    have "(?q + unat kept) * unat out * (?q + ?i) \<le> (?q + unat kept) * (?i * ?b)"
      using mult_le_mono2 [OF o] by (simp add: mult.assoc)
    also have "\<dots> = (?q * ?i + unat kept * ?i) * ?b" by (simp add: algebra_simps)
    also have "\<dots> \<le> (?q * ?m + ?m * ?i) * ?b"
      by (intro mult_le_mono1 add_mono mult_le_mono) simp_all
    also have "\<dots> = ?m * ?b * (?q + ?i)" by (simp add: algebra_simps)
    finally have "(?q + unat kept) * unat out \<le> ?m * ?b"
      using pos out by (cases "?q + ?i = 0") (auto simp: cp_out_def word_gt_0 unat_eq_iff)
    then have "(?q + unat kept) * unat out div ?b \<le> ?m * ?b div ?b" by (rule div_le_mono)
    then show ?thesis unfolding raw by (cases "?b = 0") simp_all
  qed
  then have proceeds: "unat proceeds \<le> max ?i (unat kept)"
    unfolding pump_amm_sell_value(2) [OF sell] by (rule order_trans [OF after_pump_amm_fees_le])
  moreover have "proceeds \<le> spend"
    using proceeds kept(1) pump_amm_effective_le [of spend fees creator] by (simp add: word_le_nat_alt)
  moreover have "?q * ?b \<le> (?q + ?i) * (?b - unat out)" unfolding out by (rule cp_out_keeps_product)
  ultimately show ?thesis using fees less by blast
qed

theorem pump_amm_round_trip_never_gains_witness:
  "\<exists>proceeds. pump_amm_sell_base_input 1215 (50000 - 1215) (40000 + 999)
       \<lparr>lp_fee_bps = 20, protocol_fee_bps = 5, creator_fee_bps = 5\<rparr> False = Inr proceeds \<and> proceeds \<le> 1000"
proof -
  let ?fees = "\<lparr>lp_fee_bps = 20, protocol_fee_bps = 5, creator_fee_bps = 5\<rparr>"
  have "unat (pump_amm_buy_quote_input 1000 50000 40000 ?fees False) = 1215"
    by (simp add: pump_amm_buy_value pump_amm_effective_def pump_amm_total_bps_def cp_out_def)
  then have buy: "pump_amm_buy_quote_input 1000 50000 40000 ?fees False = 1215"
    by (simp add: unat_eq_iff)
  obtain proceeds where sell: "pump_amm_sell_base_input 1215 (50000 - 1215) (40000 + 999) ?fees False = Inr proceeds"
    by (simp add: pump_amm_sell_base_input_def Let_def)
  have "(999 :: u64) \<le> 1000" "unat (40000 :: u64) + unat (999 :: u64) < 2 ^ 64"
    by (simp_all add: word_le_nat_alt)
  from pump_amm_round_trip_never_gains [OF buy sell this] sell show ?thesis by blast
qed

end
