(* ===== verification/Pump_Trades.thy ===== *)
theory Pump_Trades
  imports Pump_Amm
begin

text \<open>
  What the Pump planner and compiler guarantee: the fee tier of a pool, the market a trade is
  planned for and what the compiler loads back from the plan, and the one transaction a trade on
  the curve or on the AMM is compiled to; then a sample node on which both are evaluated.
\<close>

section \<open>The fee tier of a pool\<close>

lemma find_rev_last:
  assumes "sorted (map f xs)" "List.find (\<lambda>x. f x \<le> (m :: 'a :: linorder)) (rev xs) = Some y"
  shows "y \<in> set xs \<and> f y \<le> m \<and> (\<forall>x \<in> set xs. f x \<le> m \<longrightarrow> f x \<le> f y)"
  using assms
proof (induction xs rule: rev_induct)
  case (snoc x xs)
  then show ?case by (auto simp: sorted_append split: if_splits)
qed simp

text \<open>
  C29: a canonical pool pays the fees of the highest tier its market cap reaches, or of the lowest
  when it reaches none; a pool that is not canonical pays the flat fees, and without a fee
  configuration those of the global one.
\<close>

theorem pump_amm_pays_reached_tier:
  assumes "compute_pump_amm_fees e global_config fee_config pool supply base_reserve quote_reserve = Inr fees"
  shows "case fee_config of
      None \<Rightarrow> fees = \<lparr>lp_fee_bps = pa_lp_fee_basis_points global_config,
                     protocol_fee_bps = pa_protocol_fee_basis_points global_config,
                     creator_fee_bps = pa_coin_creator_fee_basis_points global_config\<rparr>
    | Some config \<Rightarrow>
        if pump_amm_pool_authority_pda e (pp_base_mint pool) \<noteq> Inr (pp_creator pool)
        then fees = flat_fees config
        else \<exists>tier \<in> set (fee_tiers config). fees = tier_fees tier
          \<and> (sorted (map tier_threshold (fee_tiers config)) \<longrightarrow>
               (let market_cap = unat quote_reserve * unat supply div unat base_reserve
                in if unat (tier_threshold tier) \<le> market_cap
                   then \<forall>t \<in> set (fee_tiers config). unat (tier_threshold t) \<le> market_cap \<longrightarrow> tier_threshold t \<le> tier_threshold tier
                   else \<forall>t \<in> set (fee_tiers config). tier_threshold tier \<le> tier_threshold t))"
proof (cases fee_config)
  case None
  then show ?thesis using assms by (simp add: compute_pump_amm_fees_def)
next
  case (Some config)
  obtain authority where auth: "pump_amm_pool_authority_pda e (pp_base_mint pool) = Inr authority"
    using assms Some by (auto simp: compute_pump_amm_fees_def is_pump_amm_canonical_pool_def)
  show ?thesis
  proof (cases "pp_creator pool = authority")
    case False
    then show ?thesis
      using assms Some auth by (auto simp: compute_pump_amm_fees_def is_pump_amm_canonical_pool_def)
  next
    case True
    let ?cap = "(ucast quote_reserve :: u128) * ucast supply div ucast base_reserve"
    have "unat quote_reserve * unat supply < 2 ^ 64 * 2 ^ 64" by (intro mult_strict_mono) simp_all
    then have cap: "unat ?cap = unat quote_reserve * unat supply div unat base_reserve"
      by (simp add: unat_div unat_word_ariths unat_ucast_128)
    have f: "fees_of_tiers ?cap (fee_tiers config) = Inr fees"
      using assms Some auth True
      by (auto simp: compute_pump_amm_fees_def is_pump_amm_canonical_pool_def pool_market_cap_quote_units_def
          split: if_splits)
    have le: "unat (tier_threshold t) \<le> unat quote_reserve * unat supply div unat base_reserve
        \<longleftrightarrow> tier_threshold t \<le> ?cap" for t
      by (simp only: word_le_nat_alt cap)
    show ?thesis
    proof (cases "fee_tiers config")
      case Nil
      then show ?thesis using f by (simp add: fees_of_tiers_def)
    next
      case (Cons first rest)
      show ?thesis
      proof (cases "List.find (\<lambda>tier. tier_threshold tier \<le> ?cap) (rev (fee_tiers config))")
        case None
        then have "\<forall>t \<in> set (fee_tiers config). \<not> tier_threshold t \<le> ?cap" by (simp add: find_None_iff)
        moreover have "fees = tier_fees first" using f Cons None by (auto simp: fees_of_tiers_def split: if_splits)
        ultimately show ?thesis
          using Some auth True Cons by (auto simp: Let_def le intro!: bexI [of _ first])
      next
        case found: (Some tier)
        have mem: "tier \<in> set (fee_tiers config)" "tier_threshold tier \<le> ?cap"
          using found by (auto simp: find_Some_iff) (metis nth_mem length_rev set_rev)
        show ?thesis
        proof (cases "?cap < tier_threshold first")
          case low: True
          then have "fees = tier_fees first" using f Cons by (simp add: fees_of_tiers_def)
          moreover have "\<not> tier_threshold first \<le> ?cap" using low by simp
          ultimately show ?thesis
            using Some auth True Cons by (auto simp: Let_def le intro!: bexI [of _ first])
        next
          case high: False
          then have "fees = tier_fees tier" using f Cons found by (simp add: fees_of_tiers_def)
          then show ?thesis
            using Some auth True mem find_rev_last [OF _ found] by (auto simp: Let_def le intro!: bexI [of _ tier])
        qed
      qed
    qed
  qed
qed

section \<open>What is planned\<close>

definition is_canonical_pool :: "pump_env \<Rightarrow> pubkey \<Rightarrow> pump_amm_pool \<Rightarrow> bool" where
  "is_canonical_pool e mint_key pool \<longleftrightarrow>
     pp_base_mint pool = mint_key
     \<and> canonical_pump_amm_pool_for_quote e mint_key (pp_quote_mint pool) = Inr (pp_pubkey pool)"

lemma decoded_pool_key:
  "decode_pump_amm_pool_state k data = Inr pool \<Longrightarrow> pp_pubkey pool = k"
  by (auto simp: decode_pump_amm_pool_state_def split: if_splits)

lemma first_canonical:
  assumes "first_canonical_pool mint_key xs = Inr (Some pool)"
    and "\<forall>(quote_key, k, _) \<in> set xs. canonical_pump_amm_pool_for_quote e mint_key quote_key = Inr k"
  shows "is_canonical_pool e mint_key pool"
  using assms
proof (induction mint_key xs rule: first_canonical_pool.induct)
  case (3 mint_key quote_key canonical data rest)
  obtain p where p: "decode_pump_amm_pool_state canonical data = Inr p"
    using 3(2) by auto
  show ?case
  proof (cases "pp_base_mint p = mint_key \<and> pp_quote_mint p = quote_key")
    case True
    then have "pool = p" using 3(2) p by simp
    then show ?thesis using True 3(3) p decoded_pool_key [OF p] by (simp add: is_canonical_pool_def)
  next
    case False
    then show ?thesis using 3(1) [OF False] 3(2,3) p by auto
  qed
qed auto

lemma found_pool_canonical:
  assumes "find_pump_amm_pool_state e mint_key pin commitment_level = Inr (Some pool)"
  shows "is_canonical_pool e mint_key pool \<and> (\<forall>k. pin = Some k \<longrightarrow> pp_pubkey pool = k)"
proof (cases pin)
  case None
  then obtain wsol usdc wsol_pool usdc_pool datas where
    c: "canonical_pump_amm_pool_for_quote e mint_key wsol = Inr wsol_pool"
      "canonical_pump_amm_pool_for_quote e mint_key usdc = Inr usdc_pool"
    and d: "(case datas of
        [a, b] \<Rightarrow> first_canonical_pool mint_key [(wsol, wsol_pool, a), (usdc, usdc_pool, b)]
      | _ \<Rightarrow> Inl (Unexpected_Account_Count (length datas) 2)) = Inr (Some pool)"
    using assms unfolding find_pump_amm_pool_state_def by (simp add: rbind_Inr_iff) blast
  obtain a b where "first_canonical_pool mint_key [(wsol, wsol_pool, a), (usdc, usdc_pool, b)] = Inr (Some pool)"
    using d by (auto split: list.split_asm)
  with c show ?thesis using None first_canonical by auto
next
  case (Some pinned)
  then show ?thesis
    using assms decoded_pool_key
    by (auto simp: find_pump_amm_pool_state_def checked_pinned_pool_def is_canonical_pool_def
        split: option.splits if_splits)
qed

lemma pump_bundle_roundtrip:
  assumes "\<And>k. pubkey_from_str (env_sdk (pe_venue e)) (env_pubkey_text (pe_venue e) k) = Some k"
    and "build_pump_amm_runtime_bundle e mint_key pool commitment_level = Inr bundle"
  shows "pool_of_pump_bundle e bundle = Inr pool"
  using assms(2)
  by (auto simp: build_pump_amm_runtime_bundle_def pool_of_pump_bundle_def Let_def venue_key_def assms(1))

definition pump_commitment :: "'plan trade_runtime_request \<Rightarrow> string" where
  "pump_commitment request =
     (let trimmed = str_trim (commitment (policy request))
      in if trimmed = [] then ''confirmed'' else trimmed)"

text \<open>
  C11: a planned Pump trade goes where the token is. On the curve it is planned only while the
  curve is not complete, at the curve's own address; otherwise it goes to the canonical pool of
  exactly the requested mint, the one a request pins if it pins a pool, and that very pool is what
  the compiler loads back from the plan. The hypothesis is that a key is read back from its text.
\<close>

theorem pump_plan_reaches_compiler:
  assumes key_text: "\<And>k. pubkey_from_str (env_sdk (pe_venue e)) (env_pubkey_text (pe_venue e) k) = Some k"
    and planned: "plan_pump_trade e request = Inr (Some selector)"
  shows "\<exists>mint_key. venue_key (pe_venue e) (request_mint request) ''mint'' = Inr mint_key
     \<and> ((\<exists>curve curve_key. fetch_bonding_curve_state e mint_key (pump_commitment request) = Inr curve
           \<and> \<not> pc_complete curve \<and> lifecycle selector = PreMigration \<and> family selector = PumpBondingCurve
           \<and> bonding_curve_pda e mint_key = Inr curve_key
           \<and> canonical_market_key selector = env_pubkey_text (pe_venue e) curve_key)
        \<or> (\<exists>pool. lifecycle selector = PostMigration \<and> family selector = PumpAmm
           \<and> (\<forall>curve. fetch_bonding_curve_state e mint_key (pump_commitment request) = Inr curve \<longrightarrow> pc_complete curve)
           \<and> is_canonical_pool e mint_key pool
           \<and> canonical_market_key selector = env_pubkey_text (pe_venue e) (pp_pubkey pool)
           \<and> (\<forall>pin k. pinned_pool request = Some pin \<longrightarrow> str_trim pin \<noteq> []
                \<longrightarrow> venue_key (pe_venue e) (str_trim pin) ''pinned pool'' = Inr k
                \<longrightarrow> pp_pubkey pool = k \<or> bonding_curve_pda e mint_key = Inr k)
           \<and> (\<forall>pin rt. load_pump_amm_runtime e selector mint_key pin = Inr rt \<longrightarrow> rt_pool rt = pool)))"
proof -
  obtain mint_key found where m: "venue_key (pe_venue e) (request_mint request) ''mint'' = Inr mint_key"
    and found: "unless_missing (fetch_bonding_curve_state e mint_key (pump_commitment request)) = Inr found"
    and rest: "(case (case found of Some c \<Rightarrow> if pc_complete c then None else Some c | None \<Rightarrow> None) of
       None \<Rightarrow>
         rbind (pinned_amm_pool e request mint_key (pump_commitment request)) (\<lambda>pin.
         case pin of
           None \<Rightarrow> Inr None
         | Some pinned \<Rightarrow>
             rbind (find_pump_amm_pool_state e mint_key pinned (pump_commitment request)) (\<lambda>pool_found.
             case pool_found of
               None \<Rightarrow> if pinned \<noteq> None then Inl (Account_Not_Found ''pinned pool'') else Inr None
             | Some pool \<Rightarrow>
                 rbind (build_pump_amm_runtime_bundle e mint_key pool (pump_commitment request)) (\<lambda>bundle.
                 rbind (pump_quote_asset_meta e (pp_quote_mint pool)) (\<lambda>meta.
                 Inr (Some (pump_amm_selector e (request_side request) pool meta bundle))))))
     | Some curve \<Rightarrow>
         rbind (pump_quote_asset_meta e (pc_quote_mint curve)) (\<lambda>meta.
         rbind (build_pump_bonding_runtime_bundle e mint_key curve (pump_commitment request)) (\<lambda>bundle.
         rbind (bonding_curve_pda e mint_key) (\<lambda>curve_key.
         Inr (Some (pump_curve_selector e (request_side request) mint_key curve_key curve meta bundle))))))
       = Inr (Some selector)"
    using planned unfolding plan_pump_trade_def rbind_Inr_iff pump_commitment_def Let_def by blast
  show ?thesis
  proof (cases "\<exists>curve. found = Some curve \<and> \<not> pc_complete curve")
    case True
    then obtain curve where c: "found = Some curve" "\<not> pc_complete curve" by blast
    then have "fetch_bonding_curve_state e mint_key (pump_commitment request) = Inr curve"
      using found by (auto simp: unless_missing_def split: sum.splits if_splits)
    then show ?thesis using m rest c by (auto simp: pump_curve_selector_def)
  next
    case False
    then have amm: "(case found of Some c \<Rightarrow> if pc_complete c then None else Some c | None \<Rightarrow> None) = None"
      by (auto split: option.splits)
    obtain pinned pool bdl meta where
      p: "pinned_amm_pool e request mint_key (pump_commitment request) = Inr (Some pinned)"
      and f: "find_pump_amm_pool_state e mint_key pinned (pump_commitment request) = Inr (Some pool)"
      and b: "build_pump_amm_runtime_bundle e mint_key pool (pump_commitment request) = Inr bdl"
      and s: "selector = pump_amm_selector e (request_side request) pool meta bdl"
      using rest unfolding amm by (auto split: option.splits if_splits)
    have curve: "pc_complete curve"
      if "fetch_bonding_curve_state e mint_key (pump_commitment request) = Inr curve" for curve
      using that found False by (auto simp: unless_missing_def)
    have pin: "pp_pubkey pool = k \<or> bonding_curve_pda e mint_key = Inr k"
      if "pinned_pool request = Some pin" "str_trim pin \<noteq> []"
        "venue_key (pe_venue e) (str_trim pin) ''pinned pool'' = Inr k" for pin k
      using p that found_pool_canonical [OF f]
      by (auto simp: pinned_amm_pool_def option_filter_def split: if_splits sum.splits)
    have load: "rt_pool rt = pool" if "load_pump_amm_runtime e selector mint_key pin = Inr rt" for pin rt
      using that pump_bundle_roundtrip [OF key_text b]
      by (auto simp: load_pump_amm_runtime_def s pump_amm_bundle_of_def pump_amm_selector_def)
    show ?thesis
      using m curve pin load found_pool_canonical [OF f] by (auto simp: s pump_amm_selector_def)
  qed
qed

section \<open>What a compiled trade does\<close>

definition pump_buy_bytes :: "u64 \<Rightarrow> u64 \<Rightarrow> bytes" where
  "pump_buy_bytes spend min_out =
     [194, 171, 28, 70, 104, 77, 91, 47] @ u64_to_le_bytes spend @ u64_to_le_bytes min_out"

definition pump_sell_bytes :: "u64 \<Rightarrow> u64 \<Rightarrow> bytes" where
  "pump_sell_bytes amount min_out =
     [93, 246, 130, 60, 231, 233, 64, 178] @ u64_to_le_bytes amount @ u64_to_le_bytes min_out"

lemma curve_buy_shape:
  assumes "pump_curve_buy_instructions e owner mint_key token_program meta curve global authority spend slippage
     = Inr core"
  shows "\<exists>swap. swap \<in> set core \<and> quote_buy_tokens_from_curve curve global spend \<noteq> 0
     \<and> pump_program_id e = Inr (program_id swap)
     \<and> ix_bytes swap = pump_buy_bytes spend
          (apply_sell_side_slippage (quote_buy_tokens_from_curve curve global spend) slippage)"
  using assms
  by (auto simp: pump_curve_buy_instructions_def Let_def build_buy_exact_quote_in_v2_instruction_def
      pump_buy_bytes_def buy_token_slippage_value split: if_splits)

lemma curve_sell_shape:
  assumes "pump_curve_sell_instructions e request wallet_id owner mint_key token_program meta curve global
     authority slippage = Inr core"
  shows "\<exists>swap intent amount. swap \<in> set core \<and> sell_intent request = Some intent
     \<and> resolve_sell_token_amount e intent wallet_id (env_pubkey_text (pe_venue e) owner)
          (request_mint request) curve global = Inr amount
     \<and> pump_program_id e = Inr (program_id swap)
     \<and> ix_bytes swap = pump_sell_bytes amount
          (apply_sell_side_slippage (quote_sell_quote_from_curve curve global amount) slippage)"
  using assms
  by (auto simp: pump_curve_sell_instructions_def build_sell_v2_instruction_def pump_sell_bytes_def)

text \<open>
  C12: a trade compiled for an incomplete curve quoted in SOL is one transaction, signed by the
  wallet alone against exactly the shared lookup table, with one swap of the Pump program in it: a
  buy spends the requested amount for at least the quoted tokens less the slippage, never for
  nothing; a sale gives what the request's intent resolves to, at most the balance, for at least
  the quote less the slippage.
\<close>

theorem pump_compiled_curve_trade:
  assumes compiled: "compile_pump_trade routes e selector request wallet_id = Inr trade"
    and curve: "lifecycle selector \<noteq> PostMigration"
      "venue_key (pe_venue e) (request_mint request) ''mint'' = Inr mint_key"
      "fetch_bonding_curve_state e mint_key (commitment (policy request)) = Inr curve" "\<not> pc_complete curve"
      "pump_quote_asset_meta e (pc_quote_mint curve) = Inr meta" "pq_kind meta = Pump_Sol"
  shows "\<exists>owner global slippage swap all tables signed.
     env_wallet (pe_venue e) wallet_id = Inr owner \<and> fetch_global_state e = Inr global
     \<and> parse_slippage_bps (Some (slippage_percent (policy request))) = Inr slippage
     \<and> swap \<in> set all \<and> pump_program_id e = Inr (program_id swap)
     \<and> pe_sign e owner all [owner] tables = Inr signed
     \<and> sm_lookup_tables signed = [shared_super_lookup_table]
     \<and> map ct_base64 (cat_transactions trade) = [sm_base64 signed]
     \<and> (case request_side request of
          Buy \<Rightarrow> \<exists>amount_text spend tokens min_out. buy_amount_sol request = Some amount_text
            \<and> parse_decimal_units amount_text 9 ''buyAmountSol'' = Inr spend \<and> 0 < spend
            \<and> tokens = quote_buy_tokens_from_curve curve global spend
            \<and> min_out = apply_sell_side_slippage tokens slippage \<and> 0 < min_out \<and> min_out \<le> tokens
            \<and> ix_bytes swap = pump_buy_bytes spend min_out
        | Sell \<Rightarrow> \<exists>intent amount balance proceeds. sell_intent request = Some intent
            \<and> resolve_sell_token_amount e intent wallet_id (env_pubkey_text (pe_venue e) owner)
                 (request_mint request) curve global = Inr amount
            \<and> env_token_balance (pe_venue e) wallet_id (env_pubkey_text (pe_venue e) owner)
                 (request_mint request) 6 = Inr balance
            \<and> 0 < amount \<and> amount \<le> balance
            \<and> proceeds = quote_sell_quote_from_curve curve global amount
            \<and> ix_bytes swap = pump_sell_bytes amount (apply_sell_side_slippage proceeds slippage))"
proof -
  obtain owner where o: "env_wallet (pe_venue e) wallet_id = Inr owner"
    and c: "compile_pump_curve_trade routes e selector request owner mint_key curve wallet_id = Inr trade"
    using compiled curve by (auto simp: compile_pump_trade_def unless_missing_def)
  show ?thesis
  proof (cases "request_side request")
    case Buy
    obtain token_program global authority slippage price amount_text spend core where
      g: "fetch_global_state e = Inr global"
      and s: "parse_slippage_bps (Some (slippage_percent (policy request))) = Inr slippage"
      and a: "buy_amount_sol request = Some amount_text"
        "parse_decimal_units amount_text 9 ''buyAmountSol'' = Inr spend" "spend \<noteq> 0"
      and i: "pump_curve_buy_instructions e owner mint_key token_program meta curve global authority spend slippage
          = Inr core"
      and f: "finish_pump_curve_trade e (policy request) owner ''pump-native-buy'' core price = Inr trade"
      using c curve(5,6) Buy by (auto simp: compile_pump_curve_trade_def Let_def split: if_splits)
    obtain swap where w: "swap \<in> set core" "quote_buy_tokens_from_curve curve global spend \<noteq> 0"
      "pump_program_id e = Inr (program_id swap)"
      "ix_bytes swap = pump_buy_bytes spend
          (apply_sell_side_slippage (quote_buy_tokens_from_curve curve global spend) slippage)"
      using curve_buy_shape [OF i] by blast
    obtain all tables and signed :: signed_message where sg: "subseq core all" "pe_sign e owner all [owner] tables = Inr signed"
      "sm_lookup_tables signed = [shared_super_lookup_table]"
      "map ct_base64 (cat_transactions trade) = [sm_base64 signed]"
      using finish_pump_keeps [OF f] by (elim exE conjE) (rule that)
    have m: "swap \<in> set all" using w(1) sg(1) by (meson subseq_singleton_left subseq_order.order_trans)
    let ?t = "quote_buy_tokens_from_curve curve global spend"
    have "0 < spend" "0 < apply_sell_side_slippage ?t slippage" "apply_sell_side_slippage ?t slippage \<le> ?t"
      using a(3) w(2) slippage_bounds [of ?t slippage] by (auto simp: word_gt_0)
    then show ?thesis
      unfolding Buy trade_side.case using o g s a(1,2) w(3,4) sg(2-4) m
      by - (intro exI conjI, (assumption | rule refl)+)
  next
    case Sell
    obtain token_program global authority slippage price core where
      g: "fetch_global_state e = Inr global"
      and s: "parse_slippage_bps (Some (slippage_percent (policy request))) = Inr slippage"
      and i: "pump_curve_sell_instructions e request wallet_id owner mint_key token_program meta curve global
          authority slippage = Inr core"
      and f: "finish_pump_curve_trade e (policy request) owner ''pump-native-sell'' core price = Inr trade"
      using c curve(5,6) Sell by (auto simp: compile_pump_curve_trade_def Let_def split: if_splits)
    obtain swap intent amount where w: "swap \<in> set core" "sell_intent request = Some intent"
      "resolve_sell_token_amount e intent wallet_id (env_pubkey_text (pe_venue e) owner)
          (request_mint request) curve global = Inr amount"
      "pump_program_id e = Inr (program_id swap)"
      "ix_bytes swap = pump_sell_bytes amount
          (apply_sell_side_slippage (quote_sell_quote_from_curve curve global amount) slippage)"
      using curve_sell_shape [OF i] by blast
    obtain all tables and signed :: signed_message where sg: "subseq core all" "pe_sign e owner all [owner] tables = Inr signed"
      "sm_lookup_tables signed = [shared_super_lookup_table]"
      "map ct_base64 (cat_transactions trade) = [sm_base64 signed]"
      using finish_pump_keeps [OF f] by (elim exE conjE) (rule that)
    have m: "swap \<in> set all" using w(1) sg(1) by (meson subseq_singleton_left subseq_order.order_trans)
    obtain balance where "env_token_balance (pe_venue e) wallet_id (env_pubkey_text (pe_venue e) owner)
          (request_mint request) 6 = Inr balance" "0 < amount" "amount \<le> balance"
      using pump_sell_token_amount [OF w(3)] by blast
    then show ?thesis
      unfolding Sell trade_side.case using o g s w(2-5) sg(2-4) m
      by - (intro exI conjI, (assumption | rule refl)+)
  qed
qed

definition pump_amm_buy_bytes :: "u64 \<Rightarrow> u64 \<Rightarrow> bytes" where
  "pump_amm_buy_bytes spend min_out =
     [198, 46, 21, 82, 180, 217, 232, 112] @ u64_to_le_bytes spend @ u64_to_le_bytes min_out @ [1]"

definition pump_amm_sell_bytes :: "u64 \<Rightarrow> u64 \<Rightarrow> bytes" where
  "pump_amm_sell_bytes amount min_out =
     [51, 230, 133, 164, 1, 127, 131, 173] @ u64_to_le_bytes amount @ u64_to_le_bytes min_out"

lemma finish_pump_amm_keeps:
  assumes "finish_pump_amm_trade e pol owner label ixs price = Inr trade"
  shows "\<exists>token_program close all tables signed. venue_token_program (pe_venue e) = Inr token_program
     \<and> ix_close_account (env_tokens (pe_venue e)) token_program (env_new_key (pe_venue e)) owner owner = Some close
     \<and> subseq (ixs @ [close]) all
     \<and> pe_sign e owner all [owner, env_new_key (pe_venue e)] tables = Inr signed
     \<and> sm_lookup_tables signed = [shared_super_lookup_table]
     \<and> map ct_base64 (cat_transactions trade) = [sm_base64 signed]"
proof -
  obtain token_program close tipped tip guarded memo tables compiled where
    p: "venue_token_program (pe_venue e) = Inr token_program"
    and cl: "wrapped_sol_close_instruction (pe_venue e) token_program owner (env_new_key (pe_venue e)) = Inr close"
    and tip: "append_inline_tip e (ixs @ [close]) pol owner = Inr (tipped, tip)"
    and g: "(if jitodontfront_enabled_for_provider (provider pol) (policy_mev_mode pol)
            then apply_jitodontfront (pe_venue e) tipped owner else Inr tipped) = Inr guarded"
    and c: "compile_pump_transaction_candidate e label owner [env_new_key (pe_venue e)] (guarded @ [memo]) tables
              pump_compute_unit_limit price tip = Inr compiled" and t: "cat_transactions trade = [compiled]"
    using assms
    unfolding finish_pump_amm_trade_def build_pump_transaction_with_lookup_preference_def rbind_Inr_iff Let_def
    by (auto simp: case_prod_beta rbind_Inr_iff cong: if_cong)
  have "prefix (ixs @ [close]) tipped"
    using tip by (auto simp: append_inline_tip_def split: option.splits)
  moreover have "subseq tipped guarded" using g by (auto dest: jitodontfront_keeps split: if_splits)
  ultimately have "subseq (ixs @ [close]) (guarded @ [memo])"
    by (meson list_emb_append2 prefix_imp_subseq subseq_order.order_trans prefix_order.trans prefixI)
  moreover obtain signed where "pe_sign e owner (guarded @ [memo]) [owner, env_new_key (pe_venue e)] tables = Inr signed"
    "sm_lookup_tables signed = [shared_super_lookup_table]" "ct_base64 compiled = sm_base64 signed"
    using c by (auto simp: compile_pump_transaction_candidate_def split: if_splits)
  moreover have "ix_close_account (env_tokens (pe_venue e)) token_program (env_new_key (pe_venue e)) owner owner = Some close"
    using cl by (simp add: wrapped_sol_close_instruction_def)
  ultimately show ?thesis using t p by auto
qed

lemma amm_buy_shape:
  assumes "pump_amm_buy_instructions e request owner mint_key rt base_reserve quote_reserve fees recipients rent
     slippage = Inr ixs"
  shows "\<exists>amount_text spend tokens funding token_program swap.
     buy_amount_sol request = Some amount_text
     \<and> parse_decimal_units amount_text 9 ''buyAmountSol'' = Inr spend \<and> 0 < spend
     \<and> tokens = pump_amm_buy_quote_input spend base_reserve quote_reserve fees (pp_coin_creator (rt_pool rt) \<noteq> default_pubkey)
     \<and> 0 < tokens \<and> unat funding = unat rent + unat spend
     \<and> venue_token_program (pe_venue e) = Inr token_program
     \<and> subseq [ix_create_account (env_tokens (pe_venue e)) owner (env_new_key (pe_venue e)) funding
          spl_token_account_len token_program, swap] ixs
     \<and> pump_amm_program_id e = Inr (program_id swap)
     \<and> ix_bytes swap = pump_amm_buy_bytes spend (apply_sell_side_slippage tokens slippage)"
proof -
  obtain amount_text spend funding token_program wsol open_ixs swap where
    a: "buy_amount_sol request = Some amount_text"
      "parse_decimal_units amount_text 9 ''buyAmountSol'' = Inr spend" "spend \<noteq> 0"
    and t: "pump_amm_buy_quote_input spend base_reserve quote_reserve fees
        (pp_coin_creator (rt_pool rt) \<noteq> default_pubkey) \<noteq> 0"
    and f: "checked_add rent spend = Some funding" and p: "venue_token_program (pe_venue e) = Inr token_program"
    and op: "wrapped_sol_open_instructions (pe_venue e) owner (env_new_key (pe_venue e)) funding wsol
               token_program True = Inr open_ixs"
    and sw: "build_pump_amm_buy_exact_quote_in_instruction e (rt_pool rt) owner
               (pump_ata e owner mint_key (rt_mint_token_program rt)) (env_new_key (pe_venue e)) recipients
               (rt_mint_token_program rt) spend
               (apply_sell_side_slippage (pump_amm_buy_quote_input spend base_reserve quote_reserve fees
                  (pp_coin_creator (rt_pool rt) \<noteq> default_pubkey)) slippage)
               (pp_is_cashback_coin (rt_pool rt)) = Inr swap"
    and ixs: "ixs = build_create_token_ata_instruction e owner mint_key (rt_mint_token_program rt)
                   # open_ixs @ [swap]"
    using assms by (auto simp: pump_amm_buy_instructions_def Let_def split: if_splits)
  obtain init sync where "open_ixs = [ix_create_account (env_tokens (pe_venue e)) owner (env_new_key (pe_venue e))
        funding spl_token_account_len token_program, init, sync]"
    using op by (auto simp: wrapped_sol_open_instructions_def)
  then have "subseq [ix_create_account (env_tokens (pe_venue e)) owner (env_new_key (pe_venue e)) funding
          spl_token_account_len token_program, swap] ixs" by (simp add: ixs)
  moreover have "unat funding = unat rent + unat spend" using f by (rule checked_add_Some)
  moreover have "pump_amm_program_id e = Inr (program_id swap)"
    "ix_bytes swap = pump_amm_buy_bytes spend (apply_sell_side_slippage (pump_amm_buy_quote_input spend
       base_reserve quote_reserve fees (pp_coin_creator (rt_pool rt) \<noteq> default_pubkey)) slippage)"
    using sw by (auto simp: build_pump_amm_buy_exact_quote_in_instruction_def pump_amm_buy_bytes_def)
  moreover have "0 < spend" using a(3) by (simp add: word_gt_0)
  moreover have "0 < pump_amm_buy_quote_input spend base_reserve quote_reserve fees
        (pp_coin_creator (rt_pool rt) \<noteq> default_pubkey)" using t by (simp add: word_gt_0)
  ultimately show ?thesis using a(1,2) p by - (intro exI conjI, (assumption | rule refl)+)
qed

lemma amm_sell_shape:
  assumes "pump_amm_sell_instructions e request wallet_id owner mint_key rt meta base_reserve quote_reserve fees
     recipients rent slippage = Inr ixs"
  shows "\<exists>intent amount proceeds token_program swap.
     sell_intent request = Some intent
     \<and> resolve_pump_amm_sell_input_amount e intent wallet_id (env_pubkey_text (pe_venue e) owner)
          (request_mint request) (rt_decimals rt) base_reserve quote_reserve fees
          (pp_coin_creator (rt_pool rt) \<noteq> default_pubkey) (pq_decimals meta) = Inr amount
     \<and> pump_amm_sell_base_input amount base_reserve quote_reserve fees
          (pp_coin_creator (rt_pool rt) \<noteq> default_pubkey) = Inr proceeds
     \<and> venue_token_program (pe_venue e) = Inr token_program
     \<and> subseq [ix_create_account (env_tokens (pe_venue e)) owner (env_new_key (pe_venue e)) rent
          spl_token_account_len token_program, swap] ixs
     \<and> pump_amm_program_id e = Inr (program_id swap)
     \<and> ix_bytes swap = pump_amm_sell_bytes amount (apply_sell_side_slippage proceeds slippage)"
proof -
  obtain intent token_program wsol open_ixs amount proceeds swap where
    i: "sell_intent request = Some intent" and p: "venue_token_program (pe_venue e) = Inr token_program"
    and op: "wrapped_sol_open_instructions (pe_venue e) owner (env_new_key (pe_venue e)) rent wsol
               token_program False = Inr open_ixs"
    and a: "resolve_pump_amm_sell_input_amount e intent wallet_id (env_pubkey_text (pe_venue e) owner)
          (request_mint request) (rt_decimals rt) base_reserve quote_reserve fees
          (pp_coin_creator (rt_pool rt) \<noteq> default_pubkey) (pq_decimals meta) = Inr amount"
      "pump_amm_sell_base_input amount base_reserve quote_reserve fees
          (pp_coin_creator (rt_pool rt) \<noteq> default_pubkey) = Inr proceeds"
    and sw: "build_pump_amm_sell_instruction e (rt_pool rt) owner
               (pump_ata e owner mint_key (rt_mint_token_program rt)) (env_new_key (pe_venue e)) recipients
               (rt_mint_token_program rt) amount (apply_sell_side_slippage proceeds slippage)
               (pp_is_cashback_coin (rt_pool rt)) = Inr swap"
    and ixs: "ixs = open_ixs @ [swap]"
    using assms by (auto simp: pump_amm_sell_instructions_def Let_def)
  obtain init where "open_ixs = [ix_create_account (env_tokens (pe_venue e)) owner (env_new_key (pe_venue e))
        rent spl_token_account_len token_program, init]"
    using op by (auto simp: wrapped_sol_open_instructions_def)
  then have "subseq [ix_create_account (env_tokens (pe_venue e)) owner (env_new_key (pe_venue e)) rent
          spl_token_account_len token_program, swap] ixs" by (simp add: ixs)
  moreover have "pump_amm_program_id e = Inr (program_id swap)"
    "ix_bytes swap = pump_amm_sell_bytes amount (apply_sell_side_slippage proceeds slippage)"
    using sw by (auto simp: build_pump_amm_sell_instruction_def pump_amm_sell_bytes_def)
  ultimately show ?thesis using i p a by - (intro exI conjI, assumption+)
qed


section \<open>Examples\<close>

text \<open>
  One node for both lives of a token: a curve that exists until the migration, and the canonical
  pool in wrapped SOL after it. Derived addresses are told apart by the length of their first seed.
\<close>

definition pump_keys :: "(string \<times> pubkey) list" where
  "pump_keys =
     [(''6EF8rrecthR5Dkzon8Nwu78hRvfCKubJ14M5uBEwF6P'', sample_key 90),
      (''pfeeUxB6jkeY1Hxd7CsFCAjcbHA9rWtchMGdZ6VojVZ'', sample_key 91),
      (''TokenzQdBNbLqP5VEhdkAS6EPFLC1PHnBqCXEpPxuEb'', sample_key 92),
      (''EPjFWdd5AufqSSqeM2qN1xzybapC8G4wEGGkZwyTDt1v'', sample_key 93),
      (''pAMMBay6oceH9fJKBRHGP5D4bD4sWpmSwMn52FMfXEA'', sample_key 94),
      (''5YxQFdt3Tr9zJLvkFccqXVUwhdTWJQc1fFg2YPbxvxeD'', sample_key 95)]"

definition pump_key_of :: "string \<Rightarrow> pubkey option" where
  "pump_key_of s = (case map_of pump_keys s of Some k \<Rightarrow> Some k | None \<Rightarrow> sample_key_of s)"

definition sample_pump_pool :: pump_amm_pool where
  "sample_pump_pool =
     \<lparr>pp_pubkey = sample_key 54, pp_creator = sample_key 64, pp_base_mint = sample_key 32,
      pp_quote_mint = wsol_mint_id, pp_base_account = sample_key 70, pp_quote_account = sample_key 71,
      pp_coin_creator = sample_key 72, pp_is_mayhem_mode = False, pp_is_cashback_coin = False\<rparr>"

definition sample_pump_pool_data :: bytes where
  "sample_pump_pool_data =
     replicate 11 0 @ sample_key 64 @ sample_key 32 @ wsol_mint_id @ sample_key 73 @ sample_key 70
     @ sample_key 71 @ replicate 8 0 @ sample_key 72 @ [0, 0]"

definition sample_pump_env :: "bool \<Rightarrow> pump_env" where
  "sample_pump_env migrated =
     \<lparr>pe_venue = sample_venue_env
        \<lparr>env_sdk := env_sdk sample_venue_env\<lparr>pubkey_from_str := pump_key_of,
           find_program_address := \<lambda>seeds _. (sample_key (50 + of_nat (length (hd seeds))), 255)\<rparr>,
         env_account := \<lambda>_ _. Inr (Some (sample_key 4, sample_mint_account)),
         env_account_data := \<lambda>address _.
           if address = sample_key_text (sample_key 63)
           then if migrated then Inl (Account_Not_Found ''curve'')
                else Inr (curve_account (replicate 8 1) 1000 sample_curve)
           else if address = sample_key_text (sample_key 54) then Inr sample_pump_pool_data
           else Inr sample_mint_account,
         env_accounts := \<lambda>addresses _.
           if hd addresses = sample_key_text (sample_key 54) then Inr [Some sample_pump_pool_data, None]
           else Inr [Some (sample_token_account 40000000000), Some (sample_token_account 30000000000)]\<rparr>,
      pe_cached_data = \<lambda>address.
        if address = sample_key_text (sample_key 60) then Inl (Account_Not_Found ''fee config'')
        else Inr (replicate 740 0),
      pe_account_exists = \<lambda>_ _. Inr False,
      pe_owned_mints = \<lambda>_ _ _. Inr [],
      pe_ata_program = sample_key 96,
      pe_uuid = [],
      pe_lookup_tables = Inr [shared_super_lookup_table],
      pe_sign = \<lambda>_ _ _ _. Inr \<lparr>sm_base64 = ''AQ'', sm_signature = Some ''sig'',
                               sm_lookup_tables = [shared_super_lookup_table]\<rparr>\<rparr>"

lemma pump_key_text [simp]: "pump_key_of (sample_key_text k) = Some k"
proof -
  have "map_of pump_keys (CHR ''k'' # s) = None" for s by (simp add: pump_keys_def)
  then have "map_of pump_keys (sample_key_text k) = None" by (simp add: sample_key_text_def)
  then show ?thesis by (simp add: pump_key_of_def)
qed

lemma sample_pump_fields [simp]:
  "env_pubkey_text (pe_venue (sample_pump_env g)) = sample_key_text"
  "pubkey_from_str (env_sdk (pe_venue (sample_pump_env g))) = pump_key_of"
  "env_wallet (pe_venue (sample_pump_env g)) w = Inr (sample_key 20)"
  "env_tokens (pe_venue (sample_pump_env g)) = sample_tokens"
  "env_rent_lamports (pe_venue (sample_pump_env g)) = Inr 2039280"
  "env_new_key (pe_venue (sample_pump_env g)) = sample_key 21"
  "env_var (pe_venue (sample_pump_env g)) = (\<lambda>_. None)"
  "env_account (pe_venue (sample_pump_env g)) address c = Inr (Some (sample_key 4, sample_mint_account))"
  "pe_account_exists (sample_pump_env g) address c = Inr False"
  "pe_lookup_tables (sample_pump_env g) = Inr [shared_super_lookup_table]"
  "pe_sign (sample_pump_env g) o' ixs ks ts = Inr \<lparr>sm_base64 = ''AQ'', sm_signature = Some ''sig'',
      sm_lookup_tables = [shared_super_lookup_table]\<rparr>"
  by (simp_all add: sample_pump_env_def sample_venue_env_def)

lemma sample_pump_pda [simp]:
  "pda (sample_pump_env g) seeds program = sample_key (50 + of_nat (length (hd seeds)))"
  by (simp add: pda_def sample_pump_env_def)

lemma sample_pump_key [simp]:
  "venue_key (pe_venue (sample_pump_env g)) s l = ok_or (pump_key_of s) (Invalid_Key l)"
  by (simp add: venue_key_def)

lemma sample_pump_programs [simp]:
  "pump_program_id (sample_pump_env g) = Inr (sample_key 90)"
  "pump_fee_program_id (sample_pump_env g) = Inr (sample_key 91)"
  "pump_token_2022_program_id (sample_pump_env g) = Inr (sample_key 92)"
  "usdc_mint (sample_pump_env g) = Inr (sample_key 93)"
  "pump_amm_program_id (sample_pump_env g) = Inr (sample_key 94)"
  "selected_pump_apr28_fee_recipient (sample_pump_env g) = Inr (sample_key 95)"
  by (simp_all add: pump_program_id_def pump_fee_program_id_def pump_token_2022_program_id_def usdc_mint_def
      pump_amm_program_id_def selected_pump_apr28_fee_recipient_def pump_key_of_def pump_keys_def)

lemma sample_pump_libraries [simp]:
  "venue_token_program (pe_venue (sample_pump_env g)) = Inr (sample_key 4)"
  "venue_wsol_mint (pe_venue (sample_pump_env g)) = Inr wsol_mint_id"
  "\<exists>k. compute_budget_program (pe_venue (sample_pump_env g)) = Inr k"
  by (simp_all add: venue_token_program_def venue_wsol_mint_def compute_budget_program_def
      pump_key_of_def pump_keys_def sample_key_of_def known_keys_def)

lemma slice_zeros: "slice (replicate n 0) off k = (if off + k \<le> n then Some (replicate k 0) else None)"
  by (simp add: slice_def take_replicate drop_replicate)

lemma sample_pump_pdas [simp]:
  "bonding_curve_pda (sample_pump_env g) m = Inr (sample_key 63)"
  "global_pda (sample_pump_env g) = Inr (sample_key 56)"
  "global_volume_accumulator_pda (sample_pump_env g) = Inr (sample_key 75)"
  "user_volume_accumulator_pda (sample_pump_env g) u = Inr (sample_key 73)"
  "creator_vault_pda (sample_pump_env g) u = Inr (sample_key 63)"
  "fee_config_pda (sample_pump_env g) = Inr (sample_key 60)"
  "fee_sharing_config_pda (sample_pump_env g) m = Inr (sample_key 64)"
  "pump_amm_global_config_pda (sample_pump_env g) = Inr (sample_key 63)"
  "pump_amm_pool_authority_pda (sample_pump_env g) m = Inr (sample_key 64)"
  "derive_pump_amm_pool_address (sample_pump_env g) c m q i = Inr (sample_key 54)"
  "pump_amm_coin_creator_vault_authority_pda (sample_pump_env g) c = Inr (sample_key 63)"
  "pump_amm_global_volume_accumulator_pda (sample_pump_env g) = Inr (sample_key 75)"
  "pump_amm_user_volume_accumulator_pda (sample_pump_env g) u = Inr (sample_key 73)"
  "pump_amm_pool_v2_pda (sample_pump_env g) m = Inr (sample_key 57)"
  "pump_amm_fee_config_pda (sample_pump_env g) = Inr (sample_key 60)"
  by (simp_all add: bonding_curve_pda_def global_pda_def global_volume_accumulator_pda_def
      user_volume_accumulator_pda_def creator_vault_pda_def fee_config_pda_def fee_sharing_config_pda_def
      pump_amm_global_config_pda_def pump_amm_pool_authority_pda_def derive_pump_amm_pool_address_def
      pump_amm_coin_creator_vault_authority_pda_def pump_amm_global_volume_accumulator_pda_def
      pump_amm_user_volume_accumulator_pda_def pump_amm_pool_v2_pda_def pump_amm_fee_config_pda_def
      pump_pda_def pump_amm_pda_def byte_string_def)

lemma sample_pump_quotes [simp]:
  "\<exists>m. pump_quote_asset_meta (sample_pump_env g) wsol_mint_id = Inr m \<and> pq_kind m = Pump_Sol"
  by (simp add: pump_quote_asset_meta_def Let_def)

lemma zeros_read:
  "pump_read read_pubkey (replicate n 0) off
     = (if off + 32 \<le> n then Inr (replicate 32 0, off + 32) else Inl (Bytes_Missing ''Pump account''))"
  "pump_read read_u64 (replicate n 0) off
     = (if off + 8 \<le> n then Inr (u64_from_le_bytes (replicate 8 0), off + 8) else Inl (Bytes_Missing ''Pump account''))"
  "pump_read_bool (replicate n 0) off
     = (if off < n then Inr (False, off + 1) else Inl (Bytes_Missing ''Pump account''))"
  by (simp_all add: pump_read_def map_error_def read_pubkey_def read_u64_def pump_read_bool_def
      read_u8_def slice_zeros)

lemma zero_word [simp]: "u64_from_le_bytes (replicate 8 0) = 0"
  by (simp add: u64_from_le_bytes_def replicate_numeral_eq)

lemma zeros_read_keys:
  "off + 32 * k \<le> n \<Longrightarrow>
     pump_read_keys k (replicate n 0) off = Inr (replicate k (replicate 32 0), off + 32 * k)"
  by (induction k arbitrary: off) (simp_all add: zeros_read)

lemma sample_global:
  "\<exists>global. fetch_global_state (sample_pump_env g) = Inr global \<and> pg_fee_basis_points global = 0
     \<and> pg_creator_fee_basis_points global = 0"
proof -
  have "pe_cached_data (sample_pump_env g) (sample_key_text (sample_key 56)) = Inr (replicate 740 0)"
    by (simp add: sample_pump_env_def)
  then show ?thesis
    by (simp add: fetch_global_state_def decode_global_state_def zeros_read zeros_read_keys if_more_def)
qed

lemma sample_amm_config:
  "\<exists>config. fetch_pump_amm_global_config (sample_pump_env g) = Inr config"
proof -
  have "pe_cached_data (sample_pump_env g) (sample_key_text (sample_key 63)) = Inr (replicate 740 0)"
    by (simp add: sample_pump_env_def)
  then show ?thesis
    by (simp add: fetch_pump_amm_global_config_def decode_pump_amm_global_config_def zeros_read zeros_read_keys)
qed

lemma sample_pump_curve:
  "fetch_bonding_curve_state (sample_pump_env False) m c = Inr sample_curve"
  "unless_missing (fetch_bonding_curve_state (sample_pump_env True) m c) = Inr None"
proof -
  have d: "decode_bonding_curve_state (curve_account (replicate 8 1) 1000 sample_curve) = Inr sample_curve"
    by (simp add: decode_bonding_curve_state_def curve_account_def pump_eval sample_curve_def)
  have "env_account_data (pe_venue (sample_pump_env False)) (sample_key_text (sample_key 63)) c
      = Inr (curve_account (replicate 8 1) 1000 sample_curve)"
    "env_account_data (pe_venue (sample_pump_env True)) (sample_key_text (sample_key 63)) c
      = Inl (Account_Not_Found ''curve'')"
    by (simp_all add: sample_pump_env_def)
  with d show "fetch_bonding_curve_state (sample_pump_env False) m c = Inr sample_curve"
    "unless_missing (fetch_bonding_curve_state (sample_pump_env True) m c) = Inr None"
    by (simp_all add: fetch_bonding_curve_state_def unless_missing_def was_not_found_def)
qed

lemma sample_pump_pool_read:
  "decode_pump_amm_pool_state (sample_key 54) sample_pump_pool_data = Inr sample_pump_pool"
  by (simp add: decode_pump_amm_pool_state_def sample_pump_pool_data_def pump_eval sample_pump_pool_def)

lemma sample_pool_planned:
  "find_pump_amm_pool_state (sample_pump_env g) (sample_key 32) None c = Inr (Some sample_pump_pool)"
proof -
  obtain m m' where "pump_quote_asset_meta (sample_pump_env g) wsol_mint_id = Inr m"
    "pump_quote_asset_meta (sample_pump_env g) (sample_key 93) = Inr m'"
    by (simp add: pump_quote_asset_meta_def Let_def)
  then show ?thesis
    by (simp add: find_pump_amm_pool_state_def canonical_pump_amm_pool_for_quote_def)
      (simp add: sample_pump_env_def sample_pump_pool_read sample_pump_pool_def)
qed

theorem pump_plan_reaches_compiler_witness:
  "\<exists>selector pool. plan_pump_trade (sample_pump_env True) (sample_trade_request Buy (sample_key 32))
       = Inr (Some selector)
     \<and> is_canonical_pool (sample_pump_env True) (sample_key 32) pool
     \<and> canonical_market_key selector = sample_key_text (pp_pubkey pool)"
proof -
  let ?e = "sample_pump_env True" and ?r = "sample_trade_request Buy (sample_key 32)"
  have m: "venue_key (pe_venue ?e) (request_mint ?r) ''mint'' = Inr (sample_key 32)"
    by (simp add: sample_trade_request_def)
  have pin: "pinned_amm_pool ?e ?r (sample_key 32) c = Inr (Some None)" for c
    by (simp add: pinned_amm_pool_def option_filter_def sample_trade_request_def)
  obtain meta config where w: "pump_quote_asset_meta ?e wsol_mint_id = Inr meta"
    "fetch_pump_amm_global_config ?e = Inr config"
    using sample_pump_quotes sample_amm_config by blast
  then have "\<exists>b. build_pump_amm_runtime_bundle ?e (sample_key 32) sample_pump_pool c = Inr b" for c
    by (simp add: build_pump_amm_runtime_bundle_def Let_def sample_pump_pool_def)
  then obtain selector where planned: "plan_pump_trade ?e ?r = Inr (Some selector)"
    using m pin w
    by (simp add: plan_pump_trade_def Let_def sample_pump_curve sample_pool_planned sample_pump_pool_def) metis
  have "\<And>k. pubkey_from_str (env_sdk (pe_venue ?e)) (env_pubkey_text (pe_venue ?e) k) = Some k" by simp
  moreover have "fetch_bonding_curve_state ?e k c \<noteq> Inr curve" for k c curve
    using sample_pump_curve(2) [of k c] by (auto simp: unless_missing_def)
  ultimately obtain mint_key pool where
    "venue_key (pe_venue ?e) (request_mint ?r) ''mint'' = Inr mint_key" "is_canonical_pool ?e mint_key pool"
    "canonical_market_key selector = env_pubkey_text (pe_venue ?e) (pp_pubkey pool)"
    using pump_plan_reaches_compiler [OF _ planned] by blast
  then show ?thesis using planned m by auto
qed

definition no_usdc_routes :: "unit pump_usdc_routes" where
  "no_usdc_routes =
     \<lparr>usdc_curve_buy = \<lambda>_ _ _ _ _ _ _ _. Inl (Unsupported_Market ''usdc''),
      usdc_curve_sell = \<lambda>_ _ _ _ _ _ _ _ _. Inl (Unsupported_Market ''usdc''),
      usdc_amm_buy = \<lambda>_ _ _ _ _ _ _ _ _. Inl (Unsupported_Market ''usdc''),
      usdc_amm_sell = \<lambda>_ _ _ _ _ _ _ _ _ _. Inl (Unsupported_Market ''usdc'')\<rparr>"

definition sample_pump_bundle :: pump_amm_runtime_bundle where
  "sample_pump_bundle =
     \<lparr>pamm_pool = sample_key_text (sample_key 54), pamm_pool_creator = sample_key_text (sample_key 64),
      pamm_base_mint = sample_key_text (sample_key 32), pamm_quote_mint = sample_key_text wsol_mint_id,
      pamm_pool_base_token_account = sample_key_text (sample_key 70),
      pamm_pool_quote_token_account = sample_key_text (sample_key 71),
      pamm_mint_token_program = sample_key_text (sample_key 4), pamm_global_config = [],
      pamm_fee_config = [], pamm_protocol_fee_recipient = sample_key_text (sample_key 80),
      pamm_protocol_fee_recipient_token_account = sample_key_text (sample_key 81),
      pamm_coin_creator = sample_key_text (sample_key 72),
      pamm_coin_creator_vault_ata = sample_key_text (sample_key 82),
      pamm_coin_creator_vault_authority = sample_key_text (sample_key 83),
      pamm_global_volume_accumulator = [], pamm_is_mayhem_mode = False, pamm_is_cashback_coin = False\<rparr>"

definition sample_pump_selector :: "trade_lifecycle \<Rightarrow> lifecycle_and_canonical_market" where
  "sample_pump_selector stage =
     \<lparr>lifecycle = stage, family = (case stage of PostMigration \<Rightarrow> PumpAmm | _ \<Rightarrow> PumpBondingCurve),
      canonical_market_key = [], quote_asset = Quote_Wsol, verification_source = OnchainDerived,
      market_wrapper_action = PumpAmmBuy, wrapper_accounts = [], market_subtype = None,
      direct_protocol_target = None, input_amount_hint = None, minimum_output_hint = None,
      runtime_bundle = (case stage of PostMigration \<Rightarrow> Some (Bundle_PumpAmm sample_pump_bundle) | _ \<Rightarrow> None)\<rparr>"

lemma sample_pump_memo: "\<exists>ix. pump_memo_instruction (sample_pump_env g) label = Inr ix"
  by (simp add: pump_memo_instruction_def pump_key_of_def pump_keys_def sample_key_of_def known_keys_def)

lemma sample_pump_tip: "append_inline_tip (sample_pump_env g) ixs sample_policy owner = Inr (ixs, None)"
  by (simp add: append_inline_tip_def pump_inline_tip_def sample_policy_def sample_no_tip)

lemma sample_pump_budget: "\<exists>b. pump_compute_budget (sample_pump_env g) limit 0 = Inr b"
  using sample_pump_libraries(3) [of g]
  by (auto simp: pump_compute_budget_def compute_unit_limit_instruction_def)

lemma sample_no_guard: "\<not> jitodontfront_enabled_for_provider (provider sample_policy) mode"
  by (simp add: jitodontfront_enabled_for_provider_def sample_policy_def str_trim_def is_ws_def ascii_lower_def)

lemma sample_pump_signs:
  "\<exists>t. build_pump_transaction_with_lookup_preference (sample_pump_env g) label owner extra ixs limit price tip = Inr t"
  by (simp add: build_pump_transaction_with_lookup_preference_def compile_pump_transaction_candidate_def
      pump_apr28_dynamic_alt_manifest_entries_def pump_apr28_fee_recipient_ata_for_quote_mint_def)

lemma sample_finish_curve: "\<exists>t. finish_pump_curve_trade (sample_pump_env g) sample_policy owner label core 0 = Inr t"
proof -
  obtain b memo where "pump_compute_budget (sample_pump_env g) pump_compute_unit_limit 0 = Inr b"
    "pump_memo_instruction (sample_pump_env g) label = Inr memo"
    using sample_pump_budget sample_pump_memo by blast
  moreover obtain t where "build_pump_transaction_with_lookup_preference (sample_pump_env g) label owner []
      ((b @ core) @ [memo]) pump_compute_unit_limit 0 None = Inr t"
    using sample_pump_signs by blast
  ultimately show ?thesis
    by (simp add: finish_pump_curve_trade_def sample_no_guard sample_pump_tip)
qed

lemma sample_finish_amm: "\<exists>t. finish_pump_amm_trade (sample_pump_env g) sample_policy owner label ixs 0 = Inr t"
proof -
  obtain memo where "pump_memo_instruction (sample_pump_env g) label = Inr memo"
    using sample_pump_memo by blast
  moreover have "\<exists>c. wrapped_sol_close_instruction (pe_venue (sample_pump_env g)) tp o' k = Inr c" for tp o' k
    by (simp add: wrapped_sol_close_instruction_def sample_tokens_def)
  then obtain c where "wrapped_sol_close_instruction (pe_venue (sample_pump_env g)) (sample_key 4) owner
      (sample_key 21) = Inr c" by blast
  moreover obtain t where "build_pump_transaction_with_lookup_preference (sample_pump_env g) label owner
      [sample_key 21] ((ixs @ [c]) @ [memo]) pump_compute_unit_limit 0 None = Inr t"
    using sample_pump_signs by blast
  ultimately show ?thesis
    by (simp add: finish_pump_amm_trade_def Let_def sample_no_guard sample_pump_tip)
qed

lemma sample_trade_fields:
  "policy (sample_trade_request s m) = sample_policy" "request_side (sample_trade_request s m) = s"
  "request_mint (sample_trade_request s m) = sample_key_text m"
  "buy_amount_sol (sample_trade_request s m) = Some ''0.5''" "pinned_pool (sample_trade_request s m) = None"
  "slippage_percent sample_policy = ''20''" "fee_sol sample_policy = []"
  by (simp_all add: sample_trade_request_def sample_policy_def)

lemma sample_curve_buys:
  "\<exists>trade. compile_pump_trade no_usdc_routes (sample_pump_env False) (sample_pump_selector PreMigration)
     (sample_trade_request Buy (sample_key 32)) w = Inr trade"
proof -
  let ?e = "sample_pump_env False"
  obtain meta global where m: "pump_quote_asset_meta ?e wsol_mint_id = Inr meta" "pq_kind meta = Pump_Sol"
    and g: "fetch_global_state ?e = Inr global" "pg_fee_basis_points global = 0" "pg_creator_fee_basis_points global = 0"
    using sample_pump_quotes sample_global by blast
  have tp: "resolve_pump_bonding_mint_token_program ?e k c = Inr (sample_key 4)" for k c
    by (simp add: resolve_pump_bonding_mint_token_program_def ensure_supported_pump_bonding_token_program_def)
  have "curve_input global 500000000 = 499999999" by (simp add: curve_input_def g)
  then have "unat (quote_buy_tokens_from_curve sample_curve global 500000000) \<noteq> 0"
    by (simp add: pump_buy_value Let_def cp_out_def sample_curve_def)
  then have q: "quote_buy_tokens_from_curve sample_curve global 500000000 \<noteq> 0" by auto
  have "\<exists>core. pump_curve_buy_instructions ?e o' k t meta sample_curve global a 500000000 s = Inr core" for o' k t a s
    using q by (simp add: pump_curve_buy_instructions_def Let_def build_buy_exact_quote_in_v2_instruction_def
        v2_leading_accounts_def v2_trailing_accounts_def)
  then obtain core where core: "pump_curve_buy_instructions ?e (sample_key 20) (sample_key 32) (sample_key 4) meta
      sample_curve global (sample_key 62) 500000000 2000 = Inr core" by blast
  obtain t where "finish_pump_curve_trade ?e sample_policy (sample_key 20) ''pump-native-buy'' core 0 = Inr t"
    using sample_finish_curve by blast
  moreover have "pc_quote_mint sample_curve = wsol_mint_id" "\<not> pc_complete sample_curve"
    "pc_creator sample_curve = sample_key 62" by (simp_all add: sample_curve_def)
  ultimately show ?thesis
    using m g tp core
    by (simp add: compile_pump_trade_def compile_pump_curve_trade_def Let_def sample_trade_fields
        sample_pump_curve unless_missing_def sample_pump_selector_def sample_parses
        resolve_follow_creator_vault_authority_def)
qed

lemma sample_curve_quote: "pc_quote_mint sample_curve = wsol_mint_id"
  by (simp add: sample_curve_def)

theorem pump_compiled_curve_trade_witness:
  "\<exists>trade (signed :: signed_message) spend min_out swap.
     compile_pump_trade no_usdc_routes (sample_pump_env False) (sample_pump_selector PreMigration)
       (sample_trade_request Buy (sample_key 32)) ''WALLET'' = Inr trade
     \<and> map ct_base64 (cat_transactions trade) = [sm_base64 signed]
     \<and> ix_bytes (swap :: instruction) = pump_buy_bytes spend min_out \<and> 0 < min_out"
proof -
  let ?e = "sample_pump_env False" and ?r = "sample_trade_request Buy (sample_key 32)"
  obtain trade where t: "compile_pump_trade no_usdc_routes ?e (sample_pump_selector PreMigration) ?r ''WALLET''
      = Inr trade"
    using sample_curve_buys by blast
  obtain meta where m: "pump_quote_asset_meta ?e (pc_quote_mint sample_curve) = Inr meta" "pq_kind meta = Pump_Sol"
    using sample_pump_quotes by (metis sample_curve_quote)
  have r: "request_side ?r = Buy" by (simp add: sample_trade_fields)
  have stage: "lifecycle (sample_pump_selector PreMigration) \<noteq> PostMigration"
    by (simp add: sample_pump_selector_def)
  have k: "venue_key (pe_venue ?e) (request_mint ?r) ''mint'' = Inr (sample_key 32)"
    by (simp add: sample_trade_fields)
  have live: "\<not> pc_complete sample_curve" by (simp add: sample_curve_def)
  from pump_compiled_curve_trade [OF t stage k sample_pump_curve(1) live m, unfolded r trade_side.case]
  obtain signed :: signed_message and spend min_out and swap :: instruction where
    "map ct_base64 (cat_transactions trade) = [sm_base64 signed]"
    "ix_bytes swap = pump_buy_bytes spend min_out" "0 < min_out"
    by (elim exE conjE) (rule that, assumption+)
  then show ?thesis using t by - (intro exI conjI, assumption+)
qed

lemma sample_bundle_pool: "pool_of_pump_bundle (sample_pump_env g) sample_pump_bundle = Inr sample_pump_pool"
  by (simp add: pool_of_pump_bundle_def Let_def sample_pump_bundle_def sample_pump_pool_def)

lemma sample_amm_bundle: "pump_amm_bundle_of (sample_pump_selector PostMigration) = Some sample_pump_bundle"
  by (simp add: pump_amm_bundle_of_def sample_pump_selector_def)

lemma sample_amm_load:
  "\<exists>config. load_pump_amm_runtime (sample_pump_env g) (sample_pump_selector PostMigration) (sample_key 32) pin
     = Inr \<lparr>rt_global_config = config, rt_pool = sample_pump_pool, rt_fee_config = None, rt_supply = 0,
            rt_decimals = 6, rt_mint_token_program = sample_key 4\<rparr>
     \<and> pa_lp_fee_basis_points config = 0 \<and> pa_protocol_fee_basis_points config = 0
     \<and> pa_coin_creator_fee_basis_points config = 0"
proof -
  let ?e = "sample_pump_env g"
  have data: "env_account_data (pe_venue ?e) (sample_key_text (sample_key 32)) c = Inr sample_mint_account" for c
    by (simp add: sample_pump_env_def)
  have cached: "pe_cached_data ?e (sample_key_text (sample_key 63)) = Inr (replicate 740 0)"
    "pe_cached_data ?e (sample_key_text (sample_key 60)) = Inl (Account_Not_Found ''fee config'')"
    by (simp_all add: sample_pump_env_def)
  have "pamm_mint_token_program sample_pump_bundle = sample_key_text (sample_key 4)"
    by (simp add: sample_pump_bundle_def)
  moreover have "mint_supply sample_mint_account = Inr 0"
    by (simp add: mint_supply_def sample_mint_account_def take_replicate drop_replicate)
  ultimately show ?thesis
    using data
    by (simp add: load_pump_amm_runtime_def sample_amm_bundle sample_bundle_pool fetch_pump_amm_fee_config_def
        unless_missing_def was_not_found_def fetch_pump_amm_global_config_def cached
        decode_pump_amm_global_config_def zeros_read zeros_read_keys)
qed

lemma sample_amm_buys:
  "\<exists>trade. compile_pump_trade no_usdc_routes (sample_pump_env True) (sample_pump_selector PostMigration)
     (sample_trade_request Buy (sample_key 32)) w = Inr trade"
proof -
  let ?e = "sample_pump_env True" and ?r = "sample_trade_request Buy (sample_key 32)"
  obtain config where l: "load_pump_amm_runtime ?e (sample_pump_selector PostMigration) (sample_key 32) None
     = Inr \<lparr>rt_global_config = config, rt_pool = sample_pump_pool, rt_fee_config = None, rt_supply = 0,
            rt_decimals = 6, rt_mint_token_program = sample_key 4\<rparr>"
    and z: "pa_lp_fee_basis_points config = 0" "pa_protocol_fee_basis_points config = 0"
      "pa_coin_creator_fee_basis_points config = 0"
    using sample_amm_load by blast
  obtain meta where m: "pump_quote_asset_meta ?e wsol_mint_id = Inr meta" "pq_kind meta = Pump_Sol"
    using sample_pump_quotes by blast
  obtain budget where b: "pump_compute_budget ?e pump_compute_unit_limit 0 = Inr budget"
    using sample_pump_budget by blast
  have reserves: "pump_amm_reserves ?e sample_pump_pool c = Inr (40000000000, 30000000000)" for c
    by (simp add: pump_amm_reserves_def sample_pump_pool_def sample_pump_env_def)
  let ?fees = "\<lparr>lp_fee_bps = 0, protocol_fee_bps = 0, creator_fee_bps = 0\<rparr>"
  have "unat (pump_amm_buy_quote_input 500000000 40000000000 30000000000 ?fees c) \<noteq> 0" for c
    by (simp add: pump_amm_buy_value pump_amm_effective_def pump_amm_total_bps_def cp_out_def)
  then have q: "pump_amm_buy_quote_input 500000000 40000000000 30000000000 ?fees c \<noteq> 0" for c
    by (metis unat_0)
  have "env_account_data (pe_venue ?e) (sample_key_text (sample_key 54)) c = Inr sample_pump_pool_data" for c
    by (simp add: sample_pump_env_def)
  then have setup_ixs: "\<exists>ixs. append_pump_amm_setup_instructions ?e budget sample_pump_pool o' False = Inr ixs" for o'
    by (simp add: append_pump_amm_setup_instructions_def build_pump_amm_extend_account_instruction_def
        sample_pump_pool_def)
  have buy: "\<exists>ixs. pump_amm_buy_instructions ?e ?r o' k \<lparr>rt_global_config = config, rt_pool = sample_pump_pool,
      rt_fee_config = None, rt_supply = 0, rt_decimals = 6, rt_mint_token_program = sample_key 4\<rparr>
      40000000000 30000000000 ?fees rec 2039280 s = Inr ixs" for o' k rec s
    using q
    by (simp add: pump_amm_buy_instructions_def Let_def sample_trade_fields sample_parses checked_add_def
        wrapped_sol_open_instructions_def sample_tokens_def build_pump_amm_buy_exact_quote_in_instruction_def
        pump_amm_leading_accounts_def pump_amm_fee_accounts_def pump_amm_trailing_accounts_def
        pump_apr28_fee_recipient_ata_for_quote_mint_def sample_pump_pool_def)
  have recipients: "\<exists>rec. pump_amm_recipients_of ?e (sample_pump_selector PostMigration) rt meta = Inr rec" for rt
    by (simp add: pump_amm_recipients_of_def sample_amm_bundle sample_pump_bundle_def)
  have pool: "pp_quote_mint sample_pump_pool = wsol_mint_id" "\<not> pp_is_cashback_coin sample_pump_pool"
    by (simp_all add: sample_pump_pool_def)
  have coin: "pump_key_of (pamm_coin_creator sample_pump_bundle) = Some (sample_key 72)"
    by (simp add: sample_pump_bundle_def)
  have stage: "lifecycle (sample_pump_selector PostMigration) = PostMigration"
    by (simp add: sample_pump_selector_def)
  obtain rec setup_list trade_ixs where
    "pump_amm_recipients_of ?e (sample_pump_selector PostMigration) \<lparr>rt_global_config = config,
       rt_pool = sample_pump_pool, rt_fee_config = None, rt_supply = 0, rt_decimals = 6,
       rt_mint_token_program = sample_key 4\<rparr> meta = Inr rec"
    "append_pump_amm_setup_instructions ?e budget sample_pump_pool (sample_key 20) False = Inr setup_list"
    "pump_amm_buy_instructions ?e ?r (sample_key 20) (sample_key 32) \<lparr>rt_global_config = config,
       rt_pool = sample_pump_pool, rt_fee_config = None, rt_supply = 0, rt_decimals = 6,
       rt_mint_token_program = sample_key 4\<rparr> 40000000000 30000000000 ?fees rec 2039280 2000 = Inr trade_ixs"
    using recipients setup_ixs buy by metis
  moreover obtain t where "finish_pump_amm_trade ?e sample_policy (sample_key 20) ''pump-amm-buy''
      (setup_list @ trade_ixs) 0 = Inr t"
    using sample_finish_amm by blast
  ultimately show ?thesis
    using l z m b reserves pool coin stage
    by (simp add: compile_pump_trade_def compile_pump_amm_trade_def Let_def sample_trade_fields
        sample_amm_bundle option_filter_def compute_pump_amm_fees_def sample_parses)
qed


definition sample_tier_config :: pump_amm_fee_config where
  "sample_tier_config =
     \<lparr>flat_fees = \<lparr>lp_fee_bps = 25, protocol_fee_bps = 5, creator_fee_bps = 0\<rparr>,
      fee_tiers =
        [\<lparr>tier_threshold = 0, tier_fees = \<lparr>lp_fee_bps = 2, protocol_fee_bps = 93, creator_fee_bps = 30\<rparr>\<rparr>,
         \<lparr>tier_threshold = 500, tier_fees = \<lparr>lp_fee_bps = 20, protocol_fee_bps = 5, creator_fee_bps = 95\<rparr>\<rparr>,
         \<lparr>tier_threshold = 1000, tier_fees = \<lparr>lp_fee_bps = 20, protocol_fee_bps = 5, creator_fee_bps = 90\<rparr>\<rparr>]\<rparr>"

theorem pump_amm_pays_reached_tier_witness:
  "\<forall>config. \<exists>tier \<in> set (fee_tiers sample_tier_config). tier_threshold tier = 500
     \<and> compute_pump_amm_fees (sample_pump_env True) config (Some sample_tier_config) sample_pump_pool 1000 10 5
         = Inr (tier_fees tier)"
proof
  fix config
  have "unat ((ucast (5 :: u64) :: u128) * ucast (1000 :: u64) div ucast (10 :: u64)) = 500"
    by (simp add: unat_div unat_word_ariths)
  then have "(ucast (5 :: u64) :: u128) * ucast (1000 :: u64) div ucast (10 :: u64) = 500"
    by (simp only: unat_eq_iff) simp
  then have c: "compute_pump_amm_fees (sample_pump_env True) config (Some sample_tier_config) sample_pump_pool 1000 10 5
      = Inr \<lparr>lp_fee_bps = 20, protocol_fee_bps = 5, creator_fee_bps = 95\<rparr>"
    by (simp add: compute_pump_amm_fees_def is_pump_amm_canonical_pool_def pool_market_cap_quote_units_def
        fees_of_tiers_def sample_tier_config_def sample_pump_pool_def word_le_nat_alt word_less_nat_alt)
  have "sorted (map tier_threshold (fee_tiers sample_tier_config))"
    by (simp add: sample_tier_config_def word_le_nat_alt)
  then show "\<exists>tier \<in> set (fee_tiers sample_tier_config). tier_threshold tier = 500
     \<and> compute_pump_amm_fees (sample_pump_env True) config (Some sample_tier_config) sample_pump_pool 1000 10 5
         = Inr (tier_fees tier)"
    using pump_amm_pays_reached_tier [OF c] c
    by (auto simp: sample_tier_config_def sample_pump_pool_def Let_def)
qed

end
