(* ===== verification/Wrapper_Compile.thy ===== *)
theory Wrapper_Compile
  imports Venue_Runtime
begin

text \<open>
  Rewriting a compiled transaction so that its venue instruction runs through the fee-routing
  program (\<^verbatim>\<open>execution-engine/src/wrapper_compile.rs\<close>): reading the instructions back from
  a message, finding the venue instruction, moving its wrapped SOL to the route account, building
  the wrapper call, and the check of a transaction that is already wrapped. Encoding, message
  compilation and signing are third-party code, fields of \<open>wrap_env\<close>.
\<close>

section \<open>Messages and the environment\<close>

record lookup_table =
  lt_key :: pubkey
  lt_addresses :: "pubkey list"

record table_lookup =
  tl_key :: pubkey
  tl_writable :: "u8 list"
  tl_readonly :: "u8 list"

record compiled_instruction =
  ci_program_index :: u8
  ci_accounts :: "u8 list"
  ci_data :: bytes

text \<open>
  A versioned message: whether it is of version 0, its static keys, how many of them sign, what
  the SDK answers about an index, the table lookups, the instructions and the blockhash.
\<close>

record versioned_message =
  vm_is_v0 :: bool
  vm_static_keys :: "pubkey list"
  vm_required_signatures :: nat
  vm_is_signer :: "nat \<Rightarrow> bool"
  vm_is_writable :: "nat \<Rightarrow> bool"
  vm_lookups :: "table_lookup list"
  vm_instructions :: "compiled_instruction list"
  vm_blockhash :: bytes

text \<open>A signed transaction: its first signature and its serialised bytes.\<close>

record wrapped_bytes =
  wb_signature :: "string option"
  wb_bytes :: bytes

record wrap_env =
  we_sdk :: solana_sdk
  we_key_text :: "pubkey \<Rightarrow> string"
  we_ata :: "pubkey \<Rightarrow> pubkey \<Rightarrow> pubkey \<Rightarrow> pubkey"
  we_create_ata :: "pubkey \<Rightarrow> pubkey \<Rightarrow> pubkey \<Rightarrow> pubkey \<Rightarrow> instruction"
  we_ata_program :: pubkey
  we_token_rent :: u64
  we_uuid :: string
  we_borsh_route :: "execute_swap_route_request \<Rightarrow> bytes option"
  we_unborsh_route :: "bytes \<Rightarrow> execute_swap_route_request option"
  we_borsh_pump :: "execute_pump_bonding_v2_request \<Rightarrow> bytes option"
  we_unborsh_pump :: "bytes \<Rightarrow> execute_pump_bonding_v2_request option"
  we_decode :: "string \<Rightarrow> string + versioned_message"
  we_compile :: "pubkey \<Rightarrow> instruction list \<Rightarrow> lookup_table list \<Rightarrow> bytes \<Rightarrow> string + versioned_message"
  we_sign :: "versioned_message \<Rightarrow> pubkey list \<Rightarrow> string + wrapped_bytes"
  we_base64 :: "bytes \<Rightarrow> string"
  we_restored_signers :: "string \<Rightarrow> pubkey list"

definition vm_required_signers :: "versioned_message \<Rightarrow> pubkey list" where
  "vm_required_signers m = take (vm_required_signatures m) (vm_static_keys m)"

definition vm_tables_used :: "wrap_env \<Rightarrow> versioned_message \<Rightarrow> string list" where
  "vm_tables_used e m = map (\<lambda>l. we_key_text e (tl_key l)) (vm_lookups m)"

section \<open>Programs and discriminators\<close>

definition memo_program_id :: pubkey where
  "memo_program_id =
     [5, 74, 83, 90, 153, 41, 33, 6, 77, 36, 232, 113, 96, 218, 56, 124, 124, 53, 181, 221, 188, 146,
      187, 129, 228, 31, 168, 64, 65, 5, 68, 141]"

definition raydium_clmm_program_id :: pubkey where
  "raydium_clmm_program_id =
     [165, 213, 202, 158, 4, 207, 93, 181, 144, 183, 20, 186, 47, 227, 44, 177, 89, 19, 63, 193, 193,
      146, 183, 34, 87, 253, 7, 211, 156, 176, 64, 30]"

definition raydium_cpmm_program_key :: pubkey where
  "raydium_cpmm_program_key =
     [169, 42, 90, 139, 79, 41, 89, 82, 132, 37, 80, 170, 147, 253, 91, 149, 181, 172, 230, 168, 235,
      146, 12, 147, 148, 46, 67, 105, 12, 32, 236, 115]"

definition raydium_amm_v4_program_key :: pubkey where
  "raydium_amm_v4_program_key =
     [75, 217, 73, 196, 54, 2, 195, 63, 32, 119, 144, 237, 22, 163, 82, 76, 161, 185, 151, 92, 241, 33,
      162, 169, 12, 255, 236, 125, 248, 182, 138, 205]"

definition pump_bonding_program_id :: pubkey where
  "pump_bonding_program_id =
     [1, 86, 224, 246, 147, 102, 90, 207, 68, 219, 21, 104, 191, 23, 91, 170, 81, 137, 203, 151, 245,
      210, 255, 59, 101, 93, 43, 182, 253, 109, 24, 176]"

definition bonk_launchpad_program_id :: pubkey where
  "bonk_launchpad_program_id =
     [5, 4, 59, 149, 77, 202, 38, 225, 239, 145, 181, 44, 79, 143, 137, 175, 138, 111, 90, 200, 198, 33,
      86, 241, 113, 207, 15, 33, 172, 81, 201, 34]"

definition pump_swap_program_id :: pubkey where
  "pump_swap_program_id =
     [12, 20, 222, 252, 130, 94, 198, 118, 148, 37, 8, 24, 187, 101, 64, 101, 244, 41, 141, 49, 86, 213,
      113, 180, 212, 248, 9, 12, 24, 233, 168, 99]"

definition bags_dbc_program_id :: pubkey where
  "bags_dbc_program_id =
     [9, 96, 12, 165, 36, 247, 177, 183, 214, 204, 177, 195, 151, 58, 160, 51, 13, 25, 3, 218, 96, 28,
      201, 181, 222, 227, 198, 98, 180, 202, 209, 73]"

definition bags_damm_v2_program_id :: pubkey where
  "bags_damm_v2_program_id =
     [9, 45, 33, 53, 101, 122, 21, 156, 43, 135, 212, 182, 106, 112, 219, 142, 151, 82, 56, 159, 247,
      106, 175, 32, 108, 237, 6, 58, 56, 249, 90, 237]"

definition orca_whirlpool_program_id :: pubkey where
  "orca_whirlpool_program_id =
     [14, 3, 104, 95, 142, 144, 144, 83, 228, 88, 18, 28, 102, 245, 167, 106, 237, 199, 112, 106, 161,
      28, 130, 248, 170, 149, 42, 143, 43, 120, 121, 169]"

definition raydium_clmm_swap_v2_discriminator :: bytes where
  "raydium_clmm_swap_v2_discriminator = [43, 4, 237, 11, 26, 201, 30, 98]"

definition raydium_cpmm_swap_base_input_discriminator :: bytes where
  "raydium_cpmm_swap_base_input_discriminator = [143, 190, 90, 218, 196, 30, 51, 222]"

definition orca_whirlpool_swap_discriminator :: bytes where
  "orca_whirlpool_swap_discriminator = [248, 198, 158, 145, 225, 117, 135, 200]"

definition pump_sell_v2_discriminator :: bytes where
  "pump_sell_v2_discriminator = [93, 246, 130, 60, 231, 233, 64, 178]"

definition pump_buy_v2_discriminator :: bytes where
  "pump_buy_v2_discriminator = [184, 23, 238, 97, 103, 197, 211, 61]"

definition pump_buy_exact_quote_in_v2_discriminator :: bytes where
  "pump_buy_exact_quote_in_v2_discriminator = [194, 171, 28, 70, 104, 77, 91, 47]"

definition bonk_buy_exact_in_discriminator :: bytes where
  "bonk_buy_exact_in_discriminator = [250, 234, 13, 123, 213, 156, 19, 236]"

definition bonk_sell_exact_in_discriminator :: bytes where
  "bonk_sell_exact_in_discriminator = [149, 39, 222, 155, 211, 124, 152, 26]"

definition pump_amm_buy_exact_quote_in_discriminator :: bytes where
  "pump_amm_buy_exact_quote_in_discriminator = [198, 46, 21, 82, 180, 217, 232, 112]"

definition pump_amm_sell_discriminator :: bytes where
  "pump_amm_sell_discriminator = [51, 230, 133, 164, 1, 127, 131, 173]"

definition bags_swap_discriminator :: bytes where
  "bags_swap_discriminator = [248, 198, 158, 145, 225, 117, 135, 200]"

text \<open>\<^verbatim>\<open>data.first()\<close>, \<^verbatim>\<open>accounts.get(i).map(|m| m.pubkey)\<close> and \<^verbatim>\<open>read_u64_le\<close>.\<close>

definition first_byte :: "bytes \<Rightarrow> u8 option" where
  "first_byte bs = (case bs of [] \<Rightarrow> None | b # _ \<Rightarrow> Some b)"

definition nth_opt :: "'a list \<Rightarrow> nat \<Rightarrow> 'a option" where
  "nth_opt xs i = (if i < length xs then Some (xs ! i) else None)"

definition account_key :: "account_meta list \<Rightarrow> nat \<Rightarrow> pubkey option" where
  "account_key metas i = map_option meta_pubkey (nth_opt metas i)"

definition read_u64_le :: "bytes \<Rightarrow> nat \<Rightarrow> u64 option" where
  "read_u64_le data off = map_option u64_from_le_bytes (slice data off 8)"

section \<open>Building a wrapper call\<close>

datatype wrapper_compile_error =
    Fee_Bps_Over_Cap u16 u16
  | Missing_Lookup_Tables
  | Wrong_Lookup_Tables_Used "string list" string
  | Sol_In_Requires_Gross_Input
  | Sol_Out_Rejects_Gross_Input
  | Inner_Program_Zero
  | Account_Meta_Overflow nat
  | Message_Compile string
  | Wrapper_Signing_Failed string
  | Wrapper_Serialize string
  | Invalid_Wrapper_Route_Kind

record wrapper_compile_request =
  wr_label :: string
  wr_payer :: pubkey
  wr_blockhash :: bytes
  wr_lookup_tables :: "lookup_table list"
  wr_additional_signers :: "pubkey list"
  wr_preamble :: "instruction list"
  wr_postamble :: "instruction list"
  wr_inner_program :: pubkey
  wr_inner_ix_data :: bytes
  wr_inner_accounts :: "account_meta list"
  wr_fee_vault :: pubkey
  wr_fee_vault_wsol_ata :: "pubkey option"
  wr_user_wsol_ata :: "pubkey option"
  wr_route_kind :: wrapper_route_kind
  wr_fee_bps :: u16
  wr_gross_sol_in_lamports :: u64
  wr_min_net_output :: u64
  wr_compute_unit_limit :: "u32 option"
  wr_compute_unit_price_micro_lamports :: "u64 option"
  wr_inline_tip_lamports :: "u64 option"
  wr_inline_tip_account :: "string option"

definition swap_route_no_patch_offset :: u16 where
  "swap_route_no_patch_offset = max_word"

definition estimate_sol_in_fee_lamports :: "u64 \<Rightarrow> u16 \<Rightarrow> u64" where
  "estimate_sol_in_fee_lamports gross_lamports fee_bps =
     (if gross_lamports = 0 \<or> fee_bps = 0 then 0
      else ucast ((ucast gross_lamports :: u128) * ucast fee_bps div 10000))"

text \<open>The account positions are 16-bit numbers.\<close>

definition u16_of_len :: "nat \<Rightarrow> u16 option" where
  "u16_of_len n = (if n < 2 ^ 16 then Some (of_nat n) else None)"

definition build_wrapper_execute_instruction ::
  "wrap_env \<Rightarrow> wrapper_compile_request \<Rightarrow> wrapper_compile_error + instruction" where
  "build_wrapper_execute_instruction e r =
     (if max_fee_bps < wr_fee_bps r then Inl (Fee_Bps_Over_Cap (wr_fee_bps r) max_fee_bps)
      else if wr_inner_program r = default_pubkey then Inl Inner_Program_Zero
      else if wr_route_kind r = Route_Sol_In \<and> wr_gross_sol_in_lamports r = 0
      then Inl Sol_In_Requires_Gross_Input
      else if wr_route_kind r = Route_Sol_Out \<and> wr_gross_sol_in_lamports r \<noteq> 0
      then Inl Sol_Out_Rejects_Gross_Input
      else if wr_route_kind r = Route_Sol_Through then Inl Invalid_Wrapper_Route_Kind
      else if wr_user_wsol_ata r \<noteq> None \<or> wr_fee_vault_wsol_ata r \<noteq> None
      then Inl Invalid_Wrapper_Route_Kind
      else
        let buy = (wr_route_kind r = Route_Sol_In);
            accounts = \<lparr>sa_execute = \<lparr>ea_user = wr_payer r, ea_config_pda = fst (config_pda (we_sdk e)),
              ea_fee_vault = wr_fee_vault r, ea_fee_vault_wsol_ata = default_pubkey,
              ea_user_wsol_ata = default_pubkey,
              ea_instructions_sysvar = instructions_sysvar_id (we_sdk e),
              ea_inner_program = wr_inner_program r, ea_token_program = token_program_id\<rparr>,
              token_fee_vault_ata = None\<rparr>
        in rbind (ok_or (u16_of_len (length (wr_inner_accounts r)))
                    (Account_Meta_Overflow (length (wr_inner_accounts r)))) (\<lambda>accounts_len.
           let request = \<lparr>rq_version = abi_version,
                 rq_route_mode = (if buy then Mode_Sol_In else Mode_Sol_Out),
                 rq_direction = (if buy then Direction_Buy else Direction_Sell),
                 rq_settlement = (if buy then Settlement_Token else Settlement_Native_Sol),
                 rq_fee_mode = (if buy then Sol_Pre else Native_Sol_Post),
                 wsol_lane = 0, rq_fee_bps = wr_fee_bps r,
                 rq_gross_sol_in_lamports = wr_gross_sol_in_lamports r, rq_gross_token_in_amount = 0,
                 rq_min_net_output = (if buy then 0 else wr_min_net_output r),
                 route_accounts_offset = execute_swap_route_fixed_account_count,
                 intermediate_account_index = swap_route_no_patch_offset,
                 token_fee_account_index = swap_route_no_patch_offset,
                 legs = [\<lparr>program_account_index = 0, accounts_start = 1, accounts_len = accounts_len,
                   input_source = (if buy then Gross_Sol_Net_Of_Fee else Fixed), input_amount = 0,
                   input_patch_offset = swap_route_no_patch_offset,
                   output_account_index = swap_route_no_patch_offset,
                   leg_ix_data = wr_inner_ix_data r\<rparr>]\<rparr>
           in map_error (\<lambda>_. Message_Compile ''swap route'')
                (build_execute_swap_route_instruction (we_sdk e) (we_borsh_route e) accounts request
                   (meta_new_readonly (wr_inner_program r) False # wr_inner_accounts r))))"

definition compile_wrapper_transaction ::
  "wrap_env \<Rightarrow> wrapper_compile_request \<Rightarrow> wrapper_compile_error + engine_transaction" where
  "compile_wrapper_transaction e r =
     (if wr_lookup_tables r = [] then Inl Missing_Lookup_Tables
      else
        rbind (build_wrapper_execute_instruction e r) (\<lambda>execute_ix.
        let instructions = wr_preamble r @ execute_ix # wr_postamble r in
        rbind (map_error Message_Compile
                 (we_compile e (wr_payer r) instructions (wr_lookup_tables r) (wr_blockhash r))) (\<lambda>message.
        if vm_required_signers message \<noteq> [wr_payer r]
        then Inl (Wrapper_Signing_Failed ''exactly one signer'')
        else if vm_tables_used e message = []
        then Inl (Wrong_Lookup_Tables_Used []
                    (we_key_text e (lt_key (hd (wr_lookup_tables r)))))
        else
          rbind (map_error Wrapper_Signing_Failed
                   (we_sign e message (wr_payer r # wr_additional_signers r))) (\<lambda>tx.
          Inr \<lparr>ct_label = wr_label r, ct_format = ''v0-alt-wrapper'',
               ct_base64 = we_base64 e (wb_bytes tx), ct_signature = wb_signature tx,
               ct_lookup_tables_used = vm_tables_used e message,
               ct_compute_unit_limit = map_option ucast (wr_compute_unit_limit r),
               ct_compute_unit_price_micro_lamports = wr_compute_unit_price_micro_lamports r,
               ct_inline_tip_lamports = wr_inline_tip_lamports r,
               ct_inline_tip_account = wr_inline_tip_account r\<rparr>))))"


section \<open>Reading a transaction back\<close>

datatype wrap_error =
    Invalid_Serialized_Tx string
  | Unsupported_Message_Version
  | Alt_Account_Missing string
  | Alt_Index_Out_Of_Bounds string u8
  | No_Venue_Instruction
  | Already_Wrapped
  | Multiple_Venue_Instructions nat
  | Venue_Account_Out_Of_Bounds
  | Compile_Failed string
  | Wrap_Signing_Failed string
  | Serialize_Tx_Failed string
  | Lookup_Tables_Missing
  | Invalid_Route_Kind

record wrap_compiled_transaction_request =
  wq_label :: string
  wq_route_kind :: wrapper_route_kind
  wq_fee_bps :: u16
  wq_fee_vault :: pubkey
  wq_gross_sol_in_lamports :: u64
  wq_min_net_output :: u64
  wq_select_first :: bool
  wq_select_last :: bool

fun table_addresses ::
  "wrap_env \<Rightarrow> lookup_table \<Rightarrow> u8 list \<Rightarrow> wrap_error + pubkey list" where
  "table_addresses e table [] = Inr []"
| "table_addresses e table (i # is) =
     rbind (ok_or (nth_opt (lt_addresses table) (unat i))
              (Alt_Index_Out_Of_Bounds (we_key_text e (lt_key table)) i)) (\<lambda>address.
     rbind (table_addresses e table is) (\<lambda>rest. Inr (address # rest)))"

fun looked_up_keys ::
  "wrap_env \<Rightarrow> lookup_table list \<Rightarrow> table_lookup list \<Rightarrow> wrap_error + (pubkey list \<times> pubkey list)" where
  "looked_up_keys e tables [] = Inr ([], [])"
| "looked_up_keys e tables (l # ls) =
     rbind (ok_or (List.find (\<lambda>t. lt_key t = tl_key l) tables)
              (Alt_Account_Missing (we_key_text e (tl_key l)))) (\<lambda>table.
     rbind (table_addresses e table (tl_writable l)) (\<lambda>writable.
     rbind (table_addresses e table (tl_readonly l)) (\<lambda>readonly.
     rbind (looked_up_keys e tables ls) (\<lambda>(ws, rs). Inr (writable @ ws, readonly @ rs)))))"

fun decompiled_metas ::
  "versioned_message \<Rightarrow> pubkey list \<Rightarrow> u8 list \<Rightarrow> wrap_error + account_meta list" where
  "decompiled_metas m keys [] = Inr []"
| "decompiled_metas m keys (i # is) =
     rbind (ok_or (nth_opt keys (unat i)) Venue_Account_Out_Of_Bounds) (\<lambda>k.
     rbind (decompiled_metas m keys is) (\<lambda>metas.
     Inr (\<lparr>meta_pubkey = k, is_signer = vm_is_signer m (unat i),
           is_writable = vm_is_writable m (unat i)\<rparr> # metas)))"

fun decompiled_instructions ::
  "versioned_message \<Rightarrow> pubkey list \<Rightarrow> compiled_instruction list \<Rightarrow> wrap_error + instruction list" where
  "decompiled_instructions m keys [] = Inr []"
| "decompiled_instructions m keys (c # cs) =
     rbind (ok_or (nth_opt keys (unat (ci_program_index c))) Venue_Account_Out_Of_Bounds) (\<lambda>program.
     rbind (decompiled_metas m keys (ci_accounts c)) (\<lambda>metas.
     rbind (decompiled_instructions m keys cs) (\<lambda>ixs.
     Inr (\<lparr>program_id = program, ix_accounts = metas, ix_bytes = ci_data c\<rparr> # ixs))))"

definition decompile_v0_transaction ::
  "wrap_env \<Rightarrow> versioned_message \<Rightarrow> lookup_table list \<Rightarrow> wrap_error + instruction list" where
  "decompile_v0_transaction e m tables =
     rbind (looked_up_keys e tables (vm_lookups m)) (\<lambda>(writable, readonly).
     decompiled_instructions m (vm_static_keys m @ writable @ readonly) (vm_instructions m))"

section \<open>Recognising wrapper calls\<close>

definition is_wrapper_execute_instruction :: "instruction \<Rightarrow> bool" where
  "is_wrapper_execute_instruction ix \<longleftrightarrow>
     program_id ix = wrapper_program_id
     \<and> first_byte (ix_bytes ix) \<in> {Some 1, Some 7, Some execute_swap_route_discriminator,
                                    Some execute_pump_bonding_v2_discriminator}"

definition is_retired_wrapper_instruction :: "instruction \<Rightarrow> bool" where
  "is_retired_wrapper_instruction ix \<longleftrightarrow>
     program_id ix = wrapper_program_id \<and> first_byte (ix_bytes ix) \<in> {Some 1, Some 7}"

definition decode_wrapper_swap_route_instruction ::
  "wrap_env \<Rightarrow> instruction \<Rightarrow> execute_swap_route_request option" where
  "decode_wrapper_swap_route_instruction e ix =
     (if program_id ix \<noteq> wrapper_program_id
         \<or> first_byte (ix_bytes ix) \<noteq> Some execute_swap_route_discriminator then None
      else option_filter (\<lambda>r. rq_version r = abi_version) (we_unborsh_route e (tl (ix_bytes ix))))"

definition decode_wrapper_pump_bonding_v2_instruction ::
  "wrap_env \<Rightarrow> instruction \<Rightarrow> execute_pump_bonding_v2_request option" where
  "decode_wrapper_pump_bonding_v2_instruction e ix =
     (if program_id ix \<noteq> wrapper_program_id
         \<or> first_byte (ix_bytes ix) \<noteq> Some execute_pump_bonding_v2_discriminator then None
      else option_filter (\<lambda>r. pb_version r = abi_version) (we_unborsh_pump e (tl (ix_bytes ix))))"

section \<open>Checking a wrapped transaction\<close>

text \<open>\<^verbatim>\<open>account(i)? != k || ...\<close>: the first missing or different account fails the check.\<close>

fun accounts_match :: "account_meta list \<Rightarrow> string \<Rightarrow> (nat \<times> pubkey) list \<Rightarrow> wrap_error + unit" where
  "accounts_match metas label [] = Inr ()"
| "accounts_match metas label ((i, k) # rest) =
     (case account_key metas i of
        None \<Rightarrow> Inl (Compile_Failed ''missing fixed account'')
      | Some found \<Rightarrow> if found \<noteq> k then Inl (Compile_Failed label) else accounts_match metas label rest)"

text \<open>The user account is the payer, and signs.\<close>

definition user_signs :: "account_meta list \<Rightarrow> pubkey \<Rightarrow> wrap_error + unit" where
  "user_signs metas payer =
     rbind (accounts_match metas ''user account'' [(0, payer)]) (\<lambda>_.
     if \<not> is_signer (metas ! 0) then Inl (Compile_Failed ''user account'') else Inr ())"

definition require :: "bool \<Rightarrow> string \<Rightarrow> wrap_error + unit" where
  "require ok label = (if ok then Inr () else Inl (Compile_Failed label))"

definition validate_already_wrapped_route_accounts ::
  "wrap_env \<Rightarrow> instruction \<Rightarrow> pubkey \<Rightarrow> wrap_compiled_transaction_request \<Rightarrow> execute_swap_route_request
     \<Rightarrow> wrap_error + unit" where
  "validate_already_wrapped_route_accounts e ix payer request route =
     (let metas = ix_accounts ix; sdk = we_sdk e; offset = unat (route_accounts_offset route) in
     rbind (user_signs metas payer) (\<lambda>_.
     rbind (accounts_match metas ''fixed accounts''
              [(1, fst (config_pda sdk)), (2, wq_fee_vault request), (5, instructions_sysvar_id sdk),
               (7, token_program_id)]) (\<lambda>_.
     rbind (require (offset < length metas) ''route_accounts_offset'') (\<lambda>_.
     rbind (accounts_match metas ''inner program'' [(6, meta_pubkey (metas ! offset))]) (\<lambda>_.
     if \<not> swap_route_uses_wsol route then Inr ()
     else
       rbind (require (wsol_lane route = 0) ''WSOL lane'') (\<lambda>_.
       accounts_match metas ''WSOL route accounts''
         [(4, fst (route_wsol_pda sdk payer (wsol_lane route))), (8, wsol_mint_id),
          (9, system_program_id sdk), (10, rent_sysvar_id sdk)]))))))"

definition pump_v2_user_index :: nat where "pump_v2_user_index = 13"
definition pump_v2_associated_base_user_index :: nat where "pump_v2_associated_base_user_index = 14"
definition pump_v2_associated_quote_user_index :: nat where "pump_v2_associated_quote_user_index = 15"
definition pump_v2_base_mint_index :: nat where "pump_v2_base_mint_index = 1"
definition pump_v2_quote_mint_index :: nat where "pump_v2_quote_mint_index = 2"
definition pump_v2_base_token_program_index :: nat where "pump_v2_base_token_program_index = 3"

text \<open>How many accounts an instruction has, and where its program stands.\<close>

definition pump_bonding_v2_expected_account_layout :: "bytes \<Rightarrow> (nat \<times> nat) option" where
  "pump_bonding_v2_expected_account_layout discriminator =
     (if discriminator = pump_buy_v2_discriminator
         \<or> discriminator = pump_buy_exact_quote_in_v2_discriminator then Some (27, 26)
      else if discriminator = pump_sell_v2_discriminator then Some (26, 25)
      else None)"

definition validate_pump_bonding_v2_inner_accounts ::
  "wrap_env \<Rightarrow> account_meta list \<Rightarrow> bytes \<Rightarrow> pubkey \<Rightarrow> pubkey \<Rightarrow> wrap_error + unit" where
  "validate_pump_bonding_v2_inner_accounts e accounts discriminator payer pump_program =
     rbind (ok_or (pump_bonding_v2_expected_account_layout discriminator)
              (Compile_Failed ''discriminator'')) (\<lambda>(expected_count, program_index).
     rbind (require (length accounts = expected_count) ''account count'') (\<lambda>_.
     rbind (require (account_key accounts pump_v2_user_index = Some payer
                     \<and> map_option is_signer (nth_opt accounts pump_v2_user_index) = Some True)
              ''user account'') (\<lambda>_.
     rbind (require (account_key accounts program_index = Some pump_program) ''program account'') (\<lambda>_.
     rbind (require (account_key accounts pump_v2_associated_quote_user_index
                     = Some (we_ata e payer wsol_mint_id token_program_id)) ''quote user account'') (\<lambda>_.
     require (account_key accounts pump_v2_quote_mint_index = Some wsol_mint_id) ''quote mint'')))))"

definition validate_already_wrapped_pump_bonding_v2_accounts ::
  "wrap_env \<Rightarrow> instruction \<Rightarrow> pubkey \<Rightarrow> wrap_compiled_transaction_request
     \<Rightarrow> execute_pump_bonding_v2_request \<Rightarrow> wrap_error + unit" where
  "validate_already_wrapped_pump_bonding_v2_accounts e ix payer request route =
     (let metas = ix_accounts ix; sdk = we_sdk e;
          fixed = unat execute_pump_bonding_v2_fixed_account_count in
     rbind (user_signs metas payer) (\<lambda>_.
     rbind (accounts_match metas ''fixed accounts''
              [(1, fst (config_pda sdk)), (2, wq_fee_vault request),
               (3, we_ata e (wq_fee_vault request) wsol_mint_id token_program_id),
               (4, instructions_sysvar_id sdk), (5, pump_bonding_program_id)]) (\<lambda>_.
     rbind (require (fixed \<le> length metas) ''inner Pump accounts'') (\<lambda>_.
     rbind (require (pb_fee_bps route = wq_fee_bps request) ''fee_bps'') (\<lambda>_.
     rbind (require (quote_fee_mode route = Pump_Quote_Wsol) ''quote fee mode'') (\<lambda>_.
     case wq_route_kind request of
       Route_Sol_In \<Rightarrow>
         rbind (require (gross_quote_in_amount route = wq_gross_sol_in_lamports request)
                  ''gross quote input'') (\<lambda>_.
         rbind (require (wq_min_net_output request \<le> min_base_out_amount route) ''min base output'') (\<lambda>_.
         rbind (require (base_amount_in route = 0 \<and> gross_min_quote_out_amount route = 0
                         \<and> net_min_quote_out_amount route = 0) ''sell-only amounts'') (\<lambda>_.
         validate_pump_bonding_v2_inner_accounts e (drop fixed metas)
           pump_buy_exact_quote_in_v2_discriminator payer pump_bonding_program_id)))
     | Route_Sol_Out \<Rightarrow>
         rbind (require (gross_quote_in_amount route = 0 \<and> min_base_out_amount route = 0)
                  ''buy-only amounts'') (\<lambda>_.
         rbind (require (base_amount_in route \<noteq> 0) ''zero base input'') (\<lambda>_.
         rbind (require (wq_min_net_output request \<le> net_min_quote_out_amount route)
                  ''net quote output'') (\<lambda>_.
         validate_pump_bonding_v2_inner_accounts e (drop fixed metas) pump_sell_v2_discriminator payer
           pump_bonding_program_id)))
     | Route_Sol_Through \<Rightarrow> Inl Invalid_Route_Kind))))))"

definition validate_swap_route_shape ::
  "wrap_compiled_transaction_request \<Rightarrow> execute_swap_route_request \<Rightarrow> wrap_error + unit" where
  "validate_swap_route_shape request route =
     (case wq_route_kind request of
        Route_Sol_In \<Rightarrow>
          rbind (require (rq_direction route = Direction_Buy \<and> rq_settlement route = Settlement_Token
                          \<and> rq_fee_mode route = Sol_Pre
                          \<and> rq_route_mode route \<in> {Mode_Sol_In, Mode_Mixed}) ''buy shape'') (\<lambda>_.
          require (rq_gross_sol_in_lamports route = wq_gross_sol_in_lamports request) ''gross SOL input'')
      | Route_Sol_Out \<Rightarrow>
          rbind (require (rq_direction route = Direction_Sell
                          \<and> rq_settlement route \<in> {Settlement_Native_Sol, Settlement_Wsol}
                          \<and> rq_fee_mode route \<in> {Native_Sol_Post, Wsol_Post}
                          \<and> rq_route_mode route \<in> {Mode_Sol_Out, Mode_Mixed}) ''sell shape'') (\<lambda>_.
          require (rq_gross_sol_in_lamports route = 0) ''gross SOL input'')
      | Route_Sol_Through \<Rightarrow> Inl Invalid_Route_Kind)"

definition validate_swap_route ::
  "wrap_env \<Rightarrow> instruction \<Rightarrow> pubkey \<Rightarrow> wrap_compiled_transaction_request \<Rightarrow> execute_swap_route_request
     \<Rightarrow> wrap_error + unit" where
  "validate_swap_route e ix payer request route =
     rbind (require (rq_fee_bps route = wq_fee_bps request) ''fee_bps'') (\<lambda>_.
     rbind (validate_swap_route_shape request route) (\<lambda>_.
     rbind (require (\<not> (0 < wq_min_net_output request
                         \<and> rq_min_net_output route < wq_min_net_output request)) ''min output'') (\<lambda>_.
     validate_already_wrapped_route_accounts e ix payer request route)))"

definition validate_pump_route ::
  "wrap_env \<Rightarrow> instruction \<Rightarrow> pubkey \<Rightarrow> wrap_compiled_transaction_request
     \<Rightarrow> execute_pump_bonding_v2_request \<Rightarrow> wrap_error + unit" where
  "validate_pump_route e ix payer request route =
     (case wq_route_kind request of
        Route_Sol_Through \<Rightarrow> Inl Invalid_Route_Kind
      | kind \<Rightarrow>
          rbind (require (pb_side route = (if kind = Route_Sol_In then Pump_Buy else Pump_Sell))
                   ''Pump v2 side'') (\<lambda>_.
          validate_already_wrapped_pump_bonding_v2_accounts e ix payer request route))"

text \<open>The instructions that decode, with what they decode to.\<close>

definition decoded_with :: "('a \<Rightarrow> 'b option) \<Rightarrow> 'a list \<Rightarrow> ('a \<times> 'b) list" where
  "decoded_with f xs = List.map_filter (\<lambda>x. map_option (Pair x) (f x)) xs"

definition validate_wrapped_instructions ::
  "wrap_env \<Rightarrow> instruction list \<Rightarrow> pubkey \<Rightarrow> wrap_compiled_transaction_request \<Rightarrow> wrap_error + unit" where
  "validate_wrapped_instructions e ixs payer request =
     (let routes = decoded_with (decode_wrapper_swap_route_instruction e) ixs;
          pump_routes = decoded_with (decode_wrapper_pump_bonding_v2_instruction e) ixs in
     rbind (require (\<not> list_ex is_retired_wrapper_instruction ixs) ''retired instruction'') (\<lambda>_.
     rbind (require (length routes + length pump_routes = 1) ''exactly one instruction'') (\<lambda>_.
     rbind (require (length (filter is_wrapper_execute_instruction ixs)
                     = length routes + length pump_routes) ''malformed instruction'') (\<lambda>_.
     case pump_routes of
       [(ix, route)] \<Rightarrow> validate_pump_route e ix payer request route
     | _ \<Rightarrow> (case routes of
               (ix, route) # _ \<Rightarrow> validate_swap_route e ix payer request route
             | [] \<Rightarrow> Inl (Compile_Failed ''unreachable''))))))"

definition validate_already_wrapped_transaction ::
  "wrap_env \<Rightarrow> engine_transaction \<Rightarrow> pubkey \<Rightarrow> lookup_table list \<Rightarrow> wrap_compiled_transaction_request
     \<Rightarrow> wrap_error + unit" where
  "validate_already_wrapped_transaction e source payer tables request =
     rbind (map_error Invalid_Serialized_Tx (we_decode e (ct_base64 source))) (\<lambda>m.
     rbind (require (vm_required_signers m = [payer]) ''exactly one signer'') (\<lambda>_.
     rbind (decompile_v0_transaction e m tables) (\<lambda>ixs.
     validate_wrapped_instructions e ixs payer request)))"


section \<open>The wrapped SOL account of a venue instruction\<close>

text \<open>\<^verbatim>\<open>(meta.is_writable && other mint is WSOL).then_some(i)\<close> of the fixed layouts.\<close>

definition writable_at :: "account_meta list \<Rightarrow> nat \<Rightarrow> bool" where
  "writable_at metas i = (case nth_opt metas i of None \<Rightarrow> False | Some m \<Rightarrow> is_writable m)"

definition signer_at :: "account_meta list \<Rightarrow> nat \<Rightarrow> bool" where
  "signer_at metas i = (case nth_opt metas i of None \<Rightarrow> False | Some m \<Rightarrow> is_signer m)"

definition wsol_account_at :: "account_meta list \<Rightarrow> nat \<Rightarrow> nat \<Rightarrow> nat option" where
  "wsol_account_at metas i mint_index =
     (if writable_at metas i \<and> account_key metas mint_index = Some wsol_mint_id then Some i else None)"

text \<open>The AMM v4 layout has no mint accounts; the owner that signs stands at 17.\<close>

definition amm_v4_account_at :: "account_meta list \<Rightarrow> nat \<Rightarrow> nat option" where
  "amm_v4_account_at metas i = (if writable_at metas i \<and> signer_at metas 17 then Some i else None)"

definition derive_temp_wsol_output_account :: "pubkey \<Rightarrow> account_meta list \<Rightarrow> pubkey option" where
  "derive_temp_wsol_output_account program metas =
     Option.bind
       (if program = raydium_clmm_program_id then wsol_account_at metas 4 12
        else if program = raydium_cpmm_program_key then wsol_account_at metas 5 11
        else if program = raydium_amm_v4_program_key then amm_v4_account_at metas 16
        else None)
       (account_key metas)"

definition preamble_initializes_wsol_account :: "instruction list \<Rightarrow> pubkey \<Rightarrow> bool" where
  "preamble_initializes_wsol_account preamble account \<longleftrightarrow>
     list_ex (\<lambda>ix. program_id ix = token_program_id \<and> first_byte (ix_bytes ix) = Some 18
                   \<and> account_key (ix_accounts ix) 0 = Some account
                   \<and> account_key (ix_accounts ix) 1 = Some wsol_mint_id) preamble"

text \<open>An account that the postamble closes to the payer and the venue instruction writes to.\<close>

definition closed_account :: "pubkey \<Rightarrow> account_meta list \<Rightarrow> instruction \<Rightarrow> pubkey option" where
  "closed_account payer venue_accounts ix =
     (if program_id ix \<noteq> token_program_id \<or> first_byte (ix_bytes ix) \<noteq> Some 9 then None
      else
        case (account_key (ix_accounts ix) 0, account_key (ix_accounts ix) 1, account_key (ix_accounts ix) 2) of
          (Some shut, Some destination, Some owner) \<Rightarrow>
            if destination = payer \<and> owner = payer
               \<and> list_ex (\<lambda>m. meta_pubkey m = shut \<and> is_writable m) venue_accounts
            then Some shut else None
        | _ \<Rightarrow> None)"

text \<open>Without repetitions, in the order of the first occurrences.\<close>

fun distinct_keys :: "pubkey list \<Rightarrow> pubkey list \<Rightarrow> pubkey list" where
  "distinct_keys seen [] = seen"
| "distinct_keys seen (k # ks) = distinct_keys (if k \<in> set seen then seen else seen @ [k]) ks"

definition derive_closed_temp_wsol_output_account ::
  "pubkey \<Rightarrow> wrapper_route_kind \<Rightarrow> account_meta list \<Rightarrow> instruction list \<Rightarrow> instruction list
     \<Rightarrow> wrap_error + pubkey option" where
  "derive_closed_temp_wsol_output_account payer kind venue_accounts preamble postamble =
     (if kind \<noteq> Route_Sol_Out then Inr None
      else
        let candidates = distinct_keys [] (List.map_filter (closed_account payer venue_accounts) postamble)
        in if candidates = [] then Inr None
           else
             case filter (preamble_initializes_wsol_account preamble) candidates of
               [account] \<Rightarrow> Inr (Some account)
             | [] \<Rightarrow> Inl (Compile_Failed ''not proven to be WSOL'')
             | _ \<Rightarrow> Inl (Compile_Failed ''ambiguous close-account candidates''))"

definition is_pump_bonding_v2_wsol_quote_instruction :: "pubkey \<Rightarrow> bytes \<Rightarrow> account_meta list \<Rightarrow> bool" where
  "is_pump_bonding_v2_wsol_quote_instruction program data metas \<longleftrightarrow>
     program = pump_bonding_program_id
     \<and> slice data 0 8 \<in> {Some pump_buy_exact_quote_in_v2_discriminator, Some pump_buy_v2_discriminator,
                         Some pump_sell_v2_discriminator}
     \<and> account_key metas pump_v2_quote_mint_index = Some wsol_mint_id"

definition derive_wsol_route_accounts ::
  "wrap_env \<Rightarrow> pubkey \<Rightarrow> pubkey \<Rightarrow> wrapper_route_kind \<Rightarrow> instruction \<Rightarrow> instruction list
     \<Rightarrow> instruction list \<Rightarrow> wrap_error + (pubkey option \<times> pubkey option)" where
  "derive_wsol_route_accounts e payer fee_vault kind venue preamble postamble =
     (let payer_ata = we_ata e payer wsol_mint_id token_program_id in
     rbind (if list_ex (\<lambda>m. meta_pubkey m = payer_ata) (ix_accounts venue)
               \<and> \<not> is_pump_bonding_v2_wsol_quote_instruction (program_id venue) (ix_bytes venue)
                     (ix_accounts venue)
            then Inr (Some payer_ata)
            else
              case derive_temp_wsol_output_account (program_id venue) (ix_accounts venue) of
                Some account \<Rightarrow> Inr (Some account)
              | None \<Rightarrow> derive_closed_temp_wsol_output_account payer kind (ix_accounts venue) preamble postamble)
       (\<lambda>user_wsol.
     Inr (user_wsol, map_option (\<lambda>_. we_ata e fee_vault wsol_mint_id token_program_id) user_wsol)))"

section \<open>The life of a temporary wrapped SOL account\<close>

definition is_system_create_account_for :: "wrap_env \<Rightarrow> instruction \<Rightarrow> pubkey \<Rightarrow> bool" where
  "is_system_create_account_for e ix account \<longleftrightarrow>
     program_id ix = system_program_id (we_sdk e)
     \<and> account_key (ix_accounts ix) 1 = Some account
     \<and> 52 \<le> length (ix_bytes ix)
     \<and> u32_from_le_bytes (take 4 (ix_bytes ix)) = 0
     \<and> u64_from_le_bytes (take 8 (drop 12 (ix_bytes ix))) = 165
     \<and> take 32 (drop 20 (ix_bytes ix)) = token_program_id"

definition is_system_transfer_to :: "wrap_env \<Rightarrow> instruction \<Rightarrow> pubkey \<Rightarrow> bool" where
  "is_system_transfer_to e ix destination \<longleftrightarrow>
     program_id ix = system_program_id (we_sdk e)
     \<and> account_key (ix_accounts ix) 1 = Some destination
     \<and> 12 \<le> length (ix_bytes ix)
     \<and> u32_from_le_bytes (take 4 (ix_bytes ix)) = 2"

definition is_associated_token_account_create_for_wsol :: "wrap_env \<Rightarrow> instruction \<Rightarrow> pubkey \<Rightarrow> bool" where
  "is_associated_token_account_create_for_wsol e ix account \<longleftrightarrow>
     program_id ix = we_ata_program e \<and> account_key (ix_accounts ix) 1 = Some account
     \<and> account_key (ix_accounts ix) 3 = Some wsol_mint_id"

definition is_spl_token_wsol_lifecycle_instruction :: "instruction \<Rightarrow> pubkey \<Rightarrow> bool" where
  "is_spl_token_wsol_lifecycle_instruction ix account \<longleftrightarrow>
     program_id ix = token_program_id \<and> account_key (ix_accounts ix) 0 = Some account
     \<and> first_byte (ix_bytes ix) \<in> {Some 18, Some 17, Some 9}"

definition is_temp_wsol_lifecycle_instruction :: "wrap_env \<Rightarrow> instruction \<Rightarrow> pubkey \<Rightarrow> bool" where
  "is_temp_wsol_lifecycle_instruction e ix account \<longleftrightarrow>
     is_system_create_account_for e ix account \<or> is_system_transfer_to e ix account
     \<or> is_associated_token_account_create_for_wsol e ix account
     \<or> is_spl_token_wsol_lifecycle_instruction ix account"

definition instruction_references_pubkey :: "instruction \<Rightarrow> pubkey \<Rightarrow> bool" where
  "instruction_references_pubkey ix k = list_ex (\<lambda>m. meta_pubkey m = k) (ix_accounts ix)"

fun strip_temp_wsol_lifecycle_instructions ::
  "wrap_env \<Rightarrow> instruction list \<Rightarrow> pubkey \<Rightarrow> instruction list option" where
  "strip_temp_wsol_lifecycle_instructions e [] account = Some []"
| "strip_temp_wsol_lifecycle_instructions e (ix # ixs) account =
     (if \<not> instruction_references_pubkey ix account
      then map_option ((#) ix) (strip_temp_wsol_lifecycle_instructions e ixs account)
      else if is_temp_wsol_lifecycle_instruction e ix account
      then strip_temp_wsol_lifecycle_instructions e ixs account
      else None)"

text \<open>The lamports of the first instruction of a kind.\<close>

definition first_lamports :: "(instruction \<Rightarrow> bool) \<Rightarrow> instruction list \<Rightarrow> u64 option" where
  "first_lamports P ixs =
     map_option (\<lambda>ix. u64_from_le_bytes (take 8 (drop 4 (ix_bytes ix)))) (List.find P ixs)"

definition find_temp_wsol_create_lamports :: "wrap_env \<Rightarrow> instruction list \<Rightarrow> pubkey \<Rightarrow> u64 option" where
  "find_temp_wsol_create_lamports e ixs account =
     first_lamports (\<lambda>ix. is_system_create_account_for e ix account) ixs"

definition find_system_transfer_lamports_to :: "wrap_env \<Rightarrow> instruction list \<Rightarrow> pubkey \<Rightarrow> u64 option" where
  "find_system_transfer_lamports_to e ixs destination =
     first_lamports (\<lambda>ix. is_system_transfer_to e ix destination) ixs"

definition find_preamble_wsol_funding_lamports :: "wrap_env \<Rightarrow> instruction list \<Rightarrow> pubkey \<Rightarrow> u64 option" where
  "find_preamble_wsol_funding_lamports e ixs account =
     (case find_temp_wsol_create_lamports e ixs account of
        Some lamports \<Rightarrow> checked_sub lamports (we_token_rent e)
      | None \<Rightarrow> find_system_transfer_lamports_to e ixs account)"

definition preamble_prepares_wsol_input_account :: "wrap_env \<Rightarrow> instruction list \<Rightarrow> pubkey \<Rightarrow> bool" where
  "preamble_prepares_wsol_input_account e preamble account \<longleftrightarrow>
     find_preamble_wsol_funding_lamports e preamble account \<noteq> None
     \<and> list_ex (\<lambda>ix. program_id ix = token_program_id \<and> first_byte (ix_bytes ix) = Some 17
                       \<and> account_key (ix_accounts ix) 0 = Some account
                     \<or> preamble_initializes_wsol_account preamble account) preamble"

definition derive_generic_wsol_input_account_index ::
  "wrap_env \<Rightarrow> account_meta list \<Rightarrow> instruction list \<Rightarrow> nat option" where
  "derive_generic_wsol_input_account_index e metas preamble =
     (case filter (\<lambda>i. is_writable (metas ! i)
                       \<and> preamble_prepares_wsol_input_account e preamble (meta_pubkey (metas ! i)))
             [0..<length metas] of
        [i] \<Rightarrow> Some i
      | _ \<Rightarrow> None)"

definition derive_amm_wsol_input_account_index ::
  "wrap_env \<Rightarrow> pubkey \<Rightarrow> account_meta list \<Rightarrow> instruction list \<Rightarrow> nat option" where
  "derive_amm_wsol_input_account_index e program metas preamble =
     (if program = raydium_clmm_program_id then wsol_account_at metas 3 11
      else if program = raydium_cpmm_program_key then wsol_account_at metas 4 10
      else if program = raydium_amm_v4_program_key then amm_v4_account_at metas 15
      else if program = bonk_launchpad_program_id then wsol_account_at metas 6 10
      else derive_generic_wsol_input_account_index e metas preamble)"

section \<open>Wrapping\<close>

definition infer_sol_out_min_lamports_from_venue_instruction :: "instruction \<Rightarrow> u64 option" where
  "infer_sol_out_min_lamports_from_venue_instruction ix =
     (let data = ix_bytes ix; program = program_id ix in
     case slice data 0 8 of
       None \<Rightarrow> None
     | Some d \<Rightarrow>
         if program = pump_bonding_program_id \<and> d = pump_sell_v2_discriminator then read_u64_le data 16
         else if program = pump_swap_program_id \<and> d = pump_amm_sell_discriminator then read_u64_le data 16
         else if program = bonk_launchpad_program_id \<and> d = bonk_sell_exact_in_discriminator
         then read_u64_le data 16
         else if program = raydium_cpmm_program_key \<and> d = raydium_cpmm_swap_base_input_discriminator
                 \<or> program = raydium_clmm_program_id \<and> d = raydium_clmm_swap_v2_discriminator
                 \<or> program = orca_whirlpool_program_id \<and> d = orca_whirlpool_swap_discriminator
                 \<or> (program = bags_dbc_program_id \<or> program = bags_damm_v2_program_id)
                   \<and> d = bags_swap_discriminator
         then read_u64_le data 16
         else if program = raydium_amm_v4_program_key \<and> first_byte data = Some 9 then read_u64_le data 9
         else None)"

definition append_system_program_inner_account :: "wrap_env \<Rightarrow> account_meta list \<Rightarrow> account_meta list" where
  "append_system_program_inner_account e metas =
     (if list_ex (\<lambda>m. meta_pubkey m = system_program_id (we_sdk e)) metas then metas
      else metas @ [meta_new_readonly (system_program_id (we_sdk e)) False])"

definition should_append_system_program_inner_account :: "pubkey \<Rightarrow> bool" where
  "should_append_system_program_inner_account program \<longleftrightarrow> program \<noteq> raydium_amm_v4_program_key"

definition with_system_program :: "wrap_env \<Rightarrow> pubkey \<Rightarrow> account_meta list \<Rightarrow> account_meta list" where
  "with_system_program e program metas =
     (if should_append_system_program_inner_account program
      then append_system_program_inner_account e metas else metas)"

text \<open>Where the input amount of a venue instruction stands, when it can be rewritten.\<close>

definition supports_amount_patch :: "pubkey \<Rightarrow> bytes \<Rightarrow> bool" where
  "supports_amount_patch program data \<longleftrightarrow>
     (program = raydium_clmm_program_id \<and> slice data 0 8 = Some raydium_clmm_swap_v2_discriminator)
     \<or> (program = raydium_cpmm_program_key
        \<and> slice data 0 8 = Some raydium_cpmm_swap_base_input_discriminator)
     \<or> (program = bonk_launchpad_program_id \<and> slice data 0 8 = Some bonk_buy_exact_in_discriminator)
     \<or> (program = pump_swap_program_id
        \<and> slice data 0 8 = Some pump_amm_buy_exact_quote_in_discriminator)
     \<or> (program = pump_bonding_program_id
        \<and> slice data 0 8 = Some pump_buy_exact_quote_in_v2_discriminator)
     \<or> (program = pump_bonding_program_id \<and> slice data 0 8 = Some pump_buy_v2_discriminator)
     \<or> ((program = bags_dbc_program_id \<or> program = bags_damm_v2_program_id)
        \<and> slice data 0 8 = Some bags_swap_discriminator)"

definition amount_patch_offset :: "pubkey \<Rightarrow> bytes \<Rightarrow> nat" where
  "amount_patch_offset program data =
     (if program = pump_bonding_program_id \<and> slice data 0 8 = Some pump_buy_v2_discriminator
      then 16 else 8)"

definition patch_amm_wsol_input_amount :: "pubkey \<Rightarrow> bytes \<Rightarrow> u64 \<Rightarrow> bytes" where
  "patch_amm_wsol_input_amount program data net =
     (let off = amount_patch_offset program data
      in if supports_amount_patch program data \<and> off + 8 \<le> length data
         then take off data @ u64_to_le_bytes net @ drop (off + 8) data
         else data)"

record amm_wsol_v2_plan =
  inner_wsol_account_index :: nat
  amm_wsol_account :: pubkey
  pda_wsol_lamports :: u64
  plan_inner_accounts :: "account_meta list"
  plan_preamble :: "instruction list"
  plan_postamble :: "instruction list"

text \<open>\<^verbatim>\<open>meta.pubkey = ..; meta.is_signer = false; meta.is_writable = true\<close>.\<close>

definition redirect_account :: "account_meta list \<Rightarrow> nat \<Rightarrow> pubkey \<Rightarrow> account_meta list" where
  "redirect_account metas i k = metas[i := \<lparr>meta_pubkey = k, is_signer = False, is_writable = True\<rparr>]"

definition wsol_plan ::
  "wrap_env \<Rightarrow> pubkey \<Rightarrow> instruction \<Rightarrow> nat \<Rightarrow> u64 \<Rightarrow> instruction list \<Rightarrow> instruction list
     \<Rightarrow> amm_wsol_v2_plan" where
  "wsol_plan e payer venue i lamports preamble postamble =
     (let route_account = fst (route_wsol_pda (we_sdk e) payer 0) in
     \<lparr>inner_wsol_account_index = i, amm_wsol_account = route_account, pda_wsol_lamports = lamports,
      plan_inner_accounts = with_system_program e (program_id venue)
        (redirect_account (ix_accounts venue) i route_account),
      plan_preamble = preamble, plan_postamble = postamble\<rparr>)"

definition try_build_amm_wsol_v2_plan ::
  "wrap_env \<Rightarrow> pubkey \<Rightarrow> wrap_compiled_transaction_request \<Rightarrow> instruction \<Rightarrow> instruction list
     \<Rightarrow> instruction list \<Rightarrow> amm_wsol_v2_plan option" where
  "try_build_amm_wsol_v2_plan e payer request venue preamble postamble =
     (if wq_route_kind request \<noteq> Route_Sol_In then None
      else
        Option.bind (derive_amm_wsol_input_account_index e (program_id venue) (ix_accounts venue) preamble)
          (\<lambda>i.
        Option.bind (account_key (ix_accounts venue) i) (\<lambda>original.
        Option.bind (find_preamble_wsol_funding_lamports e preamble original) (\<lambda>funding.
        Option.bind (option_filter (\<lambda>net. net \<le> funding)
                       (checked_sub (wq_gross_sol_in_lamports request)
                          (estimate_sol_in_fee_lamports (wq_gross_sol_in_lamports request)
                             (wq_fee_bps request)))) (\<lambda>net.
        if net = 0 then None
        else
          Option.bind (strip_temp_wsol_lifecycle_instructions e preamble original) (\<lambda>pre.
          Option.bind (strip_temp_wsol_lifecycle_instructions e postamble original) (\<lambda>post.
          Some (wsol_plan e payer venue i net pre post))))))))"

text \<open>The first account of the venue instruction that is written and is the given one.\<close>

definition position_of :: "('a \<Rightarrow> bool) \<Rightarrow> 'a list \<Rightarrow> nat option" where
  "position_of P xs = List.find (\<lambda>i. P (xs ! i)) [0..<length xs]"

definition try_build_wsol_out_v3_plan ::
  "wrap_env \<Rightarrow> pubkey \<Rightarrow> wrap_compiled_transaction_request \<Rightarrow> instruction \<Rightarrow> instruction list
     \<Rightarrow> instruction list \<Rightarrow> pubkey option \<Rightarrow> amm_wsol_v2_plan option" where
  "try_build_wsol_out_v3_plan e payer request venue preamble postamble user_wsol =
     (if wq_route_kind request \<noteq> Route_Sol_Out then None
      else
        Option.bind user_wsol (\<lambda>original.
        Option.bind (position_of (\<lambda>m. meta_pubkey m = original \<and> is_writable m) (ix_accounts venue)) (\<lambda>i.
        Option.bind (strip_temp_wsol_lifecycle_instructions e preamble original) (\<lambda>pre.
        Option.bind (strip_temp_wsol_lifecycle_instructions e postamble original) (\<lambda>post.
        Some (wsol_plan e payer venue i 0 pre post))))))"

definition parse_pump_bonding_v2_amounts :: "bytes \<Rightarrow> (bytes \<times> u64 \<times> u64) option" where
  "parse_pump_bonding_v2_amounts data =
     Option.bind (slice data 0 8) (\<lambda>d.
     Option.bind (read_u64_le data 8) (\<lambda>amount.
     Option.bind (read_u64_le data 16) (\<lambda>limit. Some (d, amount, limit))))"

text \<open>The quote a buy may spend once the wrapper has taken its fee.\<close>

definition net_quote_input :: "wrap_compiled_transaction_request \<Rightarrow> wrap_error + u64" where
  "net_quote_input request =
     ok_or (checked_sub (wq_gross_sol_in_lamports request)
              (estimate_sol_in_fee_lamports (wq_gross_sol_in_lamports request) (wq_fee_bps request)))
       (Compile_Failed ''fee exceeds gross quote input'')"

definition pump_v2_buy_request ::
  "wrap_compiled_transaction_request \<Rightarrow> u64 \<Rightarrow> execute_pump_bonding_v2_request" where
  "pump_v2_buy_request request min_base_out =
     \<lparr>pb_version = abi_version, pb_side = Pump_Buy, quote_fee_mode = Pump_Quote_Wsol,
      pb_fee_bps = wq_fee_bps request, gross_quote_in_amount = wq_gross_sol_in_lamports request,
      min_base_out_amount = min_base_out, base_amount_in = 0, gross_min_quote_out_amount = 0,
      net_min_quote_out_amount = 0\<rparr>"

definition pump_v2_wrapper_request ::
  "wrap_compiled_transaction_request \<Rightarrow> bytes \<times> u64 \<times> u64
     \<Rightarrow> wrap_error + execute_pump_bonding_v2_request" where
  "pump_v2_wrapper_request request amounts =
     (case amounts of (d, amount, limit) \<Rightarrow>
       if wq_route_kind request = Route_Sol_In \<and> d = pump_buy_v2_discriminator
       then rbind (net_quote_input request) (\<lambda>net.
            if limit \<noteq> net then Inl (Compile_Failed ''buy max quote'')
            else Inr (pump_v2_buy_request request amount))
       else if wq_route_kind request = Route_Sol_In \<and> d = pump_buy_exact_quote_in_v2_discriminator
       then rbind (net_quote_input request) (\<lambda>net.
            if amount \<noteq> net then Inl (Compile_Failed ''buy amount'')
            else Inr (pump_v2_buy_request request limit))
       else if wq_route_kind request = Route_Sol_Out \<and> d = pump_sell_v2_discriminator
       then Inr \<lparr>pb_version = abi_version, pb_side = Pump_Sell, quote_fee_mode = Pump_Quote_Wsol,
                 pb_fee_bps = wq_fee_bps request, gross_quote_in_amount = 0, min_base_out_amount = 0,
                 base_amount_in = amount, gross_min_quote_out_amount = limit,
                 net_min_quote_out_amount = wq_min_net_output request\<rparr>
       else Inl (Compile_Failed ''route kind did not match instruction side''))"

definition try_build_pump_bonding_v2_wrapper_instruction ::
  "wrap_env \<Rightarrow> pubkey \<Rightarrow> wrap_compiled_transaction_request \<Rightarrow> instruction
     \<Rightarrow> wrap_error + instruction option" where
  "try_build_pump_bonding_v2_wrapper_instruction e payer request venue =
     (if \<not> is_pump_bonding_v2_wsol_quote_instruction (program_id venue) (ix_bytes venue) (ix_accounts venue)
      then Inr None
      else
        rbind (ok_or (parse_pump_bonding_v2_amounts (ix_bytes venue)) (Compile_Failed ''malformed data''))
          (\<lambda>amounts.
        rbind (validate_pump_bonding_v2_inner_accounts e (ix_accounts venue) (fst amounts) payer
                 (program_id venue)) (\<lambda>_.
        rbind (pump_v2_wrapper_request request amounts) (\<lambda>wrapper_request.
        let accounts =
          \<lparr>pa_user = payer, pa_config_pda = fst (config_pda (we_sdk e)),
           pa_fee_vault = wq_fee_vault request,
           pa_fee_vault_quote_ata = we_ata e (wq_fee_vault request) wsol_mint_id token_program_id,
           pa_instructions_sysvar = instructions_sysvar_id (we_sdk e),
           pa_pump_program = program_id venue\<rparr>
        in map_sum (\<lambda>_. Compile_Failed ''pump bonding v2 instruction'') Some
             (build_execute_pump_bonding_v2_instruction (we_borsh_pump e) accounts wrapper_request
                (ix_accounts venue))))))"

definition build_create_wsol_ata_instruction :: "wrap_env \<Rightarrow> pubkey \<Rightarrow> pubkey \<Rightarrow> instruction" where
  "build_create_wsol_ata_instruction e payer owner =
     we_create_ata e payer owner wsol_mint_id token_program_id"

definition build_create_pump_v2_base_ata_instruction ::
  "wrap_env \<Rightarrow> pubkey \<Rightarrow> instruction \<Rightarrow> wrap_error + instruction" where
  "build_create_pump_v2_base_ata_instruction e payer venue =
     rbind (ok_or (account_key (ix_accounts venue) pump_v2_base_mint_index) Venue_Account_Out_Of_Bounds)
       (\<lambda>base_mint.
     rbind (ok_or (account_key (ix_accounts venue) pump_v2_base_token_program_index)
              Venue_Account_Out_Of_Bounds) (\<lambda>base_program.
     if account_key (ix_accounts venue) pump_v2_associated_base_user_index
          \<noteq> Some (we_ata e payer base_mint base_program)
     then Inl (Compile_Failed ''base user account'')
     else Inr (we_create_ata e payer payer base_mint base_program)))"

definition is_memo_instruction :: "instruction \<Rightarrow> bool" where
  "is_memo_instruction ix \<longleftrightarrow> program_id ix = memo_program_id"

text \<open>A fresh UUID keeps two wrapped transactions of one trade apart.\<close>

definition build_wrapper_uniqueness_memo_instruction :: "wrap_env \<Rightarrow> instruction" where
  "build_wrapper_uniqueness_memo_instruction e =
     \<lparr>program_id = memo_program_id, ix_accounts = [], ix_bytes = byte_string (''tt:'' @ we_uuid e)\<rparr>"

text \<open>The one venue instruction, or the first or last of several when the request says so.\<close>

definition venue_positions :: "pubkey list \<Rightarrow> instruction list \<Rightarrow> nat list" where
  "venue_positions allowed ixs = filter (\<lambda>i. program_id (ixs ! i) \<in> set allowed) [0..<length ixs]"

definition select_venue_position ::
  "wrap_compiled_transaction_request \<Rightarrow> nat list \<Rightarrow> wrap_error + nat" where
  "select_venue_position request found =
     (case found of
        [] \<Rightarrow> Inl No_Venue_Instruction
      | [only] \<Rightarrow> Inr only
      | first # _ \<Rightarrow>
          if wq_select_first request then Inr first
          else if wq_select_last request then Inr (last found)
          else Inl (Multiple_Venue_Instructions (length found)))"

text \<open>A sell without a minimum takes the one of its venue instruction, less the fee.\<close>

definition with_min_net_output ::
  "wrap_compiled_transaction_request \<Rightarrow> instruction
     \<Rightarrow> wrap_error + wrap_compiled_transaction_request" where
  "with_min_net_output request venue =
     (if wq_route_kind request = Route_Sol_Out \<and> wq_min_net_output request = 0
      then
        rbind (ok_or (infer_sol_out_min_lamports_from_venue_instruction venue)
                 (Compile_Failed ''could not infer SOL output minimum'')) (\<lambda>gross.
        rbind (ok_or (checked_sub gross (estimate_sol_in_fee_lamports gross (wq_fee_bps request)))
                 (Compile_Failed ''fee exceeds minimum SOL output'')) (\<lambda>net.
        Inr (request\<lparr>wq_min_net_output := net\<rparr>)))
      else Inr request)"

text \<open>The call of a plan that moves the wrapped SOL to the route account of the payer.\<close>

definition wsol_route_request ::
  "wrap_compiled_transaction_request \<Rightarrow> instruction \<Rightarrow> amm_wsol_v2_plan \<Rightarrow> u16 \<Rightarrow> u16
     \<Rightarrow> execute_swap_route_request" where
  "wsol_route_request request venue plan leg_accounts output_index =
     (let buy = (wq_route_kind request = Route_Sol_In) in
     \<lparr>rq_version = abi_version,
      rq_route_mode = (if buy then Mode_Mixed else Mode_Sol_Out),
      rq_direction = (if buy then Direction_Buy else Direction_Sell),
      rq_settlement = (if buy then Settlement_Token else Settlement_Wsol),
      rq_fee_mode = (if buy then Sol_Pre else Wsol_Post),
      wsol_lane = 0, rq_fee_bps = wq_fee_bps request,
      rq_gross_sol_in_lamports = wq_gross_sol_in_lamports request, rq_gross_token_in_amount = 0,
      rq_min_net_output = wq_min_net_output request,
      route_accounts_offset =
        execute_swap_route_fixed_account_count + execute_swap_route_wsol_account_count,
      intermediate_account_index = swap_route_no_patch_offset,
      token_fee_account_index = swap_route_no_patch_offset,
      legs = [\<lparr>program_account_index = 0, accounts_start = 1, accounts_len = leg_accounts,
        input_source = (if buy then Gross_Sol_Net_Of_Fee else Fixed),
        input_amount = pda_wsol_lamports plan, input_patch_offset = swap_route_no_patch_offset,
        output_account_index = output_index,
        leg_ix_data = (if buy then patch_amm_wsol_input_amount (program_id venue) (ix_bytes venue)
                                     (pda_wsol_lamports plan)
                       else ix_bytes venue)\<rparr>]\<rparr>)"

definition wsol_route_instruction ::
  "wrap_env \<Rightarrow> pubkey \<Rightarrow> wrap_compiled_transaction_request \<Rightarrow> instruction \<Rightarrow> pubkey option
     \<Rightarrow> amm_wsol_v2_plan \<Rightarrow> wrap_error + instruction" where
  "wsol_route_instruction e payer request venue fee_vault_wsol plan =
     (let accounts = \<lparr>sa_execute = \<lparr>ea_user = payer, ea_config_pda = fst (config_pda (we_sdk e)),
            ea_fee_vault = wq_fee_vault request,
            ea_fee_vault_wsol_ata = unwrap_or default_pubkey fee_vault_wsol,
            ea_user_wsol_ata = amm_wsol_account plan,
            ea_instructions_sysvar = instructions_sysvar_id (we_sdk e),
            ea_inner_program = program_id venue, ea_token_program = token_program_id\<rparr>,
            token_fee_vault_ata = None\<rparr>
     in if wq_route_kind request = Route_Sol_Through then Inl Invalid_Route_Kind
        else
          rbind (ok_or (u16_of_len (length (plan_inner_accounts plan))) Venue_Account_Out_Of_Bounds)
            (\<lambda>leg_accounts.
          rbind (if wq_route_kind request = Route_Sol_Out
                 then ok_or (u16_of_len (1 + inner_wsol_account_index plan)) Venue_Account_Out_Of_Bounds
                 else Inr swap_route_no_patch_offset) (\<lambda>output_index.
          map_error (\<lambda>_. Compile_Failed ''swap route'')
            (build_execute_swap_route_instruction (we_sdk e) (we_borsh_route e) accounts
               (wsol_route_request request venue plan leg_accounts output_index)
               (meta_new_readonly (program_id venue) False # plan_inner_accounts plan)))))"

text \<open>The call around a venue instruction that pays or receives native SOL.\<close>

definition native_instruction ::
  "wrap_env \<Rightarrow> engine_transaction \<Rightarrow> bytes \<Rightarrow> pubkey \<Rightarrow> lookup_table list
     \<Rightarrow> wrap_compiled_transaction_request \<Rightarrow> instruction \<Rightarrow> pubkey option \<times> pubkey option
     \<Rightarrow> wrap_error + instruction" where
  "native_instruction e source blockhash payer tables request venue wsol_accounts =
     map_error (\<lambda>_. Compile_Failed ''wrapper instruction'')
       (build_wrapper_execute_instruction e
          \<lparr>wr_label = ct_label source, wr_payer = payer, wr_blockhash = blockhash,
           wr_lookup_tables = tables, wr_additional_signers = [], wr_preamble = [], wr_postamble = [],
           wr_inner_program = program_id venue, wr_inner_ix_data = ix_bytes venue,
           wr_inner_accounts = with_system_program e (program_id venue) (ix_accounts venue),
           wr_fee_vault = wq_fee_vault request, wr_fee_vault_wsol_ata = snd wsol_accounts,
           wr_user_wsol_ata = fst wsol_accounts, wr_route_kind = wq_route_kind request,
           wr_fee_bps = wq_fee_bps request,
           wr_gross_sol_in_lamports = wq_gross_sol_in_lamports request,
           wr_min_net_output = wq_min_net_output request,
           wr_compute_unit_limit =
             Option.bind (ct_compute_unit_limit source)
               (\<lambda>v. if unat v < 2 ^ 32 then Some (ucast v) else None),
           wr_compute_unit_price_micro_lamports = ct_compute_unit_price_micro_lamports source,
           wr_inline_tip_lamports = ct_inline_tip_lamports source,
           wr_inline_tip_account = ct_inline_tip_account source\<rparr>)"

text \<open>The accounts a Pump v2 call needs are created before it.\<close>

definition pump_v2_preamble ::
  "wrap_env \<Rightarrow> pubkey \<Rightarrow> wrap_compiled_transaction_request \<Rightarrow> instruction
     \<Rightarrow> wrap_error + instruction list" where
  "pump_v2_preamble e payer request venue =
     rbind (if wq_route_kind request = Route_Sol_In
            then map_sum id (\<lambda>ix. [ix]) (build_create_pump_v2_base_ata_instruction e payer venue)
            else Inr []) (\<lambda>base.
     Inr (base @ [build_create_wsol_ata_instruction e payer payer,
                  build_create_wsol_ata_instruction e payer (wq_fee_vault request)]))"

text \<open>The wrapper call, with the instructions before and after it.\<close>

definition wrapper_call ::
  "wrap_env \<Rightarrow> engine_transaction \<Rightarrow> bytes \<Rightarrow> pubkey \<Rightarrow> lookup_table list
     \<Rightarrow> wrap_compiled_transaction_request \<Rightarrow> instruction \<Rightarrow> instruction list \<Rightarrow> instruction list
     \<Rightarrow> wrap_error + (instruction list \<times> instruction \<times> instruction list)" where
  "wrapper_call e source blockhash payer tables request venue preamble postamble =
     rbind (derive_wsol_route_accounts e payer (wq_fee_vault request) (wq_route_kind request) venue
              preamble postamble) (\<lambda>wsol_accounts.
     rbind (try_build_pump_bonding_v2_wrapper_instruction e payer request venue) (\<lambda>pump_call.
     case pump_call of
       Some call \<Rightarrow>
         rbind (pump_v2_preamble e payer request venue) (\<lambda>created.
         Inr (preamble @ created, call, postamble))
     | None \<Rightarrow>
         (case or_else (try_build_amm_wsol_v2_plan e payer request venue preamble postamble)
                 (try_build_wsol_out_v3_plan e payer request venue preamble postamble
                    (fst wsol_accounts)) of
            Some plan \<Rightarrow>
              rbind (wsol_route_instruction e payer request venue (snd wsol_accounts) plan) (\<lambda>call.
              Inr (plan_preamble plan, call, plan_postamble plan))
          | None \<Rightarrow>
              rbind (native_instruction e source blockhash payer tables request venue wsol_accounts)
                (\<lambda>call. Inr (preamble, call, postamble)))))"

definition packet_limit_bytes :: nat where "packet_limit_bytes = 1232"

text \<open>Compiling, signing and packing; the serialisation of a signed transaction is part of \<open>we_sign\<close>.\<close>

definition finish_wrapped ::
  "wrap_env \<Rightarrow> engine_transaction \<Rightarrow> bytes \<Rightarrow> pubkey \<Rightarrow> lookup_table list \<Rightarrow> instruction list
     \<Rightarrow> wrap_error + engine_transaction" where
  "finish_wrapped e source blockhash payer tables new_ixs =
     rbind (map_error Compile_Failed (we_compile e payer new_ixs tables blockhash)) (\<lambda>message.
     if vm_required_signers message \<noteq> [payer] then Inl (Compile_Failed ''exactly one signer'')
     else
       rbind (map_error Wrap_Signing_Failed
                (we_sign e message
                   (payer # filter (\<lambda>k. k \<in> set (vm_required_signers message))
                              (we_restored_signers e (ct_base64 source))))) (\<lambda>tx.
       if packet_limit_bytes < length (wb_bytes tx) then Inl (Compile_Failed ''packet limit'')
       else
         Inr \<lparr>ct_label = ct_label source, ct_format = ''v0-alt-wrapper'',
              ct_base64 = we_base64 e (wb_bytes tx), ct_signature = wb_signature tx,
              ct_lookup_tables_used = vm_tables_used e message,
              ct_compute_unit_limit = ct_compute_unit_limit source,
              ct_compute_unit_price_micro_lamports = ct_compute_unit_price_micro_lamports source,
              ct_inline_tip_lamports = ct_inline_tip_lamports source,
              ct_inline_tip_account = ct_inline_tip_account source\<rparr>))"

definition without_memos :: "instruction list \<Rightarrow> instruction list" where
  "without_memos ixs = filter (\<lambda>ix. \<not> is_memo_instruction ix) ixs"

definition wrap_compiled_transaction ::
  "wrap_env \<Rightarrow> engine_transaction \<Rightarrow> pubkey \<Rightarrow> lookup_table list \<Rightarrow> pubkey list
     \<Rightarrow> wrap_compiled_transaction_request \<Rightarrow> wrap_error + engine_transaction" where
  "wrap_compiled_transaction e source payer tables allowed request =
     (if wq_route_kind request = Route_Sol_Through then Inl Invalid_Route_Kind
      else if max_fee_bps < wq_fee_bps request then Inl (Compile_Failed ''fee_bps exceeds cap'')
      else if tables = [] then Inl Lookup_Tables_Missing
      else
        rbind (map_error Invalid_Serialized_Tx (we_decode e (ct_base64 source))) (\<lambda>m.
        if \<not> vm_is_v0 m then Inl Unsupported_Message_Version
        else
          rbind (decompile_v0_transaction e m tables) (\<lambda>ixs.
          if list_ex is_wrapper_execute_instruction ixs then Inl Already_Wrapped
          else
            rbind (select_venue_position request (venue_positions allowed ixs)) (\<lambda>i.
            rbind (with_min_net_output request (ixs ! i)) (\<lambda>request.
            rbind (wrapper_call e source (vm_blockhash m) payer tables request (ixs ! i)
                     (without_memos (take i ixs)) (without_memos (drop (Suc i) ixs)))
              (\<lambda>(preamble, call, postamble).
            finish_wrapped e source (vm_blockhash m) payer tables
              (preamble @ call # postamble @ [build_wrapper_uniqueness_memo_instruction e])))))))"

end
