(* ===== verification/Wrapper_Safety.thy ===== *)
theory Wrapper_Safety
  imports Wrapper_Compile Wrapper_Payload "HOL-Library.Sublist"
begin

text \<open>
  What wrapping a transaction guarantees (\<^verbatim>\<open>execution-engine/src/wrapper_compile.rs\<close>): the
  amounts, what is kept of the transaction, who signs, and that the check of wrapped transactions
  accepts what wrapping produces.
\<close>

section \<open>Amounts\<close>

lemma floor_fee_is_estimate: "floor_fee_lamports gross fee_bps = estimate_sol_in_fee_lamports gross fee_bps"
proof (cases "fee_bps = 0 \<or> gross = 0")
  case False
  have "unat gross * unat fee_bps < 2 ^ 64 * 2 ^ 16"
    using unat_less_pow [of gross] unat_less_pow [of fee_bps] by (intro mult_strict_mono') simp_all
  then have "checked_mul (ucast gross :: u128) (ucast fee_bps) = Some (ucast gross * ucast fee_bps)"
    by (simp add: checked_mul_def unat_ucast_128 unat_ucast_u16)
  then show ?thesis using False
    by (auto simp: floor_fee_lamports_def estimate_sol_in_fee_lamports_def Let_def unwrap_or_def)
qed (auto simp: floor_fee_lamports_def estimate_sol_in_fee_lamports_def)

lemma estimate_fee_value:
  assumes "unat fee_bps \<le> 10000"
  shows "unat (estimate_sol_in_fee_lamports gross fee_bps) = unat gross * unat fee_bps div 10000"
  using floor_fee_value [OF assms, of gross] by (simp add: floor_fee_is_estimate)

lemma estimate_fee_le_gross:
  assumes "unat fee_bps \<le> 10000"
  shows "estimate_sol_in_fee_lamports gross fee_bps \<le> gross"
proof -
  have "unat gross * unat fee_bps div 10000 \<le> unat gross"
    using assms by (metis div_le_mono div_mult_self_is_m mult_le_mono2 zero_less_numeral)
  then show ?thesis using estimate_fee_value [OF assms, of gross] by (simp add: word_le_nat_alt)
qed

lemma net_after_fee:
  assumes "unat fee_bps \<le> 10000"
    and "checked_sub gross (estimate_sol_in_fee_lamports gross fee_bps) = Some net"
  shows "unat net = unat gross - unat gross * unat fee_bps div 10000"
proof -
  have "net = gross - estimate_sol_in_fee_lamports gross fee_bps"
    using assms(2) by (auto simp: checked_sub_def split: if_splits)
  then have "unat net = unat gross - unat (estimate_sol_in_fee_lamports gross fee_bps)"
    using unat_sub [OF estimate_fee_le_gross [OF assms(1)]] by simp
  then show ?thesis by (simp add: estimate_fee_value [OF assms(1)])
qed

text \<open>
  The fee a trade announces in its payload and the fee the compiler deducts from its input are
  computed by two functions; they agree for every configured fee, selector and request.
\<close>

theorem payload_fee_is_compiled_fee:
  "let payload = build_wrapper_instruction_payload default_fee selector request in
   fee_lamports_estimate payload
     = estimate_sol_in_fee_lamports (payload_gross_sol_in_lamports payload)
         (md_fee_bps (route_metadata payload))"
  by (simp add: build_wrapper_instruction_payload_def Let_def floor_fee_is_estimate)

section \<open>What is kept of a transaction\<close>

lemma strip_keeps_unrelated:
  assumes "strip_temp_wsol_lifecycle_instructions e ixs account = Some kept"
  shows "kept = filter (\<lambda>ix. \<not> instruction_references_pubkey ix account) ixs"
    and "\<forall>ix \<in> set ixs. instruction_references_pubkey ix account
           \<longrightarrow> is_temp_wsol_lifecycle_instruction e ix account"
  using assms
  by (induction ixs arbitrary: kept) (auto split: if_splits)

lemma strip_subseq:
  "strip_temp_wsol_lifecycle_instructions e ixs account = Some kept \<Longrightarrow> subseq kept ixs"
  by (drule strip_keeps_unrelated(1)) simp

lemma selected_venue:
  assumes "select_venue_position request (venue_positions allowed ixs) = Inr i"
  shows "i < length ixs" and "program_id (ixs ! i) \<in> set allowed"
proof -
  have "i \<in> set (venue_positions allowed ixs)"
    using assms
    by (auto simp: select_venue_position_def split: list.splits if_splits)
  then show "i < length ixs" "program_id (ixs ! i) \<in> set allowed"
    by (auto simp: venue_positions_def)
qed

lemma with_min_net_output_same:
  assumes "with_min_net_output request venue = Inr request'"
  shows "wq_route_kind request' = wq_route_kind request" "wq_fee_bps request' = wq_fee_bps request"
    "wq_fee_vault request' = wq_fee_vault request"
    "wq_gross_sol_in_lamports request' = wq_gross_sol_in_lamports request"
    "wq_route_kind request = Route_Sol_In \<Longrightarrow> request' = request"
    "wq_min_net_output request \<noteq> 0 \<Longrightarrow> request' = request"
  using assms
  by (auto simp: with_min_net_output_def rbind_Inr_iff if_Inl_Inr_iff split: if_splits)

section \<open>The instruction of a call\<close>

lemma built_swap_route:
  assumes "build_execute_swap_route_instruction sdk borsh a r metas = Inr ix"
  obtains fixed body where "program_id ix = wrapper_program_id" "rq_version r = abi_version"
    "rq_fee_bps r \<le> max_fee_bps" "borsh r = Some body"
    "ix_bytes ix = execute_swap_route_discriminator # body"
    "swap_route_metas sdk a r = Inr fixed" "ix_accounts ix = fixed @ metas"
  using assms
  by (auto simp: build_execute_swap_route_instruction_def encode_execute_swap_route_data_def
      if_Inl_Inr_iff not_less)

lemma built_pump_call:
  assumes "build_execute_pump_bonding_v2_instruction borsh a r metas = Inr ix"
  obtains body where "program_id ix = wrapper_program_id" "pb_version r = abi_version"
    "pb_fee_bps r \<le> max_fee_bps" "borsh r = Some body"
    "ix_bytes ix = execute_pump_bonding_v2_discriminator # body"
    "ix_accounts ix = pump_metas a @ metas"
  using assms
  by (auto simp: build_execute_pump_bonding_v2_instruction_def encode_execute_pump_bonding_v2_data_def
      if_Inl_Inr_iff not_less Let_def)

text \<open>
  A call on behalf of the payer: it is the payer's only signature among its own accounts, the fee
  goes to the vault, and its encoded request states the fee of the request.
\<close>

definition route_call ::
  "wrap_env \<Rightarrow> pubkey \<Rightarrow> wrap_compiled_transaction_request \<Rightarrow> execute_swap_route_request
     \<Rightarrow> instruction \<Rightarrow> bool" where
  "route_call e payer request r call \<longleftrightarrow>
     program_id call = wrapper_program_id
     \<and> map_option ((#) execute_swap_route_discriminator) (we_borsh_route e r) = Some (ix_bytes call)
     \<and> nth_opt (ix_accounts call) 0 = Some (meta_new payer True)
     \<and> account_key (ix_accounts call) 2 = Some (wq_fee_vault request)
     \<and> rq_version r = abi_version \<and> rq_fee_bps r = wq_fee_bps request
     \<and> rq_gross_sol_in_lamports r = wq_gross_sol_in_lamports request"

definition pump_call ::
  "wrap_env \<Rightarrow> pubkey \<Rightarrow> wrap_compiled_transaction_request \<Rightarrow> execute_pump_bonding_v2_request
     \<Rightarrow> instruction \<Rightarrow> bool" where
  "pump_call e payer request r call \<longleftrightarrow>
     program_id call = wrapper_program_id
     \<and> map_option ((#) execute_pump_bonding_v2_discriminator) (we_borsh_pump e r) = Some (ix_bytes call)
     \<and> nth_opt (ix_accounts call) 0 = Some (meta_new payer True)
     \<and> account_key (ix_accounts call) 2 = Some (wq_fee_vault request)
     \<and> pb_version r = abi_version \<and> pb_fee_bps r = wq_fee_bps request
     \<and> (pb_side r = Pump_Buy \<longrightarrow> gross_quote_in_amount r = wq_gross_sol_in_lamports request)"

definition charges_fee ::
  "wrap_env \<Rightarrow> pubkey \<Rightarrow> wrap_compiled_transaction_request \<Rightarrow> instruction \<Rightarrow> bool" where
  "charges_fee e payer request call \<longleftrightarrow>
     (\<exists>r. route_call e payer request r call) \<or> (\<exists>r. pump_call e payer request r call)"

lemma account_key_Cons [simp]:
  "account_key (m # ms) 0 = Some (meta_pubkey m)" "account_key (m # ms) (Suc i) = account_key ms i"
  by (simp_all add: account_key_def nth_opt_def)

lemma nth_opt_0 [simp]: "nth_opt (x # xs) 0 = Some x"
  by (simp add: nth_opt_def)

lemma account_key_numeral [simp]:
  "account_key (m # ms) (numeral k) = account_key ms (pred_numeral k)"
  by (simp add: numeral_eq_Suc)

lemmas meta_defs = meta_new_def meta_new_readonly_def

lemmas route_counts = execute_swap_route_fixed_account_count_def
  execute_swap_route_wsol_account_count_def execute_swap_route_token_fee_account_count_def

lemma native_call:
  assumes "native_instruction e source bh payer tables request venue wsol = Inr call"
  obtains r where "route_call e payer request r call"
    "validate_already_wrapped_route_accounts e call payer request r = Inr ()"
    "wq_route_kind request = Route_Sol_In \<Longrightarrow> rq_direction r = Direction_Buy
       \<and> rq_settlement r = Settlement_Token \<and> rq_fee_mode r = Sol_Pre \<and> rq_route_mode r = Mode_Sol_In
       \<and> rq_min_net_output r = 0"
    "wq_route_kind request = Route_Sol_Out \<Longrightarrow> rq_direction r = Direction_Sell
       \<and> rq_settlement r = Settlement_Native_Sol \<and> rq_fee_mode r = Native_Sol_Post
       \<and> rq_route_mode r = Mode_Sol_Out \<and> rq_min_net_output r = wq_min_net_output request"
    "wq_route_kind request \<noteq> Route_Sol_Through"
    "fst wsol = None"
proof -
  note b = assms [unfolded native_instruction_def build_wrapper_execute_instruction_def Let_def
      map_error_Inr_iff if_Inl_Inr_iff rbind_Inr_iff ok_or_Inr_iff wrapper_compile_request.simps]
  obtain n where kind: "wq_route_kind request \<noteq> Route_Sol_Through"
    and none: "fst wsol = None"
    and built: "build_execute_swap_route_instruction (we_sdk e) (we_borsh_route e)
      \<lparr>sa_execute = \<lparr>ea_user = payer, ea_config_pda = fst (config_pda (we_sdk e)),
              ea_fee_vault = wq_fee_vault request, ea_fee_vault_wsol_ata = default_pubkey,
              ea_user_wsol_ata = default_pubkey,
              ea_instructions_sysvar = instructions_sysvar_id (we_sdk e),
              ea_inner_program = program_id venue, ea_token_program = token_program_id\<rparr>,
              token_fee_vault_ata = None\<rparr>
      \<lparr>rq_version = abi_version,
                 rq_route_mode = (if wq_route_kind request = Route_Sol_In then Mode_Sol_In else Mode_Sol_Out),
                 rq_direction = (if wq_route_kind request = Route_Sol_In then Direction_Buy else Direction_Sell),
                 rq_settlement = (if wq_route_kind request = Route_Sol_In then Settlement_Token else Settlement_Native_Sol),
                 rq_fee_mode = (if wq_route_kind request = Route_Sol_In then Sol_Pre else Native_Sol_Post),
                 wsol_lane = 0, rq_fee_bps = wq_fee_bps request,
                 rq_gross_sol_in_lamports = wq_gross_sol_in_lamports request, rq_gross_token_in_amount = 0,
                 rq_min_net_output = (if wq_route_kind request = Route_Sol_In then 0 else wq_min_net_output request),
                 route_accounts_offset = execute_swap_route_fixed_account_count,
                 intermediate_account_index = swap_route_no_patch_offset,
                 token_fee_account_index = swap_route_no_patch_offset,
                 legs = [\<lparr>program_account_index = 0, accounts_start = 1, accounts_len = n,
                   input_source = (if wq_route_kind request = Route_Sol_In then Gross_Sol_Net_Of_Fee else Fixed), input_amount = 0,
                   input_patch_offset = swap_route_no_patch_offset,
                   output_account_index = swap_route_no_patch_offset,
                   leg_ix_data = ix_bytes venue\<rparr>]\<rparr>
      (meta_new_readonly (program_id venue) False
         # with_system_program e (program_id venue) (ix_accounts venue)) = Inr call"
    (is "build_execute_swap_route_instruction _ _ ?a ?r ?m = _")
    using b by auto
  obtain fixed body where c: "program_id call = wrapper_program_id" "we_borsh_route e ?r = Some body"
    "ix_bytes call = execute_swap_route_discriminator # body"
    "swap_route_metas (we_sdk e) ?a ?r = Inr fixed" "ix_accounts call = fixed @ ?m"
    by (rule built_swap_route [OF built])
  have "fixed = execute_metas (sa_execute ?a)"
    using c(4) by (auto simp: swap_route_metas_def swap_route_uses_wsol_def swap_route_uses_token_fee_def
        Let_def split: if_splits)
  then have acc: "ix_accounts call = execute_metas (sa_execute ?a) @ ?m" using c(5) by simp
  show ?thesis
  proof (rule that [of ?r])
    show "route_call e payer request ?r call"
      using c(1-3) unfolding route_call_def acc by (simp add: execute_metas_def meta_defs)
    show "validate_already_wrapped_route_accounts e call payer request ?r = Inr ()"
      unfolding validate_already_wrapped_route_accounts_def acc
      by (simp add: execute_metas_def meta_defs route_counts user_signs_def require_def Let_def
          swap_route_uses_wsol_def)
  qed (use kind none in simp_all)
qed

lemma wsol_call:
  assumes "wsol_route_instruction e payer request venue vault_wsol plan = Inr call"
    and route: "amm_wsol_account plan = fst (route_wsol_pda (we_sdk e) payer 0)"
  obtains r n out where "r = wsol_route_request request venue plan n out"
    "route_call e payer request r call"
    "validate_already_wrapped_route_accounts e call payer request r = Inr ()"
    "wq_route_kind request \<noteq> Route_Sol_Through"
proof -
  obtain n out a where kind: "wq_route_kind request \<noteq> Route_Sol_Through"
    and a: "a = \<lparr>sa_execute = \<lparr>ea_user = payer, ea_config_pda = fst (config_pda (we_sdk e)),
            ea_fee_vault = wq_fee_vault request,
            ea_fee_vault_wsol_ata = unwrap_or default_pubkey vault_wsol,
            ea_user_wsol_ata = amm_wsol_account plan,
            ea_instructions_sysvar = instructions_sysvar_id (we_sdk e),
            ea_inner_program = program_id venue, ea_token_program = token_program_id\<rparr>,
            token_fee_vault_ata = None\<rparr>"
    and built: "build_execute_swap_route_instruction (we_sdk e) (we_borsh_route e) a
      (wsol_route_request request venue plan n out)
      (meta_new_readonly (program_id venue) False # plan_inner_accounts plan) = Inr call"
    using assms(1) unfolding wsol_route_instruction_def Let_def if_Inl_Inr_iff rbind_Inr_iff map_error_Inr_iff
    by auto
  let ?r = "wsol_route_request request venue plan n out"
  let ?m = "meta_new_readonly (program_id venue) False # plan_inner_accounts plan"
  obtain fixed body where c: "program_id call = wrapper_program_id" "we_borsh_route e ?r = Some body"
    "ix_bytes call = execute_swap_route_discriminator # body"
    "swap_route_metas (we_sdk e) a ?r = Inr fixed" "ix_accounts call = fixed @ ?m"
    by (rule built_swap_route [OF built])
  have uses: "swap_route_uses_wsol ?r" "\<not> swap_route_uses_token_fee ?r" "wsol_lane ?r = 0"
    "unat (route_accounts_offset ?r) = 11"
    by (simp_all add: swap_route_uses_wsol_def swap_route_uses_token_fee_def wsol_route_request_def Let_def
        route_counts)
  have "fixed = execute_metas (sa_execute a) @ [meta_new_readonly wsol_mint_id False,
       meta_new_readonly (system_program_id (we_sdk e)) False, meta_new_readonly (rent_sysvar_id (we_sdk e)) False]"
    using c(4) uses by (auto simp: swap_route_metas_def Let_def split: if_splits)
  then have acc: "ix_accounts call = execute_metas (sa_execute a) @ [meta_new_readonly wsol_mint_id False,
       meta_new_readonly (system_program_id (we_sdk e)) False, meta_new_readonly (rent_sysvar_id (we_sdk e)) False]
       @ ?m" using c(5) by simp
  show ?thesis
  proof (rule that [of ?r n out])
    show "route_call e payer request ?r call"
      using c(1-3) unfolding route_call_def acc a
      by (simp add: execute_metas_def meta_defs wsol_route_request_def Let_def)
    show "validate_already_wrapped_route_accounts e call payer request ?r = Inr ()"
      using uses unfolding validate_already_wrapped_route_accounts_def acc a Let_def
      by (simp add: execute_metas_def meta_defs user_signs_def require_def route)
  qed (use kind in simp_all)
qed

lemma map_sum_Inr_iff: "map_sum f g r = Inr y \<longleftrightarrow> (\<exists>x. r = Inr x \<and> g x = y)"
  by (cases r) auto

lemma pump_wrapper_call:
  assumes "try_build_pump_bonding_v2_wrapper_instruction e payer request venue = Inr (Some call)"
  obtains r d amount limit where "pump_call e payer request r call"
    "parse_pump_bonding_v2_amounts (ix_bytes venue) = Some (d, amount, limit)"
    "pump_v2_wrapper_request request (d, amount, limit) = Inr r"
    "program_id venue = pump_bonding_program_id"
    "validate_pump_bonding_v2_inner_accounts e (ix_accounts venue) d payer pump_bonding_program_id = Inr ()"
    "ix_accounts call = pump_metas \<lparr>pa_user = payer, pa_config_pda = fst (config_pda (we_sdk e)),
           pa_fee_vault = wq_fee_vault request,
           pa_fee_vault_quote_ata = we_ata e (wq_fee_vault request) wsol_mint_id token_program_id,
           pa_instructions_sysvar = instructions_sysvar_id (we_sdk e),
           pa_pump_program = pump_bonding_program_id\<rparr> @ ix_accounts venue"
proof -
  obtain amounts r where wsol: "program_id venue = pump_bonding_program_id"
    and p: "parse_pump_bonding_v2_amounts (ix_bytes venue) = Some amounts"
    and v: "validate_pump_bonding_v2_inner_accounts e (ix_accounts venue) (fst amounts) payer
              (program_id venue) = Inr ()"
    and r: "pump_v2_wrapper_request request amounts = Inr r"
    and built: "build_execute_pump_bonding_v2_instruction (we_borsh_pump e)
      \<lparr>pa_user = payer, pa_config_pda = fst (config_pda (we_sdk e)), pa_fee_vault = wq_fee_vault request,
           pa_fee_vault_quote_ata = we_ata e (wq_fee_vault request) wsol_mint_id token_program_id,
           pa_instructions_sysvar = instructions_sysvar_id (we_sdk e),
           pa_pump_program = program_id venue\<rparr> r (ix_accounts venue) = Inr call"
    using assms
    by (auto simp: try_build_pump_bonding_v2_wrapper_instruction_def Let_def
        is_pump_bonding_v2_wsol_quote_instruction_def map_sum_Inr_iff split: if_splits)
  obtain d amount limit where am: "amounts = (d, amount, limit)" by (cases amounts)
  have fields: "pb_fee_bps r = wq_fee_bps request"
    "pb_side r = Pump_Buy \<longrightarrow> gross_quote_in_amount r = wq_gross_sol_in_lamports request"
    using r by (auto simp: am pump_v2_wrapper_request_def pump_v2_buy_request_def split: if_splits)
  obtain body where c: "program_id call = wrapper_program_id" "pb_version r = abi_version"
    "we_borsh_pump e r = Some body" "ix_bytes call = execute_pump_bonding_v2_discriminator # body"
    and acc: "ix_accounts call = pump_metas \<lparr>pa_user = payer, pa_config_pda = fst (config_pda (we_sdk e)),
       pa_fee_vault = wq_fee_vault request,
       pa_fee_vault_quote_ata = we_ata e (wq_fee_vault request) wsol_mint_id token_program_id,
       pa_instructions_sysvar = instructions_sysvar_id (we_sdk e),
       pa_pump_program = program_id venue\<rparr> @ ix_accounts venue"
    by (rule built_pump_call [OF built])
  have "pump_call e payer request r call"
    using c fields unfolding pump_call_def acc by (simp add: pump_metas_def meta_defs)
  then show ?thesis
    using that [of r d amount limit] p r v acc am by (simp add: wsol)
qed

lemma pump_call_validates:
  assumes "try_build_pump_bonding_v2_wrapper_instruction e payer request venue = Inr (Some call)"
    and "wq_route_kind request = Route_Sol_In \<Longrightarrow> wq_min_net_output request = 0"
    and "read_u64_le (ix_bytes venue) 8 \<noteq> Some 0"
  obtains r where "pump_call e payer request r call" "validate_pump_route e call payer request r = Inr ()"
proof -
  obtain r d amount limit where c: "pump_call e payer request r call"
    "parse_pump_bonding_v2_amounts (ix_bytes venue) = Some (d, amount, limit)"
    "pump_v2_wrapper_request request (d, amount, limit) = Inr r"
    "validate_pump_bonding_v2_inner_accounts e (ix_accounts venue) d payer pump_bonding_program_id = Inr ()"
    and acc: "ix_accounts call = pump_metas \<lparr>pa_user = payer, pa_config_pda = fst (config_pda (we_sdk e)),
           pa_fee_vault = wq_fee_vault request,
           pa_fee_vault_quote_ata = we_ata e (wq_fee_vault request) wsol_mint_id token_program_id,
           pa_instructions_sysvar = instructions_sysvar_id (we_sdk e),
           pa_pump_program = pump_bonding_program_id\<rparr> @ ix_accounts venue"
    by (rule pump_wrapper_call [OF assms(1)])
  have amount: "amount \<noteq> 0"
    using c(2) assms(3) by (auto simp: parse_pump_bonding_v2_amounts_def bind_eq_Some_conv)
  have inner: "drop (unat execute_pump_bonding_v2_fixed_account_count) (ix_accounts call) = ix_accounts venue"
    by (simp add: acc pump_metas_def execute_pump_bonding_v2_fixed_account_count_def)
  have layout: "d = pump_buy_v2_discriminator \<Longrightarrow>
      validate_pump_bonding_v2_inner_accounts e (ix_accounts venue) pump_buy_exact_quote_in_v2_discriminator
        payer pump_bonding_program_id = Inr ()"
    using c(4) by (simp add: validate_pump_bonding_v2_inner_accounts_def
        pump_bonding_v2_expected_account_layout_def)
  have fixed: "user_signs (ix_accounts call) payer = Inr ()"
    "accounts_match (ix_accounts call) ''fixed accounts''
              [(1, fst (config_pda (we_sdk e))), (2, wq_fee_vault request),
               (3, we_ata e (wq_fee_vault request) wsol_mint_id token_program_id),
               (4, instructions_sysvar_id (we_sdk e)), (5, pump_bonding_program_id)] = Inr ()"
    "unat execute_pump_bonding_v2_fixed_account_count \<le> length (ix_accounts call)"
    by (simp_all add: acc pump_metas_def meta_defs user_signs_def execute_pump_bonding_v2_fixed_account_count_def)
  have "validate_pump_route e call payer request r = Inr ()"
    using c(3,4) fixed inner layout assms(2) amount
    by (auto simp: validate_pump_route_def validate_already_wrapped_pump_bonding_v2_accounts_def Let_def
        require_def pump_v2_wrapper_request_def pump_v2_buy_request_def split: if_splits)
  with c(1) show ?thesis by (rule that)
qed

section \<open>The whole rewriting\<close>

text \<open>The plans keep the postamble and the preamble but for the stripped instructions.\<close>

lemma plan_shape:
  assumes "or_else (try_build_amm_wsol_v2_plan e payer request venue pre post)
             (try_build_wsol_out_v3_plan e payer request venue pre post wsol) = Some plan"
  shows "amm_wsol_account plan = fst (route_wsol_pda (we_sdk e) payer 0)"
    and "subseq (plan_preamble plan) pre" and "subseq (plan_postamble plan) post"
  using assms
  by (auto simp: or_else_def try_build_amm_wsol_v2_plan_def try_build_wsol_out_v3_plan_def wsol_plan_def
      Let_def bind_eq_Some_conv intro: strip_subseq split: option.splits if_splits)

text \<open>The accounts a wrapped transaction may create before its call.\<close>

definition creates_account :: "wrap_env \<Rightarrow> pubkey \<Rightarrow> instruction \<Rightarrow> bool" where
  "creates_account e payer ix \<longleftrightarrow> (\<exists>owner m p. ix = we_create_ata e payer owner m p)"

lemma creates_account_create [simp]: "creates_account e payer (we_create_ata e payer owner m p)"
  by (auto simp: creates_account_def)

lemma pump_v2_preamble_creates:
  assumes "pump_v2_preamble e payer request venue = Inr created"
  shows "list_all (creates_account e payer) created"
  using assms
  by (auto simp: pump_v2_preamble_def build_create_wsol_ata_instruction_def
      build_create_pump_v2_base_ata_instruction_def map_sum_Inr_iff split: if_splits)

lemma wrapper_call_shape:
  assumes "wrapper_call e source bh payer tables request venue pre post = Inr (pre', call, post')"
  shows "charges_fee e payer request call"
    and "\<exists>kept created. pre' = kept @ created \<and> subseq kept pre \<and> list_all (creates_account e payer) created"
    and "subseq post' post"
proof -
  obtain wsol pc where w: "derive_wsol_route_accounts e payer (wq_fee_vault request) (wq_route_kind request)
              venue pre post = Inr wsol"
    and pc: "try_build_pump_bonding_v2_wrapper_instruction e payer request venue = Inr pc"
    and rest: "(case pc of
       Some call \<Rightarrow>
         rbind (pump_v2_preamble e payer request venue) (\<lambda>created. Inr (pre @ created, call, post))
     | None \<Rightarrow>
         (case or_else (try_build_amm_wsol_v2_plan e payer request venue pre post)
                 (try_build_wsol_out_v3_plan e payer request venue pre post (fst wsol)) of
            Some plan \<Rightarrow>
              rbind (wsol_route_instruction e payer request venue (snd wsol) plan) (\<lambda>call.
              Inr (plan_preamble plan, call, plan_postamble plan))
          | None \<Rightarrow>
              rbind (native_instruction e source bh payer tables request venue wsol)
                (\<lambda>call. Inr (pre, call, post)))) = Inr (pre', call, post')"
    using assms unfolding wrapper_call_def rbind_Inr_iff by blast
  have "charges_fee e payer request call
    \<and> (\<exists>kept created. pre' = kept @ created \<and> subseq kept pre \<and> list_all (creates_account e payer) created)
    \<and> subseq post' post"
  proof (cases pc)
    case (Some pcall)
    then obtain created where cr: "pump_v2_preamble e payer request venue = Inr created"
      "pre' = pre @ created" "call = pcall" "post' = post" using rest by auto
    obtain r where "pump_call e payer request r call"
      by (rule pump_wrapper_call [OF pc [unfolded Some cr(3) [symmetric]]])
    then have "charges_fee e payer request call" by (auto simp: charges_fee_def)
    then show ?thesis using cr pump_v2_preamble_creates [OF cr(1)] by blast
  next
    case None
    show ?thesis
    proof (cases "or_else (try_build_amm_wsol_v2_plan e payer request venue pre post)
                 (try_build_wsol_out_v3_plan e payer request venue pre post (fst wsol))")
      case (Some plan)
      then have call: "wsol_route_instruction e payer request venue (snd wsol) plan = Inr call"
        and eqs: "pre' = plan_preamble plan" "post' = plan_postamble plan"
        using rest None by auto
      obtain r where "route_call e payer request r call"
        by (rule wsol_call [OF call plan_shape(1) [OF Some]])
      then have "charges_fee e payer request call" by (auto simp: charges_fee_def)
      then show ?thesis using plan_shape(2,3) [OF Some] eqs
        by (metis append_Nil2 list.pred_inject(1))
    next
      case none: None
      then have call: "native_instruction e source bh payer tables request venue wsol = Inr call"
        and eqs: "pre' = pre" "post' = post" using rest None by auto
      obtain r where "route_call e payer request r call" by (rule native_call [OF call])
      then have "charges_fee e payer request call" by (auto simp: charges_fee_def)
      then show ?thesis using eqs by (metis append_Nil2 list.pred_inject(1) subseq_order.refl)
    qed
  qed
  then show "charges_fee e payer request call"
    "\<exists>kept created. pre' = kept @ created \<and> subseq kept pre \<and> list_all (creates_account e payer) created"
    "subseq post' post" by blast+
qed

lemma wrapped_steps:
  assumes "wrap_compiled_transaction e source payer tables allowed request = Inr tx"
  obtains m ixs i request' pre call post message packed where
    "wq_route_kind request \<noteq> Route_Sol_Through" "wq_fee_bps request \<le> max_fee_bps"
    "we_decode e (ct_base64 source) = Inr m" "vm_is_v0 m"
    "decompile_v0_transaction e m tables = Inr ixs" "\<not> list_ex is_wrapper_execute_instruction ixs"
    "select_venue_position request (venue_positions allowed ixs) = Inr i"
    "with_min_net_output request (ixs ! i) = Inr request'"
    "wrapper_call e source (vm_blockhash m) payer tables request' (ixs ! i)
       (without_memos (take i ixs)) (without_memos (drop (Suc i) ixs)) = Inr (pre, call, post)"
    "we_compile e payer (pre @ call # post @ [build_wrapper_uniqueness_memo_instruction e]) tables
       (vm_blockhash m) = Inr message"
    "vm_required_signers message = [payer]"
    "we_sign e message (payer # filter (\<lambda>k. k \<in> set (vm_required_signers message)) (we_restored_signers e (ct_base64 source)))
       = Inr packed"
    "length (wb_bytes packed) \<le> packet_limit_bytes" "ct_base64 tx = we_base64 e (wb_bytes packed)"
  using assms unfolding wrap_compiled_transaction_def finish_wrapped_def rbind_Inr_iff map_error_Inr_iff
    if_Inl_Inr_iff case_prod_Inr_iff
  by (elim exE conjE, hypsubst) (rule that, (assumption | simp only: not_less not_not | clarsimp)+)

text \<open>
  C14: a wrapped transaction charges the fee of the request, at most 0.2 percent, in one wrapper
  call that takes the place of an allowed venue instruction; before and after the call stand
  instructions of the source in their order, preceded there by nothing but the creation of token
  accounts and followed by the memo; only the payer signs, and the bytes fit a packet.
\<close>

theorem wrapped_transaction_shape:
  assumes "wrap_compiled_transaction e source payer tables allowed request = Inr tx"
  shows "\<exists>m ixs i kept created call post message packed.
     we_decode e (ct_base64 source) = Inr m \<and> decompile_v0_transaction e m tables = Inr ixs
     \<and> i < length ixs \<and> program_id (ixs ! i) \<in> set allowed
     \<and> \<not> list_ex is_wrapper_execute_instruction ixs
     \<and> subseq kept (take i ixs) \<and> subseq post (drop (Suc i) ixs)
     \<and> list_all (creates_account e payer) created
     \<and> charges_fee e payer request call \<and> wq_fee_bps request \<le> 20
     \<and> we_compile e payer
          (kept @ created @ call # post @ [build_wrapper_uniqueness_memo_instruction e]) tables
          (vm_blockhash m) = Inr message
     \<and> vm_required_signers message = [payer]
     \<and> (\<exists>signers. set signers = {payer} \<and> we_sign e message signers = Inr packed)
     \<and> ct_base64 tx = we_base64 e (wb_bytes packed) \<and> length (wb_bytes packed) \<le> 1232"
proof -
  obtain m ixs i request' pre call post message packed where w:
    "wq_fee_bps request \<le> max_fee_bps"
    "we_decode e (ct_base64 source) = Inr m" "decompile_v0_transaction e m tables = Inr ixs"
    "\<not> list_ex is_wrapper_execute_instruction ixs"
    "select_venue_position request (venue_positions allowed ixs) = Inr i"
    "with_min_net_output request (ixs ! i) = Inr request'"
    "wrapper_call e source (vm_blockhash m) payer tables request' (ixs ! i)
       (without_memos (take i ixs)) (without_memos (drop (Suc i) ixs)) = Inr (pre, call, post)"
    "we_compile e payer (pre @ call # post @ [build_wrapper_uniqueness_memo_instruction e]) tables
       (vm_blockhash m) = Inr message"
    "vm_required_signers message = [payer]"
    "we_sign e message (payer # filter (\<lambda>k. k \<in> set (vm_required_signers message))
       (we_restored_signers e (ct_base64 source))) = Inr packed"
    "length (wb_bytes packed) \<le> packet_limit_bytes" "ct_base64 tx = we_base64 e (wb_bytes packed)"
    by (rule wrapped_steps [OF assms])
  have charges: "charges_fee e payer request call"
    using wrapper_call_shape(1) [OF w(7)] with_min_net_output_same [OF w(6)]
    by (simp add: charges_fee_def route_call_def pump_call_def)
  obtain kept created where kc: "pre = kept @ created" "subseq kept (without_memos (take i ixs))"
    "list_all (creates_account e payer) created"
    using wrapper_call_shape(2) [OF w(7)] by blast
  have kept: "subseq kept (take i ixs)"
    using kc(2) by (rule subseq_order.order_trans) (simp add: without_memos_def)
  have post: "subseq post (drop (Suc i) ixs)"
    using wrapper_call_shape(3) [OF w(7)]
    by (rule subseq_order.order_trans) (simp add: without_memos_def)
  have signers: "set (payer # filter (\<lambda>k. k \<in> set (vm_required_signers message))
       (we_restored_signers e (ct_base64 source))) = {payer}"
    by (auto simp: w(9))
  show ?thesis
    using w(2-4) selected_venue [OF w(5)] kept post kc(3) charges w(1,8-12) signers
    unfolding kc(1) max_fee_bps_def packet_limit_bytes_def append_assoc
    by - (intro exI conjI, (assumption | rule refl)+)
qed

section \<open>The check of wrapped transactions\<close>

text \<open>
  An instruction read back from a message: its accounts may have gained the privileges other
  instructions of the message give them.
\<close>

definition same_meta :: "account_meta \<Rightarrow> account_meta \<Rightarrow> bool" where
  "same_meta m m' \<longleftrightarrow> meta_pubkey m' = meta_pubkey m \<and> (is_signer m \<longrightarrow> is_signer m')"

definition same_call :: "instruction \<Rightarrow> instruction \<Rightarrow> bool" where
  "same_call ix ix' \<longleftrightarrow>
     program_id ix' = program_id ix \<and> ix_bytes ix' = ix_bytes ix
     \<and> list_all2 same_meta (ix_accounts ix) (ix_accounts ix')"

lemma require_Inr_iff [simp]: "require ok label = Inr u \<longleftrightarrow> ok"
  by (simp add: require_def)

lemma same_metas_keys:
  assumes "list_all2 same_meta xs ys"
  shows "account_key ys i = account_key xs i" "length ys = length xs"
    "map_option is_signer (nth_opt xs i) = Some True \<Longrightarrow> map_option is_signer (nth_opt ys i) = Some True"
    "i < length xs \<Longrightarrow> meta_pubkey (ys ! i) = meta_pubkey (xs ! i)"
  using assms
  by (auto simp: account_key_def nth_opt_def list_all2_conv_all_nth same_meta_def split: if_splits)

lemma accounts_match_same:
  "list_all2 same_meta xs ys \<Longrightarrow> accounts_match ys label ps = accounts_match xs label ps"
  by (induction xs label ps rule: accounts_match.induct)
    (auto simp: same_metas_keys split: option.split)

lemma accounts_match_first: "accounts_match xs l ((i, k) # ps) = Inr u \<Longrightarrow> i < length xs"
  by (auto simp: account_key_def nth_opt_def split: option.splits if_splits)

lemma user_signs_same:
  assumes "list_all2 same_meta xs ys" "user_signs xs payer = Inr ()"
  shows "user_signs ys payer = Inr ()"
proof -
  have "0 < length xs" using assms(2) accounts_match_first unfolding user_signs_def rbind_Inr_iff by blast
  then have "is_signer (xs ! 0) \<longrightarrow> is_signer (ys ! 0)"
    using list_all2_nthD [OF assms(1)] by (simp add: same_meta_def)
  then show ?thesis
    using assms by (simp add: user_signs_def accounts_match_same [OF assms(1)] if_Inl_Inr_iff
        del: accounts_match.simps)
qed

lemma route_accounts_same:
  assumes "same_call ix ix'" "validate_already_wrapped_route_accounts e ix payer request r = Inr ()"
  shows "validate_already_wrapped_route_accounts e ix' payer request r = Inr ()"
proof -
  have acc: "list_all2 same_meta (ix_accounts ix) (ix_accounts ix')" using assms(1) by (simp add: same_call_def)
  show ?thesis
    using assms(2) user_signs_same [OF acc]
    unfolding validate_already_wrapped_route_accounts_def Let_def rbind_Inr_iff accounts_match_same [OF acc]
    by (auto simp: same_metas_keys [OF acc] if_Inl_Inr_iff simp del: accounts_match.simps)
qed

lemma pump_inner_accounts_same:
  assumes "list_all2 same_meta xs ys"
    and "validate_pump_bonding_v2_inner_accounts e xs d payer program = Inr ()"
  shows "validate_pump_bonding_v2_inner_accounts e ys d payer program = Inr ()"
  using assms(2) same_metas_keys(3) [OF assms(1)]
  unfolding validate_pump_bonding_v2_inner_accounts_def rbind_Inr_iff case_prod_Inr_iff
  by (auto simp: same_metas_keys(1,2) [OF assms(1)])

lemma pump_route_same:
  assumes "same_call ix ix'" "validate_pump_route e ix payer request r = Inr ()"
  shows "validate_pump_route e ix' payer request r = Inr ()"
proof -
  have acc: "list_all2 same_meta (ix_accounts ix) (ix_accounts ix')" using assms(1) by (simp add: same_call_def)
  then have dropped: "list_all2 same_meta (drop n (ix_accounts ix)) (drop n (ix_accounts ix'))" for n
    by (rule list_all2_dropI)
  show ?thesis
    using assms(2) user_signs_same [OF acc] pump_inner_accounts_same [OF dropped]
    unfolding validate_pump_route_def validate_already_wrapped_pump_bonding_v2_accounts_def Let_def
      rbind_Inr_iff accounts_match_same [OF acc] same_metas_keys(2) [OF acc]
    by (auto split: wrapper_route_kind.splits simp del: accounts_match.simps)
qed

text \<open>
  Reading back, with the same tables, what was compiled and signed gives the compiled
  instructions, and decoding inverts encoding, as the SDK and the Borsh format document.
\<close>

definition sdk_reads_back :: "wrap_env \<Rightarrow> pubkey \<Rightarrow> lookup_table list \<Rightarrow> bool" where
  "sdk_reads_back e payer tables \<longleftrightarrow>
     (\<forall>ixs bh m signers packed.
        we_compile e payer ixs tables bh = Inr m \<and> we_sign e m signers = Inr packed
        \<longrightarrow> we_decode e (we_base64 e (wb_bytes packed)) = Inr m
            \<and> (\<exists>ixs'. decompile_v0_transaction e m tables = Inr ixs' \<and> list_all2 same_call ixs ixs'))"

lemma sdk_reads_backD:
  assumes "sdk_reads_back e payer tables" "we_compile e payer ixs tables bh = Inr m"
    "we_sign e m signers = Inr packed"
  shows "we_decode e (we_base64 e (wb_bytes packed)) = Inr m"
    "\<exists>ixs'. decompile_v0_transaction e m tables = Inr ixs' \<and> list_all2 same_call ixs ixs'"
  using assms unfolding sdk_reads_back_def by blast+

definition borsh_reads_back :: "wrap_env \<Rightarrow> bool" where
  "borsh_reads_back e \<longleftrightarrow>
     (\<forall>r bs. we_borsh_route e r = Some bs \<longrightarrow> we_unborsh_route e bs = Some r)
     \<and> (\<forall>r bs. we_borsh_pump e r = Some bs \<longrightarrow> we_unborsh_pump e bs = Some r)"

lemma route_call_decodes:
  assumes "route_call e payer request r call" "borsh_reads_back e" "same_call call call'"
  shows "decode_wrapper_swap_route_instruction e call' = Some r"
    "decode_wrapper_pump_bonding_v2_instruction e call' = None"
    "is_wrapper_execute_instruction call'" "\<not> is_retired_wrapper_instruction call'"
proof -
  obtain z where z: "program_id call' = wrapper_program_id" "we_borsh_route e r = Some z"
    "ix_bytes call' = execute_swap_route_discriminator # z" "rq_version r = abi_version"
    using assms(1,3) by (auto simp: route_call_def same_call_def)
  have "we_unborsh_route e z = Some r" using assms(2) z(2) by (simp add: borsh_reads_back_def)
  then show "decode_wrapper_swap_route_instruction e call' = Some r"
    "decode_wrapper_pump_bonding_v2_instruction e call' = None"
    "is_wrapper_execute_instruction call'" "\<not> is_retired_wrapper_instruction call'"
    using z
    by (simp_all add: option_filter_def first_byte_def
        decode_wrapper_swap_route_instruction_def decode_wrapper_pump_bonding_v2_instruction_def
        is_wrapper_execute_instruction_def is_retired_wrapper_instruction_def
        execute_swap_route_discriminator_def execute_pump_bonding_v2_discriminator_def)
qed

lemma pump_call_decodes:
  assumes "pump_call e payer request r call" "borsh_reads_back e" "same_call call call'"
  shows "decode_wrapper_swap_route_instruction e call' = None"
    "decode_wrapper_pump_bonding_v2_instruction e call' = Some r"
    "is_wrapper_execute_instruction call'" "\<not> is_retired_wrapper_instruction call'"
proof -
  obtain z where z: "program_id call' = wrapper_program_id" "we_borsh_pump e r = Some z"
    "ix_bytes call' = execute_pump_bonding_v2_discriminator # z" "pb_version r = abi_version"
    using assms(1,3) by (auto simp: pump_call_def same_call_def)
  have "we_unborsh_pump e z = Some r" using assms(2) z(2) by (simp add: borsh_reads_back_def)
  then show "decode_wrapper_swap_route_instruction e call' = None"
    "decode_wrapper_pump_bonding_v2_instruction e call' = Some r"
    "is_wrapper_execute_instruction call'" "\<not> is_retired_wrapper_instruction call'"
    using z
    by (simp_all add: option_filter_def first_byte_def
        decode_wrapper_swap_route_instruction_def decode_wrapper_pump_bonding_v2_instruction_def
        is_wrapper_execute_instruction_def is_retired_wrapper_instruction_def
        execute_swap_route_discriminator_def execute_pump_bonding_v2_discriminator_def)
qed

text \<open>Among instructions that are no wrapper calls, the one call is found.\<close>

lemma plain_instruction:
  assumes "\<not> is_wrapper_execute_instruction ix"
  shows "decode_wrapper_swap_route_instruction e ix = None"
    "decode_wrapper_pump_bonding_v2_instruction e ix = None" "\<not> is_retired_wrapper_instruction ix"
  using assms
  by (auto simp: is_wrapper_execute_instruction_def is_retired_wrapper_instruction_def
      decode_wrapper_swap_route_instruction_def decode_wrapper_pump_bonding_v2_instruction_def)

lemma decoded_with_append [simp]: "decoded_with f (xs @ ys) = decoded_with f xs @ decoded_with f ys"
  by (simp add: decoded_with_def map_filter_def)

lemma decoded_with_Cons [simp]:
  "decoded_with f (x # xs) = (case f x of None \<Rightarrow> [] | Some y \<Rightarrow> [(x, y)]) @ decoded_with f xs"
  by (simp add: decoded_with_def map_filter_def split: option.split)

lemma decoded_with_none: "(\<And>x. x \<in> set xs \<Longrightarrow> f x = None) \<Longrightarrow> decoded_with f xs = []"
  by (simp add: decoded_with_def map_filter_def filter_empty_conv)

lemma plain_instructions:
  assumes "\<not> list_ex is_wrapper_execute_instruction ixs"
  shows "decoded_with (decode_wrapper_swap_route_instruction e) ixs = []"
    "decoded_with (decode_wrapper_pump_bonding_v2_instruction e) ixs = []"
    "\<not> list_ex is_retired_wrapper_instruction ixs" "filter is_wrapper_execute_instruction ixs = []"
  using assms plain_instruction
  by (auto simp: list_ex_iff filter_empty_conv intro!: decoded_with_none)

lemma one_route_call_validates:
  assumes "\<not> list_ex is_wrapper_execute_instruction before"
    "\<not> list_ex is_wrapper_execute_instruction behind"
    "route_call e payer request' r call" "borsh_reads_back e" "same_call call call'"
    "validate_swap_route e call' payer request r = Inr ()"
  shows "validate_wrapped_instructions e (before @ call' # behind) payer request = Inr ()"
  using assms(6) plain_instructions [OF assms(1)] plain_instructions [OF assms(2)]
    route_call_decodes [OF assms(3-5)]
  by (simp add: validate_wrapped_instructions_def Let_def require_def)

lemma one_pump_call_validates:
  assumes "\<not> list_ex is_wrapper_execute_instruction before"
    "\<not> list_ex is_wrapper_execute_instruction behind"
    "pump_call e payer request' r call" "borsh_reads_back e" "same_call call call'"
    "validate_pump_route e call' payer request r = Inr ()"
  shows "validate_wrapped_instructions e (before @ call' # behind) payer request = Inr ()"
  using assms(6) plain_instructions [OF assms(1)] plain_instructions [OF assms(2)]
    pump_call_decodes [OF assms(3-5)]
  by (simp add: validate_wrapped_instructions_def Let_def require_def)

lemma with_min_net_output_cases:
  assumes "with_min_net_output request venue = Inr request'"
  obtains "request' = request"
  | n where "wq_route_kind request = Route_Sol_Out" "wq_min_net_output request = 0"
      "request' = request\<lparr>wq_min_net_output := n\<rparr>"
proof (cases "wq_route_kind request = Route_Sol_Out \<and> wq_min_net_output request = 0")
  case True
  then obtain n where "request' = request\<lparr>wq_min_net_output := n\<rparr>"
    using assms unfolding with_min_net_output_def by (simp only: simp_thms if_True rbind_Inr_iff sum.inject) blast
  with True that(2) show ?thesis by blast
next
  case False
  then have "request' = request"
    using assms unfolding with_min_net_output_def by (simp only: if_False sum.inject)
  with that(1) show ?thesis by blast
qed

lemma checks_ignore_minimum:
  "validate_already_wrapped_route_accounts e ix payer (request\<lparr>wq_min_net_output := n\<rparr>) r
     = validate_already_wrapped_route_accounts e ix payer request r"
  unfolding validate_already_wrapped_route_accounts_def
  by (cases request) (simp only: wrap_compiled_transaction_request.simps)

lemma pump_check_without_minimum:
  assumes "wq_min_net_output request = 0" "wq_route_kind request = Route_Sol_Out"
    and "validate_pump_route e ix payer (request\<lparr>wq_min_net_output := n\<rparr>) r = Inr ()"
  shows "validate_pump_route e ix payer request r = Inr ()"
  using assms
  unfolding validate_pump_route_def validate_already_wrapped_pump_bonding_v2_accounts_def Let_def
  by (cases request)
    (simp only: wrap_compiled_transaction_request.simps wrapper_route_kind.case
      rbind_Inr_iff require_Inr_iff word_coorder.extremum simp_thms, blast)

lemma checks_of_less_request:
  assumes "with_min_net_output request venue = Inr request'"
  shows "validate_already_wrapped_route_accounts e ix payer request r
       = validate_already_wrapped_route_accounts e ix payer request' r"
    and "validate_pump_route e ix payer request' pr = Inr () \<Longrightarrow> validate_pump_route e ix payer request pr = Inr ()"
  using assms
  by (cases rule: with_min_net_output_cases, simp, simp add: checks_ignore_minimum)
    (cases rule: with_min_net_output_cases [OF assms], simp, metis pump_check_without_minimum)

lemma less_request_min:
  assumes "with_min_net_output request venue = Inr request'"
  shows "wq_min_net_output request = 0 \<or> wq_min_net_output request = wq_min_net_output request'"
  using assms by (cases rule: with_min_net_output_cases) auto

text \<open>What a route call must show besides its accounts.\<close>

lemma swap_route_validates:
  assumes "route_call e payer request' r call"
    and accounts: "validate_already_wrapped_route_accounts e call payer request' r = Inr ()"
    and less: "with_min_net_output request venue = Inr request'"
    and buy: "wq_route_kind request = Route_Sol_In \<Longrightarrow> wq_min_net_output request = 0
       \<and> rq_direction r = Direction_Buy \<and> rq_settlement r = Settlement_Token
       \<and> rq_fee_mode r = Sol_Pre \<and> rq_route_mode r \<in> {Mode_Sol_In, Mode_Mixed}"
    and sell: "wq_route_kind request = Route_Sol_Out \<Longrightarrow> wq_gross_sol_in_lamports request = 0
       \<and> rq_direction r = Direction_Sell \<and> rq_settlement r \<in> {Settlement_Native_Sol, Settlement_Wsol}
       \<and> rq_fee_mode r \<in> {Native_Sol_Post, Wsol_Post} \<and> rq_route_mode r \<in> {Mode_Sol_Out, Mode_Mixed}
       \<and> rq_min_net_output r = wq_min_net_output request'"
    and kind: "wq_route_kind request \<noteq> Route_Sol_Through" and same: "same_call call call'"
  shows "validate_swap_route e call' payer request r = Inr ()"
proof -
  have acc: "validate_already_wrapped_route_accounts e call' payer request r = Inr ()"
    using route_accounts_same [OF same accounts] checks_of_less_request(1) [OF less] by simp
  have fee: "rq_fee_bps r = wq_fee_bps request"
    and gross: "rq_gross_sol_in_lamports r = wq_gross_sol_in_lamports request"
    using assms(1) with_min_net_output_same [OF less] by (simp_all add: route_call_def)
  show ?thesis
    using acc fee gross buy sell kind less_request_min [OF less]
    by (cases "wq_route_kind request")
      (auto simp: validate_swap_route_def validate_swap_route_shape_def require_def)
qed

lemma wrapper_call_validates:
  assumes call: "wrapper_call e source bh payer tables request' venue pre post = Inr (pre', call, post')"
    and less: "with_min_net_output request venue = Inr request'"
    and buy: "wq_route_kind request = Route_Sol_In \<Longrightarrow> wq_min_net_output request = 0"
    and sell: "wq_route_kind request = Route_Sol_Out \<Longrightarrow> wq_gross_sol_in_lamports request = 0"
    and nonzero: "program_id venue = pump_bonding_program_id \<Longrightarrow> read_u64_le (ix_bytes venue) 8 \<noteq> Some 0"
    and same: "same_call call call'"
  shows "(\<exists>r. route_call e payer request' r call \<and> validate_swap_route e call' payer request r = Inr ())
    \<or> (\<exists>r. pump_call e payer request' r call \<and> validate_pump_route e call' payer request r = Inr ())"
proof -
  have kind: "wq_route_kind request' = wq_route_kind request" using with_min_net_output_same [OF less] by simp
  have min: "wq_route_kind request' = Route_Sol_In \<Longrightarrow> wq_min_net_output request' = 0"
    using buy with_min_net_output_same(5) [OF less] kind by simp
  obtain wsol pc where
    pc: "try_build_pump_bonding_v2_wrapper_instruction e payer request' venue = Inr pc"
    and rest: "(case pc of
       Some call \<Rightarrow>
         rbind (pump_v2_preamble e payer request' venue) (\<lambda>created. Inr (pre @ created, call, post))
     | None \<Rightarrow>
         (case or_else (try_build_amm_wsol_v2_plan e payer request' venue pre post)
                 (try_build_wsol_out_v3_plan e payer request' venue pre post (fst wsol)) of
            Some plan \<Rightarrow>
              rbind (wsol_route_instruction e payer request' venue (snd wsol) plan) (\<lambda>call.
              Inr (plan_preamble plan, call, plan_postamble plan))
          | None \<Rightarrow>
              rbind (native_instruction e source bh payer tables request' venue wsol)
                (\<lambda>call. Inr (pre, call, post)))) = Inr (pre', call, post')"
    using call unfolding wrapper_call_def rbind_Inr_iff by blast
  show ?thesis
  proof (cases pc)
    case (Some pcall)
    then have pc': "try_build_pump_bonding_v2_wrapper_instruction e payer request' venue = Inr (Some call)"
      using rest pc by auto
    have "program_id venue = pump_bonding_program_id" by (rule pump_wrapper_call [OF pc'])
    then obtain r where "pump_call e payer request' r call"
      and v: "validate_pump_route e call payer request' r = Inr ()"
      using pump_call_validates [OF pc' min] nonzero by blast
    then show ?thesis
      using pump_route_same [OF same checks_of_less_request(2) [OF less v]] by blast
  next
    case None
    show ?thesis
    proof (cases "or_else (try_build_amm_wsol_v2_plan e payer request' venue pre post)
                 (try_build_wsol_out_v3_plan e payer request' venue pre post (fst wsol))")
      case (Some plan)
      then have c: "wsol_route_instruction e payer request' venue (snd wsol) plan = Inr call"
        using rest None by auto
      obtain r n out where r: "r = wsol_route_request request' venue plan n out"
        "route_call e payer request' r call"
        "validate_already_wrapped_route_accounts e call payer request' r = Inr ()"
        "wq_route_kind request' \<noteq> Route_Sol_Through"
        by (rule wsol_call [OF c plan_shape(1) [OF Some]])
      have "validate_swap_route e call' payer request r = Inr ()"
        by (rule swap_route_validates [OF r(2,3) less _ _ _ same])
          (use buy sell kind r(1,4) in \<open>auto simp: wsol_route_request_def Let_def\<close>)
      then show ?thesis using r(2) by blast
    next
      case none: None
      then have c: "native_instruction e source bh payer tables request' venue wsol = Inr call"
        using rest None by auto
      show ?thesis
      proof (rule native_call [OF c])
        fix r
        assume r: "route_call e payer request' r call"
          "validate_already_wrapped_route_accounts e call payer request' r = Inr ()"
          "wq_route_kind request' = Route_Sol_In \<Longrightarrow> rq_direction r = Direction_Buy
             \<and> rq_settlement r = Settlement_Token \<and> rq_fee_mode r = Sol_Pre
             \<and> rq_route_mode r = Mode_Sol_In \<and> rq_min_net_output r = 0"
          "wq_route_kind request' = Route_Sol_Out \<Longrightarrow> rq_direction r = Direction_Sell
             \<and> rq_settlement r = Settlement_Native_Sol \<and> rq_fee_mode r = Native_Sol_Post
             \<and> rq_route_mode r = Mode_Sol_Out \<and> rq_min_net_output r = wq_min_net_output request'"
          "wq_route_kind request' \<noteq> Route_Sol_Through"
        have "validate_swap_route e call' payer request r = Inr ()"
          by (rule swap_route_validates [OF r(1,2) less _ _ _ same]) (use buy sell kind r(3-5) in auto)
        then show ?thesis using r(1) by blast
      qed
    qed
  qed
qed

lemma same_calls_plain:
  assumes "list_all2 same_call xs ys" "\<forall>ix \<in> set xs. \<not> is_wrapper_execute_instruction ix"
  shows "\<not> list_ex is_wrapper_execute_instruction ys"
  using assms
  by (induction rule: list_all2_induct)
    (auto simp: same_call_def is_wrapper_execute_instruction_def)

lemma memo_not_wrapper: "\<not> is_wrapper_execute_instruction (build_wrapper_uniqueness_memo_instruction e)"
  by (simp add: is_wrapper_execute_instruction_def build_wrapper_uniqueness_memo_instruction_def
      memo_program_id_def wrapper_program_id_def)

lemma list_all2_around:
  "list_all2 P (xs @ y # zs) ws \<Longrightarrow>
     \<exists>us v vs. ws = us @ v # vs \<and> list_all2 P xs us \<and> P y v \<and> list_all2 P zs vs"
  by (auto simp: list_all2_append1 list_all2_Cons1)

lemma kept_plain:
  assumes "subseq kept xs" "set xs \<subseteq> set ixs" "\<not> list_ex is_wrapper_execute_instruction ixs"
  shows "\<forall>ix \<in> set kept. \<not> is_wrapper_execute_instruction ix"
  using assms by (auto simp: list_ex_iff elim!: list_emb_set)


lemma decoded_is_wrapper:
  "decode_wrapper_swap_route_instruction e ix = Some r \<Longrightarrow> is_wrapper_execute_instruction ix"
  "decode_wrapper_pump_bonding_v2_instruction e ix = Some pr \<Longrightarrow> is_wrapper_execute_instruction ix"
  by (auto simp: decode_wrapper_swap_route_instruction_def is_wrapper_execute_instruction_def
      decode_wrapper_pump_bonding_v2_instruction_def split: if_splits)

lemma decoded_with_mem: "(x, y) \<in> set (decoded_with f xs) \<Longrightarrow> x \<in> set xs \<and> f x = Some y"
  by (auto simp: decoded_with_def map_filter_def)

lemma one_wrapper_call:
  assumes "validate_wrapped_instructions e ixs payer request = Inr ()"
  obtains ix where "filter is_wrapper_execute_instruction ixs = [ix]"
    "(\<exists>r. decode_wrapper_swap_route_instruction e ix = Some r \<and> validate_swap_route e ix payer request r = Inr ())
     \<or> (\<exists>r. decode_wrapper_pump_bonding_v2_instruction e ix = Some r \<and> validate_pump_route e ix payer request r = Inr ())"
proof -
  let ?routes = "decoded_with (decode_wrapper_swap_route_instruction e) ixs"
  let ?pumps = "decoded_with (decode_wrapper_pump_bonding_v2_instruction e) ixs"
  have one: "length ?routes + length ?pumps = 1"
    and len: "length (filter is_wrapper_execute_instruction ixs) = 1"
    and sel: "(case ?pumps of [(ix, route)] \<Rightarrow> validate_pump_route e ix payer request route
        | _ \<Rightarrow> (case ?routes of (ix, route) # _ \<Rightarrow> validate_swap_route e ix payer request route
               | [] \<Rightarrow> Inl (Compile_Failed ''unreachable''))) = Inr ()"
    using assms unfolding validate_wrapped_instructions_def Let_def rbind_Inr_iff require_Inr_iff by auto
  obtain ix where only: "filter is_wrapper_execute_instruction ixs = [ix]"
    using len by (auto simp: length_Suc_conv)
  have same: "x = ix" if "x \<in> set ixs" "is_wrapper_execute_instruction x" for x
  proof -
    have "x \<in> set (filter is_wrapper_execute_instruction ixs)" using that by simp
    then show ?thesis unfolding only by simp
  qed
  show ?thesis
  proof (cases ?pumps)
    case Nil
    then obtain x r where r: "?routes = [(x, r)]" using one by (auto simp: length_Suc_conv)
    then have "(x, r) \<in> set ?routes" by simp
    then have "x \<in> set ixs" "decode_wrapper_swap_route_instruction e x = Some r"
      by (auto dest: decoded_with_mem)
    then show ?thesis
      using that [OF only] same decoded_is_wrapper(1) sel Nil r by fastforce
  next
    case (Cons p ps)
    then obtain x r where r: "?pumps = [(x, r)]" using one by (cases p) auto
    then have "(x, r) \<in> set ?pumps" by simp
    then have "x \<in> set ixs" "decode_wrapper_pump_bonding_v2_instruction e x = Some r"
      by (auto dest: decoded_with_mem)
    then show ?thesis
      using that [OF only] same decoded_is_wrapper(2) sel r by fastforce
  qed
qed

lemma accounts_match_Inr: "accounts_match metas l ps = Inr u \<longleftrightarrow> (\<forall>(i, k) \<in> set ps. account_key metas i = Some k)"
  by (induction metas l ps rule: accounts_match.induct) (auto split: option.splits if_splits)

lemma swap_route_checked:
  assumes "validate_swap_route e ix payer request r = Inr ()"
  shows "account_key (ix_accounts ix) 0 = Some payer"
    "account_key (ix_accounts ix) 2 = Some (wq_fee_vault request)"
    "rq_fee_bps r = wq_fee_bps request" "wq_min_net_output request \<le> rq_min_net_output r"
    "case rq_direction r of
       Direction_Buy \<Rightarrow> wq_route_kind request = Route_Sol_In
         \<and> rq_gross_sol_in_lamports r = wq_gross_sol_in_lamports request
     | Direction_Sell \<Rightarrow> wq_route_kind request = Route_Sol_Out \<and> rq_gross_sol_in_lamports r = 0"
proof -
  have fee: "rq_fee_bps r = wq_fee_bps request"
    and shape: "validate_swap_route_shape request r = Inr ()"
    and min: "\<not> (0 < wq_min_net_output request \<and> rq_min_net_output r < wq_min_net_output request)"
    and acc: "validate_already_wrapped_route_accounts e ix payer request r = Inr ()"
    using assms unfolding validate_swap_route_def rbind_Inr_iff require_Inr_iff by auto
  show "account_key (ix_accounts ix) 0 = Some payer"
    "account_key (ix_accounts ix) 2 = Some (wq_fee_vault request)"
    using acc unfolding validate_already_wrapped_route_accounts_def user_signs_def Let_def rbind_Inr_iff
      accounts_match_Inr by auto
  show "rq_fee_bps r = wq_fee_bps request" by (rule fee)
  show "wq_min_net_output request \<le> rq_min_net_output r"
    using min by (cases "wq_min_net_output request = 0") (auto simp: not_less word_neq_0_conv)
  show "case rq_direction r of
       Direction_Buy \<Rightarrow> wq_route_kind request = Route_Sol_In
         \<and> rq_gross_sol_in_lamports r = wq_gross_sol_in_lamports request
     | Direction_Sell \<Rightarrow> wq_route_kind request = Route_Sol_Out \<and> rq_gross_sol_in_lamports r = 0"
    using shape by (auto simp: validate_swap_route_shape_def split: wrapper_route_kind.splits)
qed

lemma pump_route_checked:
  assumes "validate_pump_route e ix payer request r = Inr ()"
  shows "account_key (ix_accounts ix) 0 = Some payer"
    "account_key (ix_accounts ix) 2 = Some (wq_fee_vault request)"
    "pb_fee_bps r = wq_fee_bps request"
    "case pb_side r of
       Pump_Buy \<Rightarrow> wq_route_kind request = Route_Sol_In
         \<and> gross_quote_in_amount r = wq_gross_sol_in_lamports request
         \<and> wq_min_net_output request \<le> min_base_out_amount r
     | Pump_Sell \<Rightarrow> wq_route_kind request = Route_Sol_Out \<and> gross_quote_in_amount r = 0
         \<and> wq_min_net_output request \<le> net_min_quote_out_amount r"
  using assms
  unfolding validate_pump_route_def validate_already_wrapped_pump_bonding_v2_accounts_def user_signs_def
    Let_def
  by (cases "wq_route_kind request";
      simp only: wrapper_route_kind.case rbind_Inr_iff accounts_match_Inr require_Inr_iff; auto)+

text \<open>
  C16: a transaction the check accepts is signed by the payer alone and makes exactly one wrapper
  call, which names the payer and the fee vault, charges the fee of the request, spends exactly
  its SOL when it buys and none when it sells.
\<close>

theorem accepted_wrapped_transaction:
  assumes "validate_already_wrapped_transaction e tx payer tables request = Inr ()"
  shows "\<exists>m ixs ix. we_decode e (ct_base64 tx) = Inr m \<and> vm_required_signers m = [payer]
     \<and> decompile_v0_transaction e m tables = Inr ixs
     \<and> filter is_wrapper_execute_instruction ixs = [ix]
     \<and> account_key (ix_accounts ix) 0 = Some payer
     \<and> account_key (ix_accounts ix) 2 = Some (wq_fee_vault request)
     \<and> ((\<exists>r. decode_wrapper_swap_route_instruction e ix = Some r
            \<and> rq_fee_bps r = wq_fee_bps request \<and> wq_min_net_output request \<le> rq_min_net_output r
            \<and> (case rq_direction r of
                 Direction_Buy \<Rightarrow> wq_route_kind request = Route_Sol_In
                   \<and> rq_gross_sol_in_lamports r = wq_gross_sol_in_lamports request
               | Direction_Sell \<Rightarrow> wq_route_kind request = Route_Sol_Out \<and> rq_gross_sol_in_lamports r = 0))
        \<or> (\<exists>r. decode_wrapper_pump_bonding_v2_instruction e ix = Some r
            \<and> pb_fee_bps r = wq_fee_bps request
            \<and> (case pb_side r of
                 Pump_Buy \<Rightarrow> wq_route_kind request = Route_Sol_In
                   \<and> gross_quote_in_amount r = wq_gross_sol_in_lamports request
                   \<and> wq_min_net_output request \<le> min_base_out_amount r
               | Pump_Sell \<Rightarrow> wq_route_kind request = Route_Sol_Out \<and> gross_quote_in_amount r = 0
                   \<and> wq_min_net_output request \<le> net_min_quote_out_amount r)))"
proof -
  obtain m ixs where m: "we_decode e (ct_base64 tx) = Inr m" "vm_required_signers m = [payer]"
    "decompile_v0_transaction e m tables = Inr ixs"
    and v: "validate_wrapped_instructions e ixs payer request = Inr ()"
    using assms unfolding validate_already_wrapped_transaction_def rbind_Inr_iff map_error_Inr_iff
      require_Inr_iff by auto
  obtain ix where ix: "filter is_wrapper_execute_instruction ixs = [ix]"
    "(\<exists>r. decode_wrapper_swap_route_instruction e ix = Some r \<and> validate_swap_route e ix payer request r = Inr ())
     \<or> (\<exists>r. decode_wrapper_pump_bonding_v2_instruction e ix = Some r \<and> validate_pump_route e ix payer request r = Inr ())"
    by (rule one_wrapper_call [OF v])
  from ix(2) show ?thesis
  proof
    assume "\<exists>r. decode_wrapper_swap_route_instruction e ix = Some r \<and> validate_swap_route e ix payer request r = Inr ()"
    then obtain r where r: "decode_wrapper_swap_route_instruction e ix = Some r"
      "validate_swap_route e ix payer request r = Inr ()" by blast
    show ?thesis using m ix(1) swap_route_checked [OF r(2)] r(1) by blast
  next
    assume "\<exists>r. decode_wrapper_pump_bonding_v2_instruction e ix = Some r \<and> validate_pump_route e ix payer request r = Inr ()"
    then obtain r where r: "decode_wrapper_pump_bonding_v2_instruction e ix = Some r"
      "validate_pump_route e ix payer request r = Inr ()" by blast
    show ?thesis using m ix(1) pump_route_checked [OF r(2)] r(1) by blast
  qed
qed

section \<open>A buy spends its amount net of the fee\<close>

lemma patched_amount:
  assumes "supports_amount_patch program data" "amount_patch_offset program data + 8 \<le> length data"
  shows "read_u64_le (patch_amm_wsol_input_amount program data net) (amount_patch_offset program data)
           = Some net"
    and "length (patch_amm_wsol_input_amount program data net) = length data"
    and "j < amount_patch_offset program data \<or> amount_patch_offset program data + 8 \<le> j
         \<Longrightarrow> patch_amm_wsol_input_amount program data net ! j = data ! j"
  using assms
  by (auto simp: patch_amm_wsol_input_amount_def Let_def read_u64_le_def slice_def nth_append min_def)

lemma amm_plan_steps:
  assumes "try_build_amm_wsol_v2_plan e payer request venue pre post = Some plan"
  obtains i original funding net where "wq_route_kind request = Route_Sol_In"
    "derive_amm_wsol_input_account_index e (program_id venue) (ix_accounts venue) pre = Some i"
    "account_key (ix_accounts venue) i = Some original"
    "find_preamble_wsol_funding_lamports e pre original = Some funding"
    "checked_sub (wq_gross_sol_in_lamports request)
       (estimate_sol_in_fee_lamports (wq_gross_sol_in_lamports request) (wq_fee_bps request)) = Some net"
    "net \<le> funding" "net \<noteq> 0"
    "plan = wsol_plan e payer venue i net
       (filter (\<lambda>ix. \<not> instruction_references_pubkey ix original) pre)
       (filter (\<lambda>ix. \<not> instruction_references_pubkey ix original) post)"
  using assms
  by (auto simp: try_build_amm_wsol_v2_plan_def option_filter_def Let_def bind_eq_Some_conv
      dest!: strip_keeps_unrelated(1) split: if_splits option.splits)

lemma with_system_program_keeps:
  "i < length metas \<Longrightarrow> with_system_program e program metas ! i = metas ! i"
  by (simp add: with_system_program_def append_system_program_inner_account_def nth_append)


section \<open>Samples\<close>

text \<open>
  A buy on a constant-product pool with a temporary wrapped SOL account: the account is created
  and initialised before the venue instruction and closed after it.
\<close>

definition sample_venue_accounts :: "account_meta list" where
  "sample_venue_accounts =
     [meta_new [10] True, meta_new [21] False, meta_new [22] False, meta_new [23] False,
      meta_new [20] False, meta_new [24] False, meta_new [25] False, meta_new [26] False,
      meta_new [27] False, meta_new [28] False, meta_new wsol_mint_id False]"

definition sample_venue :: instruction where
  "sample_venue =
     \<lparr>program_id = raydium_cpmm_program_key, ix_accounts = sample_venue_accounts,
      ix_bytes = raydium_cpmm_swap_base_input_discriminator @ u64_to_le_bytes 1000000
        @ u64_to_le_bytes 7\<rparr>"

definition sample_source_ixs :: "instruction list" where
  "sample_source_ixs =
     [\<lparr>program_id = [0], ix_accounts = [meta_new [10] True, meta_new [20] False],
       ix_bytes = u32_to_le_bytes 0 @ u64_to_le_bytes 3039280 @ u64_to_le_bytes 165 @ token_program_id\<rparr>,
      \<lparr>program_id = token_program_id, ix_accounts = [meta_new [20] False, meta_new wsol_mint_id False],
       ix_bytes = [18]\<rparr>,
      sample_venue,
      \<lparr>program_id = token_program_id,
       ix_accounts = [meta_new [20] False, meta_new [10] False, meta_new [10] True], ix_bytes = [9]\<rparr>]"

definition sample_route_account :: pubkey where
  "sample_route_account = byte_string ''route-wsol'' @ [10, 0]"

definition sample_route :: execute_swap_route_request where
  "sample_route =
     \<lparr>rq_version = 3, rq_route_mode = Mode_Mixed, rq_direction = Direction_Buy,
      rq_settlement = Settlement_Token, rq_fee_mode = Sol_Pre, wsol_lane = 0, rq_fee_bps = 10,
      rq_gross_sol_in_lamports = 1000000, rq_gross_token_in_amount = 0, rq_min_net_output = 0,
      route_accounts_offset = 11, intermediate_account_index = max_word,
      token_fee_account_index = max_word,
      legs = [\<lparr>program_account_index = 0, accounts_start = 1, accounts_len = 12,
        input_source = Gross_Sol_Net_Of_Fee, input_amount = 999000, input_patch_offset = max_word,
        output_account_index = max_word,
        leg_ix_data = raydium_cpmm_swap_base_input_discriminator @ u64_to_le_bytes 999000
          @ u64_to_le_bytes 7\<rparr>]\<rparr>"

definition sample_call :: instruction where
  "sample_call =
     \<lparr>program_id = wrapper_program_id,
      ix_accounts = [meta_new [10] True, meta_new_readonly (byte_string ''config'') False,
        meta_new [12] False, meta_new default_pubkey False, meta_new sample_route_account False,
        meta_new_readonly [2] False, meta_new_readonly raydium_cpmm_program_key False,
        meta_new_readonly token_program_id False, meta_new_readonly wsol_mint_id False,
        meta_new_readonly [0] False, meta_new_readonly [1] False,
        meta_new_readonly raydium_cpmm_program_key False]
        @ sample_venue_accounts[4 := meta_new sample_route_account False]
        @ [meta_new_readonly [0] False],
      ix_bytes = 8 # the (borsh_swap_route sample_route)\<rparr>"

definition sample_memo :: instruction where
  "sample_memo =
     \<lparr>program_id = memo_program_id, ix_accounts = [], ix_bytes = byte_string ''tt:0''\<rparr>"

text \<open>
  An SDK that lists the keys of the instructions one after another, and knows the source and the
  wrapped transaction.
\<close>

definition flat_metas :: "instruction list \<Rightarrow> account_meta list" where
  "flat_metas ixs = concat (map (\<lambda>ix. meta_new_readonly (program_id ix) False # ix_accounts ix) ixs)"

fun flat_instructions :: "nat \<Rightarrow> instruction list \<Rightarrow> compiled_instruction list" where
  "flat_instructions n [] = []"
| "flat_instructions n (ix # ixs) =
     \<lparr>ci_program_index = of_nat n, ci_accounts = map of_nat [Suc n..<Suc n + length (ix_accounts ix)],
      ci_data = ix_bytes ix\<rparr> # flat_instructions (Suc n + length (ix_accounts ix)) ixs"

definition sample_message :: "instruction list \<Rightarrow> versioned_message" where
  "sample_message ixs =
     (let metas = meta_new [10] True # flat_metas ixs in
     \<lparr>vm_is_v0 = True, vm_static_keys = map meta_pubkey metas, vm_required_signatures = 1,
      vm_is_signer = (\<lambda>i. is_signer (metas ! i)), vm_is_writable = (\<lambda>i. is_writable (metas ! i)),
      vm_lookups = [], vm_instructions = flat_instructions 1 ixs, vm_blockhash = [7]\<rparr>)"

lemma unat_small_u8: "n < 256 \<Longrightarrow> unat (of_nat n :: u8) = n"
  by (simp add: unsigned_of_nat take_bit_nat_eq_self)

lemma flat_metas_read_back:
  assumes "keys = map meta_pubkey metas" "length metas \<le> 256" "n + k \<le> length metas"
    and "vm_is_signer m = (\<lambda>i. is_signer (metas ! i))" "vm_is_writable m = (\<lambda>i. is_writable (metas ! i))"
  shows "decompiled_metas m keys (map of_nat [n..<n + k]) = Inr (take k (drop n metas))"
  using assms(3)
proof (induction k arbitrary: n)
  case (Suc k)
  have "[n..<n + Suc k] = n # [Suc n..<Suc n + k]" by (simp add: upt_rec)
  moreover have "take (Suc k) (drop n metas) = metas ! n # take k (drop (Suc n) metas)"
    using Suc.prems by (simp add: Cons_nth_drop_Suc [symmetric])
  ultimately show ?case
    using Suc.prems Suc.IH [of "Suc n"] assms(1,2)
    by (simp add: assms(4,5) unat_small_u8 nth_opt_def)
qed simp

lemma flat_instructions_read_back:
  assumes "keys = map meta_pubkey metas" "length metas \<le> 256" "metas = pre @ flat_metas ixs"
    and "vm_is_signer m = (\<lambda>i. is_signer (metas ! i))" "vm_is_writable m = (\<lambda>i. is_writable (metas ! i))"
  shows "decompiled_instructions m keys (flat_instructions (length pre) ixs) = Inr ixs"
  using assms(3)
proof (induction ixs arbitrary: pre)
  case (Cons ix ixs)
  let ?k = "length (ix_accounts ix)"
  have split: "metas = (pre @ meta_new_readonly (program_id ix) False # ix_accounts ix) @ flat_metas ixs"
    using Cons.prems by (simp add: flat_metas_def)
  have n: "length pre < 256" using split assms(2) by simp
  have "take ?k (drop (Suc (length pre)) metas) = ix_accounts ix" using split by simp
  then have metas: "decompiled_metas m keys (map of_nat [Suc (length pre)..<Suc (length pre) + ?k])
      = Inr (ix_accounts ix)"
    using flat_metas_read_back [OF assms(1,2) _ assms(4,5), of "Suc (length pre)" ?k] split by simp
  have program: "nth_opt keys (length pre) = Some (program_id ix)"
    using split by (simp add: assms(1) nth_opt_def nth_append meta_defs)
  show ?case
    using Cons.IH [OF split] metas program n
    by (simp add: unat_small_u8)
qed simp

lemma sample_message_read_back:
  assumes "length (flat_metas ixs) < 256"
  shows "decompile_v0_transaction e (sample_message ixs) tables = Inr ixs"
proof -
  let ?metas = "meta_new [10] True # flat_metas ixs"
  let ?m = "sample_message ixs"
  have "decompiled_instructions ?m (map meta_pubkey ?metas) (flat_instructions (length [meta_new [10] True]) ixs)
      = Inr ixs"
    by (rule flat_instructions_read_back [OF refl])
      (use assms in \<open>simp_all add: sample_message_def Let_def\<close>)
  then show ?thesis by (simp add: decompile_v0_transaction_def sample_message_def Let_def)
qed

lemma sample_message_fields [simp]:
  "vm_is_v0 (sample_message ixs)" "vm_required_signers (sample_message ixs) = [[10]]"
  "vm_blockhash (sample_message ixs) = [7]" "vm_tables_used e (sample_message ixs) = []"
  by (simp_all add: sample_message_def Let_def vm_required_signers_def vm_tables_used_def meta_defs)

definition sample_wrap_env :: wrap_env where
  "sample_wrap_env =
     \<lparr>we_sdk = sample_wrapper_sdk, we_key_text = (\<lambda>_. ''k''),
      we_ata = (\<lambda>owner m p. 9 # owner @ m),
      we_create_ata = (\<lambda>payer owner m p. \<lparr>program_id = [8], ix_accounts = [], ix_bytes = []\<rparr>),
      we_ata_program = [8], we_token_rent = 2039280, we_uuid = ''0'',
      we_borsh_route = (\<lambda>r. if r = sample_route then borsh_swap_route r else None),
      we_unborsh_route = (\<lambda>bs. if Some bs = borsh_swap_route sample_route then Some sample_route else None),
      we_borsh_pump = (\<lambda>_. None), we_unborsh_pump = (\<lambda>_. None),
      we_decode = (\<lambda>s. Inr (if s = ''wrapped'' then sample_message [sample_call, sample_memo]
                            else sample_message sample_source_ixs)),
      we_compile = (\<lambda>payer ixs tables bh.
        if ixs = [sample_call, sample_memo] then Inr (sample_message ixs) else Inl ''compile''),
      we_sign = (\<lambda>m signers. Inr \<lparr>wb_signature = Some ''sig'', wb_bytes = [1, 2, 3]\<rparr>),
      we_base64 = (\<lambda>_. ''wrapped''), we_restored_signers = (\<lambda>_. [])\<rparr>"

definition sample_source :: engine_transaction where
  "sample_source =
     \<lparr>ct_label = ''buy'', ct_format = ''v0-alt'', ct_base64 = ''native'', ct_signature = None,
      ct_lookup_tables_used = [], ct_compute_unit_limit = Some 200000,
      ct_compute_unit_price_micro_lamports = None, ct_inline_tip_lamports = None,
      ct_inline_tip_account = None\<rparr>"

definition sample_tables :: "lookup_table list" where
  "sample_tables = [\<lparr>lt_key = [30], lt_addresses = []\<rparr>]"

definition sample_wrap_request :: wrap_compiled_transaction_request where
  "sample_wrap_request =
     \<lparr>wq_label = ''buy'', wq_route_kind = Route_Sol_In, wq_fee_bps = 10, wq_fee_vault = [12],
      wq_gross_sol_in_lamports = 1000000, wq_min_net_output = 0, wq_select_first = False,
      wq_select_last = False\<rparr>"

definition sample_wrapped :: engine_transaction where
  "sample_wrapped = sample_source\<lparr>ct_format := ''v0-alt-wrapper'', ct_base64 := ''wrapped'',
     ct_signature := Some ''sig''\<rparr>"

lemmas sample_defs = sample_source_ixs_def sample_venue_def sample_venue_accounts_def

lemmas program_defs = wrapper_program_id_def memo_program_id_def raydium_cpmm_program_key_def
  raydium_clmm_program_id_def raydium_amm_v4_program_key_def pump_bonding_program_id_def
  bonk_launchpad_program_id_def pump_swap_program_id_def token_program_id_def wsol_mint_id_def

lemma sample_sizes: "length (flat_metas sample_source_ixs) < 256"
  "length (flat_metas [sample_call, sample_memo]) < 256"
  by (simp_all add: flat_metas_def sample_defs sample_call_def sample_memo_def)

lemma sample_plain: "\<not> list_ex is_wrapper_execute_instruction sample_source_ixs"
  by (simp add: sample_defs is_wrapper_execute_instruction_def program_defs)

lemma sample_venue_position: "venue_positions [raydium_cpmm_program_key] sample_source_ixs = [2]"
  by (simp add: venue_positions_def sample_defs program_defs upt_rec nth_Cons')

lemma sample_parts: "sample_source_ixs ! 2 = sample_venue"
  "without_memos (take 2 sample_source_ixs) = take 2 sample_source_ixs"
  "without_memos (drop (Suc 2) sample_source_ixs) = drop 3 sample_source_ixs"
  by (simp_all add: without_memos_def is_memo_instruction_def sample_defs program_defs)

lemma sample_fee: "estimate_sol_in_fee_lamports 1000000 10 = 1000"
  by (simp add: estimate_sol_in_fee_lamports_def)

lemma sample_min: "with_min_net_output sample_wrap_request sample_venue = Inr sample_wrap_request"
  by (simp add: with_min_net_output_def sample_wrap_request_def)

lemma sample_wsol_accounts:
  "derive_wsol_route_accounts sample_wrap_env [10] [12] Route_Sol_In sample_venue pre post = Inr (None, None)"
  by (simp add: derive_wsol_route_accounts_def Let_def sample_wrap_env_def sample_venue_def
      sample_venue_accounts_def meta_defs program_defs derive_temp_wsol_output_account_def
      wsol_account_at_def account_key_def nth_opt_def derive_closed_temp_wsol_output_account_def)

lemma sample_no_pump_call:
  "try_build_pump_bonding_v2_wrapper_instruction sample_wrap_env [10] sample_wrap_request sample_venue
     = Inr None"
  by (simp add: try_build_pump_bonding_v2_wrapper_instruction_def sample_venue_def program_defs
      is_pump_bonding_v2_wsol_quote_instruction_def)

lemma sample_funding:
  "find_preamble_wsol_funding_lamports sample_wrap_env (take 2 sample_source_ixs) [20] = Some 1000000"
  by (simp add: find_preamble_wsol_funding_lamports_def find_temp_wsol_create_lamports_def
      first_lamports_def is_system_create_account_for_def sample_defs sample_wrap_env_def
      sample_wrapper_sdk_def account_key_def nth_opt_def meta_defs program_defs checked_sub_def)

lemma sample_strips:
  "strip_temp_wsol_lifecycle_instructions sample_wrap_env (take 2 sample_source_ixs) [20] = Some []"
  "strip_temp_wsol_lifecycle_instructions sample_wrap_env (drop 3 sample_source_ixs) [20] = Some []"
  by (simp_all add: sample_defs instruction_references_pubkey_def is_temp_wsol_lifecycle_instruction_def
      is_system_create_account_for_def is_spl_token_wsol_lifecycle_instruction_def sample_wrap_env_def
      sample_wrapper_sdk_def account_key_def nth_opt_def meta_defs first_byte_def program_defs)

lemma sample_input_index:
  "derive_amm_wsol_input_account_index e raydium_cpmm_program_key sample_venue_accounts pre = Some 4"
  by (simp add: derive_amm_wsol_input_account_index_def program_defs wsol_account_at_def writable_at_def
      account_key_def nth_opt_def sample_venue_accounts_def meta_defs)

definition sample_wsol_plan :: amm_wsol_v2_plan where
  "sample_wsol_plan = wsol_plan sample_wrap_env [10] sample_venue 4 999000 [] []"

lemma sample_builds_plan:
  "try_build_amm_wsol_v2_plan sample_wrap_env [10] sample_wrap_request sample_venue
     (take 2 sample_source_ixs) (drop 3 sample_source_ixs) = Some sample_wsol_plan"
proof -
  have "account_key sample_venue_accounts 4 = Some [20]"
    by (simp add: account_key_def nth_opt_def sample_venue_accounts_def meta_defs)
  then show ?thesis
    by (simp add: try_build_amm_wsol_v2_plan_def sample_venue_def sample_input_index sample_funding
        sample_wrap_request_def sample_fee checked_sub_def option_filter_def sample_strips
        sample_wsol_plan_def)
qed

text \<open>The buy of the sample: of a million lamports, a thousand are the fee.\<close>

lemma sample_patchable:
  "supports_amount_patch raydium_cpmm_program_key (ix_bytes sample_venue)"
  "amount_patch_offset raydium_cpmm_program_key (ix_bytes sample_venue) = 8"
  "length (ix_bytes sample_venue) = 24"
  by (simp_all add: supports_amount_patch_def amount_patch_offset_def sample_venue_def program_defs
      slice_def raydium_cpmm_swap_base_input_discriminator_def)


lemma sample_builds_call:
  "wsol_route_instruction sample_wrap_env [10] sample_wrap_request sample_venue None sample_wsol_plan
     = Inr sample_call"
proof -
  have inner: "plan_inner_accounts sample_wsol_plan
      = sample_venue_accounts[4 := meta_new sample_route_account False] @ [meta_new_readonly [0] False]"
    by (simp add: sample_wsol_plan_def wsol_plan_def Let_def with_system_program_def sample_venue_def
        should_append_system_program_inner_account_def program_defs redirect_account_def meta_defs
        append_system_program_inner_account_def sample_venue_accounts_def sample_wrap_env_def
        sample_wrapper_sdk_def route_wsol_pda_def sample_route_account_def byte_string_def)
  have patched: "patch_amm_wsol_input_amount raydium_cpmm_program_key (ix_bytes sample_venue) 999000
      = raydium_cpmm_swap_base_input_discriminator @ u64_to_le_bytes 999000 @ u64_to_le_bytes 7"
    by (simp add: patch_amm_wsol_input_amount_def sample_patchable Let_def)
      (simp add: sample_venue_def raydium_cpmm_swap_base_input_discriminator_def)
  have route: "wsol_route_request sample_wrap_request sample_venue sample_wsol_plan 12 max_word = sample_route"
    using patched
    by (simp add: wsol_route_request_def sample_wrap_request_def sample_route_def Let_def abi_version_def
        route_counts swap_route_no_patch_offset_def sample_wsol_plan_def wsol_plan_def sample_venue_def)
  have len: "u16_of_len (length (plan_inner_accounts sample_wsol_plan)) = Some 12"
    by (simp add: inner u16_of_len_def sample_venue_accounts_def)
  have kind: "wq_route_kind sample_wrap_request = Route_Sol_In" "wq_fee_vault sample_wrap_request = [12]"
    by (simp_all add: sample_wrap_request_def)
  have fixed: "amm_wsol_account sample_wsol_plan = sample_route_account"
    "fst (config_pda (we_sdk sample_wrap_env)) = byte_string ''config''"
    "instructions_sysvar_id (we_sdk sample_wrap_env) = [2]" "program_id sample_venue = raydium_cpmm_program_key"
    "system_program_id (we_sdk sample_wrap_env) = [0]" "rent_sysvar_id (we_sdk sample_wrap_env) = [1]"
    by (simp_all add: sample_wsol_plan_def wsol_plan_def Let_def sample_wrap_env_def sample_wrapper_sdk_def
        route_wsol_pda_def sample_route_account_def byte_string_def config_pda_def sample_venue_def)
  have uses: "swap_route_uses_wsol sample_route" "\<not> swap_route_uses_token_fee sample_route"
    "wsol_lane sample_route = 0" "route_accounts_offset sample_route = 11" "rq_version sample_route = 3"
    "rq_fee_bps sample_route = 10"
    by (simp_all add: sample_route_def swap_route_uses_wsol_def swap_route_uses_token_fee_def)
  have data: "encode_execute_swap_route_data (we_borsh_route sample_wrap_env) sample_route
      = Inr (8 # the (borsh_swap_route sample_route))"
    by (simp add: encode_execute_swap_route_data_def uses abi_version_def max_fee_bps_def sample_wrap_env_def
        borsh_swap_route_def execute_swap_route_discriminator_def)
  show ?thesis
    unfolding wsol_route_instruction_def Let_def len kind fixed swap_route_no_patch_offset_def
    by (simp add: route build_execute_swap_route_instruction_def data expected_route_offset_def uses
        swap_route_metas_def route_counts checked_add_def route_wsol_lane_count_def fixed Let_def
        execute_metas_def inner sample_call_def unwrap_or_def map_error_def)
qed

lemma sample_wrapper_call:
  "wrapper_call sample_wrap_env sample_source [7] [10] sample_tables sample_wrap_request sample_venue
     (take 2 sample_source_ixs) (drop 3 sample_source_ixs) = Inr ([], sample_call, [])"
proof -
  have "wq_route_kind sample_wrap_request = Route_Sol_In" "wq_fee_vault sample_wrap_request = [12]"
    by (simp_all add: sample_wrap_request_def)
  moreover have "plan_preamble sample_wsol_plan = []" "plan_postamble sample_wsol_plan = []"
    by (simp_all add: sample_wsol_plan_def wsol_plan_def Let_def)
  ultimately show ?thesis
    by (simp add: wrapper_call_def sample_wsol_accounts sample_no_pump_call sample_builds_plan or_else_def
        sample_builds_call)
qed

lemma sample_env_fields [simp]:
  "we_decode sample_wrap_env ''native'' = Inr (sample_message sample_source_ixs)"
  "we_decode sample_wrap_env ''wrapped'' = Inr (sample_message [sample_call, sample_memo])"
  "we_compile sample_wrap_env [10] [sample_call, sample_memo] tables bh
     = Inr (sample_message [sample_call, sample_memo])"
  "we_sign sample_wrap_env m signers = Inr \<lparr>wb_signature = Some ''sig'', wb_bytes = [1, 2, 3]\<rparr>"
  "we_base64 sample_wrap_env bs = ''wrapped''" "we_restored_signers sample_wrap_env b = []"
  "build_wrapper_uniqueness_memo_instruction sample_wrap_env = sample_memo"
  by (simp_all add: sample_wrap_env_def build_wrapper_uniqueness_memo_instruction_def sample_memo_def)

lemma sample_wraps:
  "wrap_compiled_transaction sample_wrap_env sample_source [10] sample_tables [raydium_cpmm_program_key]
     sample_wrap_request = Inr sample_wrapped"
proof -
  have fields: "wq_route_kind sample_wrap_request = Route_Sol_In" "wq_fee_bps sample_wrap_request = 10"
    by (simp_all add: sample_wrap_request_def)
  have finish: "finish_wrapped sample_wrap_env sample_source [7] [10] sample_tables [sample_call, sample_memo]
      = Inr sample_wrapped"
    by (simp add: finish_wrapped_def sample_source_def sample_wrapped_def packet_limit_bytes_def)
  have sel: "select_venue_position sample_wrap_request [2] = Inr 2"
    by (simp add: select_venue_position_def)
  have post: "without_memos (drop 3 sample_source_ixs) = drop 3 sample_source_ixs"
    using sample_parts(3) by simp
  have tables: "sample_tables \<noteq> []" by (simp add: sample_tables_def)
  have native: "ct_base64 sample_source = ''native''" by (simp add: sample_source_def)
  show ?thesis
    unfolding wrap_compiled_transaction_def native sample_env_fields
    by (simp add: fields max_fee_bps_def tables sample_message_read_back sample_sizes
        sample_plain sample_venue_position sel sample_parts sample_min post sample_wrapper_call finish)
qed

theorem wrapped_transaction_shape_witness:
  "\<exists>ixs i kept post call. decompile_v0_transaction sample_wrap_env (sample_message sample_source_ixs)
       sample_tables = Inr ixs
     \<and> program_id (ixs ! i) = raydium_cpmm_program_key
     \<and> subseq kept (take i ixs) \<and> subseq post (drop (Suc i) ixs)
     \<and> charges_fee sample_wrap_env [10] sample_wrap_request call"
  using wrapped_transaction_shape [OF sample_wraps] by (auto simp: sample_source_def)

lemma same_call_refl [simp]: "same_call ix ix"
  by (simp add: same_call_def same_meta_def list_all2_refl)

lemma sample_sdk_reads_back: "sdk_reads_back sample_wrap_env [10] tables"
  using sample_message_read_back [OF sample_sizes(2)]
  by (auto simp: sdk_reads_back_def sample_wrap_env_def split: if_splits)

lemma sample_borsh_reads_back: "borsh_reads_back sample_wrap_env"
  by (auto simp: borsh_reads_back_def sample_wrap_env_def split: if_splits)

lemma sample_check_hypotheses:
  "\<forall>owner m p. program_id (we_create_ata sample_wrap_env [10] owner m p) \<noteq> wrapper_program_id"
  "\<forall>m ixs ix. we_decode sample_wrap_env (ct_base64 sample_source) = Inr m
       \<and> decompile_v0_transaction sample_wrap_env m sample_tables = Inr ixs \<and> ix \<in> set ixs
       \<and> program_id ix = pump_bonding_program_id \<longrightarrow> read_u64_le (ix_bytes ix) 8 \<noteq> Some 0"
proof -
  show "\<forall>owner m p. program_id (we_create_ata sample_wrap_env [10] owner m p) \<noteq> wrapper_program_id"
    by (simp add: sample_wrap_env_def program_defs)
  have none: "\<forall>ix \<in> set sample_source_ixs. program_id ix \<noteq> pump_bonding_program_id"
    by (simp add: sample_defs program_defs)
  have native: "ct_base64 sample_source = ''native''" by (simp add: sample_source_def)
  show "\<forall>m ixs ix. we_decode sample_wrap_env (ct_base64 sample_source) = Inr m
       \<and> decompile_v0_transaction sample_wrap_env m sample_tables = Inr ixs \<and> ix \<in> set ixs
       \<and> program_id ix = pump_bonding_program_id \<longrightarrow> read_u64_le (ix_bytes ix) 8 \<noteq> Some 0"
    using none unfolding native by (auto simp: sample_message_read_back sample_sizes)
qed


lemma sample_route_call: "route_call sample_wrap_env [10] sample_wrap_request sample_route sample_call"
  by (simp add: route_call_def sample_call_def sample_wrap_env_def sample_wrap_request_def borsh_swap_route_def
      execute_swap_route_discriminator_def meta_defs)
    (simp add: sample_route_def abi_version_def)

lemma sample_route_validates:
  "validate_swap_route sample_wrap_env sample_call [10] sample_wrap_request sample_route = Inr ()"
  by (simp add: validate_swap_route_def validate_swap_route_shape_def sample_wrap_request_def
      sample_route_def validate_already_wrapped_route_accounts_def Let_def swap_route_uses_wsol_def
      sample_call_def user_signs_def require_def meta_defs sample_wrap_env_def sample_wrapper_sdk_def
      config_pda_def route_wsol_pda_def sample_route_account_def byte_string_def)

lemma sample_memo_plain: "\<not> is_wrapper_execute_instruction sample_memo"
  by (simp add: is_wrapper_execute_instruction_def sample_memo_def program_defs)

lemma sample_validates:
  "validate_already_wrapped_transaction sample_wrap_env sample_wrapped [10] sample_tables
     sample_wrap_request = Inr ()"
proof -
  have "validate_wrapped_instructions sample_wrap_env ([] @ sample_call # [sample_memo]) [10]
          sample_wrap_request = Inr ()"
    by (rule one_route_call_validates [OF _ _ sample_route_call sample_borsh_reads_back same_call_refl
          sample_route_validates]) (simp_all add: sample_memo_plain)
  moreover have "ct_base64 sample_wrapped = ''wrapped''" by (simp add: sample_wrapped_def)
  ultimately show ?thesis
    by (simp add: validate_already_wrapped_transaction_def require_def
        sample_message_read_back [OF sample_sizes(2)])
qed

theorem accepted_wrapped_transaction_witness:
  "\<exists>ixs ix. decompile_v0_transaction sample_wrap_env (sample_message [sample_call, sample_memo])
       sample_tables = Inr ixs
     \<and> filter is_wrapper_execute_instruction ixs = [ix]
     \<and> account_key (ix_accounts ix) 2 = Some [12]"
  using accepted_wrapped_transaction [OF sample_validates]
  by (auto simp: sample_wrapped_def sample_wrap_request_def)

end
