(* ===== verification/Follow_Types.thy ===== *)
theory Follow_Types
  imports Trench_Prelude Trade_Planner
begin

text \<open>
  The data the follow daemon keeps and exchanges, field by field in the order of the
  source and under the source's names (each record has a prefix of its own):
  \<^verbatim>\<open>CompiledTransaction\<close>, \<^verbatim>\<open>NormalizedExecution\<close>, \<^verbatim>\<open>TransportPlan\<close>, the timing
  structs of \<^verbatim>\<open>report.rs\<close>, the normalised follow-launch configuration of
  \<^verbatim>\<open>config.rs\<close> and the records, requests and responses of \<^verbatim>\<open>follow/contract.rs\<close>.
  A \<^verbatim>\<open>usize\<close> is a \<^typ>\<open>nat\<close>: it only counts elements of a list here.
\<close>

section \<open>Transactions, execution settings and transports\<close>

record compiled_transaction =
  ct_label :: string
  ct_format :: string
  ct_blockhash :: string
  ct_lastValidBlockHeight :: u64
  ct_serializedBase64 :: string
  ct_signature :: "string option"
  ct_lookupTablesUsed :: "string list"
  ct_computeUnitLimit :: "u64 option"
  ct_computeUnitPriceMicroLamports :: "u64 option"
  ct_inlineTipLamports :: "u64 option"
  ct_inlineTipAccount :: "string option"

record normalized_execution =
  ne_simulate :: bool
  ne_send :: bool
  ne_txFormat :: string
  ne_commitment :: string
  ne_skipPreflight :: bool
  ne_trackSendBlockHeight :: bool
  ne_provider :: string
  ne_endpointProfile :: string
  ne_mevProtect :: bool
  ne_mevMode :: string
  ne_jitodontfront :: bool
  ne_autoGas :: bool
  ne_autoMode :: string
  ne_priorityFeeSol :: string
  ne_tipSol :: string
  ne_maxPriorityFeeSol :: string
  ne_maxTipSol :: string
  ne_buyProvider :: string
  ne_buyEndpointProfile :: string
  ne_buyMevProtect :: bool
  ne_buyMevMode :: string
  ne_buyJitodontfront :: bool
  ne_buyAutoGas :: bool
  ne_buyAutoMode :: string
  ne_buyPriorityFeeSol :: string
  ne_buyTipSol :: string
  ne_buySlippagePercent :: string
  ne_buyMaxPriorityFeeSol :: string
  ne_buyMaxTipSol :: string
  ne_buyFundingPolicy :: string
  ne_sellAutoGas :: bool
  ne_sellAutoMode :: string
  ne_sellProvider :: string
  ne_sellEndpointProfile :: string
  ne_sellMevProtect :: bool
  ne_sellMevMode :: string
  ne_sellJitodontfront :: bool
  ne_sellPriorityFeeSol :: string
  ne_sellTipSol :: string
  ne_sellSlippagePercent :: string
  ne_sellMaxPriorityFeeSol :: string
  ne_sellMaxTipSol :: string
  ne_sellSettlementPolicy :: string
  ne_sellSettlementAsset :: string

record jito_bundle_endpoint =
  je_name :: string
  je_send :: string
  je_status :: string

record transport_plan =
  tp_requestedProvider :: string
  tp_resolvedProvider :: string
  tp_requestedEndpointProfile :: string
  tp_resolvedEndpointProfile :: string
  tp_executionClass :: string
  tp_transportType :: string
  tp_ordering :: string
  tp_verified :: bool
  tp_supportsBundle :: bool
  tp_requiresInlineTip :: bool
  tp_requiresPriorityFee :: bool
  tp_separateTipTransaction :: bool
  tp_skipPreflight :: bool
  tp_maxRetries :: u32
  tp_standardRpcSubmitEndpoints :: "string list"
  tp_helloMoonApiKeyConfigured :: bool
  tp_helloMoonMevProtect :: bool
  tp_helloMoonQuicEndpoint :: "string option"
  tp_helloMoonQuicEndpoints :: "string list"
  tp_helloMoonBundleEndpoint :: "string option"
  tp_helloMoonBundleEndpoints :: "string list"
  tp_heliusSenderEndpoint :: "string option"
  tp_heliusSenderEndpoints :: "string list"
  tp_watchEndpoint :: "string option"
  tp_watchEndpoints :: "string list"
  tp_jitoBundleEndpoints :: "jito_bundle_endpoint list"
  tp_warnings :: "string list"

record follow_action_timings =
  at_watcherWaitMs :: "u128 option"
  at_eligibilityMs :: "u128 option"
  at_postEligibilityToSubmitMs :: "u128 option"
  at_preSignedExpiryCheckMs :: "u128 option"
  at_compileMs :: "u128 option"
  at_submitMs :: "u128 option"
  at_confirmMs :: "u128 option"
  at_executionTotalMs :: "u128 option"
  at_reportSyncMs :: "u128 option"
  at_reportingOverheadMs :: "u128 option"

record follow_job_timings =
  jt_benchmarkMode :: "string option"
  jt_reserveMs :: "u128 option"
  jt_armMs :: "u128 option"
  jt_cachePrepMs :: "u128 option"
  jt_watcherWaitMs :: "u128 option"
  jt_eligibilityMs :: "u128 option"
  jt_triggerCompilePrepMs :: "u128 option"
  jt_postEligibilityToSubmitMs :: "u128 option"
  jt_preSignedExpiryCheckMs :: "u128 option"
  jt_compileMs :: "u128 option"
  jt_submitMs :: "u128 option"
  jt_confirmMs :: "u128 option"
  jt_executionTotalMs :: "u128 option"
  jt_reportSyncMs :: "u128 option"
  jt_followSnapshotFlushMs :: "u128 option"
  jt_reportingOverheadMs :: "u128 option"

record normalized_market_cap_trigger =
  nm_direction :: string
  nm_threshold :: string
  nm_scanTimeoutSeconds :: u64
  nm_timeoutAction :: string

record normalized_follow_sell =
  nsl_actionId :: string
  nsl_enabled :: bool
  nsl_walletEnvKey :: string
  nsl_percent :: u8
  nsl_delayMs :: "u64 option"
  nsl_targetBlockOffset :: "u8 option"
  nsl_marketCap :: "normalized_market_cap_trigger option"
  nsl_precheckRequired :: bool
  nsl_requireConfirmation :: bool

record normalized_follow_snipe =
  nsn_actionId :: string
  nsn_enabled :: bool
  nsn_walletEnvKey :: string
  nsn_buyAmountSol :: string
  nsn_submitWithLaunch :: bool
  nsn_retryOnFailure :: bool
  nsn_submitDelayMs :: u64
  nsn_targetBlockOffset :: "u8 option"
  nsn_jitterMs :: u64
  nsn_feeJitterBps :: u16
  nsn_skipIfTokenBalancePositive :: bool
  nsn_postBuySell :: "normalized_follow_sell option"

record normalized_follow_constraints =
  nc_pumpOnly :: bool
  nc_retryBudget :: u32
  nc_requireDaemonReadiness :: bool
  nc_blockOnRequiredPrechecks :: bool

record normalized_follow_launch =
  nl_enabled :: bool
  nl_source :: string
  nl_schemaVersion :: u32
  nl_snipes :: "normalized_follow_snipe list"
  nl_devAutoSell :: "normalized_follow_sell option"
  nl_constraints :: normalized_follow_constraints

section \<open>Job and action states\<close>

datatype follow_job_state =
    JReserved | JArmed | JRunning | JCompleted | JCompletedWithFailures | JCancelled | JFailed

datatype follow_action_state =
    AQueued | AArmed | AEligible | ARunning | ASent | AConfirmed | AStopped | AFailed
  | ACancelled | AExpired

datatype follow_action_kind = SniperBuy | DevAutoSell | SniperSell

datatype follow_watcher_health = WHealthy | WDegraded | WFailed

datatype deferred_setup_state = SQueued | SRunning | SSent | SConfirmed | SFailed

section \<open>Records, requests and responses\<close>

record follow_market_cap_trigger =
  mt_direction :: string
  mt_threshold :: string
  mt_scanTimeoutSeconds :: u64
  mt_timeoutAction :: string

record deferred_setup_record =
  ds_transactions :: "compiled_transaction list"
  ds_state :: deferred_setup_state
  ds_attemptCount :: u32
  ds_signatures :: "string list"
  ds_submittedAtMs :: "u128 option"
  ds_confirmedAtMs :: "u128 option"
  ds_lastError :: "string option"

record follow_action_record =
  fa_actionId :: string
  fa_kind :: follow_action_kind
  fa_walletEnvKey :: string
  fa_state :: follow_action_state
  fa_buyAmountSol :: "string option"
  fa_sellPercent :: "u8 option"
  fa_submitDelayMs :: "u64 option"
  fa_targetBlockOffset :: "u8 option"
  fa_delayMs :: "u64 option"
  fa_marketCap :: "follow_market_cap_trigger option"
  fa_jitterMs :: "u64 option"
  fa_feeJitterBps :: "u16 option"
  fa_precheckRequired :: bool
  fa_requireConfirmation :: bool
  fa_skipIfTokenBalancePositive :: bool
  fa_attemptCount :: u32
  fa_scheduledForMs :: "u128 option"
  fa_eligibleAtMs :: "u128 option"
  fa_submitStartedAtMs :: "u128 option"
  fa_submittedAtMs :: "u128 option"
  fa_confirmedAtMs :: "u128 option"
  fa_provider :: "string option"
  fa_endpointProfile :: "string option"
  fa_transportType :: "string option"
  fa_watcherMode :: "string option"
  fa_watcherFallbackReason :: "string option"
  fa_confirmationSource :: "string option"
  fa_sendObservedSlot :: "u64 option"
  fa_confirmedObservedSlot :: "u64 option"
  fa_confirmedTokenBalanceRaw :: "string option"
  fa_eligibilityObservedSlot :: "u64 option"
  fa_slotsToConfirm :: "u64 option"
  fa_signature :: "string option"
  fa_explorerUrl :: "string option"
  fa_endpoint :: "string option"
  fa_bundleId :: "string option"
  fa_lastError :: "string option"
  fa_triggerKey :: "string option"
  fa_orderIndex :: u32
  fa_preSignedTransactions :: "compiled_transaction list"
  fa_poolId :: "string option"
  fa_primaryTxIndex :: "nat option"
  fa_timings :: follow_action_timings

record follow_job_record =
  fj_schemaVersion :: u32
  fj_traceId :: string
  fj_jobId :: string
  fj_state :: follow_job_state
  fj_createdAtMs :: u128
  fj_updatedAtMs :: u128
  fj_launchpad :: string
  fj_quoteAsset :: string
  fj_launchMode :: string
  fj_selectedWalletKey :: string
  fj_execution :: normalized_execution
  fj_tokenMayhemMode :: bool
  fj_wrapperDefaultFeeBps :: u16
  fj_jitoTipAccount :: string
  fj_buyTipAccount :: string
  fj_sellTipAccount :: string
  fj_preferPostSetupCreatorVaultForSell :: bool
  fj_mint :: "string option"
  fj_launchCreator :: "string option"
  fj_launchSignature :: "string option"
  fj_launchTransactionSubscribeAccountRequired :: "string list"
  fj_submitAtMs :: "u128 option"
  fj_sendObservedSlot :: "u64 option"
  fj_confirmedObservedSlot :: "u64 option"
  fj_reportPath :: "string option"
  fj_transportPlan :: "transport_plan option"
  fj_bagsLaunch :: "bags_launch_metadata option"
  fj_followLaunch :: normalized_follow_launch
  fj_actions :: "follow_action_record list"
  fj_reservedPayloadFingerprint :: string
  fj_deferredSetup :: "deferred_setup_record option"
  fj_cancelRequested :: bool
  fj_lastError :: "string option"
  fj_timings :: follow_job_timings

record follow_daemon_health =
  fh_running :: bool
  fh_statePath :: string
  fh_version :: string
  fh_pid :: "u32 option"
  fh_startedAtMs :: "u128 option"
  fh_controlTransport :: string
  fh_controlUrl :: "string option"
  fh_updatedAtMs :: u128
  fh_queueDepth :: nat
  fh_activeJobs :: nat
  fh_maxActiveJobs :: "nat option"
  fh_maxConcurrentCompiles :: "nat option"
  fh_maxConcurrentSends :: "nat option"
  fh_availableCompileSlots :: "nat option"
  fh_availableSendSlots :: "nat option"
  fh_slotWatcher :: follow_watcher_health
  fh_slotWatcherMode :: "string option"
  fh_signatureWatcher :: follow_watcher_health
  fh_signatureWatcherMode :: "string option"
  fh_marketWatcher :: follow_watcher_health
  fh_marketWatcherMode :: "string option"
  fh_lastError :: "string option"
  fh_watchEndpoint :: "string option"

record follow_daemon_state_file =
  fs_schemaVersion :: u32
  fs_health :: follow_daemon_health
  fs_jobs :: "follow_job_record list"

record follow_reserve_request =
  rr_traceId :: string
  rr_launchpad :: string
  rr_quoteAsset :: string
  rr_launchMode :: string
  rr_selectedWalletKey :: string
  rr_followLaunch :: normalized_follow_launch
  rr_execution :: normalized_execution
  rr_tokenMayhemMode :: bool
  rr_wrapperDefaultFeeBps :: u16
  rr_jitoTipAccount :: string
  rr_buyTipAccount :: string
  rr_sellTipAccount :: string
  rr_preferPostSetupCreatorVaultForSell :: bool
  rr_bagsLaunch :: "bags_launch_metadata option"
  rr_prebuiltActions :: "follow_action_record list"
  rr_deferredSetupTransactions :: "compiled_transaction list"

record follow_arm_request =
  ar_traceId :: string
  ar_mint :: string
  ar_launchCreator :: string
  ar_launchSignature :: string
  ar_launchTransactionSubscribeAccountRequired :: "string list"
  ar_submitAtMs :: u128
  ar_sendObservedSlot :: "u64 option"
  ar_confirmedObservedSlot :: "u64 option"
  ar_reportPath :: "string option"
  ar_transportPlan :: transport_plan

record follow_cancel_request =
  cr_traceId :: string
  cr_actionId :: "string option"
  cr_note :: "string option"

record follow_ready_request =
  rq_followLaunch :: normalized_follow_launch
  rq_quoteAsset :: string
  rq_execution :: normalized_execution
  rq_watchEndpoint :: "string option"

record follow_ready_response =
  rp_ok :: bool
  rp_ready :: bool
  rp_watchEndpoint :: "string option"
  rp_requiredWebsocket :: bool
  rp_reason :: "string option"
  rp_health :: follow_daemon_health

record follow_job_response =
  fo_schemaVersion :: u32
  fo_ok :: bool
  fo_job :: "follow_job_record option"
  fo_jobs :: "follow_job_record list"
  fo_health :: follow_daemon_health

record stable_follow_action_identity =
  si_actionId :: string
  si_kind :: follow_action_kind
  si_walletEnvKey :: string
  si_buyAmountSol :: "string option"
  si_sellPercent :: "u8 option"
  si_submitDelayMs :: "u64 option"
  si_targetBlockOffset :: "u8 option"
  si_delayMs :: "u64 option"
  si_marketCap :: "follow_market_cap_trigger option"
  si_jitterMs :: "u64 option"
  si_feeJitterBps :: "u16 option"
  si_precheckRequired :: bool
  si_requireConfirmation :: bool
  si_skipIfTokenBalancePositive :: bool
  si_triggerKey :: "string option"
  si_orderIndex :: u32
  si_poolId :: "string option"
  si_preSignedTransactions :: "compiled_transaction list"
  si_primaryTxIndex :: "nat option"

record stable_reserve_payload_identity =
  sp_actions :: "stable_follow_action_identity list"
  sp_deferredSetupTransactions :: "compiled_transaction list"

end
