(* ===== verification/Follow_Contract.thy ===== *)
theory Follow_Contract
  imports Follow_Types
begin

text \<open>
  The operations of \<^verbatim>\<open>launchdeck-engine/src/follow/contract.rs\<close>: the trigger key that
  groups actions into batches, the records built from a follow-launch configuration, the
  identity by which a repeated reservation is recognised, and which jobs survive a restart.
\<close>

section \<open>Timings and text\<close>

definition default_action_timings :: follow_action_timings where
  "default_action_timings =
     \<lparr>at_watcherWaitMs = None, at_eligibilityMs = None, at_postEligibilityToSubmitMs = None,
      at_preSignedExpiryCheckMs = None, at_compileMs = None, at_submitMs = None,
      at_confirmMs = None, at_executionTotalMs = None, at_reportSyncMs = None,
      at_reportingOverheadMs = None\<rparr>"

definition show_word :: "'a::len word \<Rightarrow> string" where
  "show_word x = show_nat (unat x)"

section \<open>Trigger keys\<close>

definition base_trigger_key_for_action :: "follow_action_record \<Rightarrow> string" where
  "base_trigger_key_for_action a =
     (case fa_marketCap a of
        Some t \<Rightarrow> ''market:'' @ mt_direction t @ '':'' @ mt_threshold t @ '':''
                    @ show_word (mt_scanTimeoutSeconds t) @ '':'' @ mt_timeoutAction t
      | None \<Rightarrow>
     (case fa_targetBlockOffset a of
        Some offset \<Rightarrow> ''slot:'' @ show_word offset
      | None \<Rightarrow>
      if fa_requireConfirmation a then ''confirm''
      else case fa_delayMs a of
        Some delay_ms \<Rightarrow> ''delay:'' @ show_word delay_ms
      | None \<Rightarrow>
     (case fa_submitDelayMs a of
        Some delay_ms \<Rightarrow> ''submit:'' @ show_word delay_ms
      | None \<Rightarrow> ''submit:0'')))"

definition trigger_key_for_action :: "follow_action_record \<Rightarrow> string" where
  "trigger_key_for_action a =
     (let base = base_trigger_key_for_action a
      in if fa_kind a = SniperSell then ''sniper-sell:'' @ fa_actionId a @ '':'' @ base
         else base)"

definition normalized_trigger_key_value :: "string option \<Rightarrow> u8 option \<Rightarrow> string option" where
  "normalized_trigger_key_value trigger_key target_block_offset =
     (let from_offset = map_option (\<lambda>offset. ''slot:'' @ show_word offset) target_block_offset
      in case trigger_key of
           Some trigger_key \<Rightarrow>
             let trimmed = str_trim trigger_key
             in (case strip_prefix ''block:'' trimmed of
                   Some offset \<Rightarrow> Some (''slot:'' @ offset)
                 | None \<Rightarrow> if trimmed = [] then from_offset else Some trimmed)
         | None \<Rightarrow> from_offset)"

definition canonicalize_action_trigger_key :: "follow_action_record \<Rightarrow> follow_action_record" where
  "canonicalize_action_trigger_key a =
     a\<lparr>fa_triggerKey :=
         (if fa_kind a = SniperSell then Some (trigger_key_for_action a)
          else case normalized_trigger_key_value (fa_triggerKey a) (fa_targetBlockOffset a) of
                 Some key \<Rightarrow> Some key
               | None \<Rightarrow> Some (trigger_key_for_action a))\<rparr>"

definition canonicalize_job_trigger_keys :: "follow_job_record \<Rightarrow> follow_job_record" where
  "canonicalize_job_trigger_keys job =
     job\<lparr>fj_actions := map canonicalize_action_trigger_key (fj_actions job)\<rparr>"

section \<open>Identity of a reservation\<close>

definition stable_identity_trigger_key :: "follow_action_record \<Rightarrow> string option" where
  "stable_identity_trigger_key a =
     (if fa_kind a = SniperSell then Some (trigger_key_for_action a)
      else normalized_trigger_key_value (fa_triggerKey a) (fa_targetBlockOffset a))"

definition stable_action_identity :: "follow_action_record \<Rightarrow> stable_follow_action_identity" where
  "stable_action_identity a =
     \<lparr>si_actionId = fa_actionId a, si_kind = fa_kind a, si_walletEnvKey = fa_walletEnvKey a,
      si_buyAmountSol = fa_buyAmountSol a, si_sellPercent = fa_sellPercent a,
      si_submitDelayMs = fa_submitDelayMs a, si_targetBlockOffset = fa_targetBlockOffset a,
      si_delayMs = fa_delayMs a, si_marketCap = fa_marketCap a, si_jitterMs = fa_jitterMs a,
      si_feeJitterBps = fa_feeJitterBps a, si_precheckRequired = fa_precheckRequired a,
      si_requireConfirmation = fa_requireConfirmation a,
      si_skipIfTokenBalancePositive = fa_skipIfTokenBalancePositive a,
      si_triggerKey = stable_identity_trigger_key a, si_orderIndex = fa_orderIndex a,
      si_poolId = fa_poolId a, si_preSignedTransactions = fa_preSignedTransactions a,
      si_primaryTxIndex = fa_primaryTxIndex a\<rparr>"

text \<open>
  JSON serialisation (\<^verbatim>\<open>serde_json\<close>) is a parameter: the text of a reservation identity
  and the JSON values of the three settings a reservation is compared on, each \<^term>\<open>None\<close>
  where serialisation fails.
\<close>

record 'v follow_serde =
  identity_text :: "stable_reserve_payload_identity \<Rightarrow> string option"
  launch_value :: "normalized_follow_launch \<Rightarrow> 'v option"
  execution_value :: "normalized_execution \<Rightarrow> 'v option"
  bags_value :: "bags_launch_metadata option \<Rightarrow> 'v option"

definition json_values_equal :: "('a \<Rightarrow> 'v option) \<Rightarrow> 'a \<Rightarrow> 'a \<Rightarrow> bool" where
  "json_values_equal to_value left right =
     (case (to_value left, to_value right) of
        (Some l, Some r) \<Rightarrow> l = r
      | _ \<Rightarrow> False)"

definition stable_reserve_payload_fingerprint ::
  "'v follow_serde \<Rightarrow> stable_follow_action_identity list \<Rightarrow> compiled_transaction list
     \<Rightarrow> string option" where
  "stable_reserve_payload_fingerprint ser identity deferred =
     identity_text ser \<lparr>sp_actions = identity, sp_deferredSetupTransactions = deferred\<rparr>"

section \<open>Restart and creator vault\<close>

definition restart_stale_job_max_age_ms :: u128 where
  "restart_stale_job_max_age_ms = 5 * 60 * 1000"

definition should_prune_job_on_restart :: "follow_job_record \<Rightarrow> u128 \<Rightarrow> bool" where
  "should_prune_job_on_restart job now =
     (let freshest_ms = max (fj_updatedAtMs job) (fj_createdAtMs job)
      in restart_stale_job_max_age_ms < sat_sub now freshest_ms)"

definition should_use_post_setup_creator_vault ::
  "bool \<Rightarrow> follow_action_record \<Rightarrow> string \<Rightarrow> bool" where
  "should_use_post_setup_creator_vault prefers a mev_mode =
     (prefers \<and> (0 < unwrap_or 0 (fa_targetBlockOffset a)
                   \<or> ascii_lower (str_trim mev_mode) = ''secure''))"

definition should_use_post_setup_creator_vault_for_sell ::
  "bool \<Rightarrow> follow_action_record \<Rightarrow> string \<Rightarrow> bool" where
  "should_use_post_setup_creator_vault_for_sell prefers a mev_mode =
     should_use_post_setup_creator_vault prefers a mev_mode"

definition should_use_post_setup_creator_vault_for_buy ::
  "bool \<Rightarrow> follow_action_record \<Rightarrow> string \<Rightarrow> bool" where
  "should_use_post_setup_creator_vault_for_buy prefers a mev_mode =
     should_use_post_setup_creator_vault prefers a mev_mode"

section \<open>Actions of a follow launch\<close>

definition market_cap_trigger :: "normalized_market_cap_trigger \<Rightarrow> follow_market_cap_trigger" where
  "market_cap_trigger t =
     \<lparr>mt_direction = nm_direction t, mt_threshold = nm_threshold t,
      mt_scanTimeoutSeconds = nm_scanTimeoutSeconds t, mt_timeoutAction = nm_timeoutAction t\<rparr>"

definition with_trigger_key :: "follow_action_record \<Rightarrow> follow_action_record" where
  "with_trigger_key a = a\<lparr>fa_triggerKey := Some (trigger_key_for_action a)\<rparr>"

definition sniper_buy_record ::
  "normalized_follow_constraints \<Rightarrow> nat \<times> normalized_follow_snipe \<Rightarrow> follow_action_record" where
  "sniper_buy_record c = (\<lambda>(index, s). with_trigger_key
       \<lparr>fa_actionId = nsn_actionId s, fa_kind = SniperBuy,
        fa_walletEnvKey = nsn_walletEnvKey s, fa_state = AQueued,
        fa_buyAmountSol = Some (nsn_buyAmountSol s), fa_sellPercent = None,
        fa_submitDelayMs = Some (nsn_submitDelayMs s),
        fa_targetBlockOffset = nsn_targetBlockOffset s, fa_delayMs = None,
        fa_marketCap = None, fa_jitterMs = Some (nsn_jitterMs s),
        fa_feeJitterBps = Some (nsn_feeJitterBps s),
        fa_precheckRequired = nc_blockOnRequiredPrechecks c,
        fa_requireConfirmation = False,
        fa_skipIfTokenBalancePositive = nsn_skipIfTokenBalancePositive s,
        fa_attemptCount = 0, fa_scheduledForMs = None, fa_eligibleAtMs = None,
        fa_submitStartedAtMs = None, fa_submittedAtMs = None, fa_confirmedAtMs = None,
        fa_provider = None, fa_endpointProfile = None, fa_transportType = None,
        fa_watcherMode = None, fa_watcherFallbackReason = None,
        fa_confirmationSource = None, fa_sendObservedSlot = None,
        fa_confirmedObservedSlot = None, fa_confirmedTokenBalanceRaw = None,
        fa_eligibilityObservedSlot = None, fa_slotsToConfirm = None, fa_signature = None,
        fa_explorerUrl = None, fa_endpoint = None, fa_bundleId = None, fa_lastError = None,
        fa_triggerKey = None, fa_orderIndex = of_nat index, fa_preSignedTransactions = [],
        fa_poolId = None, fa_primaryTxIndex = None, fa_timings = default_action_timings\<rparr>)"

definition dev_auto_sell_record :: "normalized_follow_sell \<Rightarrow> follow_action_record" where
  "dev_auto_sell_record s = with_trigger_key
       \<lparr>fa_actionId = nsl_actionId s, fa_kind = DevAutoSell,
        fa_walletEnvKey = nsl_walletEnvKey s, fa_state = AQueued, fa_buyAmountSol = None,
        fa_sellPercent = Some (nsl_percent s), fa_submitDelayMs = None,
        fa_targetBlockOffset = nsl_targetBlockOffset s, fa_delayMs = nsl_delayMs s,
        fa_marketCap = map_option market_cap_trigger (nsl_marketCap s), fa_jitterMs = None,
        fa_feeJitterBps = None, fa_precheckRequired = nsl_precheckRequired s,
        fa_requireConfirmation = nsl_requireConfirmation s,
        fa_skipIfTokenBalancePositive = False, fa_attemptCount = 0,
        fa_scheduledForMs = None, fa_eligibleAtMs = None, fa_submitStartedAtMs = None,
        fa_submittedAtMs = None, fa_confirmedAtMs = None, fa_provider = None,
        fa_endpointProfile = None, fa_transportType = None, fa_watcherMode = None,
        fa_watcherFallbackReason = None, fa_confirmationSource = None,
        fa_sendObservedSlot = None, fa_confirmedObservedSlot = None,
        fa_confirmedTokenBalanceRaw = None, fa_eligibilityObservedSlot = None,
        fa_slotsToConfirm = None, fa_signature = None, fa_explorerUrl = None,
        fa_endpoint = None, fa_bundleId = None, fa_lastError = None, fa_triggerKey = None,
        fa_orderIndex = 0, fa_preSignedTransactions = [], fa_poolId = None,
        fa_primaryTxIndex = None, fa_timings = default_action_timings\<rparr>"

definition sniper_sell_record :: "nat \<Rightarrow> normalized_follow_sell \<Rightarrow> follow_action_record" where
  "sniper_sell_record index s = with_trigger_key
       \<lparr>fa_actionId = nsl_actionId s, fa_kind = SniperSell,
        fa_walletEnvKey = nsl_walletEnvKey s, fa_state = AQueued, fa_buyAmountSol = None,
        fa_sellPercent = Some (nsl_percent s), fa_submitDelayMs = None,
        fa_targetBlockOffset = nsl_targetBlockOffset s, fa_delayMs = nsl_delayMs s,
        fa_marketCap = map_option market_cap_trigger (nsl_marketCap s), fa_jitterMs = None,
        fa_feeJitterBps = None, fa_precheckRequired = nsl_precheckRequired s,
        fa_requireConfirmation = nsl_requireConfirmation s,
        fa_skipIfTokenBalancePositive = False, fa_attemptCount = 0,
        fa_scheduledForMs = None, fa_eligibleAtMs = None, fa_submitStartedAtMs = None,
        fa_submittedAtMs = None, fa_confirmedAtMs = None, fa_provider = None,
        fa_endpointProfile = None, fa_transportType = None, fa_watcherMode = None,
        fa_watcherFallbackReason = None, fa_confirmationSource = None,
        fa_sendObservedSlot = None, fa_confirmedObservedSlot = None,
        fa_confirmedTokenBalanceRaw = None, fa_eligibilityObservedSlot = None,
        fa_slotsToConfirm = None, fa_signature = None, fa_explorerUrl = None,
        fa_endpoint = None, fa_bundleId = None, fa_lastError = None, fa_triggerKey = None,
        fa_orderIndex = of_nat index, fa_preSignedTransactions = [], fa_poolId = None,
        fa_primaryTxIndex = None, fa_timings = default_action_timings\<rparr>"

definition sniper_sells :: "nat \<times> normalized_follow_snipe \<Rightarrow> follow_action_record list" where
  "sniper_sells = (\<lambda>(index, snipe).
     if \<not> nsn_enabled snipe then []
     else case nsn_postBuySell snipe of
            Some s \<Rightarrow> if nsl_enabled s then [sniper_sell_record index s] else []
          | None \<Rightarrow> [])"

definition build_action_records :: "normalized_follow_launch \<Rightarrow> follow_action_record list" where
  "build_action_records follow =
     map (sniper_buy_record (nl_constraints follow))
       (filter (\<lambda>(_, snipe). nsn_enabled snipe) (List.enumerate 0 (nl_snipes follow)))
     @ (case nl_devAutoSell follow of
          Some s \<Rightarrow> if nsl_enabled s then [dev_auto_sell_record s] else []
        | None \<Rightarrow> [])
     @ concat (map sniper_sells (List.enumerate 0 (nl_snipes follow)))"

section \<open>Responses\<close>

definition follow_job_response ::
  "follow_daemon_health \<Rightarrow> follow_job_record option \<Rightarrow> follow_job_record list
     \<Rightarrow> follow_job_response" where
  "follow_job_response health job jobs =
     \<lparr>fo_schemaVersion = 1, fo_ok = True, fo_job = job, fo_jobs = jobs, fo_health = health\<rparr>"

definition follow_ready_response ::
  "follow_daemon_health \<Rightarrow> string option \<Rightarrow> bool \<Rightarrow> bool \<Rightarrow> string option
     \<Rightarrow> follow_ready_response" where
  "follow_ready_response health watch_endpoint required_websocket ready reason =
     \<lparr>rp_ok = True, rp_ready = ready, rp_watchEndpoint = watch_endpoint,
      rp_requiredWebsocket = required_websocket, rp_reason = reason, rp_health = health\<rparr>"

end
