(* ===== verification/Follow_Store.thy ===== *)
theory Follow_Store
  imports Follow_Contract
begin

text \<open>
  The job store of the follow daemon (\<^verbatim>\<open>launchdeck-engine/src/follow/store.rs\<close>): the state
  held under the write lock and every operation on it. An operation takes the clock reading
  \<^verbatim>\<open>now_ms()\<close> and the outcome of \<^verbatim>\<open>persist\<close> (\<^term>\<open>None\<close> when the state file was
  written, the error text otherwise) and returns its result beside the new state; like the
  code it has already changed the state when persisting fails.
\<close>

section \<open>Results and searching\<close>

datatype follow_error =
    Conflicting_Reserve string
  | Serialize_Failed
  | Unknown_Job string
  | Mint_Changed string string string
  | Signature_Changed string string string
  | Creator_Changed string string string
  | Unknown_Action string
  | Persist_Failed string

type_synonym 'a store_result = "(follow_error + 'a) \<times> follow_daemon_state_file"

type_synonym persist_outcome = "string option"

definition after_persist :: "persist_outcome \<Rightarrow> 'a \<Rightarrow> follow_error + 'a" where
  "after_persist p a = (case p of None \<Rightarrow> Inr a | Some e \<Rightarrow> Inl (Persist_Failed e))"

text \<open>\<^verbatim>\<open>iter_mut().find(p)\<close> followed by a change of the element found.\<close>

fun update_first :: "('a \<Rightarrow> bool) \<Rightarrow> ('a \<Rightarrow> 'a) \<Rightarrow> 'a list \<Rightarrow> 'a list" where
  "update_first p f [] = []"
| "update_first p f (x # xs) = (if p x then f x # xs else x # update_first p f xs)"

definition has_trace :: "string \<Rightarrow> follow_job_record \<Rightarrow> bool" where
  "has_trace t job \<longleftrightarrow> fj_traceId job = t"

definition has_action :: "string \<Rightarrow> follow_action_record \<Rightarrow> bool" where
  "has_action i a \<longleftrightarrow> fa_actionId a = i"

definition get_job :: "string \<Rightarrow> follow_daemon_state_file \<Rightarrow> follow_job_record option" where
  "get_job t st = List.find (has_trace t) (fs_jobs st)"

definition put_job ::
  "string \<Rightarrow> follow_job_record \<Rightarrow> follow_daemon_state_file \<Rightarrow> follow_daemon_state_file" where
  "put_job t job st = st\<lparr>fs_jobs := update_first (has_trace t) (\<lambda>_. job) (fs_jobs st)\<rparr>"

section \<open>Health\<close>

definition default_state :: "string \<Rightarrow> u128 \<Rightarrow> string \<Rightarrow> follow_daemon_state_file" where
  "default_state version now state_path =
     \<lparr>fs_schemaVersion = 1,
      fs_health =
        \<lparr>fh_running = False, fh_statePath = state_path, fh_version = version, fh_pid = None,
         fh_startedAtMs = None, fh_controlTransport = ''local-http'', fh_controlUrl = None,
         fh_updatedAtMs = now, fh_queueDepth = 0, fh_activeJobs = 0, fh_maxActiveJobs = None,
         fh_maxConcurrentCompiles = None, fh_maxConcurrentSends = None,
         fh_availableCompileSlots = None, fh_availableSendSlots = None,
         fh_slotWatcher = WHealthy, fh_slotWatcherMode = None,
         fh_signatureWatcher = WHealthy, fh_signatureWatcherMode = None,
         fh_marketWatcher = WHealthy, fh_marketWatcherMode = None,
         fh_lastError = None, fh_watchEndpoint = None\<rparr>,
      fs_jobs = []\<rparr>"

text \<open>
  The state file is read as text and parsed by \<^verbatim>\<open>serde_json\<close>, a parameter; a file that
  cannot be read or parsed gives the default state.
\<close>

definition load_or_default ::
  "(string \<Rightarrow> follow_daemon_state_file option) \<Rightarrow> string \<Rightarrow> u128 \<Rightarrow> string \<Rightarrow> string option
     \<Rightarrow> follow_daemon_state_file" where
  "load_or_default parse version now state_path contents =
     (let state = (case contents of
                     Some raw \<Rightarrow> (case parse raw of
                         Some st \<Rightarrow> st
                       | None \<Rightarrow> default_state version now state_path)
                   | None \<Rightarrow> default_state version now state_path)
      in state\<lparr>fs_jobs := map canonicalize_job_trigger_keys (fs_jobs state)\<rparr>)"

definition active_job_count :: "follow_job_record list \<Rightarrow> nat" where
  "active_job_count jobs =
     length (filter (\<lambda>job. fj_state job \<in> {JReserved, JArmed, JRunning}) jobs)"

definition has_live_watcher_work :: "follow_job_record list \<Rightarrow> bool" where
  "has_live_watcher_work jobs = list_ex (\<lambda>job. fj_state job \<in> {JArmed, JRunning}) jobs"

definition normalize_idle_health :: "follow_daemon_state_file \<Rightarrow> follow_daemon_state_file" where
  "normalize_idle_health st =
     (if has_live_watcher_work (fs_jobs st) then st
      else st\<lparr>fs_health := (fs_health st)
                \<lparr>fh_slotWatcher := WHealthy, fh_slotWatcherMode := None,
                 fh_signatureWatcher := WHealthy, fh_signatureWatcherMode := None,
                 fh_marketWatcher := WHealthy, fh_marketWatcherMode := None,
                 fh_watchEndpoint := None, fh_lastError := None\<rparr>\<rparr>)"

definition refresh_counts :: "follow_daemon_state_file \<Rightarrow> follow_daemon_state_file" where
  "refresh_counts st =
     normalize_idle_health
       (st\<lparr>fs_health := (fs_health st)\<lparr>fh_queueDepth := length (fs_jobs st),
                                       fh_activeJobs := active_job_count (fs_jobs st)\<rparr>\<rparr>)"

definition touch_health :: "u128 \<Rightarrow> follow_daemon_state_file \<Rightarrow> follow_daemon_state_file" where
  "touch_health now st = st\<lparr>fs_health := (fs_health st)\<lparr>fh_updatedAtMs := now\<rparr>\<rparr>"

text \<open>Stamping the health and refreshing the counts, the last step of most operations.\<close>

definition settle :: "u128 \<Rightarrow> follow_daemon_state_file \<Rightarrow> follow_daemon_state_file" where
  "settle now st = refresh_counts (touch_health now st)"

section \<open>Reserving a job\<close>

definition requested_actions :: "follow_reserve_request \<Rightarrow> follow_action_record list" where
  "requested_actions r =
     map canonicalize_action_trigger_key
       (if rr_prebuiltActions r = [] then build_action_records (rr_followLaunch r)
        else rr_prebuiltActions r)"

definition requested_fingerprint :: "'v follow_serde \<Rightarrow> follow_reserve_request \<Rightarrow> string option" where
  "requested_fingerprint ser r =
     stable_reserve_payload_fingerprint ser (map stable_action_identity (requested_actions r))
       (rr_deferredSetupTransactions r)"

definition existing_fingerprint :: "'v follow_serde \<Rightarrow> follow_job_record \<Rightarrow> string option" where
  "existing_fingerprint ser job =
     (if fj_reservedPayloadFingerprint job = []
      then stable_reserve_payload_fingerprint ser (map stable_action_identity (fj_actions job))
             (case fj_deferredSetup job of Some s \<Rightarrow> ds_transactions s | None \<Rightarrow> [])
      else Some (fj_reservedPayloadFingerprint job))"

definition reserve_conflict ::
  "'v follow_serde \<Rightarrow> follow_reserve_request \<Rightarrow> follow_job_record \<Rightarrow> string \<Rightarrow> string \<Rightarrow> bool" where
  "reserve_conflict ser r job existing_print requested_print \<longleftrightarrow>
     fj_launchpad job \<noteq> rr_launchpad r
     \<or> fj_quoteAsset job \<noteq> rr_quoteAsset r
     \<or> fj_launchMode job \<noteq> rr_launchMode r
     \<or> fj_selectedWalletKey job \<noteq> rr_selectedWalletKey r
     \<or> fj_tokenMayhemMode job \<noteq> rr_tokenMayhemMode r
     \<or> fj_jitoTipAccount job \<noteq> rr_jitoTipAccount r
     \<or> fj_buyTipAccount job \<noteq> rr_buyTipAccount r
     \<or> fj_sellTipAccount job \<noteq> rr_sellTipAccount r
     \<or> fj_preferPostSetupCreatorVaultForSell job \<noteq> rr_preferPostSetupCreatorVaultForSell r
     \<or> \<not> json_values_equal (launch_value ser) (fj_followLaunch job) (rr_followLaunch r)
     \<or> \<not> json_values_equal (execution_value ser) (fj_execution job) (rr_execution r)
     \<or> \<not> json_values_equal (bags_value ser) (fj_bagsLaunch job) (rr_bagsLaunch r)
     \<or> existing_print \<noteq> requested_print"

definition default_job_timings :: "string \<Rightarrow> follow_job_timings" where
  "default_job_timings benchmark_mode =
     \<lparr>jt_benchmarkMode = Some benchmark_mode, jt_reserveMs = None, jt_armMs = None,
      jt_cachePrepMs = None, jt_watcherWaitMs = None, jt_eligibilityMs = None,
      jt_triggerCompilePrepMs = None, jt_postEligibilityToSubmitMs = None,
      jt_preSignedExpiryCheckMs = None, jt_compileMs = None, jt_submitMs = None,
      jt_confirmMs = None, jt_executionTotalMs = None, jt_reportSyncMs = None,
      jt_followSnapshotFlushMs = None, jt_reportingOverheadMs = None\<rparr>"

definition new_job ::
  "string \<Rightarrow> u128 \<Rightarrow> follow_reserve_request \<Rightarrow> string \<Rightarrow> follow_job_record" where
  "new_job benchmark_mode now r fingerprint =
     \<lparr>fj_schemaVersion = 2, fj_traceId = rr_traceId r,
      fj_jobId = ''follow-'' @ filter (\<lambda>c. c \<noteq> CHR ''-'') (rr_traceId r),
      fj_state = JReserved, fj_createdAtMs = now, fj_updatedAtMs = now,
      fj_launchpad = rr_launchpad r, fj_quoteAsset = rr_quoteAsset r,
      fj_launchMode = rr_launchMode r, fj_selectedWalletKey = rr_selectedWalletKey r,
      fj_execution = rr_execution r, fj_tokenMayhemMode = rr_tokenMayhemMode r,
      fj_wrapperDefaultFeeBps = rr_wrapperDefaultFeeBps r,
      fj_jitoTipAccount = rr_jitoTipAccount r, fj_buyTipAccount = rr_buyTipAccount r,
      fj_sellTipAccount = rr_sellTipAccount r,
      fj_preferPostSetupCreatorVaultForSell = rr_preferPostSetupCreatorVaultForSell r,
      fj_mint = None, fj_launchCreator = None, fj_launchSignature = None,
      fj_launchTransactionSubscribeAccountRequired = [], fj_submitAtMs = None,
      fj_sendObservedSlot = None, fj_confirmedObservedSlot = None, fj_reportPath = None,
      fj_transportPlan = None, fj_bagsLaunch = rr_bagsLaunch r,
      fj_followLaunch = rr_followLaunch r, fj_actions = requested_actions r,
      fj_reservedPayloadFingerprint = fingerprint,
      fj_deferredSetup =
        (if rr_deferredSetupTransactions r = [] then None
         else Some \<lparr>ds_transactions = rr_deferredSetupTransactions r, ds_state = SQueued,
                    ds_attemptCount = 0, ds_signatures = [], ds_submittedAtMs = None,
                    ds_confirmedAtMs = None, ds_lastError = None\<rparr>),
      fj_cancelRequested = False, fj_lastError = None,
      fj_timings = default_job_timings benchmark_mode\<rparr>"

definition reserve_job ::
  "'v follow_serde \<Rightarrow> string \<Rightarrow> u128 \<Rightarrow> persist_outcome \<Rightarrow> follow_reserve_request
     \<Rightarrow> follow_daemon_state_file \<Rightarrow> follow_job_record store_result" where
  "reserve_job ser benchmark_mode now p r st =
     (case requested_fingerprint ser r of
        None \<Rightarrow> (Inl Serialize_Failed, st)
      | Some requested \<Rightarrow>
     (case get_job (rr_traceId r) st of
        Some existing \<Rightarrow>
          (case existing_fingerprint ser existing of
             None \<Rightarrow> (Inl Serialize_Failed, st)
           | Some existing_print \<Rightarrow>
               if reserve_conflict ser r existing existing_print requested
               then (Inl (Conflicting_Reserve (rr_traceId r)), st)
               else
                 let job = (if fj_reservedPayloadFingerprint existing = []
                            then existing\<lparr>fj_reservedPayloadFingerprint := requested\<rparr>
                            else existing)\<lparr>fj_updatedAtMs := now\<rparr>
                 in (after_persist p job, settle now (put_job (rr_traceId r) job st)))
      | None \<Rightarrow>
          let job = new_job benchmark_mode now r requested
          in (after_persist p job, settle now (st\<lparr>fs_jobs := fs_jobs st @ [job]\<rparr>))))"

section \<open>Arming a job\<close>

definition changed :: "string option \<Rightarrow> string \<Rightarrow> bool" where
  "changed existing requested = (case existing of Some x \<Rightarrow> x \<noteq> requested | None \<Rightarrow> False)"

definition arm_conflict :: "follow_arm_request \<Rightarrow> follow_job_record \<Rightarrow> follow_error option" where
  "arm_conflict r job =
     (if changed (fj_mint job) (ar_mint r)
      then Some (Mint_Changed (ar_traceId r) (the (fj_mint job)) (ar_mint r))
      else if changed (fj_launchSignature job) (ar_launchSignature r)
      then Some (Signature_Changed (ar_traceId r) (the (fj_launchSignature job))
                   (ar_launchSignature r))
      else if changed (fj_launchCreator job) (ar_launchCreator r)
      then Some (Creator_Changed (ar_traceId r) (the (fj_launchCreator job))
                   (ar_launchCreator r))
      else None)"

text \<open>The launch metadata of the request, and whether any field was written.\<close>

definition touch_when ::
  "(follow_job_record \<Rightarrow> bool) \<Rightarrow> (follow_job_record \<Rightarrow> follow_job_record)
     \<Rightarrow> follow_job_record \<times> bool \<Rightarrow> follow_job_record \<times> bool" where
  "touch_when c f = (\<lambda>(job, touched). if c job then (f job, True) else (job, touched))"

definition arm_metadata ::
  "follow_arm_request \<Rightarrow> follow_job_record \<Rightarrow> follow_job_record \<times> bool" where
  "arm_metadata r job =
     (let s = (job, False);
          s = touch_when (\<lambda>j. fj_mint j = None) (\<lambda>j. j\<lparr>fj_mint := Some (ar_mint r)\<rparr>) s;
          s = touch_when (\<lambda>j. fj_launchCreator j = None)
                (\<lambda>j. j\<lparr>fj_launchCreator := Some (ar_launchCreator r)\<rparr>) s;
          s = touch_when (\<lambda>j. fj_launchSignature j = None)
                (\<lambda>j. j\<lparr>fj_launchSignature := Some (ar_launchSignature r)\<rparr>) s;
          s = touch_when (\<lambda>j. ar_launchTransactionSubscribeAccountRequired r \<noteq> [])
                (\<lambda>j. j\<lparr>fj_launchTransactionSubscribeAccountRequired :=
                         ar_launchTransactionSubscribeAccountRequired r\<rparr>) s;
          s = touch_when (\<lambda>j. fj_submitAtMs j = None)
                (\<lambda>j. j\<lparr>fj_submitAtMs := Some (ar_submitAtMs r)\<rparr>) s;
          s = touch_when (\<lambda>j. ar_sendObservedSlot r \<noteq> None)
                (\<lambda>j. j\<lparr>fj_sendObservedSlot := ar_sendObservedSlot r\<rparr>) s;
          s = touch_when (\<lambda>j. ar_confirmedObservedSlot r \<noteq> None)
                (\<lambda>j. j\<lparr>fj_confirmedObservedSlot := ar_confirmedObservedSlot r\<rparr>) s
      in touch_when (\<lambda>j. ar_reportPath r \<noteq> None) (\<lambda>j. j\<lparr>fj_reportPath := ar_reportPath r\<rparr>) s)"

definition job_state_terminal :: "follow_job_state \<Rightarrow> bool" where
  "job_state_terminal s \<longleftrightarrow> s \<in> {JCompleted, JCompletedWithFailures, JCancelled, JFailed}"

definition arm_action :: "u128 \<Rightarrow> follow_action_record \<Rightarrow> follow_action_record" where
  "arm_action submit_at_ms a =
     (let a = (if fa_state a \<in> {AQueued, AArmed} then a\<lparr>fa_state := AArmed\<rparr> else a)
      in if fa_scheduledForMs a = None
         then case fa_submitDelayMs a of
                Some delay_ms \<Rightarrow>
                  a\<lparr>fa_scheduledForMs := Some (sat_add submit_at_ms (ucast delay_ms))\<rparr>
              | None \<Rightarrow>
             (case fa_delayMs a of
                Some delay_ms \<Rightarrow>
                  a\<lparr>fa_scheduledForMs := Some (sat_add submit_at_ms (ucast delay_ms))\<rparr>
              | None \<Rightarrow> a)
         else a)"

definition armed_job :: "u128 \<Rightarrow> follow_arm_request \<Rightarrow> follow_job_record \<Rightarrow> follow_job_record" where
  "armed_job now r job =
     job\<lparr>fj_state := (if fj_state job = JRunning then JRunning else JArmed),
         fj_updatedAtMs := now,
         fj_transportPlan := Some (ar_transportPlan r),
         fj_actions := map (arm_action (ar_submitAtMs r)) (fj_actions job)\<rparr>"

text \<open>
  A terminal job only takes the launch metadata: its state stays, the health and the
  counts are not touched, and nothing is persisted when no field was written.
\<close>

definition arm_job ::
  "u128 \<Rightarrow> persist_outcome \<Rightarrow> follow_arm_request \<Rightarrow> follow_daemon_state_file
     \<Rightarrow> follow_job_record store_result" where
  "arm_job now p r st =
     (case get_job (ar_traceId r) st of
        None \<Rightarrow> (Inl (Unknown_Job (ar_traceId r)), st)
      | Some job \<Rightarrow>
     (case arm_conflict r job of
        Some e \<Rightarrow> (Inl e, st)
      | None \<Rightarrow>
          let (job, touched) = arm_metadata r job
          in if job_state_terminal (fj_state job)
             then let job = (if touched then job\<lparr>fj_updatedAtMs := now\<rparr> else job)
                  in (if touched then after_persist p job else Inr job,
                      put_job (ar_traceId r) job st)
             else let job = armed_job now r job
                  in (after_persist p job, settle now (put_job (ar_traceId r) job st))))"

section \<open>Cancelling\<close>

definition cancel_action :: "string option \<Rightarrow> follow_action_record \<Rightarrow> follow_action_record" where
  "cancel_action note a =
     (if fa_state a \<notin> {AConfirmed, AStopped, AFailed, ACancelled}
      then a\<lparr>fa_state := ACancelled, fa_lastError := note\<rparr> else a)"

definition cancel_whole_job :: "string option \<Rightarrow> follow_job_record \<Rightarrow> follow_job_record" where
  "cancel_whole_job note job =
     job\<lparr>fj_cancelRequested := True, fj_state := JCancelled,
         fj_actions := map (cancel_action note) (fj_actions job)\<rparr>"

definition cancel_job ::
  "u128 \<Rightarrow> persist_outcome \<Rightarrow> follow_cancel_request \<Rightarrow> follow_daemon_state_file
     \<Rightarrow> follow_job_record store_result" where
  "cancel_job now p r st =
     (case get_job (cr_traceId r) st of
        None \<Rightarrow> (Inl (Unknown_Job (cr_traceId r)), st)
      | Some job \<Rightarrow>
          let job = job\<lparr>fj_updatedAtMs := now\<rparr>;
              job = (case cr_actionId r of
                       Some action_id \<Rightarrow>
                         job\<lparr>fj_actions :=
                               update_first (has_action action_id)
                                 (\<lambda>a. a\<lparr>fa_state := ACancelled, fa_lastError := cr_note r\<rparr>)
                                 (fj_actions job)\<rparr>
                     | None \<Rightarrow> cancel_whole_job (cr_note r) job)
          in (after_persist p job, settle now (put_job (cr_traceId r) job st)))"

definition cancel_live_job ::
  "u128 \<Rightarrow> string option \<Rightarrow> follow_job_record \<Rightarrow> follow_job_record" where
  "cancel_live_job now note job =
     (if job_state_terminal (fj_state job) then job
      else cancel_whole_job note (job\<lparr>fj_updatedAtMs := now\<rparr>))"

definition cancel_all_jobs ::
  "u128 \<Rightarrow> persist_outcome \<Rightarrow> string option \<Rightarrow> follow_daemon_state_file
     \<Rightarrow> follow_job_record list store_result" where
  "cancel_all_jobs now p note st =
     (let live = filter (\<lambda>job. \<not> job_state_terminal (fj_state job)) (fs_jobs st)
      in (after_persist p (map (cancel_live_job now note) live),
          settle now (st\<lparr>fs_jobs := map (cancel_live_job now note) (fs_jobs st)\<rparr>)))"

section \<open>Health and supervision\<close>

definition update_health ::
  "u128 \<Rightarrow> persist_outcome \<Rightarrow> string option \<Rightarrow> follow_watcher_health \<Rightarrow> string option
     \<Rightarrow> follow_watcher_health \<Rightarrow> string option \<Rightarrow> follow_watcher_health \<Rightarrow> string option
     \<Rightarrow> string option \<Rightarrow> follow_daemon_state_file \<Rightarrow> unit store_result" where
  "update_health now p watch_endpoint slot slot_mode signature signature_mode market market_mode
       last_error st =
     (after_persist p (),
      st\<lparr>fs_health := (fs_health st)
           \<lparr>fh_updatedAtMs := now, fh_watchEndpoint := watch_endpoint,
            fh_slotWatcher := slot, fh_slotWatcherMode := slot_mode,
            fh_signatureWatcher := signature, fh_signatureWatcherMode := signature_mode,
            fh_marketWatcher := market, fh_marketWatcherMode := market_mode,
            fh_lastError := last_error\<rparr>\<rparr>)"

definition update_supervision ::
  "u128 \<Rightarrow> persist_outcome \<Rightarrow> bool \<Rightarrow> u32 option \<Rightarrow> string option \<Rightarrow> string option
     \<Rightarrow> string option \<Rightarrow> follow_daemon_state_file \<Rightarrow> unit store_result" where
  "update_supervision now p running pid control_transport control_url last_error st =
     (let h = (fs_health st)\<lparr>fh_running := running, fh_pid := pid\<rparr>;
          h = (if running
               then h\<lparr>fh_startedAtMs := Some (unwrap_or now (fh_startedAtMs h))\<rparr> else h);
          h = (case control_transport of
                 Some value \<Rightarrow> h\<lparr>fh_controlTransport := value\<rparr> | None \<Rightarrow> h);
          h = (if control_url \<noteq> None then h\<lparr>fh_controlUrl := control_url\<rparr> else h);
          h = h\<lparr>fh_lastError := last_error, fh_updatedAtMs := now\<rparr>
      in (after_persist p (), refresh_counts (st\<lparr>fs_health := h\<rparr>)))"

section \<open>Restart\<close>

definition restart_notice :: string where
  "restart_notice = ''Follow daemon restarted while the action was in flight; automatic resend was skipped to avoid duplication.''"

definition in_flight :: "follow_action_record \<Rightarrow> bool" where
  "in_flight a \<longleftrightarrow> fa_state a \<in> {ARunning, ASent}"

definition restart_action :: "follow_action_record \<Rightarrow> follow_action_record" where
  "restart_action a =
     (if in_flight a then a\<lparr>fa_state := AFailed, fa_lastError := Some restart_notice\<rparr> else a)"

definition should_resume :: "follow_job_record \<Rightarrow> bool" where
  "should_resume job \<longleftrightarrow> fj_state job \<in> {JArmed, JRunning} \<and> \<not> fj_cancelRequested job"

definition restart_job :: "u128 \<Rightarrow> follow_job_record \<Rightarrow> follow_job_record" where
  "restart_job now job =
     (let job = (if fj_state job = JRunning then job\<lparr>fj_state := JArmed\<rparr> else job);
          touched = list_ex in_flight (fj_actions job);
          job = job\<lparr>fj_actions := map restart_action (fj_actions job)\<rparr>
      in if touched then job\<lparr>fj_updatedAtMs := now\<rparr> else job)"

definition recover_jobs_for_restart ::
  "u128 \<Rightarrow> persist_outcome \<Rightarrow> follow_daemon_state_file \<Rightarrow> follow_job_record list store_result" where
  "recover_jobs_for_restart now p st =
     (let kept = filter (\<lambda>job. \<not> should_prune_job_on_restart job now) (fs_jobs st);
          recovered = map (restart_job now) (filter should_resume kept)
      in (after_persist p recovered,
          settle now (st\<lparr>fs_jobs := map (restart_job now) kept\<rparr>)))"

definition clear_jobs_for_restart ::
  "u128 \<Rightarrow> persist_outcome \<Rightarrow> follow_daemon_state_file \<Rightarrow> nat store_result" where
  "clear_jobs_for_restart now p st =
     (after_persist p (length (fs_jobs st)), settle now (st\<lparr>fs_jobs := []\<rparr>))"

section \<open>Updates by the daemon\<close>

text \<open>The callers' closures are the arguments \<open>mutator\<close>.\<close>

definition update_action ::
  "u128 \<Rightarrow> persist_outcome \<Rightarrow> string \<Rightarrow> string
     \<Rightarrow> (follow_action_record \<Rightarrow> follow_action_record) \<Rightarrow> follow_daemon_state_file
     \<Rightarrow> follow_job_record store_result" where
  "update_action now p t action_id mutator st =
     (let st = touch_health now st
      in case get_job t st of
           None \<Rightarrow> (Inl (Unknown_Job t), st)
         | Some job \<Rightarrow>
             if \<not> list_ex (has_action action_id) (fj_actions job)
             then (Inl (Unknown_Action action_id), st)
             else let job = job\<lparr>fj_actions :=
                                  update_first (has_action action_id) mutator (fj_actions job),
                                fj_updatedAtMs := now\<rparr>
                  in (after_persist p job, refresh_counts (put_job t job st)))"

definition update_job ::
  "u128 \<Rightarrow> persist_outcome \<Rightarrow> string \<Rightarrow> (follow_job_record \<Rightarrow> follow_job_record)
     \<Rightarrow> follow_daemon_state_file \<Rightarrow> follow_job_record store_result" where
  "update_job now p t mutator st =
     (let st = touch_health now st
      in case get_job t st of
           None \<Rightarrow> (Inl (Unknown_Job t), st)
         | Some job \<Rightarrow>
             let job = (mutator job)\<lparr>fj_updatedAtMs := now\<rparr>
             in (after_persist p job, refresh_counts (put_job t job st)))"

definition finalize_job_state ::
  "u128 \<Rightarrow> persist_outcome \<Rightarrow> string \<Rightarrow> follow_job_state \<Rightarrow> string option
     \<Rightarrow> follow_daemon_state_file \<Rightarrow> follow_job_record store_result" where
  "finalize_job_state now p t state_value last_error st =
     (let st = touch_health now st
      in case get_job t st of
           None \<Rightarrow> (Inl (Unknown_Job t), st)
         | Some job \<Rightarrow>
             let job = job\<lparr>fj_state := state_value, fj_lastError := last_error,
                           fj_updatedAtMs := now\<rparr>
             in (after_persist p job, refresh_counts (put_job t job st)))"

end
