(* ===== verification/Follow_Samples.thy ===== *)
theory Follow_Samples
  imports Follow_Store
begin

text \<open>
  A small follow launch on which the theorems of the follow theories are applied: one sniper
  buy two slots after the launch, its sell at the confirmation slot of the buy, and one
  deferred setup transaction.
\<close>

section \<open>Configuration and requests\<close>

definition sample_serde :: "string follow_serde" where
  "sample_serde =
     \<lparr>identity_text = (\<lambda>i. Some (CHR ''['' # concat (map si_actionId (sp_actions i)))),
      launch_value = (\<lambda>l. Some (nl_source l)), execution_value = (\<lambda>e. Some (ne_provider e)),
      bags_value = (\<lambda>_. Some ''null'')\<rparr>"

definition sample_execution :: normalized_execution where
  "sample_execution =
     \<lparr>ne_simulate = False, ne_send = True, ne_txFormat = '''', ne_commitment = '''',
       ne_skipPreflight = False, ne_trackSendBlockHeight = False, ne_provider = ''rpc'',
       ne_endpointProfile = '''', ne_mevProtect = False, ne_mevMode = '''',
       ne_jitodontfront = False, ne_autoGas = False, ne_autoMode = '''',
       ne_priorityFeeSol = '''', ne_tipSol = '''', ne_maxPriorityFeeSol = '''',
       ne_maxTipSol = '''', ne_buyProvider = '''', ne_buyEndpointProfile = '''',
       ne_buyMevProtect = False, ne_buyMevMode = '''', ne_buyJitodontfront = False,
       ne_buyAutoGas = False, ne_buyAutoMode = '''', ne_buyPriorityFeeSol = '''',
       ne_buyTipSol = '''', ne_buySlippagePercent = '''', ne_buyMaxPriorityFeeSol = '''',
       ne_buyMaxTipSol = '''', ne_buyFundingPolicy = '''', ne_sellAutoGas = False,
       ne_sellAutoMode = '''', ne_sellProvider = '''', ne_sellEndpointProfile = '''',
       ne_sellMevProtect = False, ne_sellMevMode = '''', ne_sellJitodontfront = False,
       ne_sellPriorityFeeSol = '''', ne_sellTipSol = '''', ne_sellSlippagePercent = '''',
       ne_sellMaxPriorityFeeSol = '''', ne_sellMaxTipSol = '''',
       ne_sellSettlementPolicy = '''', ne_sellSettlementAsset = ''''\<rparr>"

definition sample_sell :: normalized_follow_sell where
  "sample_sell =
     \<lparr>nsl_actionId = ''sell'', nsl_enabled = True, nsl_walletEnvKey = ''w'',
       nsl_percent = 100, nsl_delayMs = None, nsl_targetBlockOffset = Some 0,
       nsl_marketCap = None, nsl_precheckRequired = False, nsl_requireConfirmation = False\<rparr>"

definition sample_snipe :: normalized_follow_snipe where
  "sample_snipe =
     \<lparr>nsn_actionId = ''buy'', nsn_enabled = True, nsn_walletEnvKey = ''w'',
       nsn_buyAmountSol = ''0.1'', nsn_submitWithLaunch = False,
       nsn_retryOnFailure = False, nsn_submitDelayMs = 0, nsn_targetBlockOffset = Some 2,
       nsn_jitterMs = 0, nsn_feeJitterBps = 0, nsn_skipIfTokenBalancePositive = False,
       nsn_postBuySell = Some sample_sell\<rparr>"

definition sample_launch :: normalized_follow_launch where
  "sample_launch =
     \<lparr>nl_enabled = True, nl_source = ''followLaunch'', nl_schemaVersion = 1,
      nl_snipes = [sample_snipe], nl_devAutoSell = None,
      nl_constraints = \<lparr>nc_pumpOnly = True, nc_retryBudget = 1, nc_requireDaemonReadiness = True,
                        nc_blockOnRequiredPrechecks = False\<rparr>\<rparr>"

definition sample_transaction :: compiled_transaction where
  "sample_transaction =
     \<lparr>ct_label = ''agent-setup'', ct_format = '''', ct_blockhash = '''',
       ct_lastValidBlockHeight = 0, ct_serializedBase64 = '''', ct_signature = None,
       ct_lookupTablesUsed = [], ct_computeUnitLimit = None,
       ct_computeUnitPriceMicroLamports = None, ct_inlineTipLamports = None,
       ct_inlineTipAccount = None\<rparr>"

definition sample_reserve :: follow_reserve_request where
  "sample_reserve =
     \<lparr>rr_traceId = ''t-1'', rr_launchpad = ''pump'', rr_quoteAsset = '''',
       rr_launchMode = '''', rr_selectedWalletKey = '''', rr_followLaunch = sample_launch,
       rr_execution = sample_execution, rr_tokenMayhemMode = False,
       rr_wrapperDefaultFeeBps = 10, rr_jitoTipAccount = '''', rr_buyTipAccount = '''',
       rr_sellTipAccount = '''', rr_preferPostSetupCreatorVaultForSell = False,
       rr_bagsLaunch = None, rr_prebuiltActions = [],
       rr_deferredSetupTransactions = [sample_transaction]\<rparr>"

definition sample_plan :: transport_plan where
  "sample_plan =
     \<lparr>tp_requestedProvider = ''rpc'', tp_resolvedProvider = '''',
       tp_requestedEndpointProfile = '''', tp_resolvedEndpointProfile = '''',
       tp_executionClass = '''', tp_transportType = '''', tp_ordering = '''',
       tp_verified = False, tp_supportsBundle = False, tp_requiresInlineTip = False,
       tp_requiresPriorityFee = False, tp_separateTipTransaction = False,
       tp_skipPreflight = False, tp_maxRetries = 0, tp_standardRpcSubmitEndpoints = [],
       tp_helloMoonApiKeyConfigured = False, tp_helloMoonMevProtect = False,
       tp_helloMoonQuicEndpoint = None, tp_helloMoonQuicEndpoints = [],
       tp_helloMoonBundleEndpoint = None, tp_helloMoonBundleEndpoints = [],
       tp_heliusSenderEndpoint = None, tp_heliusSenderEndpoints = [],
       tp_watchEndpoint = None, tp_watchEndpoints = [], tp_jitoBundleEndpoints = [],
       tp_warnings = []\<rparr>"

definition sample_arm :: follow_arm_request where
  "sample_arm =
     \<lparr>ar_traceId = ''t-1'', ar_mint = ''mint'', ar_launchCreator = ''dev'',
       ar_launchSignature = ''sig'', ar_launchTransactionSubscribeAccountRequired = [],
       ar_submitAtMs = 1000, ar_sendObservedSlot = None, ar_confirmedObservedSlot = None,
       ar_reportPath = None, ar_transportPlan = sample_plan\<rparr>"

section \<open>The store after reserving and arming\<close>

definition sample_start :: follow_daemon_state_file where
  "sample_start = default_state ''0.1.0'' 0 ''state.json''"

definition sample_reserved :: follow_daemon_state_file where
  "sample_reserved = snd (reserve_job sample_serde ''off'' 10 None sample_reserve sample_start)"

definition sample_armed :: follow_daemon_state_file where
  "sample_armed = snd (arm_job 20 None sample_arm sample_reserved)"

definition sample_job :: follow_job_record where
  "sample_job = armed_job 20 sample_arm
     (fst (arm_metadata sample_arm (new_job ''off'' 10 sample_reserve ''[buysell'')))"

definition sample_buy_action :: follow_action_record where
  "sample_buy_action =
     canonicalize_action_trigger_key (sniper_buy_record (nl_constraints sample_launch) (0, sample_snipe))"

definition sample_sell_action :: follow_action_record where
  "sample_sell_action = canonicalize_action_trigger_key (sniper_sell_record 0 sample_sell)"

lemma sample_actions: "requested_actions sample_reserve = [sample_buy_action, sample_sell_action]"
  by (simp add: requested_actions_def sample_reserve_def build_action_records_def sample_launch_def
      sample_snipe_def sniper_sells_def sample_sell_def sample_buy_action_def sample_sell_action_def)

lemma canonicalize_simps [simp]:
  "fa_actionId (canonicalize_action_trigger_key a) = fa_actionId a"
  "fa_state (canonicalize_action_trigger_key a) = fa_state a"
  by (simp_all add: canonicalize_action_trigger_key_def)

lemma sample_action_simps [simp]:
  "fa_actionId sample_buy_action = ''buy''" "fa_actionId sample_sell_action = ''sell''"
  "fa_state sample_buy_action = AQueued" "fa_state sample_sell_action = AQueued"
  by (simp_all add: sample_buy_action_def sample_sell_action_def sniper_buy_record_def
      sniper_sell_record_def with_trigger_key_def sample_snipe_def sample_sell_def)

lemma sample_fingerprint: "requested_fingerprint sample_serde sample_reserve = Some ''[buysell''"
  by (simp add: requested_fingerprint_def stable_reserve_payload_fingerprint_def sample_actions
      sample_serde_def stable_action_identity_def)

lemma sample_trace [simp]: "rr_traceId sample_reserve = ''t-1''" "ar_traceId sample_arm = ''t-1''"
  by (simp_all add: sample_reserve_def sample_arm_def)

lemma sample_start_empty [simp]: "get_job t sample_start = None"
  by (simp add: sample_start_def default_state_def get_job_def)

lemma sample_reserved_jobs:
  "fs_jobs sample_reserved = [new_job ''off'' 10 sample_reserve ''[buysell'']"
  by (simp add: sample_reserved_def reserve_job_def sample_fingerprint Let_def settle_def
      refresh_counts_def normalize_idle_health_def touch_health_def)
    (simp add: sample_start_def default_state_def)

lemma sample_reserved_job:
  "get_job ''t-1'' sample_reserved = Some (new_job ''off'' 10 sample_reserve ''[buysell'')"
  by (simp add: get_job_def sample_reserved_jobs has_trace_def new_job_def)

lemma new_job_simps [simp]:
  "fj_traceId (new_job b n r f) = rr_traceId r" "fj_state (new_job b n r f) = JReserved"
  "fj_mint (new_job b n r f) = None" "fj_launchCreator (new_job b n r f) = None"
  "fj_launchSignature (new_job b n r f) = None" "fj_cancelRequested (new_job b n r f) = False"
  "fj_actions (new_job b n r f) = requested_actions r"
  "fj_preferPostSetupCreatorVaultForSell (new_job b n r f) = rr_preferPostSetupCreatorVaultForSell r"
  "fj_execution (new_job b n r f) = rr_execution r"
  "fj_followLaunch (new_job b n r f) = rr_followLaunch r"
  "fj_launchpad (new_job b n r f) = rr_launchpad r"
  by (simp_all add: new_job_def)

lemma sample_metadata:
  "arm_metadata sample_arm (new_job b n r f)
     = ((new_job b n r f)\<lparr>fj_mint := Some ''mint'', fj_launchCreator := Some ''dev'',
          fj_launchSignature := Some ''sig'', fj_submitAtMs := Some 1000\<rparr>, True)"
  by (simp add: arm_metadata_def touch_when_def sample_arm_def new_job_def Let_def)

lemma sample_armed_jobs: "fs_jobs sample_armed = [sample_job]"
  by (simp add: sample_armed_def arm_job_def sample_reserved_job arm_conflict_def changed_def
      sample_metadata sample_job_def job_state_terminal_def Let_def)
    (simp add: settle_def refresh_counts_def normalize_idle_health_def touch_health_def put_job_def
      sample_reserved_jobs has_trace_def)

lemma sample_job_simps [simp]:
  "fj_traceId sample_job = ''t-1''" "fj_state sample_job = JArmed"
  "fj_mint sample_job = Some ''mint''" "fj_launchCreator sample_job = Some ''dev''"
  "fj_launchSignature sample_job = Some ''sig''" "fj_cancelRequested sample_job = False"
  "fj_updatedAtMs sample_job = 20" "fj_launchpad sample_job = ''pump''"
  "fj_preferPostSetupCreatorVaultForSell sample_job = False"
  "fj_execution sample_job = sample_execution" "fj_followLaunch sample_job = sample_launch"
  by (simp_all add: sample_job_def sample_metadata armed_job_def) (simp_all add: sample_reserve_def)

lemma sample_job_actions:
  "fj_actions sample_job = map (arm_action 1000) [sample_buy_action, sample_sell_action]"
  by (simp add: sample_job_def sample_metadata armed_job_def sample_actions)
    (simp add: sample_arm_def)

lemma sample_armed_job: "get_job ''t-1'' sample_armed = Some sample_job"
  by (simp add: get_job_def sample_armed_jobs has_trace_def)

end
