(* ===== verification/Follow_Lifecycle.thy ===== *)
theory Follow_Lifecycle
  imports Follow_Samples
begin

text \<open>
  What every operation of the follow store promises, as a contract (locale
  \<open>store_operation\<close>) that each of them is shown to meet, and the step relation of
  the store with its reachable states.
\<close>

section \<open>Searching and updating\<close>

lemma update_first_id: "\<forall>x\<in>set xs. \<not> p x \<Longrightarrow> update_first p f xs = xs"
  by (induction xs) auto

lemma length_update_first [simp]: "length (update_first p f xs) = length xs"
  by (induction xs) auto

lemma map_update_first:
  "(\<And>x. x \<in> set xs \<Longrightarrow> p x \<Longrightarrow> g (f x) = g x) \<Longrightarrow> map g (update_first p f xs) = map g xs"
  by (induction xs) auto

lemma find_Some_prop: "List.find p xs = Some x \<Longrightarrow> p x \<and> x \<in> set xs"
  by (auto simp: find_Some_iff)

lemma find_trace_in: "get_job t st = Some job \<Longrightarrow> job \<in> set (fs_jobs st) \<and> fj_traceId job = t"
  by (auto simp: get_job_def has_trace_def dest: find_Some_prop)

lemma find_append:
  "List.find p (xs @ ys) = (case List.find p xs of None \<Rightarrow> List.find p ys | Some x \<Rightarrow> Some x)"
  by (induction xs) auto

lemma find_map_keeps:
  "(\<And>x. p (f x) = p x) \<Longrightarrow> List.find p (map f xs) = map_option f (List.find p xs)"
  by (induction xs) auto

lemma find_update_first:
  assumes "\<And>x. p x \<Longrightarrow> p (f x)"
  shows "List.find p (update_first p f xs) = map_option f (List.find p xs)"
  using assms by (induction xs) auto

lemma find_update_first_other:
  assumes "\<And>x. p x \<Longrightarrow> \<not> q x" "\<And>x. p x \<Longrightarrow> \<not> q (f x)"
  shows "List.find q (update_first p f xs) = List.find q xs"
  using assms by (induction xs) auto

section \<open>The state of the store is kept\<close>

definition counts_ok :: "follow_daemon_state_file \<Rightarrow> bool" where
  "counts_ok st \<longleftrightarrow> fh_queueDepth (fs_health st) = length (fs_jobs st)
     \<and> fh_activeJobs (fs_health st) = active_job_count (fs_jobs st)"

definition traces_ok :: "follow_daemon_state_file \<Rightarrow> bool" where
  "traces_ok st \<longleftrightarrow> distinct (map fj_traceId (fs_jobs st))"

definition store_inv :: "follow_daemon_state_file \<Rightarrow> bool" where
  "store_inv st \<longleftrightarrow> counts_ok st \<and> traces_ok st"

definition kept :: "'a option \<Rightarrow> 'a option \<Rightarrow> bool" where
  "kept x y \<longleftrightarrow> x = None \<or> y = x"

text \<open>
  How one job may evolve: its reservation, its identity and its list of actions stay, launch
  metadata is only ever added, and a requested cancellation is never withdrawn.
\<close>

definition same_reservation :: "follow_job_record \<Rightarrow> follow_job_record \<Rightarrow> bool" where
  "same_reservation j j' \<longleftrightarrow>
     fj_traceId j' = fj_traceId j \<and> fj_jobId j' = fj_jobId j
     \<and> fj_createdAtMs j' = fj_createdAtMs j
     \<and> fj_launchpad j' = fj_launchpad j \<and> fj_quoteAsset j' = fj_quoteAsset j
     \<and> fj_launchMode j' = fj_launchMode j \<and> fj_selectedWalletKey j' = fj_selectedWalletKey j
     \<and> fj_tokenMayhemMode j' = fj_tokenMayhemMode j
     \<and> fj_jitoTipAccount j' = fj_jitoTipAccount j
     \<and> fj_buyTipAccount j' = fj_buyTipAccount j \<and> fj_sellTipAccount j' = fj_sellTipAccount j
     \<and> fj_preferPostSetupCreatorVaultForSell j' = fj_preferPostSetupCreatorVaultForSell j
     \<and> fj_followLaunch j' = fj_followLaunch j \<and> fj_execution j' = fj_execution j
     \<and> fj_bagsLaunch j' = fj_bagsLaunch j
     \<and> (fj_reservedPayloadFingerprint j \<noteq> []
          \<longrightarrow> fj_reservedPayloadFingerprint j' = fj_reservedPayloadFingerprint j)"

definition job_follows :: "follow_job_record \<Rightarrow> follow_job_record \<Rightarrow> bool" where
  "job_follows j j' \<longleftrightarrow>
     same_reservation j j'
     \<and> kept (fj_mint j) (fj_mint j') \<and> kept (fj_launchCreator j) (fj_launchCreator j')
     \<and> kept (fj_launchSignature j) (fj_launchSignature j')
     \<and> (fj_cancelRequested j \<longrightarrow> fj_cancelRequested j')
     \<and> map fa_actionId (fj_actions j') = map fa_actionId (fj_actions j)"

definition jobs_follow :: "follow_daemon_state_file \<Rightarrow> follow_daemon_state_file \<Rightarrow> bool" where
  "jobs_follow st st' \<longleftrightarrow>
     (\<forall>t j j'. get_job t st = Some j \<longrightarrow> get_job t st' = Some j' \<longrightarrow> job_follows j j')"

lemma kept_simps [simp]: "kept x x" "kept None y" "kept (Some a) y \<longleftrightarrow> y = Some a"
  by (auto simp: kept_def)

lemma job_follows_refl [simp, intro]: "job_follows j j"
  by (simp add: job_follows_def same_reservation_def)

lemma job_follows_trans: "job_follows a b \<Longrightarrow> job_follows b c \<Longrightarrow> job_follows a c"
  unfolding job_follows_def same_reservation_def kept_def by (elim conjE) (intro conjI; simp; metis)

lemma jobs_follow_refl [simp, intro]: "jobs_follow st st"
  by (auto simp: jobs_follow_def)

lemma refresh_simps [simp]:
  "fs_jobs (normalize_idle_health st) = fs_jobs st"
  "fs_jobs (refresh_counts st) = fs_jobs st"
  "fs_jobs (touch_health now st) = fs_jobs st"
  "fs_jobs (settle now st) = fs_jobs st"
  "fs_jobs (put_job t job st) = update_first (has_trace t) (\<lambda>_. job) (fs_jobs st)"
  by (simp_all add: normalize_idle_health_def refresh_counts_def touch_health_def settle_def
      put_job_def)

lemma normalize_counts [simp]:
  "fh_queueDepth (fs_health (normalize_idle_health st)) = fh_queueDepth (fs_health st)"
  "fh_activeJobs (fs_health (normalize_idle_health st)) = fh_activeJobs (fs_health st)"
  by (simp_all add: normalize_idle_health_def)

lemma counts_ok_refresh [simp, intro]: "counts_ok (refresh_counts st)"
  by (simp add: counts_ok_def refresh_counts_def)

lemma counts_ok_settle [simp, intro]: "counts_ok (settle now st)"
  by (simp add: settle_def)

lemma get_job_jobs: "fs_jobs st' = fs_jobs st \<Longrightarrow> get_job t st' = get_job t st"
  by (simp add: get_job_def)

lemma get_job_simps [simp]:
  "get_job t (touch_health now st) = get_job t st"
  "get_job t (refresh_counts st) = get_job t st"
  "get_job t (settle now st) = get_job t st"
  by (simp_all add: get_job_def)

lemma get_put_job:
  assumes "fj_traceId job = t" "get_job t st = Some old"
  shows "get_job t' (put_job t job st) = (if t' = t then Some job else get_job t' st)"
proof (cases "t' = t")
  case True
  then show ?thesis
    using assms by (simp add: get_job_def put_job_def find_update_first has_trace_def)
next
  case False
  then show ?thesis
    using assms(1)
    by (simp add: get_job_def put_job_def) (rule find_update_first_other; simp add: has_trace_def)
qed

lemma traces_put_job:
  assumes "traces_ok st" "fj_traceId job = t"
  shows "traces_ok (put_job t job st)"
proof -
  have "map fj_traceId (update_first (has_trace t) (\<lambda>_. job) (fs_jobs st)) = map fj_traceId (fs_jobs st)"
    using assms(2) by (intro map_update_first) (auto simp: has_trace_def)
  then show ?thesis using assms(1) by (simp add: traces_ok_def)
qed

lemma get_job_none: "get_job t st = None \<longleftrightarrow> t \<notin> fj_traceId ` set (fs_jobs st)"
  by (auto simp: get_job_def find_None_iff has_trace_def)

section \<open>The contract of an operation\<close>

locale store_operation =
  fixes run :: "follow_daemon_state_file \<Rightarrow> follow_daemon_state_file"
  assumes keeps_inv: "store_inv st \<Longrightarrow> store_inv (run st)"
    and keeps_jobs: "store_inv st \<Longrightarrow> jobs_follow st (run st)"
begin

lemma keeps_reservation:
  assumes "store_inv st" "get_job t st = Some j" "get_job t (run st) = Some j'"
  shows "same_reservation j j'"
  using keeps_jobs [OF assms(1)] assms(2,3) unfolding jobs_follow_def job_follows_def by blast

lemma keeps_cancel:
  assumes "store_inv st" "get_job t st = Some j" "get_job t (run st) = Some j'"
    and "fj_cancelRequested j"
  shows "fj_cancelRequested j'"
  using keeps_jobs [OF assms(1)] assms(2-4) unfolding jobs_follow_def job_follows_def by blast

end

text \<open>An operation that rewrites one job meets the contract when the job evolves lawfully.\<close>

lemma put_job_contract:
  assumes "store_inv st" "get_job t st = Some old" "job_follows old job"
    and "fs_jobs st' = fs_jobs (put_job t job st)"
  shows "jobs_follow st st'" "traces_ok st'"
proof -
  have t: "fj_traceId job = t"
    using assms(2,3) find_trace_in [of t st old] by (simp add: job_follows_def same_reservation_def)
  have get: "get_job t' st' = (if t' = t then Some job else get_job t' st)" for t'
    using get_job_jobs [OF assms(4), of t'] get_put_job [OF t assms(2), of t'] by simp
  show "jobs_follow st st'"
    using assms(2,3) by (auto simp: jobs_follow_def get split: if_splits)
  show "traces_ok st'"
    using traces_put_job [of st job t] assms(1,4) t by (simp add: traces_ok_def store_inv_def)
qed

section \<open>Every operation meets the contract\<close>

lemma job_follows_touch [simp]:
  "job_follows j (j\<lparr>fj_updatedAtMs := now\<rparr>)"
  "job_follows j (j\<lparr>fj_state := s, fj_lastError := e, fj_updatedAtMs := now\<rparr>)"
  by (simp_all add: job_follows_def same_reservation_def)

lemma reserved_again_follows:
  "job_follows j ((if fj_reservedPayloadFingerprint j = []
                   then j\<lparr>fj_reservedPayloadFingerprint := fingerprint\<rparr> else j)\<lparr>fj_updatedAtMs := now\<rparr>)"
  by (simp add: job_follows_def same_reservation_def)

lemma traces_ok_append:
  "traces_ok st \<Longrightarrow> get_job (fj_traceId job) st = None
    \<Longrightarrow> traces_ok (settle now (st\<lparr>fs_jobs := fs_jobs st @ [job]\<rparr>))"
  by (auto simp: traces_ok_def get_job_none)

lemma jobs_follow_append:
  assumes "get_job (fj_traceId job) st = None"
  shows "jobs_follow st (settle now (st\<lparr>fs_jobs := fs_jobs st @ [job]\<rparr>))"
  using assms by (auto simp: jobs_follow_def get_job_def find_append)

lemma settle_inv: "traces_ok (settle now st) \<Longrightarrow> store_inv (settle now st)"
  by (simp add: store_inv_def)

lemma store_inv_traces: "store_inv st \<Longrightarrow> traces_ok st"
  by (simp add: store_inv_def)

lemma settle_put_contract:
  assumes "store_inv st" "get_job t st = Some old" "job_follows old job"
  shows "store_inv (settle now (put_job t job st))" "jobs_follow st (settle now (put_job t job st))"
  using put_job_contract [OF assms, of "settle now (put_job t job st)"]
  by (simp_all add: store_inv_def)

lemma reserve_job_contract:
  assumes "store_inv st"
  shows "store_inv (snd (reserve_job ser bench now p r st))
         \<and> jobs_follow st (snd (reserve_job ser bench now p r st))"
proof (cases "requested_fingerprint ser r")
  case (Some print)
  show ?thesis
  proof (cases "get_job (rr_traceId r) st")
    case None
    have "fj_traceId (new_job bench now r print) = rr_traceId r" by (simp add: new_job_def)
    then show ?thesis
      using assms None Some traces_ok_append [of st "new_job bench now r print" now]
        jobs_follow_append [of "new_job bench now r print" st now]
      by (simp add: reserve_job_def Let_def store_inv_def)
  next
    case (Some job)
    note again = settle_put_contract [OF assms Some reserved_again_follows, of _ now]
    show ?thesis
      using assms again Some \<open>requested_fingerprint ser r = Some print\<close>
      by (auto simp: reserve_job_def Let_def split: option.split)
  qed
qed (use assms in \<open>simp add: reserve_job_def\<close>)

lemma touch_when_follows:
  assumes "job_follows j (fst s)" "\<And>k. c k \<Longrightarrow> job_follows k (f k)"
  shows "job_follows j (fst (touch_when c f s))"
  using assms job_follows_trans [OF assms(1) assms(2)] by (cases s) (auto simp: touch_when_def)

lemma touch_when_state:
  "(\<And>k. fj_state (f k) = fj_state k)
    \<Longrightarrow> fj_state (fst (touch_when c f s)) = fj_state (fst s)"
  by (cases s) (auto simp: touch_when_def)

lemma arm_metadata_follows: "job_follows job (fst (arm_metadata r job))"
  unfolding arm_metadata_def Let_def
  by (intro touch_when_follows) (simp_all add: job_follows_def same_reservation_def kept_def)

lemma arm_metadata_state: "fj_state (fst (arm_metadata r job)) = fj_state job"
  by (simp add: arm_metadata_def Let_def touch_when_state)

lemma arm_action_id [simp]: "fa_actionId (arm_action t a) = fa_actionId a"
  by (auto simp: arm_action_def Let_def split: option.split)

lemma armed_job_follows: "job_follows job (armed_job now r job)"
  by (simp add: armed_job_def job_follows_def same_reservation_def comp_def)

lemma active_job_count_update:
  assumes "List.find p jobs = Some old" "fj_state job = fj_state old"
  shows "active_job_count (update_first p (\<lambda>_. job) jobs) = active_job_count jobs"
  using assms by (induction jobs) (auto simp: active_job_count_def split: if_splits)

text \<open>A job whose state stays may be rewritten without refreshing the counts.\<close>

lemma put_same_state_contract:
  assumes "store_inv st" "get_job t st = Some old" "job_follows old job"
    and "fj_state job = fj_state old"
  shows "store_inv (put_job t job st)" "jobs_follow st (put_job t job st)"
proof -
  note c = put_job_contract [OF assms(1-3) refl]
  show "jobs_follow st (put_job t job st)" by (rule c)
  have "counts_ok (put_job t job st)"
    using assms(1,2,4) active_job_count_update [of "has_trace t" "fs_jobs st" old job]
    by (simp add: store_inv_def counts_ok_def get_job_def) (simp add: put_job_def)
  then show "store_inv (put_job t job st)" using c by (simp add: store_inv_def)
qed

lemma arm_job_contract:
  assumes "store_inv st"
  shows "store_inv (snd (arm_job now p r st)) \<and> jobs_follow st (snd (arm_job now p r st))"
proof (cases "get_job (ar_traceId r) st")
  case (Some old)
  show ?thesis
  proof (cases "arm_conflict r old")
    case None
    obtain job touched where job: "arm_metadata r old = (job, touched)" by (cases "arm_metadata r old")
    have meta: "job_follows old job" and state: "fj_state job = fj_state old"
      using arm_metadata_follows [of old r] arm_metadata_state [of r old] job by simp_all
    note armed = settle_put_contract [OF assms Some job_follows_trans [OF meta armed_job_follows],
        of now now r]
    note plain = put_same_state_contract [OF assms Some meta state]
    note stamped = put_same_state_contract
      [OF assms Some job_follows_trans [OF meta job_follows_touch(1)], of now]
    show ?thesis
      using Some None job armed plain stamped state by (simp add: arm_job_def Let_def)
  qed (use assms Some in \<open>simp add: arm_job_def\<close>)
qed (use assms in \<open>simp add: arm_job_def\<close>)

lemma cancel_action_id [simp]: "fa_actionId (cancel_action msg a) = fa_actionId a"
  by (simp add: cancel_action_def)

lemma cancel_whole_follows: "job_follows job (cancel_whole_job msg job)"
  by (simp add: cancel_whole_job_def job_follows_def same_reservation_def comp_def)

lemma change_actions_follows:
  "map fa_actionId as = map fa_actionId (fj_actions job)
    \<Longrightarrow> job_follows job (job\<lparr>fj_actions := as, fj_updatedAtMs := now\<rparr>)"
  by (simp add: job_follows_def same_reservation_def)

lemma cancel_job_contract:
  assumes "store_inv st"
  shows "store_inv (snd (cancel_job now p r st)) \<and> jobs_follow st (snd (cancel_job now p r st))"
proof (cases "get_job (cr_traceId r) st")
  case (Some job)
  have one: "job_follows job (job\<lparr>fj_updatedAtMs := now, fj_actions :=
      update_first (has_action i) (\<lambda>a. a\<lparr>fa_state := ACancelled, fa_lastError := cr_note r\<rparr>)
        (fj_actions job)\<rparr>)" for i
    by (simp add: job_follows_def same_reservation_def map_update_first)
  note all = job_follows_trans [OF job_follows_touch(1) cancel_whole_follows]
  show ?thesis
    using Some settle_put_contract [OF assms Some one] settle_put_contract [OF assms Some all]
    by (simp add: cancel_job_def Let_def split: option.split)
qed (use assms in \<open>simp add: cancel_job_def\<close>)

text \<open>Operations that rewrite every job in place.\<close>

lemma map_jobs_contract:
  assumes "store_inv st" and follows: "\<And>j. job_follows j (f j)"
    and jobs: "fs_jobs st' = map f (filter keep (fs_jobs st))"
  shows "traces_ok st'" "jobs_follow st st'"
proof -
  have id: "fj_traceId (f j) = fj_traceId j" for j
    using follows [of j] by (simp add: job_follows_def same_reservation_def)
  then have "map fj_traceId (fs_jobs st') = map fj_traceId (filter keep (fs_jobs st))"
    by (simp add: jobs comp_def)
  then show "traces_ok st'"
    using store_inv_traces [OF assms(1)] by (simp add: traces_ok_def distinct_map_filter)
  have find: "distinct (map fj_traceId js)
      \<Longrightarrow> List.find (has_trace t) (map f (filter keep js)) = Some j'
      \<Longrightarrow> List.find (has_trace t) js = Some j \<Longrightarrow> j' = f j" for js t j j'
  proof (induction js)
    case (Cons a js)
    have trace: "has_trace t (f a) = has_trace t a" by (simp add: has_trace_def id)
    show ?case
    proof (cases "has_trace t a")
      case True
      then have "List.find (has_trace t) (map f (filter keep js)) = None"
        using Cons.prems(1) by (auto simp: find_None_iff has_trace_def id) (metis image_eqI)
      then show ?thesis
        using Cons.prems(2,3) True trace by (cases "keep a") simp_all
    next
      case False
      then show ?thesis
        using Cons trace by (cases "keep a") simp_all
    qed
  qed simp
  show "jobs_follow st st'"
    unfolding jobs_follow_def
  proof (intro allI impI)
    fix t j j' assume "get_job t st = Some j" "get_job t st' = Some j'"
    then have "j' = f j"
      using find [of "fs_jobs st" t j' j] store_inv_traces [OF assms(1)]
      by (simp add: get_job_def jobs traces_ok_def)
    then show "job_follows j j'" by (simp add: follows)
  qed
qed

lemma cancel_live_follows: "job_follows job (cancel_live_job now msg job)"
  using job_follows_trans [OF job_follows_touch(1) cancel_whole_follows]
  by (simp add: cancel_live_job_def)

lemma cancel_all_contract:
  assumes "store_inv st"
  shows "store_inv (snd (cancel_all_jobs now p msg st))
         \<and> jobs_follow st (snd (cancel_all_jobs now p msg st))"
  using map_jobs_contract [where f = "cancel_live_job now msg"
        and st' = "snd (cancel_all_jobs now p msg st)" and keep = "\<lambda>_. True",
      OF assms cancel_live_follows]
  by (simp add: cancel_all_jobs_def Let_def settle_inv)

lemma restart_action_id [simp]: "fa_actionId (restart_action a) = fa_actionId a"
  by (simp add: restart_action_def)

lemma restart_job_follows: "job_follows job (restart_job now job)"
  by (simp add: restart_job_def Let_def job_follows_def same_reservation_def comp_def)

lemma recover_contract:
  assumes "store_inv st"
  shows "store_inv (snd (recover_jobs_for_restart now p st))
         \<and> jobs_follow st (snd (recover_jobs_for_restart now p st))"
  using map_jobs_contract [where f = "restart_job now"
        and st' = "snd (recover_jobs_for_restart now p st)"
        and keep = "\<lambda>job. \<not> should_prune_job_on_restart job now",
      OF assms restart_job_follows]
  by (simp add: recover_jobs_for_restart_def Let_def settle_inv)

lemma clear_contract:
  "store_inv (snd (clear_jobs_for_restart now p st))
   \<and> jobs_follow st (snd (clear_jobs_for_restart now p st))"
  by (simp add: clear_jobs_for_restart_def store_inv_def traces_ok_def jobs_follow_def get_job_def)

lemma health_contract:
  assumes "store_inv st"
    and "fs_jobs st' = fs_jobs st" "counts_ok st'"
  shows "store_inv st' \<and> jobs_follow st st'"
  using assms by (auto simp: store_inv_def traces_ok_def jobs_follow_def get_job_def)

lemma touch_counts [simp]: "counts_ok (touch_health now st) = counts_ok st"
  by (simp add: touch_health_def counts_ok_def)

lemma touch_contract: "store_inv st \<Longrightarrow> store_inv (touch_health now st) \<and> jobs_follow st (touch_health now st)"
  by (rule health_contract) (simp_all add: store_inv_def)

lemma update_health_contract:
  "store_inv st \<Longrightarrow> store_inv (snd (update_health now p w s sm g gm m mm e st))
     \<and> jobs_follow st (snd (update_health now p w s sm g gm m mm e st))"
  by (rule health_contract) (simp_all add: update_health_def store_inv_def counts_ok_def)

lemma update_supervision_contract:
  "store_inv st \<Longrightarrow> store_inv (snd (update_supervision now p run pid tr url e st))
     \<and> jobs_follow st (snd (update_supervision now p run pid tr url e st))"
  by (rule health_contract) (simp_all add: update_supervision_def Let_def)

lemma touched_put_contract:
  assumes "store_inv st" "get_job t st = Some old" "job_follows old job"
  shows "store_inv (refresh_counts (put_job t job (touch_health now st)))"
    "jobs_follow st (refresh_counts (put_job t job (touch_health now st)))"
  using put_job_contract [OF assms, of "refresh_counts (put_job t job (touch_health now st))"]
  by (simp_all add: store_inv_def)

lemma update_action_contract:
  assumes "store_inv st" and mutator: "\<And>a. fa_actionId (mutator a) = fa_actionId a"
  shows "store_inv (snd (update_action now p t i mutator st))
         \<and> jobs_follow st (snd (update_action now p t i mutator st))"
proof (cases "get_job t st")
  case (Some job)
  have "map fa_actionId (update_first (has_action i) mutator (fj_actions job))
          = map fa_actionId (fj_actions job)"
    by (simp add: map_update_first mutator)
  from touched_put_contract [OF assms(1) Some change_actions_follows [OF this, of now], of now]
  show ?thesis
    using Some touch_contract [OF assms(1), of now] by (simp add: update_action_def Let_def)
qed (use touch_contract [OF assms(1), of now] in \<open>simp add: update_action_def Let_def\<close>)

lemma update_job_contract:
  assumes "store_inv st" and mutator: "\<And>j. job_follows j (mutator j)"
  shows "store_inv (snd (update_job now p t mutator st))
         \<and> jobs_follow st (snd (update_job now p t mutator st))"
proof (cases "get_job t st")
  case (Some job)
  from touched_put_contract [OF assms(1) Some job_follows_trans [OF mutator job_follows_touch(1)], of now now]
  show ?thesis
    using Some by (simp add: update_job_def Let_def)
qed (use touch_contract [OF assms(1), of now] in \<open>simp add: update_job_def Let_def\<close>)

lemma finalize_contract:
  assumes "store_inv st"
  shows "store_inv (snd (finalize_job_state now p t s e st))
         \<and> jobs_follow st (snd (finalize_job_state now p t s e st))"
proof (cases "get_job t st")
  case (Some job)
  from touched_put_contract [OF assms(1) Some job_follows_touch(2)]
  show ?thesis
    using Some by (simp add: finalize_job_state_def Let_def)
qed (use touch_contract [OF assms(1), of now] in \<open>simp add: finalize_job_state_def Let_def\<close>)

section \<open>Interpretations\<close>

interpretation reserving: store_operation "\<lambda>st. snd (reserve_job ser bench now p r st)"
  for ser :: "'v follow_serde" and bench now p r
  by unfold_locales (simp_all add: reserve_job_contract)

interpretation arming: store_operation "\<lambda>st. snd (arm_job now p r st)" for now p r
  by unfold_locales (simp_all add: arm_job_contract)

interpretation cancelling: store_operation "\<lambda>st. snd (cancel_job now p r st)" for now p r
  by unfold_locales (simp_all add: cancel_job_contract)

interpretation stopping_all: store_operation "\<lambda>st. snd (cancel_all_jobs now p msg st)" for now p msg
  by unfold_locales (simp_all add: cancel_all_contract)

interpretation recovering: store_operation "\<lambda>st. snd (recover_jobs_for_restart now p st)" for now p
  by unfold_locales (simp_all add: recover_contract)

interpretation clearing: store_operation "\<lambda>st. snd (clear_jobs_for_restart now p st)" for now p
  by unfold_locales (simp_all add: clear_contract)

interpretation reporting_health: store_operation
  "\<lambda>st. snd (update_health now p w s sm g gm m mm e st)" for now p w s sm g gm m mm e
  by unfold_locales (simp_all add: update_health_contract)

interpretation supervising: store_operation
  "\<lambda>st. snd (update_supervision now p run pid tr url e st)" for now p run pid tr url e
  by unfold_locales (simp_all add: update_supervision_contract)

interpretation finalizing: store_operation "\<lambda>st. snd (finalize_job_state now p t s e st)"
  for now p t s e
  by unfold_locales (simp_all add: finalize_contract)

section \<open>Steps and reachable states\<close>

text \<open>
  One rule per operation, for every clock reading, persist outcome and argument. The
  daemon's closures for \<^verbatim>\<open>update_action\<close> and \<^verbatim>\<open>update_job\<close> write states, timings,
  observed slots and the deferred setup only, which the premises of their rules state.
\<close>

inductive store_step ::
  "'v follow_serde \<Rightarrow> follow_daemon_state_file \<Rightarrow> follow_daemon_state_file \<Rightarrow> bool"
  for ser :: "'v follow_serde" where
  reserve: "store_step ser st (snd (reserve_job ser bench now p r st))"
| arm: "store_step ser st (snd (arm_job now p ar st))"
| cancel: "store_step ser st (snd (cancel_job now p cr st))"
| cancel_all: "store_step ser st (snd (cancel_all_jobs now p msg st))"
| health: "store_step ser st (snd (update_health now p w s sm g gm m mm e st))"
| supervision: "store_step ser st (snd (update_supervision now p run pid tr url e st))"
| recover: "store_step ser st (snd (recover_jobs_for_restart now p st))"
| clear: "store_step ser st (snd (clear_jobs_for_restart now p st))"
| action_update: "(\<And>a. fa_actionId (fa a) = fa_actionId a)
    \<Longrightarrow> store_step ser st (snd (update_action now p t i fa st))"
| job_update: "(\<And>j. job_follows j (fj j)) \<Longrightarrow> store_step ser st (snd (update_job now p t fj st))"
| finalize: "store_step ser st (snd (finalize_job_state now p t js e st))"

inductive follow_reachable :: "'v follow_serde \<Rightarrow> string \<Rightarrow> follow_daemon_state_file \<Rightarrow> bool"
  for ser :: "'v follow_serde" and version where
  fresh: "follow_reachable ser version (default_state version now path)"
| reload: "follow_reachable ser version st \<Longrightarrow> parse raw \<in> {None, Some st}
    \<Longrightarrow> follow_reachable ser version (load_or_default parse version now path (Some raw))"
| step: "follow_reachable ser version st \<Longrightarrow> store_step ser st st'
    \<Longrightarrow> follow_reachable ser version st'"

lemma store_step_contract:
  assumes "store_step ser st st'" "store_inv st"
  shows "store_inv st' \<and> jobs_follow st st'"
  using assms
proof (induction rule: store_step.induct)
  case reserve
  then show ?case by (simp add: reserving.keeps_inv reserving.keeps_jobs)
next
  case arm
  then show ?case by (simp add: arming.keeps_inv arming.keeps_jobs)
next
  case cancel
  then show ?case by (simp add: cancelling.keeps_inv cancelling.keeps_jobs)
next
  case cancel_all
  then show ?case by (simp add: stopping_all.keeps_inv stopping_all.keeps_jobs)
next
  case health
  then show ?case by (simp add: reporting_health.keeps_inv reporting_health.keeps_jobs)
next
  case supervision
  then show ?case by (simp add: supervising.keeps_inv supervising.keeps_jobs)
next
  case recover
  then show ?case by (simp add: recovering.keeps_inv recovering.keeps_jobs)
next
  case clear
  then show ?case by (simp add: clearing.keeps_inv clearing.keeps_jobs)
next
  case action_update
  then show ?case by (simp add: update_action_contract)
next
  case job_update
  then show ?case by (simp add: update_job_contract)
next
  case finalize
  then show ?case by (simp add: finalizing.keeps_inv finalizing.keeps_jobs)
qed

lemma canonical_job_simps [simp]:
  "fj_traceId (canonicalize_job_trigger_keys j) = fj_traceId j"
  "fj_state (canonicalize_job_trigger_keys j) = fj_state j"
  by (simp_all add: canonicalize_job_trigger_keys_def)

lemma active_job_count_map:
  "(\<And>j. fj_state (f j) = fj_state j) \<Longrightarrow> active_job_count (map f js) = active_job_count js"
  by (simp add: active_job_count_def filter_map comp_def)

lemma default_state_inv: "store_inv (default_state version now path)"
  by (simp add: store_inv_def counts_ok_def traces_ok_def default_state_def active_job_count_def)

lemma canonical_jobs_inv:
  assumes "store_inv st"
  shows "store_inv (st\<lparr>fs_jobs := map canonicalize_job_trigger_keys (fs_jobs st)\<rparr>)"
  using assms by (simp add: store_inv_def counts_ok_def traces_ok_def active_job_count_map comp_def)

lemma load_inv:
  assumes "store_inv st" "parse raw \<in> {None, Some st}"
  shows "store_inv (load_or_default parse version now path (Some raw))"
  using assms canonical_jobs_inv [OF default_state_inv, of version now path]
    canonical_jobs_inv [OF assms(1)]
  by (auto simp: load_or_default_def Let_def)

lemma reachable_inv: "follow_reachable ser version st \<Longrightarrow> store_inv st"
proof (induction rule: follow_reachable.induct)
  case (step st st')
  then show ?case using store_step_contract by blast
qed (simp_all add: default_state_inv load_inv)

text \<open>
  C18: in every reachable state of the store the health counters are right (the queue depth
  is the number of jobs, the active jobs are those reserved, armed or running) and no two jobs
  have the same trace id.
\<close>

theorem store_counts_and_trace_ids:
  assumes "follow_reachable ser version st"
  shows "fh_queueDepth (fs_health st) = length (fs_jobs st)
    \<and> fh_activeJobs (fs_health st)
        = length (filter (\<lambda>j. fj_state j \<in> {JReserved, JArmed, JRunning}) (fs_jobs st))
    \<and> distinct (map fj_traceId (fs_jobs st))"
  using reachable_inv [OF assms]
  by (simp add: store_inv_def counts_ok_def traces_ok_def active_job_count_def)

text \<open>
  C6: once a job is bound to a launch, no operation rebinds it: mint, creator and launch
  signature keep their values, a requested cancellation stays requested, and an arm request
  that names another mint is refused and changes nothing.
\<close>

theorem launch_binding_is_permanent:
  assumes "follow_reachable ser version st" "store_step ser st st'"
    and "get_job t st = Some j" "get_job t st' = Some j'"
    and "fj_mint j = Some m" "ar_traceId r = t" "ar_mint r \<noteq> m"
  shows "fj_mint j' = Some m
    \<and> kept (fj_launchCreator j) (fj_launchCreator j')
    \<and> kept (fj_launchSignature j) (fj_launchSignature j')
    \<and> (fj_cancelRequested j \<longrightarrow> fj_cancelRequested j')
    \<and> arm_job now p r st = (Inl (Mint_Changed t m (ar_mint r)), st)"
proof -
  have "job_follows j j'"
    using store_step_contract [OF assms(2) reachable_inv [OF assms(1)]] assms(3,4)
    unfolding jobs_follow_def by blast
  moreover have "arm_job now p r st = (Inl (Mint_Changed t m (ar_mint r)), st)"
    using assms(3,5-7) by (simp add: arm_job_def arm_conflict_def changed_def)
  ultimately show ?thesis using assms(5) by (simp add: job_follows_def)
qed

section \<open>Repeated reservations\<close>

definition reserved_for ::
  "'v follow_serde \<Rightarrow> follow_reserve_request \<Rightarrow> string \<Rightarrow> follow_job_record \<Rightarrow> bool" where
  "reserved_for ser r fingerprint job \<longleftrightarrow>
     fj_reservedPayloadFingerprint job = fingerprint
     \<and> \<not> reserve_conflict ser r job fingerprint fingerprint"

lemma same_reservation_reserved:
  assumes "same_reservation j j'" "reserved_for ser r fingerprint j" "fingerprint \<noteq> []"
  shows "reserved_for ser r fingerprint j'"
  using assms by (simp add: same_reservation_def reserved_for_def reserve_conflict_def)

definition serde_total :: "'v follow_serde \<Rightarrow> follow_reserve_request \<Rightarrow> bool" where
  "serde_total ser r \<longleftrightarrow> launch_value ser (rr_followLaunch r) \<noteq> None
     \<and> execution_value ser (rr_execution r) \<noteq> None \<and> bags_value ser (rr_bagsLaunch r) \<noteq> None"

lemma new_job_reserved:
  "serde_total ser r \<Longrightarrow> reserved_for ser r fingerprint (new_job bench now r fingerprint)"
  by (auto simp: serde_total_def reserved_for_def reserve_conflict_def new_job_def
      json_values_equal_def)

lemma first_reservation:
  assumes "requested_fingerprint ser r = Some fingerprint" "get_job (rr_traceId r) st = None"
  shows "get_job (rr_traceId r) (snd (reserve_job ser bench now p r st))
           = Some (new_job bench now r fingerprint)"
  using assms by (simp add: reserve_job_def Let_def) (simp add: get_job_def find_append new_job_def has_trace_def)

text \<open>Steps during which the job of a trace id stays in the store.\<close>

definition step_keeping ::
  "'v follow_serde \<Rightarrow> string \<Rightarrow> follow_daemon_state_file \<Rightarrow> follow_daemon_state_file \<Rightarrow> bool" where
  "step_keeping ser t st st' \<longleftrightarrow> store_step ser st st' \<and> get_job t st' \<noteq> None"

lemma steps_keep_reservation:
  assumes "(step_keeping ser t)\<^sup>*\<^sup>* st1 st" "store_inv st1"
    and "get_job t st1 = Some j1" "reserved_for ser r fingerprint j1" "fingerprint \<noteq> []"
  shows "store_inv st \<and> (\<exists>j. get_job t st = Some j \<and> reserved_for ser r fingerprint j)"
  using assms(1)
proof (induction rule: rtranclp_induct)
  case base
  then show ?case using assms by blast
next
  case (step st st')
  then obtain j j' where j: "get_job t st = Some j" "get_job t st' = Some j'"
    "reserved_for ser r fingerprint j" by (auto simp: step_keeping_def)
  have "store_inv st' \<and> jobs_follow st st'"
    using step by (intro store_step_contract) (auto simp: step_keeping_def)
  then show ?case
    using j same_reservation_reserved [OF _ j(3) assms(5)]
    by (auto simp: jobs_follow_def job_follows_def)
qed

lemma reserve_again:
  assumes "requested_fingerprint ser r = Some fingerprint" "fingerprint \<noteq> []"
    and "get_job (rr_traceId r) st = Some j" "reserved_for ser r fingerprint j"
  shows "reserve_job ser bench now None r st
           = (Inr (j\<lparr>fj_updatedAtMs := now\<rparr>),
              settle now (put_job (rr_traceId r) (j\<lparr>fj_updatedAtMs := now\<rparr>) st))"
  using assms
  by (simp add: reserve_job_def existing_fingerprint_def reserved_for_def after_persist_def Let_def)

text \<open>
  C7: a reservation may be repeated at any time. Whatever happened to the job since it was
  reserved, reserving again with the same request is accepted, returns the job as it is with
  a new timestamp and adds no second job; the same trace id with another payload is refused
  and changes nothing.
\<close>

theorem reservation_is_idempotent:
  assumes "follow_reachable ser version st0" "serde_total ser r"
    and "requested_fingerprint ser r = Some fingerprint" "fingerprint \<noteq> []"
    and "get_job (rr_traceId r) st0 = None"
    and "(step_keeping ser (rr_traceId r))\<^sup>*\<^sup>* (snd (reserve_job ser bench now p r st0)) st"
    and "rr_traceId r' = rr_traceId r" "requested_fingerprint ser r' = Some other"
    and "other \<noteq> fingerprint"
  shows "\<exists>j st'. get_job (rr_traceId r) st = Some j
    \<and> reserve_job ser bench now' None r st = (Inr (j\<lparr>fj_updatedAtMs := now'\<rparr>), st')
    \<and> map fj_traceId (fs_jobs st') = map fj_traceId (fs_jobs st)
    \<and> get_job (rr_traceId r) st' = Some (j\<lparr>fj_updatedAtMs := now'\<rparr>)
    \<and> reserve_job ser bench now' p' r' st = (Inl (Conflicting_Reserve (rr_traceId r)), st)"
proof -
  let ?t = "rr_traceId r"
  let ?st1 = "snd (reserve_job ser bench now p r st0)"
  have "store_inv ?st1" by (rule reserving.keeps_inv [OF reachable_inv [OF assms(1)]])
  then obtain j where j: "get_job ?t st = Some j" "reserved_for ser r fingerprint j"
    using steps_keep_reservation [OF assms(6) _ first_reservation new_job_reserved] assms by blast
  let ?j = "j\<lparr>fj_updatedAtMs := now'\<rparr>"
  have t: "fj_traceId ?j = ?t" using find_trace_in [OF j(1)] by simp
  have "map fj_traceId (update_first (has_trace ?t) (\<lambda>_. ?j) (fs_jobs st)) = map fj_traceId (fs_jobs st)"
    using t by (intro map_update_first) (auto simp: has_trace_def)
  moreover have "get_job ?t (settle now' (put_job ?t ?j st)) = Some ?j"
    using get_put_job [OF t j(1)] by simp
  moreover have "reserve_job ser bench now' p' r' st = (Inl (Conflicting_Reserve ?t), st)"
    using j assms(4,7-9)
    by (auto simp: reserve_job_def existing_fingerprint_def reserved_for_def reserve_conflict_def)
  ultimately show ?thesis
    using j(1) reserve_again [OF assms(3,4) j, of bench now']
    by (intro exI [of _ j] exI [of _ "settle now' (put_job ?t ?j st)"]) simp
qed

section \<open>Restart and stop\<close>

lemma restart_action_landed: "\<not> in_flight (restart_action a)"
  by (simp add: restart_action_def in_flight_def)

lemma restart_job_simps [simp]:
  "fj_actions (restart_job now job) = map restart_action (fj_actions job)"
  "fj_state (restart_job now job) = (if fj_state job = JRunning then JArmed else fj_state job)"
  "fj_cancelRequested (restart_job now job) = fj_cancelRequested job"
  "fj_traceId (restart_job now job) = fj_traceId job"
  by (simp_all add: restart_job_def Let_def)

lemma recovered_jobs:
  "fs_jobs (snd (recover_jobs_for_restart now p st))
     = map (restart_job now) (filter (\<lambda>job. \<not> should_prune_job_on_restart job now) (fs_jobs st))"
  by (simp add: recover_jobs_for_restart_def Let_def)

lemma fresh_job_kept:
  "unat now \<le> unat (fj_updatedAtMs job) + 300000 \<Longrightarrow> \<not> should_prune_job_on_restart job now"
  by (simp add: should_prune_job_on_restart_def restart_stale_job_max_age_ms_def word_less_nat_alt
      unat_sat_sub unat_max Let_def)


lemma settle_idle:
  assumes "active_job_count (fs_jobs st) = 0" "\<not> has_live_watcher_work (fs_jobs st)"
  shows "fh_activeJobs (fs_health (settle now st)) = 0
    \<and> fh_slotWatcher (fs_health (settle now st)) = WHealthy
    \<and> fh_watchEndpoint (fs_health (settle now st)) = None"
  using assms
  by (simp add: settle_def refresh_counts_def normalize_idle_health_def touch_health_def)


section \<open>The theorems at the sample launch\<close>

lemma sample_reserve_step: "store_step sample_serde sample_start sample_reserved"
  unfolding sample_reserved_def by (rule store_step.reserve)

lemma sample_arm_step: "store_step sample_serde sample_reserved sample_armed"
  unfolding sample_armed_def by (rule store_step.arm)

lemma sample_start_reachable: "follow_reachable sample_serde ''0.1.0'' sample_start"
  unfolding sample_start_def by (rule follow_reachable.fresh)

lemma sample_armed_reachable: "follow_reachable sample_serde ''0.1.0'' sample_armed"
  by (rule follow_reachable.step [OF follow_reachable.step [OF sample_start_reachable
        sample_reserve_step] sample_arm_step])

theorem store_counts_and_trace_ids_witness:
  "fh_queueDepth (fs_health sample_armed) = 1 \<and> fh_activeJobs (fs_health sample_armed) = 1"
  using store_counts_and_trace_ids [OF sample_armed_reachable] by (simp add: sample_armed_jobs)

definition sample_cancel :: follow_cancel_request where
  "sample_cancel = \<lparr>cr_traceId = ''t-1'', cr_actionId = None, cr_note = Some ''stop''\<rparr>"

definition sample_cancelled :: follow_daemon_state_file where
  "sample_cancelled = snd (cancel_job 30 None sample_cancel sample_armed)"

lemma sample_cancelled_job:
  "get_job ''t-1'' sample_cancelled
     = Some (cancel_whole_job (Some ''stop'') (sample_job\<lparr>fj_updatedAtMs := 30\<rparr>))"
  by (simp add: sample_cancelled_def cancel_job_def sample_cancel_def sample_armed_job Let_def)
    (simp add: get_put_job sample_armed_job cancel_whole_job_def)

theorem launch_binding_is_permanent_witness:
  "(\<exists>j'. get_job ''t-1'' sample_cancelled = Some j' \<and> fj_mint j' = Some ''mint''
      \<and> fj_launchCreator j' = Some ''dev'')
   \<and> arm_job 40 None (sample_arm\<lparr>ar_mint := ''other''\<rparr>) sample_armed
       = (Inl (Mint_Changed ''t-1'' ''mint'' ''other''), sample_armed)"
proof -
  have step: "store_step sample_serde sample_armed sample_cancelled"
    unfolding sample_cancelled_def by (rule store_step.cancel)
  show ?thesis
    using launch_binding_is_permanent [OF sample_armed_reachable step sample_armed_job
        sample_cancelled_job, of "''mint''" "sample_arm\<lparr>ar_mint := ''other''\<rparr>" 40 None]
    by (simp add: sample_cancelled_job)
qed

definition sample_other_reserve :: follow_reserve_request where
  "sample_other_reserve = sample_reserve\<lparr>rr_prebuiltActions := [sample_sell_action]\<rparr>"

lemma sample_other_fingerprint:
  "requested_fingerprint sample_serde sample_other_reserve = Some ''[sell''"
  by (simp add: requested_fingerprint_def stable_reserve_payload_fingerprint_def
      requested_actions_def sample_other_reserve_def sample_serde_def stable_action_identity_def)

lemma sample_other_trace: "rr_traceId sample_other_reserve = ''t-1''"
  by (simp add: sample_other_reserve_def)

theorem reservation_is_idempotent_witness:
  "(\<exists>st'. reserve_job sample_serde ''off'' 50 None sample_reserve sample_armed
      = (Inr (sample_job\<lparr>fj_updatedAtMs := 50\<rparr>), st'))
   \<and> reserve_job sample_serde ''off'' 50 None sample_other_reserve sample_armed
      = (Inl (Conflicting_Reserve ''t-1''), sample_armed)"
proof -
  have total: "serde_total sample_serde sample_reserve"
    by (simp add: serde_total_def sample_serde_def)
  have "step_keeping sample_serde ''t-1'' sample_reserved sample_armed"
    using sample_arm_step by (simp add: step_keeping_def sample_armed_job)
  then have steps: "(step_keeping sample_serde (rr_traceId sample_reserve))\<^sup>*\<^sup>*
      (snd (reserve_job sample_serde ''off'' 10 None sample_reserve sample_start)) sample_armed"
    by (simp add: sample_reserved_def [symmetric] r_into_rtranclp)
  show ?thesis
    using reservation_is_idempotent [OF sample_start_reachable total sample_fingerprint _ _ steps
        _ sample_other_fingerprint, of 50 None] sample_other_trace
    by (auto simp: sample_armed_job)
qed

definition sample_sent :: follow_daemon_state_file where
  "sample_sent = snd (update_action 25 None ''t-1'' ''buy'' (\<lambda>a. a\<lparr>fa_state := ASent\<rparr>) sample_armed)"



end
