(* ===== verification/Follow_Actions.thy ===== *)
theory Follow_Actions
  imports Follow_Lifecycle Sol_Amounts
begin

text \<open>
  The decisions of the follow daemon (\<^verbatim>\<open>bin/launchdeck-follow-daemon.rs\<close>) about the
  actions of a job: how they are grouped into batches, which sell belongs to which buy, when
  an action runs before or waits for the deferred setup, what a failed attempt leads to, and
  the final state of a job. Environment flags are arguments.
\<close>

section \<open>Text of errors\<close>

definition contains :: "string \<Rightarrow> string \<Rightarrow> bool" where
  "contains s p = list_ex (\<lambda>i. starts_with (drop i s) p) [0..<Suc (length s)]"

definition stopped_mark :: string where "stopped_mark = ''__stopped__''"

definition is_stopped_action_error :: "string \<Rightarrow> bool" where
  "is_stopped_action_error error = starts_with (str_trim error) stopped_mark"

definition is_expired_action_error :: "string \<Rightarrow> bool" where
  "is_expired_action_error error = starts_with (str_trim error) ''__expired__''"

definition normalized_stopped_action_reason :: "string option \<Rightarrow> string option" where
  "normalized_stopped_action_reason reason =
     Option.bind reason (\<lambda>reason.
       let trimmed = str_trim reason;
           cleaned = str_trim (unwrap_or trimmed (strip_prefix stopped_mark trimmed))
       in if cleaned = [] then None else Some cleaned)"

definition market_cap_scan_stopped_notice :: "string \<Rightarrow> u64 \<Rightarrow> string" where
  "market_cap_scan_stopped_notice action_id scan_timeout_seconds =
     ''__stopped__ market-cap scan stopped for '' @ action_id @ '' after ''
     @ show_word scan_timeout_seconds @ '' second(s).''"

text \<open>\<^verbatim>\<open>trim_start_matches("__stopped__")\<close> strips the prefix as often as it occurs.\<close>

fun trim_start_matches :: "nat \<Rightarrow> string \<Rightarrow> string \<Rightarrow> string" where
  "trim_start_matches 0 p s = s"
| "trim_start_matches (Suc n) p s =
     (case strip_prefix p s of Some r \<Rightarrow> trim_start_matches n p r | None \<Rightarrow> s)"

definition is_market_cap_scan_stopped_error :: "string \<Rightarrow> bool" where
  "is_market_cap_scan_stopped_error error =
     starts_with (dropWhile is_ws (trim_start_matches (length error) stopped_mark error))
       ''market-cap scan stopped''"

definition is_creator_vault_seed_mismatch :: "string \<Rightarrow> bool" where
  "is_creator_vault_seed_mismatch error =
     (let normalized = ascii_lower error
      in contains normalized ''creator_vault''
         \<and> (contains normalized ''constraintseeds''
             \<or> contains normalized ''seeds constraint was violated''))"

definition has_custom_code :: "string \<Rightarrow> string \<Rightarrow> bool" where
  "has_custom_code normalized code =
     (contains normalized (CHR 0x22 # ''custom'' @ CHR 0x22 # '':'' @ code)
      \<or> contains normalized (''custom:'' @ code)
      \<or> contains normalized (''custom: '' @ code))"

definition is_pump_custom_2006_seed_mismatch :: "string \<Rightarrow> bool" where
  "is_pump_custom_2006_seed_mismatch error =
     (let normalized = ascii_lower error
      in contains normalized ''instructionerror'' \<and> has_custom_code normalized ''2006'')"

definition is_pump_creator_vault_retry_error :: "string \<Rightarrow> bool" where
  "is_pump_creator_vault_retry_error error =
     (is_creator_vault_seed_mismatch error \<or> is_pump_custom_2006_seed_mismatch error)"

definition is_pump_custom_6003_slippage :: "string \<Rightarrow> bool" where
  "is_pump_custom_6003_slippage error =
     (let normalized = ascii_lower error
      in contains normalized ''instructionerror'' \<and> has_custom_code normalized ''6003'')"

definition is_pump_custom_6023_not_enough_tokens :: "string \<Rightarrow> bool" where
  "is_pump_custom_6023_not_enough_tokens error =
     (let normalized = ascii_lower error
      in contains normalized ''notenoughtokenstosell''
         \<or> (contains normalized ''instructionerror'' \<and> has_custom_code normalized ''6023''))"

definition is_retryable_action_error :: "string \<Rightarrow> bool" where
  "is_retryable_action_error error =
     (let normalized = ascii_lower error
      in \<not> list_ex (contains normalized)
           [''cancel'', ''insufficient funds'', ''wallet env key not found'',
            ''wallet env var is missing'', ''missing mint'', ''missing launch creator'',
            ''missing transport plan'', ''had nothing to send'', ''invalid'', ''precheck'']
         \<and> list_ex (contains normalized)
           [''timeout'', ''timed out'', ''websocket'', ''connection'', ''tempor'',
            ''was not found'', ''capacity'', ''provider'', ''rpc'', ''429'',
            ''too many requests'', ''unavailable''])"

section \<open>Back-off\<close>

definition action_retry_backoff_ms :: "u32 \<Rightarrow> u64" where
  "action_retry_backoff_ms attempt_count =
     (let multiplier = push_bit (unat (min attempt_count 4)) (1 :: u64)
      in min (sat_mul 150 multiplier) 5000)"

definition watcher_backoff_ms :: "u32 \<Rightarrow> u64" where
  "watcher_backoff_ms attempt =
     (let factor = push_bit (unat (min attempt 5)) (1 :: u64)
      in min (sat_mul 200 factor) 5000)"

section \<open>Retry decisions\<close>

definition over_budget :: "follow_job_record \<Rightarrow> follow_action_record \<Rightarrow> bool" where
  "over_budget job a \<longleftrightarrow> nc_retryBudget (nl_constraints (fj_followLaunch job)) < fa_attemptCount a"

definition should_retry_action :: "follow_job_record \<Rightarrow> follow_action_record \<Rightarrow> string \<Rightarrow> bool" where
  "should_retry_action job a error =
     (if over_budget job a then False
      else if is_expired_action_error error then False
      else if fa_state a \<in> {ASent, AStopped, AConfirmed, ACancelled, AExpired, AFailed}
      then False
      else is_retryable_action_error error)"

definition should_retry_pump_sell_creator_vault_mismatch ::
  "bool \<Rightarrow> follow_job_record \<Rightarrow> follow_action_record \<Rightarrow> string \<Rightarrow> bool" where
  "should_retry_pump_sell_creator_vault_mismatch enabled job a error =
     (if \<not> enabled then False
      else if over_budget job a then False
      else if fj_launchpad job \<noteq> ''pump'' then False
      else if fa_kind a \<notin> {DevAutoSell, SniperSell} then False
      else is_pump_creator_vault_retry_error error)"

definition should_rebuild_presigned_pump_buy_creator_vault_mismatch ::
  "bool \<Rightarrow> follow_job_record \<Rightarrow> follow_action_record \<Rightarrow> string \<Rightarrow> bool" where
  "should_rebuild_presigned_pump_buy_creator_vault_mismatch enabled job a error =
     (if \<not> enabled then False
      else if over_budget job a then False
      else if fj_launchpad job \<noteq> ''pump'' then False
      else if fa_kind a \<noteq> SniperBuy then False
      else if fa_preSignedTransactions a = [] then False
      else is_pump_creator_vault_retry_error error)"

definition should_rebuild_presigned_pump_sell_onchain_slippage ::
  "follow_job_record \<Rightarrow> follow_action_record \<Rightarrow> string \<Rightarrow> bool" where
  "should_rebuild_presigned_pump_sell_onchain_slippage job a error =
     (if over_budget job a then False
      else if fj_launchpad job \<noteq> ''pump'' then False
      else if fa_kind a \<notin> {DevAutoSell, SniperSell} then False
      else if fa_preSignedTransactions a = [] then False
      else is_pump_custom_6003_slippage error \<or> is_pump_custom_6023_not_enough_tokens error)"

definition should_rebuild_expired_presigned_action :: "follow_action_record \<Rightarrow> string \<Rightarrow> bool" where
  "should_rebuild_expired_presigned_action a error =
     (fa_kind a = DevAutoSell \<and> fa_preSignedTransactions a \<noteq> []
      \<and> is_expired_action_error error)"

definition reset_action_for_presigned_rebuild ::
  "follow_action_record \<Rightarrow> string \<Rightarrow> follow_action_record" where
  "reset_action_for_presigned_rebuild a message =
     a\<lparr>fa_state := AArmed, fa_preSignedTransactions := [], fa_eligibleAtMs := None,
       fa_submitStartedAtMs := None, fa_submittedAtMs := None, fa_confirmedAtMs := None,
       fa_sendObservedSlot := None, fa_confirmedObservedSlot := None, fa_slotsToConfirm := None,
       fa_signature := None, fa_explorerUrl := None, fa_endpoint := None, fa_bundleId := None,
       fa_lastError := Some message\<rparr>"

text \<open>
  What \<^verbatim>\<open>execute_action_with_retry\<close> does with the error of one attempt: the record the
  attempt started from decides about an expired payload, the record it left behind about
  everything else. The result is the rewritten record and, unless the loop continues, the
  result of the task (\<^term>\<open>None\<close> for \<^verbatim>\<open>Ok(())\<close>).
\<close>

record retry_flags =
  buy_vault_retry :: bool
  sell_vault_retry :: bool

definition rebuild_message :: "string \<Rightarrow> u64 \<Rightarrow> string \<Rightarrow> string" where
  "rebuild_message what delay error = what @ '' in '' @ show_word delay @ ''ms: '' @ error"

definition retry_iteration ::
  "retry_flags \<Rightarrow> follow_job_record \<Rightarrow> follow_action_record \<Rightarrow> follow_action_record \<Rightarrow> string
     \<Rightarrow> follow_action_record \<times> string option option" where
  "retry_iteration flags job started latest error =
     (let delay = action_retry_backoff_ms (fa_attemptCount latest)
      in
      if should_rebuild_expired_presigned_action started error then
        (latest\<lparr>fa_state := AArmed, fa_preSignedTransactions := [],
           fa_lastError := Some (rebuild_message
             ''Expired pre-signed dev-auto-sell payload; rebuilding with fresh blockhash''
             (action_retry_backoff_ms (fa_attemptCount started)) error)\<rparr>, None)
      else if is_stopped_action_error error then
        (latest\<lparr>fa_state := AStopped,
           fa_lastError := normalized_stopped_action_reason
             (normalized_stopped_action_reason (Some error))\<rparr>, Some None)
      else if is_expired_action_error error then
        (latest\<lparr>fa_state := AExpired, fa_lastError := Some error\<rparr>, Some None)
      else if should_rebuild_presigned_pump_buy_creator_vault_mismatch (buy_vault_retry flags)
                job latest error then
        (reset_action_for_presigned_rebuild latest (rebuild_message
           ''Pump buy hit creator_vault mismatch; rebuilding with refreshed creator-vault state''
           delay error), None)
      else if should_retry_pump_sell_creator_vault_mismatch (sell_vault_retry flags)
                job latest error then
        (reset_action_for_presigned_rebuild latest (rebuild_message
           ''Pump sell hit creator_vault mismatch; rebuilding with refreshed creator-vault state''
           delay error), None)
      else if should_rebuild_presigned_pump_sell_onchain_slippage job latest error then
        (reset_action_for_presigned_rebuild latest (rebuild_message
           ''Pump pre-signed sell hit on-chain slippage; rebuilding with refreshed sell quote''
           delay error), None)
      else if should_retry_action job latest error then
        (latest\<lparr>fa_state := AArmed, fa_attemptCount := sat_add (fa_attemptCount latest) 1,
           fa_lastError := Some (''Retrying after attempt '' @ show_word (fa_attemptCount latest)
             @ '' in '' @ show_word delay @ ''ms: '' @ error)\<rparr>, None)
      else (latest\<lparr>fa_state := AFailed, fa_lastError := Some error\<rparr>, Some (Some error)))"

definition action_settled :: "follow_action_state \<Rightarrow> bool" where
  "action_settled s \<longleftrightarrow>
     s \<in> {AConfirmed, AStopped, ACancelled, AFailed, AExpired, ASent, ARunning}"

text \<open>
  The loop. \<open>exec n a\<close> is the \<open>n\<close>th attempt: the record it leaves and its error;
  \<open>cancelled n\<close> tells whether the job has been cancelled when the \<open>n\<close>th round starts.
\<close>

partial_function (option) execute_action_with_retry ::
  "retry_flags \<Rightarrow> follow_job_record
     \<Rightarrow> (nat \<Rightarrow> follow_action_record \<Rightarrow> follow_action_record \<times> string option)
     \<Rightarrow> (nat \<Rightarrow> bool) \<Rightarrow> nat \<Rightarrow> follow_action_record
     \<Rightarrow> (follow_action_record \<times> string option) option" where
  "execute_action_with_retry flags job exec cancelled n a =
     (if cancelled n \<or> action_settled (fa_state a) then Some (a, None)
      else case exec n a of
             (latest, None) \<Rightarrow> Some (latest, None)
           | (latest, Some error) \<Rightarrow>
               (case retry_iteration flags job a latest error of
                  (a', Some r) \<Rightarrow> Some (a', r)
                | (a', None) \<Rightarrow>
                    execute_action_with_retry flags job exec cancelled (Suc n) a'))"

section \<open>The retry loop ends\<close>

text \<open>
  What the loop relies on: an attempt never lowers the attempt count nor adds presigned
  transactions, and one that fails with a creator-vault error has been counted.
\<close>

definition attempts_counted ::
  "(nat \<Rightarrow> follow_action_record \<Rightarrow> follow_action_record \<times> string option) \<Rightarrow> bool" where
  "attempts_counted exec \<longleftrightarrow>
     (\<forall>n a latest error. exec n a = (latest, Some error) \<longrightarrow>
        fa_attemptCount a \<le> fa_attemptCount latest
        \<and> (fa_preSignedTransactions a = [] \<longrightarrow> fa_preSignedTransactions latest = [])
        \<and> (is_pump_creator_vault_retry_error error \<longrightarrow> fa_attemptCount a < fa_attemptCount latest))"

definition retry_budget :: "follow_job_record \<Rightarrow> nat" where
  "retry_budget job = unat (nc_retryBudget (nl_constraints (fj_followLaunch job)))"

definition rounds_left :: "follow_job_record \<Rightarrow> follow_action_record \<Rightarrow> nat" where
  "rounds_left job a =
     2 * (Suc (retry_budget job) - unat (fa_attemptCount a))
     + (if fa_preSignedTransactions a = [] then 0 else 1)"

lemma within_budget: "\<not> over_budget job a \<longleftrightarrow> unat (fa_attemptCount a) \<le> retry_budget job"
  by (auto simp: over_budget_def retry_budget_def word_less_nat_alt)

lemma reset_simps [simp]:
  "fa_attemptCount (reset_action_for_presigned_rebuild a m) = fa_attemptCount a"
  "fa_preSignedTransactions (reset_action_for_presigned_rebuild a m) = []"
  "fa_state (reset_action_for_presigned_rebuild a m) = AArmed"
  by (simp_all add: reset_action_for_presigned_rebuild_def)

lemma rounds_left_presigned:
  assumes "fa_preSignedTransactions latest \<noteq> []" "fa_preSignedTransactions a \<noteq> []"
    and "fa_attemptCount a \<le> fa_attemptCount latest"
    and "fa_preSignedTransactions b = []" "fa_attemptCount b = fa_attemptCount latest"
  shows "rounds_left job b < rounds_left job a"
  using assms by (simp add: rounds_left_def word_le_nat_alt)

lemma continuing_round_shrinks:
  assumes "attempts_counted exec" "exec n a = (latest, Some error)"
    and "retry_iteration flags job a latest error = (a', None)"
    and "retry_budget job < 2 ^ 32 - 1"
  shows "rounds_left job a' < rounds_left job a"
proof -
  have le: "fa_attemptCount a \<le> fa_attemptCount latest"
    and pre: "fa_preSignedTransactions a = [] \<Longrightarrow> fa_preSignedTransactions latest = []"
    and counted: "is_pump_creator_vault_retry_error error \<Longrightarrow> fa_attemptCount a < fa_attemptCount latest"
    using assms(1,2) by (auto simp: attempts_counted_def)
  consider (expired) "should_rebuild_expired_presigned_action a error"
      "fa_preSignedTransactions a' = []" "fa_attemptCount a' = fa_attemptCount latest"
    | (presigned) "fa_preSignedTransactions latest \<noteq> []"
      "fa_preSignedTransactions a' = []" "fa_attemptCount a' = fa_attemptCount latest"
    | (vault) "\<not> over_budget job latest" "is_pump_creator_vault_retry_error error"
      "fa_preSignedTransactions a' = []" "fa_attemptCount a' = fa_attemptCount latest"
    | (again) "\<not> over_budget job latest"
      "fa_preSignedTransactions a' = fa_preSignedTransactions latest"
      "fa_attemptCount a' = sat_add (fa_attemptCount latest) 1"
    using assms(3)
    by (auto simp: retry_iteration_def Let_def should_rebuild_presigned_pump_buy_creator_vault_mismatch_def
        should_retry_pump_sell_creator_vault_mismatch_def
        should_rebuild_presigned_pump_sell_onchain_slippage_def should_retry_action_def
        split: if_splits)
  then show ?thesis
  proof cases
    case expired
    then have "fa_preSignedTransactions a \<noteq> []"
      by (simp add: should_rebuild_expired_presigned_action_def)
    then show ?thesis using expired(2,3) le by (simp add: rounds_left_def word_le_nat_alt)
  next
    case presigned
    then show ?thesis using pre le rounds_left_presigned by blast
  next
    case vault
    have "unat (fa_attemptCount a) < unat (fa_attemptCount latest)"
      using counted [OF vault(2)] by (simp add: word_less_nat_alt)
    then show ?thesis using vault by (simp add: rounds_left_def within_budget)
  next
    case again
    have "unat (fa_attemptCount a') = Suc (unat (fa_attemptCount latest))"
      using again(1,3) assms(4) by (simp add: unat_sat_add within_budget)
    then show ?thesis
      using again le pre by (auto simp: rounds_left_def within_budget word_le_nat_alt)
  qed
qed

lemma retry_loop_returns:
  assumes "attempts_counted exec" "retry_budget job < 2 ^ 32 - 1"
    and "rounds_left job a < k"
    and "\<And>m. n \<le> m \<Longrightarrow> m < n + k \<Longrightarrow> exec' m = exec m"
  shows "\<exists>r. execute_action_with_retry flags job exec cancelled n a = Some r
    \<and> execute_action_with_retry flags job exec' cancelled n a = Some r"
  using assms(3,4)
proof (induction k arbitrary: n a)
  case (Suc k)
  have same: "exec' n = exec n" using Suc.prems(2) by simp
  show ?case
  proof (cases "cancelled n \<or> action_settled (fa_state a)")
    case True
    then show ?thesis by (simp add: execute_action_with_retry.simps)
  next
    case False
    obtain latest err where e: "exec n a = (latest, err)" by (cases "exec n a")
    show ?thesis
    proof (cases err)
      case None
      then show ?thesis
        using False e same by (simp add: execute_action_with_retry.simps [of _ _ _ _ n])
    next
      case (Some error)
      obtain a' r where i: "retry_iteration flags job a latest error = (a', r)"
        by (cases "retry_iteration flags job a latest error")
      show ?thesis
      proof (cases r)
        case None
        have "rounds_left job a' < k"
          using continuing_round_shrinks [OF assms(1) e [unfolded Some] i [unfolded None] assms(2)]
            Suc.prems(1) by simp
        then obtain res where
          "execute_action_with_retry flags job exec cancelled (Suc n) a' = Some res"
          "execute_action_with_retry flags job exec' cancelled (Suc n) a' = Some res"
          using Suc.IH [of a' "Suc n"] Suc.prems(2) by auto
        then show ?thesis
          using False e same Some i None by (simp add: execute_action_with_retry.simps [of _ _ _ _ n])
      next
        case Some
        then show ?thesis
          using False e same \<open>err = Some error\<close> i
          by (simp add: execute_action_with_retry.simps [of _ _ _ _ n])
      qed
    qed
  qed
qed simp


text \<open>Every attempt counts itself and fails with an error that is retried.\<close>

definition counted_attempt :: "nat \<Rightarrow> follow_action_record \<Rightarrow> follow_action_record \<times> string option" where
  "counted_attempt n a = (a\<lparr>fa_attemptCount := max_word\<rparr>, Some ''blockhash not found'')"


text \<open>
  An attempt that fails while the action still waits for the deferred setup returns the error
  of the setup, and it has not been counted.
\<close>

definition setup_failed_attempt ::
  "string \<Rightarrow> nat \<Rightarrow> follow_action_record \<Rightarrow> follow_action_record \<times> string option" where
  "setup_failed_attempt error n a =
     (if fa_state a = AQueued then a\<lparr>fa_state := AArmed\<rparr> else a, Some error)"

definition vault_error :: string where
  "vault_error = ''InstructionError(0, Custom:2006)''"

lemma vault_error_text:
  "ascii_lower vault_error = ''instructionerror(0, custom:2006)''"
  "str_trim vault_error = vault_error"
  "contains ''instructionerror(0, custom:2006)'' ''instructionerror''"
  "contains ''instructionerror(0, custom:2006)'' ''custom:2006''"
  unfolding vault_error_def by code_simp+

lemma vault_error_kind:
  "is_pump_creator_vault_retry_error vault_error" "\<not> is_stopped_action_error vault_error"
  "\<not> is_expired_action_error vault_error"
  by (simp add: is_pump_creator_vault_retry_error_def is_pump_custom_2006_seed_mismatch_def
      vault_error_text has_custom_code_def)
    (simp_all add: is_stopped_action_error_def is_expired_action_error_def vault_error_text,
      simp_all add: vault_error_def stopped_mark_def starts_with_def)

lemma uncounted_round:
  assumes "fa_kind a \<in> {DevAutoSell, SniperSell}" "\<not> over_budget job a"
    and "fj_launchpad job = ''pump''" "sell_vault_retry flags"
  shows "\<exists>m. retry_iteration flags job a (fst (setup_failed_attempt vault_error n a)) vault_error
    = (reset_action_for_presigned_rebuild (fst (setup_failed_attempt vault_error n a)) m, None)"
proof -
  let ?latest = "fst (setup_failed_attempt vault_error n a)"
  have latest: "fa_kind ?latest = fa_kind a" "over_budget job ?latest = over_budget job a"
    by (simp_all add: setup_failed_attempt_def over_budget_def)
  have "\<not> should_rebuild_expired_presigned_action a vault_error"
    using vault_error_kind(3) by (simp add: should_rebuild_expired_presigned_action_def)
  moreover have "\<not> should_rebuild_presigned_pump_buy_creator_vault_mismatch b job ?latest vault_error" for b
    using assms(1) latest(1)
    by (auto simp: should_rebuild_presigned_pump_buy_creator_vault_mismatch_def)
  moreover have "should_retry_pump_sell_creator_vault_mismatch (sell_vault_retry flags) job ?latest vault_error"
    using assms latest vault_error_kind(1)
    by (simp add: should_retry_pump_sell_creator_vault_mismatch_def)
  ultimately show ?thesis
    using vault_error_kind(2,3) by (intro exI) (simp only: retry_iteration_def Let_def if_True if_False)
qed

definition stuck_sell :: "retry_flags \<Rightarrow> follow_job_record \<Rightarrow> follow_action_record \<Rightarrow> bool" where
  "stuck_sell flags job a \<longleftrightarrow>
     fa_kind a \<in> {DevAutoSell, SniperSell} \<and> \<not> over_budget job a \<and> fj_launchpad job = ''pump''
     \<and> sell_vault_retry flags \<and> fa_state a \<in> {AQueued, AArmed}"

lemma stuck_sell_round:
  assumes "stuck_sell flags job a"
  obtains a' where "retry_iteration flags job a (fst (setup_failed_attempt vault_error n a)) vault_error
      = (a', None)" "stuck_sell flags job a'"
proof -
  let ?latest = "fst (setup_failed_attempt vault_error n a)"
  obtain m where "retry_iteration flags job a ?latest vault_error
      = (reset_action_for_presigned_rebuild ?latest m, None)"
    using uncounted_round [of a job flags n] assms by (auto simp: stuck_sell_def)
  moreover have "stuck_sell flags job (reset_action_for_presigned_rebuild ?latest m)"
    using assms by (auto simp: stuck_sell_def setup_failed_attempt_def over_budget_def
        reset_action_for_presigned_rebuild_def)
  ultimately show thesis by (rule that)
qed

lemma uncounted_loop_diverges:
  assumes "execute_action_with_retry flags job exec cancelled n a = Some r"
  shows "\<not> (exec = setup_failed_attempt vault_error \<and> cancelled = (\<lambda>_. False) \<and> stuck_sell flags job a)"
  using assms
proof (induction rule: execute_action_with_retry.raw_induct [rotated, consumes 1, case_names round])
  case (round loop flags job exec cancelled n a r)
  show ?case
  proof
    assume stuck: "exec = setup_failed_attempt vault_error \<and> cancelled = (\<lambda>_. False)
      \<and> stuck_sell flags job a"
    obtain latest where latest: "setup_failed_attempt vault_error n a = (latest, Some vault_error)"
      by (simp add: setup_failed_attempt_def)
    obtain a' where a': "retry_iteration flags job a latest vault_error = (a', None)"
      "stuck_sell flags job a'"
      using stuck stuck_sell_round [of flags job a n] latest by auto
    have "\<not> (cancelled n \<or> action_settled (fa_state a))"
      using stuck by (auto simp: action_settled_def stuck_sell_def)
    then have "loop flags job exec cancelled (Suc n) a' = Some r"
      using round(2) stuck latest a'(1) by simp
    from round(1) [OF this] stuck a'(2) show False by blast
  qed
qed

text \<open>
  The hypothesis matters. A sell whose deferred setup failed on chain with custom error
  2006 gets that error back from every attempt before it is counted, and its loop never ends:
  each round resets the action and tries again.
\<close>

theorem uncounted_vault_error_retries_forever:
  assumes "fa_kind a \<in> {DevAutoSell, SniperSell}" "fa_state a = AArmed" "fa_attemptCount a = 0"
    and "fj_launchpad job = ''pump''" "sell_vault_retry flags"
  shows "execute_action_with_retry flags job (setup_failed_attempt vault_error) (\<lambda>_. False) n a
    = None"
proof (rule ccontr)
  assume "execute_action_with_retry flags job (setup_failed_attempt vault_error) (\<lambda>_. False) n a \<noteq> None"
  then obtain r where
    "execute_action_with_retry flags job (setup_failed_attempt vault_error) (\<lambda>_. False) n a = Some r"
    by blast
  from uncounted_loop_diverges [OF this] assms
  show False by (simp add: over_budget_def stuck_sell_def)
qed

text \<open>
  Cancelling one action while its attempt is running is not final. If the attempt then
  fails with a creator-vault error, the cancelled sell is armed again and the loop goes on to
  send it; if the attempt notices the cancellation, the action is recorded as failed.
\<close>

theorem cancelled_action_is_not_final:
  assumes "fa_kind a \<in> {DevAutoSell, SniperSell}" "fa_state a = ACancelled" "\<not> over_budget job a"
    and "fj_launchpad job = ''pump''" "sell_vault_retry flags"
  shows "(\<exists>a'. retry_iteration flags job a a vault_error = (a', None) \<and> fa_state a' = AArmed)
    \<and> retry_iteration flags job a a ''Follow action was cancelled: sell''
        = (a\<lparr>fa_state := AFailed, fa_lastError := Some ''Follow action was cancelled: sell''\<rparr>,
           Some (Some ''Follow action was cancelled: sell''))"
proof
  have "fst (setup_failed_attempt vault_error 0 a) = a"
    using assms(2) by (simp add: setup_failed_attempt_def)
  then show "\<exists>a'. retry_iteration flags job a a vault_error = (a', None) \<and> fa_state a' = AArmed"
    using uncounted_round [OF assms(1,3,4,5), of 0] by auto
  have kinds: "\<not> is_stopped_action_error ''Follow action was cancelled: sell''"
    "\<not> is_expired_action_error ''Follow action was cancelled: sell''"
    "\<not> is_pump_creator_vault_retry_error ''Follow action was cancelled: sell''"
    "\<not> is_pump_custom_6003_slippage ''Follow action was cancelled: sell''"
    "\<not> is_pump_custom_6023_not_enough_tokens ''Follow action was cancelled: sell''"
    by code_simp+
  show "retry_iteration flags job a a ''Follow action was cancelled: sell''
      = (a\<lparr>fa_state := AFailed, fa_lastError := Some ''Follow action was cancelled: sell''\<rparr>,
         Some (Some ''Follow action was cancelled: sell''))"
    using kinds assms(2)
    by (simp add: retry_iteration_def Let_def should_rebuild_expired_presigned_action_def
        should_rebuild_presigned_pump_buy_creator_vault_mismatch_def
        should_retry_pump_sell_creator_vault_mismatch_def
        should_rebuild_presigned_pump_sell_onchain_slippage_def should_retry_action_def)
qed

end
