(* ===== verification/Follow_Schedule.thy ===== *)
theory Follow_Schedule
  imports Follow_Actions "HOL-Library.Multiset"
begin

text \<open>
  How the tasks of one follow job wait for each other (\<^verbatim>\<open>bin/launchdeck-follow-daemon.rs\<close>):
  a sniper sell waits for its buy, an action that does not run before the deferred setup waits
  for the setup, and the setup task waits for the actions that run before it. Each wait is a
  polling loop; one round of it is a function of the job and the clock.
\<close>

section \<open>Before or after the deferred setup\<close>

definition action_runs_before_deferred_setup :: "follow_action_record \<Rightarrow> bool" where
  "action_runs_before_deferred_setup a =
     (if fa_marketCap a \<noteq> None then False
      else case fa_targetBlockOffset a of
        Some offset \<Rightarrow> offset = 0
      | None \<Rightarrow>
          if fa_requireConfirmation a then False
          else if fa_delayMs a \<noteq> None then False
          else case fa_submitDelayMs a of Some delay_ms \<Rightarrow> delay_ms = 0 | None \<Rightarrow> True)"

definition action_requires_deferred_setup_before_send ::
  "follow_job_record \<Rightarrow> follow_action_record \<Rightarrow> bool" where
  "action_requires_deferred_setup_before_send job a =
     (case fa_kind a of
        SniperBuy \<Rightarrow> should_use_post_setup_creator_vault_for_buy
          (fj_preferPostSetupCreatorVaultForSell job) a (ne_buyMevMode (fj_execution job))
      | _ \<Rightarrow> should_use_post_setup_creator_vault_for_sell
          (fj_preferPostSetupCreatorVaultForSell job) a (ne_sellMevMode (fj_execution job)))"

definition unsent :: "follow_action_state \<Rightarrow> bool" where
  "unsent s \<longleftrightarrow> s \<in> {AQueued, AArmed, AEligible, ARunning}"

definition action_waiting_for_presigned_rebuild :: "follow_action_record \<Rightarrow> bool" where
  "action_waiting_for_presigned_rebuild a =
     (if fa_preSignedTransactions a = [] \<and> unsent (fa_state a)
      then let normalized = ascii_lower (unwrap_or [] (fa_lastError a))
           in contains normalized ''rebuilding with refreshed creator-vault state''
              \<or> contains normalized ''rebuilding with refreshed sell quote''
      else False)"

definition should_block_deferred_setup_for_action ::
  "follow_job_record \<Rightarrow> follow_action_record \<Rightarrow> u128 \<Rightarrow> bool" where
  "should_block_deferred_setup_for_action job a now_ms =
     (if \<not> unsent (fa_state a) then False
      else if action_waiting_for_presigned_rebuild a then False
      else if action_requires_deferred_setup_before_send job a then False
      else if \<not> action_runs_before_deferred_setup a then False
      else case fa_scheduledForMs a of
             None \<Rightarrow> True
           | Some scheduled_for_ms \<Rightarrow> scheduled_for_ms \<le> sat_add now_ms 1500)"

section \<open>Buys and sells\<close>

definition matching_sniper_buy_action ::
  "follow_job_record \<Rightarrow> follow_action_record \<Rightarrow> follow_action_record option" where
  "matching_sniper_buy_action job a =
     (if fa_kind a \<noteq> SniperSell then None
      else List.find (\<lambda>c. fa_kind c = SniperBuy \<and> fa_orderIndex c = fa_orderIndex a
                            \<and> fa_walletEnvKey c = fa_walletEnvKey a) (fj_actions job))"

definition has_matching_sniper_sell :: "follow_job_record \<Rightarrow> follow_action_record \<Rightarrow> bool" where
  "has_matching_sniper_sell job a =
     (fa_kind a = SniperBuy
      \<and> list_ex (\<lambda>c. fa_kind c = SniperSell \<and> fa_orderIndex c = fa_orderIndex a
                       \<and> fa_walletEnvKey c = fa_walletEnvKey a) (fj_actions job))"

definition matching_sniper_buy_token_amount_override ::
  "follow_job_record \<Rightarrow> follow_action_record \<Rightarrow> u64 option" where
  "matching_sniper_buy_token_amount_override job a =
     Option.bind (matching_sniper_buy_action job a) (\<lambda>buy.
       Option.bind (fa_confirmedTokenBalanceRaw buy) parse_u64)"

fun terminal_action_state_label :: "follow_action_state \<Rightarrow> string" where
  "terminal_action_state_label AQueued = ''queued''"
| "terminal_action_state_label AArmed = ''armed''"
| "terminal_action_state_label AEligible = ''eligible''"
| "terminal_action_state_label ARunning = ''running''"
| "terminal_action_state_label ASent = ''sent''"
| "terminal_action_state_label AConfirmed = ''confirmed''"
| "terminal_action_state_label AStopped = ''stopped''"
| "terminal_action_state_label AFailed = ''failed''"
| "terminal_action_state_label ACancelled = ''cancelled''"
| "terminal_action_state_label AExpired = ''expired''"

definition sniper_sell_blocked_notice :: "string \<Rightarrow> string \<Rightarrow> follow_action_state \<Rightarrow> string" where
  "sniper_sell_blocked_notice sell_id buy_id state =
     stopped_mark @ '' sniper autosell '' @ sell_id @ '' stopped because matching sniper buy ''
     @ buy_id @ '' ended as '' @ terminal_action_state_label state @ ''.''"

section \<open>One round of each wait\<close>

datatype 'a poll = Ready 'a | Wait | Refuse string

definition ensure_job_not_cancelled :: "follow_job_record \<Rightarrow> string option" where
  "ensure_job_not_cancelled job =
     (if fj_cancelRequested job \<or> fj_state job = JCancelled
      then Some ''Follow job was cancelled.'' else None)"

definition find_action :: "string \<Rightarrow> follow_job_record \<Rightarrow> follow_action_record option" where
  "find_action i job = List.find (has_action i) (fj_actions job)"

definition ensure_action_not_cancelled :: "follow_job_record \<Rightarrow> string \<Rightarrow> string option" where
  "ensure_action_not_cancelled job i =
     (case ensure_job_not_cancelled job of
        Some e \<Rightarrow> Some e
      | None \<Rightarrow>
     (case find_action i job of
        None \<Rightarrow> Some (''Follow action disappeared while waiting: '' @ i)
      | Some a \<Rightarrow> if fa_state a = ACancelled then Some (''Follow action was cancelled: '' @ i)
                   else None))"

text \<open>
  \<^verbatim>\<open>wait_for_matching_sniper_buy_confirmation\<close>: the buy is looked up once in the job
  \<open>started\<close> of the task and followed by its id in the current job.
\<close>

definition buy_confirmation_poll ::
  "follow_job_record \<Rightarrow> follow_job_record \<Rightarrow> follow_action_record \<Rightarrow> u64 poll" where
  "buy_confirmation_poll started job a =
     (case matching_sniper_buy_action started a of
        None \<Rightarrow> Refuse (''Matching sniper buy was missing for autosell '' @ fa_actionId a @ ''.'')
      | Some buy \<Rightarrow>
     (case ensure_action_not_cancelled job (fa_actionId a) of
        Some e \<Rightarrow> Refuse e
      | None \<Rightarrow>
     (case find_action (fa_actionId buy) job of
        None \<Rightarrow> Refuse (''Matching sniper buy '' @ fa_actionId buy
                         @ '' was missing for autosell '' @ fa_actionId a @ ''.'')
      | Some current \<Rightarrow>
          if fa_state current = AConfirmed
          then (case fa_confirmedObservedSlot current of
                  Some slot \<Rightarrow> Ready slot
                | None \<Rightarrow> Refuse (''Matching sniper buy '' @ fa_actionId buy
                    @ '' confirmed without a confirmed slot for autosell '' @ fa_actionId a @ ''.''))
          else if fa_state current \<in> {AStopped, AFailed, ACancelled, AExpired}
          then Refuse (sniper_sell_blocked_notice (fa_actionId a) (fa_actionId buy) (fa_state current))
          else Wait)))"

definition setup_confirmation_poll :: "follow_job_record \<Rightarrow> string \<Rightarrow> unit poll" where
  "setup_confirmation_poll job i =
     (case ensure_action_not_cancelled job i of
        Some e \<Rightarrow> Refuse e
      | None \<Rightarrow>
     (case fj_deferredSetup job of
        None \<Rightarrow> Ready ()
      | Some setup \<Rightarrow>
          (case ds_state setup of
             SConfirmed \<Rightarrow> Ready ()
           | SFailed \<Rightarrow> Refuse (unwrap_or
               ''Deferred setup failed before follow action could run.'' (ds_lastError setup))
           | _ \<Rightarrow> Wait)))"

text \<open>
  The setup task, once the launch is confirmed: finished, waiting for an action that runs
  before it, or executed.
\<close>

definition setup_task_poll :: "follow_job_record \<Rightarrow> u128 \<Rightarrow> bool poll" where
  "setup_task_poll job now_ms =
     (case fj_deferredSetup job of
        None \<Rightarrow> Ready False
      | Some setup \<Rightarrow>
          if ds_state setup \<in> {SConfirmed, SFailed} then Ready False
          else if list_ex (\<lambda>a. should_block_deferred_setup_for_action job a now_ms) (fj_actions job)
          then Wait else Ready True)"

text \<open>\<^verbatim>\<open>wait_for_action_eligibility\<close> ends with the wait for the setup under this condition.\<close>

definition waits_for_setup :: "follow_job_record \<Rightarrow> follow_action_record \<Rightarrow> bool" where
  "waits_for_setup job a \<longleftrightarrow> fj_deferredSetup job \<noteq> None
     \<and> (\<not> action_runs_before_deferred_setup a \<or> action_requires_deferred_setup_before_send job a)"

section \<open>The tasks of a job\<close>

text \<open>
  What is left of a job when every trigger outside it (clock, slots, market cap, the launch
  confirmation, the network) has fired: an action that is not yet eligible waits for its buy,
  then for the setup; one that is eligible or further runs to its end; an unfinished setup
  waits for the actions that run before it.
\<close>

datatype task = Await_Buy follow_action_record | Await_Setup follow_action_record
  | Run follow_action_record | Setup_Task

definition unfinished :: "follow_action_record \<Rightarrow> bool" where
  "unfinished a \<longleftrightarrow> fa_state a \<notin> {AConfirmed, AStopped, AFailed, ACancelled, AExpired}"

definition action_task :: "follow_job_record \<Rightarrow> follow_action_record \<Rightarrow> task" where
  "action_task job a =
     (if fa_state a \<notin> {AQueued, AArmed} then Run a
      else if fa_kind a = SniperSell \<and> buy_confirmation_poll job job a = Wait then Await_Buy a
      else if waits_for_setup job a then Await_Setup a
      else Run a)"

definition setup_unfinished :: "follow_job_record \<Rightarrow> bool" where
  "setup_unfinished job \<longleftrightarrow>
     (case fj_deferredSetup job of None \<Rightarrow> False | Some s \<Rightarrow> ds_state s \<notin> {SConfirmed, SFailed})"

definition tasks :: "follow_job_record \<Rightarrow> task list" where
  "tasks job = map (action_task job) (filter unfinished (fj_actions job))
     @ (if setup_unfinished job then [Setup_Task] else [])"

text \<open>Whether a task is held back by the others at the time \<open>now_ms\<close>.\<close>

fun blocked :: "follow_job_record \<Rightarrow> u128 \<Rightarrow> task \<Rightarrow> bool" where
  "blocked job now_ms (Await_Buy a) = (buy_confirmation_poll job job a = Wait)"
| "blocked job now_ms (Await_Setup a) = (setup_confirmation_poll job (fa_actionId a) = Wait)"
| "blocked job now_ms (Run a) = False"
| "blocked job now_ms Setup_Task = (setup_task_poll job now_ms = Wait)"

text \<open>
  The condition on a job under which its tasks never wait in a circle: the buy of a sell that
  the setup waits for does not itself wait for the setup.
\<close>

definition schedulable :: "follow_job_record \<Rightarrow> bool" where
  "schedulable job \<longleftrightarrow> distinct (map fa_actionId (fj_actions job))
     \<and> (\<forall>a buy. a \<in> set (fj_actions job) \<longrightarrow> matching_sniper_buy_action job a = Some buy
          \<longrightarrow> \<not> waits_for_setup job a \<longrightarrow> \<not> waits_for_setup job buy)"

text \<open>
  One task that is not blocked comes to its end: an action reaches a final state, keeping its
  identity and its triggers, or the setup is confirmed or failed.
\<close>

definition same_plan :: "follow_action_record \<Rightarrow> follow_action_record \<Rightarrow> bool" where
  "same_plan a a' \<longleftrightarrow> fa_actionId a' = fa_actionId a \<and> fa_kind a' = fa_kind a
     \<and> fa_orderIndex a' = fa_orderIndex a \<and> fa_walletEnvKey a' = fa_walletEnvKey a
     \<and> fa_marketCap a' = fa_marketCap a \<and> fa_targetBlockOffset a' = fa_targetBlockOffset a
     \<and> fa_requireConfirmation a' = fa_requireConfirmation a
     \<and> fa_delayMs a' = fa_delayMs a \<and> fa_submitDelayMs a' = fa_submitDelayMs a"

definition finish_action ::
  "follow_action_record \<Rightarrow> follow_action_record \<Rightarrow> follow_job_record \<Rightarrow> follow_job_record" where
  "finish_action a a' job =
     job\<lparr>fj_actions := update_first (has_action (fa_actionId a)) (\<lambda>_. a') (fj_actions job)\<rparr>"

inductive task_ends :: "follow_job_record \<Rightarrow> follow_job_record \<Rightarrow> bool" where
  action_ends: "a \<in> set (fj_actions job) \<Longrightarrow> unfinished a \<Longrightarrow> \<not> blocked job now (action_task job a)
    \<Longrightarrow> same_plan a a' \<Longrightarrow> \<not> unfinished a' \<Longrightarrow> task_ends job (finish_action a a' job)"
| setup_ends: "setup_unfinished job \<Longrightarrow> \<not> blocked job now Setup_Task
    \<Longrightarrow> fj_deferredSetup job = Some setup \<Longrightarrow> s \<in> {SConfirmed, SFailed}
    \<Longrightarrow> task_ends job (job\<lparr>fj_deferredSetup := Some (setup\<lparr>ds_state := s\<rparr>)\<rparr>)"

section \<open>No circular wait\<close>

lemma not_blocked_run: "\<not> waits_for_setup job a \<Longrightarrow> fa_kind a \<noteq> SniperSell \<Longrightarrow> \<not> blocked job now (action_task job a)"
  by (simp add: action_task_def)

lemma blocker_facts:
  assumes "should_block_deferred_setup_for_action job a now"
  shows "unfinished a" "\<not> waits_for_setup job a"
  using assms
  by (auto simp: should_block_deferred_setup_for_action_def waits_for_setup_def unfinished_def
      unsent_def split: if_splits)

lemma blocking_action:
  assumes "blocked job now Setup_Task"
  obtains a where "a \<in> set (fj_actions job)" "unfinished a" "\<not> waits_for_setup job a"
proof -
  have "list_ex (\<lambda>a. should_block_deferred_setup_for_action job a now) (fj_actions job)"
    using assms by (simp add: setup_task_poll_def split: option.splits if_splits)
  then show thesis using that blocker_facts by (auto simp: list_ex_iff)
qed

lemma find_action_distinct:
  assumes "distinct (map fa_actionId (fj_actions job))" "a \<in> set (fj_actions job)"
  shows "find_action (fa_actionId a) job = Some a"
proof -
  have "distinct (map fa_actionId acts) \<Longrightarrow> a \<in> set acts \<Longrightarrow> List.find (has_action (fa_actionId a)) acts = Some a"
    for acts by (induction acts) (auto simp: has_action_def)
  then show ?thesis using assms by (simp add: find_action_def)
qed

lemma matching_buy_in:
  "matching_sniper_buy_action job a = Some buy
    \<Longrightarrow> buy \<in> set (fj_actions job) \<and> fa_kind buy = SniperBuy"
  by (auto simp: matching_sniper_buy_action_def split: if_splits dest!: find_Some_prop)

lemma waiting_for_buy:
  assumes "distinct (map fa_actionId (fj_actions job))" "buy_confirmation_poll job job a = Wait"
  obtains buy where "matching_sniper_buy_action job a = Some buy" "buy \<in> set (fj_actions job)"
    "fa_kind buy = SniperBuy" "unfinished buy"
proof -
  obtain buy where buy: "matching_sniper_buy_action job a = Some buy"
    using assms(2) by (auto simp: buy_confirmation_poll_def split: option.splits)
  note in_job = matching_buy_in [OF buy]
  have "unfinished buy"
    using assms(2) buy find_action_distinct [OF assms(1), of buy] in_job
    by (auto simp: buy_confirmation_poll_def unfinished_def split: option.splits if_splits)
  then show thesis using that buy in_job by blast
qed

lemma waiting_for_setup:
  "setup_confirmation_poll job i = Wait \<Longrightarrow> setup_unfinished job"
  by (auto simp: setup_confirmation_poll_def setup_unfinished_def
      split: option.splits deferred_setup_state.splits)

lemma some_task_free:
  assumes "schedulable job"
    and all: "\<forall>a \<in> set (fj_actions job). unfinished a \<longrightarrow> blocked job now (action_task job a)"
    and held: "setup_unfinished job \<Longrightarrow> blocked job now Setup_Task"
  shows "filter unfinished (fj_actions job) = [] \<and> \<not> setup_unfinished job"
proof -
  have distinct: "distinct (map fa_actionId (fj_actions job))"
    using assms(1) by (simp add: schedulable_def)
  have after: "waits_for_setup job a" if "a \<in> set (fj_actions job)" "unfinished a" for a
  proof (rule ccontr)
    assume no: "\<not> waits_for_setup job a"
    have "blocked job now (action_task job a)" using all that by blast
    then have "fa_kind a = SniperSell" "buy_confirmation_poll job job a = Wait"
      using no by (auto simp: action_task_def split: if_splits)
    then obtain buy where buy: "matching_sniper_buy_action job a = Some buy"
      "buy \<in> set (fj_actions job)" "fa_kind buy = SniperBuy" "unfinished buy"
      using waiting_for_buy [OF distinct] by blast
    have "\<not> waits_for_setup job buy"
      using assms(1) that(1) buy(1) no by (auto simp: schedulable_def)
    then have "\<not> blocked job now (action_task job buy)"
      using buy(3) by (simp add: not_blocked_run)
    then show False using all buy by blast
  qed
  have over: "\<not> setup_unfinished job"
  proof
    assume "setup_unfinished job"
    then obtain a where "a \<in> set (fj_actions job)" "unfinished a" "\<not> waits_for_setup job a"
      using held blocking_action by blast
    then show False using after by blast
  qed
  have "\<not> unfinished a" if "a \<in> set (fj_actions job)" for a
  proof
    assume a: "unfinished a"
    have "blocked job now (action_task job a)" using all that a by blast
    then have "buy_confirmation_poll job job a = Wait"
      using over waiting_for_setup by (auto simp: action_task_def split: if_splits)
    then obtain buy where buy: "buy \<in> set (fj_actions job)" "fa_kind buy = SniperBuy" "unfinished buy"
      using waiting_for_buy [OF distinct] by blast
    then have "blocked job now (action_task job buy)" using all by blast
    then show False
      using buy(2) over waiting_for_setup by (auto simp: action_task_def split: if_splits)
  qed
  then show ?thesis using over by (simp add: filter_empty_conv)
qed

section \<open>Every run comes to its end\<close>

lemma same_plan_fields:
  assumes "same_plan a a'"
  shows "fa_kind a' = fa_kind a" "fa_marketCap a' = fa_marketCap a"
    "fa_targetBlockOffset a' = fa_targetBlockOffset a"
    "fa_requireConfirmation a' = fa_requireConfirmation a"
    "fa_delayMs a' = fa_delayMs a" "fa_submitDelayMs a' = fa_submitDelayMs a"
  using assms by (simp_all add: same_plan_def)

lemma same_plan_waits:
  assumes "same_plan a a'" "fj_deferredSetup j' = None \<longleftrightarrow> fj_deferredSetup j = None"
    and "fj_preferPostSetupCreatorVaultForSell j' = fj_preferPostSetupCreatorVaultForSell j"
    and "fj_execution j' = fj_execution j"
  shows "waits_for_setup j' a' = waits_for_setup j a"
  unfolding waits_for_setup_def action_runs_before_deferred_setup_def
    action_requires_deferred_setup_before_send_def should_use_post_setup_creator_vault_for_buy_def
    should_use_post_setup_creator_vault_for_sell_def should_use_post_setup_creator_vault_def
    same_plan_fields [OF assms(1)] assms(2-4)
  by (rule refl)

lemma list_all2_left:
  "list_all2 R xs ys \<Longrightarrow> y \<in> set ys \<Longrightarrow> \<exists>x\<in>set xs. R x y"
  by (induction rule: list_all2_induct) auto

lemma same_plan_refl [simp]: "same_plan a a"
  by (simp add: same_plan_def)

lemma find_list_all2:
  "list_all2 R xs ys \<Longrightarrow> (\<And>x y. R x y \<Longrightarrow> p x = q y) \<Longrightarrow> List.find q ys = Some y
    \<Longrightarrow> \<exists>x. List.find p xs = Some x \<and> R x y"
  by (induction xs ys rule: list_all2_induct) (auto split: if_splits)

lemma schedulable_keeps:
  assumes "schedulable job" "list_all2 same_plan (fj_actions job) (fj_actions job')"
    and "fj_deferredSetup job' = None \<longleftrightarrow> fj_deferredSetup job = None"
    and "fj_preferPostSetupCreatorVaultForSell job' = fj_preferPostSetupCreatorVaultForSell job"
    and "fj_execution job' = fj_execution job"
  shows "schedulable job'"
proof -
  have "map fa_actionId (fj_actions job') = map fa_actionId (fj_actions job)"
    using assms(2) by (induction rule: list_all2_induct) (auto simp: same_plan_def)
  then have "distinct (map fa_actionId (fj_actions job'))"
    using assms(1) by (simp add: schedulable_def)
  moreover have "\<not> waits_for_setup job' buy'"
    if a': "a' \<in> set (fj_actions job')" "matching_sniper_buy_action job' a' = Some buy'"
      and no: "\<not> waits_for_setup job' a'" for a' buy'
  proof -
    obtain a where a: "a \<in> set (fj_actions job)" "same_plan a a'"
      using list_all2_left [OF assms(2) a'(1)] by blast
    obtain buy where buy: "matching_sniper_buy_action job a = Some buy" "same_plan buy buy'"
      using find_list_all2 [OF assms(2), of
          "\<lambda>c. fa_kind c = SniperBuy \<and> fa_orderIndex c = fa_orderIndex a \<and> fa_walletEnvKey c = fa_walletEnvKey a"
          "\<lambda>c. fa_kind c = SniperBuy \<and> fa_orderIndex c = fa_orderIndex a' \<and> fa_walletEnvKey c = fa_walletEnvKey a'"
          buy'] a' a(2)
      by (auto simp: matching_sniper_buy_action_def same_plan_def split: if_splits)
    show ?thesis
      using assms(1) a buy no same_plan_waits [OF _ assms(3-5)] unfolding schedulable_def by blast
  qed
  ultimately show ?thesis by (auto simp: schedulable_def)
qed

lemma update_first_same_plan:
  assumes "distinct (map fa_actionId xs)" "a \<in> set xs" "same_plan a a'"
  shows "list_all2 same_plan xs (update_first (has_action (fa_actionId a)) (\<lambda>_. a') xs)"
  using assms
proof (induction xs)
  case (Cons x xs)
  then show ?case
    by (cases "x = a") (auto simp: has_action_def list.rel_refl)
qed simp

lemma update_first_unfinished:
  assumes "distinct (map fa_actionId xs)" "a \<in> set xs" "unfinished a" "\<not> unfinished a'"
  shows "Suc (length (filter unfinished (update_first (has_action (fa_actionId a)) (\<lambda>_. a') xs)))
    = length (filter unfinished xs)"
  using assms
proof (induction xs)
  case (Cons x xs)
  then show ?case by (cases "x = a") (auto simp: has_action_def)
qed simp

lemma task_ends_shrinks:
  assumes "schedulable job" "task_ends job job'"
  shows "schedulable job' \<and> Suc (length (tasks job')) = length (tasks job)"
  using assms(2,1)
proof (induction rule: task_ends.induct)
  case (action_ends a job now a')
  have distinct: "distinct (map fa_actionId (fj_actions job))"
    using action_ends by (simp add: schedulable_def)
  have "schedulable (finish_action a a' job)"
    using schedulable_keeps [OF action_ends(6)]
      update_first_same_plan [OF distinct action_ends(1,4)] by (simp add: finish_action_def)
  moreover have "Suc (length (tasks (finish_action a a' job))) = length (tasks job)"
    using update_first_unfinished [OF distinct action_ends(1,2,5)]
    by (simp add: tasks_def finish_action_def setup_unfinished_def)
  ultimately show ?case by blast
next
  case (setup_ends job now d s)
  have "schedulable (job\<lparr>fj_deferredSetup := Some (d\<lparr>ds_state := s\<rparr>)\<rparr>)"
    using schedulable_keeps [OF setup_ends(5)] setup_ends(3) by (simp add: list.rel_refl)
  moreover have "setup_unfinished job" "\<not> setup_unfinished (job\<lparr>fj_deferredSetup := Some (d\<lparr>ds_state := s\<rparr>)\<rparr>)"
    using setup_ends(1,4) by (simp_all add: setup_unfinished_def)
  ultimately show ?case by (simp add: tasks_def)
qed

lemma some_task_ends:
  assumes "schedulable job" "tasks job \<noteq> []"
  shows "\<exists>job'. task_ends job job'"
proof (rule ccontr)
  assume none: "\<nexists>job'. task_ends job job'"
  have "\<forall>a \<in> set (fj_actions job). unfinished a \<longrightarrow> blocked job 0 (action_task job a)"
  proof (intro ballI impI, rule ccontr)
    fix a assume a: "a \<in> set (fj_actions job)" "unfinished a" "\<not> blocked job 0 (action_task job a)"
    have "same_plan a (a\<lparr>fa_state := AConfirmed\<rparr>)" "\<not> unfinished (a\<lparr>fa_state := AConfirmed\<rparr>)"
      by (simp_all add: same_plan_def unfinished_def)
    then show False using none task_ends.action_ends [OF a] by blast
  qed
  moreover have "blocked job 0 Setup_Task" if live: "setup_unfinished job"
  proof (rule ccontr)
    assume free: "\<not> blocked job 0 Setup_Task"
    obtain d where "fj_deferredSetup job = Some d"
      using live by (cases "fj_deferredSetup job") (auto simp: setup_unfinished_def)
    then show False using none task_ends.setup_ends [OF live free, of d SConfirmed] by blast
  qed
  ultimately have "filter unfinished (fj_actions job) = [] \<and> \<not> setup_unfinished job"
    by (rule some_task_free [OF assms(1)])
  then show False using assms(2) by (simp add: tasks_def)
qed


definition armed_buy :: follow_action_record where
  "armed_buy = arm_action 1000 sample_buy_action"

definition armed_sell :: follow_action_record where
  "armed_sell = arm_action 1000 sample_sell_action"

lemmas sample_action_defs = sample_buy_action_def sample_sell_action_def sniper_buy_record_def
  sniper_sell_record_def with_trigger_key_def sample_snipe_def sample_sell_def sample_launch_def
  canonicalize_action_trigger_key_def

lemma armed_buy_simps [simp]:
  "fa_actionId armed_buy = ''buy''" "fa_kind armed_buy = SniperBuy" "fa_state armed_buy = AArmed"
  "fa_marketCap armed_buy = None" "fa_targetBlockOffset armed_buy = Some 2"
  "fa_orderIndex armed_buy = 0" "fa_walletEnvKey armed_buy = ''w''"
  by (simp_all add: armed_buy_def arm_action_def sample_action_defs)

lemma armed_sell_simps [simp]:
  "fa_actionId armed_sell = ''sell''" "fa_kind armed_sell = SniperSell"
  "fa_state armed_sell = AArmed" "fa_marketCap armed_sell = None"
  "fa_targetBlockOffset armed_sell = Some 0" "fa_orderIndex armed_sell = 0"
  "fa_walletEnvKey armed_sell = ''w''" "fa_scheduledForMs armed_sell = None"
  "fa_lastError armed_sell = None"
  by (simp_all add: armed_sell_def arm_action_def sample_action_defs)

lemma sample_job_parts:
  "fj_actions sample_job = [armed_buy, armed_sell]"
  "fj_deferredSetup sample_job
     = Some \<lparr>ds_transactions = [sample_transaction], ds_state = SQueued, ds_attemptCount = 0,
             ds_signatures = [], ds_submittedAtMs = None, ds_confirmedAtMs = None,
             ds_lastError = None\<rparr>"
  by (simp_all add: sample_job_actions armed_buy_def armed_sell_def)
    (simp add: sample_job_def sample_metadata armed_job_def, simp add: new_job_def sample_reserve_def)

lemma sample_not_cancelled:
  "ensure_action_not_cancelled sample_job ''buy'' = None"
  "ensure_action_not_cancelled sample_job ''sell'' = None"
  by (simp_all add: ensure_action_not_cancelled_def ensure_job_not_cancelled_def find_action_def
      sample_job_parts has_action_def)

lemma sample_buy_pending: "buy_confirmation_poll sample_job sample_job armed_sell = Wait"
  by (simp add: buy_confirmation_poll_def matching_sniper_buy_action_def sample_job_parts
      sample_not_cancelled find_action_def has_action_def)

lemma sample_setup_pending: "setup_confirmation_poll sample_job ''buy'' = Wait"
  by (simp add: setup_confirmation_poll_def sample_job_parts sample_not_cancelled)

lemma sample_buy_waits: "waits_for_setup sample_job armed_buy"
  by (simp add: waits_for_setup_def action_runs_before_deferred_setup_def sample_job_parts)

lemma contains_empty: "contains [] (c # p) = False"
  by (simp add: contains_def starts_with_def)

lemma sample_sell_blocks: "should_block_deferred_setup_for_action sample_job armed_sell now"
  by (simp add: should_block_deferred_setup_for_action_def unsent_def
      action_waiting_for_presigned_rebuild_def contains_empty unwrap_or_def ascii_lower_def
      action_runs_before_deferred_setup_def action_requires_deferred_setup_before_send_def
      should_use_post_setup_creator_vault_for_sell_def should_use_post_setup_creator_vault_def)

lemma sample_setup_held: "setup_task_poll sample_job now = Wait"
  using sample_sell_blocks by (simp add: setup_task_poll_def sample_job_parts)

definition sample_job_without_setup :: follow_job_record where
  "sample_job_without_setup = sample_job\<lparr>fj_deferredSetup := None\<rparr>"

lemma sample_without_setup_schedulable: "schedulable sample_job_without_setup"
  by (simp add: schedulable_def sample_job_without_setup_def sample_job_parts waits_for_setup_def)

lemma sample_buy_ends:
  "task_ends sample_job_without_setup
     (finish_action armed_buy (armed_buy\<lparr>fa_state := AFailed\<rparr>) sample_job_without_setup)"
  by (rule task_ends.action_ends)
    (simp_all add: sample_job_without_setup_def sample_job_parts unfinished_def same_plan_def
      action_task_def waits_for_setup_def)


text \<open>
  Without that condition the tasks wait in a circle. In the job of a launch with one
  deferred setup transaction, a sniper buy two slots after the launch and its sell at the
  confirmation slot of the buy, the buy waits for the setup, the setup for the sell and the
  sell for the buy: at no time is any of the three tasks free.
\<close>

theorem plus_zero_sell_deadlocks:
  "tasks sample_job = [Await_Setup armed_buy, Await_Buy armed_sell, Setup_Task]
   \<and> \<not> (\<exists>now t. t \<in> set (tasks sample_job) \<and> \<not> blocked sample_job now t)"
proof -
  have "tasks sample_job = [Await_Setup armed_buy, Await_Buy armed_sell, Setup_Task]"
    by (simp add: tasks_def sample_job_parts unfinished_def setup_unfinished_def action_task_def
        sample_buy_pending sample_buy_waits)
  then show ?thesis
    by (auto simp: sample_buy_pending sample_setup_pending sample_setup_held)
qed

end
