(* ===== verification/Follow_Run.thy ===== *)
theory Follow_Run
  imports Follow_Schedule "HOL-Library.Product_Lexorder"
begin

text \<open>
  Running a job (\<^verbatim>\<open>run_job\<close>, \<^verbatim>\<open>execute_deferred_setup\<close>): the batches its actions
  are grouped into, the execution of the deferred setup, the state the job ends in, and the
  timing totals of a job.
\<close>

section \<open>Batches\<close>

definition action_class_rank :: "follow_action_kind \<Rightarrow> u8" where
  "action_class_rank k = (case k of DevAutoSell \<Rightarrow> 0 | SniperBuy \<Rightarrow> 1 | SniperSell \<Rightarrow> 2)"

definition action_group_sort_key :: "follow_action_record \<Rightarrow> u8 \<times> u32 \<times> string" where
  "action_group_sort_key a = (action_class_rank (fa_kind a), fa_orderIndex a, fa_actionId a)"

definition action_batch_trigger_key :: "follow_action_record \<Rightarrow> string" where
  "action_batch_trigger_key a =
     (let trigger_key = unwrap_or (fa_actionId a) (fa_triggerKey a)
      in if fa_kind a = SniperSell
         then case Option.bind (strip_prefix ''sniper-sell:'' trigger_key) (split_once CHR '':'') of
                Some (_, base) \<Rightarrow> ''sniper-sell:'' @ base
              | None \<Rightarrow> trigger_key
         else trigger_key)"

text \<open>
  \<^verbatim>\<open>run_job\<close> pushes every action to the entry of its key in a hash map; here the map is an
  association list in the order of first insertion and \<open>into_iter\<close>, the order in which the
  hash map is read, is a parameter.
\<close>

fun group_push :: "string \<Rightarrow> 'a \<Rightarrow> (string \<times> 'a list) list \<Rightarrow> (string \<times> 'a list) list" where
  "group_push k a [] = [(k, [a])]"
| "group_push k a ((k', as) # gs) =
     (if k' = k then (k', as @ [a]) # gs else (k', as) # group_push k a gs)"

definition grouped_by_trigger ::
  "follow_action_record list \<Rightarrow> (string \<times> follow_action_record list) list" where
  "grouped_by_trigger as = fold (\<lambda>a gs. group_push (action_batch_trigger_key a) a gs) as []"

definition grouped_action_ids ::
  "((string \<times> follow_action_record list) list \<Rightarrow> (string \<times> follow_action_record list) list)
     \<Rightarrow> follow_job_record \<Rightarrow> string list list" where
  "grouped_action_ids into_iter job =
     map (\<lambda>(_, as). map fa_actionId (sort_key action_group_sort_key as))
       (into_iter (grouped_by_trigger (fj_actions job)))"

section \<open>The final state of a job\<close>

definition final_job_state :: "bool \<Rightarrow> follow_job_record \<Rightarrow> follow_job_state" where
  "final_job_state had_failure job =
     (let has_failed_actions = list_ex (\<lambda>a. fa_state a \<in> {AFailed, AExpired}) (fj_actions job);
          has_confirmed_actions = list_ex (\<lambda>a. fa_state a = AConfirmed) (fj_actions job);
          setup_failed = (case fj_deferredSetup job of Some s \<Rightarrow> ds_state s = SFailed | None \<Rightarrow> False);
          setup_confirmed =
            (case fj_deferredSetup job of Some s \<Rightarrow> ds_state s = SConfirmed | None \<Rightarrow> False)
      in if fj_cancelRequested job \<or> fj_state job = JCancelled then JCancelled
         else if (has_failed_actions \<or> setup_failed) \<and> (has_confirmed_actions \<or> setup_confirmed)
         then JCompletedWithFailures
         else if had_failure \<or> has_failed_actions \<or> setup_failed then JFailed
         else JCompleted)"

section \<open>Executing the deferred setup\<close>

datatype confirm_outcome = Confirm_Ok | Confirm_Error string | Confirm_Timeout

text \<open>
  What the network answers in one round: the capacity slot, the submission (signatures and
  warnings), the confirmation, and the refreshed transactions of a retry.
\<close>

record setup_round =
  capacity_error :: "string option"
  submission :: "string + (string list \<times> string list)"
  confirmation :: confirm_outcome
  refreshed :: "string + compiled_transaction list"
  sent_ms :: u128
  confirmed_ms :: u128

definition is_terminal_onchain_confirmation_error :: "string \<Rightarrow> bool" where
  "is_terminal_onchain_confirmation_error error =
     (contains error ''failed on-chain:'' \<or> contains error ''notification reported error:'')"

definition setup_failed :: "string \<Rightarrow> deferred_setup_record \<Rightarrow> deferred_setup_record" where
  "setup_failed error d = d\<lparr>ds_state := SFailed, ds_lastError := Some error\<rparr>"

definition setup_requeued ::
  "compiled_transaction list \<Rightarrow> string \<Rightarrow> deferred_setup_record \<Rightarrow> deferred_setup_record" where
  "setup_requeued transactions error d =
     d\<lparr>ds_transactions := transactions, ds_state := SQueued, ds_signatures := [],
       ds_submittedAtMs := None, ds_confirmedAtMs := None, ds_lastError := Some error\<rparr>"

text \<open>
  The loop of \<^verbatim>\<open>execute_deferred_setup\<close> on the setup of the job, with the answers of
  round \<open>n\<close> in \<open>net n\<close>; the result is the setup it leaves and its error. Every retry needs
  \<^verbatim>\<open>attempt < 2\<close>.
\<close>

function setup_loop ::
  "(nat \<Rightarrow> setup_round) \<Rightarrow> nat \<Rightarrow> u32 \<Rightarrow> deferred_setup_record
     \<Rightarrow> deferred_setup_record \<times> string option" where
  "setup_loop net n attempt d =
     (let r = net n;
          d = d\<lparr>ds_state := SRunning, ds_attemptCount := sat_add (ds_attemptCount d) 1\<rparr>;
          next_attempt = sat_add attempt 1
      in case capacity_error r of
           Some error \<Rightarrow> (d, Some error)
         | None \<Rightarrow>
        (case submission r of
           Inl error \<Rightarrow>
             if attempt < 2 \<and> is_retryable_action_error error
             then setup_loop net (Suc n) next_attempt
                    (d\<lparr>ds_state := SQueued, ds_lastError := Some error\<rparr>)
             else (setup_failed error d, Some error)
         | Inr (signatures, warnings) \<Rightarrow>
             let d = d\<lparr>ds_state := SSent, ds_submittedAtMs := Some (sent_ms r),
                       ds_signatures := signatures,
                       ds_lastError := (if warnings = [] then None
                                        else Some (join_with '' | '' warnings))\<rparr>
             in (case confirmation r of
                   Confirm_Ok \<Rightarrow>
                     (d\<lparr>ds_state := SConfirmed, ds_confirmedAtMs := Some (confirmed_ms r)\<rparr>, None)
                 | Confirm_Error error \<Rightarrow>
                     if attempt < 2 \<and> \<not> is_terminal_onchain_confirmation_error error
                     then (case refreshed r of
                             Inl e \<Rightarrow> (d, Some e)
                           | Inr txs \<Rightarrow> setup_loop net (Suc n) next_attempt (setup_requeued txs
                               (''Deferred setup confirmation failed after send; refreshed blockhash and requeued attempt ''
                                @ show_word (next_attempt + 1) @ '': '' @ error) d))
                     else (setup_failed error d, Some error)
                 | Confirm_Timeout \<Rightarrow>
                     if attempt < 2
                     then (case refreshed r of
                             Inl e \<Rightarrow> (d, Some e)
                           | Inr txs \<Rightarrow> setup_loop net (Suc n) next_attempt (setup_requeued txs
                               (''Deferred setup was still unconfirmed 10s after send; refreshed blockhash and requeued attempt ''
                                @ show_word (next_attempt + 1) @ ''.'') d))
                     else let error = ''Deferred setup did not confirm within 10s after send.''
                          in (setup_failed error d, Some error))))"
  by pat_completeness auto

termination
proof (relation "measure (\<lambda>(net, n, attempt, d). 2 - unat attempt)")
qed (auto simp: word_less_nat_alt unat_sat_add)

declare setup_loop.simps [simp del]

definition execute_deferred_setup ::
  "(nat \<Rightarrow> setup_round) \<Rightarrow> follow_job_record \<Rightarrow> follow_job_record \<times> string option" where
  "execute_deferred_setup net job =
     (case fj_deferredSetup job of
        None \<Rightarrow> (job, None)
      | Some d \<Rightarrow>
          if fj_transportPlan job = None
          then (job, Some ''Follow job missing transport plan for deferred setup.'')
          else let (d', result) = setup_loop net 0 (ds_attemptCount d) d
               in (job\<lparr>fj_deferredSetup := Some d'\<rparr>, result))"

section \<open>Every action is in exactly one batch\<close>

definition action_of_group :: "(string \<times> 'a list) list \<Rightarrow> 'a multiset" where
  "action_of_group gs = sum_list (map (\<lambda>(_, as). mset as) gs)"

lemma group_push_mset:
  "action_of_group (group_push k a gs) = add_mset a (action_of_group gs)"
  by (induction k a gs rule: group_push.induct) (auto simp: action_of_group_def)

lemma group_push_keys:
  "distinct (map fst gs) \<Longrightarrow> distinct (map fst (group_push k a gs))
     \<and> set (map fst (group_push k a gs)) = insert k (set (map fst gs))"
  by (induction k a gs rule: group_push.induct) auto

lemma group_push_members:
  "\<forall>(k, as) \<in> set gs. as \<noteq> [] \<and> (\<forall>a \<in> set as. key a = k)
    \<Longrightarrow> \<forall>(k, as) \<in> set (group_push (key a) a gs). as \<noteq> [] \<and> (\<forall>a \<in> set as. key a = k)"
  by (induction "key a" a gs rule: group_push.induct) (auto split: if_splits)

definition grouped_ok :: "(string \<times> follow_action_record list) list \<Rightarrow> bool" where
  "grouped_ok gs \<longleftrightarrow> distinct (map fst gs)
     \<and> (\<forall>(k, as) \<in> set gs. as \<noteq> [] \<and> (\<forall>a \<in> set as. action_batch_trigger_key a = k))"

lemma fold_group_push:
  "grouped_ok gs \<Longrightarrow>
    grouped_ok (fold (\<lambda>a gs. group_push (action_batch_trigger_key a) a gs) as gs)
    \<and> action_of_group (fold (\<lambda>a gs. group_push (action_batch_trigger_key a) a gs) as gs)
        = mset as + action_of_group gs"
proof (induction as arbitrary: gs)
  case (Cons a as)
  have "grouped_ok (group_push (action_batch_trigger_key a) a gs)"
    using Cons.prems group_push_keys [of gs] group_push_members [of gs action_batch_trigger_key a]
    by (auto simp: grouped_ok_def)
  from Cons.IH [OF this] show ?case by (simp add: group_push_mset)
qed simp

lemma grouped_by_trigger_ok:
  "grouped_ok (grouped_by_trigger as)" "action_of_group (grouped_by_trigger as) = mset as"
  using fold_group_push [of "[]" as]
  by (simp_all add: grouped_by_trigger_def grouped_ok_def action_of_group_def)

lemma mset_concat_groups:
  "mset (concat (map (\<lambda>(_, as). map f (sort_key g as)) gs)) = image_mset f (action_of_group gs)"
  by (induction gs) (auto simp: action_of_group_def)

lemma action_of_group_member:
  "(k, as) \<in> set gs \<Longrightarrow> a \<in> set as \<Longrightarrow> a \<in># action_of_group gs"
  by (induction gs) (auto simp: action_of_group_def)

lemma sort_key_Nil [simp]: "sort_key f as = [] \<longleftrightarrow> as = []"
  by (metis mset_sort mset_zero_iff)

lemma action_of_group_perm:
  "mset gs = mset gs' \<Longrightarrow> action_of_group gs = action_of_group gs'"
  unfolding action_of_group_def by (metis mset_map sum_mset_sum_list)

text \<open>
  Whatever order the hash map of batches is read in, the batches of a job cover every
  action exactly once, none is empty, each is sorted by kind, order and id, and the actions of
  a batch share its trigger.
\<close>

theorem batches_cover_actions_once:
  assumes "mset (into_iter (grouped_by_trigger (fj_actions job)))
             = mset (grouped_by_trigger (fj_actions job))"
  shows "mset (concat (grouped_action_ids into_iter job)) = mset (map fa_actionId (fj_actions job))
    \<and> [] \<notin> set (grouped_action_ids into_iter job)
    \<and> (\<forall>ids \<in> set (grouped_action_ids into_iter job). \<exists>as. ids = map fa_actionId as
         \<and> set as \<subseteq> set (fj_actions job) \<and> sorted (map action_group_sort_key as)
         \<and> (\<forall>a \<in> set as. \<forall>b \<in> set as. action_batch_trigger_key a = action_batch_trigger_key b))"
proof (intro conjI)
  let ?gs = "grouped_by_trigger (fj_actions job)"
  note ok = grouped_by_trigger_ok [of "fj_actions job"]
  have set: "set (into_iter ?gs) = set ?gs" using assms by (rule mset_eq_setD)
  have member: "as \<noteq> [] \<and> (\<forall>a \<in> set as. action_batch_trigger_key a = k)" if "(k, as) \<in> set ?gs" for k as
    using ok(1) that by (auto simp: grouped_ok_def)
  have inside: "set as \<subseteq> set (fj_actions job)" if "(k, as) \<in> set ?gs" for k as
    using that ok(2) action_of_group_member [of k as ?gs] by (metis set_mset_mset subsetI)
  show "mset (concat (grouped_action_ids into_iter job)) = mset (map fa_actionId (fj_actions job))"
    using ok(2) action_of_group_perm [OF assms]
    by (simp add: grouped_action_ids_def mset_concat_groups)
  show "[] \<notin> set (grouped_action_ids into_iter job)"
    using member by (auto simp: grouped_action_ids_def set)
  show "\<forall>ids \<in> set (grouped_action_ids into_iter job). \<exists>as. ids = map fa_actionId as
      \<and> set as \<subseteq> set (fj_actions job) \<and> sorted (map action_group_sort_key as)
      \<and> (\<forall>a \<in> set as. \<forall>b \<in> set as. action_batch_trigger_key a = action_batch_trigger_key b)"
  proof
    fix ids assume "ids \<in> set (grouped_action_ids into_iter job)"
    then obtain k as where g: "(k, as) \<in> set ?gs"
      "ids = map fa_actionId (sort_key action_group_sort_key as)"
      by (auto simp: grouped_action_ids_def set)
    then show "\<exists>as. ids = map fa_actionId as
      \<and> set as \<subseteq> set (fj_actions job) \<and> sorted (map action_group_sort_key as)
      \<and> (\<forall>a \<in> set as. \<forall>b \<in> set as. action_batch_trigger_key a = action_batch_trigger_key b)"
      using member [OF g(1)] inside [OF g(1)]
      by (intro exI [of _ "sort_key action_group_sort_key as"]) simp
  qed
qed

section \<open>Results of the deferred setup\<close>

lemma setup_failed_simps [simp]:
  "ds_state (setup_failed e d) = SFailed" "ds_attemptCount (setup_failed e d) = ds_attemptCount d"
  by (simp_all add: setup_failed_def)

lemma setup_requeued_attempts [simp]: "ds_attemptCount (setup_requeued t e d) = ds_attemptCount d"
  by (simp add: setup_requeued_def)

definition setup_end :: "(nat \<Rightarrow> setup_round) \<Rightarrow> deferred_setup_record \<times> string option \<Rightarrow> bool" where
  "setup_end net p \<longleftrightarrow>
     (case snd p of
        None \<Rightarrow> ds_state (fst p) = SConfirmed
      | Some e \<Rightarrow> ds_state (fst p) = SFailed
          \<or> ds_state (fst p) = SRunning \<and> (\<exists>m. capacity_error (net m) = Some e)
          \<or> ds_state (fst p) = SSent \<and> (\<exists>m. refreshed (net m) = Inl e))"

lemma setup_loop_end: "setup_end net (setup_loop net n attempt d)"
proof (induction net n attempt d rule: setup_loop.induct)
  case (1 net n attempt d)
  note ih = 1 [OF refl refl refl]
  show ?case
  proof (cases "capacity_error (net n)")
    case (Some e)
    then show ?thesis by (subst setup_loop.simps) (auto simp: setup_end_def Let_def)
  next
    case None
    note cap = this
    show ?thesis
    proof (cases "submission (net n)")
      case (Inl e)
      then show ?thesis
        using ih(1) [OF cap Inl]
        by (subst setup_loop.simps) (auto simp: setup_end_def [of _ "(_, _)"] Let_def cap)
    next
      case (Inr p)
      then show ?thesis
        using cap ih(2,3) [OF cap Inr]
        by (cases p; cases "confirmation (net n)"; cases "refreshed (net n)"; subst setup_loop.simps)
          (auto simp: setup_end_def [of _ "(_, _)"] Let_def)
    qed
  qed
qed

lemma setup_loop_attempts:
  assumes "3 \<le> B"
  shows "ds_attemptCount d = attempt \<Longrightarrow> Suc (unat attempt) \<le> B \<Longrightarrow>
     unat (ds_attemptCount (fst (setup_loop net n attempt d))) \<le> B"
proof (induction net n attempt d rule: setup_loop.induct)
  case (1 net n attempt d)
  note ih = 1(1-3) [OF refl refl refl]
  have step: "unat (sat_add attempt 1) \<le> B" using 1(5) by (simp add: unat_sat_add)
  have again: "Suc (unat (sat_add attempt 1)) \<le> B" if "attempt < 2"
    using that assms by (simp add: word_less_nat_alt unat_sat_add)
  show ?case
  proof (cases "capacity_error (net n)")
    case (Some e)
    then show ?thesis using 1(4) step by (subst setup_loop.simps) (simp add: Let_def)
  next
    case None
    note cap = this
    show ?thesis
    proof (cases "submission (net n)")
      case (Inl e)
      then show ?thesis
        using ih(1) [OF cap Inl] 1(4) step again
        by (subst setup_loop.simps) (auto simp: Let_def cap)
    next
      case (Inr p)
      then show ?thesis
        using cap ih(2,3) [OF cap Inr] 1(4) step again
        by (cases p; cases "confirmation (net n)"; cases "refreshed (net n)"; subst setup_loop.simps)
          (simp_all add: Let_def)
    qed
  qed
qed

text \<open>
  The deferred setup is tried at most three times, and its execution leaves it confirmed
  without an error, failed with one, or, when no send slot was free or the transactions could
  not be refreshed for the next try, as it was, neither confirmed nor failed.
\<close>

theorem deferred_setup_outcome:
  assumes "fj_deferredSetup job = Some d" "fj_transportPlan job \<noteq> None"
  shows "\<exists>d'. fj_deferredSetup (fst (execute_deferred_setup net job)) = Some d'
    \<and> unat (ds_attemptCount d') \<le> max 3 (unat (ds_attemptCount d) + 1)
    \<and> (case snd (execute_deferred_setup net job) of
          None \<Rightarrow> ds_state d' = SConfirmed
        | Some e \<Rightarrow> ds_state d' = SFailed
            \<or> ds_state d' = SRunning \<and> (\<exists>m. capacity_error (net m) = Some e)
            \<or> ds_state d' = SSent \<and> (\<exists>m. refreshed (net m) = Inl e))"
proof -
  obtain d' result where loop: "setup_loop net 0 (ds_attemptCount d) d = (d', result)" by fastforce
  obtain plan where "fj_transportPlan job = Some plan" using assms(2) by blast
  moreover have "unat (ds_attemptCount d') \<le> max 3 (unat (ds_attemptCount d) + 1)"
    using setup_loop_attempts [of "max 3 (unat (ds_attemptCount d) + 1)" d _ net 0] loop by simp
  ultimately show ?thesis
    using assms(1) loop setup_loop_end [of net 0 "ds_attemptCount d" d]
    by (cases result) (simp_all add: execute_deferred_setup_def setup_end_def)
qed

text \<open>
  The last outcome strands the job. Once the setup task has given up with the setup
  neither confirmed nor failed, every action of the job that is not cancelled and waits for
  the setup keeps waiting, at every later look at the job.
\<close>

theorem abandoned_setup_strands_waiting_actions:
  assumes "execute_deferred_setup net job = (job', Some error)" "setup_unfinished job'"
    and "distinct (map fa_actionId (fj_actions job))" "a \<in> set (fj_actions job)"
    and "fa_state a \<noteq> ACancelled" "ensure_job_not_cancelled job = None"
  shows "setup_confirmation_poll job' (fa_actionId a) = Wait"
proof -
  have same: "fj_actions job' = fj_actions job" "fj_cancelRequested job' = fj_cancelRequested job"
    "fj_state job' = fj_state job"
    using assms(1) by (auto simp: execute_deferred_setup_def split: option.splits if_splits prod.splits)
  have "ensure_action_not_cancelled job' (fa_actionId a) = None"
    using assms(3-6) same find_action_distinct [of job' a]
    by (auto simp: ensure_action_not_cancelled_def ensure_job_not_cancelled_def split: if_splits)
  then show ?thesis
    using assms(2) by (auto simp: setup_confirmation_poll_def setup_unfinished_def
        split: option.splits deferred_setup_state.splits)
qed

definition no_send_slot :: "nat \<Rightarrow> setup_round" where
  "no_send_slot n = \<lparr>capacity_error = Some ''Timed out waiting for follow daemon send capacity.'',
     submission = Inl [], confirmation = Confirm_Timeout, refreshed = Inl [],
     sent_ms = 0, confirmed_ms = 0\<rparr>"

definition sample_job_with_plan :: follow_job_record where
  "sample_job_with_plan = sample_job\<lparr>fj_transportPlan := Some sample_plan\<rparr>"

lemma sample_capacity_timeout:
  "\<exists>job'. execute_deferred_setup no_send_slot sample_job_with_plan
      = (job', Some ''Timed out waiting for follow daemon send capacity.'') \<and> setup_unfinished job'"
  by (simp add: execute_deferred_setup_def sample_job_with_plan_def sample_job_parts
      setup_loop.simps no_send_slot_def setup_unfinished_def Let_def)

theorem deferred_setup_outcome_witness:
  "unat (ds_attemptCount (the (fj_deferredSetup
      (fst (execute_deferred_setup no_send_slot sample_job_with_plan))))) \<le> 3"
  using deferred_setup_outcome [of sample_job_with_plan _ no_send_slot]
  by (auto simp: sample_job_with_plan_def sample_job_parts)

theorem abandoned_setup_strands_waiting_actions_witness:
  "setup_confirmation_poll (fst (execute_deferred_setup no_send_slot sample_job_with_plan)) ''buy''
     = Wait"
proof -
  obtain job' where "execute_deferred_setup no_send_slot sample_job_with_plan
      = (job', Some ''Timed out waiting for follow daemon send capacity.'')" "setup_unfinished job'"
    using sample_capacity_timeout by blast
  moreover have "ensure_job_not_cancelled sample_job_with_plan = None"
    using sample_not_cancelled(1)
    by (simp add: ensure_action_not_cancelled_def ensure_job_not_cancelled_def
        sample_job_with_plan_def split: option.splits if_splits)
  ultimately show ?thesis
    using abandoned_setup_strands_waiting_actions [of no_send_slot sample_job_with_plan job' _ armed_buy]
    by (simp add: sample_job_with_plan_def sample_job_parts)
qed

theorem batches_cover_actions_once_witness:
  "mset (concat (grouped_action_ids rev sample_job)) = {#''buy'', ''sell''#}"
  using batches_cover_actions_once [of rev sample_job] by (simp add: sample_job_parts)

end
