(* ===== verification/Follow_Triggers.thy ===== *)
theory Follow_Triggers
  imports Follow_Schedule "HOL-Library.Product_Lexorder"
begin

text \<open>
  When an action becomes eligible (\<^verbatim>\<open>wait_for_action_eligibility\<close> and the waits it is made
  of in \<^verbatim>\<open>bin/launchdeck-follow-daemon.rs\<close>). What the daemon sees is a sequence of
  observations, one for each round of its polling loops; a future gives the state of a wait in
  each round, and a wait, started in some round, ends in a later one with a result or never. The watcher metadata
  that a finished wait records in its action is left out.
\<close>

section \<open>Observations and waits\<close>

text \<open>
  In one round: the job in the store, the clock, the monotonic clock in milliseconds, and what
  the signature, slot and market watchers last published; \<open>ob_fresh_slot\<close> and
  \<open>ob_fresh_market_cap\<close> answer the direct queries made when a wait starts, and
  \<open>ob_closed\<close> tells that the watcher's channel has been closed.
\<close>

record observation =
  ob_job :: "follow_job_record option"
  ob_now_ms :: u128
  ob_instant_ms :: u128
  ob_signature :: "(string + u64) option"
  ob_slot :: "(string + u64) option"
  ob_market_cap :: "(string + u64) option"
  ob_fresh_slot :: "string + u64"
  ob_fresh_market_cap :: "string + u64"
  ob_closed :: bool

type_synonym observations = "nat \<Rightarrow> observation"
type_synonym 'a future = "nat \<Rightarrow> 'a poll"
type_synonym 'a wait = "nat \<Rightarrow> ((string + 'a) \<times> nat) option"

partial_function (option) await :: "'a future \<Rightarrow> 'a wait" where
  "await f n =
     (case f n of
        Ready a \<Rightarrow> Some (Inr a, n)
      | Refuse e \<Rightarrow> Some (Inl e, n)
      | Wait \<Rightarrow> await f (Suc n))"

definition then_wait :: "'a wait \<Rightarrow> ('a \<Rightarrow> 'b wait) \<Rightarrow> 'b wait" where
  "then_wait w f n =
     (case w n of
        None \<Rightarrow> None
      | Some (Inl e, m) \<Rightarrow> Some (Inl e, m)
      | Some (Inr a, m) \<Rightarrow> f a m)"

definition done_wait :: "'a \<Rightarrow> 'a wait" where
  "done_wait a n = Some (Inr a, n)"

definition elapsed_ms :: "observations \<Rightarrow> nat \<Rightarrow> nat \<Rightarrow> u128" where
  "elapsed_ms obs n m = sat_sub (ob_instant_ms (obs m)) (ob_instant_ms (obs n))"

text \<open>A wait whose duration is added to the watcher time so far.\<close>

definition timed :: "observations \<Rightarrow> u128 \<Rightarrow> 'a wait \<Rightarrow> ('a \<times> u128) wait" where
  "timed obs spent w n =
     then_wait w (\<lambda>a m. Some (Inr (a, sat_add spent (elapsed_ms obs n m)), m)) n"

section \<open>The single waits\<close>

definition stored_action_stopped :: "observation \<Rightarrow> string \<Rightarrow> string option" where
  "stored_action_stopped ob i =
     (case ob_job ob of
        None \<Rightarrow> Some ''Follow job disappeared while waiting.''
      | Some job \<Rightarrow> ensure_action_not_cancelled job i)"

definition until_ms_poll :: "observations \<Rightarrow> string \<Rightarrow> u128 \<Rightarrow> unit future" where
  "until_ms_poll obs i target_ms k =
     (case stored_action_stopped (obs k) i of
        Some e \<Rightarrow> Refuse e
      | None \<Rightarrow> if target_ms \<le> ob_now_ms (obs k) then Ready () else Wait)"

definition stored_confirmed_slot :: "observation \<Rightarrow> u64 option" where
  "stored_confirmed_slot ob = Option.bind (ob_job ob) fj_confirmedObservedSlot"

definition signature_poll :: "observations \<Rightarrow> follow_job_record \<Rightarrow> string \<Rightarrow> nat \<Rightarrow> u64 future" where
  "signature_poll obs started i n k =
     (case (if k = n then fj_confirmedObservedSlot started else None) of
        Some slot \<Rightarrow> Ready slot
      | None \<Rightarrow>
     (case (if k = n then stored_confirmed_slot (obs k) else None) of
        Some slot \<Rightarrow> Ready slot
      | None \<Rightarrow>
     (case stored_action_stopped (obs k) i of
        Some e \<Rightarrow> Refuse e
      | None \<Rightarrow>
     (case stored_confirmed_slot (obs k) of
        Some slot \<Rightarrow> Ready slot
      | None \<Rightarrow>
     (case ob_signature (obs k) of
        Some (Inr slot) \<Rightarrow> Ready slot
      | Some (Inl e) \<Rightarrow> Refuse e
      | None \<Rightarrow> if ob_closed (obs k) then Refuse ''Shared signature watcher stopped unexpectedly.''
                else Wait)))))"

definition slot_anchor_unavailable_error :: "string \<Rightarrow> string" where
  "slot_anchor_unavailable_error anchor_label =
     anchor_label @ '' was unavailable for On Confirmed Slot trigger.''"

text \<open>The watcher's slot, tested twice: before the fresh query and in every round.\<close>

definition watched_slot :: "observation \<Rightarrow> u64 \<Rightarrow> u64 poll" where
  "watched_slot ob target_slot =
     (case ob_slot ob of
        Some (Inr observed_slot) \<Rightarrow> if target_slot \<le> observed_slot then Ready observed_slot else Wait
      | Some (Inl e) \<Rightarrow> Refuse e
      | None \<Rightarrow> Wait)"

definition slot_round :: "observation \<Rightarrow> string \<Rightarrow> u64 \<Rightarrow> u64 poll" where
  "slot_round ob i target_slot =
     (case stored_action_stopped ob i of
        Some e \<Rightarrow> Refuse e
      | None \<Rightarrow>
     (case watched_slot ob target_slot of
        Wait \<Rightarrow> if ob_closed ob then Refuse ''Shared slot watcher stopped unexpectedly.'' else Wait
      | r \<Rightarrow> r))"

definition slot_offset_poll ::
  "observations \<Rightarrow> follow_job_record \<Rightarrow> string \<Rightarrow> u64 option \<Rightarrow> u64 \<Rightarrow> string \<Rightarrow> nat \<Rightarrow> u64 future" where
  "slot_offset_poll obs started i base_slot target_offset anchor_label n k =
     (if target_offset = 0
      then (case base_slot of
              Some slot \<Rightarrow> Ready slot
            | None \<Rightarrow> Refuse (slot_anchor_unavailable_error anchor_label))
      else case (case base_slot of Some slot \<Rightarrow> Some slot
                 | None \<Rightarrow> fj_confirmedObservedSlot started) of
             None \<Rightarrow> Refuse (slot_anchor_unavailable_error anchor_label)
           | Some base_slot \<Rightarrow>
               let target_slot = sat_add base_slot target_offset
               in if k = n
                  then (case watched_slot (obs k) target_slot of
                          Wait \<Rightarrow>
                            (case ob_fresh_slot (obs k) of
                               Inr current_slot \<Rightarrow>
                                 if target_slot \<le> current_slot then Ready current_slot
                                 else slot_round (obs k) i target_slot
                             | Inl _ \<Rightarrow> slot_round (obs k) i target_slot)
                        | r \<Rightarrow> r)
                  else slot_round (obs k) i target_slot)"

definition launch_anchor :: string where "launch_anchor = ''Launch confirmation slot''"
definition buy_anchor :: string where "buy_anchor = ''Matching sniper buy confirmation slot''"

text \<open>The deadline is measured from the round the wait started in.\<close>

definition scan_expired :: "observations \<Rightarrow> follow_market_cap_trigger \<Rightarrow> nat \<Rightarrow> nat \<Rightarrow> bool" where
  "scan_expired obs trigger n k \<longleftrightarrow>
     1000 * unat (mt_scanTimeoutSeconds trigger) \<le> unat (elapsed_ms obs n k)"

definition market_cap_round ::
  "observations \<Rightarrow> follow_market_cap_trigger \<Rightarrow> string \<Rightarrow> u64 \<Rightarrow> nat \<Rightarrow> unit future" where
  "market_cap_round obs trigger i threshold n k =
     (case stored_action_stopped (obs k) i of
        Some e \<Rightarrow> Refuse e
      | None \<Rightarrow>
          if scan_expired obs trigger n k
          then if mt_timeoutAction trigger = ''sell'' then Ready ()
               else Refuse (market_cap_scan_stopped_notice i (mt_scanTimeoutSeconds trigger))
          else case ob_market_cap (obs k) of
                 Some (Inl e) \<Rightarrow> Refuse e
               | Some (Inr market_cap) \<Rightarrow>
                   if threshold \<le> market_cap then Ready ()
                   else if ob_closed (obs k)
                   then Refuse ''Shared market watcher stopped unexpectedly.'' else Wait
               | None \<Rightarrow> if ob_closed (obs k)
                   then Refuse ''Shared market watcher stopped unexpectedly.'' else Wait)"

definition market_cap_poll ::
  "observations \<Rightarrow> follow_job_record \<Rightarrow> follow_action_record \<Rightarrow> nat \<Rightarrow> unit future" where
  "market_cap_poll obs started a n k =
     (case fa_marketCap a of
        None \<Rightarrow> Refuse ''Market-cap trigger missing.''
      | Some trigger \<Rightarrow>
     (case parse_u64 (mt_threshold trigger) of
        None \<Rightarrow> Refuse (''Invalid market-cap threshold '' @ [CHR 0x27] @ mt_threshold trigger @ [CHR 0x27])
      | Some threshold \<Rightarrow>
          if fj_mint started = None then Refuse ''Market watcher missing mint.''
          else case (if k = n then Some (ob_fresh_market_cap (obs k)) else None) of
                 Some (Inl e) \<Rightarrow> Refuse e
               | Some (Inr current) \<Rightarrow>
                   if threshold \<le> current then Ready ()
                   else market_cap_round obs trigger (fa_actionId a) threshold n k
               | None \<Rightarrow> market_cap_round obs trigger (fa_actionId a) threshold n k))"

text \<open>
  \<^verbatim>\<open>select!\<close> polls both futures in a random order: \<open>first k\<close> tells whether the one on
  the left is looked at first in round \<open>k\<close>. A market scan that stopped leaves the other.
\<close>

definition select_poll ::
  "(nat \<Rightarrow> bool) \<Rightarrow> 'a future \<Rightarrow> unit future \<Rightarrow> 'a option future" where
  "select_poll first left market k =
     (let on_left = (case left k of Ready a \<Rightarrow> Ready (Some a) | Refuse e \<Rightarrow> Refuse e | Wait \<Rightarrow> Wait);
          on_market = (case market k of
                         Ready _ \<Rightarrow> Ready None
                       | Refuse e \<Rightarrow> if is_market_cap_scan_stopped_error e then Wait else Refuse e
                       | Wait \<Rightarrow> Wait)
      in if first k
         then (case on_left of Wait \<Rightarrow> on_market | r \<Rightarrow> r)
         else (case on_market of Wait \<Rightarrow> on_left | r \<Rightarrow> r))"

definition buy_wait_poll ::
  "observations \<Rightarrow> follow_job_record \<Rightarrow> follow_action_record \<Rightarrow> u64 future" where
  "buy_wait_poll obs started a k =
     (if matching_sniper_buy_action started a = None
      then Refuse (''Matching sniper buy was missing for autosell '' @ fa_actionId a @ ''.'')
      else case ob_job (obs k) of
             None \<Rightarrow> Refuse ''Follow job disappeared while waiting.''
           | Some job \<Rightarrow> buy_confirmation_poll started job a)"

definition setup_wait_poll :: "observations \<Rightarrow> string \<Rightarrow> unit future" where
  "setup_wait_poll obs i k =
     (case ob_job (obs k) of
        None \<Rightarrow> Refuse ''Follow job disappeared while waiting.''
      | Some job \<Rightarrow> setup_confirmation_poll job i)"

section \<open>Eligibility of an action\<close>

record eligibility_timing =
  et_watcher_wait_ms :: u128
  et_total_ms :: u128
  et_observed_slot :: "u64 option"

definition positive_offset :: "follow_action_record \<Rightarrow> u64" where
  "positive_offset a = ucast (unwrap_or 0 (fa_targetBlockOffset a))"

text \<open>The trigger of each kind of action: the slot it observed and the watcher time so far.\<close>

definition buy_trigger ::
  "observations \<Rightarrow> follow_job_record \<Rightarrow> follow_action_record \<Rightarrow> u64 option \<Rightarrow> u128
     \<Rightarrow> (u64 option \<times> u128) wait" where
  "buy_trigger obs job a confirmed spent =
     then_wait
       (case fa_scheduledForMs a of
          Some schedule_ms \<Rightarrow> await (until_ms_poll obs (fa_actionId a) schedule_ms)
        | None \<Rightarrow> done_wait ())
       (\<lambda>_. if 0 < positive_offset a
            then then_wait (timed obs spent (\<lambda>m. await (slot_offset_poll obs job (fa_actionId a)
                               confirmed (positive_offset a) launch_anchor m) m))
                   (\<lambda>(slot, spent). done_wait (Some slot, spent))
            else done_wait (None, spent))"

text \<open>The triggers without a slot, which both kinds of sells share.\<close>

definition time_or_market_trigger ::
  "(nat \<Rightarrow> bool) \<Rightarrow> observations \<Rightarrow> follow_job_record \<Rightarrow> follow_action_record \<Rightarrow> u128
     \<Rightarrow> (u64 option \<times> u128) wait" where
  "time_or_market_trigger first obs job a spent =
     (case (fa_scheduledForMs a, fa_marketCap a) of
        (Some schedule_ms, Some _) \<Rightarrow>
          then_wait (timed obs spent (\<lambda>m. await (select_poll first
                        (until_ms_poll obs (fa_actionId a) schedule_ms) (market_cap_poll obs job a m)) m))
            (\<lambda>(_, spent). done_wait (None, spent))
      | (Some schedule_ms, None) \<Rightarrow>
          then_wait (await (until_ms_poll obs (fa_actionId a) schedule_ms))
            (\<lambda>_. done_wait (None, spent))
      | (None, Some _) \<Rightarrow>
          then_wait (timed obs spent (\<lambda>m. await (market_cap_poll obs job a m) m))
            (\<lambda>(_, spent). done_wait (None, spent))
      | (None, None) \<Rightarrow> done_wait (None, spent))"

definition dev_sell_trigger ::
  "(nat \<Rightarrow> bool) \<Rightarrow> observations \<Rightarrow> follow_job_record \<Rightarrow> follow_action_record \<Rightarrow> u64 option
     \<Rightarrow> u128 \<Rightarrow> (u64 option \<times> u128) wait" where
  "dev_sell_trigger first obs job a confirmed spent =
     (let slot = (\<lambda>m. slot_offset_poll obs job (fa_actionId a) confirmed (positive_offset a)
                        launch_anchor m)
      in if 0 < positive_offset a \<and> fa_marketCap a \<noteq> None
         then timed obs spent (\<lambda>m. await (select_poll first (slot m) (market_cap_poll obs job a m)) m)
         else if 0 < positive_offset a
         then then_wait (timed obs spent (\<lambda>m. await (slot m) m))
                (\<lambda>(_, spent). done_wait (None, spent))
         else time_or_market_trigger first obs job a spent)"

definition sniper_sell_trigger ::
  "(nat \<Rightarrow> bool) \<Rightarrow> observations \<Rightarrow> follow_job_record \<Rightarrow> follow_action_record \<Rightarrow> u128
     \<Rightarrow> (u64 option \<times> u128) wait" where
  "sniper_sell_trigger first obs job a spent =
     then_wait (timed obs spent (await (buy_wait_poll obs job a)))
       (\<lambda>(buy_slot, spent).
          case fa_targetBlockOffset a of
            Some target_offset \<Rightarrow>
              then_wait (timed obs spent (\<lambda>m. await (slot_offset_poll obs job (fa_actionId a)
                            (Some buy_slot) (ucast target_offset) buy_anchor m) m))
                (\<lambda>(slot, spent). done_wait (Some slot, spent))
          | None \<Rightarrow> time_or_market_trigger first obs job a spent)"

definition wait_for_action_eligibility ::
  "(nat \<Rightarrow> bool) \<Rightarrow> observations \<Rightarrow> follow_job_record \<Rightarrow> follow_action_record
     \<Rightarrow> eligibility_timing wait" where
  "wait_for_action_eligibility first obs job a n =
     then_wait
       (if fa_kind a \<noteq> SniperSell
           \<and> (fa_requireConfirmation a \<or> fa_targetBlockOffset a \<noteq> None)
        then then_wait (timed obs 0 (\<lambda>m. await (signature_poll obs job (fa_actionId a) m) m))
               (\<lambda>(slot, spent). done_wait (Some slot, spent))
        else done_wait (None, 0))
       (\<lambda>(confirmed, spent). then_wait
          (case fa_kind a of
             SniperBuy \<Rightarrow> buy_trigger obs job a confirmed spent
           | DevAutoSell \<Rightarrow> dev_sell_trigger first obs job a confirmed spent
           | SniperSell \<Rightarrow> sniper_sell_trigger first obs job a spent)
          (\<lambda>(observed, spent). then_wait
             (if waits_for_setup job a
              then then_wait (timed obs spent (await (setup_wait_poll obs (fa_actionId a))))
                     (\<lambda>(_, spent). done_wait spent)
              else done_wait spent)
             (\<lambda>spent m. Some (Inr \<lparr>et_watcher_wait_ms = spent, et_total_ms = elapsed_ms obs n m,
                   et_observed_slot = (case observed of Some s \<Rightarrow> Some s | None \<Rightarrow> confirmed)\<rparr>, m)))) n"

section \<open>How waits end\<close>

lemma await_result:
  "await f n = Some q
     \<Longrightarrow> n \<le> snd q \<and> f (snd q) = (case fst q of Inr a \<Rightarrow> Ready a | Inl e \<Rightarrow> Refuse e)"
proof (induction rule: await.raw_induct [rotated, consumes 1, case_names round])
  case (round loop f n q)
  show ?case
  proof (cases "f n")
    case Wait
    then have "loop f (Suc n) = Some q" using round(2) by simp
    from round(1) [OF this] show ?thesis by auto
  qed (use round(2) in auto)
qed

lemma await_Inr: "await f n = Some (Inr a, m) \<Longrightarrow> n \<le> m \<and> f m = Ready a"
  using await_result [of f n "(Inr a, m)"] by simp

lemma then_wait_Inr:
  "then_wait w f n = Some (Inr b, m) \<longleftrightarrow> (\<exists>a k. w n = Some (Inr a, k) \<and> f a k = Some (Inr b, m))"
  by (auto simp: then_wait_def split: option.splits sum.splits prod.splits)

lemma done_wait_Inr [simp]: "done_wait a n = Some (Inr b, m) \<longleftrightarrow> b = a \<and> m = n"
  by (auto simp: done_wait_def)

lemma timed_Inr:
  "timed obs spent w n = Some (Inr (a, s), m)
     \<longleftrightarrow> w n = Some (Inr a, m) \<and> s = sat_add spent (elapsed_ms obs n m)"
  by (auto simp: timed_def then_wait_Inr)

lemmas wait_results = then_wait_Inr timed_Inr

section \<open>What a ready poll tells\<close>

lemma until_ms_ready: "until_ms_poll obs i ms k = Ready u \<Longrightarrow> ms \<le> ob_now_ms (obs k)"
  by (auto simp: until_ms_poll_def split: option.splits if_splits)

definition launch_slot_seen :: "observations \<Rightarrow> follow_job_record \<Rightarrow> u64 \<Rightarrow> nat \<Rightarrow> bool" where
  "launch_slot_seen obs job slot k \<longleftrightarrow> fj_confirmedObservedSlot job = Some slot
     \<or> stored_confirmed_slot (obs k) = Some slot \<or> ob_signature (obs k) = Some (Inr slot)"

lemma signature_ready: "signature_poll obs job i n k = Ready slot \<Longrightarrow> launch_slot_seen obs job slot k"
  by (auto simp: signature_poll_def launch_slot_seen_def split: option.splits sum.splits if_splits)

definition slot_seen :: "observations \<Rightarrow> u64 \<Rightarrow> nat \<Rightarrow> bool" where
  "slot_seen obs slot k \<longleftrightarrow> ob_slot (obs k) = Some (Inr slot) \<or> ob_fresh_slot (obs k) = Inr slot"

lemma watched_ready:
  "watched_slot ob target = Ready s \<Longrightarrow> target \<le> s \<and> ob_slot ob = Some (Inr s)"
  by (auto simp: watched_slot_def split: option.splits sum.splits if_splits)

lemma slot_round_ready:
  "slot_round ob i target = Ready s \<Longrightarrow> target \<le> s \<and> ob_slot ob = Some (Inr s)"
  by (auto simp: slot_round_def watched_ready split: option.splits poll.splits if_splits)

lemma slot_offset_ready:
  assumes "slot_offset_poll obs job i (Some base) off label n k = Ready s" "off \<noteq> 0"
  shows "sat_add base off \<le> s \<and> slot_seen obs s k"
  using assms
  by (auto simp: slot_offset_poll_def slot_seen_def Let_def split: poll.splits sum.splits if_splits
      dest: watched_ready slot_round_ready)

lemma setup_ready:
  assumes "setup_wait_poll obs i k = Ready u"
  shows "\<exists>job. ob_job (obs k) = Some job \<and> ensure_action_not_cancelled job i = None
    \<and> (case fj_deferredSetup job of Some d \<Rightarrow> ds_state d = SConfirmed | None \<Rightarrow> True)"
  using assms
  by (auto simp: setup_wait_poll_def setup_confirmation_poll_def
      split: option.splits deferred_setup_state.splits)

lemma buy_wait_ready:
  assumes "buy_wait_poll obs job a k = Ready slot"
  shows "\<exists>stored buy. ob_job (obs k) = Some stored \<and> fa_state buy = AConfirmed
    \<and> fa_confirmedObservedSlot buy = Some slot \<and> buy \<in> set (fj_actions stored)
    \<and> map_option fa_actionId (matching_sniper_buy_action job a) = Some (fa_actionId buy)"
  using assms
  by (auto simp: buy_wait_poll_def buy_confirmation_poll_def find_action_def has_action_def
      split: option.splits if_splits dest!: find_Some_prop)

section \<open>Eligible only after the triggers\<close>

lemma buy_trigger_result:
  assumes "buy_trigger obs job a (Some base) spent n = Some (Inr (observed, spent'), m)
      \<or> buy_trigger obs job a None spent n = Some (Inr (observed, spent'), m) \<and> positive_offset a = 0"
  shows "n \<le> m
    \<and> (\<forall>ms. fa_scheduledForMs a = Some ms \<longrightarrow> (\<exists>k. n \<le> k \<and> k \<le> m \<and> ms \<le> ob_now_ms (obs k)))
    \<and> (0 < positive_offset a \<longrightarrow>
         (\<exists>s. observed = Some s \<and> sat_add base (positive_offset a) \<le> s \<and> slot_seen obs s m))"
proof -
  obtain confirmed where run: "buy_trigger obs job a confirmed spent n = Some (Inr (observed, spent'), m)"
    and base: "0 < positive_offset a \<Longrightarrow> confirmed = Some base"
    using assms by auto
  obtain k u where sched: "(case fa_scheduledForMs a of
        Some ms \<Rightarrow> await (until_ms_poll obs (fa_actionId a) ms) | None \<Rightarrow> done_wait ()) n = Some (Inr u, k)"
    and rest: "if 0 < positive_offset a
      then \<exists>s. await (slot_offset_poll obs job (fa_actionId a) confirmed (positive_offset a) launch_anchor k) k
             = Some (Inr s, m) \<and> observed = Some s
      else m = k"
    using run unfolding buy_trigger_def by (auto simp: wait_results split: if_splits)
  have time: "n \<le> k \<and> (\<forall>ms. fa_scheduledForMs a = Some ms \<longrightarrow> ms \<le> ob_now_ms (obs k))"
    using sched by (cases "fa_scheduledForMs a") (auto dest!: await_Inr until_ms_ready)
  show ?thesis
  proof (cases "0 < positive_offset a")
    case True
    then obtain s where s: "await (slot_offset_poll obs job (fa_actionId a) (Some base) (positive_offset a)
        launch_anchor k) k = Some (Inr s, m)" "observed = Some s"
      using rest base by auto
    show ?thesis
      using time s(2) await_Inr [OF s(1)] slot_offset_ready [of obs job _ base] True by fastforce
  next
    case False
    then show ?thesis using time rest by auto
  qed
qed

lemma time_or_market_forward:
  "time_or_market_trigger first obs job a spent n = Some (Inr r, m) \<Longrightarrow> n \<le> m"
  by (cases r) (auto simp: time_or_market_trigger_def wait_results dest!: await_Inr
      split: option.splits)

lemma sniper_sell_trigger_result:
  assumes "sniper_sell_trigger first obs job a spent n = Some (Inr (observed, spent'), m)"
  shows "\<exists>slot k. k \<le> m \<and> buy_wait_poll obs job a k = Ready slot
    \<and> (0 < positive_offset a \<longrightarrow> (\<exists>s. slot_seen obs s m
         \<and> sat_add slot (positive_offset a) \<le> s \<and> observed = Some s))"
proof -
  obtain slot sp k where buy: "await (buy_wait_poll obs job a) n = Some (Inr slot, k)"
    and rest: "(case fa_targetBlockOffset a of
            Some off \<Rightarrow> then_wait (timed obs sp (\<lambda>m. await (slot_offset_poll obs job (fa_actionId a)
                            (Some slot) (ucast off) buy_anchor m) m))
                (\<lambda>(slot, spent). done_wait (Some slot, spent))
          | None \<Rightarrow> time_or_market_trigger first obs job a sp) k = Some (Inr (observed, spent'), m)"
    using assms unfolding sniper_sell_trigger_def by (auto simp: wait_results)
  have "\<exists>s. slot_seen obs s m \<and> sat_add slot (positive_offset a) \<le> s \<and> observed = Some s"
    if pos: "0 < positive_offset a"
  proof -
    obtain off where off: "fa_targetBlockOffset a = Some off" "positive_offset a = ucast off"
      using pos by (cases "fa_targetBlockOffset a") (auto simp: positive_offset_def unwrap_or_def)
    then obtain s where s: "await (slot_offset_poll obs job (fa_actionId a) (Some slot) (positive_offset a)
        buy_anchor k) k = Some (Inr s, m)" "observed = Some s"
      using rest by (auto simp: wait_results)
    show ?thesis
      using s(2) await_Inr [OF s(1)] slot_offset_ready [of obs job _ slot] pos by fastforce
  qed
  moreover have "k \<le> m"
    using rest time_or_market_forward [of first obs job a sp k "(observed, spent')" m]
    by (auto simp: wait_results dest!: await_Inr split: option.splits)
  ultimately show ?thesis using await_Inr [OF buy] by blast
qed

text \<open>The stages of an eligibility that was reached.\<close>

lemma eligibility_stages:
  assumes "wait_for_action_eligibility first obs job a n = Some (Inr t, m)"
  obtains confirmed spent k observed spent' k' where
    "if fa_kind a \<noteq> SniperSell \<and> (fa_requireConfirmation a \<or> fa_targetBlockOffset a \<noteq> None)
     then \<exists>slot. await (signature_poll obs job (fa_actionId a) n) n = Some (Inr slot, k) \<and> confirmed = Some slot
     else confirmed = None \<and> k = n"
    "(case fa_kind a of
        SniperBuy \<Rightarrow> buy_trigger obs job a confirmed spent
      | DevAutoSell \<Rightarrow> dev_sell_trigger first obs job a confirmed spent
      | SniperSell \<Rightarrow> sniper_sell_trigger first obs job a spent) k = Some (Inr (observed, spent'), k')"
    "if waits_for_setup job a
     then \<exists>u. await (setup_wait_poll obs (fa_actionId a)) k' = Some (Inr u, m) else m = k'"
    "et_observed_slot t = (case observed of Some s \<Rightarrow> Some s | None \<Rightarrow> confirmed)"
  using assms unfolding wait_for_action_eligibility_def
  by (auto simp: wait_results split: if_splits)

lemma eligible_setup_stage:
  assumes "wait_for_action_eligibility first obs job a n = Some (Inr t, m)" "waits_for_setup job a"
  shows "\<exists>u. setup_wait_poll obs (fa_actionId a) m = Ready u"
  by (rule eligibility_stages [OF assms(1)]) (use assms(2) in \<open>auto dest!: await_Inr\<close>)

lemma eligible_buy_stage:
  assumes "wait_for_action_eligibility first obs job a n = Some (Inr t, m)" "fa_kind a = SniperBuy"
  obtains confirmed spent k observed spent' k' where
    "buy_trigger obs job a confirmed spent k = Some (Inr (observed, spent'), k')" "n \<le> k" "k' \<le> m"
    "confirmed = None \<Longrightarrow> positive_offset a = 0"
    "\<And>base. confirmed = Some base \<Longrightarrow> launch_slot_seen obs job base k"
    "\<And>s. observed = Some s \<Longrightarrow> et_observed_slot t = Some s"
proof (rule eligibility_stages [OF assms(1)])
  fix confirmed spent k observed spent' k'
  assume first: "if fa_kind a \<noteq> SniperSell \<and> (fa_requireConfirmation a \<or> fa_targetBlockOffset a \<noteq> None)
     then \<exists>slot. await (signature_poll obs job (fa_actionId a) n) n = Some (Inr slot, k) \<and> confirmed = Some slot
     else confirmed = None \<and> k = n"
    and last: "if waits_for_setup job a
     then \<exists>u. await (setup_wait_poll obs (fa_actionId a)) k' = Some (Inr u, m) else m = k'"
    and run: "(case fa_kind a of
        SniperBuy \<Rightarrow> buy_trigger obs job a confirmed spent
      | DevAutoSell \<Rightarrow> dev_sell_trigger first obs job a confirmed spent
      | SniperSell \<Rightarrow> sniper_sell_trigger first obs job a spent) k = Some (Inr (observed, spent'), k')"
    and slot: "et_observed_slot t = (case observed of Some s \<Rightarrow> Some s | None \<Rightarrow> confirmed)"
  show thesis
  proof (rule that [of confirmed spent k observed spent' k'])
    show "n \<le> k" using first by (auto dest!: await_Inr split: if_splits)
    show "k' \<le> m" using last by (auto dest!: await_Inr split: if_splits)
    show "positive_offset a = 0" if "confirmed = None"
      using first that assms(2) by (auto simp: positive_offset_def unwrap_or_def split: if_splits)
    show "launch_slot_seen obs job base k" if "confirmed = Some base" for base
      using first that by (auto dest!: await_Inr signature_ready split: if_splits)
  qed (use run slot assms(2) in auto)
qed

lemma eligible_sell_stage:
  assumes "wait_for_action_eligibility first obs job a n = Some (Inr t, m)" "fa_kind a = SniperSell"
  obtains spent k observed spent' k' where
    "sniper_sell_trigger first obs job a spent k = Some (Inr (observed, spent'), k')" "k' \<le> m"
    "\<And>s. observed = Some s \<Longrightarrow> et_observed_slot t = Some s"
proof (rule eligibility_stages [OF assms(1)], goal_cases)
  case (1 confirmed spent k observed spent' k')
  have "k' \<le> m" using 1(4) by (auto dest!: await_Inr split: if_splits)
  then show thesis using that [of spent k observed spent' k'] 1(3,5) assms(2) by simp
qed


section \<open>Examples\<close>

text \<open>The sample launch is confirmed in slot 100; the watcher shows slot 102 in round 3.\<close>

definition sample_observations :: observations where
  "sample_observations k = \<lparr>ob_job = Some sample_job_without_setup, ob_now_ms = 2000 + of_nat k,
     ob_instant_ms = of_nat k, ob_signature = Some (Inr 100),
     ob_slot = (if k < 3 then None else Some (Inr 102)), ob_market_cap = None,
     ob_fresh_slot = Inr 99, ob_fresh_market_cap = Inl [], ob_closed = False\<rparr>"

lemma sample_unconfirmed: "fj_confirmedObservedSlot sample_job = None"
  by (simp add: sample_job_def sample_metadata armed_job_def) (simp add: new_job_def)

lemma sample_still_armed:
  "stored_action_stopped (sample_observations k) ''buy'' = None"
  "stored_confirmed_slot (sample_observations k) = None"
  "fj_confirmedObservedSlot sample_job_without_setup = None"
  by (simp_all add: stored_action_stopped_def stored_confirmed_slot_def sample_observations_def
      ensure_action_not_cancelled_def ensure_job_not_cancelled_def sample_job_without_setup_def
      find_action_def sample_job_parts has_action_def sample_unconfirmed)

lemma sample_buy_plan: "fa_scheduledForMs armed_buy = Some 1000" "positive_offset armed_buy = 2"
  by (simp_all add: armed_buy_def arm_action_def sample_action_defs positive_offset_def unwrap_or_def
      sat_add_def)

lemma sample_slot_poll:
  "slot_offset_poll sample_observations sample_job_without_setup ''buy'' (Some 100) 2 launch_anchor 0 k
     = (if k < 3 then Wait else Ready 102)"
proof -
  have "slot_round (sample_observations k) ''buy'' 102 = (if k < 3 then Wait else Ready 102)"
    by (simp add: slot_round_def watched_slot_def sample_still_armed)
      (simp add: sample_observations_def)
  moreover have "watched_slot (sample_observations 0) 102 = Wait" "ob_fresh_slot (sample_observations 0) = Inr 99"
    by (simp_all add: watched_slot_def sample_observations_def)
  moreover have "sat_add 100 2 = (102 :: u64)" by (simp add: sat_add_def)
  ultimately show ?thesis by (auto simp: slot_offset_poll_def)
qed

lemma sample_slot_wait:
  "await (slot_offset_poll sample_observations sample_job_without_setup ''buy'' (Some 100) 2 launch_anchor 0) 0
     = Some (Inr 102, 3)"
  by (subst await.simps, simp add: sample_slot_poll)+

lemma sample_buy_eligible:
  "\<exists>t. wait_for_action_eligibility (\<lambda>_. True) sample_observations sample_job_without_setup armed_buy 0
     = Some (Inr t, 3)"
proof -
  have confirmed: "await (signature_poll sample_observations sample_job_without_setup ''buy'' 0) 0
      = Some (Inr 100, 0)"
    by (subst await.simps) (simp add: signature_poll_def sample_still_armed,
      simp add: sample_observations_def)
  have schedule: "await (until_ms_poll sample_observations ''buy'' 1000) 0 = Some (Inr (), 0)"
    by (subst await.simps) (simp add: until_ms_poll_def sample_still_armed,
      simp add: sample_observations_def)
  have "\<not> waits_for_setup sample_job_without_setup armed_buy"
    by (simp add: waits_for_setup_def sample_job_without_setup_def)
  then show ?thesis
    by (simp add: wait_for_action_eligibility_def buy_trigger_def then_wait_def timed_def done_wait_def
        sample_buy_plan confirmed schedule sample_slot_wait)
qed


end
