(* ===== verification/Follow_Requests.thy ===== *)
theory Follow_Requests
  imports Follow_Lifecycle Sol_Amounts
begin

text \<open>
  The HTTP requests of the follow daemon (\<^verbatim>\<open>bin/launchdeck-follow-daemon.rs\<close>): bearer
  authorisation, the admission of new jobs, the cached watcher and wallet checks, the handlers
  over the job store, and the timing totals kept in a job. What the daemon reads from its
  environment is the record \<open>follow_env\<close>; what one request meets on the way (clock
  readings, outcomes of the persists, answers of the network) is the record \<open>request_io\<close>.
\<close>

section \<open>Configuration values\<close>

definition parse_optional_limit_value :: "string \<Rightarrow> nat option" where
  "parse_optional_limit_value value =
     (let trimmed = str_trim value
      in if trimmed = [] \<or> trimmed = ''0'' then None
         else case parse_u64 trimmed of
                Some n \<Rightarrow> if 0 < n then Some (unat n) else None
              | None \<Rightarrow> None)"

definition opt_out_flag_enabled :: "string option \<Rightarrow> bool" where
  "opt_out_flag_enabled value =
     (case value of
        Some raw \<Rightarrow> ascii_lower (str_trim raw) \<notin> {''0'', ''false'', ''off'', ''no''}
      | None \<Rightarrow> True)"

definition configured_capacity_wait_ms :: "string option \<Rightarrow> u64" where
  "configured_capacity_wait_ms var =
     (case Option.bind var (\<lambda>value. parse_u64 (str_trim value)) of
        Some value \<Rightarrow> if 0 < value then value else 5000
      | None \<Rightarrow> 5000)"

definition cache_entry_is_fresh :: "u128 \<Rightarrow> u128 \<Rightarrow> u128 \<Rightarrow> bool" where
  "cache_entry_is_fresh now_ms refreshed_at_ms max_age_ms =
     (sat_sub now_ms refreshed_at_ms \<le> max_age_ms)"

section \<open>The daemon and its requests\<close>

record cached_watch_endpoint =
  cw_endpoint :: string
  cw_checked_at_ms :: u128
  cw_healthy :: bool
  cw_error :: "string option"
  cw_provider :: "string option"
  cw_endpoint_profile :: "string option"

record cached_wallet_precheck =
  cp_quote_asset :: string
  cp_action :: follow_action_record
  cp_checked_at_ms :: u128
  cp_result :: "string option"

text \<open>The fields of \<^verbatim>\<open>AppState\<close> the requests work on; \<open>as_active_jobs\<close> holds the keys
  of the map of running tasks.\<close>

record app_state =
  as_store :: follow_daemon_state_file
  as_active_jobs :: "string list"
  as_watch_endpoint_health :: "string \<Rightarrow> cached_watch_endpoint option"
  as_wallet_precheck_cache :: "string \<Rightarrow> cached_wallet_precheck option"

text \<open>
  \<open>env_auth\<close> is \<^verbatim>\<open>AuthManager::verify_token\<close>, giving the error of a token it rejects;
  \<open>env_watch_endpoints\<close> and \<open>env_prefers_helius\<close> are the routing crate's choices for a
  provider and a websocket endpoint.
\<close>

record follow_env =
  env_auth :: "(string \<Rightarrow> string option) option"
  env_max_active_jobs :: "nat option"
  env_max_concurrent_compiles :: "nat option"
  env_max_concurrent_sends :: "nat option"
  env_sniper_autosell :: "string option"
  env_watch_endpoints :: "string \<Rightarrow> string \<Rightarrow> string list"
  env_prefers_helius :: "string option \<Rightarrow> bool"

text \<open>
  The n-th clock reading and persist of a request, the free permits of the two semaphores, the
  result of a websocket check and of a wallet precheck (the error, if any), the elapsed time.
\<close>

record request_io =
  io_clock :: "nat \<Rightarrow> u128"
  io_persist :: "nat \<Rightarrow> persist_outcome"
  io_compile_slots :: "nat option"
  io_send_slots :: "nat option"
  io_validate :: "string \<Rightarrow> string option"
  io_precheck :: "string \<Rightarrow> follow_action_record \<Rightarrow> string option"
  io_elapsed :: u128

datatype request_error = Unauthorized string | Bad_Request string | Store_Error follow_error
  | Capacity_Full follow_daemon_health

definition authorize :: "follow_env \<Rightarrow> string option \<Rightarrow> string option" where
  "authorize env header =
     (case env_auth env of
        None \<Rightarrow> None
      | Some verify_token \<Rightarrow>
          (case map_option str_trim (Option.bind header (strip_prefix ''Bearer '')) of
             Some (c # cs) \<Rightarrow> verify_token (c # cs)
           | _ \<Rightarrow> Some ''Missing bearer token.''))"

definition build_health :: "follow_env \<Rightarrow> request_io \<Rightarrow> app_state \<Rightarrow> follow_daemon_health" where
  "build_health env io st =
     (let health = (fs_health (as_store st))
            \<lparr>fh_maxActiveJobs := env_max_active_jobs env,
             fh_maxConcurrentCompiles := env_max_concurrent_compiles env,
             fh_maxConcurrentSends := env_max_concurrent_sends env,
             fh_availableCompileSlots := io_compile_slots io,
             fh_availableSendSlots := io_send_slots io\<rparr>
      in if fh_activeJobs health = 0
         then health\<lparr>fh_slotWatcherMode := None, fh_signatureWatcherMode := None,
                     fh_marketWatcherMode := None, fh_watchEndpoint := None,
                     fh_lastError := None\<rparr>
         else health)"

definition has_capacity_for_new_job :: "follow_daemon_health \<Rightarrow> bool" where
  "has_capacity_for_new_job health =
     (case fh_maxActiveJobs health of
        None \<Rightarrow> True | Some max_active_jobs \<Rightarrow> fh_activeJobs health < max_active_jobs)"

section \<open>What a request requires\<close>

definition sell_requires_realtime_watchers :: "normalized_follow_sell \<Rightarrow> bool" where
  "sell_requires_realtime_watchers sell =
     (nsl_requireConfirmation sell \<or> nsl_targetBlockOffset sell \<noteq> None
      \<or> nsl_marketCap sell \<noteq> None)"

definition requires_realtime_watchers :: "follow_ready_request \<Rightarrow> bool" where
  "requires_realtime_watchers r =
     (let follow = rq_followLaunch r in
      if \<not> nl_enabled follow then False
      else list_ex (\<lambda>snipe. nsn_enabled snipe
               \<and> (nsn_targetBlockOffset snipe \<noteq> None
                  \<or> (case nsn_postBuySell snipe of
                       Some sell \<Rightarrow> sell_requires_realtime_watchers sell | None \<Rightarrow> False)))
             (nl_snipes follow)
           \<or> (case nl_devAutoSell follow of
                Some sell \<Rightarrow> sell_requires_realtime_watchers sell | None \<Rightarrow> False))"

definition sniper_autosell_requested :: "normalized_follow_launch \<Rightarrow> bool" where
  "sniper_autosell_requested follow =
     list_ex (\<lambda>snipe. case nsn_postBuySell snipe of
                Some sell \<Rightarrow> nsl_enabled sell | None \<Rightarrow> False) (nl_snipes follow)"

definition autosell_gated :: "follow_env \<Rightarrow> normalized_follow_launch \<Rightarrow> bool" where
  "autosell_gated env follow \<longleftrightarrow> nl_enabled follow \<and> sniper_autosell_requested follow
     \<and> \<not> opt_out_flag_enabled (env_sniper_autosell env)"

definition autosell_gate_notice :: string where
  "autosell_gate_notice =
     ''Sniper autosell is disabled by rollout gate (LAUNCHDECK_ENABLE_SNIPER_AUTOSELL).''"

definition resolve_watch_endpoint :: "follow_env \<Rightarrow> follow_ready_request \<Rightarrow> string option" where
  "resolve_watch_endpoint env r =
     (case rq_watchEndpoint r of
        Some endpoint \<Rightarrow> Some endpoint
      | None \<Rightarrow>
          (case env_watch_endpoints env (ne_provider (rq_execution r))
                  (ne_endpointProfile (rq_execution r)) of
             endpoint # _ \<Rightarrow> Some endpoint | [] \<Rightarrow> None))"

definition selected_realtime_watcher_mode :: "follow_env \<Rightarrow> string option \<Rightarrow> string" where
  "selected_realtime_watcher_mode env watch_endpoint =
     (if env_prefers_helius env watch_endpoint then ''helius-transaction-subscribe''
      else ''standard-ws'')"

section \<open>Cached checks\<close>

definition follow_ready_watch_ttl_ms :: u128 where "follow_ready_watch_ttl_ms = 10000"
definition follow_ready_precheck_ttl_ms :: u128 where "follow_ready_precheck_ttl_ms = 5000"

definition remember_watch_endpoint :: "string \<Rightarrow> app_state \<Rightarrow> app_state" where
  "remember_watch_endpoint endpoint st =
     (if as_watch_endpoint_health st endpoint = None
      then st\<lparr>as_watch_endpoint_health := (as_watch_endpoint_health st)(endpoint \<mapsto>
             \<lparr>cw_endpoint = endpoint, cw_checked_at_ms = 0, cw_healthy = False,
              cw_error = Some ''Watcher health has not been validated yet.'',
              cw_provider = None, cw_endpoint_profile = None\<rparr>)\<rparr>
      else st)"

definition store_watch_endpoint_health ::
  "follow_env \<Rightarrow> request_io \<Rightarrow> string \<Rightarrow> string option \<Rightarrow> string option \<Rightarrow> string option
     \<Rightarrow> app_state \<Rightarrow> app_state" where
  "store_watch_endpoint_health env io endpoint error watch_provider watch_profile st =
     (let previous = as_watch_endpoint_health st endpoint;
          watch_provider = or_else watch_provider (Option.bind previous cw_provider);
          watch_profile = or_else watch_profile (Option.bind previous cw_endpoint_profile);
          entry = \<lparr>cw_endpoint = endpoint, cw_checked_at_ms = io_clock io 0,
                   cw_healthy = (error = None), cw_error = error, cw_provider = watch_provider,
                   cw_endpoint_profile = watch_profile\<rparr>;
          st = st\<lparr>as_watch_endpoint_health := (as_watch_endpoint_health st)(endpoint \<mapsto> entry)\<rparr>;
          current = fs_health (as_store st)
      in if fh_watchEndpoint current = Some endpoint \<or> fh_watchEndpoint current = None
         then let status = (if error = None then WHealthy else WFailed);
                  mode = map_option (\<lambda>_. selected_realtime_watcher_mode env (Some endpoint)) watch_provider
              in st\<lparr>as_store := snd (update_health (io_clock io 1) (io_persist io 0) (Some endpoint)
                      status mode status mode status mode error (as_store st))\<rparr>
         else st)"

definition refresh_watch_endpoint_health ::
  "follow_env \<Rightarrow> request_io \<Rightarrow> string \<Rightarrow> string option \<Rightarrow> string option \<Rightarrow> app_state
     \<Rightarrow> string option \<times> app_state" where
  "refresh_watch_endpoint_health env io endpoint watch_provider watch_profile st =
     (let error = io_validate io endpoint
      in (error, store_watch_endpoint_health env io endpoint error watch_provider watch_profile st))"

fun kind_name :: "follow_action_kind \<Rightarrow> string" where
  "kind_name SniperBuy = ''SniperBuy''"
| "kind_name DevAutoSell = ''DevAutoSell''"
| "kind_name SniperSell = ''SniperSell''"

definition wallet_precheck_cache_key :: "string \<Rightarrow> follow_action_record \<Rightarrow> string" where
  "wallet_precheck_cache_key quote a =
     quote @ ''|'' @ kind_name (fa_kind a) @ ''|'' @ fa_walletEnvKey a @ ''|''
     @ unwrap_or [] (fa_buyAmountSol a)"

definition run_cached_action_precheck ::
  "request_io \<Rightarrow> string \<Rightarrow> follow_action_record \<Rightarrow> app_state \<Rightarrow> string option \<times> app_state" where
  "run_cached_action_precheck io quote a st =
     (let key = wallet_precheck_cache_key quote a;
          result = io_precheck io quote a;
          checked = (result, st\<lparr>as_wallet_precheck_cache := (as_wallet_precheck_cache st)(key \<mapsto>
             \<lparr>cp_quote_asset = quote, cp_action = a, cp_checked_at_ms = io_clock io 0,
              cp_result = result\<rparr>)\<rparr>)
      in case as_wallet_precheck_cache st key of
           Some entry \<Rightarrow>
             if sat_sub (io_clock io 0) (cp_checked_at_ms entry) \<le> follow_ready_precheck_ttl_ms
             then (cp_result entry, st) else checked
         | None \<Rightarrow> checked)"

definition build_follow_buy_precheck_action :: "normalized_follow_snipe \<Rightarrow> follow_action_record" where
  "build_follow_buy_precheck_action snipe =
     \<lparr>fa_actionId = nsn_actionId snipe, fa_kind = SniperBuy,
      fa_walletEnvKey = nsn_walletEnvKey snipe, fa_state = AQueued,
      fa_buyAmountSol = Some (nsn_buyAmountSol snipe), fa_sellPercent = None,
      fa_submitDelayMs = Some (nsn_submitDelayMs snipe),
      fa_targetBlockOffset = nsn_targetBlockOffset snipe, fa_delayMs = None,
      fa_marketCap = None, fa_jitterMs = Some (nsn_jitterMs snipe),
      fa_feeJitterBps = Some (nsn_feeJitterBps snipe), fa_precheckRequired = True,
      fa_requireConfirmation = False, fa_skipIfTokenBalancePositive = False,
      fa_attemptCount = 0, fa_scheduledForMs = None, fa_eligibleAtMs = None,
      fa_submitStartedAtMs = None, fa_submittedAtMs = None, fa_confirmedAtMs = None,
      fa_provider = None, fa_endpointProfile = None, fa_transportType = None,
      fa_watcherMode = None, fa_watcherFallbackReason = None,
      fa_confirmationSource = None, fa_sendObservedSlot = None,
      fa_confirmedObservedSlot = None, fa_confirmedTokenBalanceRaw = None,
      fa_eligibilityObservedSlot = None, fa_slotsToConfirm = None, fa_signature = None,
      fa_explorerUrl = None, fa_endpoint = None, fa_bundleId = None, fa_lastError = None,
      fa_triggerKey = None, fa_orderIndex = 0, fa_preSignedTransactions = [],
      fa_poolId = None, fa_primaryTxIndex = None, fa_timings = default_action_timings\<rparr>"

text \<open>The strict checks of a request run one after the other and stop at the first error.\<close>

fun run_prechecks ::
  "request_io \<Rightarrow> string \<Rightarrow> normalized_follow_snipe list \<Rightarrow> app_state \<Rightarrow> string option \<times> app_state" where
  "run_prechecks io quote [] st = (None, st)"
| "run_prechecks io quote (snipe # snipes) st =
     (if \<not> nsn_enabled snipe then run_prechecks io quote snipes st
      else case run_cached_action_precheck io quote (build_follow_buy_precheck_action snipe) st of
             (Some error, st) \<Rightarrow> (Some error, st)
           | (None, st) \<Rightarrow> run_prechecks io quote snipes st)"

definition run_launch_gate_prechecks ::
  "request_io \<Rightarrow> follow_ready_request \<Rightarrow> app_state \<Rightarrow> string option \<times> app_state" where
  "run_launch_gate_prechecks io r st =
     (if \<not> nc_blockOnRequiredPrechecks (nl_constraints (rq_followLaunch r)) then (None, st)
      else run_prechecks io (rq_quoteAsset r) (nl_snipes (rq_followLaunch r)) st)"

text \<open>The advisory checks only read the cache; stale entries are refreshed in the background.\<close>

definition cached_precheck_error ::
  "request_io \<Rightarrow> string \<Rightarrow> app_state \<Rightarrow> normalized_follow_snipe \<Rightarrow> string option" where
  "cached_precheck_error io quote st snipe =
     (if \<not> nsn_enabled snipe then None
      else case as_wallet_precheck_cache st
                  (wallet_precheck_cache_key quote (build_follow_buy_precheck_action snipe)) of
             Some entry \<Rightarrow>
               if sat_sub (io_clock io 0) (cp_checked_at_ms entry) \<le> follow_ready_precheck_ttl_ms
               then cp_result entry else None
           | None \<Rightarrow> None)"

definition run_launch_gate_prechecks_advisory ::
  "request_io \<Rightarrow> follow_ready_request \<Rightarrow> app_state \<Rightarrow> string option" where
  "run_launch_gate_prechecks_advisory io r st =
     (if \<not> nc_blockOnRequiredPrechecks (nl_constraints (rq_followLaunch r)) then None
      else case List.map_filter (cached_precheck_error io (rq_quoteAsset r) st)
                  (nl_snipes (rq_followLaunch r)) of
             error # _ \<Rightarrow> Some error | [] \<Rightarrow> None)"

definition watch_endpoint_error ::
  "request_io \<Rightarrow> cached_watch_endpoint option \<Rightarrow> string option option" where
  "watch_endpoint_error io cached =
     (case cached of
        Some entry \<Rightarrow>
          if 0 < cw_checked_at_ms entry
             \<and> sat_sub (io_clock io 0) (cw_checked_at_ms entry) \<le> follow_ready_watch_ttl_ms
          then Some (if cw_healthy entry then None
                     else Some (unwrap_or ''Watcher health check failed.'' (cw_error entry)))
          else None
      | None \<Rightarrow> None)"

definition ensure_follow_request_prerequisites ::
  "follow_env \<Rightarrow> request_io \<Rightarrow> follow_ready_request \<Rightarrow> bool \<Rightarrow> string option \<Rightarrow> bool
     \<Rightarrow> app_state \<Rightarrow> string option \<times> app_state" where
  "ensure_follow_request_prerequisites env io r requires_websocket watch_endpoint strict st =
     (case (if \<not> nl_enabled (rq_followLaunch r) then (None, st)
            else if strict then run_launch_gate_prechecks io r st
            else (run_launch_gate_prechecks_advisory io r st, st)) of
        (Some error, st) \<Rightarrow> (Some error, st)
      | (None, st) \<Rightarrow>
          if \<not> requires_websocket then (None, st)
          else case watch_endpoint of
                 None \<Rightarrow> (Some ''No websocket watch endpoint configured. Set SOLANA_WS_URL.'', st)
               | Some endpoint \<Rightarrow>
                   let st = remember_watch_endpoint endpoint st
                   in (case watch_endpoint_error io (as_watch_endpoint_health st endpoint) of
                         Some result \<Rightarrow> (result, st)
                       | None \<Rightarrow>
                           if strict
                           then refresh_watch_endpoint_health env io endpoint
                                  (Some (ne_provider (rq_execution r)))
                                  (Some (ne_endpointProfile (rq_execution r))) st
                           else (None, st)))"

section \<open>Timing totals\<close>

definition sum_follow_times :: "u128 option list \<Rightarrow> u128 option" where
  "sum_follow_times values =
     (let present = List.map_filter (\<lambda>v. v) values
      in if present = [] then None else Some (fold (\<lambda>value total. sat_add total value) present 0))"

definition add_time :: "u128 option \<Rightarrow> u128 \<Rightarrow> u128 option" where
  "add_time slot delta_ms =
     (if delta_ms = 0 then slot else Some (sat_add (unwrap_or 0 slot) delta_ms))"

definition refresh_follow_job_timing_rollups ::
  "string \<Rightarrow> follow_job_record \<Rightarrow> follow_job_record" where
  "refresh_follow_job_timing_rollups benchmark_mode job =
     (let total = (\<lambda>field. sum_follow_times (map (\<lambda>a. field (fa_timings a)) (fj_actions job)));
          t = (fj_timings job)
            \<lparr>jt_benchmarkMode := Some benchmark_mode,
             jt_watcherWaitMs := total at_watcherWaitMs,
             jt_eligibilityMs := total at_eligibilityMs,
             jt_postEligibilityToSubmitMs := total at_postEligibilityToSubmitMs,
             jt_preSignedExpiryCheckMs := total at_preSignedExpiryCheckMs,
             jt_compileMs := total at_compileMs,
             jt_submitMs := total at_submitMs,
             jt_confirmMs := total at_confirmMs\<rparr>;
          t = t\<lparr>jt_executionTotalMs := sum_follow_times
                  [jt_reserveMs t, jt_armMs t, jt_cachePrepMs t, total at_executionTotalMs],
                jt_reportingOverheadMs := sum_follow_times
                  [jt_reportSyncMs t, jt_followSnapshotFlushMs t]\<rparr>
      in job\<lparr>fj_timings := t\<rparr>)"

definition update_job_timings ::
  "string \<Rightarrow> u128 \<Rightarrow> persist_outcome \<Rightarrow> string \<Rightarrow> (follow_job_timings \<Rightarrow> follow_job_timings)
     \<Rightarrow> follow_daemon_state_file \<Rightarrow> follow_daemon_state_file" where
  "update_job_timings benchmark_mode now p t mutator st =
     snd (update_job now p t (\<lambda>job. refresh_follow_job_timing_rollups benchmark_mode
            (job\<lparr>fj_timings := mutator (fj_timings job)\<rparr>)) st)"

definition update_action_timings ::
  "string \<Rightarrow> request_io \<Rightarrow> string \<Rightarrow> string \<Rightarrow> (follow_action_timings \<Rightarrow> follow_action_timings)
     \<Rightarrow> follow_daemon_state_file \<Rightarrow> follow_daemon_state_file" where
  "update_action_timings benchmark_mode io t i mutator st =
     (let st = snd (update_action (io_clock io 0) (io_persist io 0) t i
                      (\<lambda>a. a\<lparr>fa_timings := mutator (fa_timings a)\<rparr>) st)
      in snd (update_job (io_clock io 1) (io_persist io 1) t
                (refresh_follow_job_timing_rollups benchmark_mode) st))"

section \<open>The handlers\<close>

definition job_response ::
  "follow_env \<Rightarrow> request_io \<Rightarrow> app_state \<Rightarrow> follow_job_record option \<Rightarrow> follow_job_response" where
  "job_response env io st job =
     follow_job_response (build_health env io st) job (fs_jobs (as_store st))"

definition spawn_job_if_needed :: "string \<Rightarrow> app_state \<Rightarrow> app_state" where
  "spawn_job_if_needed t st =
     (if t \<in> set (as_active_jobs st) then st
      else st\<lparr>as_active_jobs := t # as_active_jobs st\<rparr>)"

definition restore_jobs :: "request_io \<Rightarrow> app_state \<Rightarrow> app_state" where
  "restore_jobs io st =
     (case recover_jobs_for_restart (io_clock io 0) (io_persist io 0) (as_store st) of
        (Inr recovered, store) \<Rightarrow>
          fold (\<lambda>job. spawn_job_if_needed (fj_traceId job)) recovered (st\<lparr>as_store := store\<rparr>)
      | (Inl _, store) \<Rightarrow> st\<lparr>as_store := store\<rparr>)"

definition missing_websocket_notice :: string where
  "missing_websocket_notice =
     ''No websocket watch endpoint configured for follow daemon. Set SOLANA_WS_URL.''"

definition daemon_ready ::
  "follow_env \<Rightarrow> request_io \<Rightarrow> string option \<Rightarrow> follow_ready_request \<Rightarrow> app_state
     \<Rightarrow> (request_error + follow_ready_response) \<times> app_state" where
  "daemon_ready env io header r st =
     (case authorize env header of
        Some error \<Rightarrow> (Inl (Unauthorized error), st)
      | None \<Rightarrow>
        let requires_websocket = requires_realtime_watchers r;
            watch_endpoint = resolve_watch_endpoint env r;
            answer = (\<lambda>ready reason st. (Inr (follow_ready_response (build_health env io st)
                        watch_endpoint requires_websocket ready reason), st));
            enabled = nl_enabled (rq_followLaunch r)
        in if enabled \<and> nl_schemaVersion (rq_followLaunch r) = 0
           then answer False (Some ''Unsupported follow launch schema version.'') st
           else if enabled \<and> \<not> ne_send (rq_execution r)
           then answer False (Some ''Follow launch requires execution.send=true.'') st
           else if autosell_gated env (rq_followLaunch r)
           then answer False (Some autosell_gate_notice) st
           else if enabled \<and> \<not> has_capacity_for_new_job (build_health env io st)
           then answer False (Some ''Follow daemon active job capacity is full.'') st
           else case ensure_follow_request_prerequisites env io r requires_websocket
                       watch_endpoint False st of
                  (Some error, st) \<Rightarrow>
                    let st = (if requires_websocket \<and> watch_endpoint = None
                              then st\<lparr>as_store := snd (update_health (io_clock io 1) (io_persist io 0)
                                     None WFailed None WFailed None WFailed None
                                     (Some missing_websocket_notice) (as_store st))\<rparr>
                              else st)
                    in answer False (Some error) st
                | (None, st) \<Rightarrow> answer True None st)"

definition ready_request_of :: "follow_reserve_request \<Rightarrow> follow_ready_request" where
  "ready_request_of r = \<lparr>rq_followLaunch = rr_followLaunch r, rq_quoteAsset = rr_quoteAsset r,
     rq_execution = rr_execution r, rq_watchEndpoint = None\<rparr>"

text \<open>
  The reserve handler up to its capacity check, and from the store operation on; the code
  awaits in between.
\<close>

definition reserve_admission ::
  "follow_env \<Rightarrow> request_io \<Rightarrow> string option \<Rightarrow> follow_reserve_request \<Rightarrow> app_state
     \<Rightarrow> request_error option \<times> app_state" where
  "reserve_admission env io header r st =
     (case authorize env header of
        Some error \<Rightarrow> (Some (Unauthorized error), st)
      | None \<Rightarrow>
        if autosell_gated env (rr_followLaunch r)
        then (Some (Bad_Request autosell_gate_notice), st)
        else let ready = ready_request_of r
             in (case ensure_follow_request_prerequisites env io ready
                        (requires_realtime_watchers ready) (resolve_watch_endpoint env ready)
                        True st of
                   (Some error, st) \<Rightarrow> (Some (Bad_Request error), st)
                 | (None, st) \<Rightarrow>
                     let health = build_health env io st
                     in if get_job (rr_traceId r) (as_store st) = None
                           \<and> \<not> has_capacity_for_new_job health
                        then (Some (Capacity_Full health), st) else (None, st)))"

definition reserve_commit ::
  "'v follow_serde \<Rightarrow> string \<Rightarrow> request_io \<Rightarrow> follow_reserve_request \<Rightarrow> app_state
     \<Rightarrow> (request_error + follow_job_response) \<times> app_state" where
  "reserve_commit ser bench io r st =
     (case reserve_job ser bench (io_clock io 2) (io_persist io 1) r (as_store st) of
        (Inl error, store) \<Rightarrow> (Inl (Store_Error error), st\<lparr>as_store := store\<rparr>)
      | (Inr job, store) \<Rightarrow>
          let store = update_job_timings bench (io_clock io 3) (io_persist io 2) (fj_traceId job)
                        (\<lambda>t. t\<lparr>jt_reserveMs := Some (io_elapsed io)\<rparr>) store
          in (Inr (follow_job_response (fs_health store) (Some job) []), st\<lparr>as_store := store\<rparr>))"

definition reserve_job_request ::
  "'v follow_serde \<Rightarrow> string \<Rightarrow> follow_env \<Rightarrow> request_io \<Rightarrow> string option
     \<Rightarrow> follow_reserve_request \<Rightarrow> app_state
     \<Rightarrow> (request_error + follow_job_response) \<times> app_state" where
  "reserve_job_request ser bench env io header r st =
     (case reserve_admission env io header r st of
        (Some error, st) \<Rightarrow> (Inl error, st)
      | (None, st) \<Rightarrow> reserve_commit ser bench io r st)"

definition arm_job_request ::
  "string \<Rightarrow> follow_env \<Rightarrow> request_io \<Rightarrow> string option \<Rightarrow> follow_arm_request \<Rightarrow> app_state
     \<Rightarrow> (request_error + follow_job_response) \<times> app_state" where
  "arm_job_request bench env io header r st =
     (case authorize env header of
        Some error \<Rightarrow> (Inl (Unauthorized error), st)
      | None \<Rightarrow>
     (case arm_job (io_clock io 0) (io_persist io 0) r (as_store st) of
        (Inl error, store) \<Rightarrow> (Inl (Store_Error error), st\<lparr>as_store := store\<rparr>)
      | (Inr job, store) \<Rightarrow>
          let store = update_job_timings bench (io_clock io 1) (io_persist io 1) (ar_traceId r)
                        (\<lambda>t. t\<lparr>jt_armMs := Some (io_elapsed io)\<rparr>) store;
              st = spawn_job_if_needed (ar_traceId r) (st\<lparr>as_store := store\<rparr>)
          in (Inr (follow_job_response (fs_health (as_store st)) (Some job) []), st)))"

definition cancel_job_request ::
  "follow_env \<Rightarrow> request_io \<Rightarrow> string option \<Rightarrow> follow_cancel_request \<Rightarrow> app_state
     \<Rightarrow> (request_error + follow_job_response) \<times> app_state" where
  "cancel_job_request env io header r st =
     (case authorize env header of
        Some error \<Rightarrow> (Inl (Unauthorized error), st)
      | None \<Rightarrow>
     (case cancel_job (io_clock io 0) (io_persist io 0) r (as_store st) of
        (Inl error, store) \<Rightarrow> (Inl (Store_Error error), st\<lparr>as_store := store\<rparr>)
      | (Inr job, store) \<Rightarrow>
          let st = st\<lparr>as_store := store\<rparr> in (Inr (job_response env io st (Some job)), st)))"

definition job_status_request ::
  "follow_env \<Rightarrow> request_io \<Rightarrow> string option \<Rightarrow> string \<Rightarrow> app_state
     \<Rightarrow> (request_error + follow_job_response) \<times> app_state" where
  "job_status_request env io header t st =
     (case authorize env header of
        Some error \<Rightarrow> (Inl (Unauthorized error), st)
      | None \<Rightarrow> (Inr (job_response env io st (get_job t (as_store st))), st))"

definition list_jobs_request ::
  "follow_env \<Rightarrow> request_io \<Rightarrow> string option \<Rightarrow> app_state
     \<Rightarrow> (request_error + follow_job_response) \<times> app_state" where
  "list_jobs_request env io header st =
     (case authorize env header of
        Some error \<Rightarrow> (Inl (Unauthorized error), st)
      | None \<Rightarrow> (Inr (job_response env io st None), st))"

definition stop_all_jobs_request ::
  "follow_env \<Rightarrow> request_io \<Rightarrow> string option \<Rightarrow> string option \<Rightarrow> app_state
     \<Rightarrow> (request_error + follow_job_response) \<times> app_state" where
  "stop_all_jobs_request env io header msg st =
     (case authorize env header of
        Some error \<Rightarrow> (Inl (Unauthorized error), st)
      | None \<Rightarrow>
     (case cancel_all_jobs (io_clock io 0) (io_persist io 0) msg (as_store st) of
        (Inl error, store) \<Rightarrow> (Inl (Store_Error error), st\<lparr>as_store := store\<rparr>)
      | (Inr _, store) \<Rightarrow>
          let st = st\<lparr>as_store := store\<rparr> in (Inr (job_response env io st None), st)))"

section \<open>Serving requests\<close>

datatype request = Ready_Request follow_ready_request | Reserve_Request follow_reserve_request
  | Arm_Request follow_arm_request | Cancel_Request follow_cancel_request
  | Status_Request string | List_Request | Stop_All_Request "string option"

fun served ::
  "'v follow_serde \<Rightarrow> string \<Rightarrow> follow_env \<Rightarrow> request_io \<Rightarrow> string option \<Rightarrow> request
     \<Rightarrow> app_state \<Rightarrow> request_error option \<times> app_state" where
  "served ser bench env io header (Ready_Request r) st =
     map_prod (case_sum Some (\<lambda>_. None)) id (daemon_ready env io header r st)"
| "served ser bench env io header (Reserve_Request r) st =
     map_prod (case_sum Some (\<lambda>_. None)) id (reserve_job_request ser bench env io header r st)"
| "served ser bench env io header (Arm_Request r) st =
     map_prod (case_sum Some (\<lambda>_. None)) id (arm_job_request bench env io header r st)"
| "served ser bench env io header (Cancel_Request r) st =
     map_prod (case_sum Some (\<lambda>_. None)) id (cancel_job_request env io header r st)"
| "served ser bench env io header (Status_Request t) st =
     map_prod (case_sum Some (\<lambda>_. None)) id (job_status_request env io header t st)"
| "served ser bench env io header List_Request st =
     map_prod (case_sum Some (\<lambda>_. None)) id (list_jobs_request env io header st)"
| "served ser bench env io header (Stop_All_Request msg) st =
     map_prod (case_sum Some (\<lambda>_. None)) id (stop_all_jobs_request env io header msg st)"

lemma strip_prefix_eq: "strip_prefix p s = Some t \<Longrightarrow> s = p @ t"
  by (auto simp: strip_prefix_def starts_with_def split: if_splits) (metis append_take_drop_id)


section \<open>Requests are operations of the store\<close>

definition store_path ::
  "'v follow_serde \<Rightarrow> follow_daemon_state_file \<Rightarrow> follow_daemon_state_file \<Rightarrow> bool" where
  "store_path ser = (store_step ser)\<^sup>*\<^sup>*"

lemma store_path_refl [simp, intro]: "store_path ser st st"
  by (simp add: store_path_def)

lemma store_path_trans: "store_path ser a b \<Longrightarrow> store_path ser b c \<Longrightarrow> store_path ser a c"
  by (simp add: store_path_def)

lemma store_path_step: "store_step ser a b \<Longrightarrow> store_path ser a b"
  by (simp add: store_path_def)

lemma rollups_simps [simp]:
  "fj_state (refresh_follow_job_timing_rollups bench job) = fj_state job"
  "fj_traceId (refresh_follow_job_timing_rollups bench job) = fj_traceId job"
  by (simp_all add: refresh_follow_job_timing_rollups_def Let_def)

lemma rollups_follow [simp]:
  "job_follows job (refresh_follow_job_timing_rollups bench (job\<lparr>fj_timings := t\<rparr>))"
  by (simp add: refresh_follow_job_timing_rollups_def Let_def job_follows_def same_reservation_def)

lemma update_job_timings_path: "store_path ser st (update_job_timings bench now p t f st)"
  unfolding update_job_timings_def by (rule store_path_step [OF store_step.job_update]) simp

lemma watch_health_path:
  "store_path ser (as_store st)
     (as_store (snd (refresh_watch_endpoint_health env io endpoint prov prof st)))"
  by (auto simp: refresh_watch_endpoint_health_def store_watch_endpoint_health_def Let_def
      intro: store_path_step store_step.health)

lemma remember_store [simp]: "as_store (remember_watch_endpoint endpoint st) = as_store st"
  by (simp add: remember_watch_endpoint_def)

lemma run_prechecks_store [simp]: "as_store (snd (run_prechecks io q snipes st)) = as_store st"
proof (induction io q snipes st rule: run_prechecks.induct)
  case (2 io q snipe snipes st)
  obtain r st' where one: "run_cached_action_precheck io q (build_follow_buy_precheck_action snipe) st
      = (r, st')" by fastforce
  have "as_store st' = as_store st"
    using one by (auto simp: run_cached_action_precheck_def Let_def split: option.splits if_splits)
  then show ?case
    using 2 one by (cases r) auto
qed simp

lemma gate_store [simp]: "as_store (snd (run_launch_gate_prechecks io r st)) = as_store st"
  by (simp add: run_launch_gate_prechecks_def)

lemma prerequisites_path:
  "store_path ser (as_store st)
     (as_store (snd (ensure_follow_request_prerequisites env io r ws endpoint strict st)))"
proof -
  define gate where "gate = (if \<not> nl_enabled (rq_followLaunch r) then (None, st)
            else if strict then run_launch_gate_prechecks io r st
            else (run_launch_gate_prechecks_advisory io r st, st))"
  have store: "as_store (snd gate) = as_store st" by (simp add: gate_def)
  show ?thesis
  proof (cases gate)
    case (Pair e mid)
    then show ?thesis
      using store watch_health_path [of ser "remember_watch_endpoint _ mid"]
      unfolding ensure_follow_request_prerequisites_def gate_def [symmetric]
      by (auto simp: Let_def split: option.splits)
  qed
qed

lemma ready_path: "store_path ser (as_store st) (as_store (snd (daemon_ready env io header r st)))"
proof -
  obtain e mid where pre: "ensure_follow_request_prerequisites env io r (requires_realtime_watchers r)
      (resolve_watch_endpoint env r) False st = (e, mid)" by fastforce
  have path: "store_path ser (as_store st) (as_store mid)"
    using prerequisites_path [of ser st env io r] pre by (metis snd_conv)
  note fail = store_path_trans [OF path store_path_step [OF store_step.health]]
  show ?thesis
    using path fail by (cases e) (auto simp: daemon_ready_def Let_def pre split: option.split)
qed

lemma admission_path:
  "store_path ser (as_store st) (as_store (snd (reserve_admission env io header r st)))"
proof -
  obtain e mid where pre: "ensure_follow_request_prerequisites env io (ready_request_of r)
      (requires_realtime_watchers (ready_request_of r))
      (resolve_watch_endpoint env (ready_request_of r)) True st = (e, mid)" by fastforce
  have path: "store_path ser (as_store st) (as_store mid)"
    using prerequisites_path [of ser st env io "ready_request_of r"] pre by (metis snd_conv)
  then show ?thesis
    by (cases e) (auto simp: reserve_admission_def Let_def pre split: option.split)
qed

lemma commit_path: "store_path ser (as_store st) (as_store (snd (reserve_commit ser bench io r st)))"
proof -
  obtain result store where r: "reserve_job ser bench (io_clock io 2) (io_persist io 1) r (as_store st)
      = (result, store)" by fastforce
  have one: "store_path ser (as_store st) store"
    using store_path_step [OF store_step.reserve] r by (metis snd_conv)
  then show ?thesis
    using store_path_trans [OF one update_job_timings_path]
    by (cases result) (simp_all add: reserve_commit_def r Let_def del: One_nat_def)
qed

lemma reserve_path:
  "store_path ser (as_store st) (as_store (snd (reserve_job_request ser bench env io header r st)))"
proof -
  obtain e mid where a: "reserve_admission env io header r st = (e, mid)" by fastforce
  have path: "store_path ser (as_store st) (as_store mid)"
    using admission_path [of ser st env io header r] a by simp
  then show ?thesis
    using store_path_trans [OF path commit_path]
    by (cases e) (simp_all add: reserve_job_request_def a)
qed

lemma spawn_store [simp]: "as_store (spawn_job_if_needed t st) = as_store st"
  by (simp add: spawn_job_if_needed_def)

lemma arm_path:
  "store_path ser (as_store st) (as_store (snd (arm_job_request bench env io header r st)))"
proof -
  obtain result store where a: "arm_job (io_clock io 0) (io_persist io 0) r (as_store st)
      = (result, store)" by fastforce
  have one: "store_path ser (as_store st) store"
    using store_path_step [OF store_step.arm] a by (metis snd_conv)
  then show ?thesis
    using store_path_trans [OF one update_job_timings_path]
    by (cases result) (simp_all add: arm_job_request_def a Let_def split: option.split)
qed

lemma cancel_path:
  "store_path ser (as_store st) (as_store (snd (cancel_job_request env io header r st)))"
proof -
  obtain result store where c: "cancel_job (io_clock io 0) (io_persist io 0) r (as_store st)
      = (result, store)" by fastforce
  have "store_path ser (as_store st) store"
    using store_path_step [OF store_step.cancel] c by (metis snd_conv)
  then show ?thesis
    by (cases result) (simp_all add: cancel_job_request_def c Let_def split: option.split)
qed

lemma stop_all_path:
  "store_path ser (as_store st) (as_store (snd (stop_all_jobs_request env io header msg st)))"
proof -
  obtain result store where c: "cancel_all_jobs (io_clock io 0) (io_persist io 0) msg (as_store st)
      = (result, store)" by fastforce
  have "store_path ser (as_store st) store"
    using store_path_step [OF store_step.cancel_all] c by (metis snd_conv)
  then show ?thesis
    by (cases result) (simp_all add: stop_all_jobs_request_def c Let_def split: option.split)
qed

lemma served_path:
  "store_path ser (as_store st) (as_store (snd (served ser bench env io header request st)))"
  by (cases request)
    (simp_all add: snd_map_prod ready_path reserve_path arm_path cancel_path stop_all_path
      job_status_request_def list_jobs_request_def split: option.split)

lemma path_reachable:
  assumes "store_path ser st st'" "follow_reachable ser version st"
  shows "follow_reachable ser version st'"
  using assms unfolding store_path_def
  by (induction rule: rtranclp_induct) (auto intro: follow_reachable.step)

section \<open>The capacity of the daemon\<close>

definition live :: "follow_job_record \<Rightarrow> bool" where
  "live job \<longleftrightarrow> fj_state job \<in> {JReserved, JArmed, JRunning}"

lemma active_live: "active_job_count jobs = length (filter live jobs)"
  by (simp add: active_job_count_def live_def [abs_def])

lemma live_terminal: "live job \<longleftrightarrow> \<not> job_state_terminal (fj_state job)"
  by (cases "fj_state job") (simp_all add: live_def job_state_terminal_def)

lemma live_update_first:
  assumes "List.find p jobs = Some old" "live job \<longrightarrow> live old"
  shows "active_job_count (update_first p (\<lambda>_. job) jobs) \<le> active_job_count jobs"
  using assms by (induction jobs) (auto simp: active_live split: if_splits)

lemma live_map:
  assumes "\<And>j. live (f j) \<Longrightarrow> live j"
  shows "active_job_count (map f jobs) \<le> active_job_count jobs"
  using assms by (induction jobs) (auto simp: active_live)

lemma put_job_live:
  assumes "get_job t st = Some old" "live job \<longrightarrow> live old"
  shows "active_job_count (fs_jobs (put_job t job st)) \<le> active_job_count (fs_jobs st)"
  using assms live_update_first by (simp add: get_job_def)

lemma update_job_live:
  assumes "\<And>j. fj_state (f j) = fj_state j"
  shows "active_job_count (fs_jobs (snd (update_job now p t f st))) \<le> active_job_count (fs_jobs st)"
  using put_job_live [of t "touch_health now st"] assms
  by (auto simp: update_job_def Let_def live_def split: option.split)

lemma update_job_timings_live:
  "active_job_count (fs_jobs (update_job_timings bench now p t f st)) \<le> active_job_count (fs_jobs st)"
  unfolding update_job_timings_def by (rule update_job_live) simp

lemma arm_job_live:
  "active_job_count (fs_jobs (snd (arm_job now p r st))) \<le> active_job_count (fs_jobs st)"
proof (cases "get_job (ar_traceId r) st")
  case (Some old)
  obtain job touched where m: "arm_metadata r old = (job, touched)" by fastforce
  have state: "fj_state job = fj_state old"
    using arm_metadata_state [of r old] m by simp
  note put = put_job_live [OF Some]
  show ?thesis
    using put [of job] put [of "job\<lparr>fj_updatedAtMs := now\<rparr>"] put [of "armed_job now r job"] state
    by (auto simp: arm_job_def Some m Let_def live_terminal split: option.split)
qed (simp add: arm_job_def)

lemma cancel_job_live:
  "active_job_count (fs_jobs (snd (cancel_job now p r st))) \<le> active_job_count (fs_jobs st)"
proof (cases "get_job (cr_traceId r) st")
  case (Some old)
  note put = put_job_live [OF Some]
  show ?thesis
    unfolding cancel_job_def Some Let_def option.case snd_conv refresh_simps(4)
    by (rule put) (simp add: live_def cancel_whole_job_def split: option.split)
qed (simp add: cancel_job_def)

lemma cancel_all_live:
  "active_job_count (fs_jobs (snd (cancel_all_jobs now p msg st))) \<le> active_job_count (fs_jobs st)"
proof -
  have "live (cancel_live_job now msg j) \<Longrightarrow> live j" for j
    by (simp add: live_def cancel_live_job_def cancel_whole_job_def split: if_splits)
  from live_map [OF this] show ?thesis by (simp add: cancel_all_jobs_def Let_def)
qed

lemma reserve_job_live:
  "active_job_count (fs_jobs (snd (reserve_job ser bench now p r st)))
     \<le> (if get_job (rr_traceId r) st = None then 1 else 0) + active_job_count (fs_jobs st)"
proof (cases "get_job (rr_traceId r) st")
  case None
  then show ?thesis
    by (auto simp: reserve_job_def Let_def active_live split: option.split)
next
  case (Some old)
  note put = put_job_live [OF Some]
  show ?thesis
    using put by (auto simp: reserve_job_def Some Let_def live_def split: option.split)
qed

lemma path_inv: "store_path ser st st' \<Longrightarrow> store_inv st \<Longrightarrow> store_inv st'"
  unfolding store_path_def
  by (induction rule: rtranclp_induct) (auto dest: store_step_contract)

lemma update_health_jobs [simp]: "fs_jobs (snd (update_health now p w s sm g gm m mm e st)) = fs_jobs st"
  by (simp add: update_health_def)

lemma refresh_watch_jobs [simp]:
  "fs_jobs (as_store (snd (refresh_watch_endpoint_health env io endpoint prov prof st)))
     = fs_jobs (as_store st)"
  by (simp add: refresh_watch_endpoint_health_def store_watch_endpoint_health_def Let_def)

lemma prerequisites_jobs:
  "fs_jobs (as_store (snd (ensure_follow_request_prerequisites env io r ws endpoint strict st)))
     = fs_jobs (as_store st)"
proof -
  define gate where "gate = (if \<not> nl_enabled (rq_followLaunch r) then (None, st)
            else if strict then run_launch_gate_prechecks io r st
            else (run_launch_gate_prechecks_advisory io r st, st))"
  have store: "as_store (snd gate) = as_store st" by (simp add: gate_def)
  show ?thesis
    using store unfolding ensure_follow_request_prerequisites_def gate_def [symmetric]
    by (cases gate) (auto simp: Let_def split: option.splits)
qed

lemma ready_jobs: "fs_jobs (as_store (snd (daemon_ready env io header r st))) = fs_jobs (as_store st)"
proof -
  obtain e mid where pre: "ensure_follow_request_prerequisites env io r (requires_realtime_watchers r)
      (resolve_watch_endpoint env r) False st = (e, mid)" by fastforce
  have "fs_jobs (as_store mid) = fs_jobs (as_store st)"
    using prerequisites_jobs [of env io r] pre by (metis snd_conv)
  then show ?thesis
    by (cases e) (auto simp: daemon_ready_def Let_def pre split: option.split)
qed

lemma admission_jobs:
  "fs_jobs (as_store (snd (reserve_admission env io header r st))) = fs_jobs (as_store st)"
proof -
  obtain e mid where pre: "ensure_follow_request_prerequisites env io (ready_request_of r)
      (requires_realtime_watchers (ready_request_of r))
      (resolve_watch_endpoint env (ready_request_of r)) True st = (e, mid)" by fastforce
  have "fs_jobs (as_store mid) = fs_jobs (as_store st)"
    using prerequisites_jobs [of env io "ready_request_of r"] pre by (metis snd_conv)
  then show ?thesis
    by (cases e) (auto simp: reserve_admission_def Let_def pre split: option.split)
qed

lemma build_health_counts [simp]:
  "fh_activeJobs (build_health env io st) = fh_activeJobs (fs_health (as_store st))"
  "fh_maxActiveJobs (build_health env io st) = env_max_active_jobs env"
  by (simp_all add: build_health_def Let_def)

lemma admitted_capacity:
  assumes "store_inv (as_store st)" "env_max_active_jobs env = Some m"
    and "reserve_admission env io header r st = (None, mid)"
    and "get_job (rr_traceId r) (as_store st) = None"
  shows "active_job_count (fs_jobs (as_store mid)) < m"
proof -
  have jobs: "fs_jobs (as_store mid) = fs_jobs (as_store st)"
    using admission_jobs [of env io header r st] assms(3) by simp
  have inv: "store_inv (as_store mid)"
    using path_inv [OF admission_path [of undefined st env io header r] assms(1)] assms(3) by simp
  have "has_capacity_for_new_job (build_health env io mid)"
    using assms(3,4) get_job_jobs [OF jobs]
    by (auto simp: reserve_admission_def Let_def split: option.splits if_splits prod.splits)
  then show ?thesis
    using inv assms(2) by (simp add: has_capacity_for_new_job_def store_inv_def counts_ok_def)
qed

lemma commit_live:
  "active_job_count (fs_jobs (as_store (snd (reserve_commit ser bench io r st))))
     \<le> (if get_job (rr_traceId r) (as_store st) = None then 1 else 0)
        + active_job_count (fs_jobs (as_store st))"
proof -
  obtain result store where r: "reserve_job ser bench (io_clock io 2) (io_persist io 1) r (as_store st)
      = (result, store)" by fastforce
  have one: "active_job_count (fs_jobs store)
     \<le> (if get_job (rr_traceId r) (as_store st) = None then 1 else 0)
        + active_job_count (fs_jobs (as_store st))"
    using reserve_job_live [of ser bench "io_clock io 2" "io_persist io 1" r "as_store st"] r by simp
  show ?thesis
    using one order_trans [OF update_job_timings_live one]
    by (cases result) (simp_all add: reserve_commit_def r Let_def del: One_nat_def)
qed

lemma reserve_live:
  assumes "store_inv (as_store st)" "env_max_active_jobs env = Some m"
    and "active_job_count (fs_jobs (as_store st)) \<le> m"
  shows "active_job_count (fs_jobs (as_store (snd (reserve_job_request ser bench env io header r st)))) \<le> m"
proof -
  obtain e mid where a: "reserve_admission env io header r st = (e, mid)" by fastforce
  have jobs: "fs_jobs (as_store mid) = fs_jobs (as_store st)"
    using admission_jobs [of env io header r st] a by simp
  show ?thesis
  proof (cases e)
    case (Some error)
    then show ?thesis using a jobs assms(3) by (simp add: reserve_job_request_def)
  next
    case None
    note commit = commit_live [of ser bench io r mid]
    show ?thesis
      using commit admitted_capacity [OF assms(1,2) a [unfolded None]] jobs assms(3)
        get_job_jobs [OF jobs, of "rr_traceId r"]
      by (cases "get_job (rr_traceId r) (as_store st)")
        (simp_all add: reserve_job_request_def a None)
  qed
qed

lemma arm_request_live:
  "active_job_count (fs_jobs (as_store (snd (arm_job_request bench env io header r st))))
     \<le> active_job_count (fs_jobs (as_store st))"
proof -
  obtain result store where a: "arm_job (io_clock io 0) (io_persist io 0) r (as_store st)
      = (result, store)" by fastforce
  have one: "active_job_count (fs_jobs store) \<le> active_job_count (fs_jobs (as_store st))"
    using arm_job_live [of "io_clock io 0" "io_persist io 0" r "as_store st"] a by simp
  show ?thesis
    using one order_trans [OF update_job_timings_live one]
    by (cases result) (simp_all add: arm_job_request_def a Let_def split: option.split)
qed

lemma cancel_request_live:
  "active_job_count (fs_jobs (as_store (snd (cancel_job_request env io header r st))))
     \<le> active_job_count (fs_jobs (as_store st))"
  using cancel_job_live [of "io_clock io 0" "io_persist io 0" r "as_store st"]
  by (auto simp: cancel_job_request_def Let_def split: option.split prod.split sum.split)

lemma stop_all_request_live:
  "active_job_count (fs_jobs (as_store (snd (stop_all_jobs_request env io header msg st))))
     \<le> active_job_count (fs_jobs (as_store st))"
  using cancel_all_live [of "io_clock io 0" "io_persist io 0" msg "as_store st"]
  by (auto simp: stop_all_jobs_request_def Let_def split: option.split prod.split sum.split)

lemma served_live:
  assumes "store_inv (as_store st)" "env_max_active_jobs env = Some m"
    and "active_job_count (fs_jobs (as_store st)) \<le> m"
  shows "active_job_count (fs_jobs (as_store (snd (served ser bench env io header request st)))) \<le> m"
proof (cases request)
  case (Reserve_Request r)
  then show ?thesis using reserve_live [OF assms] by (simp add: snd_map_prod)
next
  case (Arm_Request r)
  then show ?thesis
    using order_trans [OF arm_request_live assms(3)] by (simp add: snd_map_prod)
next
  case (Cancel_Request r)
  then show ?thesis
    using order_trans [OF cancel_request_live assms(3)] by (simp add: snd_map_prod)
next
  case (Stop_All_Request msg)
  then show ?thesis
    using order_trans [OF stop_all_request_live assms(3)] by (simp add: snd_map_prod)
qed (use assms(3) in \<open>simp_all add: snd_map_prod ready_jobs job_status_request_def
      list_jobs_request_def split: option.split\<close>)

text \<open>A sequence of requests, each served to its end before the next.\<close>

definition serve_all ::
  "'v follow_serde \<Rightarrow> string \<Rightarrow> follow_env \<Rightarrow> (request_io \<times> string option \<times> request) list
     \<Rightarrow> app_state \<Rightarrow> app_state" where
  "serve_all ser bench env =
     fold (\<lambda>(io, header, request) st. snd (served ser bench env io header request st))"

text \<open>
  C36: requests served one after the other are operations of the store, so what holds of
  every reachable store holds after them, and they never make more jobs active than the
  configured maximum.
\<close>

theorem served_requests_respect_capacity:
  assumes "follow_reachable ser version (as_store st)" "env_max_active_jobs env = Some m"
    and "fh_activeJobs (fs_health (as_store st)) \<le> m"
  shows "follow_reachable ser version (as_store (serve_all ser bench env requests st))
    \<and> fh_activeJobs (fs_health (as_store (serve_all ser bench env requests st))) \<le> m"
proof -
  have active: "follow_reachable ser version store
      \<Longrightarrow> fh_activeJobs (fs_health store) = active_job_count (fs_jobs store)" for store
    using reachable_inv [of ser version store] by (simp add: store_inv_def counts_ok_def)
  show ?thesis
    using assms
  proof (induction requests arbitrary: st)
    case (Cons q requests)
    obtain io header request where q: "q = (io, header, request)" by (cases q)
    let ?next = "snd (served ser bench env io header request st)"
    have reach: "follow_reachable ser version (as_store ?next)"
      using path_reachable [OF served_path Cons.prems(1)] .
    moreover have "fh_activeJobs (fs_health (as_store ?next)) \<le> m"
      using served_live [OF reachable_inv [OF Cons.prems(1)] Cons.prems(2)] Cons.prems(3)
        active [OF Cons.prems(1)] active [OF reach] by simp
    ultimately show ?case using Cons.IH [of ?next] Cons.prems(2) by (simp add: serve_all_def q)
  qed (simp add: serve_all_def)
qed

section \<open>Overlapping reservations\<close>

definition job_shapes :: "follow_daemon_state_file \<Rightarrow> (string \<times> follow_job_state) list" where
  "job_shapes st = map (\<lambda>j. (fj_traceId j, fj_state j)) (fs_jobs st)"

lemma map_update_first_const:
  "List.find p xs = Some old \<Longrightarrow> g new = g old \<Longrightarrow> map g (update_first p (\<lambda>_. new) xs) = map g xs"
  by (induction xs) (auto split: if_splits)

lemma update_job_timings_shapes [simp]:
  "job_shapes (update_job_timings bench now p t f st) = job_shapes st"
  by (auto simp: update_job_timings_def update_job_def Let_def job_shapes_def get_job_def
      intro!: map_update_first_const split: option.split)

lemma active_shapes:
  "active_job_count (fs_jobs st)
     = length (filter (\<lambda>(_, s). s \<in> {JReserved, JArmed, JRunning}) (job_shapes st))"
  by (simp add: active_job_count_def job_shapes_def filter_map comp_def)

lemma get_job_shapes: "get_job t st = None \<longleftrightarrow> t \<notin> fst ` set (job_shapes st)"
  by (auto simp: get_job_none job_shapes_def image_iff)

lemma new_reserve_shapes:
  assumes "get_job (rr_traceId r) (as_store st) = None" "requested_fingerprint ser r \<noteq> None"
  shows "job_shapes (as_store (snd (reserve_commit ser bench io r st)))
      = job_shapes (as_store st) @ [(rr_traceId r, JReserved)]"
proof -
  obtain result store where r: "reserve_job ser bench (io_clock io 2) (io_persist io 1) r (as_store st)
      = (result, store)" by fastforce
  have "job_shapes store = job_shapes (as_store st) @ [(rr_traceId r, JReserved)]"
    using r assms by (auto simp: reserve_job_def Let_def job_shapes_def)
  then show ?thesis
    by (cases result) (simp_all add: reserve_commit_def r Let_def del: One_nat_def)
qed

text \<open>
  When two reservations overlap, so that both pass the capacity check before either has
  reached the store, the maximum is exceeded: with one place left, both are reserved.
\<close>

theorem overlapping_reserves_exceed_capacity:
  assumes "store_inv (as_store st)" "env_max_active_jobs env = Some m"
    and "Suc (fh_activeJobs (fs_health (as_store st))) = m"
    and "reserve_admission env io1 header1 r1 st = (None, st1)"
    and "reserve_admission env io2 header2 r2 st1 = (None, st2)"
    and "rr_traceId r1 \<noteq> rr_traceId r2"
    and "get_job (rr_traceId r1) (as_store st) = None" "get_job (rr_traceId r2) (as_store st) = None"
    and "requested_fingerprint ser r1 \<noteq> None" "requested_fingerprint ser r2 \<noteq> None"
  shows "active_job_count (fs_jobs (as_store
      (snd (reserve_commit ser bench io2 r2 (snd (reserve_commit ser bench io1 r1 st2)))))) = Suc m"
proof -
  have "fs_jobs (as_store st2) = fs_jobs (as_store st)"
    using admission_jobs [of env io1 header1 r1 st] admission_jobs [of env io2 header2 r2 st1]
      assms(4,5) by simp
  then have shapes: "job_shapes (as_store st2) = job_shapes (as_store st)"
    by (simp add: job_shapes_def)
  let ?mid = "snd (reserve_commit ser bench io1 r1 st2)"
  have mid: "job_shapes (as_store ?mid) = job_shapes (as_store st) @ [(rr_traceId r1, JReserved)]"
    using new_reserve_shapes [of r1 st2 ser bench io1] assms(7,9) shapes
    by (simp add: get_job_shapes)
  have "job_shapes (as_store (snd (reserve_commit ser bench io2 r2 ?mid)))
      = job_shapes (as_store st) @ [(rr_traceId r1, JReserved), (rr_traceId r2, JReserved)]"
    using new_reserve_shapes [of r2 ?mid ser bench io2] assms(6,8,10) mid
    by (simp add: get_job_shapes)
  then show ?thesis
    using assms(1,3) by (simp add: active_shapes store_inv_def counts_ok_def)
qed

section \<open>Timing totals\<close>

lemma fold_sat_add:
  "unat (fold (\<lambda>value total. sat_add total value) vs (t :: u128))
     = min (2 ^ 128 - 1) (unat t + sum_list (map unat vs))"
proof (induction vs arbitrary: t)
  case Nil
  have "unat t < 2 ^ LENGTH(128)" by (rule unsigned_less)
  then show ?case by simp
next
  case (Cons v vs)
  then show ?case by (simp add: unat_sat_add min_def)
qed

text \<open>
  A total of a job is absent exactly when none of its actions has the time, and else is
  the sum of the times present, capped at the largest 128-bit number; whatever order the
  actions are added up in.
\<close>

theorem timing_totals_are_capped_sums:
  "jt_submitMs (fj_timings (refresh_follow_job_timing_rollups bench job)) =
     (let times = List.map_filter (\<lambda>a. at_submitMs (fa_timings a)) (fj_actions job)
      in if times = [] then None
         else Some (of_nat (min (2 ^ 128 - 1) (sum_list (map unat times)))))"
proof -
  have present: "List.map_filter (\<lambda>v. v) (map f xs) = List.map_filter f xs"
    for f :: "follow_action_record \<Rightarrow> u128 option" and xs
    by (induction xs) (simp_all add: List.map_filter_simps split: option.split)
  have capped: "fold (\<lambda>value total. sat_add total value) vs 0
      = (of_nat (min (2 ^ 128 - 1) (sum_list (map unat vs))) :: u128)" for vs :: "u128 list"
  proof -
    have "w = of_nat (unat w)" for w :: u128 by simp
    from this [of "fold (\<lambda>value total. sat_add total value) vs 0"] show ?thesis
      unfolding fold_sat_add [of vs 0] unsigned_0 add_0 .
  qed
  show ?thesis
    by (simp add: refresh_follow_job_timing_rollups_def sum_follow_times_def present capped Let_def)
qed

section \<open>Examples\<close>

definition sample_env :: follow_env where
  "sample_env = \<lparr>env_auth = None, env_max_active_jobs = Some 1, env_max_concurrent_compiles = None,
     env_max_concurrent_sends = None, env_sniper_autosell = None,
     env_watch_endpoints = (\<lambda>_ _. []), env_prefers_helius = (\<lambda>_. False)\<rparr>"

definition sample_io :: request_io where
  "sample_io = \<lparr>io_clock = (\<lambda>_. 10), io_persist = (\<lambda>_. None), io_compile_slots = None,
     io_send_slots = None, io_validate = (\<lambda>_. None), io_precheck = (\<lambda>_ _. None), io_elapsed = 5\<rparr>"

definition sample_app :: app_state where
  "sample_app = \<lparr>as_store = sample_start, as_active_jobs = [],
     as_watch_endpoint_health = (\<lambda>_. None), as_wallet_precheck_cache = (\<lambda>_. None)\<rparr>"

definition plain_reserve :: "string \<Rightarrow> follow_reserve_request" where
  "plain_reserve t = sample_reserve\<lparr>rr_traceId := t,
     rr_followLaunch := sample_launch\<lparr>nl_snipes := []\<rparr>\<rparr>"

lemma plain_reserve_simps [simp]:
  "rr_traceId (plain_reserve t) = t" "rr_followLaunch (plain_reserve t) = sample_launch\<lparr>nl_snipes := []\<rparr>"
  by (simp_all add: plain_reserve_def)

lemma sample_app_simps [simp]:
  "as_store sample_app = sample_start" "env_max_active_jobs sample_env = Some 1"
  by (simp_all add: sample_app_def sample_env_def)

lemma sample_start_inv: "store_inv sample_start"
  unfolding sample_start_def by (rule default_state_inv)

lemma plain_admitted: "reserve_admission sample_env io header (plain_reserve t) sample_app = (None, sample_app)"
  by (simp add: reserve_admission_def authorize_def sample_env_def autosell_gated_def
      sniper_autosell_requested_def ensure_follow_request_prerequisites_def ready_request_of_def
      requires_realtime_watchers_def run_launch_gate_prechecks_def sample_launch_def
      has_capacity_for_new_job_def Let_def)
    (simp add: sample_start_def default_state_def)

lemma plain_fingerprint: "requested_fingerprint sample_serde (plain_reserve t) \<noteq> None"
  by (simp add: requested_fingerprint_def stable_reserve_payload_fingerprint_def sample_serde_def)

lemma sample_start_idle [simp]: "fh_activeJobs (fs_health sample_start) = 0"
  by (simp add: sample_start_def default_state_def)

theorem overlapping_reserves_exceed_capacity_witness:
  "active_job_count (fs_jobs (as_store
      (snd (reserve_commit sample_serde ''off'' sample_io (plain_reserve ''b'')
        (snd (reserve_commit sample_serde ''off'' sample_io (plain_reserve ''a'') sample_app)))))) = 2"
  using overlapping_reserves_exceed_capacity [OF _ _ _ plain_admitted plain_admitted,
      of 1 "''a''" "''b''" sample_serde "''off''" sample_io sample_io]
    sample_start_inv plain_fingerprint by simp

theorem served_requests_respect_capacity_witness:
  "fh_activeJobs (fs_health (as_store (serve_all sample_serde ''off'' sample_env
      [(sample_io, None, Reserve_Request (plain_reserve ''a'')),
       (sample_io, None, Reserve_Request (plain_reserve ''b''))] sample_app))) \<le> 1"
proof -
  have "follow_reachable sample_serde ''0.1.0'' (as_store sample_app)"
    unfolding sample_app_simps sample_start_def by (rule follow_reachable.fresh)
  from served_requests_respect_capacity [OF this, of sample_env 1] show ?thesis by simp
qed


end
