(* ===== verification/Follow_Batches.thy ===== *)
theory Follow_Batches
  imports Follow_Run Follow_Triggers Follow_Requests
begin

text \<open>
  The execution of a batch of actions (\<^verbatim>\<open>run_action_batch_task\<close> and
  \<^verbatim>\<open>wait_for_batch_action_eligibility\<close>) up to the attempts of its members, and the
  execution settings and presigned transactions of an action.
\<close>

section \<open>Settings of an action\<close>

definition follow_action_execution ::
  "follow_job_record \<Rightarrow> follow_action_record \<Rightarrow> normalized_execution" where
  "follow_action_execution job a =
     (let e = fj_execution job
      in case fa_kind a of
           SniperBuy \<Rightarrow>
             e\<lparr>ne_provider := ne_buyProvider e, ne_endpointProfile := ne_buyEndpointProfile e,
               ne_mevProtect := ne_buyMevProtect e, ne_mevMode := ne_buyMevMode e,
               ne_jitodontfront := ne_buyJitodontfront e\<rparr>
         | _ \<Rightarrow>
             e\<lparr>ne_provider := ne_sellProvider e, ne_endpointProfile := ne_sellEndpointProfile e,
               ne_mevProtect := ne_sellMevProtect e, ne_mevMode := ne_sellMevMode e,
               ne_jitodontfront := ne_sellJitodontfront e\<rparr>)"

fun follow_action_kind_label :: "follow_action_kind \<Rightarrow> string" where
  "follow_action_kind_label SniperBuy = ''sniper buy''"
| "follow_action_kind_label DevAutoSell = ''dev autosell''"
| "follow_action_kind_label SniperSell = ''sniper sell''"

text \<open>\<open>build_transport_plan\<close> is the transport crate's choice for settings and a count.\<close>

definition follow_action_transport_plan ::
  "(normalized_execution \<Rightarrow> nat \<Rightarrow> transport_plan) \<Rightarrow> follow_job_record \<Rightarrow> follow_action_record
     \<Rightarrow> transport_plan" where
  "follow_action_transport_plan build_transport_plan job a =
     build_transport_plan (follow_action_execution job a) 1"

definition validate_follow_transport_for_batch ::
  "transport_plan \<Rightarrow> bool \<Rightarrow> nat \<Rightarrow> string option" where
  "validate_follow_transport_for_batch plan requires_ordered_execution transaction_count =
     (if \<not> requires_ordered_execution \<or> transaction_count \<le> 1 then None
      else if tp_executionClass plan = ''bundle'' \<or> tp_ordering plan = ''bundle'' then None
      else Some (''Dependent follow action execution requires bundle transport, but ''
        @ tp_requestedProvider plan @ '' resolved to '' @ tp_transportType plan
        @ '' (class='' @ tp_executionClass plan @ '', ordering='' @ tp_ordering plan @ '').''))"

definition primary_follow_submission :: "'a list \<Rightarrow> nat \<Rightarrow> string + 'a" where
  "primary_follow_submission submitted primary_tx_index =
     (if primary_tx_index < length submitted then Inr (submitted ! primary_tx_index)
      else Inl ''Follow daemon primary transaction was missing.'')"

definition presigned_primary_tx_index :: "follow_action_record \<Rightarrow> string + nat" where
  "presigned_primary_tx_index a =
     (let txs = fa_preSignedTransactions a
      in if txs = [] then Inl ''Pre-signed follow action was missing transactions.''
         else let primary_tx_index = unwrap_or (length txs - 1) (fa_primaryTxIndex a)
              in if length txs \<le> primary_tx_index
                 then Inl (''Pre-signed follow action '' @ fa_actionId a
                        @ '' declared primaryTxIndex '' @ show_nat primary_tx_index
                        @ '' for only '' @ show_nat (length txs) @ '' transactions.'')
                 else Inr primary_tx_index)"

section \<open>Waiting for a batch\<close>

text \<open>
  The waits of a batch with a sniper sell run side by side; a completion is the time, the
  action and the result, in the order they are joined. After the first success the others have
  150 milliseconds; who is not done by then is left pending.
\<close>

type_synonym completion = "nat \<times> string \<times> (string + eligibility_timing)"

definition eligibility_drain_ms :: nat where "eligibility_drain_ms = 150"

fun joined_completions :: "nat option \<Rightarrow> completion list \<Rightarrow> completion list" where
  "joined_completions deadline [] = []"
| "joined_completions (Some deadline) ((at, i, r) # cs) =
     (if deadline < at then [] else (at, i, r) # joined_completions (Some deadline) cs)"
| "joined_completions None ((at, i, r) # cs) =
     (at, i, r) # joined_completions
       (case r of Inr _ \<Rightarrow> Some (at + eligibility_drain_ms) | Inl _ \<Rightarrow> None) cs"

definition batch_eligible :: "completion list \<Rightarrow> (string \<times> eligibility_timing) list" where
  "batch_eligible cs = List.map_filter
     (\<lambda>(_, i, r). case r of Inr t \<Rightarrow> Some (i, t) | Inl _ \<Rightarrow> None) (joined_completions None cs)"

definition batch_errors :: "completion list \<Rightarrow> (string \<times> string) list" where
  "batch_errors cs = List.map_filter
     (\<lambda>(_, i, r). case r of Inr _ \<Rightarrow> None | Inl e \<Rightarrow> Some (i, e)) (joined_completions None cs)"

definition batch_pending :: "completion list \<Rightarrow> string list \<Rightarrow> string list" where
  "batch_pending cs ids =
     filter (\<lambda>i. i \<notin> (\<lambda>(_, i, _). i) ` set (joined_completions None cs)) ids"

section \<open>Recording\<close>

text \<open>The updates of a task, with one clock reading \<open>now\<close> for all of them.\<close>

definition set_action ::
  "u128 \<Rightarrow> string \<Rightarrow> (follow_action_record \<Rightarrow> follow_action_record) \<Rightarrow> follow_job_record
     \<Rightarrow> follow_job_record" where
  "set_action now i f job =
     (if list_ex (has_action i) (fj_actions job)
      then job\<lparr>fj_actions := update_first (has_action i) f (fj_actions job), fj_updatedAtMs := now\<rparr>
      else job)"

definition record_action_failure ::
  "u128 \<Rightarrow> string \<Rightarrow> string \<Rightarrow> follow_job_record \<Rightarrow> follow_job_record" where
  "record_action_failure now i error =
     set_action now i (\<lambda>a. a\<lparr>fa_state := AFailed, fa_lastError := Some error\<rparr>)"

definition record_action_expired ::
  "u128 \<Rightarrow> string \<Rightarrow> string \<Rightarrow> follow_job_record \<Rightarrow> follow_job_record" where
  "record_action_expired now i reason =
     set_action now i (\<lambda>a. a\<lparr>fa_state := AExpired, fa_lastError := Some reason\<rparr>)"

definition record_action_stopped ::
  "u128 \<Rightarrow> string \<Rightarrow> string option \<Rightarrow> follow_job_record \<Rightarrow> follow_job_record" where
  "record_action_stopped now i reason =
     set_action now i (\<lambda>a. a\<lparr>fa_state := AStopped,
                         fa_lastError := normalized_stopped_action_reason reason\<rparr>)"

definition record_wait_error ::
  "u128 \<Rightarrow> string \<times> string \<Rightarrow> follow_job_record \<Rightarrow> follow_job_record" where
  "record_wait_error now = (\<lambda>(i, error).
     if is_stopped_action_error error
     then record_action_stopped now i (normalized_stopped_action_reason (Some error))
     else if is_expired_action_error error then record_action_expired now i error
     else record_action_failure now i error)"

definition mark_eligible ::
  "string \<Rightarrow> transport_plan \<Rightarrow> u128 \<Rightarrow> eligibility_timing \<Rightarrow> string \<Rightarrow> follow_job_record
     \<Rightarrow> follow_job_record" where
  "mark_eligible bench plan now t i job =
     (refresh_follow_job_timing_rollups bench
       (set_action now i (\<lambda>a. a\<lparr>fa_state := AEligible, fa_provider := Some (tp_resolvedProvider plan),
          fa_endpointProfile := Some (tp_resolvedEndpointProfile plan),
          fa_transportType := Some (tp_transportType plan),
          fa_eligibilityObservedSlot := et_observed_slot t,
          fa_eligibleAtMs := Some now,
          fa_timings := (fa_timings a)\<lparr>at_watcherWaitMs := Some (et_watcher_wait_ms t),
                                       at_eligibilityMs := Some (et_total_ms t)\<rparr>\<rparr>) job))
       \<lparr>fj_updatedAtMs := now\<rparr>"

section \<open>Running a batch\<close>

definition batch_members :: "string list \<Rightarrow> follow_job_record \<Rightarrow> follow_action_record list" where
  "batch_members ids job =
     sort_key action_group_sort_key (filter (\<lambda>a. fa_actionId a \<in> set ids) (fj_actions job))"

definition mark_batch ::
  "string \<Rightarrow> (normalized_execution \<Rightarrow> nat \<Rightarrow> transport_plan) \<Rightarrow> u128 \<Rightarrow> follow_job_record
     \<Rightarrow> (string \<times> eligibility_timing) list \<Rightarrow> follow_action_record list \<Rightarrow> follow_job_record
     \<Rightarrow> follow_job_record" where
  "mark_batch bench build now started eligible =
     fold (\<lambda>a job. case map_of eligible (fa_actionId a) of
              Some t \<Rightarrow> mark_eligible bench (follow_action_transport_plan build started a) now t
                          (fa_actionId a) job
            | None \<Rightarrow> job)"

text \<open>
  \<open>started\<close> is the job the task read when it started, \<open>stored\<close> the job in the store
  when the waiting is over, \<open>lead\<close> the result of the wait of the first member and
  \<open>completions\<close> those of all members. The result is the stored job, the actions whose
  execution is started, in this order, and the error of the task.
\<close>

definition run_action_batch_task ::
  "string \<Rightarrow> (normalized_execution \<Rightarrow> nat \<Rightarrow> transport_plan) \<Rightarrow> u128 \<Rightarrow> string + eligibility_timing
     \<Rightarrow> completion list \<Rightarrow> string list \<Rightarrow> follow_job_record \<Rightarrow> follow_job_record
     \<Rightarrow> follow_job_record \<times> string list \<times> string option" where
  "run_action_batch_task bench build now lead completions ids started stored =
     (let actions = batch_members ids started
      in if actions = [] then (stored, [], None)
         else if list_ex (\<lambda>a. fa_kind a = SniperSell) actions
         then let stored = fold (record_wait_error now) (batch_errors completions) stored;
                  eligible = batch_eligible completions;
                  pending = batch_pending completions (map fa_actionId actions);
                  retained = filter (\<lambda>a. map_of eligible (fa_actionId a) \<noteq> None) actions
              in (mark_batch bench build now started eligible retained stored,
                  map fa_actionId retained @ pending, None)
         else case lead of
                Inl error \<Rightarrow>
                  (fold (\<lambda>a. record_action_failure now (fa_actionId a) error) actions stored, [], Some error)
              | Inr t \<Rightarrow>
                  (mark_batch bench build now started (map (\<lambda>a. (fa_actionId a, t)) actions) actions stored,
                   map fa_actionId actions, None))"

section \<open>Marking\<close>

lemma find_set_action:
  assumes "\<And>a. fa_actionId (f a) = fa_actionId a"
  shows "find_action i (set_action now j f job)
     = (if i = j then map_option f (find_action i job) else find_action i job)"
proof (cases "list_ex (has_action j) (fj_actions job)")
  case True
  then show ?thesis
    using assms by (auto simp: find_action_def set_action_def has_action_def
        intro!: find_update_first find_update_first_other)
next
  case False
  then have "find_action j job = None"
    by (simp add: find_action_def find_None_iff list_ex_iff)
  then show ?thesis using False by (auto simp: set_action_def)
qed

lemma rollups_actions [simp]:
  "fj_actions (refresh_follow_job_timing_rollups bench job) = fj_actions job"
  by (simp add: refresh_follow_job_timing_rollups_def Let_def)

lemma find_mark_eligible:
  "find_action i (mark_eligible bench plan now t j job)
     = (if i = j then map_option (\<lambda>a. a\<lparr>fa_state := AEligible, fa_provider := Some (tp_resolvedProvider plan),
          fa_endpointProfile := Some (tp_resolvedEndpointProfile plan),
          fa_transportType := Some (tp_transportType plan),
          fa_eligibilityObservedSlot := et_observed_slot t,
          fa_eligibleAtMs := Some now,
          fa_timings := (fa_timings a)\<lparr>at_watcherWaitMs := Some (et_watcher_wait_ms t),
                                       at_eligibilityMs := Some (et_total_ms t)\<rparr>\<rparr>) (find_action i job)
        else find_action i job)"
  unfolding mark_eligible_def
  by (subst find_set_action [symmetric]) (simp_all add: find_action_def)

text \<open>What a marked action looks like, whatever it looked like before.\<close>

definition eligible_with :: "eligibility_timing \<Rightarrow> u128 \<Rightarrow> follow_action_record \<Rightarrow> bool" where
  "eligible_with t now a \<longleftrightarrow> fa_state a = AEligible \<and> fa_eligibleAtMs a = Some now
     \<and> fa_eligibilityObservedSlot a = et_observed_slot t"

lemma mark_batch_eligible:
  assumes "map_of eligible i = Some t" "find_action i stored = Some x"
    and "i \<in> fa_actionId ` set actions \<or> eligible_with t now x"
  shows "\<exists>y. find_action i (mark_batch bench build now started eligible actions stored) = Some y
    \<and> eligible_with t now y"
  using assms(2,3)
proof (induction actions arbitrary: stored x)
  case (Cons a actions)
  define next_job where "next_job = (case map_of eligible (fa_actionId a) of
              Some t \<Rightarrow> mark_eligible bench (follow_action_transport_plan build started a) now t
                          (fa_actionId a) stored
            | None \<Rightarrow> stored)"
  have "\<exists>y. find_action i next_job = Some y
      \<and> (i \<in> fa_actionId ` set actions \<or> eligible_with t now y)"
    using Cons.prems assms(1)
    by (cases "fa_actionId a = i")
      (auto simp: next_job_def find_mark_eligible eligible_with_def split: option.split)
  then obtain y where "find_action i next_job = Some y"
    "i \<in> fa_actionId ` set actions \<or> eligible_with t now y" by blast
  from Cons.IH [OF this] show ?case by (simp add: mark_batch_def next_job_def)
qed (simp add: mark_batch_def)

section \<open>The members of a batch\<close>

lemma batch_members_set: "set (batch_members ids job) = {a \<in> set (fj_actions job). fa_actionId a \<in> set ids}"
  by (auto simp: batch_members_def)

lemma batch_members_distinct:
  "distinct (map fa_actionId (fj_actions job)) \<Longrightarrow> distinct (map fa_actionId (batch_members ids job))"
proof -
  assume "distinct (map fa_actionId (fj_actions job))"
  then have "distinct (map fa_actionId (filter (\<lambda>a. fa_actionId a \<in> set ids) (fj_actions job)))"
    by (rule distinct_map_filter)
  moreover have "mset (map fa_actionId (batch_members ids job))
      = mset (map fa_actionId (filter (\<lambda>a. fa_actionId a \<in> set ids) (fj_actions job)))"
    by (simp add: batch_members_def)
  ultimately show ?thesis using mset_eq_imp_distinct_iff by blast
qed

lemma map_of_const: "a \<in> set xs \<Longrightarrow> map_of (map (\<lambda>a. (f a, t)) xs) (f a) = Some t"
  by (induction xs) auto

text \<open>
  A batch without a sniper sell waits for its first member only. When that wait succeeds,
  every member becomes eligible with the timing of the first and is executed: also one that
  was cancelled during the wait, and one whose own scheduled time is still to come.
\<close>

theorem batch_followers_take_lead_trigger:
  assumes "\<not> list_ex (\<lambda>a. fa_kind a = SniperSell) (batch_members ids started)"
    and "a \<in> set (batch_members ids started)"
    and "find_action (fa_actionId a) stored = Some current"
    and "run_action_batch_task bench build now (Inr t) completions ids started stored
           = (stored', executed, result)"
  shows "fa_actionId a \<in> set executed \<and> result = None
    \<and> (\<exists>y. find_action (fa_actionId a) stored' = Some y \<and> fa_state y = AEligible
          \<and> fa_eligibleAtMs y = Some now \<and> fa_eligibilityObservedSlot y = et_observed_slot t
          \<and> \<not> action_settled (fa_state y))"
proof -
  let ?actions = "batch_members ids started"
  let ?eligible = "map (\<lambda>a. (fa_actionId a, t)) ?actions"
  have "?actions \<noteq> []" using assms(2) by auto
  then have run: "stored' = mark_batch bench build now started ?eligible ?actions stored"
    "executed = map fa_actionId ?actions" "result = None"
    using assms(1,4) by (auto simp: run_action_batch_task_def Let_def)
  have "map_of ?eligible (fa_actionId a) = Some t"
    using assms(2) by (rule map_of_const)
  from mark_batch_eligible [OF this assms(3)]
  obtain y where "find_action (fa_actionId a) stored' = Some y" "eligible_with t now y"
    using assms(2) run(1) by blast
  then show ?thesis
    using run assms(2) by (auto simp: eligible_with_def action_settled_def)
qed

text \<open>The parts a batch with a sniper sell is divided into.\<close>

abbreviation completion_ids :: "completion list \<Rightarrow> string list" where
  "completion_ids cs \<equiv> map (\<lambda>(_, i, _). i) cs"

lemma joined_prefix: "\<exists>late. cs = joined_completions d cs @ late"
  by (induction d cs rule: joined_completions.induct) auto

lemma joined_ids:
  assumes "distinct (completion_ids cs)"
  shows "distinct (completion_ids (joined_completions d cs))"
    "set (completion_ids (joined_completions d cs)) \<subseteq> set (completion_ids cs)"
proof -
  obtain late where "cs = joined_completions d cs @ late" using joined_prefix by blast
  then have ids: "completion_ids cs = completion_ids (joined_completions d cs) @ completion_ids late"
    by (metis map_append)
  show "distinct (completion_ids (joined_completions d cs))" using assms ids by simp
  show "set (completion_ids (joined_completions d cs)) \<subseteq> set (completion_ids cs)" using ids by simp
qed

lemma eligible_ids:
  "fst ` set (batch_eligible cs) = {i. \<exists>at t. (at, i, Inr t) \<in> set (joined_completions None cs)}"
  by (force simp: batch_eligible_def List.map_filter_def image_iff split: sum.splits)

lemma error_ids:
  "fst ` set (batch_errors cs) = {i. \<exists>at e. (at, i, Inl e) \<in> set (joined_completions None cs)}"
  by (force simp: batch_errors_def List.map_filter_def image_iff split: sum.splits)

lemma ids_of_results:
  "{i. \<exists>at t. (at, i, Inr t) \<in> J} \<union> {i. \<exists>at e. (at, i, Inl e) \<in> J} = (\<lambda>(_, i, _). i) ` J"
proof (intro equalityI subsetI)
  fix i assume "i \<in> (\<lambda>(_, i, _). i) ` J"
  then obtain at r where "(at, i, r) \<in> J" by auto
  then show "i \<in> {i. \<exists>at t. (at, i, Inr t) \<in> J} \<union> {i. \<exists>at e. (at, i, Inl e) \<in> J}"
    by (cases r) auto
qed force

lemma eligible_or_error:
  assumes "distinct (completion_ids cs)"
  shows "fst ` set (batch_eligible cs) \<inter> fst ` set (batch_errors cs) = {}"
    "fst ` set (batch_eligible cs) \<union> fst ` set (batch_errors cs)
       = set (completion_ids (joined_completions None cs))"
proof -
  have "inj_on (\<lambda>(_, i, _). i) (set (joined_completions None cs))"
    using joined_ids(1) [OF assms] by (simp add: distinct_map)
  then have same: "r = r'"
    if "(at, i, r) \<in> set (joined_completions None cs)" "(at', i, r') \<in> set (joined_completions None cs)"
    for at at' i r r'
    using inj_onD [where f = "\<lambda>(_, i, _). i", OF _ _ that] by simp
  show "fst ` set (batch_eligible cs) \<inter> fst ` set (batch_errors cs) = {}"
    unfolding eligible_ids error_ids using same [of _ _ "Inr _" _ "Inl _"] by blast
  show "fst ` set (batch_eligible cs) \<union> fst ` set (batch_errors cs)
       = set (completion_ids (joined_completions None cs))"
    unfolding eligible_ids error_ids set_map by (rule ids_of_results)
qed

lemma split_members:
  assumes "E \<inter> R = {}" "E \<union> R = J" "J \<subseteq> C" "C \<subseteq> I"
  shows "(I \<inter> E \<union> (I - J)) \<inter> R = {}" "(I \<inter> E \<union> (I - J)) \<union> R = I"
  using assms by blast+


section \<open>Examples\<close>

definition sample_timing :: eligibility_timing where
  "sample_timing = \<lparr>et_watcher_wait_ms = 3, et_total_ms = 4, et_observed_slot = Some 102\<rparr>"

definition sample_job_buy_cancelled :: follow_job_record where
  "sample_job_buy_cancelled
     = set_action 30 ''buy'' (\<lambda>a. a\<lparr>fa_state := ACancelled\<rparr>) sample_job"

lemma sample_members:
  "batch_members [''buy''] sample_job = [armed_buy]" "batch_members [''sell''] sample_job = [armed_sell]"
  by (simp_all add: batch_members_def sample_job_parts)

theorem batch_followers_take_lead_trigger_witness:
  "fa_state (the (find_action ''buy'' sample_job_buy_cancelled)) = ACancelled
   \<and> (\<exists>y. find_action ''buy'' (fst (run_action_batch_task ''off'' (\<lambda>_ _. sample_plan) 40 (Inr sample_timing) []
        [''buy''] sample_job sample_job_buy_cancelled)) = Some y \<and> fa_state y = AEligible)"
proof -
  have buy: "find_action ''buy'' sample_job_buy_cancelled = Some (armed_buy\<lparr>fa_state := ACancelled\<rparr>)"
    unfolding sample_job_buy_cancelled_def
    by (subst find_set_action) (simp_all add: find_action_def sample_job_parts has_action_def)
  obtain stored' executed result where run: "run_action_batch_task ''off'' (\<lambda>_ _. sample_plan) 40
      (Inr sample_timing) [] [''buy''] sample_job sample_job_buy_cancelled = (stored', executed, result)"
    by (rule prod_cases3)
  show ?thesis
    using batch_followers_take_lead_trigger [OF _ _ _ run, of armed_buy] buy run
    by (auto simp: sample_members)
qed


end
