(* ===== verification/Follow_Persist.thy ===== *)
theory Follow_Persist
  imports Follow_Store
begin

text \<open>
  Writing the state file of the follow store (\<^verbatim>\<open>FollowDaemonStore::persist\<close>): the retry
  loop over the outcomes of the atomic replacement of the file, and what concurrent persists
  leave in the file, since a persist takes its copy of the state before it takes the lock.
\<close>

section \<open>The retry loop\<close>

datatype io_error_kind = Kind_Interrupted | Kind_Would_Block | Kind_Permission_Denied | Kind_Other

record io_error =
  raw_os_error :: "nat option"
  error_kind :: io_error_kind
  error_text :: string

definition is_retryable_persist_error :: "io_error \<Rightarrow> bool" where
  "is_retryable_persist_error e \<longleftrightarrow>
     raw_os_error e \<in> {Some 5, Some 32, Some 33, Some 1224}
     \<or> error_kind e \<in> {Kind_Interrupted, Kind_Would_Block, Kind_Permission_Denied}"

text \<open>\<^verbatim>\<open>std::io::Error::other\<close>: no error code and the kind \<^verbatim>\<open>Other\<close>.\<close>

definition io_error_other :: "string \<Rightarrow> io_error" where
  "io_error_other text = \<lparr>raw_os_error = None, error_kind = Kind_Other, error_text = text\<rparr>"

text \<open>
  The loop from attempt \<open>n\<close> on; \<open>write k\<close> is the outcome of the \<open>k\<close>th
  \<^verbatim>\<open>atomic_write\<close>. The result is the number of writes made and the error.
\<close>

function persist_loop :: "(nat \<Rightarrow> string option) \<Rightarrow> nat \<Rightarrow> string option \<Rightarrow> nat \<times> string option" where
  "persist_loop write n last_error =
     (if 5 \<le> n then (n, Some (unwrap_or ''Failed to persist follow daemon state.'' last_error))
      else case write n of
             None \<Rightarrow> (Suc n, None)
           | Some error \<Rightarrow>
               if is_retryable_persist_error (io_error_other error) \<and> n < 4
               then persist_loop write (Suc n) (Some error)
               else (Suc n, Some error))"
  by pat_completeness auto

termination by (relation "measure (\<lambda>(write, n, e). 5 - n)") auto

declare persist_loop.simps [simp del]

text \<open>
  The error of the write is text by the time it is classified, so no error is ever retried: a
  persist makes one write and returns its outcome.
\<close>

lemma persist_writes_once: "persist_loop write 0 None = (1, write 0)"
  by (subst persist_loop.simps)
    (simp add: is_retryable_persist_error_def io_error_other_def split: option.split)

section \<open>Concurrent persists\<close>

text \<open>
  The store as the operations see it: the state in memory, the copies taken by persists that
  wait for the lock, and the content of the file. An operation changes the state; its persist
  copies it and later writes the copy. The lock only serialises the writes.
\<close>

record 's persisted =
  memory :: 's
  waiting :: "'s list"
  state_file :: 's

inductive persist_step :: "'s persisted \<Rightarrow> 's persisted \<Rightarrow> bool" where
  change: "persist_step p (p\<lparr>memory := s\<rparr>)"
| copy: "persist_step p (p\<lparr>waiting := waiting p @ [memory p]\<rparr>)"
| write_copy: "i < length (waiting p)
    \<Longrightarrow> persist_step p (p\<lparr>state_file := waiting p ! i,
          waiting := take i (waiting p) @ drop (Suc i) (waiting p)\<rparr>)"

inductive_simps persist_step_iff: "persist_step p q"

text \<open>When every waiting copy is of the current state, the last write leaves the current state.\<close>

lemma last_write_is_current:
  assumes "persist_step p q" "memory q = memory p" "\<forall>c \<in> set (waiting p). c = memory p"
    and "state_file p = memory p \<or> waiting p \<noteq> []"
  shows "state_file q = memory q \<or> waiting q \<noteq> []" "\<forall>c \<in> set (waiting q). c = memory q"
  using assms by (auto simp: persist_step_iff dest!: in_set_takeD in_set_dropD)

text \<open>
  But two persists that overlap may write in the other order: both states have been copied and
  written, nothing is waiting, and the file holds the older one.
\<close>

lemma overlapping_persists_leave_older_state:
  "persist_step\<^sup>*\<^sup>* \<lparr>memory = 0, waiting = [], state_file = 0\<rparr>
     \<lparr>memory = (2::nat), waiting = [], state_file = 1\<rparr>"
proof -
  let ?p = "\<lambda>m w f. \<lparr>memory = m, waiting = w, state_file = f\<rparr> :: nat persisted"
  have "persist_step (?p 0 [] 0) (?p 1 [] 0)" "persist_step (?p 1 [] 0) (?p 1 [1] 0)"
    "persist_step (?p 1 [1] 0) (?p 2 [1] 0)" "persist_step (?p 2 [1] 0) (?p 2 [1, 2] 0)"
    using change [of "?p 0 [] 0" 1] copy [of "?p 1 [] 0"] change [of "?p 1 [1] 0" 2]
      copy [of "?p 2 [1] 0"] by simp_all
  moreover have "persist_step (?p 2 [1, 2] 0) (?p 2 [1] 2)" "persist_step (?p 2 [1] 2) (?p 2 [] 1)"
    using write_copy [of 1 "?p 2 [1, 2] 0"] write_copy [of 0 "?p 2 [1] 2"] by simp_all
  ultimately show ?thesis by (meson converse_rtranclp_into_rtranclp rtranclp.rtrancl_refl)
qed

end
