(* ===== verification/Spec2Isabelle.thy ===== *)
theory Spec2Isabelle
  imports Journal_Files Wrapper_Payload Fee_Cache Raydium_Amm_V4 Venue_Texts Pump_Trades Wrapper_Safety
    Follow_Batches Follow_Persist
begin

text \<open>
  A verification library for the core logic of the Trench Tools engines, the Rust programs
  under \<^verbatim>\<open>src/rust\<close> that trade tokens and follow token launches.

  \<^bold>\<open>The program.\<close> The execution engine (\<^verbatim>\<open>execution-engine\<close>) compiles and sends trades
  and keeps the books: every confirmed trade is a line of a journal and a change of the trade
  ledger, from which profit and loss are shown. The launch engine (\<^verbatim>\<open>launchdeck-engine\<close>)
  creates tokens and hands what happens after the launch (buys, sells, a deferred setup) to the
  follow daemon (\<^verbatim>\<open>bin/launchdeck-follow-daemon.rs\<close>), which keeps its jobs in the follow
  store (\<^verbatim>\<open>follow/store.rs\<close>) and runs each job's actions when their triggers fire. The crate
  \<^verbatim>\<open>shared-raydium-launchlab\<close> holds the curve mathematics of the LaunchLab venue.

  \<^bold>\<open>Theories of the trading side.\<close>
  \<^item> \<^verbatim>\<open>Trench_Prelude\<close>: words with saturating and checked operations, results, text, sorting.
    \<^verbatim>\<open>Byte_Codec\<close>: little-endian encodings and the codec contract (locale).
  \<^item> \<^verbatim>\<open>Trade_Ledger\<close>, \<^verbatim>\<open>Ledger_Journal\<close>, \<^verbatim>\<open>Journal_Files\<close> (\<^verbatim>\<open>trade_ledger.rs\<close>): the
    ledger and its operations; the journal entries, their replay order and the rebuild of the
    ledger; segments, snapshots and their files. Lemmas: first-in-first-out accounting,
    conservation, resets; the rebuild accounts for every lamport, follows the live ledger and
    depends on nothing but the set of entries; round trips through the files and crashes between
    them.
  \<^item> \<^verbatim>\<open>Launchlab_Curve\<close>, \<^verbatim>\<open>Launchlab_Accounts\<close> (\<^verbatim>\<open>shared-raydium-launchlab\<close>): fees, the
    integer square root, the three curves and the four quotes, account decoders and swap
    instructions. Lemmas: an exact-output quote suffices, quotes are monotone, when they panic;
    instruction and account layouts.
  \<^item> \<^verbatim>\<open>Sell_Sizing\<close>, \<^verbatim>\<open>Sol_Amounts\<close>, \<^verbatim>\<open>Trade_Planner\<close>, \<^verbatim>\<open>Wrapper_Abi\<close>,
    \<^verbatim>\<open>Wrapper_Payload\<close> (the files of the same names, \<^verbatim>\<open>wrapper_payload.rs\<close> and
    \<^verbatim>\<open>rollout.rs\<close> for the amounts): the binary search for a sell of a given value, decimal
    amounts and fee tiers, trade selectors, the wrapper program's instructions and the payload
    and fee of a trade.

  \<^item> \<^verbatim>\<open>Provider_Tips\<close>, \<^verbatim>\<open>Fee_Resolution\<close>, \<^verbatim>\<open>Fee_Cache\<close> (\<^verbatim>\<open>shared-execution-routing\<close>,
    \<^verbatim>\<open>shared-fee-market\<close>): tip accounts and minimum tips; the automatic fees of a trade; the
    cache file several processes share, their leases and updates. Lemmas: fees stay under the
    user's cap, a fresh status has values (every update keeps the contract of the locale
    \<open>sound_updater\<close>), leases exclude other owners, what overlapping updates lose.
  \<^item> \<^verbatim>\<open>Constant_Product\<close>, \<^verbatim>\<open>Venue_Runtime\<close>, \<^verbatim>\<open>Venue_Samples\<close>: constant-product
    arithmetic; the readers, limits, tips, instruction builders, sizing and quote cache the venues
    share; the environment of their examples. A venue's quote keeps the contract \<open>pool_quote\<close>
    (monotone, bounded by the reserve), from which the sizing of a sale is proved once.
  \<^item> \<^verbatim>\<open>Raydium_Amm_V4\<close>, \<^verbatim>\<open>Raydium_Cpmm\<close>, \<^verbatim>\<open>Venue_Texts\<close>
    (\<^verbatim>\<open>raydium_amm_v4_native.rs\<close>, \<^verbatim>\<open>raydium_cpmm_native.rs\<close>): two venues from the account
    bytes to the compiled transaction, and the texts both read. Lemmas: a swap keeps the product of
    the reserves, a plan reaches the compiler unchanged, what a compiled trade pays, receives and
    closes, cached quotes are recent, printed fees read back.
  \<^item> \<^verbatim>\<open>Pump_Curve\<close>, \<^verbatim>\<open>Pump_Amm\<close>, \<^verbatim>\<open>Pump_Trades\<close> (\<^verbatim>\<open>pump_native.rs\<close>): the
    venue of Pump tokens before and after their migration: curve and pool accounts, quotes, fee
    tiers, the planner and the compiler. Lemmas: a quoted buy is affordable and keeps the product,
    no round trip gains, the fee tier of a pool, plans lead to the curve or the canonical pool and
    reach the compiler unchanged, what a compiled trade pays, receives and closes.
  \<^item> \<^verbatim>\<open>Wrapper_Compile\<close>, \<^verbatim>\<open>Wrapper_Safety\<close> (\<^verbatim>\<open>wrapper_compile.rs\<close>): rewriting a
    compiled transaction so that its venue instruction runs through the fee-routing program, and
    the check of transactions that are already wrapped. The SDK, Borsh and the token library's
    account creation are fields of \<open>wrap_env\<close>. Lemmas: what is kept of the source, the one
    wrapper call and its fee, the amount of a buy net of the fee, what the check accepts, and that
    it accepts what wrapping produces.

  \<^bold>\<open>Theories of the following side.\<close>
  \<^item> \<^verbatim>\<open>Follow_Types\<close>, \<^verbatim>\<open>Follow_Contract\<close> (\<^verbatim>\<open>follow/contract.rs\<close> and the types it is made
    of): records and enums field by field; trigger keys, action records, payload identities.
  \<^item> \<^verbatim>\<open>Follow_Store\<close>, \<^verbatim>\<open>Follow_Persist\<close> (\<^verbatim>\<open>follow/store.rs\<close>): every operation on the
    stored jobs; writing the state file. \<^verbatim>\<open>Follow_Samples\<close> is the launch the examples use.
  \<^item> \<^verbatim>\<open>Follow_Lifecycle\<close>: the contract of a store operation (locale \<open>store_operation\<close>,
    interpreted on each of them), the step relation of the store and its reachable states.
    Lemmas: counters and trace ids, permanent launch bindings, idempotent reservations, restarts
    that never resend, a stop that leaves nothing live.
  \<^item> \<^verbatim>\<open>Follow_Actions\<close>, \<^verbatim>\<open>Follow_Schedule\<close>, \<^verbatim>\<open>Follow_Triggers\<close>, \<^verbatim>\<open>Follow_Run\<close>,
    \<^verbatim>\<open>Follow_Batches\<close> (the daemon): classified errors and the retry loop; which task of a job
    waits for which; the waits over observed values and the eligibility of an action; batches,
    the deferred setup and the final state; the execution of a batch. Lemmas: the retry loop
    ends, tasks do not wait in a circle (and a job whose tasks do), an action is eligible only
    after its triggers, no action of a job or batch is lost, the setup is tried at most three
    times.
  \<^item> \<^verbatim>\<open>Follow_Requests\<close> (the daemon's HTTP handlers): authorisation, admission, cached
    checks, the handlers over the store and the timing totals. Lemmas: requests are operations
    of the store, respect the capacity when they do not overlap, and change nothing without an
    accepted token.

  \<^bold>\<open>How code becomes definitions.\<close> A struct is a record, an enum a datatype, a machine integer a
  word of its width with the saturating or checked operation of the code written out. An
  operation under a lock is a function from the state to its result and the new state; errors
  are values of a sum or option. What an asynchronous function reads while it waits is a sequence
  of observations, what the network answers an argument. JSON and Borsh serialisation, address
  derivation, base58, environment variables, the clock and the outcome of file writes are
  parameters; the hash maps of the code that are iterated take their order as a parameter. The
  venues take all of these in one record (\<open>venue_env\<close>) with the token program's instruction
  builders (\<open>token_library\<close>), the RPC node's answers and signing; parsing, multiplying
  and rounding 64-bit floats is a parameter too (\<open>f64_ops\<close>).

  \<^bold>\<open>Bounds and loops.\<close> Journal segments are numbered up to 99999, the digits their names have.
  Curve quotes are over unbounded naturals like the \<^verbatim>\<open>BigUint\<close> of the code; printed amounts
  are any 64-bit number of lamports. The sizing loop, the retry loop and the waits are
  \<^theory_text>\<open>partial_function\<close>s, so that not returning is the value \<^verbatim>\<open>None\<close>; the sizing loop always
  returns, the retry loop does with a retry budget below the largest 32-bit number when failed
  attempts are counted. No definition uses fuel, except the repeated stripping of a prefix, which
  takes the length of the text.

  \<^bold>\<open>Not modelled.\<close> The compilation of transactions for the other venues (and the Pump routes of
  tokens quoted in USDC, an argument of the Pump compiler) and the launch of tokens
  (with its own wrapper compiler), the submission of transactions, websocket watchers and the caches that are
  warmed for them, one attempt of an action (\<^verbatim>\<open>execute_action\<close>: the retry loop takes it as an
  argument), reports, configuration files and settings, wallets, the task loops of the fee market, the command
  line tools, the browser extension. Logging, report synchronisation and the watcher metadata an
  action records are left out of the handlers and waits that contain them.
\<close>

end
